(* ===== verification/GoLib.thy ===== *)
theory GoLib
  imports
    Complex_Main
    "HOL-Library.Word"
    "HOL-Library.AList"
    "HOL-Library.Char_ord"
    "HOL-Library.List_Lexorder"
    "HOL-Library.Sublist"
    "HOL-Library.Multiset"
begin

text \<open>
  The prelude: the part of the Go language and of its standard library that the modelled
  code uses, and the lemmas on it that the components share.

  A Go string is a list of bytes (\<^typ>\<open>string\<close>). \<open>strings.TrimSpace\<close>, \<open>strings.ToLower\<close>
  and \<open>strings.EqualFold\<close> are modelled on their ASCII fragment: bytes from 128 on are neither
  space nor letter. String comparison is bytewise lexicographic, which is the order that
  \<open>List_Lexorder\<close> over \<open>Char_ord\<close> gives. A Go map is an association list
  with distinct keys (\<open>AList.update\<close> writes, \<open>map_of\<close> reads). A UUID is its 16 bytes. Instants
  and durations are integers in nanoseconds.
\<close>

named_theorems go_simps "evaluation rules for the string library"
named_theorems sql_split "case rules for database statements"

section \<open>UUIDs, time, machine integers\<close>

type_synonym uuid = "128 word"
type_synonym time = int

abbreviation uuid_Nil :: uuid where
  "uuid_Nil \<equiv> 0"

definition time_Second :: int where
  "time_Second = 1000000000"

definition time_Minute :: int where
  "time_Minute = 60 * time_Second"

definition time_Hour :: int where
  "time_Hour = 60 * time_Minute"

text \<open>An \<open>int64\<close> product wraps around; a \<open>time.Duration\<close> is an \<open>int64\<close> count of nanoseconds.\<close>

definition int64_mult :: "int \<Rightarrow> int \<Rightarrow> int" where
  "int64_mult a b = sint (word_of_int (a * b) :: 64 word)"

lemma int64_mult_range: "- (2 ^ 63) \<le> int64_mult a b \<and> int64_mult a b < 2 ^ 63"
  using sint_greater_eq [of "word_of_int (a * b) :: 64 word"] sint_lt [of "word_of_int (a * b) :: 64 word"]
  by (simp add: int64_mult_def)

lemma int64_mult_exact:
  assumes "- (2 ^ 63) \<le> a * b" and "a * b < 2 ^ 63"
  shows "int64_mult a b = a * b"
  using assms by (simp add: int64_mult_def sint_sbintrunc' signed_take_bit_int_eq_self del: of_int_mult)

section \<open>The package strings\<close>

definition is_space :: "char \<Rightarrow> bool" where
  "is_space c \<longleftrightarrow> c \<in> {CHR 0x09, CHR 0x0A, CHR 0x0B, CHR 0x0C, CHR 0x0D, CHR '' ''}"

definition TrimSpace :: "string \<Rightarrow> string" where
  "TrimSpace s = rev (dropWhile is_space (rev (dropWhile is_space s)))"

definition lower_char :: "char \<Rightarrow> char" where
  "lower_char c = (let n = (of_char c :: nat) in if 65 \<le> n \<and> n \<le> 90 then char_of (n + 32) else c)"

definition upper_char :: "char \<Rightarrow> char" where
  "upper_char c = (let n = (of_char c :: nat) in if 97 \<le> n \<and> n \<le> 122 then char_of (n - 32) else c)"

definition ToLower :: "string \<Rightarrow> string" where
  "ToLower s = map lower_char s"

definition ToUpper :: "string \<Rightarrow> string" where
  "ToUpper s = map upper_char s"

definition EqualFold :: "string \<Rightarrow> string \<Rightarrow> bool" where
  "EqualFold s t \<longleftrightarrow> ToLower s = ToLower t"

abbreviation HasPrefix :: "string \<Rightarrow> string \<Rightarrow> bool" where
  "HasPrefix s p \<equiv> prefix p s"

abbreviation HasSuffix :: "string \<Rightarrow> string \<Rightarrow> bool" where
  "HasSuffix s p \<equiv> suffix p s"

fun Contains :: "string \<Rightarrow> string \<Rightarrow> bool" where
  "Contains [] p = (p = [])"
| "Contains (c # s) p = (prefix p (c # s) \<or> Contains s p)"

definition TrimSuffix :: "string \<Rightarrow> string \<Rightarrow> string" where
  "TrimSuffix s p = (if suffix p s then take (length s - length p) s else s)"

definition TrimPrefix :: "string \<Rightarrow> string \<Rightarrow> string" where
  "TrimPrefix s p = (if prefix p s then drop (length p) s else s)"

text \<open>\<open>strings.Split\<close> and \<open>strings.Cut\<close> with a one-byte separator, \<open>strings.LastIndex\<close> of one byte.\<close>

fun Split :: "string \<Rightarrow> char \<Rightarrow> string list" where
  "Split [] c = [[]]"
| "Split (x # xs) c =
     (if x = c then [] # Split xs c
      else (case Split xs c of [] \<Rightarrow> [[x]] | y # ys \<Rightarrow> (x # y) # ys))"

fun Cut :: "string \<Rightarrow> char \<Rightarrow> (string \<times> string) option" where
  "Cut [] c = None"
| "Cut (x # xs) c =
     (if x = c then Some ([], xs) else map_option (\<lambda>(a, b). (x # a, b)) (Cut xs c))"

fun LastIndexByte :: "string \<Rightarrow> char \<Rightarrow> nat option" where
  "LastIndexByte [] c = None"
| "LastIndexByte (x # xs) c =
     (case LastIndexByte xs c of
        Some i \<Rightarrow> Some (Suc i)
      | None \<Rightarrow> if x = c then Some 0 else None)"

fun Join :: "string list \<Rightarrow> string \<Rightarrow> string" where
  "Join [] sep = []"
| "Join [s] sep = s"
| "Join (s # t # ss) sep = s @ sep @ Join (t # ss) sep"

text \<open>\<open>strings.Trim\<close> with a cut set and \<open>strings.TrimRight\<close>.\<close>

definition TrimCut :: "string \<Rightarrow> string \<Rightarrow> string" where
  "TrimCut s cs = rev (dropWhile (\<lambda>c. c \<in> set cs) (rev (dropWhile (\<lambda>c. c \<in> set cs) s)))"

definition TrimRight :: "string \<Rightarrow> string \<Rightarrow> string" where
  "TrimRight s cs = rev (dropWhile (\<lambda>c. c \<in> set cs) (rev s))"

text \<open>\<open>strconv.Itoa\<close> and \<open>strconv.Atoi\<close> on unsigned decimal numerals.\<close>

definition digit_char :: "nat \<Rightarrow> char" where
  "digit_char d = char_of (48 + d)"

definition is_digit :: "char \<Rightarrow> bool" where
  "is_digit c \<longleftrightarrow> (let n = (of_char c :: nat) in 48 \<le> n \<and> n \<le> 57)"

definition digit_val :: "char \<Rightarrow> nat" where
  "digit_val c = of_char c - 48"

fun nat_str :: "nat \<Rightarrow> string" where
  "nat_str n = (if n < 10 then [digit_char n] else nat_str (n div 10) @ [digit_char (n mod 10)])"

declare nat_str.simps [simp del]

definition int_str :: "int \<Rightarrow> string" where
  "int_str i = (if i < 0 then CHR ''-'' # nat_str (nat (- i)) else nat_str (nat i))"

definition parse_nat :: "string \<Rightarrow> nat option" where
  "parse_nat s =
     (if s \<noteq> [] \<and> list_all is_digit s then Some (foldl (\<lambda>n c. 10 * n + digit_val c) 0 s) else None)"

definition parse_int :: "string \<Rightarrow> int option" where
  "parse_int s =
     (case s of
        [] \<Rightarrow> None
      | c # t \<Rightarrow>
          if c = CHR ''-'' then map_option (\<lambda>n. - int n) (parse_nat t)
          else if c = CHR ''+'' then map_option int (parse_nat t)
          else map_option int (parse_nat s))"

section \<open>Lemmas on strings\<close>

lemma lower_char_idem [simp]: "lower_char (lower_char c) = lower_char c"
  by (auto simp: lower_char_def Let_def)

lemma ToLower_Nil [simp]: "ToLower [] = []"
  by (simp add: ToLower_def)

lemma ToLower_idem [simp]: "ToLower (ToLower s) = ToLower s"
  by (simp add: ToLower_def)

lemma ToLower_eq_Nil_iff [simp]: "ToLower s = [] \<longleftrightarrow> s = []"
  by (simp add: ToLower_def)

lemma ToLower_append: "ToLower (s @ t) = ToLower s @ ToLower t"
  by (simp add: ToLower_def)

lemma of_char_mod_256 [simp]: "(of_char (char_of (n :: nat)) :: nat) = n mod 256"
  by (simp add: of_char_of)

lemma is_space_lower_char [simp]: "is_space (lower_char c) = is_space c"
proof (cases "65 \<le> (of_char c :: nat) \<and> (of_char c :: nat) \<le> 90")
  case True
  then have l: "(of_char (lower_char c) :: nat) = of_char c + 32"
    by (simp add: lower_char_def Let_def)
  have sp: "is_space d \<longleftrightarrow> (of_char d :: nat) \<in> {9, 10, 11, 12, 13, 32}" for d
  proof -
    have inj: "(d = e) = ((of_char d :: nat) = of_char e)" for e
      by simp
    show ?thesis
      unfolding is_space_def insert_iff empty_iff by (subst (1 2 3 4 5 6) inj) simp
  qed
  from l True show ?thesis by (simp add: sp)
next
  case False
  then show ?thesis by (auto simp: lower_char_def Let_def)
qed

lemma TrimSpace_Nil [simp]: "TrimSpace [] = []"
  by (simp add: TrimSpace_def)

lemma dropWhile_hd_False: "dropWhile P s = s \<longleftrightarrow> (s = [] \<or> \<not> P (hd s))"
  by (rule dropWhile_eq_self_iff)

lemma hd_rev_dropWhile_rev:
  assumes "s \<noteq> []" and "\<not> P (hd s)"
  shows "rev (dropWhile P (rev s)) \<noteq> [] \<and> hd (rev (dropWhile P (rev s))) = hd s"
proof -
  from assms have "\<exists>x \<in> set (rev s). \<not> P x" by force
  then have ne: "dropWhile P (rev s) \<noteq> []" by (auto simp: dropWhile_eq_Nil_conv)
  have "suffix (dropWhile P (rev s)) (rev s)" by (rule suffix_dropWhile)
  then have "prefix (rev (dropWhile P (rev s))) s" by (simp add: suffix_to_prefix)
  then obtain zs where zs: "s = rev (dropWhile P (rev s)) @ zs" by (auto simp: prefix_def)
  from ne zs have "hd s = hd (rev (dropWhile P (rev s)))"
    by (metis hd_append2 rev_is_Nil_conv)
  with ne show ?thesis by simp
qed

lemma TrimSpace_idem [simp]: "TrimSpace (TrimSpace s) = TrimSpace s"
proof (cases "dropWhile is_space s = []")
  case True
  then have "TrimSpace s = []" by (simp only: TrimSpace_def rev.simps dropWhile.simps)
  then show ?thesis by simp
next
  case False
  let ?l = "dropWhile is_space s"
  let ?t = "rev (dropWhile is_space (rev ?l))"
  from False have "\<not> is_space (hd ?l)" by (rule hd_dropWhile)
  with False have t: "?t \<noteq> [] \<and> hd ?t = hd ?l" by (rule hd_rev_dropWhile_rev)
  with \<open>\<not> is_space (hd ?l)\<close> have "dropWhile is_space ?t = ?t"
    by (simp add: dropWhile_hd_False)
  then show ?thesis by (simp add: TrimSpace_def)
qed

lemma dropWhile_map_lower: "dropWhile is_space (map lower_char s) = map lower_char (dropWhile is_space s)"
  by (simp add: dropWhile_map o_def)

lemma TrimSpace_ToLower: "TrimSpace (ToLower s) = ToLower (TrimSpace s)"
  by (simp add: TrimSpace_def ToLower_def dropWhile_map_lower rev_map)

lemma TrimSpace_ToLower_TrimSpace [simp]: "TrimSpace (ToLower (TrimSpace s)) = ToLower (TrimSpace s)"
  by (simp add: TrimSpace_ToLower)

lemma length_TrimSpace_le: "length (TrimSpace s) \<le> length s"
proof -
  have "length (TrimSpace s) \<le> length (dropWhile is_space s)"
    using length_dropWhile_le [of is_space "rev (dropWhile is_space s)"] by (simp add: TrimSpace_def)
  also have "\<dots> \<le> length s" by (rule length_dropWhile_le)
  finally show ?thesis .
qed

lemma TrimSpace_id:
  assumes "s \<noteq> []" and "\<not> is_space (hd s)" and "\<not> is_space (last s)"
  shows "TrimSpace s = s"
proof -
  from assms have "dropWhile is_space s = s" by (simp add: dropWhile_hd_False)
  moreover from assms have "dropWhile is_space (rev s) = rev s"
    by (simp add: dropWhile_hd_False hd_rev)
  ultimately show ?thesis by (simp add: TrimSpace_def)
qed

lemma Contains_iff: "Contains s p \<longleftrightarrow> (\<exists>a b. s = a @ p @ b)"
proof (induction s)
  case Nil
  then show ?case by simp
next
  case (Cons c s)
  show ?case
  proof
    assume "Contains (c # s) p"
    then consider "prefix p (c # s)" | "Contains s p" by auto
    then show "\<exists>a b. c # s = a @ p @ b"
    proof cases
      case 1
      then show ?thesis by (metis append_Nil prefix_def)
    next
      case 2
      with Cons.IH show ?thesis by (metis append_Cons)
    qed
  next
    assume "\<exists>a b. c # s = a @ p @ b"
    then obtain a b where ab: "c # s = a @ p @ b" by blast
    show "Contains (c # s) p"
    proof (cases a)
      case Nil
      with ab show ?thesis by (metis Contains.simps(2) append_Nil prefixI)
    next
      case (Cons x a')
      with ab Cons.IH show ?thesis by auto
    qed
  qed
qed

lemma Split_not_Nil [simp]: "Split s c \<noteq> []"
  by (induction s) (auto split: list.splits)

lemma Split_no_sep: "c \<notin> set s \<Longrightarrow> Split s c = [s]"
  by (induction s) auto

lemma Split_append_sep: "c \<notin> set s \<Longrightarrow> Split (s @ c # t) c = s # Split t c"
  by (induction s) auto

lemma Split_append: "Split (p @ c # r) c = Split p c @ Split r c"
proof (induction p)
  case (Cons x p)
  then show ?case by (cases "Split p c") auto
qed simp

lemma Join_Split: "Join (Split s c) [c] = s"
proof (induction s)
  case Nil
  then show ?case by simp
next
  case (Cons x s)
  obtain y ys where y: "Split s c = y # ys" by (cases "Split s c") auto
  show ?case using Cons y by (cases ys) auto
qed

lemma Split_no_sep_elem: "t \<in> set (Split s c) \<Longrightarrow> c \<notin> set t"
proof (induction s arbitrary: t)
  case Nil
  then show ?case by simp
next
  case (Cons x s)
  then show ?case by (cases "Split s c") (auto split: if_splits)
qed

lemma Cut_Some: "Cut s c = Some (a, b) \<Longrightarrow> s = a @ c # b \<and> c \<notin> set a"
  by (induction s arbitrary: a) (auto split: if_splits)

lemma Cut_None: "Cut s c = None \<longleftrightarrow> c \<notin> set s"
  by (induction s) auto

section \<open>Decimal numerals\<close>

lemma digit_char_digit: "d < 10 \<Longrightarrow> is_digit (digit_char d) \<and> digit_val (digit_char d) = d"
  by (simp add: is_digit_def digit_char_def digit_val_def Let_def)

lemma nat_str_digits: "list_all is_digit (nat_str n)"
proof (induction n rule: nat_str.induct)
  case (1 n)
  then show ?case
    by (subst nat_str.simps) (auto simp: digit_char_digit)
qed

lemma nat_str_not_Nil [simp]: "nat_str n \<noteq> []"
  by (subst nat_str.simps) simp

lemma foldl_nat_str: "foldl (\<lambda>n c. 10 * n + digit_val c) 0 (nat_str n) = n"
proof (induction n rule: nat_str.induct)
  case (1 n)
  show ?case
  proof (cases "n < 10")
    case True
    then show ?thesis by (subst nat_str.simps) (simp add: digit_char_digit)
  next
    case False
    with 1 have "foldl (\<lambda>n c. 10 * n + digit_val c) 0 (nat_str (n div 10)) = n div 10" by simp
    with False show ?thesis
      by (subst nat_str.simps) (simp add: digit_char_digit)
  qed
qed

lemma parse_nat_str [simp]: "parse_nat (nat_str n) = Some n"
  by (simp add: parse_nat_def nat_str_digits foldl_nat_str)

lemma nat_str_inject [simp]: "nat_str m = nat_str n \<longleftrightarrow> m = n"
  by (metis option.inject parse_nat_str)

section \<open>Maps and option lists\<close>

abbreviation go_get :: "('k \<times> 'v) list \<Rightarrow> 'k \<Rightarrow> 'v option" where
  "go_get m k \<equiv> map_of m k"

abbreviation go_put :: "'k \<Rightarrow> 'v \<Rightarrow> ('k \<times> 'v) list \<Rightarrow> ('k \<times> 'v) list" where
  "go_put k v m \<equiv> AList.update k v m"

lemma those_map_Some: "(\<And>x. x \<in> set xs \<Longrightarrow> f x = Some (g x)) \<Longrightarrow> those (map f xs) = Some (map g xs)"
  by (induction xs) auto

lemma those_eq_Some_length: "those xs = Some ys \<Longrightarrow> length ys = length xs"
  by (induction xs arbitrary: ys) (auto split: option.splits)

lemma insort_key_map: "insort_key f (g x) (map g xs) = map g (insort_key (\<lambda>y. f (g y)) x xs)"
  by (induction xs) auto

lemma sort_key_map: "sort_key f (map g xs) = map g (sort_key (\<lambda>y. f (g y)) xs)"
  by (induction xs) (auto simp: insort_key_map)

lemma insort_key_sorted_hd: "sorted (map f (x # xs)) \<Longrightarrow> insort_key f x xs = x # xs"
  by (cases xs) auto

lemma sort_key_sorted: "sorted (map f xs) \<Longrightarrow> sort_key f xs = xs"
  by (induction xs) (auto simp: insort_key_sorted_hd [simplified])

lemma sort_key_idem [simp]: "sort_key f (sort_key f xs) = sort_key f xs"
  by (simp add: sort_key_sorted)

lemma distinct_map_fst_sort [simp]: "distinct (map fst (sort_key f m)) = distinct (map fst m)"
  by (metis mset_map mset_sort mset_eq_imp_distinct_iff)

lemma map_of_sort_key: "distinct (map fst m) \<Longrightarrow> map_of (sort_key f m) = map_of m"
  by (intro map_of_inject_set [THEN iffD2]) auto

text \<open>Two maps with the same entries have the same listing in key order.\<close>

lemma sort_key_fst_cong:
  fixes m m' :: "('k :: linorder \<times> 'v) list"
  assumes d: "distinct (map fst m)" and d': "distinct (map fst m')" and eq: "map_of m = map_of m'"
  shows "sort_key fst m = sort_key fst m'"
proof (rule sort_key_inj_key_eq)
  have "set m = set m'" using d d' eq by (simp add: map_of_inject_set)
  then have "mset m = mset m'"
    using d d' by (metis distinct_map set_eq_iff_mset_eq_distinct)
  then show "mset m = mset (sort_key fst m')" by simp
  show "inj_on fst (set m)" using d by (simp add: distinct_map)
  show "sorted (map fst (sort_key fst m'))" by simp
qed

text \<open>Removing duplicates while keeping first occurrences, as the \<open>seen\<close> loops do.\<close>

fun dedup_by :: "('a \<Rightarrow> 'k) \<Rightarrow> 'k list \<Rightarrow> 'a list \<Rightarrow> 'a list" where
  "dedup_by f seen [] = []"
| "dedup_by f seen (x # xs) =
     (if f x \<in> set seen then dedup_by f seen xs else x # dedup_by f (f x # seen) xs)"

lemma set_dedup_by_key: "f ` set (dedup_by f seen xs) = f ` set xs - set seen"
  by (induction f seen xs rule: dedup_by.induct) auto

lemma distinct_dedup_by: "distinct (map f (dedup_by f seen xs))"
proof (induction f seen xs rule: dedup_by.induct)
  case (1 f seen)
  then show ?case by simp
next
  case (2 f seen x xs)
  have "f x \<notin> f ` set (dedup_by f (f x # seen) xs)"
    by (simp add: set_dedup_by_key)
  with 2 show ?case by simp
qed

lemma set_dedup_by_subset: "set (dedup_by f seen xs) \<subseteq> set xs"
  by (induction f seen xs rule: dedup_by.induct) auto

lemma set_dedup_by_id: "set (dedup_by (\<lambda>x. x) seen xs) = set xs - set seen"
  using set_dedup_by_key [of "\<lambda>x. x" seen xs] by simp

lemma sorted_list_hd_Min:
  assumes "xs \<noteq> []"
  shows "hd (sort xs) = Min (set xs)"
proof -
  have ne: "sort xs \<noteq> []" using assms by (metis length_0_conv length_sort)
  then obtain y ys where y: "sort xs = y # ys" by (cases "sort xs") auto
  have "sorted (y # ys)" using y by (metis sorted_sort)
  then have "Min (set (sort xs)) = y"
    using y by (intro Min_eqI) auto
  with y show ?thesis by (metis list.sel(1) set_sort)
qed

lemma set_go_put:
  assumes "distinct (map fst m)"
  shows "(s, i) \<in> set (go_put k v m) \<longleftrightarrow> (if s = k then i = v else (s, i) \<in> set m)"
proof -
  have "(s, i) \<in> set (go_put k v m) \<longleftrightarrow> map_of (go_put k v m) s = Some i"
    using distinct_update [OF assms] by simp
  then show ?thesis using assms by (auto simp: update_conv')
qed

lemma set_go_delete: "(s, i) \<in> set (AList.delete k m) \<longleftrightarrow> s \<noteq> k \<and> (s, i) \<in> set m"
  by (auto simp: AList.delete_eq)

lemma TrimSpace_ends:
  assumes "TrimSpace s \<noteq> []"
  shows "\<not> is_space (hd (TrimSpace s))" and "\<not> is_space (last (TrimSpace s))"
proof -
  let ?l = "dropWhile is_space s"
  have r: "dropWhile is_space (rev ?l) \<noteq> []" using assms by (simp add: TrimSpace_def)
  then have l: "?l \<noteq> []" by (metis dropWhile.simps(1) rev.simps(1))
  then have h: "\<not> is_space (hd ?l)" by (rule hd_dropWhile)
  show "\<not> is_space (hd (TrimSpace s))"
    using hd_rev_dropWhile_rev [of ?l is_space] l h by (simp add: TrimSpace_def)
  show "\<not> is_space (last (TrimSpace s))"
    using hd_dropWhile [OF r] r by (simp add: TrimSpace_def last_rev)
qed

end
