(* ===== verification/Json.thy ===== *)
theory Json
  imports GoLib
begin

text \<open>
  JSON values as the package \<open>encoding/json\<close> decodes them into \<open>any\<close>: an object is a Go map,
  here an association list with distinct keys in any order. \<open>json.Marshal\<close> writes object members
  in key order, and its number format (\<open>strconv.FormatFloat\<close>) is the parameter \<open>ffmt\<close>. Marshalling
  and decoding again (\<open>normalizeJSON\<close> of the policy package) gives the value with the members of
  every object in key order, on which \<open>reflect.DeepEqual\<close> is equality. A \<open>float64\<close> read from JSON
  is finite and is modelled by the rational it denotes.

  A raw message is given by what decoding makes of it: no bytes, bytes that are not JSON, or a
  document.
\<close>

datatype json =
    JNull
  | JBool bool
  | JNum rat
  | JStr string
  | JArr "json list"
  | JObj "(string \<times> json) list"

type_synonym json_object = "(string \<times> json) list"

datatype raw_json = RawEmpty | RawInvalid | RawDoc json

section \<open>Canonical form\<close>

fun norm_json :: "json \<Rightarrow> json" where
  "norm_json JNull = JNull"
| "norm_json (JBool b) = JBool b"
| "norm_json (JNum x) = JNum x"
| "norm_json (JStr s) = JStr s"
| "norm_json (JArr xs) = JArr (map norm_json xs)"
| "norm_json (JObj m) = JObj (sort_key fst (map (\<lambda>kv. (fst kv, norm_json (snd kv))) m))"

fun wf_json :: "json \<Rightarrow> bool" where
  "wf_json (JArr xs) = list_all wf_json xs"
| "wf_json (JObj m) = (distinct (map fst m) \<and> list_all (\<lambda>kv. wf_json (snd kv)) m)"
| "wf_json _ = True"

section \<open>json.Marshal\<close>

definition hex_digit :: "nat \<Rightarrow> char" where
  "hex_digit n = ''0123456789abcdef'' ! (n mod 16)"

text \<open>The escapes of \<open>json.Marshal\<close>, with its default escaping of the HTML characters.\<close>

definition json_escape :: "char \<Rightarrow> string" where
  "json_escape c =
     (let n = (of_char c :: nat) in
      if n = 34 \<or> n = 92 then [char_of (92 :: nat), c]
      else if n = 8 then [char_of (92 :: nat), CHR ''b'']
      else if n = 12 then [char_of (92 :: nat), CHR ''f'']
      else if n = 10 then [char_of (92 :: nat), CHR ''n'']
      else if n = 13 then [char_of (92 :: nat), CHR ''r'']
      else if n = 9 then [char_of (92 :: nat), CHR ''t'']
      else if n < 32 \<or> n = 60 \<or> n = 62 \<or> n = 38
        then [char_of (92 :: nat)] @ ''u00'' @ [hex_digit (n div 16), hex_digit n]
      else [c])"

definition json_quote :: "string \<Rightarrow> string" where
  "json_quote s = CHR 0x22 # concat (map json_escape s) @ [CHR 0x22]"

fun marshal :: "(rat \<Rightarrow> string) \<Rightarrow> json \<Rightarrow> string" where
  "marshal ffmt JNull = ''null''"
| "marshal ffmt (JBool b) = (if b then ''true'' else ''false'')"
| "marshal ffmt (JNum x) = ffmt x"
| "marshal ffmt (JStr s) = json_quote s"
| "marshal ffmt (JArr xs) = ''['' @ Join (map (marshal ffmt) xs) '','' @ '']''"
| "marshal ffmt (JObj m) =
     ''{'' @ Join (map snd (sort_key fst (map (\<lambda>kv. (fst kv, json_quote (fst kv) @ '':'' @ marshal ffmt (snd kv))) m))) '',''
       @ ''}''"

section \<open>Decoding into a Go map\<close>

text \<open>\<open>json.Unmarshal(raw, &m)\<close> with \<open>m\<close> a \<open>map[string]any\<close>: \<open>None\<close> is the decoding error; \<open>null\<close>
  leaves no members.\<close>

fun unmarshal_object :: "raw_json \<Rightarrow> json_object option" where
  "unmarshal_object (RawDoc (JObj m)) = Some m"
| "unmarshal_object (RawDoc JNull) = Some []"
| "unmarshal_object _ = None"

text \<open>Reading a member under a type assertion: \<open>v, _ := m[k].(string)\<close> and the like.\<close>

fun as_string :: "json option \<Rightarrow> string option" where
  "as_string (Some (JStr s)) = Some s"
| "as_string _ = None"

fun as_object :: "json option \<Rightarrow> json_object option" where
  "as_object (Some (JObj m)) = Some m"
| "as_object _ = None"

section \<open>Lemmas\<close>

lemma sort_key_fst_map: "sort_key fst (map (\<lambda>kv. (fst kv, f (snd kv))) m) = map (\<lambda>kv. (fst kv, f (snd kv))) (sort_key fst m)"
  by (simp add: sort_key_map)

lemma norm_json_idem [simp]: "norm_json (norm_json v) = norm_json v"
proof (induction v rule: norm_json.induct)
  case (6 m)
  have "map (\<lambda>kv. (fst kv, norm_json (norm_json (snd kv)))) m = map (\<lambda>kv. (fst kv, norm_json (snd kv))) m"
    using 6 by auto
  then show ?case
    by (simp add: sort_key_fst_map o_def sort_key_map)
qed auto

lemma wf_norm_json [simp]: "wf_json (norm_json v) = wf_json v"
  by (induction v rule: norm_json.induct) (auto simp: list_all_iff sort_key_fst_map o_def)

lemma map_of_map_snd: "map_of (map (\<lambda>kv. (fst kv, f (snd kv))) m) k = map_option f (map_of m k)"
  by (induction m) auto

text \<open>Two objects with the same members, up to the canonical form of the members, have the same
  canonical form.\<close>

lemma norm_json_obj_eqI:
  assumes "distinct (map fst m)" and "distinct (map fst m')"
    and "\<And>k. map_option norm_json (map_of m k) = map_option norm_json (map_of m' k)"
  shows "norm_json (JObj m) = norm_json (JObj m')"
proof -
  have "sort_key fst (map (\<lambda>kv. (fst kv, norm_json (snd kv))) m)
      = sort_key fst (map (\<lambda>kv. (fst kv, norm_json (snd kv))) m')"
    by (rule sort_key_fst_cong) (auto simp: assms o_def map_of_map_snd fun_eq_iff)
  then show ?thesis by simp
qed

end
