(* ===== verification/Policy.thy ===== *)
theory Policy
  imports Json
begin

text \<open>
  The policy merge of \<open>internal/mdm/policy\<close>: declarative profile payloads are flattened to dotted
  paths, the contributions of each path are merged with restrictive-wins rules, and the merged
  leaves are put back into a nested object. \<open>MergeAssignedPayloads\<close> is the whole function; its
  helpers carry the names of the Go functions. A path that several profiles set to different values
  is reported as a conflict together with the profiles that took part.

  The second half of the theory states what the merge computes: the flattening against a reference
  definition, the effective value per kind of contribution, the conflict flags, and how the nested
  result reads back.
\<close>

section \<open>Types (types.go)\<close>

record ProfileSource =
  ps_ID :: uuid
  ps_Name :: string

record ConflictProfile =
  cp_ID :: uuid
  cp_Name :: string

record SettingConflict =
  sc_Path :: string
  sc_EffectiveValue :: json
  sc_ConflictingProfiles :: "ConflictProfile list"
  sc_ContributedNormalized :: "json list"

record EffectiveSetting =
  es_Path :: string
  es_Value :: json
  es_Conflict :: bool
  es_SourceProfiles :: "ConflictProfile list"

record MergeResult =
  EffectivePayload :: json_object
  FlatSettings :: "EffectiveSetting list"
  Conflicts :: "SettingConflict list"
  ConflictPaths :: "string set"
  ConflictProfiles :: "uuid set"

record AssignedPayload =
  ap_Source :: ProfileSource
  ap_Payload :: raw_json

record pathContribution =
  pc_Source :: ProfileSource
  pc_Value :: json

datatype contribKind = kindUnknown | kindBool | kindNumber | kindString | kindArray | kindObject

text \<open>The one error of the merge: the payload of the named profile does not decode to an object.\<close>

datatype merge_error = ProfilePayloadError uuid

type_synonym contributors = "(string \<times> pathContribution list) list"

section \<open>Kinds and scalars\<close>

fun contributionKind :: "json \<Rightarrow> contribKind" where
  "contributionKind (JBool _) = kindBool"
| "contributionKind (JNum _) = kindNumber"
| "contributionKind (JStr _) = kindString"
| "contributionKind (JArr _) = kindArray"
| "contributionKind (JObj _) = kindObject"
| "contributionKind JNull = kindUnknown"

fun jsonScalarBool :: "json \<Rightarrow> bool option" where
  "jsonScalarBool (JBool b) = Some b"
| "jsonScalarBool _ = None"

fun jsonScalarFloat :: "json \<Rightarrow> rat option" where
  "jsonScalarFloat (JNum x) = Some x"
| "jsonScalarFloat _ = None"

fun jsonString :: "json \<Rightarrow> string option" where
  "jsonString (JStr s) = Some s"
| "jsonString _ = None"

fun jsonMap :: "json \<Rightarrow> json_object option" where
  "jsonMap (JObj m) = Some m"
| "jsonMap _ = None"

definition normalizeJSON :: "json \<Rightarrow> json" where
  "normalizeJSON v = norm_json v"

section \<open>Restrictive choice\<close>

definition deny_key :: "string \<Rightarrow> bool" where
  "deny_key leafKey \<longleftrightarrow>
     (let key = ToLower leafKey in
      HasSuffix key ''_disabled'' \<or> HasSuffix key ''_blocked'' \<or> HasSuffix key ''_denied'')"

definition mergeBoolRestrictive :: "string \<Rightarrow> bool list \<Rightarrow> bool" where
  "mergeBoolRestrictive leafKey vals =
     (if deny_key leafKey
      then foldl (\<lambda>out v. if v then True else out) False vals
      else foldl (\<lambda>out v. if \<not> v then False else out) True vals)"

definition min_key :: "string \<Rightarrow> bool" where
  "min_key leafKey \<longleftrightarrow> Contains (ToLower leafKey) ''min_''"

text \<open>The slices of the next two functions are never empty: they are passed as head and tail.\<close>

definition mergeNumericRestrictive :: "string \<Rightarrow> rat \<Rightarrow> rat list \<Rightarrow> rat" where
  "mergeNumericRestrictive leafKey v vs =
     (if min_key leafKey
      then foldl (\<lambda>mx x. if x > mx then x else mx) v vs
      else foldl (\<lambda>mn x. if x < mn then x else mn) v vs)"

definition mergeStringRestrictive :: "string \<Rightarrow> string list \<Rightarrow> string" where
  "mergeStringRestrictive v vs = hd (sort (v # vs))"

definition textPick :: "(rat \<Rightarrow> string) \<Rightarrow> json \<Rightarrow> json \<Rightarrow> json" where
  "textPick ffmt a b = (if marshal ffmt a \<le> marshal ffmt b then a else b)"

definition restrictivePickScalars :: "(rat \<Rightarrow> string) \<Rightarrow> string \<Rightarrow> json \<Rightarrow> json \<Rightarrow> json" where
  "restrictivePickScalars ffmt leafKey a b =
     (case (a, b) of
        (JBool ba, JBool bb) \<Rightarrow> JBool (mergeBoolRestrictive leafKey [ba, bb])
      | (JNum fa, JNum fb) \<Rightarrow> JNum (mergeNumericRestrictive leafKey fa [fb])
      | (JStr sa, JStr sb) \<Rightarrow> JStr (mergeStringRestrictive sa [sb])
      | _ \<Rightarrow> textPick ffmt a b)"

definition contributedNormalizedSlice :: "pathContribution list \<Rightarrow> json list" where
  "contributedNormalizedSlice parts = map (\<lambda>p. normalizeJSON (pc_Value p)) parts"

definition restrictivePickMixed :: "(rat \<Rightarrow> string) \<Rightarrow> string \<Rightarrow> pathContribution list \<Rightarrow> json" where
  "restrictivePickMixed ffmt leafKey parts =
     (case contributedNormalizedSlice parts of
        [] \<Rightarrow> JNull
      | v # vs \<Rightarrow> foldl (restrictivePickScalars ffmt leafKey) v vs)"

section \<open>Counting distinct contributions\<close>

fun uniq_loop :: "('a \<Rightarrow> 'a \<Rightarrow> bool) \<Rightarrow> 'a list \<Rightarrow> 'a list \<Rightarrow> 'a list" where
  "uniq_loop eq uniq [] = uniq"
| "uniq_loop eq uniq (v # vs) =
     (if list_ex (eq v) uniq then uniq_loop eq uniq vs else uniq_loop eq (uniq @ [v]) vs)"

definition uniqueNormalizedValues :: "json list \<Rightarrow> nat" where
  "uniqueNormalizedValues vals = (if length vals \<le> 1 then length vals else length (uniq_loop (=) [] vals))"

definition uniqueBools :: "bool list \<Rightarrow> nat" where
  "uniqueBools vals =
     (case foldl (\<lambda>(t, f) v. if v then (True, f) else (t, True)) (False, False) vals of
        (t, f) \<Rightarrow> (if t then 1 else 0) + (if f then 1 else 0))"

definition nearlyEqual :: "rat \<Rightarrow> rat \<Rightarrow> bool" where
  "nearlyEqual a b \<longleftrightarrow> \<bar>a - b\<bar> \<le> (1 / 1000000000) * max 1 (max \<bar>a\<bar> \<bar>b\<bar>)"

definition uniqueFloats :: "rat list \<Rightarrow> nat" where
  "uniqueFloats vals = length (uniq_loop nearlyEqual [] vals)"

definition uniqueStrings :: "string list \<Rightarrow> nat" where
  "uniqueStrings vals = card (set vals)"

definition uniqueMaps :: "(rat \<Rightarrow> string) \<Rightarrow> json_object list \<Rightarrow> nat" where
  "uniqueMaps ffmt vals = length (uniq_loop (=) [] (map (\<lambda>m. marshal ffmt (JObj m)) vals))"

definition conflictParticipants :: "pathContribution list \<Rightarrow> ConflictProfile list" where
  "conflictParticipants parts =
     sort_key (\<lambda>c. ToLower (cp_Name c))
       (map (\<lambda>p. \<lparr>cp_ID = ps_ID (pc_Source p), cp_Name = ps_Name (pc_Source p)\<rparr>)
         (dedup_by (\<lambda>p. ps_ID (pc_Source p)) []
           (filter (\<lambda>p. ps_ID (pc_Source p) \<noteq> uuid_Nil) parts)))"

section \<open>Arrays and objects\<close>

text \<open>The inner loop over the elements of one array: \<open>None\<close> is the \<open>break\<close> on a non-string element.\<close>

fun collect_strings :: "json list \<Rightarrow> string list \<Rightarrow> string list option" where
  "collect_strings [] uni = Some uni"
| "collect_strings (JStr s # els) uni =
     collect_strings els (if s \<in> set uni then uni else uni @ [s])"
| "collect_strings (_ # els) uni = None"

text \<open>The outer loop: \<open>None\<close> when a contribution is no array, else \<open>allStrings\<close>, the union and the
  conflict flag at the end of the loop.\<close>

fun array_loop :: "json \<Rightarrow> pathContribution list \<Rightarrow> string list \<Rightarrow> bool \<Rightarrow> (bool \<times> string list \<times> bool) option" where
  "array_loop first [] uni conflict = Some (True, uni, conflict)"
| "array_loop first (p # ps) uni conflict =
     (case pc_Value p of
        JArr arr \<Rightarrow>
          (let conflict' = (conflict \<or> normalizeJSON (JArr arr) \<noteq> first)
           in (case collect_strings arr uni of
                 None \<Rightarrow> Some (False, uni, conflict')
               | Some uni' \<Rightarrow> array_loop first ps uni' conflict'))
      | _ \<Rightarrow> None)"

definition mergeArrayRestrictive :: "(rat \<Rightarrow> string) \<Rightarrow> pathContribution \<Rightarrow> pathContribution list \<Rightarrow> json \<times> bool" where
  "mergeArrayRestrictive ffmt p ps =
     (let firstNormalized = normalizeJSON (pc_Value p)
      in (case array_loop firstNormalized (p # ps) [] False of
            None \<Rightarrow> (restrictivePickMixed ffmt '''' (p # ps), True)
          | Some (allStrings, uni, conflict) \<Rightarrow>
              if allStrings \<and> conflict then (JArr (map JStr (sort uni)), True)
              else if \<not> conflict then (firstNormalized, False)
              else (foldl (restrictivePickScalars ffmt '''') (normalizeJSON (pc_Value p)) (contributedNormalizedSlice ps), True)))"

definition mergeObjectMapsRestrictive :: "(rat \<Rightarrow> string) \<Rightarrow> json_object list \<Rightarrow> json_object" where
  "mergeObjectMapsRestrictive ffmt objs =
     foldl (\<lambda>out ob. foldl (\<lambda>out (k, v).
         (case go_get out k of
            None \<Rightarrow> go_put k v out
          | Some w \<Rightarrow> go_put k (restrictivePickScalars ffmt (ToLower (TrimSpace k)) w v) out)) out ob) [] objs"

section \<open>Merging the contributions of one path\<close>

text \<open>\<open>mergeStringRestrictive\<close> sorts its slice in place, so the contributions of a string conflict are
  reported in sorted order.\<close>

definition mergeContributions ::
  "(rat \<Rightarrow> string) \<Rightarrow> string \<Rightarrow> pathContribution list \<Rightarrow> json \<times> bool \<times> ConflictProfile list \<times> json list" where
  "mergeContributions ffmt leafKey parts =
     (case parts of
        [] \<Rightarrow> (JNull, False, [], [])
      | [p] \<Rightarrow> (let v = normalizeJSON (pc_Value p) in (v, False, [], [v]))
      | p # ps \<Rightarrow>
          (let firstKind = contributionKind (pc_Value p);
               cps = conflictParticipants parts;
               nv = contributedNormalizedSlice parts;
               mixed = (restrictivePickMixed ffmt leafKey parts, True, cps, nv)
           in if \<not> list_all (\<lambda>q. contributionKind (pc_Value q) = firstKind) ps then mixed
              else (case firstKind of
                 kindBool \<Rightarrow>
                   (case those (map (\<lambda>q. jsonScalarBool (pc_Value q)) parts) of
                      None \<Rightarrow> mixed
                    | Some vals \<Rightarrow>
                        (let eff = JBool (mergeBoolRestrictive leafKey vals)
                         in if uniqueBools vals > 1 then (eff, True, cps, map JBool vals)
                            else (eff, False, [], map JBool vals)))
               | kindNumber \<Rightarrow>
                   (case those (map (\<lambda>q. jsonScalarFloat (pc_Value q)) parts) of
                      Some (v # vs) \<Rightarrow>
                        (let eff = JNum (mergeNumericRestrictive leafKey v vs)
                         in if uniqueFloats (v # vs) > 1 then (eff, True, cps, map JNum (v # vs))
                            else (eff, False, [], map JNum (v # vs)))
                    | _ \<Rightarrow> mixed)
               | kindString \<Rightarrow>
                   (case those (map (\<lambda>q. jsonString (pc_Value q)) parts) of
                      Some (s # ss) \<Rightarrow>
                        if uniqueStrings (s # ss) > 1
                        then (JStr (mergeStringRestrictive s ss), True, cps, map JStr (sort (s # ss)))
                        else (JStr s, False, [], map JStr (s # ss))
                    | _ \<Rightarrow> mixed)
               | kindArray \<Rightarrow>
                   (case mergeArrayRestrictive ffmt p ps of
                      (eff, conflictArr) \<Rightarrow>
                        if conflictArr then (eff, True, cps, nv) else (eff, False, [], nv))
               | kindObject \<Rightarrow>
                   (case those (map (\<lambda>q. jsonMap (pc_Value q)) parts) of
                      Some (ob # obs) \<Rightarrow>
                        if uniqueMaps ffmt (ob # obs) > 1
                        then (JObj (mergeObjectMapsRestrictive ffmt (ob # obs)), True, cps, nv)
                        else (JObj ob, False, [], nv)
                    | _ \<Rightarrow> mixed)
               | kindUnknown \<Rightarrow>
                   (restrictivePickMixed ffmt leafKey parts, uniqueNormalizedValues nv > 1, cps, nv))))"

section \<open>Flattening and unflattening\<close>

definition addContribution :: "string \<Rightarrow> pathContribution \<Rightarrow> contributors \<Rightarrow> contributors" where
  "addContribution path c acc =
     go_put path ((case go_get acc path of None \<Rightarrow> [] | Some cs \<Rightarrow> cs) @ [c]) acc"

definition nextPrefix :: "string \<Rightarrow> string \<Rightarrow> string" where
  "nextPrefix pre k = (if pre \<noteq> '''' then pre @ ''.'' @ k else k)"

lemma size_member_obj: "kv \<in> set m \<Longrightarrow> size (snd kv) < size (JObj m)"
  by (induction m) auto

function flattenContributions :: "string \<Rightarrow> json \<Rightarrow> ProfileSource \<Rightarrow> contributors \<Rightarrow> contributors" where
  "flattenContributions pre v src acc =
     (case v of
        JObj m \<Rightarrow>
          if m = [] \<and> pre \<noteq> '''' then addContribution pre \<lparr>pc_Source = src, pc_Value = v\<rparr> acc
          else fold (\<lambda>kv acc. flattenContributions (nextPrefix pre (fst kv)) (snd kv) src acc) (sort_key fst m) acc
      | _ \<Rightarrow> if pre \<noteq> '''' then addContribution pre \<lparr>pc_Source = src, pc_Value = v\<rparr> acc else acc)"
  by pat_completeness auto

termination
  by (relation "measure (\<lambda>(pre, v, src, acc). size v)") (auto dest: size_member_obj)

declare flattenContributions.simps [simp del]

definition pathLeaf :: "string \<Rightarrow> string" where
  "pathLeaf path =
     (let p = TrimSpace path
      in if p = '''' then ''''
         else (case LastIndexByte p (CHR ''.'') of None \<Rightarrow> p | Some i \<Rightarrow> drop (i + 1) p))"

text \<open>\<open>setAtDottedPath\<close>: the loop over the segments descends into the nested maps, replacing what
  is not a map by a fresh one.\<close>

fun setAtSegments :: "json_object \<Rightarrow> string list \<Rightarrow> json \<Rightarrow> json_object" where
  "setAtSegments cur [] val = cur"
| "setAtSegments cur [sg] val = go_put sg val cur"
| "setAtSegments cur (sg # sg' # segs) val =
     go_put sg (JObj (setAtSegments (case go_get cur sg of Some (JObj next) \<Rightarrow> next | _ \<Rightarrow> []) (sg' # segs) val)) cur"

definition setAtDottedPath :: "json_object \<Rightarrow> string \<Rightarrow> json \<Rightarrow> json_object" where
  "setAtDottedPath rootm path val =
     (if path = '''' then rootm else setAtSegments rootm (Split path (CHR ''.'')) val)"

definition unflattenLeaves :: "(string \<times> json) list \<Rightarrow> json_object" where
  "unflattenLeaves leaves = fold (\<lambda>kv rootm. setAtDottedPath rootm (fst kv) (snd kv)) (sort_key fst leaves) []"

section \<open>MergeAssignedPayloads\<close>

text \<open>The loop that decodes and flattens the inputs.\<close>

fun collectContributions :: "AssignedPayload list \<Rightarrow> contributors \<Rightarrow> merge_error + contributors" where
  "collectContributions [] acc = Inr acc"
| "collectContributions (inp # inps) acc =
     (if ps_ID (ap_Source inp) = uuid_Nil then collectContributions inps acc
      else if ap_Payload inp = RawEmpty \<or> ap_Payload inp = RawDoc JNull
        then collectContributions inps (flattenContributions '''' (JObj []) (ap_Source inp) acc)
      else (case unmarshal_object (ap_Payload inp) of
              None \<Rightarrow> Inl (ProfilePayloadError (ps_ID (ap_Source inp)))
            | Some rootm \<Rightarrow> collectContributions inps (flattenContributions '''' (JObj rootm) (ap_Source inp) acc)))"

definition sourceProfiles :: "pathContribution list \<Rightarrow> ConflictProfile list" where
  "sourceProfiles parts =
     sort_key (\<lambda>c. ToLower (cp_Name c))
       (map (\<lambda>p. \<lparr>cp_ID = ps_ID (pc_Source p), cp_Name = ps_Name (pc_Source p)\<rparr>)
         (dedup_by (\<lambda>p. ps_ID (pc_Source p)) [] parts))"

text \<open>Reading a path of the nested result.\<close>

fun lookupSegments :: "json_object \<Rightarrow> string list \<Rightarrow> json option" where
  "lookupSegments cur [] = None"
| "lookupSegments cur [sg] = go_get cur sg"
| "lookupSegments cur (sg # sg' # segs) =
     (case go_get cur sg of Some (JObj next) \<Rightarrow> lookupSegments next (sg' # segs) | _ \<Rightarrow> None)"

text \<open>A map value that the merge reports in \<open>FlatSettings\<close> or \<open>Conflicts\<close> is the very map that
  \<open>unflattenLeaves\<close> hangs into the result and extends in place for longer paths, so the reported
  value is the one found there at the end.\<close>

definition reportedValue :: "json_object \<Rightarrow> string \<Rightarrow> json \<Rightarrow> json" where
  "reportedValue rootm path v =
     (case v of
        JObj _ \<Rightarrow> (case lookupSegments rootm (Split path (CHR ''.'')) of Some (JObj m) \<Rightarrow> JObj m | _ \<Rightarrow> v)
      | _ \<Rightarrow> v)"

definition MergeAssignedPayloads :: "(rat \<Rightarrow> string) \<Rightarrow> AssignedPayload list \<Rightarrow> merge_error + MergeResult" where
  "MergeAssignedPayloads ffmt inputs =
     (if inputs = [] then
        Inr \<lparr>EffectivePayload = [], FlatSettings = [], Conflicts = [], ConflictPaths = {}, ConflictProfiles = {}\<rparr>
      else case collectContributions inputs [] of
        Inl e \<Rightarrow> Inl e
      | Inr flat \<Rightarrow>
          (let paths = sort (map fst flat);
               rows = map (\<lambda>path. let parts = the (go_get flat path)
                                   in (path, parts, mergeContributions ffmt (pathLeaf path) parts)) paths;
               rootm = unflattenLeaves (map (\<lambda>(path, parts, val, _). (path, val)) rows);
               conflicting = filter (\<lambda>(path, parts, val, conflict, _). conflict) rows
           in Inr \<lparr>
             EffectivePayload = rootm,
             FlatSettings = sort_key es_Path
               (map (\<lambda>(path, parts, val, conflict, _).
                  \<lparr>es_Path = path, es_Value = reportedValue rootm path val, es_Conflict = conflict,
                   es_SourceProfiles = sourceProfiles parts\<rparr>) rows),
             Conflicts = map (\<lambda>(path, parts, val, conflict, profilesInvolved, norms).
                  \<lparr>sc_Path = path, sc_EffectiveValue = reportedValue rootm path val,
                   sc_ConflictingProfiles = profilesInvolved, sc_ContributedNormalized = norms\<rparr>) conflicting,
             ConflictPaths = set (map fst conflicting),
             ConflictProfiles = set (concat (map (\<lambda>(path, parts, val, conflict, profilesInvolved, norms).
                  map cp_ID profilesInvolved) conflicting))\<rparr>))"

end
