(* ===== verification/Policy_Facts.thy ===== *)
theory Policy_Facts
  imports Policy
begin

text \<open>
  What the policy merge computes. The flattening is compared with a reference definition
  (\<open>leaves\<close>, \<open>contributionsAt\<close>); the merge of one path is characterised per kind of contribution
  and lifted to \<open>MergeAssignedPayloads\<close>; the nested result is read back along dotted paths.
\<close>

section \<open>Merging booleans, numbers and strings\<close>

lemma foldl_any: "foldl (\<lambda>out v. if v then True else out) b vals = (b \<or> True \<in> set vals)"
  by (induction vals arbitrary: b) auto

lemma foldl_all: "foldl (\<lambda>out v. if \<not> v then False else out) b vals = (b \<and> False \<notin> set vals)"
  by (induction vals arbitrary: b) auto

lemma mergeBoolRestrictive_eq:
  "mergeBoolRestrictive k vals = (if deny_key k then True \<in> set vals else False \<notin> set vals)"
  unfolding mergeBoolRestrictive_def foldl_any foldl_all by simp

lemma foldl_max: "foldl (\<lambda>mx x. if x > mx then x else mx) v vs = Max (set (v # vs))" for v :: rat
proof (induction vs arbitrary: v)
  case Nil
  then show ?case by simp
next
  case (Cons x vs)
  have "Max (set (v # x # vs)) = Max (set (max v x # vs))"
    by (cases "vs = []") (auto simp: max.assoc)
  with Cons show ?case by (auto simp: max_def)
qed

lemma foldl_min: "foldl (\<lambda>mn x. if x < mn then x else mn) v vs = Min (set (v # vs))" for v :: rat
proof (induction vs arbitrary: v)
  case Nil
  then show ?case by simp
next
  case (Cons x vs)
  have "Min (set (v # x # vs)) = Min (set (min v x # vs))"
    by (cases "vs = []") (auto simp: min.assoc)
  with Cons show ?case by (auto simp: min_def)
qed

lemma mergeNumericRestrictive_eq:
  "mergeNumericRestrictive k v vs = (if min_key k then Max (set (v # vs)) else Min (set (v # vs)))"
  unfolding mergeNumericRestrictive_def foldl_max foldl_min by simp

lemma mergeStringRestrictive_eq: "mergeStringRestrictive s ss = Min (set (s # ss))"
  unfolding mergeStringRestrictive_def by (rule sorted_list_hd_Min) simp

lemma uniqueBools_foldl:
  "foldl (\<lambda>(t, f) v. if v then (True, f) else (t, True)) (t0, f0) vals
     = (t0 \<or> True \<in> set vals, f0 \<or> False \<in> set vals)"
  by (induction vals arbitrary: t0 f0) auto

lemma uniqueBools_gt1: "uniqueBools vals > 1 \<longleftrightarrow> True \<in> set vals \<and> False \<in> set vals"
  by (simp add: uniqueBools_def uniqueBools_foldl)

lemma uniqueStrings_gt1: "uniqueStrings (s # ss) > 1 \<longleftrightarrow> (\<exists>t \<in> set ss. t \<noteq> s)"
proof -
  have "card (insert s (set ss)) \<le> Suc 0 \<longleftrightarrow> (\<forall>t \<in> set ss. t = s)"
    by (subst card_le_Suc0_iff_eq) (auto, metis)
  then show ?thesis by (auto simp: uniqueStrings_def simp flip: not_le)
qed

text \<open>Splitting contributions by kind: how \<open>mergeContributions\<close> reads on uniform contributions.\<close>

lemma map_pc_Value_kind:
  assumes "map pc_Value parts = map C xs" and "\<And>x. contributionKind (C x) = K"
  shows "list_all (\<lambda>q. contributionKind (pc_Value q) = K) parts"
proof -
  have "list_all (\<lambda>v. contributionKind v = K) (map pc_Value parts)"
    unfolding assms(1) by (simp add: list_all_iff assms(2))
  then show ?thesis by (simp add: list_all_iff)
qed

lemma those_pc_Value:
  assumes "map pc_Value parts = map C xs" and "\<And>x. get (C x) = Some x"
  shows "those (map (\<lambda>q. get (pc_Value q)) parts) = Some xs"
proof -
  have "map (\<lambda>q. get (pc_Value q)) parts = map get (map pc_Value parts)" by simp
  also have "\<dots> = map Some xs" unfolding assms(1) by (simp add: assms(2))
  finally show ?thesis by (simp add: those_map_Some [where g = "\<lambda>x. x", simplified])
qed

lemma mergeContributions_bools:
  assumes "map pc_Value parts = map JBool bs" and "bs \<noteq> []"
  shows "fst (mergeContributions ffmt k parts) = JBool (if deny_key k then True \<in> set bs else False \<notin> set bs)
    \<and> fst (snd (mergeContributions ffmt k parts)) = (True \<in> set bs \<and> False \<in> set bs)"
proof -
  obtain p ps where p: "parts = p # ps" using assms by (cases parts) auto
  show ?thesis
  proof (cases ps)
    case Nil
    with assms p obtain b where "bs = [b]" and "pc_Value p = JBool b" by (cases bs) auto
    with p Nil show ?thesis by (auto simp: mergeContributions_def normalizeJSON_def Let_def)
  next
    case (Cons q qs)
    have "pc_Value p = JBool (hd bs)" using assms p by (cases bs) auto
    with p Cons map_pc_Value_kind [OF assms(1), of kindBool]
      those_pc_Value [OF assms(1), of jsonScalarBool] uniqueBools_gt1 [of bs]
    show ?thesis
      by (simp add: mergeContributions_def Let_def mergeBoolRestrictive_eq del: those.simps)
  qed
qed

lemma mergeContributions_numbers:
  assumes "map pc_Value parts = map JNum xs" and "xs \<noteq> []"
  shows "fst (mergeContributions ffmt k parts) = JNum (if min_key k then Max (set xs) else Min (set xs))"
proof -
  obtain p ps where p: "parts = p # ps" using assms by (cases parts) auto
  obtain y ys where y: "xs = y # ys" using assms(2) by (cases xs) auto
  show ?thesis
  proof (cases ps)
    case Nil
    with assms p y show ?thesis by (auto simp: mergeContributions_def normalizeJSON_def Let_def)
  next
    case (Cons q qs)
    have "pc_Value p = JNum y" using assms p y by auto
    with p Cons y map_pc_Value_kind [OF assms(1), of kindNumber]
      those_pc_Value [OF assms(1), of jsonScalarFloat]
    show ?thesis
      by (simp add: mergeContributions_def Let_def mergeNumericRestrictive_eq del: those.simps)
  qed
qed

lemma mergeContributions_strings:
  assumes "map pc_Value parts = map JStr xs" and "xs \<noteq> []"
  shows "fst (mergeContributions ffmt k parts) = JStr (Min (set xs))
    \<and> fst (snd (mergeContributions ffmt k parts)) = (\<exists>s \<in> set xs. \<exists>t \<in> set xs. s \<noteq> t)"
proof -
  obtain p ps where p: "parts = p # ps" using assms by (cases parts) auto
  obtain y ys where y: "xs = y # ys" using assms(2) by (cases xs) auto
  show ?thesis
  proof (cases ps)
    case Nil
    with assms p y show ?thesis by (auto simp: mergeContributions_def normalizeJSON_def Let_def)
  next
    case (Cons q qs)
    have py: "pc_Value p = JStr y" using assms p y by auto
    have one: "Min (set (y # ys)) = y" if "\<not> (\<exists>t \<in> set ys. t \<noteq> y)"
      using that by (intro Min_eqI) auto
    have conf: "(\<exists>t \<in> set ys. t \<noteq> y) = (\<exists>s \<in> set xs. \<exists>t \<in> set xs. s \<noteq> t)"
      using y by auto
    from py p Cons y map_pc_Value_kind [OF assms(1), of kindString]
      those_pc_Value [OF assms(1), of jsonString] uniqueStrings_gt1 [of y ys] one conf
    show ?thesis
      by (auto simp: mergeContributions_def Let_def mergeStringRestrictive_eq simp del: those.simps)
  qed
qed

section \<open>Flattening against a reference definition\<close>

text \<open>The leaves of a document in visit order, and all contributions of a list of inputs.\<close>

function leaves :: "string \<Rightarrow> json \<Rightarrow> (string \<times> json) list" where
  "leaves pre v =
     (case v of
        JObj m \<Rightarrow>
          if m = [] \<and> pre \<noteq> '''' then [(pre, v)]
          else concat (map (\<lambda>kv. leaves (nextPrefix pre (fst kv)) (snd kv)) (sort_key fst m))
      | _ \<Rightarrow> if pre \<noteq> '''' then [(pre, v)] else [])"
  by pat_completeness auto

termination
  by (relation "measure (\<lambda>(pre, v). size v)") (auto dest: size_member_obj)

declare leaves.simps [simp del]

definition decodable :: "AssignedPayload \<Rightarrow> bool" where
  "decodable inp \<longleftrightarrow> ap_Payload inp = RawEmpty \<or> unmarshal_object (ap_Payload inp) \<noteq> None"

definition payloadObject :: "AssignedPayload \<Rightarrow> json_object" where
  "payloadObject inp = (case unmarshal_object (ap_Payload inp) of Some m \<Rightarrow> m | None \<Rightarrow> [])"

definition contributions :: "AssignedPayload list \<Rightarrow> (string \<times> pathContribution) list" where
  "contributions inputs =
     concat (map (\<lambda>inp. map (\<lambda>(p, v). (p, \<lparr>pc_Source = ap_Source inp, pc_Value = v\<rparr>))
                          (leaves '''' (JObj (payloadObject inp))))
                 (filter (\<lambda>inp. ps_ID (ap_Source inp) \<noteq> uuid_Nil) inputs))"

definition contributionsAt :: "AssignedPayload list \<Rightarrow> string \<Rightarrow> pathContribution list" where
  "contributionsAt inputs path = map snd (filter (\<lambda>e. fst e = path) (contributions inputs))"

definition contributors_at :: "contributors \<Rightarrow> string \<Rightarrow> pathContribution list" where
  "contributors_at acc path = (case go_get acc path of None \<Rightarrow> [] | Some cs \<Rightarrow> cs)"

definition wf_contributors :: "contributors \<Rightarrow> bool" where
  "wf_contributors acc \<longleftrightarrow> distinct (map fst acc) \<and> (\<forall>cs \<in> set (map snd acc). cs \<noteq> [])"

abbreviation add_all :: "(string \<times> pathContribution) list \<Rightarrow> contributors \<Rightarrow> contributors" where
  "add_all \<equiv> fold (\<lambda>e. addContribution (fst e) (snd e))"

lemma fold_concat_map: "fold f (concat (map g xs)) = fold (\<lambda>x. fold f (g x)) xs"
  by (induction xs) (auto simp: fun_eq_iff)

lemma flatten_eq_add_all:
  "flattenContributions pre v src acc
     = add_all (map (\<lambda>(p, x). (p, \<lparr>pc_Source = src, pc_Value = x\<rparr>)) (leaves pre v)) acc"
proof (induction pre v src acc rule: flattenContributions.induct)
  case (1 pre v src acc)
  show ?case
  proof (cases v)
    case (JObj m)
    let ?g = "\<lambda>(p, x). (p, \<lparr>pc_Source = src, pc_Value = x\<rparr>)"
    show ?thesis
    proof (cases "m = [] \<and> pre \<noteq> ''''")
      case True
      with JObj show ?thesis by (subst flattenContributions.simps, subst leaves.simps) simp
    next
      case False
      have "fold (\<lambda>kv. flattenContributions (nextPrefix pre (fst kv)) (snd kv) src) (sort_key fst m) acc
          = fold (\<lambda>kv. add_all (map ?g (leaves (nextPrefix pre (fst kv)) (snd kv)))) (sort_key fst m) acc"
        using 1 [OF JObj False] by (intro fold_cong) auto
      with JObj False show ?thesis
        by (subst flattenContributions.simps, subst leaves.simps)
          (auto simp: map_concat fold_concat_map o_def)
    qed
  qed (subst flattenContributions.simps, subst leaves.simps, simp)+
qed

lemma leaves_empty_root [simp]: "leaves [] (JObj []) = []"
  by (subst leaves.simps) simp

lemma flatten_empty_root [simp]: "flattenContributions [] (JObj []) src acc = acc"
  by (simp add: flatten_eq_add_all)

lemma collectContributions_Inr:
  assumes "\<forall>inp \<in> set inputs. ps_ID (ap_Source inp) \<noteq> uuid_Nil \<longrightarrow> decodable inp"
  shows "collectContributions inputs acc = Inr (add_all (contributions inputs) acc)"
  using assms
proof (induction inputs acc rule: collectContributions.induct)
  case (1 acc)
  then show ?case by (simp add: contributions_def)
next
  case (2 inp inps acc)
  show ?case
  proof (cases "ps_ID (ap_Source inp) = uuid_Nil")
    case True
    with 2 show ?thesis by (simp add: contributions_def)
  next
    case nz: False
    show ?thesis
    proof (cases "ap_Payload inp = RawEmpty \<or> ap_Payload inp = RawDoc JNull")
      case True
      then have "payloadObject inp = []" by (auto simp: payloadObject_def)
      with 2 nz True show ?thesis by (simp add: contributions_def)
    next
      case False
      with 2 nz obtain m where m: "unmarshal_object (ap_Payload inp) = Some m"
        by (auto simp: decodable_def)
      with 2 nz False show ?thesis
        by (simp add: contributions_def flatten_eq_add_all payloadObject_def)
    qed
  qed
qed

lemma collectContributions_Inl:
  "collectContributions inputs acc = Inl e \<longleftrightarrow>
     (\<exists>good bad rest. inputs = good @ bad # rest \<and> ps_ID (ap_Source bad) \<noteq> uuid_Nil \<and> \<not> decodable bad
        \<and> (\<forall>inp \<in> set good. ps_ID (ap_Source inp) \<noteq> uuid_Nil \<longrightarrow> decodable inp)
        \<and> e = ProfilePayloadError (ps_ID (ap_Source bad)))" (is "?L inputs acc = ?R inputs")
proof (induction inputs acc rule: collectContributions.induct)
  case (1 acc)
  then show ?case by simp
next
  case (2 inp inps acc)
  show ?case
  proof (cases "ps_ID (ap_Source inp) \<noteq> uuid_Nil \<and> \<not> decodable inp")
    case True
    have "?R (inp # inps) \<longleftrightarrow> e = ProfilePayloadError (ps_ID (ap_Source inp))"
    proof
      assume "?R (inp # inps)"
      with True show "e = ProfilePayloadError (ps_ID (ap_Source inp))"
        by (auto simp: Cons_eq_append_conv)
    next
      assume "e = ProfilePayloadError (ps_ID (ap_Source inp))"
      with True show "?R (inp # inps)"
        by (intro exI [of _ "[]"] exI [of _ inp] exI [of _ inps]) simp
    qed
    with True show ?thesis by (auto simp: decodable_def)
  next
    case False
    have "?R (inp # inps) \<longleftrightarrow> ?R inps"
    proof
      assume "?R (inp # inps)"
      with False show "?R inps" by (fastforce simp: Cons_eq_append_conv)
    next
      assume "?R inps"
      then obtain good bad rest where g: "inps = good @ bad # rest" "ps_ID (ap_Source bad) \<noteq> uuid_Nil"
        "\<not> decodable bad" "\<forall>inp \<in> set good. ps_ID (ap_Source inp) \<noteq> uuid_Nil \<longrightarrow> decodable inp"
        "e = ProfilePayloadError (ps_ID (ap_Source bad))" by blast
      with False have "inp # inps = (inp # good) @ bad # rest"
        "\<forall>inp \<in> set (inp # good). ps_ID (ap_Source inp) \<noteq> uuid_Nil \<longrightarrow> decodable inp" by auto
      with g show "?R (inp # inps)" by blast
    qed
    with False 2 show ?thesis by (auto simp: decodable_def split: option.splits)
  qed
qed

lemma contributors_at_add:
  "contributors_at (addContribution p c acc) q = contributors_at acc q @ (if p = q then [c] else [])"
  by (simp add: contributors_at_def addContribution_def update_conv' split: option.splits)

lemma snd_update_subset: "set (map snd (AList.update k v m)) \<subseteq> insert v (set (map snd m))"
  by (induction m) auto

lemma wf_contributors_add: "wf_contributors acc \<Longrightarrow> wf_contributors (addContribution p c acc)"
  unfolding wf_contributors_def addContribution_def
  using snd_update_subset [of p _ acc] by (fastforce intro: distinct_update)

lemma contributors_at_add_all:
  "contributors_at (add_all es acc) q = contributors_at acc q @ map snd (filter (\<lambda>e. fst e = q) es)"
  by (induction es arbitrary: acc) (auto simp: contributors_at_add)

lemma wf_contributors_add_all: "wf_contributors acc \<Longrightarrow> wf_contributors (add_all es acc)"
  by (induction es arbitrary: acc) (auto simp: wf_contributors_add)

section \<open>The merge against a declarative specification\<close>

text \<open>The specification: every path that some profile sets, in order, gets the merge of exactly the
  contributions to that path, in input order.\<close>

definition pathsOf :: "AssignedPayload list \<Rightarrow> string list" where
  "pathsOf inputs = sorted_list_of_set (fst ` set (contributions inputs))"

definition mergedAt ::
  "(rat \<Rightarrow> string) \<Rightarrow> AssignedPayload list \<Rightarrow> string \<Rightarrow> json \<times> bool \<times> ConflictProfile list \<times> json list" where
  "mergedAt ffmt inputs path = mergeContributions ffmt (pathLeaf path) (contributionsAt inputs path)"

abbreviation conflictAt :: "(rat \<Rightarrow> string) \<Rightarrow> AssignedPayload list \<Rightarrow> string \<Rightarrow> bool" where
  "conflictAt ffmt inputs path \<equiv> fst (snd (mergedAt ffmt inputs path))"

definition effectiveOf :: "(rat \<Rightarrow> string) \<Rightarrow> AssignedPayload list \<Rightarrow> json_object" where
  "effectiveOf ffmt inputs = unflattenLeaves (map (\<lambda>p. (p, fst (mergedAt ffmt inputs p))) (pathsOf inputs))"

definition mergeSpec :: "(rat \<Rightarrow> string) \<Rightarrow> AssignedPayload list \<Rightarrow> MergeResult" where
  "mergeSpec ffmt inputs =
     (let rootm = effectiveOf ffmt inputs; cs = filter (conflictAt ffmt inputs) (pathsOf inputs)
      in \<lparr>EffectivePayload = rootm,
          FlatSettings = map (\<lambda>p. \<lparr>es_Path = p, es_Value = reportedValue rootm p (fst (mergedAt ffmt inputs p)),
             es_Conflict = conflictAt ffmt inputs p, es_SourceProfiles = sourceProfiles (contributionsAt inputs p)\<rparr>)
             (pathsOf inputs),
          Conflicts = map (\<lambda>p. \<lparr>sc_Path = p, sc_EffectiveValue = reportedValue rootm p (fst (mergedAt ffmt inputs p)),
             sc_ConflictingProfiles = fst (snd (snd (mergedAt ffmt inputs p))),
             sc_ContributedNormalized = snd (snd (snd (mergedAt ffmt inputs p)))\<rparr>) cs,
          ConflictPaths = set cs,
          ConflictProfiles = (\<Union>p \<in> set cs. cp_ID ` set (fst (snd (snd (mergedAt ffmt inputs p)))))\<rparr>)"

lemma add_all_Nil_keys: "fst ` set (add_all es []) = fst ` set es"
proof -
  have "fst ` set (addContribution p c acc) = insert p (fst ` set acc)" for p c acc
    by (simp add: addContribution_def flip: dom_map_of_conv_image_fst) (auto simp: update_conv')
  then have "fst ` set (add_all es acc) = fst ` set es \<union> fst ` set acc" for acc
    by (induction es arbitrary: acc) auto
  then show ?thesis by simp
qed

lemma add_all_get:
  assumes "p \<in> fst ` set es"
  shows "go_get (add_all es []) p = Some (map snd (filter (\<lambda>e. fst e = p) es))"
proof -
  have "p \<in> fst ` set (add_all es [])" using assms by (simp add: add_all_Nil_keys)
  then obtain cs where cs: "go_get (add_all es []) p = Some cs"
    by (auto simp: map_of_eq_None_iff dest: weak_map_of_SomeI)
  with contributors_at_add_all [of es "[]" p] show ?thesis by (simp add: contributors_at_def)
qed

lemma add_all_paths: "sort (map fst (add_all es [])) = sorted_list_of_set (fst ` set es)"
proof -
  have "distinct (map fst (add_all es []))"
    using wf_contributors_add_all [of "[]" es] by (simp add: wf_contributors_def)
  then have "sort (map fst (add_all es [])) = sorted_list_of_set (set (map fst (add_all es [])))"
    by (simp only: sorted_list_of_set_sort_remdups distinct_remdups_id)
  then show ?thesis by (simp add: add_all_Nil_keys)
qed

lemma contributions_Nil [simp]: "contributions [] = []"
  by (simp add: contributions_def)

lemma merge_rows:
  "map (\<lambda>path. let parts = the (go_get (add_all (contributions inputs) []) path)
       in (path, parts, mergeContributions ffmt (pathLeaf path) parts)) (sort (map fst (add_all (contributions inputs) [])))
   = map (\<lambda>p. (p, contributionsAt inputs p, mergedAt ffmt inputs p)) (pathsOf inputs)"
  by (auto simp: add_all_paths pathsOf_def Let_def add_all_get contributionsAt_def mergedAt_def)

lemma MergeAssignedPayloads_eq:
  assumes "\<forall>inp \<in> set inputs. ps_ID (ap_Source inp) \<noteq> uuid_Nil \<longrightarrow> decodable inp"
  shows "MergeAssignedPayloads ffmt inputs = Inr (mergeSpec ffmt inputs)"
proof (cases "inputs = []")
  case True
  then show ?thesis
    by (simp add: MergeAssignedPayloads_def mergeSpec_def effectiveOf_def pathsOf_def unflattenLeaves_def Let_def)
next
  case False
  have sorted: "sorted (pathsOf inputs)" by (simp add: pathsOf_def)
  show ?thesis
    unfolding MergeAssignedPayloads_def collectContributions_Inr [OF assms] sum.case if_not_P [OF False]
      Let_def merge_rows [unfolded Let_def]
    by (simp add: Let_def mergeSpec_def effectiveOf_def filter_map o_def case_prod_unfold
        sort_key_sorted sorted image_Union)
qed

section \<open>Reading the nested result back\<close>

lemma Join_append:
  "xs \<noteq> [] \<Longrightarrow> ys \<noteq> [] \<Longrightarrow> Join (xs @ ys) sep = Join xs sep @ sep @ Join ys sep"
proof (induction xs sep rule: Join.induct)
  case (2 s sep)
  then show ?case by (cases ys) auto
qed auto

lemma Split_prefix:
  assumes "prefix (Split p c) (Split q c)"
  shows "p = q \<or> prefix (p @ [c]) q"
proof -
  obtain r where r: "Split q c = Split p c @ r" using assms by (auto simp: prefix_def)
  show ?thesis
  proof (cases "r = []")
    case True
    with r show ?thesis by (metis Join_Split append_Nil2)
  next
    case False
    then have "q = p @ [c] @ Join r [c]"
      using Join_append [OF Split_not_Nil False, of p c "[c]"] r by (metis Join_Split)
    then show ?thesis by (simp add: prefix_def)
  qed
qed

lemma Split_inject: "Split p c = Split q c \<longleftrightarrow> p = q"
  by (metis Join_Split)

text \<open>One write: it is read back, it does not disturb paths that are neither above nor below it, and it
  turns every strict prefix of its path into an object.\<close>

lemma lookup_setAt_same: "S \<noteq> [] \<Longrightarrow> lookupSegments (setAtSegments cur S v) S = Some v"
  by (induction cur S v rule: setAtSegments.induct) (auto simp: update_conv')

lemma lookup_setAt_other:
  assumes "\<not> prefix S T" and "\<not> prefix T S"
  shows "lookupSegments (setAtSegments cur S v) T = lookupSegments cur T"
  using assms
proof (induction cur S v arbitrary: T rule: setAtSegments.induct)
  case (2 cur sg v)
  then show ?case by (cases "(cur, T)" rule: lookupSegments.cases) (auto simp: update_conv')
next
  case (3 cur sg sg' segs v)
  show ?case
  proof (cases "(cur, T)" rule: lookupSegments.cases)
    case (3 cur' t t' ts)
    show ?thesis
    proof (cases "t = sg")
      case True
      have "lookupSegments [] (t' # ts) = None" by (cases ts) auto
      with True 3 "3.prems" "3.IH" [of "t' # ts"] show ?thesis
        by (auto simp: update_conv' split: option.splits json.splits)
    next
      case False
      with 3 show ?thesis by (simp add: update_conv')
    qed
  qed (use 3 in \<open>auto simp: update_conv'\<close>)
qed auto

lemma lookup_setAt_below:
  assumes "strict_prefix T S" and "T \<noteq> []"
  shows "\<exists>m. lookupSegments (setAtSegments cur S v) T = Some (JObj m)"
  using assms
proof (induction cur S v arbitrary: T rule: setAtSegments.induct)
  case (3 cur sg sg' segs v)
  then show ?case
    by (cases "(cur, T)" rule: lookupSegments.cases) (auto simp: update_conv' strict_prefix_def)
qed (auto simp: strict_prefix_def prefix_Cons)

definition writeLeaves :: "(string list \<times> json) list \<Rightarrow> json_object \<Rightarrow> json_object" where
  "writeLeaves ws = fold (\<lambda>w rootm. setAtSegments rootm (fst w) (snd w)) ws"

lemma writeLeaves_other:
  assumes "\<forall>w \<in> set ws. \<not> prefix (fst w) T \<and> \<not> prefix T (fst w)"
  shows "lookupSegments (writeLeaves ws rootm) T = lookupSegments rootm T"
  using assms
proof (induction ws arbitrary: rootm)
  case (Cons w ws)
  then show ?case by (simp add: writeLeaves_def lookup_setAt_other)
qed (simp add: writeLeaves_def)

lemma writeLeaves_object:
  assumes "\<forall>w \<in> set ws. \<not> prefix (fst w) T" and "T \<noteq> []"
    and "\<exists>m. lookupSegments rootm T = Some (JObj m)"
  shows "\<exists>m. lookupSegments (writeLeaves ws rootm) T = Some (JObj m)"
  using assms
proof (induction ws arbitrary: rootm)
  case (Cons w ws)
  obtain S v where w: "w = (S, v)" by (cases w)
  have "\<exists>m. lookupSegments (setAtSegments rootm S v) T = Some (JObj m)"
  proof (cases "prefix T S")
    case True
    moreover have "T \<noteq> S" using Cons.prems(1) w by auto
    ultimately show ?thesis using Cons.prems(2) by (intro lookup_setAt_below) (auto simp: strict_prefix_def)
  next
    case False
    with Cons.prems(1) Cons.prems(3) w show ?thesis by (simp add: lookup_setAt_other)
  qed
  with Cons w show ?case by (simp add: writeLeaves_def)
qed (simp add: writeLeaves_def)

text \<open>\<open>unflattenLeaves\<close> writes in path order, hence prefixes first.\<close>

abbreviation segs :: "string \<Rightarrow> string list" where
  "segs p \<equiv> Split p (CHR ''.'')"

lemma unflatten_sorted:
  assumes "sorted ps" and "\<And>p. p \<in> set ps \<Longrightarrow> p \<noteq> ''''"
  shows "unflattenLeaves (map (\<lambda>p. (p, f p)) ps) = writeLeaves (map (\<lambda>p. (segs p, f p)) ps) []"
proof -
  have "sort_key fst (map (\<lambda>p. (p, f p)) ps) = map (\<lambda>p. (p, f p)) ps"
    by (intro sort_key_sorted) (simp add: o_def assms)
  then show ?thesis
    by (simp add: unflattenLeaves_def writeLeaves_def fold_map o_def)
      (intro fold_cong, auto simp: setAtDottedPath_def fun_eq_iff assms(2))
qed

lemma prefix_le: "prefix p q \<Longrightarrow> p \<le> q" for p q :: string
proof (induction p arbitrary: q)
  case (Cons a p)
  then show ?case by (cases q) auto
qed simp

lemma segs_prefix_le: "prefix (segs q) (segs p) \<Longrightarrow> q \<le> p"
  by (metis Split_prefix append_prefixD order_refl prefix_le)

lemma writeLeaves_append: "writeLeaves (xs @ ys) rootm = writeLeaves ys (writeLeaves xs rootm)"
  by (simp add: writeLeaves_def)

lemma unflatten_lookup:
  assumes s: "sorted_wrt (<) ps" and ne: "\<And>p. p \<in> set ps \<Longrightarrow> p \<noteq> ''''" and p: "p \<in> set ps"
  shows "if \<exists>q \<in> set ps. prefix (p @ ''.'') q
         then \<exists>m. lookupSegments (unflattenLeaves (map (\<lambda>p. (p, f p)) ps)) (segs p) = Some (JObj m)
         else lookupSegments (unflattenLeaves (map (\<lambda>p. (p, f p)) ps)) (segs p) = Some (f p)"
proof -
  obtain xs ys where ps: "ps = xs @ p # ys" using p by (auto simp: in_set_conv_decomp)
  have later: "p < q" if "q \<in> set ys" for q using s that by (auto simp: ps sorted_wrt_append)
  have nopre: "\<not> prefix (segs q) (segs p)" if "q \<in> set ys" for q
    using later [OF that] segs_prefix_le [of q p] by auto
  let ?w = "\<lambda>p. (segs p, f p)"
  let ?r = "setAtSegments (writeLeaves (map ?w xs) []) (segs p) (f p)"
  have u: "unflattenLeaves (map (\<lambda>p. (p, f p)) ps) = writeLeaves (map ?w ys) ?r"
    using s ne by (subst unflatten_sorted)
      (auto simp: ps writeLeaves_append writeLeaves_def strict_sorted_iff)
  have here: "lookupSegments ?r (segs p) = Some (f p)" by (simp add: lookup_setAt_same)
  show ?thesis
  proof (cases "\<exists>q \<in> set ps. prefix (p @ ''.'') q")
    case False
    have "\<not> prefix (segs p) (segs q)" if "q \<in> set ys" for q
      using later [OF that] Split_prefix [of p "CHR ''.''" q] False that by (auto simp: ps)
    with nopre here False show ?thesis
      unfolding u by (subst (2) writeLeaves_other) auto
  next
    case True
    then obtain q where q: "q \<in> set ps" "prefix (p @ ''.'') q" by blast
    then obtain r where "q = p @ CHR ''.'' # r" by (auto simp: prefix_def)
    then have sp: "strict_prefix (segs p) (segs q)" by (simp add: Split_append strict_prefix_def)
    have "p < q" using q(2) prefix_le [of p q] by (auto simp: prefix_def order_less_le)
    then have "q \<in> set ys" using q(1) s by (auto simp: ps sorted_wrt_append)
    then obtain as bs where ys: "ys = as @ q # bs" by (auto simp: in_set_conv_decomp)
    have "\<exists>m. lookupSegments (setAtSegments (writeLeaves (map ?w as) ?r) (segs q) (f q)) (segs p) = Some (JObj m)"
      using sp by (intro lookup_setAt_below) auto
    then have "\<exists>m. lookupSegments (writeLeaves (map ?w bs) (setAtSegments (writeLeaves (map ?w as) ?r) (segs q) (f q))) (segs p) = Some (JObj m)"
      using nopre ys by (intro writeLeaves_object) auto
    moreover have "writeLeaves (map ?w ys) ?r
        = writeLeaves (map ?w bs) (setAtSegments (writeLeaves (map ?w as) ?r) (segs q) (f q))"
      by (simp add: ys writeLeaves_append) (simp add: writeLeaves_def)
    ultimately show ?thesis using True unfolding u by simp
  qed
qed

section \<open>Merging string arrays\<close>

lemma collect_strings_map:
  "\<exists>uni'. collect_strings (map JStr ss) uni = Some uni' \<and> set uni' = set uni \<union> set ss \<and> (distinct uni \<longrightarrow> distinct uni')"
proof (induction ss arbitrary: uni)
  case (Cons t ss)
  from Cons [of "if t \<in> set uni then uni else uni @ [t]"] show ?case
    by (cases "t \<in> set uni") (auto simp: insert_absorb)
qed simp

lemma norm_json_strings [simp]: "norm_json (JArr (map JStr ss)) = JArr (map JStr ss)"
  by simp

lemma map_norm_JStr [simp]: "map (norm_json \<circ> JStr) ss = map JStr ss"
  by simp

lemma map_JStr_inject [simp]: "map JStr ss = map JStr ts \<longleftrightarrow> ss = ts"
  by (auto simp: inj_map_eq_map inj_on_def)

lemma array_loop_strings:
  assumes "map pc_Value parts = map (\<lambda>ss. JArr (map JStr ss)) sss" and "distinct uni"
  shows "\<exists>uni'. array_loop (JArr (map JStr ss0)) parts uni conflict
        = Some (True, uni', conflict \<or> (\<exists>ss \<in> set sss. ss \<noteq> ss0))
      \<and> set uni' = set uni \<union> \<Union> (set ` set sss) \<and> distinct uni'"
  using assms
proof (induction parts arbitrary: sss uni conflict)
  case (Cons p parts)
  then obtain ss sss' where sss: "sss = ss # sss'" by (cases sss) auto
  obtain u where u: "collect_strings (map JStr ss) uni = Some u" "set u = set uni \<union> set ss" "distinct u"
    using collect_strings_map [of ss uni] Cons.prems(2) by blast
  from Cons.IH [of sss' u "conflict \<or> ss \<noteq> ss0"] Cons.prems u sss show ?case
    by (auto simp: normalizeJSON_def Let_def Un_assoc)
qed simp

lemma mergeContributions_arrays:
  assumes "map pc_Value parts = map (\<lambda>ss. JArr (map JStr ss)) sss" and "sss \<noteq> []"
  shows "fst (mergeContributions ffmt k parts) = JArr (map JStr
             (if \<exists>ss \<in> set sss. ss \<noteq> hd sss then sorted_list_of_set (\<Union> (set ` set sss)) else hd sss))
    \<and> fst (snd (mergeContributions ffmt k parts)) = (\<exists>ss \<in> set sss. ss \<noteq> hd sss)"
proof -
  obtain p ps where p: "parts = p # ps" using assms by (cases parts) auto
  obtain y ys where y: "sss = y # ys" using assms(2) by (cases sss) auto
  have py: "pc_Value p = JArr (map JStr y)" using assms p y by auto
  show ?thesis
  proof (cases ps)
    case Nil
    with assms p y show ?thesis by (auto simp: mergeContributions_def normalizeJSON_def Let_def)
  next
    case (Cons q qs)
    obtain u where u: "array_loop (JArr (map JStr y)) parts [] False
        = Some (True, u, \<exists>ss \<in> set sss. ss \<noteq> y)" "set u = \<Union> (set ` set sss)" "distinct u"
      using array_loop_strings [OF assms(1), of "[]" y False] by auto
    have "sort u = sorted_list_of_set (\<Union> (set ` set sss))"
      by (metis u(2,3) distinct_remdups_id sorted_list_of_set_sort_remdups)
    with u y have m: "mergeArrayRestrictive ffmt p ps = (JArr (map JStr
             (if \<exists>ss \<in> set sss. ss \<noteq> hd sss then sorted_list_of_set (\<Union> (set ` set sss)) else hd sss)),
             \<exists>ss \<in> set sss. ss \<noteq> hd sss)"
      unfolding mergeArrayRestrictive_def Let_def normalizeJSON_def py norm_json_strings p [symmetric] by auto
    from m py p Cons map_pc_Value_kind [OF assms(1), of kindArray] show ?thesis
      by (simp add: mergeContributions_def Let_def)
  qed
qed

section \<open>Conflict flags of numbers\<close>

lemma uniq_loop_length: "length uniq \<le> length (uniq_loop eq uniq vs)"
proof (induction eq uniq vs rule: uniq_loop.induct)
  case (2 eq uniq v vs)
  then show ?case by (cases "list_ex (eq v) uniq") (auto intro: Suc_leD)
qed simp

lemma uniq_loop_gt1: "length (uniq_loop eq [x] vs) > 1 \<longleftrightarrow> (\<exists>v \<in> set vs. \<not> eq v x)"
proof (induction vs)
  case (Cons v vs)
  then show ?case using uniq_loop_length [of "[x, v]" eq vs] by auto
qed simp

lemma nearlyEqual_refl [simp]: "nearlyEqual x x"
  by (simp add: nearlyEqual_def)

lemma mergeContributions_numbers_conflict:
  assumes "map pc_Value parts = map JNum xs" and "xs \<noteq> []"
  shows "fst (snd (mergeContributions ffmt k parts)) = (\<exists>x \<in> set xs. \<not> nearlyEqual x (hd xs))"
proof -
  obtain p ps where p: "parts = p # ps" using assms by (cases parts) auto
  obtain y ys where y: "xs = y # ys" using assms(2) by (cases xs) auto
  show ?thesis
  proof (cases ps)
    case Nil
    with assms p y show ?thesis by (auto simp: mergeContributions_def normalizeJSON_def Let_def)
  next
    case (Cons q qs)
    have "pc_Value p = JNum y" using assms p y by auto
    with p Cons y map_pc_Value_kind [OF assms(1), of kindNumber]
      those_pc_Value [OF assms(1), of jsonScalarFloat] uniq_loop_gt1 [of nearlyEqual y ys]
    show ?thesis
      by (auto simp: mergeContributions_def Let_def uniqueFloats_def simp del: those.simps)
  qed
qed

section \<open>Who takes part in a conflict\<close>

lemma conflict_participants:
  "fst (snd (mergeContributions ffmt k parts)) \<Longrightarrow> fst (snd (snd (mergeContributions ffmt k parts))) = conflictParticipants parts"
proof (cases parts)
  case (Cons p ps)
  assume c: "fst (snd (mergeContributions ffmt k parts))"
  show ?thesis
  proof (cases ps)
    case Nil
    with c Cons show ?thesis by (simp add: mergeContributions_def Let_def)
  next
    case ps: (Cons q qs)
    show ?thesis
    proof (cases "list_all (\<lambda>q. contributionKind (pc_Value q) = contributionKind (pc_Value p)) (q # qs)")
      case False
      with Cons ps show ?thesis by (simp add: mergeContributions_def Let_def)
    next
      case True
      then have same: "(\<not> list_all (\<lambda>q. contributionKind (pc_Value q) = contributionKind (pc_Value p)) (q # qs)) = False"
        by simp
      from c show ?thesis
        unfolding mergeContributions_def Let_def Cons ps list.case same if_False
        by (cases "contributionKind (pc_Value p)")
          (simp_all split: option.splits list.splits prod.splits if_splits del: those.simps list.map)
    qed
  qed
qed (simp add: mergeContributions_def)

lemma conflictParticipants_ids:
  "cp_ID ` set (conflictParticipants parts) = (\<lambda>p. ps_ID (pc_Source p)) ` set parts - {uuid_Nil}"
proof -
  have "cp_ID ` set (conflictParticipants parts)
      = (\<lambda>p. ps_ID (pc_Source p)) ` set (dedup_by (\<lambda>p. ps_ID (pc_Source p)) [] (filter (\<lambda>p. ps_ID (pc_Source p) \<noteq> uuid_Nil) parts))"
    by (simp add: conflictParticipants_def image_image)
  also have "\<dots> = (\<lambda>p. ps_ID (pc_Source p)) ` set parts - {uuid_Nil}"
    by (auto simp: set_dedup_by_key)
  finally show ?thesis .
qed

lemma contribution_source_not_Nil:
  "c \<in> set (contributionsAt inputs p) \<Longrightarrow> ps_ID (pc_Source c) \<noteq> uuid_Nil"
  by (auto simp: contributionsAt_def contributions_def)

lemma contribution_ids_not_Nil:
  "uuid_Nil \<notin> (\<lambda>c. ps_ID (pc_Source c)) ` set (contributionsAt inputs p)"
  using contribution_source_not_Nil by fastforce

end
