(* ===== verification/Policy_Correct.thy ===== *)
theory Policy_Correct
  imports Policy_Facts
begin

text \<open>
  The properties of \<open>MergeAssignedPayloads\<close>: it computes the declarative specification
  \<open>mergeSpec\<close> or names the first undecodable profile, the effective value of each kind of setting is
  the restrictive one, conflicts name their participants, and the nested payload reads back.
\<close>

section \<open>From the result to the specification\<close>

lemma MergeAssignedPayloads_Inl_iff:
  "MergeAssignedPayloads ffmt inputs = Inl e \<longleftrightarrow> collectContributions inputs [] = Inl e"
  by (auto simp: MergeAssignedPayloads_def Let_def split: sum.splits)

lemma MergeAssignedPayloads_decodable:
  assumes "MergeAssignedPayloads ffmt inputs = Inr r"
  shows "\<forall>inp \<in> set inputs. ps_ID (ap_Source inp) \<noteq> uuid_Nil \<longrightarrow> decodable inp"
proof (rule ccontr)
  assume "\<not> ?thesis"
  then have "\<exists>inp \<in> set inputs. ps_ID (ap_Source inp) \<noteq> uuid_Nil \<and> \<not> decodable inp" by blast
  then obtain good bad rest where "inputs = good @ bad # rest"
    and "ps_ID (ap_Source bad) \<noteq> uuid_Nil \<and> \<not> decodable bad"
    and "\<forall>inp \<in> set good. \<not> (ps_ID (ap_Source inp) \<noteq> uuid_Nil \<and> \<not> decodable inp)"
    by (auto dest!: split_list_first_prop)
  then have "collectContributions inputs [] = Inl (ProfilePayloadError (ps_ID (ap_Source bad)))"
    unfolding collectContributions_Inl by blast
  with assms show False by (metis MergeAssignedPayloads_Inl_iff sum.distinct(1))
qed

lemma MergeAssignedPayloads_Inr:
  assumes "MergeAssignedPayloads ffmt inputs = Inr r"
  shows "r = mergeSpec ffmt inputs"
  using MergeAssignedPayloads_eq [OF MergeAssignedPayloads_decodable [OF assms], of ffmt] assms by simp

lemma pathsOf_set: "p \<in> set (pathsOf inputs) \<longleftrightarrow> contributionsAt inputs p \<noteq> []"
  by (force simp: pathsOf_def contributionsAt_def filter_empty_conv)

lemma pathsOf_sorted: "sorted_wrt (<) (pathsOf inputs)"
  by (simp add: pathsOf_def)

lemma nextPrefix_not_Nil: "pre \<noteq> [] \<Longrightarrow> nextPrefix pre k \<noteq> []"
  by (simp add: nextPrefix_def)

lemma leaves_path_not_Nil: "(p, x) \<in> set (leaves pre v) \<Longrightarrow> p \<noteq> []"
proof (induction pre v rule: leaves.induct)
  case (1 pre v)
  from 1(2) show ?case
    by (subst (asm) leaves.simps) (auto split: json.splits if_splits dest: 1(1))
qed

lemma pathsOf_not_Nil: "p \<in> set (pathsOf inputs) \<Longrightarrow> p \<noteq> []"
  by (auto simp: pathsOf_def contributions_def dest: leaves_path_not_Nil)

lemma FlatSettings_mem:
  assumes "MergeAssignedPayloads ffmt inputs = Inr r" and "s \<in> set (FlatSettings r)"
  shows "es_Value s = reportedValue (EffectivePayload r) (es_Path s) (fst (mergedAt ffmt inputs (es_Path s)))"
    and "es_Conflict s = conflictAt ffmt inputs (es_Path s)"
    and "contributionsAt inputs (es_Path s) \<noteq> []"
  using assms(2) unfolding MergeAssignedPayloads_Inr [OF assms(1)]
  by (auto simp: mergeSpec_def Let_def pathsOf_set)

section \<open>An example\<close>

definition exampleProfile :: "uuid \<Rightarrow> string \<Rightarrow> json_object \<Rightarrow> AssignedPayload" where
  "exampleProfile u n m = \<lparr>ap_Source = \<lparr>ps_ID = u, ps_Name = n\<rparr>, ap_Payload = RawDoc (JObj m)\<rparr>"

definition exampleInputs :: "AssignedPayload list" where
  "exampleInputs =
     [exampleProfile 1 ''base''
        [(''usb_blocked'', JBool False), (''pw'', JObj [(''min_len'', JNum 8)]), (''tz'', JStr ''UTC''),
         (''apps'', JArr [JStr ''b'', JStr ''a'']), (''vpn'', JStr ''on'')],
      exampleProfile 2 ''strict''
        [(''usb_blocked'', JBool True), (''pw'', JObj [(''min_len'', JNum 12)]), (''tz'', JStr ''CET''),
         (''apps'', JArr [JStr ''c'']), (''vpn'', JObj [(''mode'', JStr ''full'')])]]"

definition exampleResult :: MergeResult where
  "exampleResult = mergeSpec (\<lambda>_. ''0'') exampleInputs"

lemma example_decodable: "\<forall>inp \<in> set exampleInputs. ps_ID (ap_Source inp) \<noteq> uuid_Nil \<longrightarrow> decodable inp"
  by (simp add: exampleInputs_def exampleProfile_def decodable_def)

lemma example_merge: "MergeAssignedPayloads (\<lambda>_. ''0'') exampleInputs = Inr exampleResult"
  unfolding exampleResult_def by (rule MergeAssignedPayloads_eq [OF example_decodable])

lemma example_setting:
  assumes "contributionsAt exampleInputs p \<noteq> []"
  obtains s where "s \<in> set (FlatSettings exampleResult)" and "es_Path s = p"
proof -
  have "es_Path ` set (FlatSettings exampleResult) = set (pathsOf exampleInputs)"
    by (simp add: exampleResult_def mergeSpec_def Let_def image_image)
  moreover have "p \<in> set (pathsOf exampleInputs)" using assms by (simp add: pathsOf_set)
  ultimately have "p \<in> es_Path ` set (FlatSettings exampleResult)" by simp
  with that show thesis by blast
qed

lemma example_contributions:
  "map pc_Value (contributionsAt exampleInputs ''usb_blocked'') = [JBool False, JBool True]"
  "map pc_Value (contributionsAt exampleInputs ''pw.min_len'') = [JNum 8, JNum 12]"
  "map pc_Value (contributionsAt exampleInputs ''tz'') = [JStr ''UTC'', JStr ''CET'']"
  "map pc_Value (contributionsAt exampleInputs ''apps'') = [JArr [JStr ''b'', JStr ''a''], JArr [JStr ''c'']]"
  "map pc_Value (contributionsAt exampleInputs ''vpn'') = [JStr ''on'']"
  "map pc_Value (contributionsAt exampleInputs ''vpn.mode'') = [JStr ''full'']"
  by code_simp+

section \<open>Properties\<close>

text \<open>C1: when every payload of a profile with an id decodes to an object, the merge succeeds and its
  result is the declarative specification: each path that some profile sets, in strictly increasing
  order, carries the restrictive merge of exactly the contributions to that path in input order, and
  the conflict report lists exactly the conflicting paths and their profiles.\<close>

theorem merge_refines_spec:
  assumes "\<forall>inp \<in> set inputs. ps_ID (ap_Source inp) \<noteq> uuid_Nil \<longrightarrow> decodable inp"
  shows "MergeAssignedPayloads ffmt inputs = Inr (mergeSpec ffmt inputs)
    \<and> sorted_wrt (<) (map es_Path (FlatSettings (mergeSpec ffmt inputs)))
    \<and> set (map es_Path (FlatSettings (mergeSpec ffmt inputs))) = {p. contributionsAt inputs p \<noteq> []}"
  using MergeAssignedPayloads_eq [OF assms] pathsOf_sorted [of inputs]
  by (auto simp: mergeSpec_def Let_def o_def pathsOf_set)

theorem merge_refines_spec_witness:
  "MergeAssignedPayloads (\<lambda>_. ''0'') exampleInputs = Inr (mergeSpec (\<lambda>_. ''0'') exampleInputs)"
  using merge_refines_spec [of exampleInputs "\<lambda>_. ''0''"] example_decodable by simp

text \<open>The merge fails exactly when some profile with an id has a payload that does not decode to
  an object, and the error names the first such profile.\<close>

theorem merge_error_iff:
  "MergeAssignedPayloads ffmt inputs = Inl (ProfilePayloadError u) \<longleftrightarrow>
     (\<exists>good bad rest. inputs = good @ bad # rest \<and> u = ps_ID (ap_Source bad) \<and> u \<noteq> uuid_Nil \<and> \<not> decodable bad
        \<and> list_all (\<lambda>inp. ps_ID (ap_Source inp) = uuid_Nil \<or> decodable inp) good)"
  unfolding MergeAssignedPayloads_Inl_iff collectContributions_Inl
  by (auto simp: list_all_iff)

text \<open>C2: restrictive booleans. A setting to which profiles contribute only booleans is true, for a key
  ending in \<open>_disabled\<close>, \<open>_blocked\<close> or \<open>_denied\<close>, as soon as one profile says true, and for every other
  key only if all profiles say true; it is flagged as a conflict exactly when both values occur.\<close>

theorem merged_bool:
  assumes "MergeAssignedPayloads ffmt inputs = Inr r" and "s \<in> set (FlatSettings r)"
    and "map pc_Value (contributionsAt inputs (es_Path s)) = map JBool bs"
  shows "es_Value s = JBool (if deny_key (pathLeaf (es_Path s)) then True \<in> set bs else False \<notin> set bs)
    \<and> es_Conflict s = (True \<in> set bs \<and> False \<in> set bs)"
proof -
  have "bs \<noteq> []" using FlatSettings_mem(3) [OF assms(1,2)] assms(3) by auto
  from mergeContributions_bools [OF assms(3) this] FlatSettings_mem(1,2) [OF assms(1,2)]
  show ?thesis by (simp add: mergedAt_def reportedValue_def)
qed

theorem merged_bool_witness:
  "\<exists>s \<in> set (FlatSettings exampleResult). es_Path s = ''usb_blocked'' \<and> es_Value s = JBool True \<and> es_Conflict s"
proof -
  obtain s where s: "s \<in> set (FlatSettings exampleResult)" "es_Path s = ''usb_blocked''"
    using example_contributions(1) by (auto intro: example_setting [of "''usb_blocked''"])
  have "deny_key (pathLeaf ''usb_blocked'')" by code_simp
  with merged_bool [OF example_merge s(1), of "[False, True]"] s example_contributions(1) show ?thesis by auto
qed

text \<open>C15: restrictive numbers. A setting to which profiles contribute only numbers takes the largest
  contribution for a key that contains \<open>min_\<close> and the smallest otherwise; it is flagged as a conflict
  exactly when some contribution is not nearly equal to the first.\<close>

theorem merged_number:
  assumes "MergeAssignedPayloads ffmt inputs = Inr r" and "s \<in> set (FlatSettings r)"
    and "map pc_Value (contributionsAt inputs (es_Path s)) = map JNum xs"
  shows "es_Value s = JNum (if min_key (pathLeaf (es_Path s)) then Max (set xs) else Min (set xs))
    \<and> es_Conflict s = (\<exists>x \<in> set xs. \<not> nearlyEqual x (hd xs))"
proof -
  have "xs \<noteq> []" using FlatSettings_mem(3) [OF assms(1,2)] assms(3) by auto
  from mergeContributions_numbers [OF assms(3) this] mergeContributions_numbers_conflict [OF assms(3) this]
    FlatSettings_mem(1,2) [OF assms(1,2)]
  show ?thesis by (simp add: mergedAt_def reportedValue_def)
qed

theorem merged_number_witness:
  "\<exists>s \<in> set (FlatSettings exampleResult). es_Path s = ''pw.min_len'' \<and> es_Value s = JNum 12 \<and> es_Conflict s"
proof -
  obtain s where s: "s \<in> set (FlatSettings exampleResult)" "es_Path s = ''pw.min_len''"
    using example_contributions(2) by (auto intro: example_setting [of "''pw.min_len''"])
  have "min_key (pathLeaf ''pw.min_len'')" and "\<not> nearlyEqual 12 8" by code_simp+
  with merged_number [OF example_merge s(1), of "[8, 12]"] s example_contributions(2) show ?thesis by auto
qed

text \<open>Strings and string lists. A setting to which profiles contribute only strings takes the
  least one; one to which they contribute only lists of strings takes the sorted union without
  repetitions when the lists differ, and the common list unchanged otherwise. The conflict flag is
  set exactly when two contributions differ.\<close>

theorem merged_strings:
  assumes "MergeAssignedPayloads ffmt inputs = Inr r" and "s \<in> set (FlatSettings r)"
  shows "(map pc_Value (contributionsAt inputs (es_Path s)) = map JStr xs \<longrightarrow>
      es_Value s = JStr (Min (set xs)) \<and> es_Conflict s = (\<exists>x \<in> set xs. \<exists>y \<in> set xs. x \<noteq> y))
    \<and> (map pc_Value (contributionsAt inputs (es_Path s)) = map (\<lambda>ss. JArr (map JStr ss)) sss \<longrightarrow>
      es_Conflict s = (\<exists>ss \<in> set sss. ss \<noteq> hd sss) \<and>
      es_Value s = JArr (map JStr (if es_Conflict s then sorted_list_of_set (\<Union> (set ` set sss)) else hd sss)))"
proof (intro conjI impI)
  note ne = FlatSettings_mem(3) [OF assms]
  note v = FlatSettings_mem(1,2) [OF assms]
  {
    assume xs: "map pc_Value (contributionsAt inputs (es_Path s)) = map JStr xs"
    with ne have "xs \<noteq> []" by auto
    from mergeContributions_strings [OF xs this] v
    show "es_Value s = JStr (Min (set xs))" and "es_Conflict s = (\<exists>x \<in> set xs. \<exists>y \<in> set xs. x \<noteq> y)"
      by (simp_all add: mergedAt_def reportedValue_def)
  next
    assume sss: "map pc_Value (contributionsAt inputs (es_Path s)) = map (\<lambda>ss. JArr (map JStr ss)) sss"
    with ne have "sss \<noteq> []" by auto
    from mergeContributions_arrays [OF sss this] v
    show "es_Conflict s = (\<exists>ss \<in> set sss. ss \<noteq> hd sss)"
      and "es_Value s = JArr (map JStr (if es_Conflict s then sorted_list_of_set (\<Union> (set ` set sss)) else hd sss))"
      by (simp_all add: mergedAt_def reportedValue_def)
  }
qed

theorem merged_strings_witness:
  "(\<exists>s \<in> set (FlatSettings exampleResult). es_Path s = ''tz'' \<and> es_Value s = JStr (Min {''UTC'', ''CET''}) \<and> es_Conflict s)
   \<and> (\<exists>s \<in> set (FlatSettings exampleResult). es_Path s = ''apps'' \<and> es_Conflict s
        \<and> es_Value s = JArr (map JStr (sorted_list_of_set {''a'', ''b'', ''c''})))"
proof
  obtain s where s: "s \<in> set (FlatSettings exampleResult)" "es_Path s = ''tz''"
    using example_contributions(3) by (auto intro: example_setting [of "''tz''"])
  from merged_strings [OF example_merge s(1), of "[''UTC'', ''CET'']" "[]"] s example_contributions(3)
  show "\<exists>s \<in> set (FlatSettings exampleResult). es_Path s = ''tz'' \<and> es_Value s = JStr (Min {''UTC'', ''CET''}) \<and> es_Conflict s"
    by auto
next
  obtain s where s: "s \<in> set (FlatSettings exampleResult)" "es_Path s = ''apps''"
    using example_contributions(4) by (auto intro: example_setting [of "''apps''"])
  have "map pc_Value (contributionsAt exampleInputs (es_Path s)) = map (\<lambda>ss. JArr (map JStr ss)) [[''b'', ''a''], [''c'']]"
    using s(2) example_contributions(4) by simp
  note m = merged_strings [OF example_merge s(1), THEN conjunct2, rule_format, OF this]
  then have c: "es_Conflict s" by simp
  have "\<Union> (set ` set [[''b'', ''a''], [''c'']]) = {''a'', ''b'', ''c''}" by auto
  with m c have "es_Value s = JArr (map JStr (sorted_list_of_set {''a'', ''b'', ''c''}))" by (simp only: if_True)
  with s c show "\<exists>s \<in> set (FlatSettings exampleResult). es_Path s = ''apps'' \<and> es_Conflict s
        \<and> es_Value s = JArr (map JStr (sorted_list_of_set {''a'', ''b'', ''c''}))" by blast
qed

text \<open>C14: the conflict report is complete: the flagged settings, the reported conflicts and
  \<open>ConflictPaths\<close> name the same paths, and each conflict lists every profile that contributes to
  its path, so that \<open>ConflictProfiles\<close> is the set of all profiles that contribute to a conflicting path.\<close>

theorem merge_conflicts_complete:
  assumes "MergeAssignedPayloads ffmt inputs = Inr r"
  shows "ConflictPaths r = es_Path ` {s \<in> set (FlatSettings r). es_Conflict s}
    \<and> ConflictPaths r = sc_Path ` set (Conflicts r)
    \<and> (\<forall>c \<in> set (Conflicts r). cp_ID ` set (sc_ConflictingProfiles c)
          = (\<lambda>p. ps_ID (pc_Source p)) ` set (contributionsAt inputs (sc_Path c)))
    \<and> ConflictProfiles r = (\<Union>p \<in> ConflictPaths r. (\<lambda>q. ps_ID (pc_Source q)) ` set (contributionsAt inputs p))"
proof -
  have ids: "cp_ID ` set (fst (snd (snd (mergedAt ffmt inputs p))))
      = (\<lambda>q. ps_ID (pc_Source q)) ` set (contributionsAt inputs p)" if "conflictAt ffmt inputs p" for p
    using that contribution_ids_not_Nil [of inputs p]
    by (simp add: mergedAt_def conflict_participants conflictParticipants_ids)
  have flagged: "es_Path ` {s \<in> f ` A. es_Conflict s} = {p \<in> A. c p}"
    if "\<And>p. es_Path (f p) = p" and "\<And>p. es_Conflict (f p) = c p" for f A c
  proof -
    have "{s \<in> f ` A. es_Conflict s} = f ` {p \<in> A. c p}" by (auto simp: that(2))
    then show ?thesis by (simp add: image_image that(1))
  qed
  show ?thesis
    unfolding MergeAssignedPayloads_Inr [OF assms]
    by (simp add: mergeSpec_def Let_def ids image_image flagged)
qed

theorem merge_conflicts_complete_witness:
  "ConflictProfiles (mergeSpec (\<lambda>_. ''0'') [exampleProfile 1 ''base'' [(''a'', JNull)], exampleProfile 2 ''strict'' [(''a'', JNum 1)]]) = {1, 2}"
  (is "ConflictProfiles (mergeSpec _ ?in) = _")
proof -
  have paths: "ConflictPaths (mergeSpec (\<lambda>_. ''0'') ?in) = {''a''}" by code_simp
  have ids: "map (\<lambda>q. ps_ID (pc_Source q)) (contributionsAt ?in ''a'') = [1, 2]" by code_simp
  have "MergeAssignedPayloads (\<lambda>_. ''0'') ?in = Inr (mergeSpec (\<lambda>_. ''0'') ?in)"
    by (rule MergeAssignedPayloads_eq) (simp add: exampleProfile_def decodable_def)
  from merge_conflicts_complete [OF this]
  have "ConflictProfiles (mergeSpec (\<lambda>_. ''0'') ?in)
      = (\<Union>p \<in> {''a''}. set (map (\<lambda>q. ps_ID (pc_Source q)) (contributionsAt ?in p)))"
    by (simp only: paths set_map)
  then show ?thesis by (simp only: UN_insert UN_empty ids) simp
qed

text \<open>C16: reading the effective payload along a setting's path gives the merged value, unless a longer
  path extends this one: then an object stands there instead of the setting's own value.\<close>

theorem merge_payload_lookup:
  assumes "MergeAssignedPayloads ffmt inputs = Inr r" and "contributionsAt inputs p \<noteq> []"
  shows "if \<exists>q. prefix (p @ ''.'') q \<and> contributionsAt inputs q \<noteq> []
         then \<exists>m. lookupSegments (EffectivePayload r) (Split p (CHR ''.'')) = Some (JObj m)
         else lookupSegments (EffectivePayload r) (Split p (CHR ''.''))
                = Some (fst (mergeContributions ffmt (pathLeaf p) (contributionsAt inputs p)))"
proof -
  have r: "EffectivePayload r = unflattenLeaves (map (\<lambda>p. (p, fst (mergedAt ffmt inputs p))) (pathsOf inputs))"
    unfolding MergeAssignedPayloads_Inr [OF assms(1)] by (simp add: mergeSpec_def Let_def effectiveOf_def)
  have ex: "(\<exists>q \<in> set (pathsOf inputs). prefix (p @ ''.'') q) \<longleftrightarrow> (\<exists>q. prefix (p @ ''.'') q \<and> contributionsAt inputs q \<noteq> [])"
    by (auto simp: pathsOf_set)
  from unflatten_lookup [where ps = "pathsOf inputs" and p = p and f = "\<lambda>p. fst (mergedAt ffmt inputs p)",
      OF pathsOf_sorted pathsOf_not_Nil]
  show ?thesis using assms(2) unfolding r ex by (simp add: pathsOf_set mergedAt_def cong: if_cong)
qed

theorem merge_payload_lookup_witness:
  "lookupSegments (EffectivePayload exampleResult) [''vpn'', ''mode''] = Some (JStr ''full'')
   \<and> (\<exists>m. lookupSegments (EffectivePayload exampleResult) [''vpn''] = Some (JObj m))"
proof -
  have no: "\<not> (\<exists>q. prefix (''vpn.mode'' @ ''.'') q \<and> contributionsAt exampleInputs q \<noteq> [])"
  proof -
    have "list_all (\<lambda>e. \<not> prefix (''vpn.mode'' @ ''.'') (fst e)) (contributions exampleInputs)" by code_simp
    then show ?thesis by (force simp: contributionsAt_def filter_empty_conv list_all_iff)
  qed
  have val: "fst (mergeContributions (\<lambda>_. ''0'') (pathLeaf ''vpn.mode'') (contributionsAt exampleInputs ''vpn.mode'')) = JStr ''full''"
    and split: "Split ''vpn.mode'' (CHR ''.'') = [''vpn'', ''mode'']" "Split ''vpn'' (CHR ''.'') = [''vpn'']"
    by code_simp+
  have ext: "\<exists>q. prefix (''vpn'' @ ''.'') q \<and> contributionsAt exampleInputs q \<noteq> []"
    using example_contributions(6) by (intro exI [of _ "''vpn.mode''"]) auto
  have ne: "contributionsAt exampleInputs ''vpn.mode'' \<noteq> []" "contributionsAt exampleInputs ''vpn'' \<noteq> []"
    using example_contributions(5,6) by auto
  show ?thesis
    using merge_payload_lookup [OF example_merge ne(1), unfolded if_not_P [OF no]]
      merge_payload_lookup [OF example_merge ne(2), unfolded if_P [OF ext]] by (simp only: val split)
qed

text \<open>The conflict flag of arrays depends on the order of the profiles. An array that starts with an
  element that is no string ends the comparison loop at once, so a later profile with a different array
  is neither merged nor reported, while the same two profiles in the other order are a conflict.\<close>

theorem array_conflict_missed:
  assumes "pc_Value p = JArr (v # vs)" and "jsonString v = None"
    and "pc_Value q = JArr (map JStr ss)"
  shows "fst (mergeContributions ffmt k [p, q]) = normalizeJSON (pc_Value p)
    \<and> \<not> fst (snd (mergeContributions ffmt k [p, q]))
    \<and> fst (snd (mergeContributions ffmt k [q, p]))"
proof -
  have stop: "collect_strings (v # vs) uni = None" for uni using assms(2) by (cases v) auto
  obtain u where u: "collect_strings (map JStr ss) [] = Some u" using collect_strings_map [of ss "[]"] by blast
  have "norm_json v # map norm_json vs \<noteq> map JStr ss"
    using assms(2) by (cases ss; cases v) auto
  with assms(1,3) stop u show ?thesis
    by (simp add: mergeContributions_def mergeArrayRestrictive_def normalizeJSON_def Let_def)
qed

theorem array_conflict_missed_witness:
  "\<not> fst (snd (mergeContributions (\<lambda>_. ''0'') ''k'' [\<lparr>pc_Source = \<lparr>ps_ID = 1, ps_Name = ''a''\<rparr>, pc_Value = JArr [JNum 1]\<rparr>,
      \<lparr>pc_Source = \<lparr>ps_ID = 2, ps_Name = ''b''\<rparr>, pc_Value = JArr [JStr ''x'']\<rparr>]))"
  using array_conflict_missed [of "\<lparr>pc_Source = \<lparr>ps_ID = 1, ps_Name = ''a''\<rparr>, pc_Value = JArr [JNum 1]\<rparr>" "JNum 1" "[]"
      "\<lparr>pc_Source = \<lparr>ps_ID = 2, ps_Name = ''b''\<rparr>, pc_Value = JArr [JStr ''x'']\<rparr>" "[''x'']"] by simp

end
