(* ===== verification/Json_Decode.thy ===== *)
theory Json_Decode
  imports Json
begin

text \<open>
  Decoding of JSON text as \<open>encoding/json\<close> does it, by recursive descent over the bytes. The fuel
  \<open>2 * length s + 2\<close> of \<open>json_decode\<close> is enough: every level of nesting and every element consumes a byte.
  Numbers are read exactly; an escaped surrogate is read as the replacement character. Struct targets
  match member names without regard to case and reject a member of the wrong type; \<open>null\<close> leaves a
  field at its zero value.
\<close>

section \<open>Strings and numbers\<close>

definition json_space :: "char \<Rightarrow> bool" where
  "json_space c \<longleftrightarrow> c \<in> {CHR '' '', CHR 0x09, CHR 0x0A, CHR 0x0D}"

abbreviation skip :: "string \<Rightarrow> string" where
  "skip s \<equiv> dropWhile json_space s"

definition hex_val :: "char \<Rightarrow> nat option" where
  "hex_val c =
     (let n = (of_char c :: nat) in
      if 48 \<le> n \<and> n \<le> 57 then Some (n - 48)
      else if 97 \<le> n \<and> n \<le> 102 then Some (n - 87)
      else if 65 \<le> n \<and> n \<le> 70 then Some (n - 55)
      else None)"

definition utf8 :: "nat \<Rightarrow> string" where
  "utf8 n =
     (if n < 128 then [char_of n]
      else if n < 2048 then [char_of (192 + n div 64), char_of (128 + n mod 64)]
      else if 55296 \<le> n \<and> n < 57344 then [char_of (239 :: nat), char_of (191 :: nat), char_of (189 :: nat)]
      else [char_of (224 + n div 4096), char_of (128 + n div 64 mod 64), char_of (128 + n mod 64)])"

definition simple_escape :: "char \<Rightarrow> char option" where
  "simple_escape c =
     (if c \<in> {CHR 0x22, CHR 0x5C, CHR ''/''} then Some c
      else if c = CHR ''b'' then Some (CHR 0x08)
      else if c = CHR ''f'' then Some (CHR 0x0C)
      else if c = CHR ''n'' then Some (CHR 0x0A)
      else if c = CHR ''r'' then Some (CHR 0x0D)
      else if c = CHR ''t'' then Some (CHR 0x09)
      else None)"

definition hex4 :: "char \<Rightarrow> char \<Rightarrow> char \<Rightarrow> char \<Rightarrow> nat option" where
  "hex4 a b c d =
     (case (hex_val a, hex_val b, hex_val c, hex_val d) of
        (Some w, Some x, Some y, Some z) \<Rightarrow> Some (((w * 16 + x) * 16 + y) * 16 + z)
      | _ \<Rightarrow> None)"

text \<open>The body of a string literal, after the opening quote.\<close>

fun parse_str :: "string \<Rightarrow> (string \<times> string) option" where
  "parse_str [] = None"
| "parse_str (c # s) =
     (if c = CHR 0x22 then Some ([], s)
      else if c = CHR 0x5C then
        (case s of
           [] \<Rightarrow> None
         | e # t \<Rightarrow>
             if e = CHR ''u'' then
               (case t of
                  h1 # h2 # h3 # h4 # r \<Rightarrow>
                    (case hex4 h1 h2 h3 h4 of
                       None \<Rightarrow> None
                     | Some n \<Rightarrow> map_option (\<lambda>(u, r'). (utf8 n @ u, r')) (parse_str r))
                | _ \<Rightarrow> None)
             else (case simple_escape e of
                     None \<Rightarrow> None
                   | Some x \<Rightarrow> map_option (\<lambda>(u, r'). (x # u, r')) (parse_str t)))
      else if (of_char c :: nat) < 32 then None
      else map_option (\<lambda>(u, r'). (c # u, r')) (parse_str s))"

definition digits_val :: "string \<Rightarrow> nat" where
  "digits_val s = foldl (\<lambda>n c. 10 * n + digit_val c) 0 s"

definition parse_exp :: "string \<Rightarrow> (int \<times> string) option" where
  "parse_exp s =
     (case s of
        c # t \<Rightarrow>
          if c \<in> {CHR ''e'', CHR ''E''} then
            (let (neg, u) = (case t of
                 d # u \<Rightarrow> if d = CHR ''-'' then (True, u) else if d = CHR ''+'' then (False, u) else (False, t)
               | [] \<Rightarrow> (False, t));
                 ds = takeWhile is_digit u
             in if ds = [] then None
                else Some (if neg then - int (digits_val ds) else int (digits_val ds), dropWhile is_digit u))
          else Some (0, s)
      | [] \<Rightarrow> Some (0, s))"

definition parse_frac :: "string \<Rightarrow> (string \<times> string) option" where
  "parse_frac s =
     (case s of
        c # t \<Rightarrow>
          if c = CHR ''.'' then
            (let ds = takeWhile is_digit t in if ds = [] then None else Some (ds, dropWhile is_digit t))
          else Some ([], s)
      | [] \<Rightarrow> Some ([], s))"

definition pow10 :: "int \<Rightarrow> rat" where
  "pow10 e = (if 0 \<le> e then 10 ^ nat e else 1 / 10 ^ nat (- e))"

definition parse_num :: "string \<Rightarrow> (rat \<times> string) option" where
  "parse_num s =
     (let (neg, t) = (case s of c # t \<Rightarrow> if c = CHR ''-'' then (True, t) else (False, s) | [] \<Rightarrow> (False, s));
          ds = takeWhile is_digit t; r = dropWhile is_digit t
      in if ds = [] \<or> (hd ds = CHR ''0'' \<and> length ds > 1) then None
         else (case parse_frac r of
                 None \<Rightarrow> None
               | Some (fs, r') \<Rightarrow>
                   (case parse_exp r' of
                      None \<Rightarrow> None
                    | Some (e, r'') \<Rightarrow>
                        (let v = of_nat (digits_val (ds @ fs)) * pow10 (e - int (length fs))
                         in Some (if neg then - v else v, r'')))))"

section \<open>Values\<close>

fun parse_value :: "nat \<Rightarrow> string \<Rightarrow> (json \<times> string) option"
  and parse_elems :: "nat \<Rightarrow> string \<Rightarrow> (json list \<times> string) option"
  and parse_members :: "nat \<Rightarrow> string \<Rightarrow> (json_object \<times> string) option" where
  "parse_value 0 s = None"
| "parse_value (Suc n) s =
     (case s of
        [] \<Rightarrow> None
      | c # t \<Rightarrow>
          if c = CHR 0x22 then map_option (\<lambda>(u, r). (JStr u, r)) (parse_str t)
          else if c = CHR ''['' then
            (case skip t of
               d # r \<Rightarrow> if d = CHR '']'' then Some (JArr [], r)
                        else map_option (\<lambda>(xs, r). (JArr xs, r)) (parse_elems n (skip t))
             | [] \<Rightarrow> None)
          else if c = CHR ''{'' then
            (case skip t of
               d # r \<Rightarrow> if d = CHR ''}'' then Some (JObj [], r)
                        else map_option (\<lambda>(m, r). (JObj (fold (\<lambda>kv. go_put (fst kv) (snd kv)) m []), r))
                               (parse_members n (skip t))
             | [] \<Rightarrow> None)
          else if prefix ''true'' s then Some (JBool True, drop 4 s)
          else if prefix ''false'' s then Some (JBool False, drop 5 s)
          else if prefix ''null'' s then Some (JNull, drop 4 s)
          else map_option (\<lambda>(x, r). (JNum x, r)) (parse_num s))"
| "parse_elems 0 s = None"
| "parse_elems (Suc n) s =
     (case parse_value n s of
        None \<Rightarrow> None
      | Some (v, r) \<Rightarrow>
          (case skip r of
             [] \<Rightarrow> None
           | c # t \<Rightarrow>
               if c = CHR '']'' then Some ([v], t)
               else if c = CHR '','' then map_option (\<lambda>(vs, r'). (v # vs, r')) (parse_elems n (skip t))
               else None))"
| "parse_members 0 s = None"
| "parse_members (Suc n) s =
     (case s of
        [] \<Rightarrow> None
      | q # t \<Rightarrow>
          if q \<noteq> CHR 0x22 then None
          else (case parse_str t of
             None \<Rightarrow> None
           | Some (k, r) \<Rightarrow>
               (case skip r of
                  [] \<Rightarrow> None
                | c # r' \<Rightarrow>
                    if c \<noteq> CHR '':'' then None
                    else (case parse_value n (skip r') of
                       None \<Rightarrow> None
                     | Some (v, r'') \<Rightarrow>
                         (case skip r'' of
                            [] \<Rightarrow> None
                          | e # u \<Rightarrow>
                              if e = CHR ''}'' then Some ([(k, v)], u)
                              else if e = CHR '','' then map_option (\<lambda>(m, z). ((k, v) # m, z)) (parse_members n (skip u))
                              else None)))))"

definition json_decode :: "string \<Rightarrow> raw_json" where
  "json_decode s =
     (if s = [] then RawEmpty
      else (case parse_value (2 * length s + 2) (skip s) of
              Some (v, r) \<Rightarrow> if skip r = [] then RawDoc v else RawInvalid
            | None \<Rightarrow> RawInvalid))"

section \<open>Struct targets\<close>

definition struct_get :: "string \<Rightarrow> json_object \<Rightarrow> json option" where
  "struct_get name m =
     (case filter (\<lambda>kv. EqualFold (fst kv) name \<and> snd kv \<noteq> JNull) m of [] \<Rightarrow> None | kvs \<Rightarrow> Some (snd (last kvs)))"

text \<open>\<open>None\<close> is the type error of a field; a missing field has the zero value.\<close>

definition get_string :: "string \<Rightarrow> json_object \<Rightarrow> string option" where
  "get_string name m =
     (case struct_get name m of None \<Rightarrow> Some '''' | Some (JStr s) \<Rightarrow> Some s | Some _ \<Rightarrow> None)"

definition get_bool :: "string \<Rightarrow> json_object \<Rightarrow> bool option" where
  "get_bool name m =
     (case struct_get name m of None \<Rightarrow> Some False | Some (JBool b) \<Rightarrow> Some b | Some _ \<Rightarrow> None)"

text \<open>A raw message decoded into a struct: an object, or \<open>null\<close> which leaves all fields zero.\<close>

definition struct_object :: "raw_json \<Rightarrow> json_object option" where
  "struct_object raw =
     (case raw of RawDoc (JObj m) \<Rightarrow> Some m | RawDoc JNull \<Rightarrow> Some [] | _ \<Rightarrow> None)"

text \<open>Pointer fields: \<open>Some None\<close> is the nil pointer of a missing or \<open>null\<close> member.\<close>

definition get_string_ptr :: "string \<Rightarrow> json_object \<Rightarrow> string option option" where
  "get_string_ptr name m =
     (case struct_get name m of None \<Rightarrow> Some None | Some (JStr s) \<Rightarrow> Some (Some s) | Some _ \<Rightarrow> None)"

definition get_bool_ptr :: "string \<Rightarrow> json_object \<Rightarrow> bool option option" where
  "get_bool_ptr name m =
     (case struct_get name m of None \<Rightarrow> Some None | Some (JBool b) \<Rightarrow> Some (Some b) | Some _ \<Rightarrow> None)"

end
