(* ===== verification/Schema.thy ===== *)
theory Schema
  imports Json_Decode
begin

text \<open>
  The PostgreSQL database as the server uses it: one record with the tables the modelled code reads and
  writes, as lists of rows in storage order, and the behaviour of a statement. Row records carry the
  columns of \<open>internal/database/migrations\<close> under a prefix per table.

  Every statement may fail: \<open>fault_at n\<close> says whether the n-th statement of the run is lost (connection
  failure or timeout), \<open>stmt_no\<close> counts statements. A failed statement changes no table. \<open>now()\<close> is
  the clock reading \<open>now\<close> of the operation, \<open>gen_random_uuid()\<close> takes the next element of \<open>uuid_stream\<close>;
  unique and foreign key violations are error results. A transaction that does not commit restores
  the tables; sequences, the statement counter and the used random numbers are not rolled back.
\<close>

section \<open>Errors\<close>

datatype sql_error = ErrNoRows | ErrUnique | ErrForeignKey | ErrCheck | ErrScan | ErrConn | ErrRange

text \<open>Go errors: a plain message, or a message wrapped around a driver error; a driver error itself.\<close>

datatype go_error = Err string | Wrap string sql_error | Driver sql_error

text \<open>Code outside this repository and formatters of the standard library, as one parameter: UUID text
  and the text of a parse error (\<open>google/uuid\<close>), RFC 3339 time stamps (\<open>t_json\<close> as \<open>time.Time\<close> is marshalled, with fractions) and their parser, \<open>%.nf\<close>, \<open>Duration.String\<close>, the number format
  of \<open>json.Marshal\<close>, base64 decoding, the
  host part of \<open>net.SplitHostPort\<close>, the hex form of SHA-256, and the process environment.\<close>

record lib =
  u_str :: "uuid \<Rightarrow> string"
  u_parse :: "string \<Rightarrow> uuid option"
  u_parse_err :: "string \<Rightarrow> string"
  t_rfc3339 :: "time \<Rightarrow> string"
  t_json :: "time \<Rightarrow> string"
  f_fixed :: "nat \<Rightarrow> rat \<Rightarrow> string"
  d_string :: "int \<Rightarrow> string"
  j_num :: "rat \<Rightarrow> string"
  t_parse :: "string \<Rightarrow> time option"
  os_Getenv :: "string \<Rightarrow> string"
  b64_decode :: "string \<Rightarrow> string option"
  net_SplitHost :: "string \<Rightarrow> string option"
  sha256_hex :: "string \<Rightarrow> string"

text \<open>\<open>%q\<close> on printable ASCII text without quotes or backslashes.\<close>

definition go_quote :: "string \<Rightarrow> string" where
  "go_quote s = CHR 0x22 # s @ [CHR 0x22]"

section \<open>Rows\<close>

record asset =
  a_id :: uuid
  a_human_id :: string
  a_display_name :: "string option"
  a_hostname :: "string option"
  a_cert_serial :: "string option"
  a_os_type :: string
  a_last_seen :: "time option"
  a_metadata :: json
  a_updated_at :: time
  a_operational_status :: string
  a_cost_center :: string
  a_location :: string
  a_compliance_status :: string
  a_compliance_reason :: string
  a_quarantine_enabled :: bool

record device_command =
  dc_id :: uuid
  dc_device_id :: uuid
  dc_command_type :: string
  dc_payload :: string
  dc_status :: string
  dc_output :: string
  dc_created_at :: time
  dc_completed_at :: "time option"
  dc_incident_context_id :: "uuid option"

record incident =
  in_id :: uuid
  in_incident_number :: string
  in_caller_id :: "uuid option"
  in_assigned_to :: "uuid option"
  in_cmdb_ci :: "uuid option"
  in_state :: string
  in_impact :: int
  in_urgency :: int
  in_short_description :: string
  in_work_notes :: "json list"
  in_sla_due :: time
  in_source_alert_fingerprint :: "string option"
  in_created_at :: time
  in_updated_at :: time

record resolution =
  rs_id :: uuid
  rs_incident_id :: uuid
  rs_summary :: string
  rs_markdown :: string
  rs_resolved_at :: time
  rs_created_at :: time

record alert_rule =
  ar_id :: uuid
  ar_name :: string
  ar_target_type :: string
  ar_metric :: string
  ar_operator :: string
  ar_threshold :: rat
  ar_duration_seconds :: int
  ar_severity :: string
  ar_is_enabled :: bool
  ar_target_device_id :: "uuid option"
  ar_created_at :: time
  ar_updated_at :: time

record active_alert =
  al_id :: uuid
  al_alert_rule_id :: "uuid option"
  al_fingerprint :: string
  al_alert_kind :: string
  al_device_id :: "uuid option"
  al_severity :: string
  al_title :: string
  al_message :: string
  al_details :: json
  al_triggered_at :: time
  al_last_notified_at :: "time option"
  al_resolved_at :: "time option"

record notification_channel =
  nc_id :: uuid
  nc_name :: string
  nc_channel_type :: string
  nc_config_json :: json
  nc_signing_secret :: string
  nc_is_active :: bool
  nc_created_at :: time
  nc_updated_at :: time

record device_metric =
  dm_device_id :: uuid
  dm_cpu_usage :: rat
  dm_ram_total :: int
  dm_ram_used :: int
  dm_disk_total :: int
  dm_disk_used :: int
  dm_created_at :: time

record configuration_profile =
  cf_id :: uuid
  cf_name :: string
  cf_platform :: string
  cf_type :: string
  cf_payload :: raw_json
  cf_created_at :: time

record profile_assignment =
  pa_id :: uuid
  pa_profile_id :: uuid
  pa_target_kind :: string
  pa_device_id :: "uuid option"
  pa_principal_group_id :: "uuid option"
  pa_assignment_state :: string
  pa_created_at :: time

record principal_group =
  pg_id :: uuid
  pg_name :: string
  pg_description :: string
  pg_created_at :: time

record group_device =
  gd_group_id :: uuid
  gd_device_id :: uuid
  gd_created_at :: time

record user =
  us_id :: uuid
  us_username :: string
  us_password_hash :: string
  us_role :: string
  us_created_at :: time

record audit_log =
  au_user_id :: "uuid option"
  au_action :: string
  au_resource_type :: string
  au_resource_id :: "uuid option"
  au_target_asset_id :: "uuid option"
  au_details :: json
  au_ip_address :: "string option"
  au_created_at :: time

record enrollment_token =
  et_id :: uuid
  et_token_hash :: string
  et_asset_id :: "uuid option"
  et_expires_at :: time
  et_is_used :: bool
  et_used_at :: "time option"

record package =
  pk_id :: uuid
  pk_name :: string
  pk_version :: string
  pk_type :: string
  pk_install_cmd :: string
  pk_created_at :: time
  pk_updated_at :: time

record deployment =
  dp_id :: uuid
  dp_asset_id :: uuid
  dp_package_id :: uuid
  dp_status :: string
  dp_error_message :: "string option"
  dp_created_at :: time
  dp_updated_at :: time

record automation =
  at_id :: uuid
  at_name :: string
  at_cron_schedule :: string
  at_action_type :: string
  at_target_os :: "string option"
  at_target_asset_id :: "uuid option"
  at_payload_json :: json
  at_is_active :: bool
  at_created_at :: time
  at_updated_at :: time

record catalog_app =
  ca_id :: uuid
  ca_name :: string
  ca_version :: string
  ca_target_os :: string
  ca_file_path_or_url :: string
  ca_install_args :: string
  ca_created_at :: time

record app_configuration =
  ac_id :: uuid
  ac_catalog_app_id :: uuid
  ac_managed_package_name :: string
  ac_managed_app_label :: string
  ac_config_kv :: raw_json
  ac_created_at :: time

record device_app =
  da_device_id :: uuid
  da_app_id :: uuid
  da_status :: string
  da_error_message :: "string option"
  da_last_updated :: time

record android_policy =
  an_asset_id :: uuid
  an_camera_disabled :: bool
  an_screen_lock_timeout_ms :: int
  an_wipe_requested :: bool
  an_updated_at :: time

record device_assignment =
  ds_asset_id :: uuid
  ds_user_id :: uuid
  ds_assigned_at :: time

section \<open>The database\<close>

record db =
  assets :: "asset list"
  device_commands :: "device_command list"
  incidents :: "incident list"
  resolutions :: "resolution list"
  alert_rules :: "alert_rule list"
  active_alerts :: "active_alert list"
  notification_channels :: "notification_channel list"
  device_metrics :: "device_metric list"
  configuration_profiles :: "configuration_profile list"
  profile_assignments :: "profile_assignment list"
  principal_groups :: "principal_group list"
  principal_group_devices :: "group_device list"
  users :: "user list"
  audit_logs :: "audit_log list"
  enrollment_tokens :: "enrollment_token list"
  packages :: "package list"
  deployments :: "deployment list"
  automations :: "automation list"
  app_catalog :: "catalog_app list"
  app_configurations :: "app_configuration list"
  device_apps :: "device_app list"
  android_policies :: "android_policy list"
  device_assignments :: "device_assignment list"
  tenant_auto_quarantine :: "bool option"
  incident_seq :: int
  now :: time
  stmt_no :: nat
  fault_at :: "nat \<Rightarrow> bool"
  uuid_next :: nat
  uuid_stream :: "nat \<Rightarrow> uuid"

definition empty_db :: db where
  "empty_db = \<lparr>assets = [], device_commands = [], incidents = [], resolutions = [], alert_rules = [],
     active_alerts = [], notification_channels = [], device_metrics = [], configuration_profiles = [], profile_assignments = [], principal_groups = [], principal_group_devices = [],
     users = [], audit_logs = [], enrollment_tokens = [], packages = [], deployments = [], automations = [],
     app_catalog = [], app_configurations = [], device_apps = [], android_policies = [], device_assignments = [],
     tenant_auto_quarantine = Some False, incident_seq = 1, now = 0, stmt_no = 0, fault_at = (\<lambda>_. False),
     uuid_next = 0, uuid_stream = (\<lambda>n. word_of_nat (n + 1))\<rparr>"

type_synonym 'a sql_result = "(sql_error + 'a) \<times> db"

definition sql :: "(db \<Rightarrow> 'a sql_result) \<Rightarrow> db \<Rightarrow> 'a sql_result" where
  "sql stmt d =
     (let d' = d\<lparr>stmt_no := Suc (stmt_no d)\<rparr>
      in if fault_at d (stmt_no d) then (Inl ErrConn, d') else stmt d')"

text \<open>Sequencing with an early return: the first error ends the run.\<close>

definition rbind :: "('e + 'a) \<times> db \<Rightarrow> ('a \<Rightarrow> db \<Rightarrow> ('e + 'b) \<times> db) \<Rightarrow> ('e + 'b) \<times> db" where
  "rbind r f = (case r of (Inl e, d) \<Rightarrow> (Inl e, d) | (Inr x, d) \<Rightarrow> f x d)"

text \<open>A statement that only reads; one row or \<open>ErrNoRows\<close>.\<close>

definition query :: "(db \<Rightarrow> 'a) \<Rightarrow> db \<Rightarrow> 'a sql_result" where
  "query q = sql (\<lambda>d. (Inr (q d), d))"

definition query_row :: "(db \<Rightarrow> 'a option) \<Rightarrow> db \<Rightarrow> 'a sql_result" where
  "query_row q = sql (\<lambda>d. (case q d of None \<Rightarrow> Inl ErrNoRows | Some x \<Rightarrow> Inr x, d))"

definition random_uuid :: "db \<Rightarrow> uuid" where
  "random_uuid d = uuid_stream d (uuid_next d)"

definition uuid_used :: "db \<Rightarrow> db" where
  "uuid_used d = d\<lparr>uuid_next := Suc (uuid_next d)\<rparr>"

text \<open>\<open>trim(s)\<close> of SQL removes blanks only.\<close>

definition pg_trim :: "string \<Rightarrow> string" where
  "pg_trim s = TrimCut s '' ''"

text \<open>\<open>UPDATE ... WHERE\<close> on a table: the new rows and the number of rows affected.\<close>

definition update_where :: "('r \<Rightarrow> bool) \<Rightarrow> ('r \<Rightarrow> 'r) \<Rightarrow> 'r list \<Rightarrow> 'r list" where
  "update_where P f rows = map (\<lambda>r. if P r then f r else r) rows"

definition affected :: "('r \<Rightarrow> bool) \<Rightarrow> 'r list \<Rightarrow> nat" where
  "affected P rows = length (filter P rows)"

text \<open>\<open>pool.Begin\<close>, the body, \<open>Commit\<close>; the deferred \<open>Rollback\<close> restores the tables.\<close>

definition rollback :: "db \<Rightarrow> db \<Rightarrow> db" where
  "rollback d d' = d\<lparr>stmt_no := stmt_no d', uuid_next := uuid_next d', incident_seq := incident_seq d'\<rparr>"

definition nop :: "db \<Rightarrow> unit sql_result" where
  "nop = sql (\<lambda>d. (Inr (), d))"

definition transaction :: "(db \<Rightarrow> ('e + 'a) \<times> db) \<Rightarrow> (sql_error \<Rightarrow> 'e) \<Rightarrow> (sql_error \<Rightarrow> 'e) \<Rightarrow> db \<Rightarrow> ('e + 'a) \<times> db" where
  "transaction body beginErr commitErr d =
     (case nop d of
        (Inl e, d0) \<Rightarrow> (Inl (beginErr e), d0)
      | (Inr _, d0) \<Rightarrow>
          (case body d0 of
             (Inl e, d1) \<Rightarrow> (Inl e, rollback d0 d1)
           | (Inr x, d1) \<Rightarrow>
               (case nop d1 of
                  (Inl e, d2) \<Rightarrow> (Inl (commitErr e), rollback d0 d2)
                | (Inr _, d2) \<Rightarrow> (Inr x, d2))))"

section \<open>Lemmas\<close>

text \<open>The tables of a database, without the environment: what a statement that fails does not change.\<close>

definition same_tables :: "db \<Rightarrow> db \<Rightarrow> bool" where
  "same_tables d d' \<longleftrightarrow>
     d' = d\<lparr>stmt_no := stmt_no d', uuid_next := uuid_next d', incident_seq := incident_seq d'\<rparr>"

lemma same_tables_refl [simp]: "same_tables d d"
  by (simp add: same_tables_def)

lemma same_tables_stmt [simp]: "same_tables d (d\<lparr>stmt_no := n\<rparr>)"
  by (simp add: same_tables_def)

lemma same_tables_trans [trans]: "same_tables d d' \<Longrightarrow> same_tables d' d'' \<Longrightarrow> same_tables d d''"
  by (cases d, cases d', cases d'') (simp add: same_tables_def)

lemma same_tables_rollback [simp]: "same_tables d (rollback d d')"
  by (simp add: same_tables_def rollback_def)

lemma sql_ok: "\<not> fault_at d (stmt_no d) \<Longrightarrow> sql stmt d = stmt (d\<lparr>stmt_no := Suc (stmt_no d)\<rparr>)"
  by (simp add: sql_def)

lemma sql_fault: "fault_at d (stmt_no d) \<Longrightarrow> sql stmt d = (Inl ErrConn, d\<lparr>stmt_no := Suc (stmt_no d)\<rparr>)"
  by (simp add: sql_def)

lemma query_state [simp]: "snd (query q d) = d\<lparr>stmt_no := Suc (stmt_no d)\<rparr>"
  by (simp add: query_def sql_def Let_def)

lemma query_row_state [simp]: "snd (query_row q d) = d\<lparr>stmt_no := Suc (stmt_no d)\<rparr>"
  by (simp add: query_row_def sql_def Let_def)

lemma nop_state [simp]: "snd (nop d) = d\<lparr>stmt_no := Suc (stmt_no d)\<rparr>"
  by (simp add: nop_def sql_def Let_def)

lemma set_update_where: "r \<in> set (update_where P f rows) \<longleftrightarrow> (\<exists>s \<in> set rows. r = (if P s then f s else s))"
  by (auto simp: update_where_def)

lemma map_update_where:
  "(\<And>r. g (f r) = g r) \<Longrightarrow> map g (update_where P f rows) = map g rows"
  by (simp add: update_where_def)

lemma update_where_Nil [simp]: "update_where P f [] = []"
  by (simp add: update_where_def)

lemma update_where_id: "(\<And>r. r \<in> set rows \<Longrightarrow> \<not> P r) \<Longrightarrow> update_where P f rows = rows"
  by (simp add: update_where_def map_idI)

lemma length_update_where [simp]: "length (update_where P f rows) = length rows"
  by (simp add: update_where_def)

lemma affected_0: "affected P rows = 0 \<longleftrightarrow> (\<forall>r \<in> set rows. \<not> P r)"
  by (auto simp: affected_def filter_empty_conv)

lemma find_update_where:
  assumes "\<And>r. k (f r) = k r"
  shows "find (\<lambda>r. k r = x) (update_where P f rows)
       = map_option (\<lambda>r. if P r then f r else r) (find (\<lambda>r. k r = x) rows)"
  using assms by (induction rows) (auto simp: update_where_def)

lemma rbind_Inl [simp]: "rbind (Inl e, d) f = (Inl e, d)"
  by (simp add: rbind_def)

lemma rbind_Inr [simp]: "rbind (Inr x, d) f = f x d"
  by (simp add: rbind_def)

lemma rbind_cases:
  assumes "rbind r f = (y, d')"
  obtains (Inl) e where "r = (Inl e, d')" "y = Inl e"
  | (Inr) x d where "r = (Inr x, d)" "f x d = (y, d')"
  using assms by (cases r; cases "fst r") (auto simp: rbind_def)

text \<open>Passing a result on with its error wrapped.\<close>

lemma case_wrap_snd [simp]:
  "snd (case r of (Inl e, d) \<Rightarrow> (Inl (f e), d) | (Inr x, d) \<Rightarrow> (Inr (g x), d)) = snd r"
  by (cases r; cases "fst r") auto

lemma case_wrap_fst [simp]:
  "fst (case r of (Inl e, d) \<Rightarrow> (Inl (f e), d) | (Inr x, d) \<Rightarrow> (Inr (g x), d)) = map_sum f g (fst r)"
  by (cases r; cases "fst r") auto

lemma same_tables_fields:
  assumes "same_tables d d'"
  shows "profile_assignments d' = profile_assignments d" "device_commands d' = device_commands d" "assets d' = assets d"
    "configuration_profiles d' = configuration_profiles d" "principal_group_devices d' = principal_group_devices d"
    "active_alerts d' = active_alerts d" "alert_rules d' = alert_rules d" "incidents d' = incidents d" "users d' = users d"
    "enrollment_tokens d' = enrollment_tokens d" "uuid_stream d' = uuid_stream d" "fault_at d' = fault_at d" "now d' = now d"
    "principal_groups d' = principal_groups d" "packages d' = packages d" "deployments d' = deployments d" "automations d' = automations d"
    "resolutions d' = resolutions d" "audit_logs d' = audit_logs d"
proof -
  have e: "d' = d\<lparr>stmt_no := stmt_no d', uuid_next := uuid_next d', incident_seq := incident_seq d'\<rparr>"
    using assms by (simp only: same_tables_def)
  show "profile_assignments d' = profile_assignments d" by (subst e) simp
  show "device_commands d' = device_commands d" by (subst e) simp
  show "assets d' = assets d" by (subst e) simp
  show "configuration_profiles d' = configuration_profiles d" by (subst e) simp
  show "principal_group_devices d' = principal_group_devices d" by (subst e) simp
  show "principal_groups d' = principal_groups d" by (subst e) simp
  show "packages d' = packages d" by (subst e) simp
  show "deployments d' = deployments d" by (subst e) simp
  show "automations d' = automations d" by (subst e) simp
  show "resolutions d' = resolutions d" by (subst e) simp
  show "audit_logs d' = audit_logs d" by (subst e) simp
  show "active_alerts d' = active_alerts d" by (subst e) simp
  show "alert_rules d' = alert_rules d" by (subst e) simp
  show "incidents d' = incidents d" by (subst e) simp
  show "users d' = users d" by (subst e) simp
  show "enrollment_tokens d' = enrollment_tokens d" by (subst e) simp
  show "uuid_stream d' = uuid_stream d" by (subst e) simp
  show "fault_at d' = fault_at d" by (subst e) simp
  show "now d' = now d" by (subst e) simp
qed

lemma transaction_Inl:
  assumes "transaction body be ce d = (Inl e, d')"
  shows "same_tables d d'"
proof -
  let ?d0 = "d\<lparr>stmt_no := Suc (stmt_no d)\<rparr>"
  have s: "same_tables d (rollback ?d0 x)" for x
    by (rule same_tables_trans [OF same_tables_stmt same_tables_rollback])
  show ?thesis
    using assms s by (auto simp: transaction_def nop_def sql_def Let_def split: prod.splits sum.splits if_splits)
qed

lemma transaction_Inr:
  assumes "transaction body be ce d = (Inr x, d')"
  shows "\<exists>d1. body (d\<lparr>stmt_no := Suc (stmt_no d)\<rparr>) = (Inr x, d1) \<and> d' = d1\<lparr>stmt_no := Suc (stmt_no d1)\<rparr>"
  using assms by (auto simp: transaction_def nop_def sql_def Let_def split: prod.splits sum.splits if_splits)

text \<open>Without faults a transaction succeeds as soon as its body does.\<close>

lemma transaction_ok:
  assumes "\<forall>n. \<not> fault_at d n" and "body (d\<lparr>stmt_no := Suc (stmt_no d)\<rparr>) = (Inr x, d1)" and "fault_at d1 = fault_at d"
  shows "transaction body be ce d = (Inr x, d1\<lparr>stmt_no := Suc (stmt_no d1)\<rparr>)"
  using assms by (simp add: transaction_def nop_def sql_def Let_def)

section \<open>An instance of the parameter\<close>

text \<open>Used to show that hypotheses on \<open>lib\<close> can be met: decimal text stands for UUIDs and numbers.\<close>

definition exampleLib :: lib where
  "exampleLib = \<lparr>u_str = (\<lambda>u. nat_str (unat u)), u_parse = (\<lambda>s. map_option word_of_nat (parse_nat s)),
     u_parse_err = (\<lambda>_. ''invalid UUID''), t_rfc3339 = int_str, t_json = int_str, f_fixed = (\<lambda>n x. int_str \<lfloor>x\<rfloor>), d_string = int_str, j_num = (\<lambda>x. int_str \<lfloor>x\<rfloor>),
     t_parse = (\<lambda>s. map_option int (parse_nat s)), os_Getenv = (\<lambda>_. ''''), b64_decode = Some, net_SplitHost = (\<lambda>s. Some (hd (Split s (CHR '':'')))), sha256_hex = (\<lambda>s. s)\<rparr>"

lemma exampleLib_roundtrip [simp]: "u_parse exampleLib (u_str exampleLib u) = Some u"
  by (simp add: exampleLib_def)

end
