(* ===== verification/Commands.thy ===== *)
theory Commands
  imports Schema
begin

text \<open>
  The command queue of \<open>internal/database/device_commands.go\<close> and the work-note journal of incidents it
  writes to (\<open>AppendIncidentWorkNoteJSON\<close> of \<open>incidents.go\<close>). A command row is inserted as \<open>pending\<close>,
  marked \<open>sent\<close> when it was pushed to the agent, and ends as \<open>completed\<close> or \<open>failed\<close>.
\<close>

section \<open>Validation\<close>

definition DeviceCommandTypes :: "string list" where
  "DeviceCommandTypes = [''ping'', ''reboot'', ''script'', ''restart_service'', ''push_config'', ''quarantine'']"

definition payloadTypes :: "string list" where
  "payloadTypes = [''script'', ''restart_service'', ''push_config'', ''quarantine'']"

definition DeviceCommandStatuses :: "string list" where
  "DeviceCommandStatuses = [''pending'', ''sent'', ''completed'', ''failed'']"

definition validateDeviceCommandType :: "string \<Rightarrow> go_error option" where
  "validateDeviceCommandType t =
     (if t \<in> set DeviceCommandTypes then None else Some (Err (''database: invalid command_type '' @ go_quote t)))"

definition validateDeviceCommandStatus :: "string \<Rightarrow> go_error option" where
  "validateDeviceCommandStatus s =
     (if s \<in> set DeviceCommandStatuses then None else Some (Err (''database: invalid status '' @ go_quote s)))"

definition validateQuarantineCommandPayload :: "string \<Rightarrow> go_error option" where
  "validateQuarantineCommandPayload payload =
     (case struct_object (json_decode payload) of
        Some m \<Rightarrow>
          (case get_bool ''enabled'' m of
             Some _ \<Rightarrow> None
           | None \<Rightarrow> Some (Err ''database: quarantine payload must be JSON with enabled boolean''))
      | None \<Rightarrow> Some (Err ''database: quarantine payload must be JSON with enabled boolean''))"

definition maxDeviceCommandOutputLen :: nat where
  "maxDeviceCommandOutputLen = 256 * 1024"

definition truncation_mark :: string where
  "truncation_mark = [CHR 0x0A, CHR 0xE2, CHR 0x80, CHR 0xA6] @ ''(output truncated)''"

definition truncateOutput :: "string \<Rightarrow> string" where
  "truncateOutput s =
     (if length s \<le> maxDeviceCommandOutputLen then s
      else take maxDeviceCommandOutputLen s @ truncation_mark)"

section \<open>Work notes\<close>

definition AppendIncidentWorkNoteJSON :: "uuid \<Rightarrow> json \<Rightarrow> db \<Rightarrow> (go_error + unit) \<times> db" where
  "AppendIncidentWorkNoteJSON incidentID note d =
     (if incidentID = uuid_Nil then (Inl (Err ''database: invalid append''), d)
      else
        (case sql (\<lambda>d. (Inr (affected (\<lambda>r. in_id r = incidentID) (incidents d)),
               d\<lparr>incidents := update_where (\<lambda>r. in_id r = incidentID)
                   (\<lambda>r. r\<lparr>in_work_notes := in_work_notes r @ [note], in_updated_at := now d\<rparr>) (incidents d)\<rparr>)) d of
           (Inl e, d) \<Rightarrow> (Inl (Driver e), d)
         | (Inr n, d) \<Rightarrow> if n = 0 then (Inl (Driver ErrNoRows), d) else (Inr (), d)))"

definition terminalNote :: "lib \<Rightarrow> time \<Rightarrow> uuid \<Rightarrow> bool \<Rightarrow> string \<Rightarrow> uuid \<Rightarrow> string \<Rightarrow> string \<Rightarrow> string \<Rightarrow> json" where
  "terminalNote L t commandID success output operator operatorName ctype status =
     JObj ([(''ts'', JStr (t_rfc3339 L t)), (''author_type'', JStr ''operator''), (''kind'', JStr ''c2_command''),
            (''command_id'', JStr (u_str L commandID)), (''command_type'', JStr ctype), (''success'', JBool success),
            (''exit_state'', JStr status), (''agent_output'', JStr (truncateOutput (TrimSpace output)))]
           @ (if operator \<noteq> uuid_Nil then
                (''operator_user_id'', JStr (u_str L operator))
                  # (if TrimSpace operatorName \<noteq> '''' then [(''operator_username'', JStr (TrimSpace operatorName))] else [])
              else []))"

definition AppendIncidentJournalForTerminalCommand ::
  "lib \<Rightarrow> uuid \<Rightarrow> bool \<Rightarrow> string \<Rightarrow> uuid \<Rightarrow> string \<Rightarrow> db \<Rightarrow> (go_error + unit) \<times> db" where
  "AppendIncidentJournalForTerminalCommand L commandID success output operator operatorName d =
     (if commandID = uuid_Nil then (Inl (Err ''database: incident journal args invalid''), d)
      else
        (case query_row (\<lambda>d. find (\<lambda>c. dc_id c = commandID) (device_commands d)) d of
           (Inl e, d) \<Rightarrow> (Inl (Driver e), d)
         | (Inr c, d) \<Rightarrow>
             (case dc_incident_context_id c of
                None \<Rightarrow> (Inr (), d)
              | Some inc \<Rightarrow>
                  if inc = uuid_Nil then (Inr (), d)
                  else AppendIncidentWorkNoteJSON inc
                         (terminalNote L (now d) commandID success output operator operatorName (dc_command_type c) (dc_status c)) d)))"

section \<open>The queue\<close>

definition insertCommandRow :: "uuid \<Rightarrow> string \<Rightarrow> string \<Rightarrow> uuid option \<Rightarrow> db \<Rightarrow> device_command sql_result" where
  "insertCommandRow deviceID commandType payload incidentContext d =
     (let i = random_uuid d;
          row = \<lparr>dc_id = i, dc_device_id = deviceID, dc_command_type = commandType, dc_payload = payload,
                 dc_status = ''pending'', dc_output = '''', dc_created_at = now d, dc_completed_at = None,
                 dc_incident_context_id = incidentContext\<rparr>
      in if i \<in> dc_id ` set (device_commands d) then (Inl ErrUnique, uuid_used d)
         else if deviceID \<notin> a_id ` set (assets d) then (Inl ErrForeignKey, uuid_used d)
         else if (case incidentContext of None \<Rightarrow> False | Some x \<Rightarrow> x \<notin> in_id ` set (incidents d))
           then (Inl ErrForeignKey, uuid_used d)
         else (Inr row, (uuid_used d)\<lparr>device_commands := device_commands d @ [row]\<rparr>))"

definition InsertDeviceCommand ::
  "uuid \<Rightarrow> string \<Rightarrow> string \<Rightarrow> uuid option \<Rightarrow> db \<Rightarrow> (go_error + device_command) \<times> db" where
  "InsertDeviceCommand deviceID commandType payload incidentContext d =
     (let commandType = TrimSpace (ToLower commandType); payload = TrimSpace payload
      in case validateDeviceCommandType commandType of
           Some e \<Rightarrow> (Inl e, d)
         | None \<Rightarrow>
             if commandType \<in> set payloadTypes \<and> payload = '''' then
               (Inl (Err (''database: payload required for command_type '' @ commandType)), d)
             else if commandType \<notin> set payloadTypes \<and> payload \<noteq> '''' then
               (Inl (Err ''database: payload only allowed for script, restart_service, push_config, and quarantine''), d)
             else
               (case (if commandType = ''quarantine'' then validateQuarantineCommandPayload payload else None) of
                  Some e \<Rightarrow> (Inl e, d)
                | None \<Rightarrow>
                    (case sql (insertCommandRow deviceID commandType payload incidentContext) d of
                       (Inl e, d) \<Rightarrow> (Inl (Wrap ''database: insert device command'' e), d)
                     | (Inr cmd, d) \<Rightarrow> (Inr cmd, d))))"

definition GetDeviceCommand :: "uuid \<Rightarrow> uuid \<Rightarrow> db \<Rightarrow> (go_error + device_command) \<times> db" where
  "GetDeviceCommand commandID deviceID d =
     (case query_row (\<lambda>d. find (\<lambda>c. dc_id c = commandID \<and> (deviceID = uuid_Nil \<or> dc_device_id c = deviceID))
             (device_commands d)) d of
        (Inl ErrNoRows, d) \<Rightarrow> (Inl (Err ''database: device command not found''), d)
      | (Inl e, d) \<Rightarrow> (Inl (Wrap ''database: get device command'' e), d)
      | (Inr cmd, d) \<Rightarrow> (Inr cmd, d))"

definition ListDeviceCommands :: "uuid \<Rightarrow> int \<Rightarrow> db \<Rightarrow> (go_error + device_command list) \<times> db" where
  "ListDeviceCommands deviceID limit d =
     (let limit = (if limit \<le> 0 then 50 else limit); limit = (if limit > 200 then 200 else limit)
      in case query (\<lambda>d. take (nat limit) (sort_key (\<lambda>c. - dc_created_at c)
                 (filter (\<lambda>c. dc_device_id c = deviceID) (device_commands d)))) d of
           (Inl e, d) \<Rightarrow> (Inl (Wrap ''database: list device commands'' e), d)
         | (Inr cs, d) \<Rightarrow> (Inr cs, d))"

definition updateDeviceCommandStatus :: "uuid \<Rightarrow> string \<Rightarrow> string \<Rightarrow> bool \<Rightarrow> db \<Rightarrow> (go_error + unit) \<times> db" where
  "updateDeviceCommandStatus commandID status output setCompleted d =
     (case validateDeviceCommandStatus status of
        Some e \<Rightarrow> (Inl e, d)
      | None \<Rightarrow>
          (case sql (\<lambda>d. (Inr (), d\<lparr>device_commands := update_where (\<lambda>c. dc_id c = commandID)
                 (\<lambda>c. if setCompleted
                      then c\<lparr>dc_status := status, dc_output := output, dc_completed_at := Some (now d)\<rparr>
                      else c\<lparr>dc_status := status, dc_output := output\<rparr>) (device_commands d)\<rparr>)) d of
             (Inl e, d) \<Rightarrow> (Inl (Wrap ''database: update device command'' e), d)
           | (Inr _, d) \<Rightarrow> (Inr (), d)))"

definition MarkDeviceCommandSent :: "uuid \<Rightarrow> db \<Rightarrow> (go_error + unit) \<times> db" where
  "MarkDeviceCommandSent commandID d = updateDeviceCommandStatus commandID ''sent'' '''' False d"

definition ownedByCertSerial :: "uuid \<Rightarrow> string \<Rightarrow> db \<Rightarrow> bool" where
  "ownedByCertSerial commandID certSerial d \<longleftrightarrow>
     list_ex (\<lambda>c. dc_id c = commandID \<and>
       list_ex (\<lambda>a. a_id a = dc_device_id c \<and> a_cert_serial a = Some certSerial) (assets d)) (device_commands d)"

definition DeviceCommandOwnedByCertSerial :: "uuid \<Rightarrow> string \<Rightarrow> db \<Rightarrow> (go_error + bool) \<times> db" where
  "DeviceCommandOwnedByCertSerial commandID certSerial d =
     (case query (ownedByCertSerial commandID (TrimSpace certSerial)) d of
        (Inl e, d) \<Rightarrow> (Inl (Wrap ''database: verify device command ownership'' e), d)
      | (Inr b, d) \<Rightarrow> (Inr b, d))"

text \<open>The common part of \<open>CompleteDeviceCommand\<close> and \<open>FailDeviceCommand\<close>: update, read back, and the
  journal entry whose error is dropped.\<close>

definition finishDeviceCommand :: "lib \<Rightarrow> string \<Rightarrow> bool \<Rightarrow> uuid \<Rightarrow> string \<Rightarrow> db \<Rightarrow> (go_error + device_command) \<times> db" where
  "finishDeviceCommand L status success commandID output d =
     (case updateDeviceCommandStatus commandID status (truncateOutput output) True d of
        (Inl e, d) \<Rightarrow> (Inl e, d)
      | (Inr _, d) \<Rightarrow>
          (case GetDeviceCommand commandID uuid_Nil d of
             (Inl e, d) \<Rightarrow> (Inl e, d)
           | (Inr cmd, d) \<Rightarrow>
               (Inr cmd, snd (AppendIncidentJournalForTerminalCommand L (dc_id cmd) success (dc_output cmd) uuid_Nil '''' d))))"

definition CompleteDeviceCommand :: "lib \<Rightarrow> uuid \<Rightarrow> string \<Rightarrow> db \<Rightarrow> (go_error + device_command) \<times> db" where
  "CompleteDeviceCommand L commandID output d = finishDeviceCommand L ''completed'' True commandID output d"

definition FailDeviceCommand :: "lib \<Rightarrow> uuid \<Rightarrow> string \<Rightarrow> db \<Rightarrow> (go_error + device_command) \<times> db" where
  "FailDeviceCommand L commandID output d = finishDeviceCommand L ''failed'' False commandID output d"

definition FailDeviceCommandIfPending :: "lib \<Rightarrow> uuid \<Rightarrow> string \<Rightarrow> db \<Rightarrow> (go_error + unit) \<times> db" where
  "FailDeviceCommandIfPending L commandID message d =
     (let message = truncateOutput message; P = (\<lambda>c. dc_id c = commandID \<and> dc_status c = ''pending'')
      in case sql (\<lambda>d. (Inr (affected P (device_commands d)),
             d\<lparr>device_commands := update_where P
                 (\<lambda>c. c\<lparr>dc_status := ''failed'', dc_output := message, dc_completed_at := Some (now d)\<rparr>) (device_commands d)\<rparr>)) d of
           (Inl e, d) \<Rightarrow> (Inl (Wrap ''database: fail pending device command'' e), d)
         | (Inr n, d) \<Rightarrow>
             if n = 0 then (Inl (Err ''database: command not in pending state''), d)
             else (Inr (), snd (AppendIncidentJournalForTerminalCommand L commandID False message uuid_Nil '''' d)))"

record PendingDeviceCommandDispatch =
  pd_Command :: device_command
  pd_HumanID :: string

definition pendingRows :: "string \<Rightarrow> db \<Rightarrow> PendingDeviceCommandDispatch list" where
  "pendingRows certSerial d =
     sort_key (\<lambda>p. dc_created_at (pd_Command p))
       (concat (map (\<lambda>c. map (\<lambda>a. \<lparr>pd_Command = c, pd_HumanID = a_human_id a\<rparr>)
            (filter (\<lambda>a. a_id a = dc_device_id c \<and> a_cert_serial a = Some certSerial) (assets d)))
          (filter (\<lambda>c. dc_status c = ''pending'') (device_commands d))))"

definition ListPendingDeviceCommandsForCertSerial ::
  "string \<Rightarrow> int \<Rightarrow> db \<Rightarrow> (go_error + PendingDeviceCommandDispatch list) \<times> db" where
  "ListPendingDeviceCommandsForCertSerial certSerial limit d =
     (let certSerial = TrimSpace certSerial
      in if certSerial = '''' then (Inl (Err ''database: cert serial required''), d)
         else
           (let limit = (if limit \<le> 0 then 10 else limit); limit = (if limit > 50 then 50 else limit)
            in case query (\<lambda>d. take (nat limit) (pendingRows certSerial d)) d of
                 (Inl e, d) \<Rightarrow> (Inl (Wrap ''database: list pending device commands'' e), d)
               | (Inr ps, d) \<Rightarrow> (Inr ps, d)))"

end
