(* ===== verification/Hub.thy ===== *)
theory Hub
  imports Commands
begin

text \<open>
  The WebSocket hubs of \<open>internal/ws\<close>: agent sessions by certificate serial with their bounded outbound
  queues (\<open>hub.go\<close>), the file transfer waiters (\<open>fs_bridge.go\<close>) and the dashboard fan-out
  (\<open>dash_hub.go\<close>). A session is identified by its index in \<open>sessions\<close>, a channel by the list of the
  messages it holds. The operations here run without interleaving; theory \<open>Hub_Facts\<close> splits a dispatch
  at its lock boundaries. Messages are in the canonical form in which \<open>json.Marshal\<close> writes them.
\<close>

section \<open>Agent sessions (hub.go)\<close>

record agentSession =
  as_serial :: string
  as_send :: "json list"
  as_closed :: bool
  as_conn_open :: bool

record C2FileChunk =
  fc_Data :: string
  fc_EOF :: bool
  fc_Err :: string

record C2FileUploadResult =
  fu_OK :: bool
  fu_Error :: string

record hub =
  bySerial :: "(string \<times> nat) list"
  sessions :: "agentSession list"
  fsDown :: "(string \<times> nat) list"
  downChans :: "C2FileChunk list list"
  fsUp :: "(string \<times> nat) list"
  upChans :: "C2FileUploadResult list list"
  panicked :: bool

definition outboundQueueDepth :: nat where
  "outboundQueueDepth = 32"

definition NewHub :: hub where
  "NewHub = \<lparr>bySerial = [], sessions = [], fsDown = [], downChans = [], fsUp = [], upChans = [], panicked = False\<rparr>"

definition hub_register :: "string \<Rightarrow> hub \<Rightarrow> nat \<times> hub" where
  "hub_register serial h =
     (let s = length (sessions h);
          closeConn = (case go_get (bySerial h) serial of
              None \<Rightarrow> sessions h
            | Some prev \<Rightarrow> (sessions h)[prev := (sessions h ! prev)\<lparr>as_conn_open := False\<rparr>])
      in (s, h\<lparr>bySerial := go_put serial s (bySerial h),
              sessions := closeConn @ [\<lparr>as_serial = serial, as_send = [], as_closed = False, as_conn_open = True\<rparr>]\<rparr>))"

text \<open>Closing a closed channel panics.\<close>

definition hub_unregister :: "nat \<Rightarrow> hub \<Rightarrow> hub" where
  "hub_unregister s h =
     (let ses = sessions h ! s;
          m = (if go_get (bySerial h) (as_serial ses) = Some s then AList.delete (as_serial ses) (bySerial h) else bySerial h)
      in h\<lparr>bySerial := m, sessions := (sessions h)[s := ses\<lparr>as_closed := True\<rparr>],
          panicked := panicked h \<or> as_closed ses\<rparr>)"

definition ConnectedCertSerials :: "hub \<Rightarrow> string list" where
  "ConnectedCertSerials h = map fst (bySerial h)"

text \<open>The send of \<open>dispatchRaw\<close> on the session it looked up: a send on a closed channel panics, a queue
  that stays full makes the timer win.\<close>

definition sendTo :: "nat \<Rightarrow> json \<Rightarrow> hub \<Rightarrow> bool \<times> hub" where
  "sendTo s msg h =
     (let ses = sessions h ! s
      in if as_closed ses then (False, h\<lparr>panicked := True\<rparr>)
         else if length (as_send ses) < outboundQueueDepth
           then (True, h\<lparr>sessions := (sessions h)[s := ses\<lparr>as_send := as_send ses @ [msg]\<rparr>]\<rparr>)
         else (False, h))"

definition dispatchRaw :: "string \<Rightarrow> json \<Rightarrow> hub \<Rightarrow> bool \<times> hub" where
  "dispatchRaw certSerial data h =
     (let certSerial = TrimSpace certSerial
      in if certSerial = '''' then (False, h)
         else (case go_get (bySerial h) certSerial of None \<Rightarrow> (False, h) | Some s \<Rightarrow> sendTo s data h))"

definition DispatchJSON :: "string \<Rightarrow> json \<Rightarrow> hub \<Rightarrow> bool \<times> hub" where
  "DispatchJSON certSerial payload h =
     (let certSerial = TrimSpace certSerial
      in if certSerial = '''' then (False, h) else dispatchRaw certSerial (norm_json payload) h)"

text \<open>\<open>writePump\<close>: one message leaves the queue.\<close>

definition pump :: "nat \<Rightarrow> hub \<Rightarrow> hub" where
  "pump s h = h\<lparr>sessions := (sessions h)[s := (sessions h ! s)\<lparr>as_send := tl (as_send (sessions h ! s))\<rparr>]\<rparr>"

definition DispatchJSONByHumanID :: "string \<Rightarrow> json \<Rightarrow> db \<times> hub \<Rightarrow> (go_error + unit) \<times> db \<times> hub" where
  "DispatchJSONByHumanID humanID payload w =
     (case w of (d, h) \<Rightarrow>
       let humanID = TrimSpace humanID
       in if humanID = '''' then (Inl (Err ''ws: humanID is required''), d, h)
          else
            (case sql (\<lambda>d. (case find (\<lambda>a. a_human_id a = humanID) (assets d) of
                    None \<Rightarrow> Inl ErrNoRows
                  | Some a \<Rightarrow> (case a_cert_serial a of None \<Rightarrow> Inl ErrScan | Some s \<Rightarrow> Inr s), d)) d of
               (Inl ErrNoRows, d) \<Rightarrow> (Inl (Err (''ws: no asset for human_id '' @ go_quote humanID)), d, h)
             | (Inl e, d) \<Rightarrow> (Inl (Wrap ''ws: lookup cert_serial'' e), d, h)
             | (Inr certSerial, d) \<Rightarrow>
                 let certSerial = TrimSpace certSerial
                 in if certSerial = '''' then (Inl (Err (''ws: asset '' @ go_quote humanID @ '' has no cert_serial'')), d, h)
                    else (case DispatchJSON certSerial payload h of
                       (False, h) \<Rightarrow> (Inl (Err (''ws: agent not connected for human_id '' @ go_quote humanID
                                          @ '' (cert_serial '' @ go_quote certSerial @ '')'')), d, h)
                     | (True, h) \<Rightarrow> (Inr (), d, h))))"

definition humanIDByCertSerial :: "string \<Rightarrow> db \<Rightarrow> (sql_error + string) \<times> db" where
  "humanIDByCertSerial certSerial d =
     (let certSerial = TrimSpace certSerial
      in if certSerial = '''' then (Inr '''', d)
         else query_row (\<lambda>d. map_option a_human_id (find (\<lambda>a. a_cert_serial a = Some certSerial) (assets d))) d)"

section \<open>File transfer waiters (fs_bridge.go)\<close>

definition fsWaitKey :: "string \<Rightarrow> string \<Rightarrow> string" where
  "fsWaitKey certSerial requestID = TrimSpace certSerial @ [CHR 0x1E] @ TrimSpace requestID"

definition downCap :: nat where
  "downCap = 8"

definition upCap :: nat where
  "upCap = 1"

definition RegisterFSDownloadWaiter :: "string \<Rightarrow> string \<Rightarrow> hub \<Rightarrow> nat \<times> hub" where
  "RegisterFSDownloadWaiter certSerial requestID h =
     (let c = length (downChans h)
      in (c, h\<lparr>fsDown := go_put (fsWaitKey certSerial requestID) c (fsDown h), downChans := downChans h @ [[]]\<rparr>))"

definition cancelFSDownload :: "string \<Rightarrow> string \<Rightarrow> hub \<Rightarrow> hub" where
  "cancelFSDownload certSerial requestID h = h\<lparr>fsDown := AList.delete (fsWaitKey certSerial requestID) (fsDown h)\<rparr>"

definition RegisterFSUploadResultWaiter :: "string \<Rightarrow> string \<Rightarrow> hub \<Rightarrow> nat \<times> hub" where
  "RegisterFSUploadResultWaiter certSerial requestID h =
     (let c = length (upChans h)
      in (c, h\<lparr>fsUp := go_put (fsWaitKey certSerial requestID) c (fsUp h), upChans := upChans h @ [[]]\<rparr>))"

definition cancelFSUpload :: "string \<Rightarrow> string \<Rightarrow> hub \<Rightarrow> hub" where
  "cancelFSUpload certSerial requestID h = h\<lparr>fsUp := AList.delete (fsWaitKey certSerial requestID) (fsUp h)\<rparr>"

text \<open>The non-blocking send: a full channel drops the value.\<close>

definition trySend :: "nat \<Rightarrow> 'a \<Rightarrow> 'a list \<Rightarrow> 'a list" where
  "trySend cap v ch = (if length ch < cap then ch @ [v] else ch)"

definition trySendFSDownload :: "nat \<Rightarrow> C2FileChunk \<Rightarrow> hub \<Rightarrow> hub" where
  "trySendFSDownload c v h = h\<lparr>downChans := (downChans h)[c := trySend downCap v (downChans h ! c)]\<rparr>"

definition decodeErrorText :: string where
  "decodeErrorText = ''decode error''"

definition downloadChunk :: "lib \<Rightarrow> string \<Rightarrow> raw_json \<Rightarrow> C2FileChunk option" where
  "downloadChunk L msgType data =
     (if msgType = ''fs_download_chunk'' then
        Some (case struct_object data of
           None \<Rightarrow> \<lparr>fc_Data = '''', fc_EOF = False, fc_Err = decodeErrorText\<rparr>
         | Some m \<Rightarrow>
             (case (get_string ''data_b64'' m, get_bool ''eof'' m) of
                (Some b64, Some eof) \<Rightarrow>
                  if TrimSpace b64 \<noteq> '''' then
                    (case b64_decode L b64 of
                       None \<Rightarrow> \<lparr>fc_Data = '''', fc_EOF = False, fc_Err = decodeErrorText\<rparr>
                     | Some raw \<Rightarrow> \<lparr>fc_Data = raw, fc_EOF = eof, fc_Err = ''''\<rparr>)
                  else \<lparr>fc_Data = '''', fc_EOF = eof, fc_Err = ''''\<rparr>
              | _ \<Rightarrow> \<lparr>fc_Data = '''', fc_EOF = False, fc_Err = decodeErrorText\<rparr>))
      else if msgType = ''fs_download_done'' then Some \<lparr>fc_Data = '''', fc_EOF = True, fc_Err = ''''\<rparr>
      else if msgType = ''fs_download_error'' then
        Some \<lparr>fc_Data = '''', fc_EOF = False,
              fc_Err = TrimSpace (case struct_object data of None \<Rightarrow> ''''
                | Some m \<Rightarrow> (case get_string ''error'' m of None \<Rightarrow> '''' | Some e \<Rightarrow> e))\<rparr>
      else None)"

definition deliverFSDownload :: "lib \<Rightarrow> string \<Rightarrow> string \<Rightarrow> string \<Rightarrow> raw_json \<Rightarrow> hub \<Rightarrow> bool \<times> hub" where
  "deliverFSDownload L certSerial requestID msgType data h =
     (case go_get (fsDown h) (fsWaitKey certSerial requestID) of
        None \<Rightarrow> (True, h)
      | Some c \<Rightarrow>
          (case downloadChunk L msgType data of
             None \<Rightarrow> (False, h)
           | Some v \<Rightarrow> (True, trySendFSDownload c v h)))"

definition deliverFSUploadResult :: "string \<Rightarrow> string \<Rightarrow> raw_json \<Rightarrow> hub \<Rightarrow> bool \<times> hub" where
  "deliverFSUploadResult certSerial requestID data h =
     (let m = (case struct_object data of None \<Rightarrow> [] | Some m \<Rightarrow> m);
          ok = (case get_bool ''ok'' m of None \<Rightarrow> False | Some b \<Rightarrow> b);
          er = (case get_string ''error'' m of None \<Rightarrow> '''' | Some e \<Rightarrow> e)
      in case go_get (fsUp h) (fsWaitKey certSerial requestID) of
           None \<Rightarrow> (True, h)
         | Some c \<Rightarrow> (True, h\<lparr>upChans := (upChans h)[c := trySend upCap \<lparr>fu_OK = ok, fu_Error = TrimSpace er\<rparr> (upChans h ! c)]\<rparr>))"

definition TryDeliverFileTransfer :: "lib \<Rightarrow> string \<Rightarrow> raw_json \<Rightarrow> hub \<Rightarrow> bool \<times> hub" where
  "TryDeliverFileTransfer L certSerial data h =
     (case struct_object data of
        None \<Rightarrow> (False, h)
      | Some m \<Rightarrow>
          (case (get_string ''type'' m, get_string ''request_id'' m) of
             (Some t, Some rid) \<Rightarrow>
               (let t = TrimSpace t; rid = TrimSpace rid
                in if t \<in> {''fs_download_chunk'', ''fs_download_done'', ''fs_download_error''} then
                     (if rid = '''' then (False, h) else deliverFSDownload L certSerial rid t data h)
                   else if t = ''fs_upload_result'' then
                     (if rid = '''' then (False, h) else deliverFSUploadResult certSerial rid data h)
                   else (False, h))
           | _ \<Rightarrow> (False, h)))"

text \<open>The REST reader of a download (\<open>handleDownload\<close> of \<open>api/files.go\<close>): what it writes to the client from
  the chunks it receives, and whether it has ended.\<close>

fun downloadLoop :: "C2FileChunk list \<Rightarrow> string \<times> bool" where
  "downloadLoop [] = ('''', False)"
| "downloadLoop (c # cs) =
     (if fc_Err c \<noteq> '''' then ('''', True)
      else if fc_EOF c then (fc_Data c, True)
      else (case downloadLoop cs of (out, fin) \<Rightarrow> (fc_Data c @ out, fin)))"

section \<open>Dashboard clients (dash_hub.go)\<close>

record dashboardClient =
  cl_send :: "json list"
  cl_closed :: bool

record DashboardHub =
  clients :: "nat list"
  clientTable :: "dashboardClient list"
  dash_panicked :: bool

definition dashOutboundQueueDepth :: nat where
  "dashOutboundQueueDepth = 64"

definition NewDashboardHub :: DashboardHub where
  "NewDashboardHub = \<lparr>clients = [], clientTable = [], dash_panicked = False\<rparr>"

definition dash_register :: "DashboardHub \<Rightarrow> nat \<times> DashboardHub" where
  "dash_register h =
     (let c = length (clientTable h)
      in (c, h\<lparr>clients := c # clients h, clientTable := clientTable h @ [\<lparr>cl_send = [], cl_closed = False\<rparr>]\<rparr>))"

definition dash_unregister :: "nat \<Rightarrow> DashboardHub \<Rightarrow> DashboardHub" where
  "dash_unregister c h =
     h\<lparr>clients := removeAll c (clients h),
       clientTable := (clientTable h)[c := (clientTable h ! c)\<lparr>cl_closed := True\<rparr>],
       dash_panicked := dash_panicked h \<or> cl_closed (clientTable h ! c)\<rparr>"

definition offer :: "json \<Rightarrow> nat \<Rightarrow> DashboardHub \<Rightarrow> DashboardHub" where
  "offer msg c h =
     (if cl_closed (clientTable h ! c) then h\<lparr>dash_panicked := True\<rparr>
      else h\<lparr>clientTable := (clientTable h)[c := (clientTable h ! c)
               \<lparr>cl_send := trySend dashOutboundQueueDepth msg (cl_send (clientTable h ! c))\<rparr>]\<rparr>)"

definition Broadcast :: "json \<Rightarrow> DashboardHub \<Rightarrow> DashboardHub" where
  "Broadcast data h = fold (offer data) (clients h) h"

end
