(* ===== verification/Auth.thy ===== *)
theory Auth
  imports Schema
begin

text \<open>
  Dashboard authentication and authorisation: roles, passwords and session tokens
  (\<open>internal/auth/users.go\<close>), the request checks (\<open>dashboard_http.go\<close>, \<open>api/dashboard_auth.go\<close>), the RBAC
  middleware (\<open>dashboard_rbac.go\<close>), the audit trail (\<open>audit.go\<close>, \<open>ip.go\<close>, \<open>database/audit_logs.go\<close>).
  The token library and bcrypt are parameters.
\<close>

section \<open>Requests and responses\<close>

record Principal =
  p_UserID :: uuid
  p_Username :: string
  p_Role :: string

text \<open>A header or query value that is absent is the empty string; \<open>rq_PathID\<close> is the first wildcard of the
  route pattern, \<open>rq_PathDevice\<close> the second.\<close>

record request =
  rq_Method :: string
  rq_Path :: string
  rq_PathID :: string
  rq_PathDevice :: string
  rq_Query :: "string \<Rightarrow> string"
  rq_Origin :: string
  rq_Authorization :: string
  rq_TokenQuery :: string
  rq_XForwardedFor :: string
  rq_RemoteAddr :: string
  rq_RequestID :: string
  rq_Body :: raw_json
  rq_Principal :: "Principal option"

datatype response = RespError nat go_error | RespJson nat json | RespEmpty nat

fun resp_status :: "response \<Rightarrow> nat" where
  "resp_status (RespError n _) = n"
| "resp_status (RespJson n _) = n"
| "resp_status (RespEmpty n) = n"

section \<open>Roles (users.go)\<close>

definition ParseRole :: "string \<Rightarrow> string option" where
  "ParseRole s =
     (let r = ToLower (TrimSpace s)
      in if r = ''admin'' then Some ''admin''
         else if r = ''operator'' then Some ''operator''
         else if r = ''viewer'' then Some ''viewer''
         else None)"

definition RoleRank :: "string \<Rightarrow> nat" where
  "RoleRank role =
     (case ParseRole role of
        None \<Rightarrow> 0
      | Some r \<Rightarrow> if r = ''admin'' then 3 else if r = ''operator'' then 2 else if r = ''viewer'' then 1 else 0)"

definition HasAtLeast :: "string \<Rightarrow> string \<Rightarrow> bool" where
  "HasAtLeast role minRole \<longleftrightarrow> (let a = RoleRank role; b = RoleRank minRole in a > 0 \<and> b > 0 \<and> a \<ge> b)"

section \<open>Passwords and tokens\<close>

text \<open>bcrypt: hashing fails on passwords over 72 bytes.\<close>

record bcrypt =
  bc_Generate :: "string \<Rightarrow> string option"
  bc_Compare :: "string \<Rightarrow> string \<Rightarrow> bool"

definition HashPassword :: "bcrypt \<Rightarrow> string \<Rightarrow> go_error + string" where
  "HashPassword B plain =
     (if TrimSpace plain = '''' then Inl (Err ''empty password'')
      else (case bc_Generate B plain of None \<Rightarrow> Inl (Err ''bcrypt: password length exceeds 72 bytes'') | Some h \<Rightarrow> Inr h))"

definition CheckPassword :: "bcrypt \<Rightarrow> string \<Rightarrow> string \<Rightarrow> bool" where
  "CheckPassword B hash plain \<longleftrightarrow> hash \<noteq> '''' \<and> plain \<noteq> '''' \<and> bc_Compare B hash plain"

record arxClaims =
  c_Username :: string
  c_Role :: string
  c_Subject :: string
  c_IssuedAt :: time
  c_ExpiresAt :: time

text \<open>The token library with the service's secret and issuer: signing, and verification of method,
  signature and validity period at an instant.\<close>

record JWTService =
  jwt_sign :: "arxClaims \<Rightarrow> string option"
  jwt_verify :: "time \<Rightarrow> string \<Rightarrow> arxClaims option"
  jwt_ttl :: int

definition JWT_Issue :: "lib \<Rightarrow> JWTService \<Rightarrow> Principal \<Rightarrow> time \<Rightarrow> go_error + (string \<times> time)" where
  "JWT_Issue L J p t =
     (if ParseRole (p_Role p) = None then Inl (Err ''invalid role'')
      else if p_UserID p = uuid_Nil then Inl (Err ''invalid user id'')
      else
        (case jwt_sign J \<lparr>c_Username = p_Username p, c_Role = p_Role p, c_Subject = u_str L (p_UserID p),
               c_IssuedAt = t, c_ExpiresAt = t + jwt_ttl J\<rparr> of
           None \<Rightarrow> Inl (Err ''sign'')
         | Some tok \<Rightarrow> Inr (tok, t + jwt_ttl J)))"

definition JWT_Parse :: "lib \<Rightarrow> JWTService \<Rightarrow> time \<Rightarrow> string \<Rightarrow> go_error + Principal" where
  "JWT_Parse L J t tokenString =
     (case jwt_verify J t (TrimSpace tokenString) of
        None \<Rightarrow> Inl (Err ''invalid token'')
      | Some c \<Rightarrow>
          (case u_parse L (TrimSpace (c_Subject c)) of
             None \<Rightarrow> Inl (Err ''invalid subject'')
           | Some uid \<Rightarrow>
               (case ParseRole (c_Role c) of
                  None \<Rightarrow> Inl (Err ''invalid role claim'')
                | Some role \<Rightarrow>
                    (let un = TrimSpace (c_Username c)
                     in if un = '''' then Inl (Err ''invalid username claim'')
                        else Inr \<lparr>p_UserID = uid, p_Username = un, p_Role = role\<rparr>))))"

section \<open>Request checks (dashboard_http.go, api/dashboard_auth.go)\<close>

definition DashboardOriginOK :: "request \<Rightarrow> string list \<Rightarrow> bool" where
  "DashboardOriginOK r allowedOrigins \<longleftrightarrow>
     (let origin = TrimSpace (rq_Origin r)
      in origin = '''' \<or> list_ex (\<lambda>o'. TrimSpace o' = origin) allowedOrigins)"

definition DashboardBearerToken :: "request \<Rightarrow> string" where
  "DashboardBearerToken r =
     (let got = TrimSpace (rq_TokenQuery r)
      in if got \<noteq> '''' then got
         else (let h = rq_Authorization r
               in if length h > 7 \<and> EqualFold (take 7 h) ''bearer '' then TrimSpace (drop 7 h) else ''''))"

record DashboardAuth =
  da_JWT :: JWTService
  da_Origins :: "string list"

definition RequirePrincipal :: "lib \<Rightarrow> DashboardAuth \<Rightarrow> time \<Rightarrow> request \<Rightarrow> response + Principal" where
  "RequirePrincipal L A t r =
     (if \<not> DashboardOriginOK r (da_Origins A) then Inl (RespError 403 (Err ''forbidden''))
      else
        (case rq_Principal r of
           Some p \<Rightarrow>
             if p_UserID p \<noteq> uuid_Nil then Inr p
             else
               (let tok = DashboardBearerToken r
                in if tok = '''' then Inl (RespError 401 (Err ''missing token''))
                   else (case JWT_Parse L (da_JWT A) t tok of Inl _ \<Rightarrow> Inl (RespError 401 (Err ''invalid token'')) | Inr p \<Rightarrow> Inr p))
         | None \<Rightarrow>
             (let tok = DashboardBearerToken r
              in if tok = '''' then Inl (RespError 401 (Err ''missing token''))
                 else (case JWT_Parse L (da_JWT A) t tok of Inl _ \<Rightarrow> Inl (RespError 401 (Err ''invalid token'')) | Inr p \<Rightarrow> Inr p))))"

definition RequireMinRole :: "lib \<Rightarrow> DashboardAuth \<Rightarrow> time \<Rightarrow> request \<Rightarrow> string \<Rightarrow> response + Principal" where
  "RequireMinRole L A t r minRole =
     (case RequirePrincipal L A t r of
        Inl e \<Rightarrow> Inl e
      | Inr p \<Rightarrow> if HasAtLeast (p_Role p) minRole then Inr p else Inl (RespError 403 (Err ''forbidden'')))"

section \<open>The RBAC middleware (dashboard_rbac.go)\<close>

definition dashboardRBACPublic :: "string \<Rightarrow> string \<Rightarrow> bool" where
  "dashboardRBACPublic method path \<longleftrightarrow>
     method = ''POST'' \<and> path = ''/v1/auth/login''
     \<or> method = ''POST'' \<and> path = ''/v1/enroll''
     \<or> method = ''POST'' \<and> path = ''/v1/telemetry''
     \<or> method = ''GET'' \<and> path = ''/v1/ws''
     \<or> method = ''GET'' \<and> HasPrefix path ''/v1/agent/''"

definition viewerSafeMethod :: "string \<Rightarrow> bool" where
  "viewerSafeMethod method \<longleftrightarrow> method = ''GET'' \<or> method = ''HEAD''"

text \<open>The cases of the \<open>switch\<close> are tried in order; a case that matches without returning ends it.\<close>

definition operatorForbidden :: "string \<Rightarrow> string \<Rightarrow> bool" where
  "operatorForbidden method path =
     (let p0 = TrimSuffix (TrimSpace path) ''/''; p = (if p0 = '''' then ''/'' else p0)
      in if HasPrefix p ''/v1/audit'' then True
         else if HasPrefix p ''/v1/backups'' then True
         else if p = ''/v1/users'' \<and> method = ''GET'' then True
         else if p = ''/v1/users'' \<and> method = ''POST'' then True
         else if HasPrefix p ''/v1/users/'' \<and> p \<noteq> ''/v1/users/directory'' then method = ''PATCH'' \<or> method = ''DELETE''
         else if HasPrefix p ''/v1/alerts/'' then \<not> (p = ''/v1/alerts/active'' \<and> method = ''GET'')
         else if method = ''DELETE'' \<and> HasPrefix p ''/v1/packages/'' then True
         else if method = ''POST'' \<and> HasPrefix p ''/v1/devices/'' \<and> (HasSuffix p ''/lock'' \<or> HasSuffix p ''/wipe'') then True
         else False)"

text \<open>The middleware answers the request (\<open>Inl\<close>) or passes it on (\<open>Inr\<close>) with the principal attached.\<close>

definition DashboardRBACMiddleware :: "lib \<Rightarrow> DashboardAuth \<Rightarrow> time \<Rightarrow> request \<Rightarrow> response + request" where
  "DashboardRBACMiddleware L A t r =
     (let path = rq_Path r; method = rq_Method r
      in if \<not> HasPrefix path ''/v1/'' then Inr r
         else if method = ''OPTIONS'' then Inr r
         else if dashboardRBACPublic method path then Inr r
         else if \<not> DashboardOriginOK r (da_Origins A) then Inl (RespError 403 (Err ''forbidden''))
         else
           (let tok = DashboardBearerToken r
            in if tok = '''' then Inl (RespError 401 (Err ''missing token''))
               else (case JWT_Parse L (da_JWT A) t tok of
                       Inl _ \<Rightarrow> Inl (RespError 401 (Err ''invalid token''))
                     | Inr p \<Rightarrow>
                         if p_UserID p = uuid_Nil then Inl (RespError 401 (Err ''invalid token''))
                         else if p_Role p = ''viewer'' \<and> \<not> viewerSafeMethod method
                           then Inl (RespError 403 (Err ''read-only role cannot modify data''))
                         else if p_Role p = ''operator'' \<and> operatorForbidden method path
                           then Inl (RespError 403 (Err ''insufficient permissions''))
                         else Inr (r\<lparr>rq_Principal := Some p\<rparr>))))"

section \<open>The audit trail\<close>

definition ClientIP :: "lib \<Rightarrow> request \<Rightarrow> string" where
  "ClientIP L r =
     (let xff = TrimSpace (rq_XForwardedFor r)
      in if xff \<noteq> '''' then TrimSpace (hd (Split xff (CHR '','')))
         else (case net_SplitHost L (rq_RemoteAddr r) of None \<Rightarrow> rq_RemoteAddr r | Some host \<Rightarrow> host))"

record AuditRecord =
  ar_UserID :: uuid
  ar_Action :: string
  ar_ResourceType :: string
  ar_ResourceID :: "uuid option"
  ar_TargetAssetID :: "uuid option"
  ar_Details :: json_object
  ar_IPAddress :: string

definition InsertAuditLogRow :: "audit_log \<Rightarrow> db \<Rightarrow> (go_error + unit) \<times> db" where
  "InsertAuditLogRow row d =
     (let uid = (case au_user_id row of None \<Rightarrow> None | Some u \<Rightarrow> if u = uuid_Nil then None else Some u);
          ip = (case au_ip_address row of None \<Rightarrow> None | Some s \<Rightarrow> if TrimSpace s = '''' then None else Some (TrimSpace s))
      in case sql (\<lambda>d.
             if (case uid of None \<Rightarrow> False | Some u \<Rightarrow> u \<notin> us_id ` set (users d)) then (Inl ErrForeignKey, d)
             else if (case au_target_asset_id row of None \<Rightarrow> False | Some a \<Rightarrow> a \<notin> a_id ` set (assets d)) then (Inl ErrForeignKey, d)
             else (Inr (), d\<lparr>audit_logs := audit_logs d @ [row\<lparr>au_user_id := uid, au_action := TrimSpace (au_action row),
                     au_resource_type := TrimSpace (au_resource_type row), au_ip_address := ip, au_created_at := now d\<rparr>]\<rparr>)) d of
           (Inl e, d) \<Rightarrow> (Inl (Driver e), d)
         | (Inr _, d) \<Rightarrow> (Inr (), d))"

definition InsertAuditRecord :: "AuditRecord \<Rightarrow> db \<Rightarrow> (go_error + unit) \<times> db" where
  "InsertAuditRecord rec d =
     (if TrimSpace (ar_Action rec) = '''' then (Inr (), d)
      else InsertAuditLogRow \<lparr>
        au_user_id = (if ar_UserID rec \<noteq> uuid_Nil then Some (ar_UserID rec) else None),
        au_action = TrimSpace (ar_Action rec),
        au_resource_type = TrimSpace (ar_ResourceType rec),
        au_resource_id = ar_ResourceID rec,
        au_target_asset_id = ar_TargetAssetID rec,
        au_details = JObj (ar_Details rec),
        au_ip_address = (let s = TrimSpace (ar_IPAddress rec) in if s \<noteq> '''' then Some s else None),
        au_created_at = now d\<rparr> d)"

definition InsertAuditLog :: "uuid \<Rightarrow> string \<Rightarrow> uuid option \<Rightarrow> json_object \<Rightarrow> db \<Rightarrow> (go_error + unit) \<times> db" where
  "InsertAuditLog userID action targetAssetID details d =
     InsertAuditRecord \<lparr>ar_UserID = userID, ar_Action = action,
       ar_ResourceType = (if targetAssetID \<noteq> None then ''device'' else ''''), ar_ResourceID = targetAssetID,
       ar_TargetAssetID = targetAssetID, ar_Details = details, ar_IPAddress = ''''\<rparr> d"

text \<open>The textual form \<open>8-4-4-4-12\<close> of a UUID at the start of a string.\<close>

definition is_hex :: "char \<Rightarrow> bool" where
  "is_hex c \<longleftrightarrow> hex_val c \<noteq> None"

definition uuid_text :: "string \<Rightarrow> bool" where
  "uuid_text s \<longleftrightarrow> length s = 36
     \<and> (\<forall>i < 36. if i \<in> {8, 13, 18, 23} then s ! i = CHR ''-'' else is_hex (s ! i))"

definition skipMutatingHTTPAudit :: "string \<Rightarrow> string \<Rightarrow> bool" where
  "skipMutatingHTTPAudit method path \<longleftrightarrow>
     (let p0 = TrimSuffix path ''/''; p = (if p0 = '''' then ''/'' else p0)
      in method = ''POST'' \<and> (p \<in> {''/v1/auth/login'', ''/v1/enroll'', ''/v1/telemetry''}
           \<or> HasPrefix p ''/v1/devices/'' \<and> uuid_text (take 36 (drop 12 p))
               \<and> ToLower (drop 48 p) \<in> {''/commands'', ''/assign'', ''/unassign'', ''/lock'', ''/wipe''}
           \<or> EqualFold (take 14 p) ''/v1/incidents/'' \<and> uuid_text (take 36 (drop 14 p)) \<and> EqualFold (drop 50 p) ''/commands''))"

definition parseOptionalAssetTarget :: "lib \<Rightarrow> string \<Rightarrow> uuid option" where
  "parseOptionalAssetTarget L path =
     (if HasPrefix path ''/v1/assets/'' \<and> uuid_text (take 36 (drop 11 path))
         \<and> (drop 47 path = '''' \<or> hd (drop 47 path) = CHR ''/'')
      then u_parse L (take 36 (drop 11 path)) else None)"

fun after_first :: "string \<Rightarrow> string \<Rightarrow> string option" where
  "after_first [] pre = (if pre = [] then Some [] else None)"
| "after_first (c # s) pre = (if prefix pre (c # s) then Some (drop (length pre) (c # s)) else after_first s pre)"

fun resource_loop :: "lib \<Rightarrow> string \<Rightarrow> (string \<times> string) list \<Rightarrow> string \<times> uuid option" where
  "resource_loop L path [] = ('''', None)"
| "resource_loop L path ((pre, typ) # prs) =
     (case after_first path pre of
        None \<Rightarrow> resource_loop L path prs
      | Some rest \<Rightarrow>
          if rest = '''' then resource_loop L path prs
          else (case u_parse L (hd (Split rest (CHR ''/''))) of
                  None \<Rightarrow> resource_loop L path prs
                | Some i \<Rightarrow> (typ, Some i)))"

definition parsePathResource :: "lib \<Rightarrow> string \<Rightarrow> string \<times> uuid option" where
  "parsePathResource L path =
     resource_loop L (TrimSuffix path ''/'')
       [(''/v1/devices/'', ''device''), (''/v1/assets/'', ''asset''), (''/v1/incidents/'', ''incident''), (''/v1/users/'', ''user'')]"

text \<open>\<open>MutatingAuditMiddleware\<close>: the handler \<open>next\<close> runs once; a successful mutation by a known principal is
  recorded afterwards, and a failing insert does not change the answer.\<close>

definition auditPrincipal :: "lib \<Rightarrow> DashboardAuth \<Rightarrow> time \<Rightarrow> request \<Rightarrow> request" where
  "auditPrincipal L A t r =
     (if (case rq_Principal r of Some p \<Rightarrow> p_UserID p \<noteq> uuid_Nil | None \<Rightarrow> False) then r
      else if DashboardOriginOK r (da_Origins A) \<and> DashboardBearerToken r \<noteq> '''' then
        (case JWT_Parse L (da_JWT A) t (DashboardBearerToken r) of
           Inr p \<Rightarrow> if p_UserID p \<noteq> uuid_Nil then r\<lparr>rq_Principal := Some p\<rparr> else r
         | Inl _ \<Rightarrow> r)
      else r)"

definition mutationRecord :: "lib \<Rightarrow> request \<Rightarrow> Principal \<Rightarrow> nat \<Rightarrow> AuditRecord" where
  "mutationRecord L r p status =
     (case parsePathResource L (rq_Path r) of (resType, resID) \<Rightarrow>
        \<lparr>ar_UserID = p_UserID p, ar_Action = ''rest_mutation'', ar_ResourceType = resType, ar_ResourceID = resID,
         ar_TargetAssetID =
           (case parseOptionalAssetTarget L (rq_Path r) of
              Some a \<Rightarrow> Some a
            | None \<Rightarrow> if resType = ''device'' then resID else None),
         ar_Details = [(''http_method'', JStr (rq_Method r)), (''path'', JStr (rq_Path r)), (''http_status'', JNum (of_nat status))]
           @ (if TrimSpace (rq_RequestID r) \<noteq> '''' then [(''request_id'', JStr (TrimSpace (rq_RequestID r)))] else []),
         ar_IPAddress = ClientIP L r\<rparr>)"

definition MutatingAuditMiddleware ::
  "lib \<Rightarrow> DashboardAuth \<Rightarrow> (request \<Rightarrow> db \<Rightarrow> response \<times> db) \<Rightarrow> request \<Rightarrow> db \<Rightarrow> response \<times> db" where
  "MutatingAuditMiddleware L A next r d =
     (if rq_Method r \<notin> {''POST'', ''PUT'', ''PATCH'', ''DELETE''} then next r d
      else if \<not> HasPrefix (rq_Path r) ''/v1/'' then next r d
      else if skipMutatingHTTPAudit (rq_Method r) (rq_Path r) then next r d
      else
        (let r = auditPrincipal L A (now d) r
         in case next r d of
              (resp, d) \<Rightarrow>
                if resp_status resp < 200 \<or> resp_status resp > 299 then (resp, d)
                else (case rq_Principal r of
                        None \<Rightarrow> (resp, d)
                      | Some p \<Rightarrow>
                          if p_UserID p = uuid_Nil then (resp, d)
                          else (resp, snd (InsertAuditRecord (mutationRecord L r p (resp_status resp)) d)))))"

end
