(* ===== verification/Compliance.thy ===== *)
theory Compliance
  imports Policy Hub Auth
begin

text \<open>
  Device compliance: the profiles assigned to an asset (\<open>database/mdm_configuration.go\<close>), the
  reconciliation of assignment states (\<open>mdm_assignment_state.go\<close>), the verdict after telemetry with
  automatic quarantine (\<open>mdm/compliance\<close>), and the routes that show the effective policy and switch
  quarantine (\<open>api/device_effective_policy.go\<close>, \<open>api/compliance_routes.go\<close>).

  The dispatcher of device commands is a parameter \<open>dispatch\<close> that acts on a state of its own; in the
  server it is the hub. Rows with equal names come in storage order from \<open>ORDER BY name\<close>.
\<close>

section \<open>Assigned profiles (mdm_configuration.go)\<close>

type_synonym 'w dispatcher = "string \<Rightarrow> json \<Rightarrow> 'w \<Rightarrow> bool \<times> 'w"

record AssignedProfileRow =
  ap_ID :: uuid
  ap_Name :: string
  ap_Type :: string
  ap_Payload_raw :: raw_json
  ap_Platform :: string

definition assignedTo :: "uuid \<Rightarrow> db \<Rightarrow> profile_assignment \<Rightarrow> bool" where
  "assignedTo assetID d pa \<longleftrightarrow>
     pa_target_kind pa = ''device'' \<and> pa_device_id pa = Some assetID
     \<or> pa_target_kind pa = ''principal_group''
         \<and> list_ex (\<lambda>gd. pa_principal_group_id pa = Some (gd_group_id gd) \<and> gd_device_id gd = assetID) (principal_group_devices d)"

definition assignedProfiles :: "uuid \<Rightarrow> string \<Rightarrow> db \<Rightarrow> configuration_profile list" where
  "assignedProfiles assetID p d =
     sort_key cf_name (filter (\<lambda>cp. ToLower (pg_trim (cf_platform cp)) = p
         \<and> list_ex (\<lambda>pa. pa_profile_id pa = cf_id cp \<and> assignedTo assetID d pa) (profile_assignments d))
       (configuration_profiles d))"

definition ListAssignedProfilesForAsset :: "uuid \<Rightarrow> string \<Rightarrow> db \<Rightarrow> (go_error + AssignedProfileRow list) \<times> db" where
  "ListAssignedProfilesForAsset assetID platform d =
     (let p = ToLower (TrimSpace platform)
      in if p = '''' then (Inl (Err ''platform is required''), d)
         else (case query (assignedProfiles assetID p) d of
                 (Inl e, d) \<Rightarrow> (Inl (Wrap ''list assigned profiles'' e), d)
               | (Inr cps, d) \<Rightarrow>
                   (Inr (map (\<lambda>cp. \<lparr>ap_ID = cf_id cp, ap_Name = cf_name cp, ap_Type = cf_type cp,
                        ap_Payload_raw = cf_payload cp, ap_Platform = cf_platform cp\<rparr>) cps), d)))"

text \<open>\<open>appendProfileWIRE\<close>: the first payload that does not decode is the error.\<close>

fun appendProfileWIRE :: "lib \<Rightarrow> AssignedProfileRow list \<Rightarrow> go_error + json list" where
  "appendProfileWIRE L [] = Inr []"
| "appendProfileWIRE L (r # rs) =
     (let wire = (\<lambda>payload. JObj [(''id'', JStr (u_str L (ap_ID r))), (''name'', JStr (ap_Name r)), (''profile_type'', JStr (ap_Type r)),
                    (''platform'', JStr (ap_Platform r)), (''payload'', payload)])
      in case ap_Payload_raw r of
           RawInvalid \<Rightarrow> Inl (Err ''profile payload decode'')
         | RawEmpty \<Rightarrow> map_sum id (Cons (wire (JObj []))) (appendProfileWIRE L rs)
         | RawDoc v \<Rightarrow> map_sum id (Cons (wire v)) (appendProfileWIRE L rs))"

section \<open>Assignment states (mdm_assignment_state.go)\<close>

definition scopedAssignment :: "uuid \<Rightarrow> string \<Rightarrow> db \<Rightarrow> profile_assignment \<Rightarrow> bool" where
  "scopedAssignment assetID platform d pa \<longleftrightarrow>
     list_ex (\<lambda>cp. cf_id cp = pa_profile_id pa \<and> ToLower (pg_trim (cf_platform cp)) = ToLower (pg_trim platform))
       (configuration_profiles d) \<and> assignedTo assetID d pa"

definition setAssignmentState :: "(db \<Rightarrow> profile_assignment \<Rightarrow> bool) \<Rightarrow> string \<Rightarrow> db \<Rightarrow> unit sql_result" where
  "setAssignmentState P state =
     sql (\<lambda>d. (Inr (), d\<lparr>profile_assignments := update_where (P d) (\<lambda>pa. pa\<lparr>pa_assignment_state := state\<rparr>) (profile_assignments d)\<rparr>))"

definition ReconcileProfileAssignmentStates :: "uuid \<Rightarrow> string \<Rightarrow> uuid list \<Rightarrow> db \<Rightarrow> (go_error + unit) \<times> db" where
  "ReconcileProfileAssignmentStates assetID platform conflictingProfiles =
     transaction (\<lambda>d.
       (case setAssignmentState (scopedAssignment assetID platform) ''ok'' d of
          (Inl e, d) \<Rightarrow> (Inl (Wrap ''reset assignment states'' e), d)
        | (Inr _, d) \<Rightarrow>
            if conflictingProfiles = [] then (Inr (), d)
            else (case setAssignmentState (\<lambda>d pa. scopedAssignment assetID platform d pa \<and> pa_profile_id pa \<in> set conflictingProfiles)
                         ''conflict'' d of
                    (Inl e, d) \<Rightarrow> (Inl (Wrap ''flag conflicting assignments'' e), d)
                  | (Inr _, d) \<Rightarrow> (Inr (), d))))
       (Wrap ''begin reconcile assignment states'') (Wrap ''commit reconcile assignment states'')"

section \<open>Compliance columns and tenant settings\<close>

definition SetAssetCompliance :: "uuid \<Rightarrow> string \<Rightarrow> string \<Rightarrow> db \<Rightarrow> (go_error + unit) \<times> db" where
  "SetAssetCompliance assetID status reason d =
     (let status = TrimSpace (ToLower status); reason = take 8192 (TrimSpace reason)
      in if status \<notin> {''compliant'', ''non_compliant'', ''evaluating''} then
           (Inl (Err (''database: invalid compliance_status '' @ go_quote status)), d)
         else
           (case sql (\<lambda>d. (Inr (), d\<lparr>assets := update_where (\<lambda>a. a_id a = assetID)
                  (\<lambda>a. a\<lparr>a_compliance_status := status, a_compliance_reason := reason, a_updated_at := now d\<rparr>) (assets d)\<rparr>)) d of
              (Inl e, d) \<Rightarrow> (Inl (Wrap ''database: set compliance'' e), d)
            | (Inr _, d) \<Rightarrow> (Inr (), d)))"

definition SetAssetQuarantineEnabled :: "uuid \<Rightarrow> bool \<Rightarrow> db \<Rightarrow> (go_error + unit) \<times> db" where
  "SetAssetQuarantineEnabled assetID enabled d =
     (case sql (\<lambda>d. (Inr (), d\<lparr>assets := update_where (\<lambda>a. a_id a = assetID)
            (\<lambda>a. a\<lparr>a_quarantine_enabled := enabled, a_updated_at := now d\<rparr>) (assets d)\<rparr>)) d of
        (Inl e, d) \<Rightarrow> (Inl (Wrap ''database: set quarantine_enabled'' e), d)
      | (Inr _, d) \<Rightarrow> (Inr (), d))"

record AssetComplianceRow =
  cr_Status :: string
  cr_Reason :: string
  cr_QuarantineEnabled :: bool

definition GetAssetCompliance :: "uuid \<Rightarrow> db \<Rightarrow> (go_error + AssetComplianceRow) \<times> db" where
  "GetAssetCompliance assetID d =
     (case query_row (\<lambda>d. map_option (\<lambda>a. \<lparr>cr_Status = a_compliance_status a, cr_Reason = a_compliance_reason a,
                 cr_QuarantineEnabled = a_quarantine_enabled a\<rparr>) (find (\<lambda>a. a_id a = assetID) (assets d))) d of
        (Inl e, d) \<Rightarrow> (Inl (Wrap ''database: get compliance'' e), d)
      | (Inr r, d) \<Rightarrow> (Inr r, d))"

definition TenantAutoQuarantine :: "db \<Rightarrow> (go_error + bool) \<times> db" where
  "TenantAutoQuarantine d =
     (case query_row tenant_auto_quarantine d of
        (Inl e, d) \<Rightarrow> (Inl (Wrap ''database: tenant settings'' e), d)
      | (Inr on, d) \<Rightarrow> (Inr on, d))"

definition SetTenantAutoQuarantine :: "bool \<Rightarrow> db \<Rightarrow> (go_error + unit) \<times> db" where
  "SetTenantAutoQuarantine enabled d =
     (case sql (\<lambda>d. (Inr (), d\<lparr>tenant_auto_quarantine := Some enabled\<rparr>)) d of
        (Inl e, d) \<Rightarrow> (Inl (Wrap ''database: update tenant settings'' e), d)
      | (Inr _, d) \<Rightarrow> (Inr (), d))"

section \<open>Critical controls (critical.go)\<close>

fun isEffectivelyEmpty :: "json \<Rightarrow> bool" where
  "isEffectivelyEmpty JNull = True"
| "isEffectivelyEmpty (JObj m) = (m = [])"
| "isEffectivelyEmpty (JArr xs) = (xs = [])"
| "isEffectivelyEmpty (JStr s) = (TrimSpace s = '''')"
| "isEffectivelyEmpty _ = False"

definition carries :: "json_object \<Rightarrow> string \<Rightarrow> bool" where
  "carries m k \<longleftrightarrow> (case go_get m k of None \<Rightarrow> False | Some v \<Rightarrow> \<not> isEffectivelyEmpty v)"

definition PayloadCarriesCriticalSecurityControls :: "json_object \<Rightarrow> bool" where
  "PayloadCarriesCriticalSecurityControls m \<longleftrightarrow>
     m \<noteq> [] \<and>
     (carries m ''security'' \<or> carries m ''registry'' \<or> carries m ''windows_firewall'' \<or> carries m ''firewall'' \<or> carries m ''wifi''
      \<or> (case as_string (go_get m ''wifi_profile_xml'') of None \<Rightarrow> False | Some s \<Rightarrow> TrimSpace s \<noteq> '''')
      \<or> (case as_object (go_get m ''windows'') of None \<Rightarrow> False
         | Some win \<Rightarrow> list_ex (carries win) [''registry'', ''windows_firewall'', ''firewall'', ''wifi'', ''wifi_profile_xml''])
      \<or> (case as_object (go_get m ''linux'') of None \<Rightarrow> False
         | Some lx \<Rightarrow> list_ex (carries lx) [''sysctl'', ''linux_firewall'', ''firewall''])
      \<or> (case as_object (go_get m ''linux_firewall'') of None \<Rightarrow> False | Some u \<Rightarrow> \<not> isEffectivelyEmpty (JObj u))
      \<or> (case as_object (go_get m ''android'') of None \<Rightarrow> False | Some ad \<Rightarrow> \<not> isEffectivelyEmpty (JObj ad)))"

section \<open>The effective payload (merge.go)\<close>

definition mergeGoError :: "lib \<Rightarrow> merge_error \<Rightarrow> go_error" where
  "mergeGoError L e = (case e of ProfilePayloadError i \<Rightarrow> Err (''profile '' @ u_str L i @ '' payload''))"

definition assignedInputs :: "AssignedProfileRow list \<Rightarrow> AssignedPayload list" where
  "assignedInputs rows = map (\<lambda>r. \<lparr>ap_Source = \<lparr>ps_ID = ap_ID r, ps_Name = ap_Name r\<rparr>,
     ap_Payload = (if ap_Payload_raw r \<in> {RawEmpty, RawDoc JNull} then RawDoc (JObj []) else ap_Payload_raw r)\<rparr>) rows"

definition EffectiveMergedPayload :: "lib \<Rightarrow> uuid \<Rightarrow> string \<Rightarrow> db \<Rightarrow> (go_error + json_object) \<times> db" where
  "EffectiveMergedPayload L assetID platformKey d =
     (case ListAssignedProfilesForAsset assetID (ToLower (TrimSpace platformKey)) d of
        (Inl e, d) \<Rightarrow> (Inl e, d)
      | (Inr rows, d) \<Rightarrow>
          (case MergeAssignedPayloads (j_num L) (assignedInputs rows) of
             Inl e \<Rightarrow> (Inl (mergeGoError L e), d)
           | Inr mr \<Rightarrow> (Inr (EffectivePayload mr), d)))"

section \<open>The quarantine payload (quarantine_payload.go)\<close>

definition quarantineHosts :: "lib \<Rightarrow> string list" where
  "quarantineHosts L =
     filter (\<lambda>h. h \<noteq> '''') (map TrimSpace (Split (TrimSpace (os_Getenv L ''ARX_MDM_PUBLIC_HOST'')) (CHR '','')))"

definition quarantinePort :: "lib \<Rightarrow> nat" where
  "quarantinePort L =
     (case parse_nat (TrimSpace (os_Getenv L ''ARX_MDM_PUBLIC_PORT'')) of
        None \<Rightarrow> 443
      | Some n \<Rightarrow> if 0 < n \<and> n < 2 ^ 16 then n else 443)"

text \<open>\<open>json.Marshal\<close> of the struct: members in field order, a nil slice as \<open>null\<close>.\<close>

definition BuildQuarantinePayloadJSON :: "lib \<Rightarrow> bool \<Rightarrow> string" where
  "BuildQuarantinePayloadJSON L enabled =
     ''{'' @ json_quote ''enabled'' @ '':'' @ marshal (j_num L) (JBool enabled)
     @ '','' @ json_quote ''allow_hosts'' @ '':''
       @ marshal (j_num L) (if quarantineHosts L = [] then JNull else JArr (map JStr (quarantineHosts L)))
     @ '','' @ json_quote ''allow_ports'' @ '':['' @ nat_str (quarantinePort L) @ '']}''"

section \<open>The verdict and automatic quarantine (engine.go)\<close>

record EnforcementWire =
  ew_State :: string
  ew_Detail :: string
  ew_CriticalFailed :: bool

definition complianceVerdict :: "string \<Rightarrow> bool \<Rightarrow> EnforcementWire option \<Rightarrow> (string \<times> string) option" where
  "complianceVerdict prevStatus hasCritical enf =
     (case enf of
        None \<Rightarrow> if prevStatus \<noteq> '''' \<and> prevStatus \<noteq> ''evaluating'' then None else Some (''evaluating'', '''')
      | Some enf \<Rightarrow>
          (let st = ToLower (TrimSpace (ew_State enf))
           in if st \<in> {''ok'', ''success'', ''applied''} then Some (''compliant'', '''')
              else if st \<in> {''error'', ''failed''} then
                (if ew_CriticalFailed enf \<or> hasCritical then
                   (let reason = TrimSpace (ew_Detail enf)
                    in Some (''non_compliant'', if reason = '''' then ''critical security policy enforcement failed'' else reason))
                 else Some (''compliant'', ''''))
              else if hasCritical then Some (''evaluating'', TrimSpace (ew_Detail enf))
              else Some (''compliant'', '''')))"

definition quarantineDownlink :: "lib \<Rightarrow> uuid \<Rightarrow> string \<Rightarrow> json" where
  "quarantineDownlink L i payload =
     JObj [(''action'', JStr ''device_command''), (''command_id'', JStr (u_str L i)),
           (''command_type'', JStr ''quarantine''), (''payload'', JStr payload)]"

definition autoQuarantine :: "lib \<Rightarrow> 'w dispatcher option \<Rightarrow> uuid \<Rightarrow> string \<Rightarrow> db \<times> 'w \<Rightarrow> db \<times> 'w" where
  "autoQuarantine L dispatch assetID certSerial s =
     (case s of (d, w) \<Rightarrow>
       let payload = BuildQuarantinePayloadJSON L True
       in case InsertDeviceCommand assetID ''quarantine'' payload None d of
            (Inl e, d) \<Rightarrow> (d, w)
          | (Inr cmd, d) \<Rightarrow>
              let d = snd (SetAssetQuarantineEnabled assetID True d)
              in case (case dispatch of
                         None \<Rightarrow> (False, w)
                       | Some f \<Rightarrow> f certSerial (quarantineDownlink L (dc_id cmd) payload) w) of
                   (dispatched, w) \<Rightarrow> if dispatched then (snd (MarkDeviceCommandSent (dc_id cmd) d), w) else (d, w))"

definition EvaluateAfterTelemetry ::
  "lib \<Rightarrow> 'w dispatcher option \<Rightarrow> uuid \<Rightarrow> string \<Rightarrow> string \<Rightarrow> EnforcementWire option \<Rightarrow> db \<times> 'w \<Rightarrow> (go_error + unit) \<times> db \<times> 'w" where
  "EvaluateAfterTelemetry L dispatch assetID certSerial platformKey enf s =
     (case s of (d, w) \<Rightarrow>
       case GetAssetCompliance assetID d of (prev, d) \<Rightarrow>
       let prevStatus = (case prev of Inl _ \<Rightarrow> '''' | Inr r \<Rightarrow> cr_Status r) in
       case EffectiveMergedPayload L assetID platformKey d of (effective, d) \<Rightarrow>
       let hasCritical = (case effective of Inl _ \<Rightarrow> True | Inr m \<Rightarrow> PayloadCarriesCriticalSecurityControls m) in
       case complianceVerdict prevStatus hasCritical enf of
         None \<Rightarrow> (Inr (), d, w)
       | Some (status, reason) \<Rightarrow>
           (case SetAssetCompliance assetID status reason d of
              (Inl e, d) \<Rightarrow> (Inl e, d, w)
            | (Inr _, d) \<Rightarrow>
                (case TenantAutoQuarantine d of (res, d) \<Rightarrow>
                   let auto = (case res of Inl _ \<Rightarrow> False | Inr b \<Rightarrow> b)
                   in if auto \<and> status = ''non_compliant'' \<and> prevStatus \<noteq> ''non_compliant'' \<and> certSerial \<noteq> ''''
                      then (Inr (), autoQuarantine L dispatch assetID certSerial (d, w))
                      else (Inr (), d, w))))"

definition QueueQuarantineCommand ::
  "lib \<Rightarrow> 'w dispatcher option \<Rightarrow> uuid \<Rightarrow> string \<Rightarrow> bool \<Rightarrow> db \<times> 'w \<Rightarrow> (go_error + device_command \<times> bool) \<times> db \<times> 'w" where
  "QueueQuarantineCommand L dispatch deviceID certSerial enabled s =
     (case s of (d, w) \<Rightarrow>
       let payload = BuildQuarantinePayloadJSON L enabled
       in case InsertDeviceCommand deviceID ''quarantine'' payload None d of
            (Inl e, d) \<Rightarrow> (Inl e, d, w)
          | (Inr cmd, d) \<Rightarrow>
              (case (case dispatch of
                       None \<Rightarrow> (False, w)
                     | Some f \<Rightarrow> if TrimSpace certSerial = '''' then (False, w)
                                 else f certSerial (quarantineDownlink L (dc_id cmd) payload) w) of
                 (False, w) \<Rightarrow> (Inr (cmd, False), d, w)
               | (True, w) \<Rightarrow>
                   (case MarkDeviceCommandSent (dc_id cmd) d of
                      (Inl e, d) \<Rightarrow> (Inl e, d, w)
                    | (Inr _, d) \<Rightarrow> (Inr (cmd, True), d, w))))"

section \<open>Effective policy routes (device_effective_policy.go)\<close>

definition telemetryPlatformKey :: "string \<Rightarrow> string" where
  "telemetryPlatformKey osType = ToLower (TrimSpace osType)"

definition assignedRowsToMergeInputs :: "AssignedProfileRow list \<Rightarrow> AssignedPayload list" where
  "assignedRowsToMergeInputs rows = map (\<lambda>r. \<lparr>ap_Source = \<lparr>ps_ID = ap_ID r, ps_Name = ap_Name r\<rparr>,
     ap_Payload = (if ap_Payload_raw r = RawEmpty then RawDoc (JObj []) else ap_Payload_raw r)\<rparr>) rows"

text \<open>The profile identifiers in conflict are collected from a map, in some order; here in the order of
  the assigned rows.\<close>

definition computeMergedEffectivePolicy :: "lib \<Rightarrow> uuid \<Rightarrow> string \<Rightarrow> db \<Rightarrow> (go_error + MergeResult) \<times> db" where
  "computeMergedEffectivePolicy L assetID platformKey d =
     (case ListAssignedProfilesForAsset assetID platformKey d of
        (Inl e, d) \<Rightarrow> (Inl e, d)
      | (Inr rows, d) \<Rightarrow>
          (case MergeAssignedPayloads (j_num L) (assignedRowsToMergeInputs rows) of
             Inl e \<Rightarrow> (Inl (mergeGoError L e), d)
           | Inr result \<Rightarrow>
               (case ReconcileProfileAssignmentStates assetID platformKey
                       (filter (\<lambda>i. i \<in> ConflictProfiles result) (map ap_ID rows)) d of
                  (Inl e, d) \<Rightarrow> (Inl e, d)
                | (Inr _, d) \<Rightarrow> (Inr result, d))))"

definition effectiveRevisionHex :: "lib \<Rightarrow> json_object \<Rightarrow> string" where
  "effectiveRevisionHex L payload = sha256_hex L (marshal (j_num L) (JObj payload))"

definition conflictProfileJson :: "lib \<Rightarrow> ConflictProfile \<Rightarrow> json" where
  "conflictProfileJson L c = JObj [(''id'', JStr (u_str L (cp_ID c))), (''name'', JStr (cp_Name c))]"

definition settingJson :: "lib \<Rightarrow> EffectiveSetting \<Rightarrow> json" where
  "settingJson L s = JObj ([(''path'', JStr (es_Path s)), (''value'', es_Value s), (''conflict'', JBool (es_Conflict s))]
     @ (if es_SourceProfiles s = [] then [] else [(''source_profiles'', JArr (map (conflictProfileJson L) (es_SourceProfiles s)))]))"

definition conflictJson :: "lib \<Rightarrow> SettingConflict \<Rightarrow> json" where
  "conflictJson L c = JObj ([(''path'', JStr (sc_Path c)), (''effective_value'', sc_EffectiveValue c),
      (''conflicting_profiles'', JArr (map (conflictProfileJson L) (sc_ConflictingProfiles c)))]
     @ (if sc_ContributedNormalized c = [] then [] else [(''contributed_normalized'', JArr (sc_ContributedNormalized c))]))"

definition handleDashboardEffectivePolicy :: "lib \<Rightarrow> DashboardAuth \<Rightarrow> request \<Rightarrow> db \<Rightarrow> response \<times> db" where
  "handleDashboardEffectivePolicy L A r d =
     (if rq_Method r \<noteq> ''GET'' then (RespError 405 (Err ''method not allowed''), d)
      else (case RequireMinRole L A (now d) r ''viewer'' of
        Inl e \<Rightarrow> (e, d)
      | Inr _ \<Rightarrow>
          (case u_parse L (TrimSpace (rq_PathID r)) of
             None \<Rightarrow> (RespError 400 (Err ''invalid device id''), d)
           | Some deviceID \<Rightarrow>
               if deviceID = uuid_Nil then (RespError 400 (Err ''invalid device id''), d)
               else (case query_row (\<lambda>d. find (\<lambda>a. a_id a = deviceID) (assets d)) d of
                       (Inl e, d) \<Rightarrow> (RespError 404 (Err ''device not found''), d)
                     | (Inr _, d) \<Rightarrow>
                         (case query_row (\<lambda>d. map_option (\<lambda>a. ToLower (pg_trim (a_os_type a))) (find (\<lambda>a. a_id a = deviceID) (assets d))) d of
                            (Inl e, d) \<Rightarrow> (RespError 500 (Err ''failed to resolve device platform''), d)
                          | (Inr osType, d) \<Rightarrow>
                              (case computeMergedEffectivePolicy L deviceID (telemetryPlatformKey osType) d of
                                 (Inl e, d) \<Rightarrow> (RespError 500 (Err ''failed to compute effective policy''), d)
                               | (Inr mr, d) \<Rightarrow>
                                   (RespJson 200 (JObj [(''asset_id'', JStr (u_str L deviceID)), (''platform'', JStr (telemetryPlatformKey osType)),
                                      (''effective_payload'', JObj (EffectivePayload mr)), (''settings'', JArr (map (settingJson L) (FlatSettings mr))),
                                      (''conflicts'', JArr (map (conflictJson L) (Conflicts mr))), (''has_conflict'', JBool (Conflicts mr \<noteq> [])),
                                      (''revision'', JStr (effectiveRevisionHex L (EffectivePayload mr)))]), d)))))))"

text \<open>The agent is identified by the serial of its verified client certificate, \<open>None\<close> without one.\<close>

definition handleAgentEffectivePolicy :: "lib \<Rightarrow> bool \<Rightarrow> string option \<Rightarrow> request \<Rightarrow> db \<Rightarrow> response \<times> db" where
  "handleAgentEffectivePolicy L mtlsRequired peer r d =
     (if rq_Method r \<noteq> ''GET'' then (RespError 405 (Err ''method not allowed''), d)
      else (case (if mtlsRequired then peer else None) of
        None \<Rightarrow> (RespError 403 (Err ''mutual tls is required''), d)
      | Some serial \<Rightarrow>
          if serial = '''' then (RespError 400 (Err ''client certificate serial invalid''), d)
          else (case query_row (\<lambda>d. find (\<lambda>a. a_cert_serial a = Some serial) (assets d)) d of
             (Inl e, d) \<Rightarrow> (RespError 404 (Err ''device not enrolled''), d)
           | (Inr a, d) \<Rightarrow>
               let osType = ToLower (pg_trim (a_os_type a))
               in case computeMergedEffectivePolicy L (a_id a) (telemetryPlatformKey osType) d of
                    (Inl e, d) \<Rightarrow> (RespError 500 (Err ''failed to compute effective policy''), d)
                  | (Inr mr, d) \<Rightarrow>
                      (RespJson 200 (JObj [(''asset_id'', JStr (u_str L (a_id a))), (''os_type'', JStr osType),
                         (''platform'', JStr (telemetryPlatformKey osType)), (''effective_payload'', JObj (EffectivePayload mr)),
                         (''revision'', JStr (effectiveRevisionHex L (EffectivePayload mr))),
                         (''has_conflict'', JBool (Conflicts mr \<noteq> []))]), d))))"

section \<open>Compliance routes (compliance_routes.go)\<close>

definition tenantCompliance_handleGet :: "lib \<Rightarrow> DashboardAuth \<Rightarrow> request \<Rightarrow> db \<Rightarrow> response \<times> db" where
  "tenantCompliance_handleGet L A r d =
     (if rq_Method r \<noteq> ''GET'' then (RespError 405 (Err ''method not allowed''), d)
      else (case RequireMinRole L A (now d) r ''viewer'' of
        Inl e \<Rightarrow> (e, d)
      | Inr _ \<Rightarrow>
          (case TenantAutoQuarantine d of
             (Inl e, d) \<Rightarrow> (RespError 500 (Err ''failed to load tenant settings''), d)
           | (Inr on, d) \<Rightarrow> (RespJson 200 (JObj [(''auto_quarantine_on_noncompliance'', JBool on)]), d))))"

definition tenantCompliance_handlePatch :: "lib \<Rightarrow> DashboardAuth \<Rightarrow> request \<Rightarrow> db \<Rightarrow> response \<times> db" where
  "tenantCompliance_handlePatch L A r d =
     (if rq_Method r \<noteq> ''PATCH'' then (RespError 405 (Err ''method not allowed''), d)
      else (case RequireMinRole L A (now d) r ''operator'' of
        Inl e \<Rightarrow> (e, d)
      | Inr _ \<Rightarrow>
          (case (case struct_object (rq_Body r) of None \<Rightarrow> None | Some m \<Rightarrow> get_bool_ptr ''auto_quarantine_on_noncompliance'' m) of
             None \<Rightarrow> (RespError 400 (Err ''invalid JSON body''), d)
           | Some None \<Rightarrow> (RespError 400 (Err ''auto_quarantine_on_noncompliance is required''), d)
           | Some (Some b) \<Rightarrow>
               (case SetTenantAutoQuarantine b d of
                  (Inl e, d) \<Rightarrow> (RespError 500 (Err ''failed to update tenant settings''), d)
                | (Inr _, d) \<Rightarrow> (RespJson 200 (JObj [(''auto_quarantine_on_noncompliance'', JBool b)]), d)))))"

definition ResolveAssetCertSerial :: "uuid \<Rightarrow> db \<Rightarrow> (go_error + string) \<times> db" where
  "ResolveAssetCertSerial deviceID d =
     (case query_row (\<lambda>d. map_option a_cert_serial (find (\<lambda>a. a_id a = deviceID) (assets d))) d of
        (Inl ErrNoRows, d) \<Rightarrow> (Inl (Err ''device not found''), d)
      | (Inl e, d) \<Rightarrow> (Inl (Err ''device lookup failed''), d)
      | (Inr cs, d) \<Rightarrow>
          (case cs of
             None \<Rightarrow> (Inl (Err ''device has no enrolled certificate''), d)
           | Some s \<Rightarrow> if TrimSpace s = '''' then (Inl (Err ''device has no enrolled certificate''), d) else (Inr (TrimSpace s), d)))"

definition deviceQuarantine_handlePatch ::
  "lib \<Rightarrow> DashboardAuth \<Rightarrow> 'w dispatcher \<Rightarrow> request \<Rightarrow> db \<times> 'w \<Rightarrow> response \<times> db \<times> 'w" where
  "deviceQuarantine_handlePatch L A dispatch r s =
     (case s of (d, w) \<Rightarrow>
       if rq_Method r \<noteq> ''PATCH'' then (RespError 405 (Err ''method not allowed''), d, w)
       else (case RequireMinRole L A (now d) r ''operator'' of
        Inl e \<Rightarrow> (e, d, w)
      | Inr _ \<Rightarrow>
          (case u_parse L (TrimSpace (rq_PathID r)) of
             None \<Rightarrow> (RespError 400 (Err ''invalid device id''), d, w)
           | Some deviceID \<Rightarrow>
               if deviceID = uuid_Nil then (RespError 400 (Err ''invalid device id''), d, w)
               else (case (case struct_object (rq_Body r) of None \<Rightarrow> None | Some m \<Rightarrow> get_bool ''quarantine_enabled'' m) of
                  None \<Rightarrow> (RespError 400 (Err ''invalid JSON body''), d, w)
                | Some enabled \<Rightarrow>
                    (case query (\<lambda>d. deviceID \<in> a_id ` set (assets d)) d of
                       (Inl e, d) \<Rightarrow> (RespError 404 (Err ''device not found''), d, w)
                     | (Inr ex, d) \<Rightarrow>
                         if \<not> ex then (RespError 404 (Err ''device not found''), d, w)
                         else (case SetAssetQuarantineEnabled deviceID enabled d of
                            (Inl e, d) \<Rightarrow> (RespError 500 (Err ''failed to update device''), d, w)
                          | (Inr _, d) \<Rightarrow>
                              (case ResolveAssetCertSerial deviceID d of
                                 (Inl e, d) \<Rightarrow> (RespError 409 e, d, w)
                               | (Inr certSerial, d) \<Rightarrow>
                                   (case QueueQuarantineCommand L (Some dispatch) deviceID certSerial enabled (d, w) of
                                      (Inl e, d, w) \<Rightarrow> (RespError 400 e, d, w)
                                    | (Inr (cmd, dispatched), d, w) \<Rightarrow>
                                        (RespJson 200 (JObj [(''quarantine_enabled'', JBool enabled), (''command_id'', JStr (u_str L (dc_id cmd))),
                                            (''dispatched'', JBool dispatched)]), d, w)))))))))"

end
