(* ===== verification/Routes.thy ===== *)
theory Routes
  imports Auth
begin

text \<open>
  The shape of a REST handler: checks with early returns (\<open>writeTicketsError\<close> and \<open>return\<close>), statements
  whose errors are answered, and one final answer. An \<open>act\<close> runs on a state and ends with an early
  response (\<open>Inl\<close>) or a value (\<open>Inr\<close>); \<open>abind\<close> is sequencing. The rules of \<open>keeps\<close> follow the structure of
  a handler, so that an invariant of a table is proved once per statement and not once per branch.
\<close>

named_theorems keeps_intros "invariants along the structure of a handler"

type_synonym ('s, 'a) act = "'s \<Rightarrow> (response + 'a) \<times> 's"

section \<open>Handlers\<close>

definition areturn :: "'a \<Rightarrow> ('s, 'a) act" where
  "areturn x s = (Inr x, s)"

definition fail :: "nat \<Rightarrow> string \<Rightarrow> ('s, 'a) act" where
  "fail code msg s = (Inl (RespError code (Err msg)), s)"

definition abind :: "('s, 'a) act \<Rightarrow> ('a \<Rightarrow> ('s, 'b) act) \<Rightarrow> ('s, 'b) act" where
  "abind m f s = (case m s of (Inl e, s) \<Rightarrow> (Inl e, s) | (Inr x, s) \<Rightarrow> f x s)"

definition require :: "bool \<Rightarrow> nat \<Rightarrow> string \<Rightarrow> ('s, unit) act" where
  "require b code msg = (if b then areturn () else fail code msg)"

definition given :: "'a option \<Rightarrow> nat \<Rightarrow> string \<Rightarrow> ('s, 'a) act" where
  "given x code msg = (case x of None \<Rightarrow> fail code msg | Some y \<Rightarrow> areturn y)"

definition getState :: "('s, 's) act" where
  "getState s = (Inr s, s)"

text \<open>A statement; its error becomes a response.\<close>

definition statement :: "(db \<Rightarrow> 'a sql_result) \<Rightarrow> (sql_error \<Rightarrow> response) \<Rightarrow> (db, 'a) act" where
  "statement stmt onErr d = (case stmt d of (Inl e, d) \<Rightarrow> (Inl (onErr e), d) | (Inr x, d) \<Rightarrow> (Inr x, d))"

definition failWith :: "nat \<Rightarrow> string \<Rightarrow> sql_error \<Rightarrow> response" where
  "failWith code msg e = RespError code (Err msg)"

text \<open>\<open>pgx.ErrNoRows\<close> has its own answer.\<close>

definition noRows :: "nat \<Rightarrow> string \<Rightarrow> nat \<Rightarrow> string \<Rightarrow> sql_error \<Rightarrow> response" where
  "noRows code msg code' msg' e = (if e = ErrNoRows then RespError code (Err msg) else RespError code' (Err msg'))"

text \<open>A statement whose error is dropped, and one run by a function that returns a Go error.\<close>

definition ignore :: "(db \<Rightarrow> 'a \<times> db) \<Rightarrow> (db, unit) act" where
  "ignore f d = (Inr (), snd (f d))"

definition call :: "(db \<Rightarrow> (go_error + 'a) \<times> db) \<Rightarrow> (go_error \<Rightarrow> response) \<Rightarrow> (db, 'a) act" where
  "call f onErr d = (case f d of (Inl e, d) \<Rightarrow> (Inl (onErr e), d) | (Inr x, d) \<Rightarrow> (Inr x, d))"

definition ifMethod :: "request \<Rightarrow> string \<Rightarrow> ('s, unit) act" where
  "ifMethod r m = require (rq_Method r = m) 405 ''method not allowed''"

definition authorize :: "lib \<Rightarrow> DashboardAuth \<Rightarrow> request \<Rightarrow> string \<Rightarrow> (db, Principal) act" where
  "authorize L A r minRole d = (case RequireMinRole L A (now d) r minRole of Inl e \<Rightarrow> (Inl e, d) | Inr p \<Rightarrow> (Inr p, d))"

text \<open>The same steps on a database next to another component's state.\<close>

definition onDb :: "(db, 'a) act \<Rightarrow> (db \<times> 'w, 'a) act" where
  "onDb m s = (case s of (d, w) \<Rightarrow> case m d of (x, d) \<Rightarrow> (x, d, w))"

definition onWorld :: "('w \<Rightarrow> 'a \<times> 'w) \<Rightarrow> (db \<times> 'w, 'a) act" where
  "onWorld f s = (case s of (d, w) \<Rightarrow> case f w of (x, w) \<Rightarrow> (Inr x, d, w))"

definition answer :: "('s, response) act \<Rightarrow> 's \<Rightarrow> response \<times> 's" where
  "answer m s = (case m s of (Inl e, s) \<Rightarrow> (e, s) | (Inr x, s) \<Rightarrow> (x, s))"

text \<open>Handlers that also notify: the response and the notifications, none before an error.\<close>

definition answerEvents :: "('s, response \<times> 'e list) act \<Rightarrow> 's \<Rightarrow> (response \<times> 'e list) \<times> 's" where
  "answerEvents m s = (case m s of (Inl e, s) \<Rightarrow> ((e, []), s) | (Inr x, s) \<Rightarrow> (x, s))"

section \<open>Request bodies\<close>

definition decodeBody :: "request \<Rightarrow> (json_object \<Rightarrow> 'a option) \<Rightarrow> 'a option" where
  "decodeBody r f = Option.bind (struct_object (rq_Body r)) f"

text \<open>A \<open>json.RawMessage\<close> field keeps \<open>null\<close>; absent is empty.\<close>

definition get_raw :: "string \<Rightarrow> json_object \<Rightarrow> raw_json" where
  "get_raw name m = (case filter (\<lambda>kv. EqualFold (fst kv) name) m of [] \<Rightarrow> RawEmpty | kvs \<Rightarrow> RawDoc (snd (last kvs)))"

text \<open>A \<open>*int\<close> field. A literal with a fraction or exponent, such as \<open>1.0\<close>, is read by its value.\<close>

definition json_int :: "json \<Rightarrow> int option" where
  "json_int v = (case v of JNum x \<Rightarrow> if of_int \<lfloor>x\<rfloor> = x \<and> - (2 ^ 63) \<le> \<lfloor>x\<rfloor> \<and> \<lfloor>x\<rfloor> < 2 ^ 63 then Some \<lfloor>x\<rfloor> else None | _ \<Rightarrow> None)"

definition get_int_ptr :: "string \<Rightarrow> json_object \<Rightarrow> int option option" where
  "get_int_ptr name m = (case struct_get name m of None \<Rightarrow> Some None | Some v \<Rightarrow> map_option Some (json_int v))"

definition get_int :: "string \<Rightarrow> json_object \<Rightarrow> int option" where
  "get_int name m = (case struct_get name m of None \<Rightarrow> Some 0 | Some v \<Rightarrow> json_int v)"

definition get_float :: "string \<Rightarrow> json_object \<Rightarrow> rat option" where
  "get_float name m = (case struct_get name m of None \<Rightarrow> Some 0 | Some (JNum x) \<Rightarrow> Some x | Some _ \<Rightarrow> None)"

text \<open>A \<open>[]string\<close> field; \<open>null\<close> elements are the empty string.\<close>

definition get_string_list :: "string \<Rightarrow> json_object \<Rightarrow> string list option" where
  "get_string_list name m =
     (case struct_get name m of
        None \<Rightarrow> Some []
      | Some (JArr vs) \<Rightarrow> those (map (\<lambda>v. case v of JStr s \<Rightarrow> Some s | JNull \<Rightarrow> Some '''' | _ \<Rightarrow> None) vs)
      | Some _ \<Rightarrow> None)"

text \<open>\<open>parsePackageUUIDParam\<close> and its copies: the trimmed path value.\<close>

definition pathUUID :: "lib \<Rightarrow> request \<Rightarrow> uuid option" where
  "pathUUID L r = (let raw = TrimSpace (rq_PathID r) in if raw = '''' then None else u_parse L raw)"

text \<open>\<open>utf8.RuneCountInString\<close> of a valid string: the bytes that are not continuation bytes.\<close>

definition RuneCount :: "string \<Rightarrow> nat" where
  "RuneCount s = length (filter (\<lambda>c. \<not> (128 \<le> (of_char c :: nat) \<and> (of_char c :: nat) < 192)) s)"

definition statusJson :: "string \<Rightarrow> json" where
  "statusJson s = JObj [(''status'', JStr s)]"

definition opt_field :: "string \<Rightarrow> json option \<Rightarrow> json_object" where
  "opt_field name v = (case v of None \<Rightarrow> [] | Some x \<Rightarrow> [(name, x)])"

section \<open>Invariants of handlers\<close>

definition keeps :: "('s \<Rightarrow> bool) \<Rightarrow> ('s \<Rightarrow> 'x \<times> 's) \<Rightarrow> bool" where
  "keeps I m \<longleftrightarrow> (\<forall>s. I s \<longrightarrow> I (snd (m s)))"

lemma keepsD: "keeps I m \<Longrightarrow> I s \<Longrightarrow> I (snd (m s))"
  by (simp add: keeps_def)

lemma keeps_areturn [keeps_intros]: "keeps I (areturn x)"
  by (simp add: keeps_def areturn_def)

lemma keeps_fail [keeps_intros]: "keeps I (fail c msg)"
  by (simp add: keeps_def fail_def)

lemma keeps_getState [keeps_intros]: "keeps I getState"
  by (simp add: keeps_def getState_def)

lemma keeps_abind [keeps_intros]:
  assumes "keeps I m" and "\<And>x. keeps I (f x)"
  shows "keeps I (abind m f)"
proof -
  have "I (snd (abind m f s))" if "I s" for s
    using keepsD [OF assms(1) that] assms(2)
    by (cases "m s"; cases "fst (m s)") (auto simp: abind_def keeps_def)
  then show ?thesis by (simp add: keeps_def)
qed

lemma keeps_if [keeps_intros]: "(b \<Longrightarrow> keeps I m) \<Longrightarrow> (\<not> b \<Longrightarrow> keeps I m') \<Longrightarrow> keeps I (if b then m else m')"
  by simp

lemma keeps_let [keeps_intros]: "(\<And>x. keeps I (f x)) \<Longrightarrow> keeps I (Let a f)"
  by simp

lemma keeps_case_option [keeps_intros]:
  "keeps I m \<Longrightarrow> (\<And>x. keeps I (f x)) \<Longrightarrow> keeps I (case a of None \<Rightarrow> m | Some x \<Rightarrow> f x)"
  by (simp split: option.split)

lemma keeps_case_prod [keeps_intros]: "(\<And>x y. keeps I (f x y)) \<Longrightarrow> keeps I (case a of (x, y) \<Rightarrow> f x y)"
  by (simp split: prod.split)

lemma keeps_case_sum [keeps_intros]:
  "(\<And>x. keeps I (f x)) \<Longrightarrow> (\<And>y. keeps I (g y)) \<Longrightarrow> keeps I (case a of Inl x \<Rightarrow> f x | Inr y \<Rightarrow> g y)"
  by (simp split: sum.split)

lemma keeps_require [keeps_intros]: "keeps I (require b c msg)"
  by (simp add: require_def keeps_areturn keeps_fail)

lemma keeps_given [keeps_intros]: "keeps I (given x c msg)"
  by (simp add: given_def keeps_areturn keeps_fail split: option.split)

lemma keeps_ifMethod [keeps_intros]: "keeps I (ifMethod r m)"
  by (simp add: ifMethod_def keeps_require)

lemma keeps_authorize [keeps_intros]: "keeps I (authorize L A r role)"
  by (simp add: keeps_def authorize_def split: sum.split)

text \<open>Functions written with \<open>case\<close> on the result of a step.\<close>

lemma keeps_ret [keeps_intros]: "keeps I (\<lambda>s. (x s, s))"
  by (simp add: keeps_def)

lemma keeps_step [keeps_intros]:
  assumes "keeps I m" and "\<And>x. keeps I (f x)"
  shows "keeps I (\<lambda>s. case m s of (x, s') \<Rightarrow> f x s')"
  using assms by (fastforce simp: keeps_def split: prod.splits)

lemma keeps_sum [keeps_intros]:
  "(\<And>e. keeps I (F e)) \<Longrightarrow> (\<And>y. keeps I (G y)) \<Longrightarrow> keeps I (\<lambda>s. case x of Inl e \<Rightarrow> F e s | Inr y \<Rightarrow> G y s)"
  by (cases x) simp_all

lemma keeps_option [keeps_intros]:
  "keeps I F \<Longrightarrow> (\<And>y. keeps I (G y)) \<Longrightarrow> keeps I (\<lambda>s. case x of None \<Rightarrow> F s | Some y \<Rightarrow> G y s)"
  by (cases x) simp_all

lemma keeps_sql_error [keeps_intros]:
  "\<lbrakk>keeps I F1; keeps I F2; keeps I F3; keeps I F4; keeps I F5; keeps I F6; keeps I F7\<rbrakk> \<Longrightarrow>
   keeps I (\<lambda>s. case e of ErrNoRows \<Rightarrow> F1 s | ErrUnique \<Rightarrow> F2 s | ErrForeignKey \<Rightarrow> F3 s | ErrCheck \<Rightarrow> F4 s | ErrScan \<Rightarrow> F5 s | ErrConn \<Rightarrow> F6 s | ErrRange \<Rightarrow> F7 s)"
  by (cases e) simp_all

text \<open>An argument computed from the state before the step.\<close>

lemma keeps_dep: "(\<And>x. keeps I (f x)) \<Longrightarrow> keeps I (\<lambda>s. f (g s) s)"
  by (simp add: keeps_def)

lemma keeps_pair [keeps_intros]: "(\<And>a b. keeps I (F a b)) \<Longrightarrow> keeps I (\<lambda>s. case y of (a, b) \<Rightarrow> F a b s)"
  by (cases y) simp

lemma keeps_cond [keeps_intros]: "keeps I F \<Longrightarrow> keeps I G \<Longrightarrow> keeps I (\<lambda>s. if b s then F s else G s)"
  by (simp add: keeps_def)

lemma keeps_snd [keeps_intros]: "keeps I m \<Longrightarrow> keeps I (\<lambda>s. (x s, snd (m s)))"
  by (simp add: keeps_def)

lemma keeps_rbind [keeps_intros]:
  assumes "keeps I m" and "\<And>x. keeps I (f x)"
  shows "keeps I (\<lambda>d. rbind (m d) f)"
  unfolding rbind_def using assms by (intro keeps_intros)

lemma keeps_statement [keeps_intros]: "keeps I stmt \<Longrightarrow> keeps I (statement stmt onErr)"
  unfolding statement_def by (intro keeps_intros)

lemma keeps_call [keeps_intros]: "keeps I f \<Longrightarrow> keeps I (call f onErr)"
  unfolding call_def by (intro keeps_intros)

lemma keeps_ignore [keeps_intros]: "keeps I f \<Longrightarrow> keeps I (ignore f)"
  unfolding ignore_def by (intro keeps_intros)

lemma keeps_onDb [keeps_intros]:
  assumes "keeps I m"
  shows "keeps (\<lambda>(d, w). I d) (onDb m)"
  using assms by (fastforce simp: keeps_def onDb_def split: prod.splits)

lemma keeps_onWorld [keeps_intros]: "keeps (\<lambda>(d, w). I d) (onWorld f)"
  by (auto simp: keeps_def onWorld_def split: prod.splits)

lemma answer_keeps: "keeps I m \<Longrightarrow> I s \<Longrightarrow> I (snd (answer m s))"
  using keepsD [of I m s] by (auto simp: answer_def split: prod.splits sum.splits)

lemma answerEvents_keeps: "keeps I m \<Longrightarrow> I s \<Longrightarrow> I (snd (answerEvents m s))"
  using keepsD [of I m s] by (auto simp: answerEvents_def split: prod.splits sum.splits)

text \<open>An invariant of the tables alone: counters may move.\<close>

definition table_inv :: "(db \<Rightarrow> bool) \<Rightarrow> bool" where
  "table_inv I \<longleftrightarrow> (\<forall>d d'. same_tables d d' \<longrightarrow> I d \<longrightarrow> I d')"

lemma table_invD: "table_inv I \<Longrightarrow> same_tables d d' \<Longrightarrow> I d \<Longrightarrow> I d'"
  by (auto simp: table_inv_def)

lemma keeps_query [keeps_intros]: "table_inv I \<Longrightarrow> keeps I (query q)"
  by (simp add: keeps_def table_invD [OF _ same_tables_stmt])

lemma keeps_query_row [keeps_intros]: "table_inv I \<Longrightarrow> keeps I (query_row q)"
  by (simp add: keeps_def table_invD [OF _ same_tables_stmt])

lemma keeps_sql [keeps_intros]:
  assumes I: "table_inv I" and stmt: "keeps I stmt"
  shows "keeps I (sql stmt)"
  using stmt table_invD [OF I same_tables_stmt] by (simp add: keeps_def sql_def Let_def)

lemma keeps_transaction [keeps_intros]:
  assumes I: "table_inv I" and b: "keeps I body"
  shows "keeps I (transaction body be ce)"
proof -
  have "I (snd (transaction body be ce d))" if d: "I d" for d
  proof (cases "transaction body be ce d")
    case (Pair x d')
    show ?thesis
    proof (cases x)
      case (Inl e)
      with Pair have "same_tables d d'" by (simp add: transaction_Inl)
      with I d Pair show ?thesis by (auto dest: table_invD)
    next
      case (Inr v)
      with Pair obtain d1 where d1: "body (d\<lparr>stmt_no := Suc (stmt_no d)\<rparr>) = (Inr v, d1)" "d' = d1\<lparr>stmt_no := Suc (stmt_no d1)\<rparr>"
        by (auto dest: transaction_Inr)
      from I d have "I (d\<lparr>stmt_no := Suc (stmt_no d)\<rparr>)" by (rule table_invD [OF _ same_tables_stmt])
      from keepsD [OF b this] d1 have "I d1" by simp
      with I d1 Pair show ?thesis by (auto dest: table_invD [OF _ same_tables_stmt])
    qed
  qed
  then show ?thesis by (simp add: keeps_def)
qed

section \<open>Evaluation rules\<close>

named_theorems act_simps "running a handler forward"

lemma abind_areturn [act_simps]: "abind (areturn x) f = f x"
  by (rule ext) (simp add: abind_def areturn_def)

lemma abind_fail [act_simps]: "abind (fail c m) f = fail c m"
  by (rule ext) (simp add: abind_def fail_def)

lemma answer_fail [act_simps]: "answer (fail c m) s = (RespError c (Err m), s)"
  by (simp add: answer_def fail_def)

lemma answer_areturn [act_simps]: "answer (areturn x) s = (x, s)"
  by (simp add: answer_def areturn_def)

lemma require_True [act_simps]: "b \<Longrightarrow> require b c m = areturn ()"
  by (simp add: require_def)

lemma require_False [act_simps]: "\<not> b \<Longrightarrow> require b c m = fail c m"
  by (simp add: require_def)

lemma given_Some [act_simps]: "given (Some x) c m = areturn x"
  by (simp add: given_def)

lemma given_None [act_simps]: "given None c m = fail c m"
  by (simp add: given_def)

lemma abind_Inr: "m s = (Inr x, s') \<Longrightarrow> abind m f s = f x s'"
  by (simp add: abind_def)

lemma abind_Inl: "m s = (Inl e, s') \<Longrightarrow> abind m f s = (Inl e, s')"
  by (simp add: abind_def)

lemma abind_Inr_cases:
  assumes "abind m f s = (Inr y, s')"
  obtains x s1 where "m s = (Inr x, s1)" "f x s1 = (Inr y, s')"
  using assms by (cases "m s"; cases "fst (m s)") (auto simp: abind_def)

lemma require_Inr: "require b c m s = (Inr x, s') \<longleftrightarrow> b \<and> s' = s"
  by (auto simp: require_def areturn_def fail_def)

lemma given_Inr: "given a c m s = (Inr x, s') \<longleftrightarrow> a = Some x \<and> s' = s"
  by (auto simp: given_def areturn_def fail_def split: option.splits)

lemma authorize_Inr: "authorize L A r role d = (Inr p, d') \<longleftrightarrow> RequireMinRole L A (now d) r role = Inr p \<and> d' = d"
  by (auto simp: authorize_def split: sum.splits)

lemma statement_Inr: "statement stmt onErr d = (Inr x, d') \<longleftrightarrow> stmt d = (Inr x, d')"
  by (auto simp: statement_def split: prod.splits sum.splits)

lemma query_Inr: "query q d = (Inr x, d') \<longleftrightarrow> \<not> fault_at d (stmt_no d) \<and> x = q (d\<lparr>stmt_no := Suc (stmt_no d)\<rparr>) \<and> d' = d\<lparr>stmt_no := Suc (stmt_no d)\<rparr>"
  by (auto simp: query_def sql_def Let_def)

lemma query_row_Inr: "query_row q d = (Inr x, d') \<longleftrightarrow> \<not> fault_at d (stmt_no d) \<and> q (d\<lparr>stmt_no := Suc (stmt_no d)\<rparr>) = Some x \<and> d' = d\<lparr>stmt_no := Suc (stmt_no d)\<rparr>"
  by (auto simp: query_row_def sql_def Let_def split: option.splits)

section \<open>Runs of a component\<close>

text \<open>The contract of a component whose operations are a step relation: each step maintains the invariant. Then so
  does every interleaving of steps.\<close>

locale maintained =
  fixes step :: "'s \<Rightarrow> 's \<Rightarrow> bool" and inv :: "'s \<Rightarrow> bool"
  assumes step_keeps: "step s s' \<Longrightarrow> inv s \<Longrightarrow> inv s'"
begin

lemma run_keeps:
  assumes "step\<^sup>*\<^sup>* s s'" and "inv s"
  shows "inv s'"
  using assms by (induction rule: rtranclp_induct) (auto intro: step_keeps)

end

section \<open>The audit trail in handlers\<close>

lemma keeps_auditRow:
  assumes I: "table_inv I" and a: "\<And>d x. I d \<Longrightarrow> I (d\<lparr>audit_logs := x\<rparr>)"
  shows "keeps I (InsertAuditLogRow row)"
  unfolding InsertAuditLogRow_def Let_def by (intro keeps_intros I) (simp add: keeps_def a)

lemma keeps_audit:
  assumes I: "table_inv I" and a: "\<And>d x. I d \<Longrightarrow> I (d\<lparr>audit_logs := x\<rparr>)"
  shows "keeps I (InsertAuditRecord rec)"
  using keepsD [OF keeps_auditRow [OF assms]] by (simp add: keeps_def InsertAuditRecord_def)

section \<open>What a step yields\<close>

named_theorems yields_intros "properties of the value a step returns"

definition yields :: "('a \<Rightarrow> bool) \<Rightarrow> ('s, 'a) act \<Rightarrow> bool" where
  "yields Q m \<longleftrightarrow> (\<forall>s x s'. m s = (Inr x, s') \<longrightarrow> Q x)"

lemma yields_areturn [yields_intros]: "Q x \<Longrightarrow> yields Q (areturn x)"
  by (simp add: yields_def areturn_def)

lemma yields_fail [yields_intros]: "yields Q (fail c m)"
  by (simp add: yields_def fail_def)

lemma yields_abind [yields_intros]: "(\<And>x. yields Q (f x)) \<Longrightarrow> yields Q (abind m f)"
  by (auto simp: yields_def elim!: abind_Inr_cases)

lemma yields_if [yields_intros]: "(b \<Longrightarrow> yields Q m) \<Longrightarrow> (\<not> b \<Longrightarrow> yields Q m') \<Longrightarrow> yields Q (if b then m else m')"
  by simp

lemma yields_case_option [yields_intros]:
  "yields Q m \<Longrightarrow> (\<And>x. yields Q (f x)) \<Longrightarrow> yields Q (case a of None \<Rightarrow> m | Some x \<Rightarrow> f x)"
  by (simp split: option.split)

lemma keeps_yields:
  assumes "keeps I m" and "yields Q m" and "\<And>x. Q x \<Longrightarrow> keeps I (f x)"
  shows "keeps I (abind m f)"
proof -
  have "I (snd (abind m f s))" if "I s" for s
  proof (cases "m s")
    case (Pair x s1)
    with keepsD [OF assms(1) that] have i: "I s1" by simp
    show ?thesis
    proof (cases x)
      case (Inl e)
      with Pair i show ?thesis by (simp add: abind_Inl)
    next
      case (Inr v)
      with Pair assms(2) have "Q v" by (auto simp: yields_def)
      from keepsD [OF assms(3) [OF this] i] Pair Inr show ?thesis by (simp add: abind_Inr)
    qed
  qed
  then show ?thesis by (simp add: keeps_def)
qed

section \<open>Unfolding a handler step by step\<close>

named_theorems act_unfold "one step of a handler that does not change the state"

lemma abind_require [act_unfold]: "abind (require b c m) f s = (if b then f () s else (Inl (RespError c (Err m)), s))"
  by (simp add: abind_def require_def areturn_def fail_def)

lemma abind_given [act_unfold]: "abind (given x c m) f s = (case x of None \<Rightarrow> (Inl (RespError c (Err m)), s) | Some y \<Rightarrow> f y s)"
  by (simp add: abind_def given_def areturn_def fail_def split: option.split)

lemma abind_ifMethod [act_unfold]:
  "abind (ifMethod r m) f s = (if rq_Method r = m then f () s else (Inl (RespError 405 (Err ''method not allowed'')), s))"
  by (simp add: ifMethod_def abind_require)

lemma abind_authorize [act_unfold]:
  "abind (authorize L A r role) f d = (case RequireMinRole L A (now d) r role of Inl e \<Rightarrow> (Inl e, d) | Inr p \<Rightarrow> f p d)"
  by (simp add: abind_def authorize_def split: sum.split)

lemma abind_return [act_unfold]: "abind (areturn x) f s = f x s"
  by (simp add: abind_areturn)

lemma abind_getState [act_unfold]: "abind getState f s = f s s"
  by (simp add: abind_def getState_def)

lemma answerEvents_Inl: "m s = (Inl e, s') \<Longrightarrow> answerEvents m s = ((e, []), s')"
  by (simp add: answerEvents_def)

lemma answer_Inl: "m s = (Inl e, s') \<Longrightarrow> answer m s = (e, s')"
  by (simp add: answer_def)

lemma RequireMinRole_refused: "RequireMinRole L A t r role = Inl e \<Longrightarrow> resp_status e \<in> {401, 403}"
  by (auto simp: RequireMinRole_def RequirePrincipal_def Let_def split: if_splits option.splits sum.splits)

section \<open>Early returns are error responses\<close>

named_theorems refuses_intros "the status of an early return"

definition refuses :: "('s, 'a) act \<Rightarrow> bool" where
  "refuses m \<longleftrightarrow> (\<forall>s e s'. m s = (Inl e, s') \<longrightarrow> resp_status e \<ge> 400)"

lemma refusesD: "refuses m \<Longrightarrow> m s = (Inl e, s') \<Longrightarrow> resp_status e \<ge> 400"
  by (auto simp: refuses_def)

lemma refuses_basic [refuses_intros]:
  "refuses (areturn x)" "400 \<le> c \<Longrightarrow> refuses (fail c m)" "400 \<le> c \<Longrightarrow> refuses (require b c m)" "400 \<le> c \<Longrightarrow> refuses (given y c m)"
  "refuses (ifMethod r mt)" "refuses getState" "refuses (ignore g)" "refuses (onWorld h)"
  by (auto simp: refuses_def areturn_def fail_def require_def given_def ifMethod_def getState_def ignore_def onWorld_def
      split: option.splits prod.splits if_splits)

lemma refuses_authorize [refuses_intros]: "refuses (authorize L A r role)"
  unfolding refuses_def authorize_def by (auto split: sum.splits dest!: RequireMinRole_refused)

lemma refuses_abind [refuses_intros]: "refuses m \<Longrightarrow> (\<And>x. refuses (f x)) \<Longrightarrow> refuses (abind m f)"
  by (auto simp: refuses_def abind_def split: prod.splits sum.splits)

lemma refuses_if [refuses_intros]: "(b \<Longrightarrow> refuses m) \<Longrightarrow> (\<not> b \<Longrightarrow> refuses m') \<Longrightarrow> refuses (if b then m else m')"
  by simp

lemma refuses_case_option [refuses_intros]: "refuses m \<Longrightarrow> (\<And>x. refuses (f x)) \<Longrightarrow> refuses (case a of None \<Rightarrow> m | Some x \<Rightarrow> f x)"
  by (simp split: option.split)

lemma refuses_case_prod [refuses_intros]: "(\<And>x y. refuses (f x y)) \<Longrightarrow> refuses (case a of (x, y) \<Rightarrow> f x y)"
  by (simp split: prod.split)

lemma refuses_statement [refuses_intros]: "(\<And>e. resp_status (onErr e) \<ge> 400) \<Longrightarrow> refuses (statement stmt onErr)"
  by (auto simp: refuses_def statement_def split: prod.splits sum.splits)

lemma refuses_call [refuses_intros]: "(\<And>e. resp_status (onErr e) \<ge> 400) \<Longrightarrow> refuses (call g onErr)"
  by (auto simp: refuses_def call_def split: prod.splits sum.splits)

lemma refuses_onDb [refuses_intros]: "refuses m \<Longrightarrow> refuses (onDb m)"
  by (auto simp: refuses_def onDb_def split: prod.splits)

lemma refuses_transaction [refuses_intros]:
  assumes "refuses body" and "\<And>e. resp_status (be e) \<ge> 400" and "\<And>e. resp_status (ce e) \<ge> 400"
  shows "refuses (transaction body be ce)"
  using assms by (auto simp: refuses_def transaction_def split: prod.splits sum.splits)

lemma failWith_status [simp, refuses_intros]: "400 \<le> c \<Longrightarrow> 400 \<le> resp_status (failWith c m e)"
  by (simp add: failWith_def)

lemma noRows_status [simp, refuses_intros]: "400 \<le> c \<Longrightarrow> 400 \<le> c' \<Longrightarrow> 400 \<le> resp_status (noRows c m c' m' e)"
  by (simp add: noRows_def)

lemma onDb_Inr: "onDb m (d, w) = (Inr x, s') \<longleftrightarrow> (\<exists>d'. m d = (Inr x, d') \<and> s' = (d', w))"
  by (auto simp: onDb_def split: prod.splits)

lemma call_Inr: "call f onErr d = (Inr x, d') \<longleftrightarrow> f d = (Inr x, d')"
  by (auto simp: call_def split: prod.splits sum.splits)

lemma ifMethod_Inr: "ifMethod r m s = (Inr x, s') \<longleftrightarrow> rq_Method r = m \<and> s' = s"
  by (simp add: ifMethod_def require_Inr)

lemmas act_Inr = require_Inr given_Inr authorize_Inr statement_Inr query_Inr query_row_Inr onDb_Inr call_Inr ifMethod_Inr

text \<open>A success status is not an early return.\<close>

lemma answer_success:
  assumes "answer m s = (resp, s')" and "refuses m" and "resp_status resp < 400"
  shows "m s = (Inr resp, s')"
  using assms by (auto simp: answer_def refuses_def split: prod.splits sum.splits) force+

end
