(* ===== verification/Outcomes.thy ===== *)
theory Outcomes
  imports Compliance Routes
begin

text \<open>
  Device commands end to end on the server: the REST routes that queue and dispatch them
  (\<open>api/device_commands.go\<close>, \<open>api/device_security.go\<close>), the delivery of pending commands when an agent
  connects (\<open>ws/pending_device_commands.go\<close>), the results agents send back (\<open>device_command_outcome.go\<close>,
  \<open>package_outcome.go\<close>, \<open>app_install_outcome.go\<close>, \<open>agent_uplink.go\<close>, \<open>readPump\<close> of \<open>handler.go\<close>), and the commands
  of dashboard clients (\<open>dash_session.go\<close>).

  A message is given by what decoding makes of its bytes. \<open>readMessage\<close> is \<open>readPump\<close> on a message that is
  not telemetry. Request bodies are within the read limits, and decoded strings are valid UTF-8.
\<close>

section \<open>Results from agents\<close>

definition commandWire :: "lib \<Rightarrow> (time \<Rightarrow> string) \<Rightarrow> device_command \<Rightarrow> json_object" where
  "commandWire L fmt c =
     [(''id'', JStr (u_str L (dc_id c))), (''device_id'', JStr (u_str L (dc_device_id c))), (''command_type'', JStr (dc_command_type c))]
     @ (if dc_payload c = '''' then [] else [(''payload'', JStr (dc_payload c))])
     @ [(''status'', JStr (dc_status c))]
     @ (if dc_output c = '''' then [] else [(''output'', JStr (dc_output c))])
     @ [(''created_at'', JStr (fmt (dc_created_at c)))]
     @ (case dc_completed_at c of None \<Rightarrow> [] | Some t \<Rightarrow> [(''completed_at'', JStr (fmt t))])"

definition deviceCommandToWire :: "lib \<Rightarrow> device_command \<Rightarrow> string \<Rightarrow> json" where
  "deviceCommandToWire L c targetArxID = JObj (commandWire L (t_rfc3339 L) c @ [(''target_arx_id'', JStr (TrimSpace targetArxID))])"

definition MarshalDeviceCommandUpdate :: "lib \<Rightarrow> string \<Rightarrow> device_command \<Rightarrow> json" where
  "MarshalDeviceCommandUpdate L targetArxID c =
     JObj [(''type'', JStr ''device_command_update''), (''command'', deviceCommandToWire L c targetArxID)]"

record agentDeviceCommandResult =
  cr_Type :: string
  cr_CommandID :: string
  cr_OK :: bool
  cr_Output :: string
  cr_Error :: string

definition decodeCommandResult :: "raw_json \<Rightarrow> agentDeviceCommandResult option" where
  "decodeCommandResult raw =
     (case struct_object raw of
        None \<Rightarrow> None
      | Some m \<Rightarrow>
          (case (get_string ''type'' m, get_string ''command_id'' m, get_bool ''ok'' m, get_string ''output'' m, get_string ''error'' m) of
             (Some t, Some c, Some ok, Some out, Some e) \<Rightarrow>
               Some \<lparr>cr_Type = t, cr_CommandID = c, cr_OK = ok, cr_Output = out, cr_Error = e\<rparr>
           | _ \<Rightarrow> None))"

definition resultOutput :: "agentDeviceCommandResult \<Rightarrow> string" where
  "resultOutput p =
     (let output = TrimSpace (cr_Output p);
          output = (if output = '''' \<and> \<not> cr_OK p then TrimSpace (cr_Error p) else output);
          output = (if output = '''' \<and> cr_OK p then ''ok'' else output)
      in if \<not> cr_OK p \<and> output = '''' then ''command failed'' else output)"

definition ApplyDeviceCommandOutcome :: "lib \<Rightarrow> string \<Rightarrow> raw_json \<Rightarrow> db \<times> DashboardHub \<Rightarrow> bool \<times> db \<times> DashboardHub" where
  "ApplyDeviceCommandOutcome L certSerial raw s =
     (case s of (d, dash) \<Rightarrow>
      case decodeCommandResult raw of
        None \<Rightarrow> (False, d, dash)
      | Some p \<Rightarrow>
          if TrimSpace (cr_Type p) \<noteq> ''device_command_result'' then (False, d, dash)
          else if TrimSpace (cr_CommandID p) = '''' then (True, d, dash)
          else (case u_parse L (TrimSpace (cr_CommandID p)) of
             None \<Rightarrow> (True, d, dash)
           | Some cmdID \<Rightarrow>
               (case DeviceCommandOwnedByCertSerial cmdID (TrimSpace certSerial) d of
                  (Inl e, d) \<Rightarrow> (True, d, dash)
                | (Inr owned, d) \<Rightarrow>
                    if \<not> owned then (True, d, dash)
                    else (case (if cr_OK p then CompleteDeviceCommand L cmdID (resultOutput p) d
                                else FailDeviceCommand L cmdID (resultOutput p) d) of
                            (Inl e, d) \<Rightarrow> (True, d, dash)
                          | (Inr updated, d) \<Rightarrow>
                              (case humanIDByCertSerial (TrimSpace certSerial) d of
                                 (Inl e, d) \<Rightarrow> (True, d, dash)
                               | (Inr hid, d) \<Rightarrow>
                                   if TrimSpace hid = '''' then (True, d, dash)
                                   else (True, d, Broadcast (MarshalDeviceCommandUpdate L hid updated) dash))))))"

definition assetHasSerial :: "db \<Rightarrow> uuid \<Rightarrow> string \<Rightarrow> bool" where
  "assetHasSerial d i serial \<longleftrightarrow> list_ex (\<lambda>a. a_id a = i \<and> a_cert_serial a = Some serial) (assets d)"

definition ApplyPackageDeploymentOutcome :: "lib \<Rightarrow> string \<Rightarrow> raw_json \<Rightarrow> db \<Rightarrow> bool \<times> db" where
  "ApplyPackageDeploymentOutcome L certSerial raw d =
     (case struct_object raw of
        None \<Rightarrow> (False, d)
      | Some m \<Rightarrow>
          (case (get_string ''type'' m, get_string ''deployment_id'' m, get_string ''request_id'' m, get_bool ''ok'' m, get_string ''error'' m,
                 get_string ''operation'' m, get_string ''package_type'' m) of
             (Some t, Some dep, Some _, Some ok, Some er, Some _, Some _) \<Rightarrow>
               if TrimSpace t \<noteq> ''package_result'' then (False, d)
               else if TrimSpace dep = '''' then (True, d)
               else (case u_parse L (TrimSpace dep) of
                       None \<Rightarrow> (True, d)
                     | Some i \<Rightarrow>
                         let serial = TrimSpace certSerial
                         in if serial = '''' then (True, d)
                            else
                              (let status = (if ok then ''succeeded'' else ''failed'');
                                   errMsg = (if ok then None else Some (if TrimSpace er \<noteq> '''' then TrimSpace er else ''operation failed''))
                               in (True, snd (sql (\<lambda>d. (Inr (), d\<lparr>deployments := update_where
                                      (\<lambda>dp. dp_id dp = i \<and> assetHasSerial d (dp_asset_id dp) serial)
                                      (\<lambda>dp. dp\<lparr>dp_status := status, dp_error_message := errMsg, dp_updated_at := now d\<rparr>) (deployments d)\<rparr>)) d))))
           | _ \<Rightarrow> (False, d)))"

definition ApplyInstallAppOutcome :: "lib \<Rightarrow> string \<Rightarrow> raw_json \<Rightarrow> db \<Rightarrow> bool \<times> db" where
  "ApplyInstallAppOutcome L certSerial raw d =
     (case struct_object raw of
        None \<Rightarrow> (False, d)
      | Some m \<Rightarrow>
          (case (get_string ''type'' m, get_string ''app_id'' m, get_bool ''ok'' m, get_int ''exit_code'' m, get_string ''error'' m) of
             (Some t, Some app, Some ok, Some _, Some er) \<Rightarrow>
               if TrimSpace t \<noteq> ''install_app_result'' then (False, d)
               else (case u_parse L (TrimSpace app) of
                       None \<Rightarrow> (True, d)
                     | Some i \<Rightarrow>
                         let serial = TrimSpace certSerial
                         in if serial = '''' then (True, d)
                            else
                              (let status = (if ok then ''success'' else ''failed'');
                                   errMsg = (if ok then None else Some (if TrimSpace er = '''' then ''install failed'' else TrimSpace er))
                               in (True, snd (sql (\<lambda>d. (Inr (), d\<lparr>device_apps := update_where
                                      (\<lambda>da. da_app_id da = i \<and> assetHasSerial d (da_device_id da) serial)
                                      (\<lambda>da. da\<lparr>da_status := status, da_error_message := errMsg, da_last_updated := now d\<rparr>) (device_apps d)\<rparr>)) d))))
           | _ \<Rightarrow> (False, d)))"

definition uplinkTypes :: "string list" where
  "uplinkTypes = [''registry_result'', ''pty_output'', ''pty_exit'', ''pty_started'', ''package_result'', ''fs_listdir_result'',
     ''net_list_result'', ''hostname_set_result'', ''device_command_result'', ''install_app_result'']"

definition tryBroadcastAgentUplink :: "string \<Rightarrow> raw_json \<Rightarrow> db \<times> DashboardHub \<Rightarrow> bool \<times> db \<times> DashboardHub" where
  "tryBroadcastAgentUplink certSerial data s =
     (case s of (d, dash) \<Rightarrow>
      case (case struct_object data of None \<Rightarrow> None | Some m \<Rightarrow> get_string ''type'' m) of
        None \<Rightarrow> (False, d, dash)
      | Some t \<Rightarrow>
          if TrimSpace t \<notin> set uplinkTypes then (False, d, dash)
          else (case humanIDByCertSerial certSerial d of
                  (Inl e, d) \<Rightarrow> (True, d, dash)
                | (Inr hid, d) \<Rightarrow>
                    if TrimSpace hid = '''' then (True, d, dash)
                    else (case unmarshal_object data of
                            None \<Rightarrow> (True, d, dash)
                          | Some m \<Rightarrow> (True, d, Broadcast (norm_json (JObj (go_put ''target_arx_id'' (JStr hid) m))) dash))))"

text \<open>One message of an agent, after telemetry: the handlers are tried in turn.\<close>

definition readMessage :: "lib \<Rightarrow> string \<Rightarrow> raw_json \<Rightarrow> db \<times> hub \<times> DashboardHub \<Rightarrow> db \<times> hub \<times> DashboardHub" where
  "readMessage L serial data s =
     (case s of (d, h, dash) \<Rightarrow>
      case ApplyInstallAppOutcome L serial data d of
        (True, d) \<Rightarrow> (d, h, dash)
      | (False, d) \<Rightarrow>
          (case ApplyPackageDeploymentOutcome L serial data d of (_, d) \<Rightarrow>
           case ApplyDeviceCommandOutcome L serial data (d, dash) of
             (True, d, dash) \<Rightarrow> (d, h, dash)
           | (False, d, dash) \<Rightarrow>
               (case TryDeliverFileTransfer L serial data h of
                  (True, h) \<Rightarrow> (d, h, dash)
                | (False, h) \<Rightarrow>
                    (case tryBroadcastAgentUplink serial data (d, dash) of (_, d, dash) \<Rightarrow> (d, h, dash)))))"

section \<open>Pending commands (pending_device_commands.go)\<close>

definition commandDownlink :: "lib \<Rightarrow> uuid \<Rightarrow> string \<Rightarrow> string \<Rightarrow> json" where
  "commandDownlink L i ctype payload =
     JObj [(''action'', JStr ''device_command''), (''command_id'', JStr (u_str L i)), (''command_type'', JStr ctype), (''payload'', JStr payload)]"

fun flushRows :: "lib \<Rightarrow> 'w dispatcher \<Rightarrow> string \<Rightarrow> device_command list \<Rightarrow> db \<times> 'w \<Rightarrow> db \<times> 'w" where
  "flushRows L dispatch certSerial [] s = s"
| "flushRows L dispatch certSerial (cmd # cmds) (d, w) =
     (case dispatch certSerial (commandDownlink L (dc_id cmd) (dc_command_type cmd) (dc_payload cmd)) w of
        (ok, w) \<Rightarrow> flushRows L dispatch certSerial cmds (if ok then snd (MarkDeviceCommandSent (dc_id cmd) d) else d, w))"

definition FlushPendingDeviceCommands :: "lib \<Rightarrow> 'w dispatcher \<Rightarrow> string \<Rightarrow> db \<times> 'w \<Rightarrow> db \<times> 'w" where
  "FlushPendingDeviceCommands L dispatch certSerial s =
     (case s of (d, w) \<Rightarrow>
      case ListPendingDeviceCommandsForCertSerial certSerial 25 d of
        (Inl e, d) \<Rightarrow> (d, w)
      | (Inr pending, d) \<Rightarrow> flushRows L dispatch certSerial (map pd_Command pending) (d, w))"

section \<open>Command routes (api/device_commands.go)\<close>

definition ensureAssetExists :: "uuid \<Rightarrow> db \<Rightarrow> (go_error + unit) \<times> db" where
  "ensureAssetExists deviceID d =
     (case query (\<lambda>d. deviceID \<in> a_id ` set (assets d)) d of
        (Inl e, d) \<Rightarrow> (Inl (Err ''device lookup failed''), d)
      | (Inr ex, d) \<Rightarrow> if ex then (Inr (), d) else (Inl (Err ''device not found''), d))"

definition deviceCommands_handleList :: "lib \<Rightarrow> DashboardAuth \<Rightarrow> request \<Rightarrow> db \<Rightarrow> response \<times> db" where
  "deviceCommands_handleList L A r d =
     (if rq_Method r \<noteq> ''GET'' then (RespError 405 (Err ''method not allowed''), d)
      else (case RequireMinRole L A (now d) r ''viewer'' of
        Inl e \<Rightarrow> (e, d)
      | Inr _ \<Rightarrow>
          (case u_parse L (TrimSpace (rq_PathID r)) of
             None \<Rightarrow> (RespError 400 (Err ''invalid device id''), d)
           | Some deviceID \<Rightarrow>
               (case ensureAssetExists deviceID d of
                  (Inl e, d) \<Rightarrow> (RespError 404 e, d)
                | (Inr _, d) \<Rightarrow>
                    (case ListDeviceCommands deviceID 100 d of
                       (Inl e, d) \<Rightarrow> (RespError 500 (Err ''failed to list commands''), d)
                     | (Inr cs, d) \<Rightarrow> (RespJson 200 (JObj [(''commands'', JArr (map (\<lambda>c. JObj (commandWire L (t_json L) c)) cs))]), d))))))"

definition maxDeviceCommandPayloadBytes :: nat where
  "maxDeviceCommandPayloadBytes = 64 * 1024"

text \<open>The \<open>switch\<close> of \<open>handleCreate\<close>: an error message, or the payload to store.\<close>

definition checkPayload :: "string \<Rightarrow> string \<Rightarrow> string + string" where
  "checkPayload commandType payload =
     (if commandType = ''script'' then
        (if length payload > maxDeviceCommandPayloadBytes then Inl ''script payload exceeds 65536 bytes''
         else if TrimSpace payload = '''' then Inl ''script payload is required''
         else Inr payload)
      else if commandType = ''restart_service'' then
        (if TrimSpace payload = '''' then Inl ''restart_service requires service name payload''
         else if length (TrimSpace payload) > 256 then Inl ''restart_service payload too long''
         else Inr (TrimSpace payload))
      else if commandType = ''push_config'' then
        (if TrimSpace payload = '''' then Inl ''push_config requires JSON payload''
         else if length payload > maxDeviceCommandPayloadBytes then Inl ''push_config payload exceeds 65536 bytes''
         else if unmarshal_object (json_decode payload) = None then Inl ''push_config payload must be JSON''
         else Inr payload)
      else if commandType = ''quarantine'' then
        (if TrimSpace payload = '''' then Inl ''quarantine requires JSON payload''
         else if length payload > maxDeviceCommandPayloadBytes then Inl ''quarantine payload exceeds 65536 bytes''
         else if unmarshal_object (json_decode payload) = None then Inl ''quarantine payload must be JSON''
         else Inr payload)
      else if commandType = ''ping'' \<or> commandType = ''reboot'' then
        (if TrimSpace payload \<noteq> '''' then Inl ''payload is not used for ping or reboot commands'' else Inr payload)
      else Inl ''unsupported command_type'')"

definition commandAudit :: "lib \<Rightarrow> request \<Rightarrow> uuid \<Rightarrow> uuid \<Rightarrow> uuid \<Rightarrow> string \<Rightarrow> AuditRecord" where
  "commandAudit L r userID deviceID cmdID commandType =
     \<lparr>ar_UserID = userID, ar_Action = ''command_executed'', ar_ResourceType = ''device'', ar_ResourceID = Some deviceID,
      ar_TargetAssetID = Some deviceID,
      ar_Details = [(''command_id'', JStr (u_str L cmdID)), (''command_type'', JStr commandType), (''channel'', JStr ''rest'')],
      ar_IPAddress = ClientIP L r\<rparr>"

text \<open>Queueing and dispatching a command once the request has been checked.\<close>

definition queueAndDispatch ::
  "lib \<Rightarrow> 'w dispatcher \<Rightarrow> request \<Rightarrow> Principal \<Rightarrow> uuid \<Rightarrow> string \<Rightarrow> string \<Rightarrow> db \<times> 'w \<Rightarrow> response \<times> db \<times> 'w" where
  "queueAndDispatch L dispatch r p deviceID commandType payload s =
     (case s of (d, w) \<Rightarrow>
      case InsertDeviceCommand deviceID commandType payload None d of
        (Inl e, d) \<Rightarrow> (RespError 400 e, d, w)
      | (Inr cmd, d) \<Rightarrow>
          (case ResolveAssetCertSerial deviceID d of
             (Inl e, d) \<Rightarrow>
               (RespError 409 e, snd (FailDeviceCommandIfPending L (dc_id cmd)
                  (''asset certificate not available: '' @ (case e of Err m \<Rightarrow> m | _ \<Rightarrow> '''')) d), w)
           | (Inr certSerial, d) \<Rightarrow>
               (case dispatch certSerial (commandDownlink L (dc_id cmd) commandType payload) w of
                  (False, w) \<Rightarrow>
                    (RespError 409 (Err ''agent not connected''), snd (FailDeviceCommand L (dc_id cmd) ''agent not connected'' d), w)
                | (True, w) \<Rightarrow>
                    (let d = snd (MarkDeviceCommandSent (dc_id cmd) d);
                         d = snd (InsertAuditRecord (commandAudit L r (p_UserID p) deviceID (dc_id cmd) commandType) d)
                     in (RespJson 201 (JObj (commandWire L (t_json L) (cmd\<lparr>dc_status := ''sent''\<rparr>))), d, w)))))"

definition deviceCommands_handleCreate ::
  "lib \<Rightarrow> DashboardAuth \<Rightarrow> 'w dispatcher \<Rightarrow> request \<Rightarrow> db \<times> 'w \<Rightarrow> response \<times> db \<times> 'w" where
  "deviceCommands_handleCreate L A dispatch r s =
     (case s of (d, w) \<Rightarrow>
      if rq_Method r \<noteq> ''POST'' then (RespError 405 (Err ''method not allowed''), d, w)
      else (case RequireMinRole L A (now d) r ''operator'' of
        Inl e \<Rightarrow> (e, d, w)
      | Inr p \<Rightarrow>
          (case u_parse L (TrimSpace (rq_PathID r)) of
             None \<Rightarrow> (RespError 400 (Err ''invalid device id''), d, w)
           | Some deviceID \<Rightarrow>
               (case (case struct_object (rq_Body r) of None \<Rightarrow> None
                      | Some m \<Rightarrow> (case (get_string ''command_type'' m, get_string ''payload'' m) of
                                      (Some t, Some pl) \<Rightarrow> Some (t, pl) | _ \<Rightarrow> None)) of
                  None \<Rightarrow> (RespError 400 (Err ''invalid JSON body''), d, w)
                | Some (ct, pl) \<Rightarrow>
                    let commandType = TrimSpace (ToLower ct)
                    in if commandType = '''' then (RespError 400 (Err ''command_type is required''), d, w)
                       else (case checkPayload commandType pl of
                               Inl e \<Rightarrow> (RespError 400 (Err e), d, w)
                             | Inr payload \<Rightarrow>
                                 (case ensureAssetExists deviceID d of
                                    (Inl e, d) \<Rightarrow> (RespError 404 e, d, w)
                                  | (Inr _, d) \<Rightarrow> queueAndDispatch L dispatch r p deviceID commandType payload (d, w)))))))"

section \<open>Lock and wipe (api/device_security.go)\<close>

definition securityAudit :: "lib \<Rightarrow> request \<Rightarrow> uuid \<Rightarrow> uuid \<Rightarrow> string \<Rightarrow> json_object \<Rightarrow> AuditRecord" where
  "securityAudit L r userID deviceID action details =
     \<lparr>ar_UserID = userID, ar_Action = action, ar_ResourceType = ''device'', ar_ResourceID = Some deviceID,
      ar_TargetAssetID = Some deviceID, ar_Details = details, ar_IPAddress = ClientIP L r\<rparr>"

definition dispatchSecurityAction ::
  "lib \<Rightarrow> DashboardAuth \<Rightarrow> 'w dispatcher \<Rightarrow> string \<Rightarrow> string \<Rightarrow> request \<Rightarrow> db \<times> 'w \<Rightarrow> response \<times> db \<times> 'w" where
  "dispatchSecurityAction L A dispatch action auditAction r s =
     (case s of (d, w) \<Rightarrow>
      if rq_Method r \<noteq> ''POST'' then (RespError 405 (Err ''method not allowed''), d, w)
      else (case RequireMinRole L A (now d) r ''admin'' of
        Inl e \<Rightarrow> (e, d, w)
      | Inr p \<Rightarrow>
          (case u_parse L (TrimSpace (rq_PathID r)) of
             None \<Rightarrow> (RespError 400 (Err ''invalid device id''), d, w)
           | Some deviceID \<Rightarrow>
               let d = snd (InsertAuditRecord (securityAudit L r (p_UserID p) deviceID (auditAction @ ''_request'')
                       [(''transport_action'', JStr action), (''channel'', JStr ''rest''), (''phase'', JStr ''request_received'')]) d)
               in case ensureAssetExists deviceID d of
                    (Inl e, d) \<Rightarrow> (RespError 404 e, d, w)
                  | (Inr _, d) \<Rightarrow>
                      (case ResolveAssetCertSerial deviceID d of
                         (Inl e, d) \<Rightarrow> (RespError 409 e, d, w)
                       | (Inr certSerial, d) \<Rightarrow>
                           (case dispatch certSerial (JObj [(''action'', JStr action)]) w of
                              (False, w) \<Rightarrow>
                                (RespError 409 (Err ''agent not connected''),
                                 snd (InsertAuditRecord (securityAudit L r (p_UserID p) deviceID (auditAction @ ''_dispatch_failed'')
                                    [(''transport_action'', JStr action), (''channel'', JStr ''rest''), (''reason'', JStr ''agent_not_connected'')]) d), w)
                            | (True, w) \<Rightarrow>
                                (RespJson 202 (JObj [(''ok'', JBool True), (''device_id'', JStr (u_str L deviceID)), (''action'', JStr action), (''dispatched'', JBool True)]),
                                 snd (InsertAuditRecord (securityAudit L r (p_UserID p) deviceID (auditAction @ ''_dispatched'')
                                    [(''transport_action'', JStr action), (''channel'', JStr ''rest''), (''phase'', JStr ''c2_dispatch_succeeded'')]) d), w))))))"

definition handleLock :: "lib \<Rightarrow> DashboardAuth \<Rightarrow> 'w dispatcher \<Rightarrow> request \<Rightarrow> db \<times> 'w \<Rightarrow> response \<times> db \<times> 'w" where
  "handleLock L A dispatch r s = dispatchSecurityAction L A dispatch ''lock'' ''device_remote_lock'' r s"

definition handleWipe :: "lib \<Rightarrow> DashboardAuth \<Rightarrow> 'w dispatcher \<Rightarrow> request \<Rightarrow> db \<times> 'w \<Rightarrow> response \<times> db \<times> 'w" where
  "handleWipe L A dispatch r s = dispatchSecurityAction L A dispatch ''wipe'' ''device_enterprise_wipe'' r s"

section \<open>Dashboard commands (dash_session.go)\<close>

definition passThroughActions :: "string list" where
  "passThroughActions = [''registry_read'', ''registry_write'', ''registry_delete'', ''pty_start'', ''pty_data'', ''pty_resize'', ''pty_close'',
     ''deploy_package'', ''install_app'', ''fs_listdir'', ''fs_download'', ''fs_upload_begin'', ''fs_upload_chunk'', ''fs_upload_finish'',
     ''fs_upload_abort'', ''net_list'', ''hostname_set'']"

definition auditDashboardDispatch :: "lib \<Rightarrow> request \<Rightarrow> uuid \<Rightarrow> string \<Rightarrow> string \<Rightarrow> db \<Rightarrow> db" where
  "auditDashboardDispatch L r userID transportAction targetHuman d =
     (let transportAction = TrimSpace (ToLower transportAction)
      in if userID = uuid_Nil \<or> transportAction = '''' then d
         else (case query_row (\<lambda>d. map_option a_id (find (\<lambda>a. a_human_id a = targetHuman) (assets d))) d of (res, d) \<Rightarrow>
                 let assetID = (case res of Inl _ \<Rightarrow> None | Inr i \<Rightarrow> Some i)
                 in snd (InsertAuditRecord \<lparr>ar_UserID = userID, ar_Action = ''command_executed'', ar_ResourceType = ''device'',
                      ar_ResourceID = assetID, ar_TargetAssetID = assetID,
                      ar_Details = [(''target_arx_id'', JStr targetHuman), (''channel'', JStr ''dashboard_websocket''),
                        (''transport_action'', JStr transportAction)],
                      ar_IPAddress = ClientIP L r\<rparr> d)))"

text \<open>One message of a dashboard client: whether it was dispatched, with the text of the answer.\<close>

definition dashDispatch ::
  "lib \<Rightarrow> request \<Rightarrow> Principal \<Rightarrow> string \<Rightarrow> string \<Rightarrow> json \<Rightarrow> db \<times> hub \<Rightarrow> (bool \<times> go_error) \<times> db \<times> hub" where
  "dashDispatch L r p action target payload s =
     (case DispatchJSONByHumanID target payload s of
        (Inl e, d, h) \<Rightarrow> ((False, e), d, h)
      | (Inr _, d, h) \<Rightarrow> ((True, Err (action @ '' dispatched'')), auditDashboardDispatch L r (p_UserID p) action target d, h))"

definition dashboardMessage :: "lib \<Rightarrow> request \<Rightarrow> Principal \<Rightarrow> raw_json \<Rightarrow> db \<times> hub \<Rightarrow> (bool \<times> go_error) \<times> db \<times> hub" where
  "dashboardMessage L r p data s =
     (case (case struct_object data of None \<Rightarrow> None
            | Some m \<Rightarrow> (case (get_string ''action'' m, get_string ''target_arx_id'' m) of (Some a, Some t) \<Rightarrow> Some (a, t) | _ \<Rightarrow> None)) of
        None \<Rightarrow> ((False, Err ''invalid JSON command''), s)
      | Some (a, t) \<Rightarrow>
          let action = TrimSpace (ToLower a); target = TrimSpace t
          in if action = '''' then ((False, Err ''action is required''), s)
             else if target = '''' then ((False, Err ''target_arx_id is required''), s)
             else if p_Role p = ''viewer'' then ((False, Err ''viewer role cannot dispatch commands''), s)
             else if action = ''shutdown'' then dashDispatch L r p ''shutdown'' target (JObj [(''action'', JStr ''shutdown'')]) s
             else if action = ''lock'' \<or> action = ''wipe'' then
               (if p_Role p \<noteq> ''admin'' then ((False, Err ''admin role required''), s)
                else dashDispatch L r p action target (JObj [(''action'', JStr action)]) s)
             else if action \<in> set passThroughActions then
               (case unmarshal_object data of
                  None \<Rightarrow> ((False, Err ''invalid JSON command''), s)
                | Some m \<Rightarrow> dashDispatch L r p action target (JObj (AList.delete ''target_arx_id'' m)) s)
             else ((False, Err ''unknown action''), s))"

section \<open>The agent's dispatch (agent_handlers.go, c2/dispatcher.go)\<close>

text \<open>What \<open>handleDownlink\<close> of the agent runs for a message.\<close>

datatype agent_call = AgentShutdown | AgentLock | AgentWipe | AgentDeviceCommand | AgentHandler string | AgentNothing | AgentDecodeError

definition handleDownlink :: "raw_json \<Rightarrow> agent_call" where
  "handleDownlink data =
     (case (case struct_object data of None \<Rightarrow> None | Some m \<Rightarrow> get_string ''action'' m) of
        None \<Rightarrow> AgentDecodeError
      | Some a \<Rightarrow>
          let action = TrimSpace (ToLower a)
          in if action = '''' then AgentNothing
             else if action = ''shutdown'' then AgentShutdown
             else if action \<in> set passThroughActions then AgentHandler action
             else if action = ''lock'' then AgentLock
             else if action = ''wipe'' then AgentWipe
             else if action = ''device_command'' then AgentDeviceCommand
             else AgentNothing)"

definition reportResult :: "string \<Rightarrow> bool \<Rightarrow> string \<Rightarrow> string \<Rightarrow> json" where
  "reportResult commandID ok output errMsg =
     JObj [(''type'', JStr ''device_command_result''), (''command_id'', JStr commandID), (''ok'', JBool ok),
           (''output'', JStr (if \<not> ok \<and> output = '''' then errMsg else output)), (''error'', JStr errMsg)]"

definition serviceNameChar :: "char \<Rightarrow> bool" where
  "serviceNameChar c \<longleftrightarrow> (let n = (of_char c :: nat) in
     (48 \<le> n \<and> n \<le> 57) \<or> (65 \<le> n \<and> n \<le> 90) \<or> (97 \<le> n \<and> n \<le> 122) \<or> c \<in> {CHR ''_'', CHR ''.'', CHR ''@'', CHR ''-''})"

definition validServiceName :: "string \<Rightarrow> bool" where
  "validServiceName s \<longleftrightarrow> 1 \<le> length s \<and> length s \<le> 96 \<and> list_all serviceNameChar s"

text \<open>The script bodies on Linux; the platform executors run a script or apply a quarantine and give the
  output and an error text.\<close>

record platform =
  pf_script :: "string \<Rightarrow> string \<times> string option"
  pf_quarantine :: "string \<Rightarrow> string \<times> string option"
  pf_b64 :: "string \<Rightarrow> string"

definition nl :: string where
  "nl = [CHR 0x0A]"

definition BuildRestartServiceScript :: "string \<Rightarrow> string + string" where
  "BuildRestartServiceScript serviceName =
     (let s = TrimSpace serviceName
      in if \<not> validServiceName s then Inl ''invalid restart_service service name''
         else Inr (''set -euo pipefail'' @ nl @ ''systemctl restart '' @ [CHR 0x27] @ s @ [CHR 0x27] @ nl
                @ ''printf '' @ [CHR 0x27] @ ''restart_service completed for '' @ s @ [CHR 0x5C] @ ''n'' @ [CHR 0x27] @ nl))"

fun chunkBase64Lines :: "string \<Rightarrow> string" where
  "chunkBase64Lines b = (if length b \<le> 120 then b else take 120 b @ nl @ chunkBase64Lines (drop 120 b))"

declare chunkBase64Lines.simps [simp del]

definition BuildPushConfigScript :: "lib \<Rightarrow> platform \<Rightarrow> string \<Rightarrow> string + string" where
  "BuildPushConfigScript L P jsonPayload =
     (case json_decode (TrimSpace jsonPayload) of
        RawDoc v \<Rightarrow>
          Inr (''set -euo pipefail'' @ nl
             @ ''install -d -m 0750 '' @ [CHR 0x27] @ ''/var/lib/arx-mdm'' @ [CHR 0x27] @ nl
             @ ''tmp='' @ [CHR 0x22] @ ''$(mktemp)'' @ [CHR 0x22] @ nl
             @ ''base64 -d <<'' @ [CHR 0x27] @ ''ARB64'' @ [CHR 0x27] @ '' > '' @ [CHR 0x22] @ ''$tmp'' @ [CHR 0x22] @ nl
             @ chunkBase64Lines (pf_b64 P (marshal (j_num L) v)) @ nl @ ''ARB64'' @ nl
             @ ''install -m 0640 '' @ [CHR 0x22] @ ''$tmp'' @ [CHR 0x22] @ '' '' @ [CHR 0x27] @ ''/var/lib/arx-mdm/push-config.json'' @ [CHR 0x27] @ nl
             @ ''rm -f '' @ [CHR 0x22] @ ''$tmp'' @ [CHR 0x22] @ nl
             @ ''printf '' @ [CHR 0x27] @ ''push_config completed for /var/lib/arx-mdm/push-config.json'' @ [CHR 0x5C] @ ''n'' @ [CHR 0x27] @ nl)
      | _ \<Rightarrow> Inl ''push_config payload must be valid JSON'')"

definition reportRun :: "string \<Rightarrow> string \<times> string option \<Rightarrow> json" where
  "reportRun commandID res =
     (case res of (out, None) \<Rightarrow> reportResult commandID True out '''' | (out, Some e) \<Rightarrow> reportResult commandID False out e)"

text \<open>The message the agent sends back; \<open>None\<close> is an error before there is a command id.\<close>

definition HandleDownlink :: "lib \<Rightarrow> platform \<Rightarrow> raw_json \<Rightarrow> json option" where
  "HandleDownlink L P raw =
     (case struct_object raw of
        None \<Rightarrow> None
      | Some m \<Rightarrow>
          (case (get_string ''action'' m, get_string ''command_id'' m, get_string ''command_type'' m, get_string ''payload'' m) of
             (Some _, Some ci, Some ct, Some payload) \<Rightarrow>
               (let commandID = TrimSpace ci; commandType = TrimSpace (ToLower ct)
                in if commandID = '''' then None
                   else Some
                     (if commandType = '''' then reportResult commandID False '''' ''command_type is required''
                      else if commandType = ''ping'' then reportResult commandID True ''pong'' ''''
                      else if commandType = ''reboot'' then reportResult commandID True ''reboot scheduled'' ''''
                      else if commandType = ''script'' then reportRun commandID (pf_script P payload)
                      else if commandType = ''restart_service'' then
                        (case BuildRestartServiceScript payload of
                           Inl e \<Rightarrow> reportResult commandID False '''' e
                         | Inr body \<Rightarrow> reportRun commandID (pf_script P body))
                      else if commandType = ''push_config'' then
                        (case BuildPushConfigScript L P payload of
                           Inl e \<Rightarrow> reportResult commandID False '''' e
                         | Inr body \<Rightarrow> reportRun commandID (pf_script P body))
                      else if commandType = ''quarantine'' then reportRun commandID (pf_quarantine P payload)
                      else reportResult commandID False '''' (''unsupported command_type '' @ go_quote commandType)))
           | _ \<Rightarrow> None))"

end
