(* ===== verification/Json_Roundtrip.thy ===== *)
theory Json_Roundtrip
  imports Json_Decode
begin

text \<open>
  What \<open>json.Marshal\<close> writes is read back by the decoder: string literals, decimal numbers and arrays of
  strings. The payloads the server builds are composed of these.
\<close>

lemma hex_val_hex_digit: "hex_val (hex_digit n) = Some (n mod 16)"
proof -
  have "\<forall>k < 16. hex_val (''0123456789abcdef'' ! k) = Some k"
    by (simp add: All_less_Suc numeral_eq_Suc hex_val_def)
  then show ?thesis by (simp add: hex_digit_def)
qed

lemma json_escape_simple:
  "json_escape (CHR 0x08) = [CHR 0x5C, CHR ''b'']" "json_escape (CHR 0x09) = [CHR 0x5C, CHR ''t'']"
  "json_escape (CHR 0x0A) = [CHR 0x5C, CHR ''n'']" "json_escape (CHR 0x0C) = [CHR 0x5C, CHR ''f'']"
  "json_escape (CHR 0x0D) = [CHR 0x5C, CHR ''r'']" "json_escape (CHR 0x22) = [CHR 0x5C, CHR 0x22]"
  "json_escape (CHR 0x5C) = [CHR 0x5C, CHR 0x5C]"
  by code_simp+

lemma simple_chars:
  "char_of (8 :: nat) = CHR 0x08" "char_of (9 :: nat) = CHR 0x09" "char_of (10 :: nat) = CHR 0x0A"
  "char_of (12 :: nat) = CHR 0x0C" "char_of (13 :: nat) = CHR 0x0D" "char_of (34 :: nat) = CHR 0x22"
  "char_of (92 :: nat) = CHR 0x5C"
  by code_simp+

lemma parse_str_escape:
  "parse_str (json_escape c @ t) = map_option (\<lambda>(u, r). (c # u, r)) (parse_str t)"
proof -
  define n where "n = (of_char c :: nat)"
  have c: "c = char_of n" by (simp add: n_def)
  have lt: "n < 256" by (simp add: n_def)
  consider "n \<in> {8, 9, 10, 12, 13, 34, 92}" | "n \<notin> {8, 9, 10, 12, 13, 34, 92}" "n < 32 \<or> n = 60 \<or> n = 62 \<or> n = 38"
    | "n \<notin> {8, 9, 10, 12, 13, 34, 92}" "\<not> n < 32" "n \<noteq> 60" "n \<noteq> 62" "n \<noteq> 38" by blast
  then show ?thesis
  proof cases
    case 1
    then have "c \<in> {CHR 0x08, CHR 0x09, CHR 0x0A, CHR 0x0C, CHR 0x0D, CHR 0x22, CHR 0x5C}"
      using simple_chars by (auto simp: c)
    then show ?thesis by (auto simp: json_escape_simple simple_escape_def)
  next
    case 2
    then have "n div 16 < 16" "n < 128" by auto
    then have h: "hex4 (CHR ''0'') (CHR ''0'') (hex_digit (n div 16)) (hex_digit n) = Some n"
      by (simp add: hex4_def hex_val_hex_digit) (simp add: hex_val_def)
    have "json_escape c = [CHR 0x5C, CHR ''u'', CHR ''0'', CHR ''0'', hex_digit (n div 16), hex_digit n]"
      using 2 by (auto simp: json_escape_def n_def [symmetric] simple_chars)
    with h \<open>n < 128\<close> show ?thesis by (simp add: utf8_def c)
  next
    case 3
    then have e: "json_escape c = [c]" by (auto simp: json_escape_def n_def [symmetric])
    have "c \<noteq> CHR 0x22" "c \<noteq> CHR 0x5C" using 3 by (auto simp: n_def)
    with 3 show ?thesis by (simp add: e n_def)
  qed
qed

lemma parse_str_quote: "parse_str (concat (map json_escape s) @ CHR 0x22 # r) = Some (s, r)"
  by (induction s) (simp_all add: parse_str_escape)

lemma parse_value_string: "n > 0 \<Longrightarrow> parse_value n (json_quote s @ r) = Some (JStr s, r)"
  by (cases n) (simp_all add: json_quote_def parse_str_quote)

lemma parse_members_step:
  assumes "parse_value n (skip v) = Some (x, e # u)" and "e = CHR ''}'' \<or> e = CHR '',''"
  shows "parse_members (Suc n) (json_quote k @ CHR '':'' # v)
    = (if e = CHR ''}'' then Some ([(k, x)], u) else map_option (\<lambda>(m, z). ((k, x) # m, z)) (parse_members n (skip u)))"
proof -
  have s: "\<not> json_space (CHR '':'')" "\<not> json_space e" using assms(2) by (auto simp: json_space_def)
  have q: "json_quote k @ CHR '':'' # v = CHR 0x22 # (concat (map json_escape k) @ CHR 0x22 # CHR '':'' # v)"
    by (simp add: json_quote_def)
  show ?thesis unfolding q using assms s by (auto simp: parse_str_quote)
qed

lemma skip_json_quote [simp]: "skip (json_quote s @ r) = json_quote s @ r"
  by (simp add: json_quote_def json_space_def)

lemma parse_elems_strings:
  "hs \<noteq> [] \<Longrightarrow> length hs < n \<Longrightarrow> parse_elems n (Join (map json_quote hs) '','' @ CHR '']'' # r) = Some (map JStr hs, r)"
proof (induction hs arbitrary: n)
  case Nil
  then show ?case by simp
next
  case (Cons h hs)
  then obtain m where n: "n = Suc m" "m > 0" "length hs < m" by (cases n) auto
  have s: "\<not> json_space (CHR '']'')" "\<not> json_space (CHR '','')" by (simp_all add: json_space_def)
  show ?case
  proof (cases hs)
    case Nil
    with n s show ?thesis by (simp add: parse_value_string)
  next
    case (Cons g gs)
    have j: "Join (map json_quote (h # hs)) '','' @ CHR '']'' # r
        = json_quote h @ CHR '','' # (Join (map json_quote hs) '','' @ CHR '']'' # r)"
      using Cons by simp
    have k: "skip (Join (map json_quote hs) '','' @ CHR '']'' # r) = Join (map json_quote hs) '','' @ CHR '']'' # r"
      using Cons by (cases gs) (simp_all add: json_quote_def json_space_def)
    have "parse_elems m (Join (map json_quote hs) '','' @ CHR '']'' # r) = Some (map JStr hs, r)"
      using Cons n(3) by (intro Cons.IH) auto
    then show ?thesis unfolding j n(1) using n(2) s k by (simp add: parse_value_string)
  qed
qed

lemma parse_value_strings:
  assumes "length hs < n"
  shows "parse_value (Suc n) (marshal f (JArr (map JStr hs)) @ r) = Some (JArr (map JStr hs), r)"
proof (cases "hs = []")
  case True
  then show ?thesis by (simp add: json_space_def)
next
  case False
  then obtain g gs where hs: "hs = g # gs" by (cases hs) auto
  obtain t where t: "Join (map json_quote hs) '','' @ CHR '']'' # r = CHR 0x22 # t"
    unfolding hs by (cases gs) (simp_all add: json_quote_def)
  have m: "map (marshal f) (map JStr hs) = map json_quote hs" by simp
  have "parse_elems n (CHR 0x22 # t) = Some (map JStr hs, r)"
    using parse_elems_strings [OF False assms, of r] by (simp add: t)
  then show ?thesis
    unfolding marshal.simps m using t by (simp add: json_space_def)
qed

lemma nat_str_hd: "n > 0 \<Longrightarrow> hd (nat_str n) \<noteq> CHR ''0''"
proof (induction n rule: nat_str.induct)
  case (1 n)
  show ?case
  proof (cases "n < 10")
    case True
    have "digit_val (CHR ''0'') = 0" by (simp add: digit_val_def)
    with True 1(2) have "digit_char n \<noteq> CHR ''0''" using digit_char_digit [of n] by auto
    with True show ?thesis by (subst nat_str.simps) simp
  next
    case False
    with 1(1) have "hd (nat_str (n div 10)) \<noteq> CHR ''0''" by simp
    with False show ?thesis by (subst nat_str.simps) simp
  qed
qed

lemma takeWhile_digits:
  assumes "r = [] \<or> \<not> is_digit (hd r)"
  shows "takeWhile is_digit (nat_str n @ r) = nat_str n" "dropWhile is_digit (nat_str n @ r) = r"
proof -
  have d: "\<forall>c \<in> set (nat_str n). is_digit c" using nat_str_digits [of n] by (simp add: list_all_iff)
  show "takeWhile is_digit (nat_str n @ r) = nat_str n" using d assms by (cases r) (simp_all add: takeWhile_append2)
  show "dropWhile is_digit (nat_str n @ r) = r" using d assms by (cases r) (simp_all add: dropWhile_append2)
qed

lemma digit_first:
  "is_digit c \<Longrightarrow> c \<noteq> CHR 0x22 \<and> c \<noteq> CHR ''['' \<and> c \<noteq> CHR ''{'' \<and> c \<noteq> CHR ''t'' \<and> c \<noteq> CHR ''f'' \<and> c \<noteq> CHR ''n'' \<and> c \<noteq> CHR ''-''"
  by (auto simp: is_digit_def Let_def)

lemma nat_str_Cons: obtains c cs where "nat_str n = c # cs" and "is_digit c"
  using nat_str_digits [of n] by (cases "nat_str n") auto

lemma parse_num_nat_str:
  assumes "n > 0" and "e \<in> {CHR '']'', CHR ''}'', CHR '',''}"
  shows "parse_num (nat_str n @ e # r) = Some (of_nat n, e # r)"
proof -
  obtain c cs where c: "nat_str n = c # cs" "is_digit c" by (rule nat_str_Cons)
  have nd: "\<not> is_digit e" "e \<noteq> CHR ''.''" "e \<noteq> CHR ''e''" "e \<noteq> CHR ''E''" using assms(2) by (auto simp: is_digit_def)
  have tw: "takeWhile is_digit (c # cs @ e # r) = c # cs" "dropWhile is_digit (c # cs @ e # r) = e # r"
    using takeWhile_digits [of "e # r" n] nd(1) by (simp_all add: c(1))
  have "c \<noteq> CHR ''0''" using nat_str_hd [OF assms(1)] c by simp
  moreover have "digits_val (c # cs) = n" using foldl_nat_str [of n] by (simp add: digits_val_def c)
  ultimately show ?thesis
    using digit_first [OF c(2)] nd unfolding parse_num_def c(1) append_Cons
    by (simp only: list.case if_False Let_def prod.case tw) (simp add: parse_frac_def parse_exp_def pow10_def)
qed

lemma parse_value_nat_str:
  assumes "n > 0" and "e \<in> {CHR '']'', CHR ''}'', CHR '',''}"
  shows "parse_value (Suc k) (nat_str n @ e # r) = Some (JNum (of_nat n), e # r)"
proof -
  obtain c cs where c: "nat_str n = c # cs" "is_digit c" by (rule nat_str_Cons)
  show ?thesis
    using digit_first [OF c(2)] parse_num_nat_str [OF assms, of r] by (auto simp: c(1))
qed

end
