(* ===== verification/Commands_Facts.thy ===== *)
theory Commands_Facts
  imports Commands
begin

text \<open>
  The life of command rows. Every operation of the queue changes the table only by appending
  well-formed pending rows and by moving existing rows to a new status with everything else kept
  (\<open>evolves\<close>); the invariant \<open>wf_queue\<close> and the history facts follow from that by rule induction over
  the steps of the queue.
\<close>

section \<open>Well-formed rows and their evolution\<close>

definition wf_command :: "device_command \<Rightarrow> bool" where
  "wf_command c \<longleftrightarrow>
     dc_command_type c \<in> set DeviceCommandTypes \<and> dc_status c \<in> set DeviceCommandStatuses
     \<and> (dc_payload c \<noteq> '''' \<longleftrightarrow> dc_command_type c \<in> set payloadTypes)
     \<and> length (dc_output c) \<le> maxDeviceCommandOutputLen + length truncation_mark
     \<and> (dc_status c \<in> {''completed'', ''failed''} \<longrightarrow> dc_completed_at c \<noteq> None)"

definition wf_queue :: "db \<Rightarrow> bool" where
  "wf_queue d \<longleftrightarrow> distinct (map dc_id (device_commands d))
     \<and> (\<forall>c \<in> set (device_commands d). wf_command c \<and> dc_device_id c \<in> a_id ` set (assets d))"

text \<open>What a row keeps when it moves on.\<close>

definition moves_on :: "device_command \<Rightarrow> device_command \<Rightarrow> bool" where
  "moves_on c c' \<longleftrightarrow>
     dc_id c' = dc_id c \<and> dc_device_id c' = dc_device_id c \<and> dc_command_type c' = dc_command_type c
     \<and> dc_payload c' = dc_payload c \<and> dc_created_at c' = dc_created_at c
     \<and> dc_incident_context_id c' = dc_incident_context_id c
     \<and> (dc_completed_at c \<noteq> None \<longrightarrow> dc_completed_at c' \<noteq> None)
     \<and> (wf_command c \<longrightarrow> wf_command c')
     \<and> (dc_status c' = ''pending'' \<longrightarrow> c' = c)"

definition fresh_rows :: "db \<Rightarrow> device_command list \<Rightarrow> bool" where
  "fresh_rows d new \<longleftrightarrow> distinct (map dc_id new) \<and> dc_id ` set new \<inter> dc_id ` set (device_commands d) = {}
     \<and> (\<forall>c \<in> set new. wf_command c \<and> dc_device_id c \<in> a_id ` set (assets d))"

definition evolves :: "db \<Rightarrow> db \<Rightarrow> bool" where
  "evolves d d' \<longleftrightarrow> assets d' = assets d
     \<and> (\<exists>f new. device_commands d' = map f (device_commands d) @ new \<and> (\<forall>c. moves_on c (f c)) \<and> fresh_rows d new)"

lemma moves_on_refl [simp]: "moves_on c c"
  by (simp add: moves_on_def)

lemma moves_on_trans: "moves_on c c' \<Longrightarrow> moves_on c' c'' \<Longrightarrow> moves_on c c''"
  unfolding moves_on_def by simp

lemma moves_on_keeps:
  assumes "moves_on c c'"
  shows "dc_id c' = dc_id c" "dc_device_id c' = dc_device_id c" "dc_command_type c' = dc_command_type c"
    "dc_payload c' = dc_payload c" "dc_created_at c' = dc_created_at c"
    "dc_completed_at c \<noteq> None \<Longrightarrow> dc_completed_at c' \<noteq> None"
  using assms by (auto simp: moves_on_def)

lemma evolves_refl [simp]: "evolves d d"
  unfolding evolves_def by (intro conjI exI [of _ "\<lambda>c. c"] exI [of _ "[]"]) (auto simp: fresh_rows_def)

lemma evolves_trans [trans]:
  assumes "evolves d d'" and "evolves d' d''"
  shows "evolves d d''"
proof -
  obtain f new where f: "device_commands d' = map f (device_commands d) @ new" "\<forall>c. moves_on c (f c)" "fresh_rows d new"
    using assms(1) by (auto simp: evolves_def)
  obtain g new' where g: "device_commands d'' = map g (device_commands d') @ new'" "\<forall>c. moves_on c (g c)" "fresh_rows d' new'"
    using assms(2) by (auto simp: evolves_def)
  have ids: "dc_id (f c) = dc_id c" "dc_id (g c) = dc_id c" "dc_device_id (g c) = dc_device_id c" for c
    using f(2) g(2) moves_on_keeps by blast+
  have wf: "wf_command c \<Longrightarrow> wf_command (g c)" for c using g(2) by (auto simp: moves_on_def)
  have as: "assets d' = assets d" using assms(1) by (simp add: evolves_def)
  have "fresh_rows d (map g new @ new')"
    unfolding fresh_rows_def
  proof (intro conjI ballI)
    show "distinct (map dc_id (map g new @ new'))"
      using f g by (auto simp: fresh_rows_def comp_def ids image_image)
    show "dc_id ` set (map g new @ new') \<inter> dc_id ` set (device_commands d) = {}"
      using f g by (auto simp: fresh_rows_def ids image_image image_Un)
    fix c assume "c \<in> set (map g new @ new')"
    then consider c' where "c' \<in> set new" "c = g c'" | "c \<in> set new'" by auto
    then have "wf_command c \<and> dc_device_id c \<in> a_id ` set (assets d)"
      using f(3) g(3) as by cases (simp_all add: fresh_rows_def ids wf)
    then show "wf_command c" and "dc_device_id c \<in> a_id ` set (assets d)" by simp_all
  qed
  moreover have "device_commands d'' = map (g \<circ> f) (device_commands d) @ (map g new @ new')"
    using f(1) g(1) by simp
  moreover have "\<forall>c. moves_on c ((g \<circ> f) c)" using f(2) g(2) by (auto intro: moves_on_trans)
  moreover have "assets d'' = assets d" using assms by (simp add: evolves_def)
  ultimately show ?thesis unfolding evolves_def by blast
qed

text \<open>An operation that leaves commands and assets alone.\<close>

lemma evolves_same: "device_commands d' = device_commands d \<Longrightarrow> assets d' = assets d \<Longrightarrow> evolves d d'"
  using evolves_refl [of d] unfolding evolves_def fresh_rows_def by simp

lemma wf_queue_evolves:
  assumes "evolves d d'" and "wf_queue d"
  shows "wf_queue d'"
proof -
  obtain f new where f: "device_commands d' = map f (device_commands d) @ new" "\<forall>c. moves_on c (f c)" "fresh_rows d new"
    "assets d' = assets d" using assms(1) by (auto simp: evolves_def)
  have ids: "dc_id (f c) = dc_id c" "dc_device_id (f c) = dc_device_id c" for c
    using f(2) moves_on_keeps by blast+
  have wf: "wf_command c \<Longrightarrow> wf_command (f c)" for c using f(2) by (auto simp: moves_on_def)
  show ?thesis
    using assms(2) f by (auto simp: wf_queue_def fresh_rows_def ids wf image_image comp_def)
qed

section \<open>The operations\<close>

lemma length_truncateOutput: "length (truncateOutput s) \<le> maxDeviceCommandOutputLen + length truncation_mark"
  by (simp add: truncateOutput_def)

lemma evolves_update_where:
  assumes "\<And>c. P c \<Longrightarrow> moves_on c (f c)"
  shows "evolves d (d\<lparr>stmt_no := n, device_commands := update_where P f (device_commands d)\<rparr>)"
proof -
  have "device_commands (d\<lparr>stmt_no := n, device_commands := update_where P f (device_commands d)\<rparr>)
      = map (\<lambda>c. if P c then f c else c) (device_commands d) @ []" by (simp add: update_where_def)
  moreover have "\<forall>c. moves_on c (if P c then f c else c)" using assms by auto
  moreover have "fresh_rows d []" by (simp add: fresh_rows_def)
  ultimately show ?thesis unfolding evolves_def by (intro conjI exI) (assumption | simp)+
qed

lemma moves_on_finished:
  assumes "st \<in> {''completed'', ''failed''}" and "length out \<le> maxDeviceCommandOutputLen + length truncation_mark"
  shows "moves_on c (c\<lparr>dc_status := st, dc_output := out, dc_completed_at := Some t\<rparr>)"
  using assms by (auto simp: moves_on_def wf_command_def DeviceCommandStatuses_def)

lemma moves_on_sent: "moves_on c (c\<lparr>dc_status := ''sent'', dc_output := ''''\<rparr>)"
  by (simp add: moves_on_def wf_command_def DeviceCommandStatuses_def)

lemma evolves_updateDeviceCommandStatus:
  assumes "\<And>c t. moves_on c (if setC then c\<lparr>dc_status := st, dc_output := out, dc_completed_at := Some t\<rparr>
                              else c\<lparr>dc_status := st, dc_output := out\<rparr>)"
  shows "evolves d (snd (updateDeviceCommandStatus i st out setC d))"
proof (cases "validateDeviceCommandStatus st")
  case None
  have "evolves d (d\<lparr>stmt_no := n, device_commands := update_where (\<lambda>c. dc_id c = i)
      (\<lambda>c. if setC then c\<lparr>dc_status := st, dc_output := out, dc_completed_at := Some t\<rparr>
           else c\<lparr>dc_status := st, dc_output := out\<rparr>) (device_commands d)\<rparr>)" for n t
    by (rule evolves_update_where) (rule assms)
  with None show ?thesis
    by (auto simp: updateDeviceCommandStatus_def sql_def Let_def intro: evolves_same)
qed (simp add: updateDeviceCommandStatus_def)

lemma evolves_MarkDeviceCommandSent: "evolves d (snd (MarkDeviceCommandSent i d))"
  unfolding MarkDeviceCommandSent_def
  by (rule evolves_updateDeviceCommandStatus) (simp add: moves_on_sent)

text \<open>The journal writes incidents only.\<close>

lemma AppendIncidentWorkNoteJSON_frame:
  "device_commands (snd (AppendIncidentWorkNoteJSON i n d)) = device_commands d
   \<and> assets (snd (AppendIncidentWorkNoteJSON i n d)) = assets d"
  by (simp add: AppendIncidentWorkNoteJSON_def sql_def Let_def)

lemma Journal_frame:
  "device_commands (snd (AppendIncidentJournalForTerminalCommand L i s out op opn d)) = device_commands d
   \<and> assets (snd (AppendIncidentJournalForTerminalCommand L i s out op opn d)) = assets d"
  by (simp add: AppendIncidentJournalForTerminalCommand_def query_row_def sql_def Let_def
      AppendIncidentWorkNoteJSON_frame split: option.splits sum.splits)

lemma GetDeviceCommand_state [simp]: "snd (GetDeviceCommand i j d) = d\<lparr>stmt_no := Suc (stmt_no d)\<rparr>"
  by (simp add: GetDeviceCommand_def query_row_def sql_def Let_def split: sum.splits option.splits sql_error.splits)

lemma evolves_finishDeviceCommand:
  assumes "st \<in> {''completed'', ''failed''}"
  shows "evolves d (snd (finishDeviceCommand L st ok i out d))"
proof -
  let ?u = "updateDeviceCommandStatus i st (truncateOutput out) True d"
  have u: "evolves d (snd ?u)"
    by (rule evolves_updateDeviceCommandStatus) (simp add: moves_on_finished [OF assms length_truncateOutput])
  show ?thesis
  proof (cases "fst ?u")
    case (Inl e)
    with u show ?thesis by (cases ?u) (simp add: finishDeviceCommand_def)
  next
    case (Inr x)
    obtain r d2 where g: "GetDeviceCommand i uuid_Nil (snd ?u) = (r, d2)" by fastforce
    then have d2: "d2 = (snd ?u)\<lparr>stmt_no := Suc (stmt_no (snd ?u))\<rparr>" by (metis GetDeviceCommand_state snd_conv)
    have "evolves (snd ?u) (snd (finishDeviceCommand L st ok i out d))"
      using Inr g d2 by (cases ?u; cases r) (auto simp: finishDeviceCommand_def Journal_frame intro: evolves_same)
    with u show ?thesis by (rule evolves_trans)
  qed
qed

lemma evolves_CompleteDeviceCommand: "evolves d (snd (CompleteDeviceCommand L i out d))"
  unfolding CompleteDeviceCommand_def by (rule evolves_finishDeviceCommand) simp

lemma evolves_FailDeviceCommand: "evolves d (snd (FailDeviceCommand L i out d))"
  unfolding FailDeviceCommand_def by (rule evolves_finishDeviceCommand) simp

lemma evolves_FailDeviceCommandIfPending: "evolves d (snd (FailDeviceCommandIfPending L i msg d))"
proof -
  have u: "evolves d (d\<lparr>stmt_no := n, device_commands := update_where (\<lambda>c. dc_id c = i \<and> dc_status c = ''pending'')
      (\<lambda>c. c\<lparr>dc_status := ''failed'', dc_output := truncateOutput msg, dc_completed_at := Some t\<rparr>) (device_commands d)\<rparr>)"
    (is "evolves d (?d n t)") for n t
    by (rule evolves_update_where) (simp add: moves_on_finished length_truncateOutput)
  have j: "evolves (?d n t) (snd (AppendIncidentJournalForTerminalCommand L i False (truncateOutput msg) uuid_Nil '''' (?d n t)))" for n t
    by (rule evolves_same) (simp_all add: Journal_frame)
  have "evolves d (d\<lparr>stmt_no := n\<rparr>)" for n by (rule evolves_same) simp_all
  with u evolves_trans [OF u j] show ?thesis
    by (simp add: FailDeviceCommandIfPending_def sql_def Let_def)
qed

lemma evolves_insertCommandRow:
  assumes "ct \<in> set DeviceCommandTypes" and "pl \<noteq> '''' \<longleftrightarrow> ct \<in> set payloadTypes"
  shows "evolves d (snd (insertCommandRow dev ct pl inc d))"
proof (cases "fst (insertCommandRow dev ct pl inc d)")
  case (Inl e)
  then show ?thesis
    by (intro evolves_same) (auto simp: insertCommandRow_def Let_def uuid_used_def split: if_splits)
next
  case (Inr c)
  have "device_commands (snd (insertCommandRow dev ct pl inc d)) = map (\<lambda>c. c) (device_commands d) @ [c]"
    and "assets (snd (insertCommandRow dev ct pl inc d)) = assets d"
    and "fresh_rows d [c]"
    using Inr assms
    by (auto simp: insertCommandRow_def Let_def uuid_used_def fresh_rows_def wf_command_def DeviceCommandStatuses_def
        split: if_splits)
  then show ?thesis unfolding evolves_def
    by (intro conjI exI [of _ "\<lambda>c. c"] exI [of _ "[c]"]) simp_all
qed

lemma evolves_InsertDeviceCommand: "evolves d (snd (InsertDeviceCommand dev ct pl inc d))"
proof -
  let ?ct = "TrimSpace (ToLower ct)" and ?pl = "TrimSpace pl" and ?d = "d\<lparr>stmt_no := Suc (stmt_no d)\<rparr>"
  have s: "evolves d ?d" by (rule evolves_same) simp_all
  have "evolves d (snd (insertCommandRow dev ?ct ?pl inc ?d))"
    if "?ct \<in> set DeviceCommandTypes" and "?pl \<noteq> '''' \<longleftrightarrow> ?ct \<in> set payloadTypes"
    using evolves_trans [OF s evolves_insertCommandRow [OF that]] .
  then have ok: "evolves d (snd (sql (insertCommandRow dev ?ct ?pl inc) d))"
    if "?ct \<in> set DeviceCommandTypes" and "?pl \<noteq> '''' \<longleftrightarrow> ?ct \<in> set payloadTypes"
    using that s by (simp add: sql_def Let_def)
  have "snd (InsertDeviceCommand dev ct pl inc d) = d
      \<or> ?ct \<in> set DeviceCommandTypes \<and> (?pl \<noteq> '''' \<longleftrightarrow> ?ct \<in> set payloadTypes)
        \<and> snd (InsertDeviceCommand dev ct pl inc d) = snd (sql (insertCommandRow dev ?ct ?pl inc) d)"
    by (auto simp: InsertDeviceCommand_def Let_def validateDeviceCommandType_def
        split: option.splits simp del: split_paired_Ex)
  with ok show ?thesis by (metis evolves_refl)
qed

section \<open>Runs of the queue\<close>

text \<open>One step of the queue: any of its operations with any arguments, or a change of the other tables, the
  clock and the fault pattern that keeps commands and devices.\<close>

inductive queue_step :: "lib \<Rightarrow> db \<Rightarrow> db \<Rightarrow> bool" for L :: lib where
  step_insert: "queue_step L d (snd (InsertDeviceCommand dev ct pl inc d))"
| step_sent: "queue_step L d (snd (MarkDeviceCommandSent i d))"
| step_complete: "queue_step L d (snd (CompleteDeviceCommand L i out d))"
| step_fail: "queue_step L d (snd (FailDeviceCommand L i out d))"
| step_fail_pending: "queue_step L d (snd (FailDeviceCommandIfPending L i msg d))"
| step_other: "device_commands d' = device_commands d \<Longrightarrow> assets d' = assets d \<Longrightarrow> queue_step L d d'"

inductive_cases queue_stepE: "queue_step L d d'"

lemma queue_step_evolves: "queue_step L d d' \<Longrightarrow> evolves d d'"
  by (elim queue_stepE)
    (auto intro: evolves_same simp: evolves_InsertDeviceCommand evolves_MarkDeviceCommandSent evolves_CompleteDeviceCommand
      evolves_FailDeviceCommand evolves_FailDeviceCommandIfPending)

lemma queue_steps_evolve: "(queue_step L)\<^sup>*\<^sup>* d d' \<Longrightarrow> evolves d d'"
  by (induction rule: rtranclp_induct) (auto intro: evolves_trans queue_step_evolves)

lemma evolves_history:
  assumes "evolves d d'" and "c \<in> set (device_commands d)"
  shows "\<exists>c' \<in> set (device_commands d'). moves_on c c'"
proof -
  obtain f new where "device_commands d' = map f (device_commands d) @ new" "\<forall>c. moves_on c (f c)"
    using assms(1) by (auto simp: evolves_def)
  with assms(2) show ?thesis by (intro bexI [of _ "f c"]) auto
qed

lemma evolves_ids_prefix:
  assumes "evolves d d'"
  shows "prefix (map dc_id (device_commands d)) (map dc_id (device_commands d'))"
proof -
  obtain f new where f: "device_commands d' = map f (device_commands d) @ new" "\<forall>c. moves_on c (f c)"
    using assms by (auto simp: evolves_def)
  then have "map dc_id (map f (device_commands d)) = map dc_id (device_commands d)" by (simp add: moves_on_keeps(1))
  with f(1) show ?thesis by (simp add: prefix_def)
qed

text \<open>C34: through any sequence of queue operations, whatever their arguments and database failures, the
  queue stays well-formed (unique ids, known types and statuses, a payload exactly for the types that
  take one, bounded output, a completion time on finished rows, an existing device), rows are never
  removed or reordered, and a row keeps its device, type, payload, creation time and incident; a row
  that has left \<open>pending\<close> never returns to it.\<close>

theorem queue_run_invariant:
  assumes "(queue_step L)\<^sup>*\<^sup>* d d'" and "wf_queue d"
  shows "wf_queue d' \<and> prefix (map dc_id (device_commands d)) (map dc_id (device_commands d'))
    \<and> (\<forall>c \<in> set (device_commands d). \<exists>c' \<in> set (device_commands d'). dc_id c' = dc_id c \<and> dc_device_id c' = dc_device_id c
         \<and> dc_command_type c' = dc_command_type c \<and> dc_payload c' = dc_payload c \<and> dc_created_at c' = dc_created_at c
         \<and> dc_incident_context_id c' = dc_incident_context_id c \<and> (dc_status c' = ''pending'' \<longrightarrow> dc_status c = ''pending''))"
proof -
  have e: "evolves d d'" using assms(1) by (rule queue_steps_evolve)
  have "\<exists>c' \<in> set (device_commands d'). dc_id c' = dc_id c \<and> dc_device_id c' = dc_device_id c
         \<and> dc_command_type c' = dc_command_type c \<and> dc_payload c' = dc_payload c \<and> dc_created_at c' = dc_created_at c
         \<and> dc_incident_context_id c' = dc_incident_context_id c \<and> (dc_status c' = ''pending'' \<longrightarrow> dc_status c = ''pending'')"
    if "c \<in> set (device_commands d)" for c
    using evolves_history [OF e that] by (auto simp: moves_on_def)
  with wf_queue_evolves [OF e assms(2)] evolves_ids_prefix [OF e] show ?thesis by blast
qed

definition exampleCommand :: "uuid \<Rightarrow> string \<Rightarrow> device_command" where
  "exampleCommand i status = \<lparr>dc_id = i, dc_device_id = 7, dc_command_type = ''ping'', dc_payload = '''', dc_status = status, dc_output = '''',
     dc_created_at = 0, dc_completed_at = Some 1, dc_incident_context_id = None\<rparr>"

definition exampleDevice :: asset where
  "exampleDevice = \<lparr>a_id = 7, a_human_id = ''dev-1'', a_display_name = None, a_hostname = None, a_cert_serial = Some ''42'', a_os_type = ''linux'',
     a_last_seen = None, a_metadata = JNull, a_updated_at = 0, a_operational_status = ''operational'', a_cost_center = '''', a_location = '''', a_compliance_status = ''compliant'',
     a_compliance_reason = '''', a_quarantine_enabled = False\<rparr>"

definition exampleQueue :: db where
  "exampleQueue = empty_db\<lparr>assets := [exampleDevice], device_commands := [exampleCommand 1 ''completed'', exampleCommand 2 ''pending''], uuid_next := 9\<rparr>"

lemma exampleQueue_wf: "wf_queue exampleQueue"
proof -
  have "wf_command (exampleCommand 1 ''completed'') \<and> wf_command (exampleCommand 2 ''pending'')"
    by (simp add: wf_command_def exampleCommand_def DeviceCommandTypes_def DeviceCommandStatuses_def payloadTypes_def)
  then show ?thesis
    by (simp add: wf_queue_def exampleQueue_def exampleDevice_def) (simp add: exampleCommand_def)
qed

theorem queue_run_invariant_witness:
  "wf_queue (snd (InsertDeviceCommand 7 '' Reboot '' '''' None (snd (MarkDeviceCommandSent 2 exampleQueue))))"
proof -
  have "(queue_step exampleLib)\<^sup>*\<^sup>* exampleQueue
      (snd (InsertDeviceCommand 7 '' Reboot '' '''' None (snd (MarkDeviceCommandSent 2 exampleQueue))))"
    by (meson step_insert step_sent rtranclp.rtrancl_into_rtrancl rtranclp.rtrancl_refl)
  then show ?thesis using queue_run_invariant exampleQueue_wf by blast
qed

definition newCommand :: "uuid \<Rightarrow> string \<Rightarrow> string \<Rightarrow> uuid option \<Rightarrow> db \<Rightarrow> device_command" where
  "newCommand dev t p inc d = \<lparr>dc_id = random_uuid d, dc_device_id = dev, dc_command_type = t, dc_payload = p, dc_status = ''pending'',
     dc_output = '''', dc_created_at = now d, dc_completed_at = None, dc_incident_context_id = inc\<rparr>"

lemma insertCommandRow_result:
  assumes "\<not> fault_at d (stmt_no d)" and "random_uuid d \<notin> dc_id ` set (device_commands d)"
  shows "fst (sql (insertCommandRow dev t p inc) d) = Inr c \<longleftrightarrow>
      dev \<in> a_id ` set (assets d) \<and> (\<forall>x. inc = Some x \<longrightarrow> x \<in> in_id ` set (incidents d)) \<and> c = newCommand dev t p inc d"
    and "fst (sql (insertCommandRow dev t p inc) d) = Inr c \<Longrightarrow> device_commands (snd (sql (insertCommandRow dev t p inc) d)) = device_commands d @ [c]"
  using assms
  by (auto simp: sql_def Let_def insertCommandRow_def random_uuid_def uuid_used_def newCommand_def split: option.splits if_splits)

lemma InsertDeviceCommand_result:
  "fst (InsertDeviceCommand dev ct pl inc d) = Inr c \<longleftrightarrow>
      TrimSpace (ToLower ct) \<in> set DeviceCommandTypes \<and> (TrimSpace pl \<noteq> '''' \<longleftrightarrow> TrimSpace (ToLower ct) \<in> set payloadTypes)
      \<and> (TrimSpace (ToLower ct) = ''quarantine'' \<longrightarrow> validateQuarantineCommandPayload (TrimSpace pl) = None)
      \<and> fst (sql (insertCommandRow dev (TrimSpace (ToLower ct)) (TrimSpace pl) inc) d) = Inr c"
  "fst (InsertDeviceCommand dev ct pl inc d) = Inr c \<Longrightarrow>
      snd (InsertDeviceCommand dev ct pl inc d) = snd (sql (insertCommandRow dev (TrimSpace (ToLower ct)) (TrimSpace pl) inc) d)"
proof -
  have m: "map_sum f (\<lambda>x. x) r = Inr c \<longleftrightarrow> r = Inr c" for f :: "sql_error \<Rightarrow> go_error" and r
    by (cases r) auto
  show "fst (InsertDeviceCommand dev ct pl inc d) = Inr c \<longleftrightarrow>
      TrimSpace (ToLower ct) \<in> set DeviceCommandTypes \<and> (TrimSpace pl \<noteq> '''' \<longleftrightarrow> TrimSpace (ToLower ct) \<in> set payloadTypes)
      \<and> (TrimSpace (ToLower ct) = ''quarantine'' \<longrightarrow> validateQuarantineCommandPayload (TrimSpace pl) = None)
      \<and> fst (sql (insertCommandRow dev (TrimSpace (ToLower ct)) (TrimSpace pl) inc) d) = Inr c"
    by (auto simp: InsertDeviceCommand_def Let_def validateDeviceCommandType_def m split: option.splits)
  show "fst (InsertDeviceCommand dev ct pl inc d) = Inr c \<Longrightarrow>
      snd (InsertDeviceCommand dev ct pl inc d) = snd (sql (insertCommandRow dev (TrimSpace (ToLower ct)) (TrimSpace pl) inc) d)"
    by (auto simp: InsertDeviceCommand_def Let_def validateDeviceCommandType_def split: option.splits if_splits)
qed

text \<open>Queueing a command succeeds exactly for a known type, a payload where the type takes one (valid
  for quarantine) and none elsewhere, an existing device and, if given, an existing incident; the new
  row is pending and last in the table.\<close>

theorem insert_command_accepted:
  assumes "\<not> fault_at d (stmt_no d)" and "random_uuid d \<notin> dc_id ` set (device_commands d)"
  shows "((\<exists>c. fst (InsertDeviceCommand dev ct pl inc d) = Inr c) \<longleftrightarrow>
      TrimSpace (ToLower ct) \<in> set DeviceCommandTypes \<and> (TrimSpace pl \<noteq> '''' \<longleftrightarrow> TrimSpace (ToLower ct) \<in> set payloadTypes)
      \<and> (TrimSpace (ToLower ct) = ''quarantine'' \<longrightarrow> validateQuarantineCommandPayload (TrimSpace pl) = None)
      \<and> dev \<in> a_id ` set (assets d) \<and> (\<forall>x. inc = Some x \<longrightarrow> x \<in> in_id ` set (incidents d)))
    \<and> (\<forall>c. fst (InsertDeviceCommand dev ct pl inc d) = Inr c \<longrightarrow>
         device_commands (snd (InsertDeviceCommand dev ct pl inc d)) = device_commands d @ [c]
         \<and> c = newCommand dev (TrimSpace (ToLower ct)) (TrimSpace pl) inc d)"
  using InsertDeviceCommand_result [of dev ct pl inc d] insertCommandRow_result [OF assms] by auto

theorem insert_command_accepted_witness:
  "\<exists>c. fst (InsertDeviceCommand 7 '' Reboot '' '''' None exampleQueue) = Inr c"
proof -
  have r: "TrimSpace (ToLower '' Reboot '') = ''reboot''" by code_simp
  have "\<not> fault_at exampleQueue (stmt_no exampleQueue)" "random_uuid exampleQueue \<notin> dc_id ` set (device_commands exampleQueue)"
    by (simp_all add: exampleQueue_def empty_db_def random_uuid_def exampleCommand_def)
  then show ?thesis
    using insert_command_accepted [of exampleQueue 7 "'' Reboot ''" "''''" None] r
    by (simp add: DeviceCommandTypes_def payloadTypes_def exampleQueue_def exampleDevice_def)
qed

text \<open>The agent's answer can be lost: marking a command as sent has no guard on its status, so when the
  result of the command arrives before \<open>MarkDeviceCommandSent\<close> runs, the finished row goes back to
  \<open>sent\<close> and its output is erased.\<close>

theorem mark_sent_erases_result:
  assumes "\<not> fault_at d (stmt_no d)" and "c \<in> set (device_commands d)" and "dc_status c = ''completed''"
  shows "c\<lparr>dc_status := ''sent'', dc_output := ''''\<rparr> \<in> set (device_commands (snd (MarkDeviceCommandSent (dc_id c) d)))
    \<and> fst (MarkDeviceCommandSent (dc_id c) d) = Inr ()
    \<and> (\<forall>x \<in> set (device_commands (snd (MarkDeviceCommandSent (dc_id c) d))). dc_id x = dc_id c \<longrightarrow> dc_status x = ''sent'' \<and> dc_output x = '''')"
proof -
  have "validateDeviceCommandStatus ''sent'' = None" by code_simp
  with assms show ?thesis
    by (auto simp: MarkDeviceCommandSent_def updateDeviceCommandStatus_def sql_def Let_def set_update_where)
qed

theorem mark_sent_erases_result_witness:
  "\<exists>c \<in> set (device_commands (snd (MarkDeviceCommandSent 1 exampleQueue))). dc_id c = 1 \<and> dc_status c = ''sent''"
proof -
  have q: "\<not> fault_at exampleQueue (stmt_no exampleQueue)" "exampleCommand 1 ''completed'' \<in> set (device_commands exampleQueue)"
    "dc_status (exampleCommand 1 ''completed'') = ''completed''" "dc_id (exampleCommand 1 ''completed'') = 1"
    by (simp_all add: exampleQueue_def empty_db_def exampleCommand_def)
  show ?thesis
    using mark_sent_erases_result [OF q(1-3)] unfolding q(4)
    by (intro bexI [of _ "(exampleCommand 1 ''completed'')\<lparr>dc_status := ''sent'', dc_output := ''''\<rparr>"]) (simp_all add: q(4))
qed

end
