(* ===== verification/Hub_Facts.thy ===== *)
theory Hub_Facts
  imports Hub
begin

text \<open>
  What the hubs guarantee. The interface \<open>C2Dispatcher\<close> that the compliance engine and the REST handlers
  call is the locale \<open>c2_dispatcher\<close>; \<open>Hub.DispatchJSON\<close> interprets it. Goroutines are interleaved
  in \<open>hub_step\<close>, where a dispatch is split between the lookup under the lock and the send; with
  \<open>strict\<close> a session is not closed while a dispatch holds it.
\<close>

section \<open>The dispatcher interface\<close>

text \<open>\<open>queued w s\<close> are the messages queued for the agent with serial \<open>s\<close>, \<open>live\<close> holds of the states the
  dispatcher can be in.\<close>

locale c2_dispatcher =
  fixes dispatch :: "string \<Rightarrow> json \<Rightarrow> 'w \<Rightarrow> bool \<times> 'w"
    and queued :: "'w \<Rightarrow> string \<Rightarrow> json list"
    and live :: "'w \<Rightarrow> bool"
  assumes dispatch_live: "live w \<Longrightarrow> live (snd (dispatch s m w))"
    and dispatch_queued: "live w \<Longrightarrow> dispatch s m w = (ok, w') \<Longrightarrow>
      queued w' t = queued w t @ (if ok \<and> t = TrimSpace s then [norm_json m] else [])"
    and dispatch_blank: "TrimSpace s = '''' \<Longrightarrow> \<not> fst (dispatch s m w)"
begin

lemma dispatch_accepted:
  assumes "live w" and "fst (dispatch s m w)"
  shows "norm_json m \<in> set (queued (snd (dispatch s m w)) (TrimSpace s))"
  using dispatch_queued [OF assms(1), of s m True "snd (dispatch s m w)" "TrimSpace s"] assms(2)
  by (cases "dispatch s m w") auto

lemma dispatch_keeps: "live w \<Longrightarrow> x \<in> set (queued w t) \<Longrightarrow> x \<in> set (queued (snd (dispatch s m w)) t)"
  using dispatch_queued [of w s m "fst (dispatch s m w)" "snd (dispatch s m w)" t] by simp

end

definition hub_queued :: "hub \<Rightarrow> string \<Rightarrow> json list" where
  "hub_queued h s = (case go_get (bySerial h) s of None \<Rightarrow> [] | Some i \<Rightarrow> as_send (sessions h ! i))"

text \<open>Distinct serials have distinct sessions: the index is in range and carries its serial.\<close>

definition wf_registry :: "hub \<Rightarrow> bool" where
  "wf_registry h \<longleftrightarrow> distinct (map fst (bySerial h))
     \<and> (\<forall>(s, i) \<in> set (bySerial h). i < length (sessions h) \<and> as_serial (sessions h ! i) = s \<and> \<not> as_closed (sessions h ! i))
     \<and> (\<forall>ses \<in> set (sessions h). length (as_send ses) \<le> outboundQueueDepth)"

lemma wf_registry_get:
  assumes "wf_registry h" and "go_get (bySerial h) s = Some i"
  shows "i < length (sessions h)" "as_serial (sessions h ! i) = s" "\<not> as_closed (sessions h ! i)"
  using assms map_of_SomeD [OF assms(2)] by (auto simp: wf_registry_def)

lemma wf_registry_inj:
  "wf_registry h \<Longrightarrow> go_get (bySerial h) s = Some i \<Longrightarrow> go_get (bySerial h) t = Some i \<Longrightarrow> s = t"
  using wf_registry_get(2) by blast

lemma wf_registry_NewHub [simp]: "wf_registry NewHub"
  by (simp add: wf_registry_def NewHub_def)

lemma sendTo_state:
  "snd (sendTo s m h) = h\<lparr>panicked := panicked h \<or> as_closed (sessions h ! s),
     sessions := (if fst (sendTo s m h) then (sessions h)[s := (sessions h ! s)\<lparr>as_send := as_send (sessions h ! s) @ [m]\<rparr>]
                  else sessions h)\<rparr>"
  by (simp add: sendTo_def Let_def)

text \<open>Changing only the queue of a session, within its capacity.\<close>

lemma wf_registry_queue:
  assumes "wf_registry h" and "length q \<le> outboundQueueDepth"
  shows "wf_registry (h\<lparr>sessions := (sessions h)[s := (sessions h ! s)\<lparr>as_send := q\<rparr>]\<rparr>)"
proof -
  have k: "as_serial ((sessions h)[s := (sessions h ! s)\<lparr>as_send := q\<rparr>] ! i) = as_serial (sessions h ! i)"
    "as_closed ((sessions h)[s := (sessions h ! s)\<lparr>as_send := q\<rparr>] ! i) = as_closed (sessions h ! i)"
    if "i < length (sessions h)" for i
    using that by (cases "s < length (sessions h)"; cases "i = s"; simp)+
  have "\<forall>ses \<in> set ((sessions h)[s := (sessions h ! s)\<lparr>as_send := q\<rparr>]). length (as_send ses) \<le> outboundQueueDepth"
    using assms set_update_subset_insert [of "sessions h" s] by (fastforce simp: wf_registry_def)
  with assms k show ?thesis by (auto simp: wf_registry_def)
qed

lemma wf_registry_panicked [simp]: "wf_registry (h\<lparr>panicked := b\<rparr>) = wf_registry h"
  by (simp add: wf_registry_def)

lemma wf_registry_sendTo: "wf_registry h \<Longrightarrow> wf_registry (snd (sendTo s m h))"
  using wf_registry_queue [of h "as_send (sessions h ! s) @ [m]" s]
  by (auto simp: sendTo_def Let_def)

lemma wf_registry_DispatchJSON: "wf_registry h \<Longrightarrow> wf_registry (snd (DispatchJSON s m h))"
  by (auto simp: DispatchJSON_def dispatchRaw_def Let_def wf_registry_sendTo split: option.splits)

lemma sendTo_queued:
  assumes "wf_registry h" and "go_get (bySerial h) s = Some i"
  shows "hub_queued (snd (sendTo i m h)) t
       = hub_queued h t @ (if fst (sendTo i m h) \<and> t = s then [m] else [])"
proof (cases "go_get (bySerial h) t")
  case None
  with assms show ?thesis by (auto simp: hub_queued_def sendTo_def Let_def)
next
  case (Some j)
  have "j = i \<longleftrightarrow> t = s" using wf_registry_inj [OF assms(1)] Some assms(2) by auto
  with Some wf_registry_get(1) [OF assms] show ?thesis
    by (auto simp: hub_queued_def sendTo_def Let_def nth_list_update)
qed

lemma DispatchJSON_queued:
  assumes "wf_registry h" and "DispatchJSON s m h = (ok, h')"
  shows "hub_queued h' t = hub_queued h t @ (if ok \<and> t = TrimSpace s then [norm_json m] else [])"
proof (cases "TrimSpace s = '''' \<or> go_get (bySerial h) (TrimSpace s) = None")
  case True
  with assms(2) have "ok = False \<and> h' = h"
    by (simp add: DispatchJSON_def dispatchRaw_def Let_def split: if_splits option.splits)
  then show ?thesis by simp
next
  case False
  then obtain i where i: "go_get (bySerial h) (TrimSpace s) = Some i" by auto
  with False assms(2) have "sendTo i (norm_json m) h = (ok, h')"
    by (simp add: DispatchJSON_def dispatchRaw_def Let_def)
  with sendTo_queued [OF assms(1) i, of "norm_json m" t] show ?thesis by simp
qed

interpretation hub: c2_dispatcher DispatchJSON hub_queued wf_registry
proof
  show "wf_registry w \<Longrightarrow> wf_registry (snd (DispatchJSON s m w))" for w s m
    by (rule wf_registry_DispatchJSON)
  show "wf_registry w \<Longrightarrow> DispatchJSON s m w = (ok, w') \<Longrightarrow>
      hub_queued w' t = hub_queued w t @ (if ok \<and> t = TrimSpace s then [norm_json m] else [])" for w s m ok w' t
    by (rule DispatchJSON_queued)
  show "TrimSpace s = '''' \<Longrightarrow> \<not> fst (DispatchJSON s m w)" for s m w
    by (simp add: DispatchJSON_def)
qed

section \<open>Interleaved dispatches\<close>

text \<open>\<open>inflight\<close> are the dispatches between their lookup and their send.\<close>

record hub_state =
  hs_hub :: hub
  hs_inflight :: "(nat \<times> json) list"

inductive hub_step :: "bool \<Rightarrow> hub_state \<Rightarrow> hub_state \<Rightarrow> bool" for strict where
  step_register: "hub_step strict st (st\<lparr>hs_hub := snd (hub_register serial (hs_hub st))\<rparr>)"
| step_unregister: "s < length (sessions (hs_hub st)) \<Longrightarrow> \<not> as_closed (sessions (hs_hub st) ! s) \<Longrightarrow>
    (strict \<Longrightarrow> s \<notin> fst ` set (hs_inflight st)) \<Longrightarrow>
    hub_step strict st (st\<lparr>hs_hub := hub_unregister s (hs_hub st)\<rparr>)"
| step_lookup: "go_get (bySerial (hs_hub st)) (TrimSpace serial) = Some s \<Longrightarrow>
    hub_step strict st (st\<lparr>hs_inflight := (s, norm_json m) # hs_inflight st\<rparr>)"
| step_send: "(s, m) \<in> set (hs_inflight st) \<Longrightarrow>
    hub_step strict st (st\<lparr>hs_hub := snd (sendTo s m (hs_hub st)), hs_inflight := remove1 (s, m) (hs_inflight st)\<rparr>)"
| step_pump: "s < length (sessions (hs_hub st)) \<Longrightarrow> hub_step strict st (st\<lparr>hs_hub := pump s (hs_hub st)\<rparr>)"

inductive_cases hub_stepE: "hub_step strict st st'"

definition hub_init :: hub_state where
  "hub_init = \<lparr>hs_hub = NewHub, hs_inflight = []\<rparr>"

lemma wf_registry_register: "wf_registry h \<Longrightarrow> wf_registry (snd (hub_register serial h))"
proof -
  assume wf: "wf_registry h"
  let ?ss = "case go_get (bySerial h) serial of None \<Rightarrow> sessions h
      | Some prev \<Rightarrow> (sessions h)[prev := (sessions h ! prev)\<lparr>as_conn_open := False\<rparr>]"
  have len: "length ?ss = length (sessions h)" by (simp split: option.splits)
  have keep: "as_serial (?ss ! i) = as_serial (sessions h ! i) \<and> as_closed (?ss ! i) = as_closed (sessions h ! i)
      \<and> as_send (?ss ! i) = as_send (sessions h ! i)" if "i < length (sessions h)" for i
    using that wf_registry_get(1) [OF wf] by (auto simp: nth_list_update split: option.splits)
  have q: "\<forall>ses \<in> set ?ss. length (as_send ses) \<le> outboundQueueDepth"
    using wf keep len by (auto simp: wf_registry_def in_set_conv_nth) (metis nth_mem)
  have entries: "s = serial \<and> i = length (sessions h) \<or> s \<noteq> serial \<and> (s, i) \<in> set (bySerial h)"
    if "(s, i) \<in> set (go_put serial (length (sessions h)) (bySerial h))" for s i
    using that wf by (auto simp: wf_registry_def set_go_put split: if_splits)
  show ?thesis
    using wf entries keep len q
    by (fastforce simp: wf_registry_def hub_register_def Let_def distinct_update nth_append)
qed

lemma wf_registry_unregister:
  assumes "wf_registry h" and "s < length (sessions h)"
  shows "wf_registry (hub_unregister s h)"
proof -
  let ?ses = "sessions h ! s"
  let ?ss = "(sessions h)[s := ?ses\<lparr>as_closed := True\<rparr>]"
  have keep: "as_serial (?ss ! i) = as_serial (sessions h ! i) \<and> (i \<noteq> s \<longrightarrow> ?ss ! i = sessions h ! i)"
    if "i < length (sessions h)" for i
    using that assms(2) by (auto simp: nth_list_update)
  have q: "\<forall>ses \<in> set ?ss. length (as_send ses) \<le> outboundQueueDepth"
    using assms set_update_subset_insert [of "sessions h" s] nth_mem [OF assms(2)] by (fastforce simp: wf_registry_def)
  have other: "i \<noteq> s" if "(t, i) \<in> set (bySerial (hub_unregister s h))" for t i
    using that assms(1) by (auto simp: hub_unregister_def Let_def wf_registry_def set_go_delete split: if_splits)
  have sub: "(t, i) \<in> set (bySerial h)" if "(t, i) \<in> set (bySerial (hub_unregister s h))" for t i
    using that by (auto simp: hub_unregister_def Let_def set_go_delete split: if_splits)
  have "distinct (map fst (bySerial (hub_unregister s h)))"
    using assms(1) by (auto simp: hub_unregister_def Let_def wf_registry_def distinct_delete)
  moreover have "i < length ?ss \<and> as_serial (?ss ! i) = t \<and> \<not> as_closed (?ss ! i)"
    if "(t, i) \<in> set (bySerial (hub_unregister s h))" for t i
    using sub [OF that] other [OF that] keep assms(1) by (auto simp: wf_registry_def)
  ultimately show ?thesis using q by (auto simp: wf_registry_def hub_unregister_def Let_def)
qed

lemma wf_registry_pump: "wf_registry h \<Longrightarrow> s < length (sessions h) \<Longrightarrow> wf_registry (pump s h)"
  unfolding pump_def
proof (rule wf_registry_queue)
  assume "wf_registry h" and "s < length (sessions h)"
  then have "length (as_send (sessions h ! s)) \<le> outboundQueueDepth" by (simp add: wf_registry_def)
  then show "length (tl (as_send (sessions h ! s))) \<le> outboundQueueDepth" by simp
qed

text \<open>The invariant of all interleavings, and the one that holds when sessions are closed only between
  dispatches.\<close>

definition inflight_open :: "hub_state \<Rightarrow> bool" where
  "inflight_open st \<longleftrightarrow> (\<forall>(s, m) \<in> set (hs_inflight st).
     s < length (sessions (hs_hub st)) \<and> \<not> as_closed (sessions (hs_hub st) ! s))"

lemma hub_step_wf: "hub_step strict st st' \<Longrightarrow> wf_registry (hs_hub st) \<Longrightarrow> wf_registry (hs_hub st')"
  by (induction rule: hub_step.induct)
    (auto simp: wf_registry_register wf_registry_unregister wf_registry_sendTo wf_registry_pump)

lemma register_closed:
  assumes "s < length (sessions h)" and "wf_registry h"
  shows "as_closed (sessions (snd (hub_register serial h)) ! s) = as_closed (sessions h ! s)"
    and "s < length (sessions (snd (hub_register serial h)))"
proof -
  show "s < length (sessions (snd (hub_register serial h)))"
    using assms(1) by (simp add: hub_register_def Let_def split: option.splits)
  show "as_closed (sessions (snd (hub_register serial h)) ! s) = as_closed (sessions h ! s)"
  proof (cases "go_get (bySerial h) serial")
    case None
    with assms(1) show ?thesis by (simp add: hub_register_def Let_def nth_append)
  next
    case (Some p)
    with assms wf_registry_get(1) [OF assms(2) Some] show ?thesis
      by (cases "p = s") (simp_all add: hub_register_def Let_def nth_append)
  qed
qed

lemma queue_update_closed: "as_closed (ss[s := (ss ! s)\<lparr>as_send := q\<rparr>] ! i) = as_closed (ss ! i)"
  by (cases "s < length ss"; cases "s = i") (simp_all add: list_update_beyond)

lemma sendTo_closed:
  "as_closed (sessions (snd (sendTo s m h)) ! i) = as_closed (sessions h ! i)
     \<and> length (sessions (snd (sendTo s m h))) = length (sessions h)"
  by (simp add: sendTo_def Let_def queue_update_closed)

lemma pump_closed: "as_closed (sessions (pump s h) ! i) = as_closed (sessions h ! i) \<and> length (sessions (pump s h)) = length (sessions h)"
  by (simp add: pump_def queue_update_closed)

lemma unregister_closed:
  "i \<noteq> s \<Longrightarrow> as_closed (sessions (hub_unregister s h) ! i) = as_closed (sessions h ! i)"
  "length (sessions (hub_unregister s h)) = length (sessions h)"
  by (simp_all add: hub_unregister_def Let_def)

lemma strict_step_open:
  assumes "hub_step True st st'" and "wf_registry (hs_hub st)" and "inflight_open st" and "\<not> panicked (hs_hub st)"
  shows "inflight_open st' \<and> \<not> panicked (hs_hub st')"
  using assms(1)
proof (cases rule: hub_step.cases)
  case (step_register serial)
  have "\<not> panicked (snd (hub_register serial (hs_hub st)))"
    using assms(4) by (simp add: hub_register_def Let_def)
  with step_register assms(2,3) show ?thesis by (auto simp: inflight_open_def register_closed)
next
  case (step_unregister s)
  then have "i \<noteq> s" if "(i, m) \<in> set (hs_inflight st)" for i m using that by force
  moreover have "\<not> panicked (hub_unregister s (hs_hub st))"
    using step_unregister assms(4) by (simp add: hub_unregister_def Let_def)
  ultimately show ?thesis
    using step_unregister(1) assms(3) by (auto simp: inflight_open_def unregister_closed)
next
  case (step_lookup serial s m)
  with assms show ?thesis by (auto simp: inflight_open_def dest: wf_registry_get)
next
  case (step_send s m)
  with assms(3) have "\<not> as_closed (sessions (hs_hub st) ! s)" by (auto simp: inflight_open_def)
  then have "\<not> panicked (snd (sendTo s m (hs_hub st)))" using assms(4) by (simp add: sendTo_def Let_def)
  with step_send(1) assms(3) show ?thesis
    by (auto simp: inflight_open_def sendTo_closed dest: set_mp [OF set_remove1_subset])
next
  case (step_pump s)
  have "\<not> panicked (pump s (hs_hub st))" using assms(4) by (simp add: pump_def)
  with step_pump(1) assms(3) show ?thesis by (auto simp: inflight_open_def pump_closed)
qed

section \<open>Properties of the agent hub\<close>

text \<open>C32: a dispatch reaches exactly the agent it names. \<open>DispatchJSON\<close> succeeds exactly when the trimmed
  serial is not empty, has a session, and that session's queue holds fewer than 32 messages; then the
  message, in canonical form, is the last of that agent's queue and no other queue changed; otherwise
  no queue changed. Run without interleaving it never panics.\<close>

theorem dispatch_reaches_agent:
  assumes "wf_registry h" and "DispatchJSON s m h = (ok, h')"
  shows "ok = (TrimSpace s \<noteq> '''' \<and> (\<exists>i. go_get (bySerial h) (TrimSpace s) = Some i
                  \<and> length (as_send (sessions h ! i)) < outboundQueueDepth))
    \<and> (\<forall>t. hub_queued h' t = hub_queued h t @ (if ok \<and> t = TrimSpace s then [norm_json m] else []))
    \<and> panicked h' = panicked h"
proof -
  have "ok = (TrimSpace s \<noteq> '''' \<and> (\<exists>i. go_get (bySerial h) (TrimSpace s) = Some i
                  \<and> length (as_send (sessions h ! i)) < outboundQueueDepth)) \<and> panicked h' = panicked h"
    using assms wf_registry_get(3) [OF assms(1)]
    by (auto simp: DispatchJSON_def dispatchRaw_def Let_def sendTo_def split: if_splits option.splits)
  with DispatchJSON_queued [OF assms] show ?thesis by simp
qed

definition exampleHub :: hub where
  "exampleHub = snd (hub_register ''7'' NewHub)"

theorem dispatch_reaches_agent_witness:
  "hub_queued (snd (DispatchJSON '' 7 '' (JStr ''x'') exampleHub)) ''7'' = [JStr ''x'']"
proof -
  have wf: "wf_registry exampleHub" unfolding exampleHub_def by (rule wf_registry_register) simp
  have ev: "DispatchJSON '' 7 '' (JStr ''x'') exampleHub = (True, snd (DispatchJSON '' 7 '' (JStr ''x'') exampleHub))"
    "TrimSpace '' 7 '' = ''7''" "hub_queued exampleHub ''7'' = []"
    by (simp_all add: exampleHub_def hub_register_def NewHub_def DispatchJSON_def dispatchRaw_def sendTo_def Let_def
        outboundQueueDepth_def TrimSpace_def is_space_def hub_queued_def)
  from dispatch_reaches_agent [OF wf ev(1)] ev show ?thesis by simp
qed

text \<open>When an agent reconnects, its new session replaces the old one, whose connection is closed, and the
  late \<open>unregister\<close> of the old session leaves the new one registered and open.\<close>

theorem reconnect_keeps_new_session:
  assumes "wf_registry h" and "go_get (bySerial h) serial = Some old"
    and "hub_register serial h = (new, h1)"
  shows "go_get (bySerial (hub_unregister old h1)) serial = Some new
    \<and> \<not> as_closed (sessions (hub_unregister old h1) ! new) \<and> \<not> as_conn_open (sessions h1 ! old)
    \<and> panicked (hub_unregister old h1) = panicked h"
proof -
  note old = wf_registry_get [OF assms(1,2)]
  have h1: "new = length (sessions h)" "sessions h1 ! new = \<lparr>as_serial = serial, as_send = [], as_closed = False, as_conn_open = True\<rparr>"
    "sessions h1 ! old = (sessions h ! old)\<lparr>as_conn_open := False\<rparr>" "go_get (bySerial h1) serial = Some new"
    "length (sessions h1) = Suc (length (sessions h))" "panicked h1 = panicked h"
    using assms(2,3) old(1) by (auto simp: hub_register_def Let_def nth_append update_conv')
  with old show ?thesis by (simp add: hub_unregister_def Let_def)
qed

theorem reconnect_keeps_new_session_witness:
  "go_get (bySerial (hub_unregister 0 (snd (hub_register ''7'' exampleHub)))) ''7'' = Some 1"
proof -
  have wf: "wf_registry exampleHub" unfolding exampleHub_def by (rule wf_registry_register) simp
  have ev: "go_get (bySerial exampleHub) ''7'' = Some 0" "hub_register ''7'' exampleHub = (1, snd (hub_register ''7'' exampleHub))"
    by (simp_all add: exampleHub_def hub_register_def NewHub_def Let_def)
  from reconnect_keeps_new_session [OF wf ev] show ?thesis by simp
qed

text \<open>C33: whatever the interleaving of registrations, disconnects and dispatches, the registry maps each
  serial to an open session of that serial and no queue exceeds its capacity; if sessions are closed
  only while no dispatch holds them, no send on a closed channel happens.\<close>

theorem hub_interleaving_safe:
  assumes "(hub_step strict)\<^sup>*\<^sup>* hub_init st"
  shows "wf_registry (hs_hub st) \<and> (strict \<longrightarrow> \<not> panicked (hs_hub st))"
  using assms
proof -
  have "wf_registry (hs_hub st) \<and> (strict \<longrightarrow> inflight_open st \<and> \<not> panicked (hs_hub st))"
    using assms
  proof (induction rule: rtranclp_induct)
    case base
    then show ?case by (simp add: hub_init_def inflight_open_def) (simp add: NewHub_def)
  next
    case (step st st')
    then show ?case using hub_step_wf [OF step.hyps(2)] strict_step_open [of st st'] by auto
  qed
  then show ?thesis by blast
qed

theorem hub_interleaving_safe_witness:
  "wf_registry (hs_hub (hub_init\<lparr>hs_hub := exampleHub\<rparr>)) \<and> \<not> panicked (hs_hub (hub_init\<lparr>hs_hub := exampleHub\<rparr>))"
proof -
  have "hub_step True hub_init (hub_init\<lparr>hs_hub := snd (hub_register ''7'' (hs_hub hub_init))\<rparr>)"
    by (rule hub_step.step_register)
  then have "(hub_step True)\<^sup>*\<^sup>* hub_init (hub_init\<lparr>hs_hub := exampleHub\<rparr>)"
    by (simp add: hub_init_def exampleHub_def)
  from hub_interleaving_safe [OF this] show ?thesis by simp
qed

text \<open>The hub does not enforce that condition: an agent that disconnects between the lookup and the
  send of a dispatch makes the dispatching goroutine send on a closed channel, which panics.\<close>

theorem hub_panic_reachable:
  "\<exists>st. (hub_step False)\<^sup>*\<^sup>* hub_init st \<and> panicked (hs_hub st)"
proof -
  let ?s1 = "hub_init\<lparr>hs_hub := snd (hub_register ''7'' (hs_hub hub_init))\<rparr>"
  let ?s2 = "?s1\<lparr>hs_inflight := (0, norm_json JNull) # hs_inflight ?s1\<rparr>"
  let ?s3 = "?s2\<lparr>hs_hub := hub_unregister 0 (hs_hub ?s2)\<rparr>"
  let ?s4 = "?s3\<lparr>hs_hub := snd (sendTo 0 JNull (hs_hub ?s3)), hs_inflight := remove1 (0, JNull) (hs_inflight ?s3)\<rparr>"
  have "hub_step False hub_init ?s1" by (rule hub_step.step_register)
  moreover have "hub_step False ?s1 ?s2"
    by (rule hub_step.step_lookup [where serial = "''7''"])
      (simp add: hub_init_def NewHub_def hub_register_def TrimSpace_def is_space_def)
  moreover have "hub_step False ?s2 ?s3"
    by (rule hub_step.step_unregister) (simp_all add: hub_init_def NewHub_def hub_register_def)
  moreover have "hub_step False ?s3 ?s4" by (rule hub_step.step_send) simp
  ultimately have "(hub_step False)\<^sup>*\<^sup>* hub_init ?s4" by (meson converse_rtranclp_into_rtranclp rtranclp.rtrancl_refl)
  moreover have "panicked (hs_hub ?s4)"
    by (simp add: hub_init_def NewHub_def hub_register_def hub_unregister_def sendTo_def Let_def)
  ultimately show ?thesis by blast
qed

section \<open>Properties of the dashboard fan-out and of file downloads\<close>

definition wf_dash :: "DashboardHub \<Rightarrow> bool" where
  "wf_dash h \<longleftrightarrow> distinct (clients h)
     \<and> (\<forall>c \<in> set (clients h). c < length (clientTable h) \<and> \<not> cl_closed (clientTable h ! c))"

lemma fold_offer:
  assumes "distinct cs" and "\<forall>c \<in> set cs. c < length (clientTable h) \<and> \<not> cl_closed (clientTable h ! c)"
  shows "clients (fold (offer m) cs h) = clients h \<and> dash_panicked (fold (offer m) cs h) = dash_panicked h
    \<and> length (clientTable (fold (offer m) cs h)) = length (clientTable h)
    \<and> (\<forall>c < length (clientTable h). clientTable (fold (offer m) cs h) ! c =
         (if c \<in> set cs then (clientTable h ! c)\<lparr>cl_send := trySend dashOutboundQueueDepth m (cl_send (clientTable h ! c))\<rparr>
          else clientTable h ! c))"
  using assms
proof (induction cs arbitrary: h)
  case (Cons c cs)
  have o: "clients (offer m c h) = clients h" "dash_panicked (offer m c h) = dash_panicked h"
    "length (clientTable (offer m c h)) = length (clientTable h)"
    "\<And>i. i < length (clientTable h) \<Longrightarrow> clientTable (offer m c h) ! i =
      (if i = c then (clientTable h ! c)\<lparr>cl_send := trySend dashOutboundQueueDepth m (cl_send (clientTable h ! c))\<rparr> else clientTable h ! i)"
    using Cons.prems by (auto simp: offer_def nth_list_update)
  have "\<forall>x \<in> set cs. x < length (clientTable (offer m c h)) \<and> \<not> cl_closed (clientTable (offer m c h) ! x)"
    using Cons.prems by (auto simp: o)
  with Cons.IH [of "offer m c h"] Cons.prems o show ?case by auto
qed simp

text \<open>A broadcast offers the message once to every connected dashboard client: it is appended to the
  client's queue unless 64 messages wait there, in which case that client misses it; no other client
  changes, and since disconnecting removes the client under the lock before its channel is closed, a
  broadcast never sends on a closed channel.\<close>

theorem broadcast_reaches_clients:
  assumes "wf_dash h"
  shows "wf_dash (Broadcast m h) \<and> dash_panicked (Broadcast m h) = dash_panicked h
    \<and> (\<forall>c < length (clientTable h). cl_send (clientTable (Broadcast m h) ! c) =
         (if c \<in> set (clients h) \<and> length (cl_send (clientTable h ! c)) < dashOutboundQueueDepth
          then cl_send (clientTable h ! c) @ [m] else cl_send (clientTable h ! c)))
    \<and> wf_dash (snd (dash_register h)) \<and> (\<forall>c \<in> set (clients h). wf_dash (dash_unregister c h))"
proof -
  have "distinct (clients h)" and open_h: "\<forall>c \<in> set (clients h). c < length (clientTable h) \<and> \<not> cl_closed (clientTable h ! c)"
    using assms by (auto simp: wf_dash_def)
  note f = fold_offer [OF this, of m]
  have u: "wf_dash (dash_unregister c h)" for c
    using assms by (auto simp: wf_dash_def dash_unregister_def nth_list_update distinct_removeAll)
  have r: "wf_dash (snd (dash_register h))"
    using assms by (fastforce simp: wf_dash_def dash_register_def Let_def nth_append)
  have "wf_dash (Broadcast m h)" using f assms by (auto simp: Broadcast_def wf_dash_def)
  with f u r show ?thesis by (auto simp: Broadcast_def trySend_def)
qed

theorem broadcast_reaches_clients_witness:
  "cl_send (clientTable (Broadcast (JStr ''x'') (snd (dash_register NewDashboardHub))) ! 0) = [JStr ''x'']"
proof -
  let ?h = "snd (dash_register NewDashboardHub)"
  have "wf_dash ?h" by (simp add: wf_dash_def dash_register_def NewDashboardHub_def)
  from broadcast_reaches_clients [OF this, of "JStr ''x''"] show ?thesis
    by (simp add: dash_register_def NewDashboardHub_def dashOutboundQueueDepth_def)
qed

lemma fold_trySend: "length ch \<le> cap \<Longrightarrow> fold (trySend cap) vs ch = ch @ take (cap - length ch) vs"
proof (induction vs arbitrary: ch)
  case (Cons v vs)
  then show ?case by (cases "length ch < cap") (auto simp: trySend_def take_Cons' Suc_diff_Suc)
qed simp

lemma fold_trySendFSDownload:
  "c < length (downChans h) \<Longrightarrow> downChans (fold (trySendFSDownload c) vs h) ! c = fold (trySend downCap) vs (downChans h ! c)"
  by (induction vs arbitrary: h) (simp_all add: trySendFSDownload_def)

lemma downloadLoop_data:
  "list_all (\<lambda>c. fc_Err c = '''' \<and> \<not> fc_EOF c) cs \<Longrightarrow> downloadLoop cs = (concat (map fc_Data cs), False)"
  by (induction cs) auto

lemma downloadLoop_complete:
  "list_all (\<lambda>c. fc_Err c = '''' \<and> \<not> fc_EOF c) cs \<Longrightarrow> fc_Err e = '''' \<Longrightarrow> fc_EOF e \<Longrightarrow>
     downloadLoop (cs @ [e]) = (concat (map fc_Data cs) @ fc_Data e, True)"
  by (induction cs) auto

text \<open>A download whose chunks all fit the waiter's channel reaches the client complete, but when the
  agent is more than eight chunks ahead of the HTTP writer the surplus chunks are dropped without
  notice: the client gets the first eight, and the loop still waits for an end that was lost.\<close>

theorem download_chunks_lost:
  assumes "c < length (downChans h)" and "downChans h ! c = []"
    and "list_all (\<lambda>v. fc_Err v = '''' \<and> \<not> fc_EOF v) vs" and "fc_Err e = ''''" and "fc_EOF e"
  shows "downloadLoop (downChans (fold (trySendFSDownload c) (vs @ [e]) h) ! c) =
    (if length vs < 8 then (concat (map fc_Data vs) @ fc_Data e, True) else (concat (map fc_Data (take 8 vs)), False))"
proof (cases "length vs < 8")
  case True
  then have "fold (trySend downCap) (vs @ [e]) [] = vs @ [e]"
    using fold_trySend [of "[]" downCap "vs @ [e]"] by (simp add: downCap_def)
  with True downloadLoop_complete [OF assms(3-5)] fold_trySendFSDownload [OF assms(1)] assms(2)
  show ?thesis by (simp del: fold_append)
next
  case False
  then have "fold (trySend downCap) (vs @ [e]) [] = take 8 vs"
    using fold_trySend [of "[]" downCap "vs @ [e]"] by (simp add: downCap_def)
  moreover have "list_all (\<lambda>v. fc_Err v = '''' \<and> \<not> fc_EOF v) (take 8 vs)"
    using assms(3) by (auto simp: list_all_iff dest: in_set_takeD)
  ultimately show ?thesis
    using False downloadLoop_data fold_trySendFSDownload [OF assms(1)] assms(2) by (simp del: fold_append)
qed

theorem download_chunks_lost_witness:
  "downloadLoop (downChans (fold (trySendFSDownload 0)
      (replicate 9 \<lparr>fc_Data = ''ab'', fc_EOF = False, fc_Err = ''''\<rparr> @ [\<lparr>fc_Data = ''cd'', fc_EOF = True, fc_Err = ''''\<rparr>])
      (snd (RegisterFSDownloadWaiter ''7'' ''r'' NewHub))) ! 0)
    = (concat (replicate 8 ''ab''), False)"
  using download_chunks_lost [of 0 "snd (RegisterFSDownloadWaiter ''7'' ''r'' NewHub)"
      "replicate 9 \<lparr>fc_Data = ''ab'', fc_EOF = False, fc_Err = ''''\<rparr>"
      "\<lparr>fc_Data = ''cd'', fc_EOF = True, fc_Err = ''''\<rparr>"]
  by (simp add: map_replicate_const list_all_iff RegisterFSDownloadWaiter_def NewHub_def del: fold_append)

end
