(* ===== verification/Compliance_Facts.thy ===== *)
theory Compliance_Facts
  imports Compliance Json_Roundtrip Commands_Facts Hub_Facts
begin

text \<open>
  What the compliance engine guarantees: the payload of a quarantine command reads back as it was
  meant, an evaluation stores the verdict and queues at most one quarantine command, only on the
  transition to non-compliance, and reconciliation of assignment states is exact and atomic.
\<close>

section \<open>The quarantine payload\<close>

lemma quarantinePort_range: "0 < quarantinePort L \<and> quarantinePort L < 2 ^ 16"
  by (simp add: quarantinePort_def split: option.splits)

definition quarantineHostsJson :: "lib \<Rightarrow> json" where
  "quarantineHostsJson L = (if quarantineHosts L = [] then JNull else JArr (map JStr (quarantineHosts L)))"

definition quarantineFields :: "lib \<Rightarrow> bool \<Rightarrow> json_object" where
  "quarantineFields L b = [(''enabled'', JBool b), (''allow_hosts'', quarantineHostsJson L),
     (''allow_ports'', JArr [JNum (of_nat (quarantinePort L))])]"

lemma parse_value_hosts:
  assumes "length (quarantineHosts L) < n"
  shows "parse_value (Suc n) (marshal (j_num L) (quarantineHostsJson L) @ r) = Some (quarantineHostsJson L, r)"
  using parse_value_strings [OF assms] by (simp add: quarantineHostsJson_def)

lemma parse_value_ports:
  "parse_value (Suc (Suc (Suc n))) (CHR ''['' # nat_str (quarantinePort L) @ CHR '']'' # r)
   = Some (JArr [JNum (of_nat (quarantinePort L))], r)"
proof -
  obtain c cs where c: "nat_str (quarantinePort L) = c # cs" "is_digit c" by (rule nat_str_Cons)
  have s: "\<not> json_space c" "c \<noteq> CHR '']''" "\<not> json_space (CHR '']'')" using c(2) by (auto simp: json_space_def is_digit_def)
  have "parse_value (Suc n) (c # cs @ CHR '']'' # r) = Some (JNum (of_nat (quarantinePort L)), CHR '']'' # r)"
    using parse_value_nat_str [of "quarantinePort L" "CHR '']''" n r] quarantinePort_range [of L] by (simp add: c(1))
  then have "parse_elems (Suc (Suc n)) (c # cs @ CHR '']'' # r) = Some ([JNum (of_nat (quarantinePort L))], r)"
    by (subst parse_elems.simps(2)) (simp add: s(3))
  with s(1,2) show ?thesis by (subst parse_value.simps(2)) (simp add: c(1))
qed

lemma parse_members_quarantine:
  assumes "length (quarantineHosts L) < n"
  shows "parse_members (Suc (Suc (Suc (Suc (Suc (Suc n))))))
      (tl (BuildQuarantinePayloadJSON L b)) = Some (quarantineFields L b, [])"
proof -
  let ?ports = "CHR ''['' # nat_str (quarantinePort L) @ '']}''"
  let ?h = "marshal (j_num L) (quarantineHostsJson L)"
  let ?p3 = "json_quote ''allow_ports'' @ CHR '':'' # ?ports"
  let ?p2 = "json_quote ''allow_hosts'' @ CHR '':'' # ?h @ CHR '','' # ?p3"
  let ?p1 = "json_quote ''enabled'' @ CHR '':'' # marshal (j_num L) (JBool b) @ CHR '','' # ?p2"
  have tl_eq: "tl (BuildQuarantinePayloadJSON L b) = ?p1"
    by (simp add: BuildQuarantinePayloadJSON_def quarantineHostsJson_def)
  have v3: "parse_value (Suc (Suc (Suc n))) (skip ?ports) = Some (JArr [JNum (of_nat (quarantinePort L))], CHR ''}'' # [])"
    using parse_value_ports [of n L "''}''"] by (simp add: json_space_def)
  have m3: "parse_members (Suc (Suc (Suc (Suc n)))) ?p3 = Some ([(''allow_ports'', JArr [JNum (of_nat (quarantinePort L))])], [])"
    using parse_members_step [OF v3, of "''allow_ports''"] by simp
  have sk: "skip (?h @ x) = ?h @ x" for x
    by (simp add: quarantineHostsJson_def json_space_def)
  have v2: "parse_value (Suc (Suc (Suc (Suc n)))) (skip (?h @ CHR '','' # ?p3)) = Some (quarantineHostsJson L, CHR '','' # ?p3)"
    unfolding sk by (rule parse_value_hosts) (use assms in simp)
  have m2: "parse_members (Suc (Suc (Suc (Suc (Suc n))))) ?p2
      = Some ([(''allow_hosts'', quarantineHostsJson L), (''allow_ports'', JArr [JNum (of_nat (quarantinePort L))])], [])"
    using parse_members_step [OF v2, of "''allow_hosts''"] m3 by simp
  have v1: "parse_value (Suc (Suc (Suc (Suc (Suc n))))) (skip (marshal (j_num L) (JBool b) @ CHR '','' # ?p2)) = Some (JBool b, CHR '','' # ?p2)"
    by (cases b) (simp_all add: json_space_def)
  show ?thesis unfolding tl_eq quarantineFields_def
    using parse_members_step [OF v1, of "''enabled''"] m2 by simp
qed

lemma length_hosts_Join: "length hs \<le> length (Join (map json_quote hs) s)"
proof (induction hs)
  case (Cons h hs)
  then show ?case by (cases hs) (simp_all add: json_quote_def)
qed simp

lemma quarantine_payload_length: "length (quarantineHosts L) + 6 < length (BuildQuarantinePayloadJSON L b)"
proof -
  have m: "map (marshal (j_num L)) (map JStr (quarantineHosts L)) = map json_quote (quarantineHosts L)" by simp
  have "length (quarantineHosts L) \<le> length (marshal (j_num L) (quarantineHostsJson L))"
    using length_hosts_Join [of "quarantineHosts L" "'',''"] unfolding quarantineHostsJson_def by (auto simp: m simp del: map_map)
  then show ?thesis unfolding BuildQuarantinePayloadJSON_def quarantineHostsJson_def [symmetric] by (simp add: json_quote_def)
qed

lemma quarantine_payload_decode:
  "json_decode (BuildQuarantinePayloadJSON L b) = RawDoc (JObj (quarantineFields L b))"
proof -
  let ?s = "BuildQuarantinePayloadJSON L b"
  obtain t where t: "?s = CHR ''{'' # CHR 0x22 # t" by (simp add: BuildQuarantinePayloadJSON_def json_quote_def)
  define n where "n = 2 * length ?s + 2 - 7"
  have f: "2 * length ?s + 2 = Suc (Suc (Suc (Suc (Suc (Suc (Suc n))))))" "length (quarantineHosts L) < n"
    using quarantine_payload_length [of L b] by (auto simp: n_def)
  have "parse_members (Suc (Suc (Suc (Suc (Suc (Suc n)))))) (CHR 0x22 # t) = Some (quarantineFields L b, [])"
    using parse_members_quarantine [OF f(2), of b] by (simp add: t)
  moreover have "fold (\<lambda>kv. go_put (fst kv) (snd kv)) (quarantineFields L b) [] = quarantineFields L b"
    by (simp add: quarantineFields_def)
  ultimately have "parse_value (2 * length ?s + 2) ?s = Some (JObj (quarantineFields L b), [])"
    unfolding f(1) by (subst parse_value.simps(2)) (simp add: t json_space_def)
  moreover have "skip ?s = ?s" by (simp add: t json_space_def)
  ultimately show ?thesis using t by (simp add: json_decode_def)
qed

lemma quarantine_payload_trim: "TrimSpace (BuildQuarantinePayloadJSON L b) = BuildQuarantinePayloadJSON L b"
proof (rule TrimSpace_id)
  have l: "last (x @ nat_str p @ '']}'') = CHR ''}''" for x p by simp
  show "BuildQuarantinePayloadJSON L b \<noteq> []" "\<not> is_space (hd (BuildQuarantinePayloadJSON L b))"
    by (simp_all add: BuildQuarantinePayloadJSON_def is_space_def)
  show "\<not> is_space (last (BuildQuarantinePayloadJSON L b))"
    by (simp add: BuildQuarantinePayloadJSON_def is_space_def)
qed

lemma quarantine_enabled_field: "get_bool ''enabled'' (quarantineFields L b) = Some b"
proof -
  have "\<not> EqualFold ''allow_hosts'' ''enabled''" "\<not> EqualFold ''allow_ports'' ''enabled''" "EqualFold ''enabled'' ''enabled''"
    by code_simp+
  then show ?thesis by (simp add: get_bool_def struct_get_def quarantineFields_def)
qed

lemma quarantine_payload_valid: "validateQuarantineCommandPayload (BuildQuarantinePayloadJSON L b) = None"
  by (simp add: validateQuarantineCommandPayload_def quarantine_payload_decode struct_object_def quarantine_enabled_field)

section \<open>Assignment states\<close>

definition reconciled :: "uuid \<Rightarrow> string \<Rightarrow> uuid set \<Rightarrow> db \<Rightarrow> profile_assignment list" where
  "reconciled assetID platform ids d =
     map (\<lambda>pa. if scopedAssignment assetID platform d pa
               then pa\<lparr>pa_assignment_state := (if pa_profile_id pa \<in> ids then ''conflict'' else ''ok'')\<rparr> else pa)
       (profile_assignments d)"

lemma scopedAssignment_state [simp]:
  "scopedAssignment i p d (pa\<lparr>pa_assignment_state := s\<rparr>) = scopedAssignment i p d pa"
  by (simp add: scopedAssignment_def assignedTo_def)

lemma scopedAssignment_db [simp]:
  "scopedAssignment i p (d\<lparr>stmt_no := n, profile_assignments := x\<rparr>) = scopedAssignment i p d"
  "scopedAssignment i p (d\<lparr>profile_assignments := x\<rparr>) = scopedAssignment i p d"
  "scopedAssignment i p (d\<lparr>stmt_no := n\<rparr>) = scopedAssignment i p d"
  by (simp_all add: scopedAssignment_def assignedTo_def fun_eq_iff)

lemma reconciled_stmt [simp]: "reconciled i p ids (d\<lparr>stmt_no := n\<rparr>) = reconciled i p ids d"
  by (simp add: reconciled_def)

lemma reconciled_two_steps:
  "update_where (\<lambda>pa. scopedAssignment i p d pa \<and> pa_profile_id pa \<in> ids) (\<lambda>pa. pa\<lparr>pa_assignment_state := ''conflict''\<rparr>)
     (reconciled i p {} d) = reconciled i p ids d"
  by (simp add: update_where_def reconciled_def)

lemma reconciled_none: "update_where (scopedAssignment i p d) (\<lambda>pa. pa\<lparr>pa_assignment_state := ''ok''\<rparr>) (profile_assignments d) = reconciled i p {} d"
  by (simp add: update_where_def reconciled_def)

lemma Reconcile_Inr:
  assumes "ReconcileProfileAssignmentStates i p ids d = (Inr (), d')"
  shows "\<exists>n. d' = d\<lparr>stmt_no := n, profile_assignments := reconciled i p (set ids) d\<rparr>"
proof -
  obtain d1 where b: "(case setAssignmentState (scopedAssignment i p) ''ok'' (d\<lparr>stmt_no := Suc (stmt_no d)\<rparr>) of
          (Inl e, d) \<Rightarrow> (Inl (Wrap ''reset assignment states'' e), d)
        | (Inr _, d) \<Rightarrow>
            if ids = [] then (Inr (), d)
            else (case setAssignmentState (\<lambda>d pa. scopedAssignment i p d pa \<and> pa_profile_id pa \<in> set ids) ''conflict'' d of
                    (Inl e, d) \<Rightarrow> (Inl (Wrap ''flag conflicting assignments'' e), d)
                  | (Inr _, d) \<Rightarrow> (Inr (), d))) = (Inr (), d1)" and d': "d' = d1\<lparr>stmt_no := Suc (stmt_no d1)\<rparr>"
    using transaction_Inr [OF assms [unfolded ReconcileProfileAssignmentStates_def]] by blast
  define m where "m = Suc (Suc (stmt_no d)) + (if ids = [] then 0 else 1)"
  from b have d1: "d1 = d\<lparr>stmt_no := m, profile_assignments := reconciled i p (set ids) d\<rparr>" unfolding m_def
    by (auto simp: setAssignmentState_def sql_def Let_def reconciled_two_steps reconciled_none split: if_splits)
  have "d1\<lparr>stmt_no := Suc (stmt_no d1)\<rparr> = d\<lparr>stmt_no := Suc m, profile_assignments := reconciled i p (set ids) d\<rparr>"
    unfolding d1 by simp
  then show ?thesis unfolding d' by blast
qed

lemma pg_trim_TrimSpace: "pg_trim (TrimSpace s) = TrimSpace s"
proof (cases "TrimSpace s = []")
  case True
  then show ?thesis by (simp add: pg_trim_def TrimCut_def)
next
  case False
  have "hd (TrimSpace s) \<noteq> CHR '' ''" "last (TrimSpace s) \<noteq> CHR '' ''"
    using TrimSpace_ends [OF False] by (auto simp: is_space_def)
  with False have "dropWhile (\<lambda>c. c = CHR '' '') (TrimSpace s) = TrimSpace s"
    "dropWhile (\<lambda>c. c = CHR '' '') (rev (TrimSpace s)) = rev (TrimSpace s)"
    by (simp_all add: dropWhile_hd_False hd_rev)
  then show ?thesis by (simp add: pg_trim_def TrimCut_def)
qed

lemma scoped_profile_listed:
  assumes "scopedAssignment i (telemetryPlatformKey os) d pa" and "pa \<in> set (profile_assignments d)"
  shows "pa_profile_id pa \<in> cf_id ` set (assignedProfiles i (telemetryPlatformKey os) d)"
proof -
  have "ToLower (pg_trim (telemetryPlatformKey os)) = telemetryPlatformKey os"
    by (simp add: telemetryPlatformKey_def TrimSpace_ToLower [symmetric] pg_trim_TrimSpace)
  then obtain cp where "cp \<in> set (configuration_profiles d)" "cf_id cp = pa_profile_id pa" "assignedTo i d pa"
    "ToLower (pg_trim (cf_platform cp)) = telemetryPlatformKey os"
    using assms(1) by (auto simp: scopedAssignment_def list_ex_iff)
  with assms(2) show ?thesis by (force simp: assignedProfiles_def list_ex_iff)
qed

lemma Reconcile_conflicts:
  fixes d :: db and os :: string
  defines "p \<equiv> telemetryPlatformKey os" and "d1 \<equiv> d\<lparr>stmt_no := Suc (stmt_no d)\<rparr>"
  assumes rc: "ReconcileProfileAssignmentStates i p (filter (\<lambda>i. i \<in> C) ids) d1 = (Inr u, d')"
    and ids: "ids = map cf_id (assignedProfiles i p d)"
  shows "\<exists>n. d' = d\<lparr>stmt_no := n, profile_assignments := reconciled i p C d\<rparr>"
proof -
  have "reconciled i p (set (filter (\<lambda>i. i \<in> C) ids)) d1 = reconciled i p C d"
    using scoped_profile_listed [of i os d] unfolding p_def d1_def ids by (auto simp: reconciled_def)
  moreover obtain n where "d' = d1\<lparr>stmt_no := n, profile_assignments := reconciled i p (set (filter (\<lambda>i. i \<in> C) ids)) d1\<rparr>"
    using Reconcile_Inr [of i p "filter (\<lambda>i. i \<in> C) ids" d1 d'] rc by auto
  ultimately have "d' = d\<lparr>stmt_no := n, profile_assignments := reconciled i p C d\<rparr>" by (simp add: d1_def)
  then show ?thesis ..
qed

text \<open>C19: computing the effective policy of a device leaves exactly its own assignments of that platform
  relabelled: \<open>conflict\<close> for the profiles that took part in a conflict of the merge it returns, \<open>ok\<close> for
  the others. If any step fails no table has changed.\<close>

theorem effective_policy_marks_conflicts:
  "case computeMergedEffectivePolicy L i (telemetryPlatformKey os) d of
     (Inl e, d') \<Rightarrow> same_tables d d'
   | (Inr mr, d') \<Rightarrow>
       \<exists>n. d' = d\<lparr>stmt_no := n, profile_assignments := reconciled i (telemetryPlatformKey os) (ConflictProfiles mr) d\<rparr>"
proof -
  let ?p = "telemetryPlatformKey os" and ?d1 = "d\<lparr>stmt_no := Suc (stmt_no d)\<rparr>"
  have k: "ToLower (TrimSpace ?p) = ?p" by (simp add: telemetryPlatformKey_def)
  show ?thesis
  proof (cases "?p = '''' \<or> fault_at d (stmt_no d)")
    case True
    then show ?thesis
      by (auto simp: computeMergedEffectivePolicy_def ListAssignedProfilesForAsset_def k query_def sql_def Let_def)
  next
    case False
    define rows where "rows = map (\<lambda>cp. \<lparr>ap_ID = cf_id cp, ap_Name = cf_name cp, ap_Type = cf_type cp,
        ap_Payload_raw = cf_payload cp, ap_Platform = cf_platform cp\<rparr>) (assignedProfiles i ?p ?d1)"
    have l: "ListAssignedProfilesForAsset i ?p d = (Inr rows, ?d1)"
      using False by (simp add: ListAssignedProfilesForAsset_def k query_def sql_def Let_def rows_def)
    show ?thesis
    proof (cases "MergeAssignedPayloads (j_num L) (assignedRowsToMergeInputs rows)")
      case (Inl e)
      with l show ?thesis by (simp add: computeMergedEffectivePolicy_def)
    next
      case (Inr mr)
      let ?ids = "filter (\<lambda>i. i \<in> ConflictProfiles mr) (map ap_ID rows)"
      obtain r d' where rc: "ReconcileProfileAssignmentStates i ?p ?ids ?d1 = (r, d')" by fastforce
      show ?thesis
      proof (cases r)
        case (Inl e)
        have "same_tables ?d1 d'"
          by (rule transaction_Inl [OF rc [unfolded ReconcileProfileAssignmentStates_def Inl]])
        then have "same_tables d d'" by (rule same_tables_trans [OF same_tables_stmt])
        with l Inr rc Inl show ?thesis by (simp add: computeMergedEffectivePolicy_def)
      next
        case (Inr u)
        have "map ap_ID rows = map cf_id (assignedProfiles i ?p d)"
          by (simp add: rows_def assignedProfiles_def assignedTo_def comp_def)
        from Reconcile_conflicts [OF rc [unfolded Inr] this]
        obtain n where n: "d' = d\<lparr>stmt_no := n, profile_assignments := reconciled i ?p (ConflictProfiles mr) d\<rparr>" by blast
        have "computeMergedEffectivePolicy L i ?p d = (Inr mr, d')"
          using l \<open>MergeAssignedPayloads _ _ = Inr mr\<close> rc Inr by (simp add: computeMergedEffectivePolicy_def)
        with n show ?thesis by auto
      qed
    qed
  qed
qed

section \<open>Queueing a quarantine command\<close>

lemma quarantine_type: "TrimSpace (ToLower ''quarantine'') = ''quarantine''" "''quarantine'' \<in> set DeviceCommandTypes" "''quarantine'' \<in> set payloadTypes"
  by code_simp+

lemma Insert_quarantine:
  "InsertDeviceCommand i ''quarantine'' (BuildQuarantinePayloadJSON L b) None d =
     (case sql (insertCommandRow i ''quarantine'' (BuildQuarantinePayloadJSON L b) None) d of
        (Inl e, d) \<Rightarrow> (Inl (Wrap ''database: insert device command'' e), d)
      | (Inr cmd, d) \<Rightarrow> (Inr cmd, d))"
proof -
  have "BuildQuarantinePayloadJSON L b \<noteq> []" by (simp add: BuildQuarantinePayloadJSON_def)
  then show ?thesis
    by (simp add: InsertDeviceCommand_def Let_def quarantine_type validateDeviceCommandType_def quarantine_payload_trim
        quarantine_payload_valid)
qed

definition quarantineRow :: "lib \<Rightarrow> uuid \<Rightarrow> bool \<Rightarrow> db \<Rightarrow> device_command \<Rightarrow> bool" where
  "quarantineRow L i b d c \<longleftrightarrow> dc_id c \<notin> dc_id ` set (device_commands d) \<and> dc_device_id c = i \<and> dc_command_type c = ''quarantine''
     \<and> dc_payload c = BuildQuarantinePayloadJSON L b"

lemma Insert_quarantine_Inr:
  assumes "InsertDeviceCommand i ''quarantine'' (BuildQuarantinePayloadJSON L b) None d = (Inr c, d')"
  shows "device_commands d' = device_commands d @ [c]" "quarantineRow L i b d c" "dc_status c = ''pending''"
  using assms
  by (auto simp: Insert_quarantine sql_def insertCommandRow_def Let_def uuid_used_def quarantineRow_def split: if_splits)

lemma Insert_quarantine_Inl:
  "InsertDeviceCommand i ''quarantine'' (BuildQuarantinePayloadJSON L b) None d = (Inl e, d') \<Longrightarrow> device_commands d' = device_commands d"
  by (auto simp: Insert_quarantine sql_def insertCommandRow_def Let_def uuid_used_def split: if_splits)

lemma SetAssetQuarantineEnabled_commands [simp]: "device_commands (snd (SetAssetQuarantineEnabled i b d)) = device_commands d"
  by (simp add: SetAssetQuarantineEnabled_def sql_def Let_def)

text \<open>Marking the row just appended.\<close>

lemma MarkDeviceCommandSent_new:
  assumes "device_commands d = cs @ [c]" and "dc_id c \<notin> dc_id ` set cs" and "dc_status c = ''pending''"
  shows "\<exists>st out. device_commands (snd (MarkDeviceCommandSent (dc_id c) d)) = cs @ [c\<lparr>dc_status := st, dc_output := out\<rparr>] \<and> st \<in> {''pending'', ''sent''}"
proof -
  have u: "update_where (\<lambda>x. dc_id x = dc_id c) f cs = cs" for f
    using assms(2) by (intro update_where_id) (auto simp: image_iff)
  have "validateDeviceCommandStatus ''sent'' = None" by code_simp
  then have m: "device_commands (snd (MarkDeviceCommandSent (dc_id c) d))
      = (if fault_at d (stmt_no d) then cs @ [c] else cs @ [c\<lparr>dc_status := ''sent'', dc_output := ''''\<rparr>])"
    using u assms(1) by (simp add: MarkDeviceCommandSent_def updateDeviceCommandStatus_def sql_def Let_def update_where_def)
  show ?thesis
  proof (cases "fault_at d (stmt_no d)")
    case True
    then show ?thesis
      using m assms(3) by (intro exI [of _ "''pending''"] exI [of _ "dc_output c"]) simp
  next
    case False
    then show ?thesis using m by (intro exI [of _ "''sent''"] exI [of _ "''''"]) simp
  qed
qed

text \<open>What queueing leaves behind: one new row for the device and at most the message for it, which is
  there if the row says so.\<close>

definition queued_once :: "('w \<Rightarrow> string \<Rightarrow> json list) \<Rightarrow> lib \<Rightarrow> uuid \<Rightarrow> string \<Rightarrow> bool \<Rightarrow> db \<times> 'w \<Rightarrow> db \<times> 'w \<Rightarrow> bool" where
  "queued_once queued L i cs b s s' \<longleftrightarrow>
     (\<exists>c ok. device_commands (fst s') = device_commands (fst s) @ [c] \<and> quarantineRow L i b (fst s) c
        \<and> dc_status c \<in> {''pending'', ''sent''} \<and> (dc_status c = ''sent'' \<longrightarrow> ok)
        \<and> (\<forall>k. queued (snd s') k = queued (snd s) k @
             (if ok \<and> k = TrimSpace cs then [norm_json (quarantineDownlink L (dc_id c) (BuildQuarantinePayloadJSON L b))] else [])))"

context c2_dispatcher
begin

lemma queued_onceI:
  assumes "live w" and "InsertDeviceCommand i ''quarantine'' (BuildQuarantinePayloadJSON L b) None d = (Inr c, d1)"
    and "dispatch cs (quarantineDownlink L (dc_id c) (BuildQuarantinePayloadJSON L b)) w = (ok, w')"
    and "device_commands d2 = device_commands d1"
  shows "queued_once queued L i cs b (d, w) (if ok then snd (MarkDeviceCommandSent (dc_id c) d2) else d2, w')"
proof -
  note r = Insert_quarantine_Inr [OF assms(2)]
  note q = dispatch_queued [OF assms(1) assms(3)]
  have d2: "device_commands d2 = device_commands d @ [c]" using assms(4) r(1) by simp
  show ?thesis
  proof (cases ok)
    case False
    with d2 r q show ?thesis by (auto simp: queued_once_def)
  next
    case True
    obtain st out where m: "device_commands (snd (MarkDeviceCommandSent (dc_id c) d2)) = device_commands d @ [c\<lparr>dc_status := st, dc_output := out\<rparr>]"
      "st \<in> {''pending'', ''sent''}"
      using MarkDeviceCommandSent_new [OF d2 _ r(3)] r(2) by (auto simp: quarantineRow_def)
    with r(2) q True show ?thesis unfolding queued_once_def
      by (intro exI [of _ "c\<lparr>dc_status := st, dc_output := out\<rparr>"] exI [of _ True]) (auto simp: quarantineRow_def)
  qed
qed

lemma autoQuarantine_queued:
  assumes "live w" and "autoQuarantine L (Some dispatch) i cs (d, w) = (d', w')"
  shows "device_commands d' = device_commands d \<and> w' = w \<or> queued_once queued L i cs True (d, w) (d', w')"
proof -
  let ?p = "BuildQuarantinePayloadJSON L True"
  obtain r d1 where r: "InsertDeviceCommand i ''quarantine'' ?p None d = (r, d1)" by fastforce
  show ?thesis
  proof (cases r)
    case (Inl e)
    with assms(2) r Insert_quarantine_Inl show ?thesis by (fastforce simp: autoQuarantine_def Let_def)
  next
    case (Inr c)
    obtain ok w1 where k: "dispatch cs (quarantineDownlink L (dc_id c) ?p) w = (ok, w1)" by fastforce
    have "queued_once queued L i cs True (d, w) (if ok then snd (MarkDeviceCommandSent (dc_id c) (snd (SetAssetQuarantineEnabled i True d1)))
        else snd (SetAssetQuarantineEnabled i True d1), w1)"
      by (rule queued_onceI [OF assms(1) r [unfolded Inr] k]) simp
    with assms(2) r Inr k show ?thesis by (auto simp: autoQuarantine_def Let_def split: if_splits)
  qed
qed

end

section \<open>Evaluation after telemetry\<close>

lemma GetAssetCompliance_state [simp]: "snd (GetAssetCompliance i d) = d\<lparr>stmt_no := Suc (stmt_no d)\<rparr>"
  by (simp add: GetAssetCompliance_def)

lemma TenantAutoQuarantine_state [simp]: "snd (TenantAutoQuarantine d) = d\<lparr>stmt_no := Suc (stmt_no d)\<rparr>"
  by (simp add: TenantAutoQuarantine_def)

lemma EffectiveMergedPayload_state: "\<exists>n. snd (EffectiveMergedPayload L i pk d) = d\<lparr>stmt_no := n\<rparr>"
proof -
  have same: "d = d\<lparr>stmt_no := stmt_no d\<rparr>" by simp
  have "snd (ListAssignedProfilesForAsset i p d) = d \<or> snd (ListAssignedProfilesForAsset i p d) = d\<lparr>stmt_no := Suc (stmt_no d)\<rparr>" for p
    by (simp add: ListAssignedProfilesForAsset_def Let_def)
  moreover have "snd (EffectiveMergedPayload L i pk d) = snd (ListAssignedProfilesForAsset i (ToLower (TrimSpace pk)) d)"
    by (auto simp: EffectiveMergedPayload_def split: prod.splits sum.splits)
  ultimately show ?thesis using same by metis
qed

definition prevStatusOf :: "uuid \<Rightarrow> db \<Rightarrow> string" where
  "prevStatusOf i d = (case fst (GetAssetCompliance i d) of Inl _ \<Rightarrow> '''' | Inr r \<Rightarrow> cr_Status r)"

definition hasCriticalOf :: "lib \<Rightarrow> uuid \<Rightarrow> string \<Rightarrow> db \<Rightarrow> bool" where
  "hasCriticalOf L i pk d =
     (case fst (EffectiveMergedPayload L i pk d) of Inl _ \<Rightarrow> True | Inr m \<Rightarrow> PayloadCarriesCriticalSecurityControls m)"

lemma SetAssetCompliance_Inr:
  "SetAssetCompliance i st reason d = (Inr (), d') \<Longrightarrow> d' = d\<lparr>stmt_no := Suc (stmt_no d), assets := update_where (\<lambda>a. a_id a = i)
     (\<lambda>a. a\<lparr>a_compliance_status := TrimSpace (ToLower st), a_compliance_reason := take 8192 (TrimSpace reason), a_updated_at := now d\<rparr>) (assets d)\<rparr>"
  by (auto simp: SetAssetCompliance_def Let_def sql_def split: if_splits)

lemma SetAssetCompliance_commands: "device_commands (snd (SetAssetCompliance i st reason d)) = device_commands d"
  by (simp add: SetAssetCompliance_def Let_def sql_def)

text \<open>The evaluation once the previous status and the effective payload are known, at statement \<open>n\<close>.\<close>

definition evaluateTail :: "lib \<Rightarrow> 'w dispatcher option \<Rightarrow> uuid \<Rightarrow> string \<Rightarrow> string \<Rightarrow> EnforcementWire option \<Rightarrow> db \<Rightarrow> 'w \<Rightarrow> nat \<Rightarrow> (go_error + unit) \<times> db \<times> 'w" where
  "evaluateTail L D i cs pk enf d w n =
     (case complianceVerdict (prevStatusOf i d) (hasCriticalOf L i pk (d\<lparr>stmt_no := Suc (stmt_no d)\<rparr>)) enf of
        None \<Rightarrow> (Inr (), d\<lparr>stmt_no := n\<rparr>, w)
      | Some (status, reason) \<Rightarrow>
          (case SetAssetCompliance i status reason (d\<lparr>stmt_no := n\<rparr>) of
             (Inl e, d1) \<Rightarrow> (Inl e, d1, w)
           | (Inr _, d1) \<Rightarrow>
               if fst (TenantAutoQuarantine d1) = Inr True \<and> status = ''non_compliant'' \<and> prevStatusOf i d \<noteq> ''non_compliant'' \<and> cs \<noteq> ''''
               then (Inr (), autoQuarantine L D i cs (d1\<lparr>stmt_no := Suc (stmt_no d1)\<rparr>, w))
               else (Inr (), d1\<lparr>stmt_no := Suc (stmt_no d1)\<rparr>, w)))"

lemma EvaluateAfterTelemetry_unfold:
  "\<exists>n. EvaluateAfterTelemetry L D i cs pk enf (d, w) = evaluateTail L D i cs pk enf d w n"
proof -
  obtain p d1 where p: "GetAssetCompliance i d = (p, d1)" by fastforce
  then have d1: "d1 = d\<lparr>stmt_no := Suc (stmt_no d)\<rparr>" by (metis GetAssetCompliance_state snd_conv)
  obtain m d2 where m: "EffectiveMergedPayload L i pk d1 = (m, d2)" by fastforce
  obtain n where "d2 = d1\<lparr>stmt_no := n\<rparr>" using EffectiveMergedPayload_state [of L i pk d1] by (auto simp: m)
  with d1 have d2: "d2 = d\<lparr>stmt_no := n\<rparr>" by simp
  have t: "(case TenantAutoQuarantine x of (res, y) \<Rightarrow> F res y) = F (fst (TenantAutoQuarantine x)) (x\<lparr>stmt_no := Suc (stmt_no x)\<rparr>)"
    for x and F :: "go_error + bool \<Rightarrow> db \<Rightarrow> (go_error + unit) \<times> db \<times> 'a"
    using TenantAutoQuarantine_state [of x] by (cases "TenantAutoQuarantine x") simp
  have b: "(case r of Inl _ \<Rightarrow> False | Inr b \<Rightarrow> b) \<longleftrightarrow> r = Inr True" for r :: "go_error + bool"
    by (cases r) auto
  have ps: "prevStatusOf i d = (case p of Inl _ \<Rightarrow> '''' | Inr r \<Rightarrow> cr_Status r)" by (simp add: prevStatusOf_def p)
  have hc: "hasCriticalOf L i pk d1 = (case m of Inl _ \<Rightarrow> True | Inr m \<Rightarrow> PayloadCarriesCriticalSecurityControls m)"
    by (simp add: hasCriticalOf_def m)
  have e: "EvaluateAfterTelemetry L D i cs pk enf (d, w) =
     (case complianceVerdict (prevStatusOf i d) (hasCriticalOf L i pk d1) enf of
        None \<Rightarrow> (Inr (), d2, w)
      | Some (status, reason) \<Rightarrow>
          (case SetAssetCompliance i status reason d2 of
             (Inl e, d1) \<Rightarrow> (Inl e, d1, w)
           | (Inr _, d1) \<Rightarrow>
               (case TenantAutoQuarantine d1 of (res, y) \<Rightarrow>
                 if (case res of Inl _ \<Rightarrow> False | Inr b \<Rightarrow> b) \<and> status = ''non_compliant'' \<and> prevStatusOf i d \<noteq> ''non_compliant'' \<and> cs \<noteq> ''''
                 then (Inr (), autoQuarantine L D i cs (y, w)) else (Inr (), y, w))))"
    unfolding EvaluateAfterTelemetry_def ps hc Let_def by (simp add: p m)
  show ?thesis unfolding e t b d1 d2 evaluateTail_def by (intro exI [of _ n]) (rule refl)
qed

lemma complianceVerdict_noncompliant:
  "complianceVerdict ps crit enf = Some (''non_compliant'', reason) \<Longrightarrow>
     \<exists>e. enf = Some e \<and> ToLower (TrimSpace (ew_State e)) \<in> {''error'', ''failed''} \<and> (ew_CriticalFailed e \<or> crit)"
  by (auto simp: complianceVerdict_def Let_def split: option.splits if_splits)

lemma TenantAutoQuarantine_True: "fst (TenantAutoQuarantine d) = Inr True \<Longrightarrow> tenant_auto_quarantine d = Some True"
  by (auto simp: TenantAutoQuarantine_def query_row_def sql_def Let_def split: if_splits option.splits)

text \<open>When the automatic quarantine runs.\<close>

lemma EvaluateAfterTelemetry_cases:
  assumes "EvaluateAfterTelemetry L D i cs pk enf (d, w) = (r, d', w')"
  shows "device_commands d' = device_commands d \<and> w' = w
    \<or> (\<exists>d1. device_commands d1 = device_commands d \<and> (d', w') = autoQuarantine L D i cs (d1, w)
         \<and> tenant_auto_quarantine d = Some True \<and> prevStatusOf i d \<noteq> ''non_compliant''
         \<and> (\<exists>e. enf = Some e \<and> ToLower (TrimSpace (ew_State e)) \<in> {''error'', ''failed''}))"
proof -
  obtain n where u: "EvaluateAfterTelemetry L D i cs pk enf (d, w) = evaluateTail L D i cs pk enf d w n"
    using EvaluateAfterTelemetry_unfold [of L D i cs pk enf d w] by auto
  note u = u [unfolded evaluateTail_def]
  show ?thesis
  proof (cases "complianceVerdict (prevStatusOf i d) (hasCriticalOf L i pk (d\<lparr>stmt_no := Suc (stmt_no d)\<rparr>)) enf")
    case None
    with assms u show ?thesis by auto
  next
    case (Some v)
    obtain status reason where v: "v = (status, reason)" by fastforce
    obtain res d1 where s: "SetAssetCompliance i status reason (d\<lparr>stmt_no := n\<rparr>) = (res, d1)" by fastforce
    have c: "device_commands d1 = device_commands d" using SetAssetCompliance_commands [of i status reason "d\<lparr>stmt_no := n\<rparr>"] s by simp
    show ?thesis
    proof (cases "res = Inr () \<and> fst (TenantAutoQuarantine d1) = Inr True \<and> status = ''non_compliant'' \<and> prevStatusOf i d \<noteq> ''non_compliant'' \<and> cs \<noteq> ''''")
      case False
      with assms u Some v s c show ?thesis by (cases res) (auto split: if_splits)
    next
      case True
      then have "d1 = d\<lparr>stmt_no := Suc n, assets := assets d1\<rparr>" using s SetAssetCompliance_Inr [of i status reason "d\<lparr>stmt_no := n\<rparr>" d1] by simp
      from arg_cong [OF this, of tenant_auto_quarantine] have "tenant_auto_quarantine d1 = tenant_auto_quarantine d" by simp
      with True have "tenant_auto_quarantine d = Some True" using TenantAutoQuarantine_True [of d1] by simp
      moreover have "\<exists>e. enf = Some e \<and> ToLower (TrimSpace (ew_State e)) \<in> {''error'', ''failed''}"
        using complianceVerdict_noncompliant [of _ _ enf reason] Some v True by blast
      moreover have "(d', w') = autoQuarantine L D i cs (d1\<lparr>stmt_no := Suc (stmt_no d1)\<rparr>, w)"
        using assms u Some v s True by (cases res) auto
      ultimately show ?thesis using True c by (intro disjI2 exI [of _ "d1\<lparr>stmt_no := Suc (stmt_no d1)\<rparr>"]) simp
    qed
  qed
qed

lemma prevStatusOf_ok:
  "\<not> fault_at d (stmt_no d) \<Longrightarrow> find (\<lambda>a. a_id a = i) (assets d) = Some a \<Longrightarrow> prevStatusOf i d = a_compliance_status a"
  by (simp add: prevStatusOf_def GetAssetCompliance_def query_row_def sql_def Let_def)


section \<open>The stored verdict\<close>

abbreviation statusOf :: "uuid \<Rightarrow> db \<Rightarrow> string option" where
  "statusOf i d \<equiv> map_option a_compliance_status (find (\<lambda>a. a_id a = i) (assets d))"

lemma statusOf_cong: "assets d' = assets d \<Longrightarrow> statusOf i d' = statusOf i d"
  by simp

lemma assets_frame:
  "assets (snd (InsertDeviceCommand dev ct pl inc d)) = assets d" "assets (snd (MarkDeviceCommandSent c d)) = assets d"
  using evolves_InsertDeviceCommand [of d dev ct pl inc] evolves_MarkDeviceCommandSent [of d c] by (simp_all add: evolves_def)

lemma statusOf_update:
  assumes "\<And>a. a_id (f a) = a_id a" and "\<And>a. a_compliance_status (f a) = a_compliance_status a"
  shows "map_option a_compliance_status (find (\<lambda>a. a_id a = i) (update_where P f (assets d))) = statusOf i d"
  using assms by (simp add: find_update_where option.map_comp comp_def if_distrib cong: if_cong)

lemma statusOf_SetAssetQuarantineEnabled: "statusOf i (snd (SetAssetQuarantineEnabled j b d)) = statusOf i d"
  using statusOf_update [of "\<lambda>a :: asset. a\<lparr>a_quarantine_enabled := b, a_updated_at := now d\<rparr>" i "\<lambda>a. a_id a = j" d]
  by (simp add: SetAssetQuarantineEnabled_def sql_def Let_def)

lemma statusOf_autoQuarantine: "statusOf i (fst (autoQuarantine L D j cs (d, w))) = statusOf i d"
proof -
  let ?p = "BuildQuarantinePayloadJSON L True"
  obtain r d1 where r: "InsertDeviceCommand j ''quarantine'' ?p None d = (r, d1)" by fastforce
  then have a: "assets d1 = assets d" using assets_frame(1) [of j "''quarantine''" ?p None d] by simp
  show ?thesis
  proof (cases r)
    case (Inl e)
    with r a show ?thesis by (simp add: autoQuarantine_def Let_def)
  next
    case (Inr c)
    have "fst (autoQuarantine L D j cs (d, w)) \<in> {snd (SetAssetQuarantineEnabled j True d1),
        snd (MarkDeviceCommandSent (dc_id c) (snd (SetAssetQuarantineEnabled j True d1)))}"
      using r Inr by (auto simp: autoQuarantine_def Let_def split: prod.splits)
    then have "assets (fst (autoQuarantine L D j cs (d, w))) = assets (snd (SetAssetQuarantineEnabled j True d1))"
      by (auto simp: assets_frame)
    then show ?thesis using statusOf_SetAssetQuarantineEnabled [of i j True d1] a by simp
  qed
qed

lemma hasCriticalOf_stmt:
  assumes "\<forall>n. \<not> fault_at d n"
  shows "hasCriticalOf L i pk (d\<lparr>stmt_no := n\<rparr>) = hasCriticalOf L i pk d"
proof -
  have "assignedProfiles i p (d\<lparr>stmt_no := m\<rparr>) = assignedProfiles i p d" for p m
    by (simp add: assignedProfiles_def assignedTo_def)
  with assms have "fst (ListAssignedProfilesForAsset i p (d\<lparr>stmt_no := n\<rparr>)) = fst (ListAssignedProfilesForAsset i p d)" for p
    by (simp add: ListAssignedProfilesForAsset_def Let_def query_def sql_def)
  then have "fst (EffectiveMergedPayload L i pk (d\<lparr>stmt_no := n\<rparr>)) = fst (EffectiveMergedPayload L i pk d)"
    unfolding EffectiveMergedPayload_def by (auto split: prod.splits sum.splits) (metis fst_conv sum.distinct sum.inject)+
  then show ?thesis by (simp add: hasCriticalOf_def)
qed

lemma verdict_values:
  "complianceVerdict ps crit (Some e) = Some (status, reason) \<Longrightarrow>
     TrimSpace (ToLower status) = status \<and> status \<in> {''compliant'', ''non_compliant'', ''evaluating''}"
proof -
  have "TrimSpace (ToLower ''compliant'') = ''compliant''" "TrimSpace (ToLower ''non_compliant'') = ''non_compliant''"
    "TrimSpace (ToLower ''evaluating'') = ''evaluating''" by code_simp+
  then show "complianceVerdict ps crit (Some e) = Some (status, reason) \<Longrightarrow> ?thesis"
    by (auto simp: complianceVerdict_def Let_def split: if_splits)
qed

lemma complianceVerdict_report:
  "\<exists>reason. complianceVerdict ps crit (Some e) =
     Some (if ToLower (TrimSpace (ew_State e)) \<in> {''error'', ''failed''} \<and> (ew_CriticalFailed e \<or> crit) then ''non_compliant''
           else if ToLower (TrimSpace (ew_State e)) \<notin> {''ok'', ''success'', ''applied'', ''error'', ''failed''} \<and> crit then ''evaluating''
           else ''compliant'', reason)"
  by (auto simp: complianceVerdict_def Let_def)

text \<open>With the database up, an evaluation with an enforcement report succeeds and stores for the device:
  non-compliant exactly when the report is an error and either the agent calls it critical or the
  effective policy carries critical controls (or cannot be merged); evaluating exactly when the report
  is of an unknown kind and the policy is critical; compliant otherwise.\<close>

theorem verdict_stored:
  assumes up: "\<forall>n. \<not> fault_at d n" and dev: "i \<in> a_id ` set (assets d)"
    and run: "EvaluateAfterTelemetry L D i cs pk (Some e) (d, w) = (r, d', w')"
  shows "r = Inr () \<and> statusOf i d' = Some
    (if ToLower (TrimSpace (ew_State e)) \<in> {''error'', ''failed''} \<and> (ew_CriticalFailed e \<or> hasCriticalOf L i pk d) then ''non_compliant''
     else if ToLower (TrimSpace (ew_State e)) \<notin> {''ok'', ''success'', ''applied'', ''error'', ''failed''} \<and> hasCriticalOf L i pk d then ''evaluating''
     else ''compliant'')" (is "_ \<and> _ = Some ?st")
proof -
  obtain n where u: "EvaluateAfterTelemetry L D i cs pk (Some e) (d, w) = evaluateTail L D i cs pk (Some e) d w n"
    using EvaluateAfterTelemetry_unfold [of L D i cs pk "Some e" d w] by auto
  obtain reason where v: "complianceVerdict (prevStatusOf i d) (hasCriticalOf L i pk d) (Some e) = Some (?st, reason)"
    using complianceVerdict_report by blast
  note vals = verdict_values [OF v]
  define d1 where "d1 = d\<lparr>stmt_no := Suc n, assets := update_where (\<lambda>a. a_id a = i)
     (\<lambda>a. a\<lparr>a_compliance_status := ?st, a_compliance_reason := take 8192 (TrimSpace reason), a_updated_at := now d\<rparr>) (assets d)\<rparr>"
  have s: "SetAssetCompliance i ?st reason (d\<lparr>stmt_no := n\<rparr>) = (Inr (), d1)"
    using vals up unfolding SetAssetCompliance_def Let_def sql_def d1_def by simp
  have "find (\<lambda>a. a_id a = i) (assets d) \<noteq> None" using dev by (auto simp: find_None_iff)
  then obtain a where a: "find (\<lambda>a. a_id a = i) (assets d) = Some a" by blast
  have "a_id a = i" using a by (metis (mono_tags, lifting) find_Some_iff)
  then have st: "statusOf i d1 = Some ?st"
    using a find_update_where [where k = a_id and f = "\<lambda>a :: asset. a\<lparr>a_compliance_status := ?st, a_compliance_reason := take 8192 (TrimSpace reason), a_updated_at := now d\<rparr>"]
    by (simp add: d1_def)
  have "r = Inr () \<and> (d' = d1\<lparr>stmt_no := Suc (stmt_no d1)\<rparr> \<or> d' = fst (autoQuarantine L D i cs (d1\<lparr>stmt_no := Suc (stmt_no d1)\<rparr>, w)))"
    using run u s v unfolding evaluateTail_def hasCriticalOf_stmt [OF up]
    by (simp split: if_splits)
  then show ?thesis using st statusOf_autoQuarantine [of i L D i cs "d1\<lparr>stmt_no := Suc (stmt_no d1)\<rparr>" w] by auto
qed

section \<open>Examples\<close>

definition exampleAsset :: "uuid \<Rightarrow> string \<Rightarrow> asset" where
  "exampleAsset i serial = \<lparr>a_id = i, a_human_id = ''dev-1'', a_display_name = None, a_hostname = None, a_cert_serial = Some serial, a_os_type = ''linux'',
     a_last_seen = None, a_metadata = JNull, a_updated_at = 0, a_operational_status = ''operational'', a_cost_center = '''', a_location = '''', a_compliance_status = ''compliant'',
     a_compliance_reason = '''', a_quarantine_enabled = False\<rparr>"

definition exampleFleet :: db where
  "exampleFleet = empty_db\<lparr>assets := [exampleAsset 7 ''42''], tenant_auto_quarantine := Some True\<rparr>"

definition exampleReport :: EnforcementWire where
  "exampleReport = \<lparr>ew_State = ''Error'', ew_Detail = '''', ew_CriticalFailed = True\<rparr>"

definition exampleEvaluation :: "(go_error + unit) \<times> db \<times> hub" where
  "exampleEvaluation = EvaluateAfterTelemetry exampleLib (Some DispatchJSON) 7 ''42'' ''linux'' (Some exampleReport)
     (exampleFleet, snd (hub_register ''42'' NewHub))"

lemma exampleEvaluation_queues: "length (device_commands (fst (snd exampleEvaluation))) = 1"
  by code_simp


theorem verdict_stored_witness:
  "\<exists>r d' w'. EvaluateAfterTelemetry exampleLib None 7 ''42'' ''linux'' (Some exampleReport) (exampleFleet, ()) = (r, d', w')
     \<and> statusOf 7 d' = Some ''non_compliant''"
proof -
  obtain r d' w' where e: "EvaluateAfterTelemetry exampleLib None 7 ''42'' ''linux'' (Some exampleReport) (exampleFleet, ()) = (r, d', w')"
    by (metis prod_cases3)
  have t: "ToLower (TrimSpace ''Error'') = ''error''" by code_simp
  have "\<forall>n. \<not> fault_at exampleFleet n" "7 \<in> a_id ` set (assets exampleFleet)"
    by (simp_all add: exampleFleet_def empty_db_def exampleAsset_def)
  from verdict_stored [OF this e] e show ?thesis by (simp add: exampleReport_def t)
qed

text \<open>The payload of a quarantine command, built from the environment, is accepted when the command is
  queued and decodes to exactly what was meant: the switch, the trimmed non-empty hosts (or \<open>null\<close>) and
  one port in range.\<close>

theorem quarantine_payload_roundtrip:
  "validateQuarantineCommandPayload (TrimSpace (BuildQuarantinePayloadJSON L b)) = None
   \<and> json_decode (BuildQuarantinePayloadJSON L b) = RawDoc (JObj
       [(''enabled'', JBool b), (''allow_hosts'', if quarantineHosts L = [] then JNull else JArr (map JStr (quarantineHosts L))),
        (''allow_ports'', JArr [JNum (of_nat (quarantinePort L))])])
   \<and> 0 < quarantinePort L \<and> quarantinePort L < 65536"
  using quarantine_payload_valid quarantine_payload_decode quarantinePort_range [of L]
  by (simp add: quarantine_payload_trim quarantineFields_def quarantineHostsJson_def)

end
