(* ===== verification/Users.thy ===== *)
theory Users
  imports Auth
begin

text \<open>
  Dashboard accounts: the user queries of \<open>internal/auth/users.go\<close>, the admin routes
  (\<open>internal/api/users_admin.go\<close>) and login (\<open>internal/api/auth_handlers.go\<close>). The role change of
  \<open>handlePatch\<close> is split at the point where the database is released between the last-admin check and
  the update, so that concurrent requests can be interleaved there.
\<close>

section \<open>User queries (users.go)\<close>

definition userByName :: "string \<Rightarrow> db \<Rightarrow> user option" where
  "userByName u d = find (\<lambda>x. ToLower (us_username x) = ToLower u) (users d)"

definition GetUserByUsername :: "string \<Rightarrow> db \<Rightarrow> (go_error + user) \<times> db" where
  "GetUserByUsername username d =
     (let u = TrimSpace username
      in if u = '''' then (Inl (Err ''empty username''), d)
         else (case query_row (userByName u) d of (Inl e, d) \<Rightarrow> (Inl (Driver e), d) | (Inr x, d) \<Rightarrow> (Inr x, d)))"

definition CountUsers :: "db \<Rightarrow> nat sql_result" where
  "CountUsers = query (\<lambda>d. length (users d))"

definition CountAdmins :: "db \<Rightarrow> nat sql_result" where
  "CountAdmins = query (\<lambda>d. length (filter (\<lambda>u. us_role u = ''admin'') (users d)))"

definition insertUserRow :: "string \<Rightarrow> string \<Rightarrow> string \<Rightarrow> db \<Rightarrow> uuid sql_result" where
  "insertUserRow username hash role d =
     (let i = random_uuid d
      in if i \<in> us_id ` set (users d) \<or> username \<in> us_username ` set (users d) then (Inl ErrUnique, uuid_used d)
         else if role \<notin> {''admin'', ''operator'', ''viewer''} then (Inl ErrCheck, uuid_used d)
         else (Inr i, (uuid_used d)\<lparr>users := users d @
                 [\<lparr>us_id = i, us_username = username, us_password_hash = hash, us_role = role, us_created_at = now d\<rparr>]\<rparr>))"

definition BootstrapAdminIfEmpty :: "bcrypt \<Rightarrow> string \<Rightarrow> string \<Rightarrow> db \<Rightarrow> (go_error + unit) \<times> db" where
  "BootstrapAdminIfEmpty B username password d =
     (case CountUsers d of
        (Inl e, d) \<Rightarrow> (Inl (Driver e), d)
      | (Inr n, d) \<Rightarrow>
          if n > 0 then (Inr (), d)
          else if TrimSpace username = '''' \<or> TrimSpace password = '''' then (Inr (), d)
          else (case HashPassword B password of
                  Inl e \<Rightarrow> (Inl e, d)
                | Inr hash \<Rightarrow>
                    (case sql (insertUserRow (TrimSpace username) hash ''admin'') d of
                       (Inl e, d) \<Rightarrow> (Inl (Driver e), d)
                     | (Inr _, d) \<Rightarrow> (Inr (), d))))"

definition IsLastAdmin :: "uuid \<Rightarrow> db \<Rightarrow> (go_error + bool) \<times> db" where
  "IsLastAdmin userID d =
     (case query_row (\<lambda>d. map_option us_role (find (\<lambda>u. us_id u = userID) (users d))) d of
        (Inl ErrNoRows, d) \<Rightarrow> (Inr False, d)
      | (Inl e, d) \<Rightarrow> (Inl (Driver e), d)
      | (Inr role, d) \<Rightarrow>
          if role \<noteq> ''admin'' then (Inr False, d)
          else (case CountAdmins d of (Inl e, d) \<Rightarrow> (Inl (Driver e), d) | (Inr n, d) \<Rightarrow> (Inr (n = 1), d)))"

section \<open>Admin routes (users_admin.go)\<close>

definition parseUserUUID :: "lib \<Rightarrow> request \<Rightarrow> uuid option" where
  "parseUserUUID L r = (let raw = TrimSpace (rq_PathID r) in if raw = '''' then None else u_parse L raw)"

definition users_handleList :: "lib \<Rightarrow> DashboardAuth \<Rightarrow> request \<Rightarrow> db \<Rightarrow> response \<times> db" where
  "users_handleList L A r d =
     (if rq_Method r \<noteq> ''GET'' then (RespError 405 (Err ''method not allowed''), d)
      else (case RequireMinRole L A (now d) r ''admin'' of
              Inl e \<Rightarrow> (e, d)
            | Inr _ \<Rightarrow>
                (case query (\<lambda>d. sort_key us_username (users d)) d of
                   (Inl e, d) \<Rightarrow> (RespError 500 (Err ''failed to list users''), d)
                 | (Inr us, d) \<Rightarrow>
                     (RespJson 200 (JArr (map (\<lambda>u. JObj [(''id'', JStr (u_str L (us_id u))), (''username'', JStr (us_username u)),
                         (''role'', JStr (us_role u)), (''created_at'', JStr (t_json L (us_created_at u)))]) us)), d))))"

definition users_handleDirectory :: "lib \<Rightarrow> DashboardAuth \<Rightarrow> request \<Rightarrow> db \<Rightarrow> response \<times> db" where
  "users_handleDirectory L A r d =
     (if rq_Method r \<noteq> ''GET'' then (RespError 405 (Err ''method not allowed''), d)
      else (case RequireMinRole L A (now d) r ''operator'' of
              Inl e \<Rightarrow> (e, d)
            | Inr _ \<Rightarrow>
                (case query (\<lambda>d. sort_key us_username (users d)) d of
                   (Inl e, d) \<Rightarrow> (RespError 500 (Err ''failed to list users''), d)
                 | (Inr us, d) \<Rightarrow>
                     (RespJson 200 (JArr (map (\<lambda>u. JObj [(''id'', JStr (u_str L (us_id u))), (''username'', JStr (us_username u))]) us)), d))))"

definition users_handleCreate :: "lib \<Rightarrow> bcrypt \<Rightarrow> DashboardAuth \<Rightarrow> request \<Rightarrow> db \<Rightarrow> response \<times> db" where
  "users_handleCreate L B A r d =
     (if rq_Method r \<noteq> ''POST'' then (RespError 405 (Err ''method not allowed''), d)
      else (case RequireMinRole L A (now d) r ''admin'' of
        Inl e \<Rightarrow> (e, d)
      | Inr _ \<Rightarrow>
          (case struct_object (rq_Body r) of
             None \<Rightarrow> (RespError 400 (Err ''invalid JSON body''), d)
           | Some m \<Rightarrow>
               (case (get_string ''username'' m, get_string ''password'' m, get_string ''role'' m) of
                  (Some username, Some password, Some role) \<Rightarrow>
                    (let username = TrimSpace username
                     in case ParseRole role of
                          None \<Rightarrow> (RespError 400 (Err ''invalid role''), d)
                        | Some role \<Rightarrow>
                            if username = '''' \<or> TrimSpace password = '''' then
                              (RespError 400 (Err ''username and password are required''), d)
                            else (case HashPassword B password of
                                    Inl e \<Rightarrow> (RespError 400 e, d)
                                  | Inr hash \<Rightarrow>
                                      (case sql (insertUserRow username hash role) d of
                                         (Inl e, d) \<Rightarrow>
                                           if e = ErrUnique then (RespError 409 (Err ''username already exists''), d)
                                           else (RespError 500 (Err ''failed to create user''), d)
                                       | (Inr i, d) \<Rightarrow> (RespJson 201 (JObj [(''id'', JStr (u_str L i))]), d))))
                | _ \<Rightarrow> (RespError 400 (Err ''invalid JSON body''), d)))))"

text \<open>The role part of \<open>handlePatch\<close>: the check, then the update.\<close>

definition roleCheck :: "uuid \<Rightarrow> string \<Rightarrow> db \<Rightarrow> (response + string) \<times> db" where
  "roleCheck i role d =
     (case ParseRole role of
        None \<Rightarrow> (Inl (RespError 400 (Err ''invalid role'')), d)
      | Some newRole \<Rightarrow>
          (case IsLastAdmin i d of
             (Inl e, d) \<Rightarrow> (Inl (RespError 500 (Err ''failed to update user'')), d)
           | (Inr isLast, d) \<Rightarrow>
               if isLast \<and> newRole \<noteq> ''admin'' then (Inl (RespError 400 (Err ''cannot demote the last admin'')), d)
               else (Inr newRole, d)))"

definition roleUpdate :: "uuid \<Rightarrow> string \<Rightarrow> db \<Rightarrow> (response + unit) \<times> db" where
  "roleUpdate i newRole d =
     (case sql (\<lambda>d. (Inr (affected (\<lambda>u. us_id u = i) (users d)),
            d\<lparr>users := update_where (\<lambda>u. us_id u = i) (\<lambda>u. u\<lparr>us_role := newRole\<rparr>) (users d)\<rparr>)) d of
        (Inl e, d) \<Rightarrow> (Inl (RespError 500 (Err ''failed to update user'')), d)
      | (Inr n, d) \<Rightarrow> if n = 0 then (Inl (RespError 404 (Err ''user not found'')), d) else (Inr (), d))"

definition passwordUpdate :: "bcrypt \<Rightarrow> uuid \<Rightarrow> string \<Rightarrow> db \<Rightarrow> (response + unit) \<times> db" where
  "passwordUpdate B i password d =
     (let pw = TrimSpace password
      in if pw = '''' then (Inl (RespError 400 (Err ''password cannot be empty'')), d)
         else (case HashPassword B pw of
                 Inl e \<Rightarrow> (Inl (RespError 400 e), d)
               | Inr hash \<Rightarrow>
                   (case sql (\<lambda>d. (Inr (affected (\<lambda>u. us_id u = i) (users d)),
                          d\<lparr>users := update_where (\<lambda>u. us_id u = i) (\<lambda>u. u\<lparr>us_password_hash := hash\<rparr>) (users d)\<rparr>)) d of
                      (Inl e, d) \<Rightarrow> (Inl (RespError 500 (Err ''failed to update user'')), d)
                    | (Inr n, d) \<Rightarrow> if n = 0 then (Inl (RespError 404 (Err ''user not found'')), d) else (Inr (), d))))"

definition patchRole :: "uuid \<Rightarrow> string option \<Rightarrow> db \<Rightarrow> (response + unit) \<times> db" where
  "patchRole i role d =
     (case role of
        None \<Rightarrow> (Inr (), d)
      | Some role \<Rightarrow>
          (case roleCheck i role d of
             (Inl e, d) \<Rightarrow> (Inl e, d)
           | (Inr newRole, d) \<Rightarrow> roleUpdate i newRole d))"

definition users_handlePatch :: "lib \<Rightarrow> bcrypt \<Rightarrow> DashboardAuth \<Rightarrow> request \<Rightarrow> db \<Rightarrow> response \<times> db" where
  "users_handlePatch L B A r d =
     (if rq_Method r \<noteq> ''PATCH'' then (RespError 405 (Err ''method not allowed''), d)
      else (case RequireMinRole L A (now d) r ''admin'' of
        Inl e \<Rightarrow> (e, d)
      | Inr _ \<Rightarrow>
          (case parseUserUUID L r of
             None \<Rightarrow> (RespError 400 (Err ''invalid user id''), d)
           | Some i \<Rightarrow>
               (case struct_object (rq_Body r) of
                  None \<Rightarrow> (RespError 400 (Err ''invalid JSON body''), d)
                | Some m \<Rightarrow>
                    (case (get_string_ptr ''role'' m, get_string_ptr ''password'' m) of
                       (Some role, Some password) \<Rightarrow>
                         if role = None \<and> password = None then (RespError 400 (Err ''no fields to update''), d)
                         else (case patchRole i role d of
                                 (Inl e, d) \<Rightarrow> (e, d)
                               | (Inr _, d) \<Rightarrow>
                                   (case password of
                                      None \<Rightarrow> (RespJson 200 (JObj [(''status'', JStr ''updated'')]), d)
                                    | Some password \<Rightarrow>
                                        (case passwordUpdate B i password d of
                                           (Inl e, d) \<Rightarrow> (e, d)
                                         | (Inr _, d) \<Rightarrow> (RespJson 200 (JObj [(''status'', JStr ''updated'')]), d))))
                     | _ \<Rightarrow> (RespError 400 (Err ''invalid JSON body''), d))))))"

definition deleteUserRow :: "uuid \<Rightarrow> db \<Rightarrow> nat sql_result" where
  "deleteUserRow i d =
     (Inr (affected (\<lambda>u. us_id u = i) (users d)),
      d\<lparr>users := filter (\<lambda>u. us_id u \<noteq> i) (users d),
        device_assignments := filter (\<lambda>s. ds_user_id s \<noteq> i) (device_assignments d),
        audit_logs := update_where (\<lambda>l. au_user_id l = Some i) (\<lambda>l. l\<lparr>au_user_id := None\<rparr>) (audit_logs d),
        incidents := map (\<lambda>n. n\<lparr>in_caller_id := (if in_caller_id n = Some i then None else in_caller_id n),
          in_assigned_to := (if in_assigned_to n = Some i then None else in_assigned_to n)\<rparr>) (incidents d)\<rparr>)"

definition users_handleDelete :: "lib \<Rightarrow> DashboardAuth \<Rightarrow> request \<Rightarrow> db \<Rightarrow> response \<times> db" where
  "users_handleDelete L A r d =
     (if rq_Method r \<noteq> ''DELETE'' then (RespError 405 (Err ''method not allowed''), d)
      else (case RequireMinRole L A (now d) r ''admin'' of
        Inl e \<Rightarrow> (e, d)
      | Inr p \<Rightarrow>
          (case parseUserUUID L r of
             None \<Rightarrow> (RespError 400 (Err ''invalid user id''), d)
           | Some i \<Rightarrow>
               if i = p_UserID p then (RespError 400 (Err ''cannot delete your own account''), d)
               else (case IsLastAdmin i d of
                       (Inl e, d) \<Rightarrow> (RespError 500 (Err ''failed to delete user''), d)
                     | (Inr isLast, d) \<Rightarrow>
                         if isLast then (RespError 400 (Err ''cannot delete the last admin''), d)
                         else (case sql (deleteUserRow i) d of
                                 (Inl e, d) \<Rightarrow> (RespError 500 (Err ''failed to delete user''), d)
                               | (Inr n, d) \<Rightarrow>
                                   if n = 0 then (RespError 404 (Err ''user not found''), d) else (RespEmpty 204, d))))))"

section \<open>Login (auth_handlers.go)\<close>

definition handleLogin :: "lib \<Rightarrow> bcrypt \<Rightarrow> DashboardAuth \<Rightarrow> request \<Rightarrow> db \<Rightarrow> response \<times> db" where
  "handleLogin L B A r d =
     (if rq_Method r \<noteq> ''POST'' then (RespError 405 (Err ''method not allowed''), d)
      else if \<not> DashboardOriginOK r (da_Origins A) then (RespError 403 (Err ''forbidden''), d)
      else (case struct_object (rq_Body r) of
        None \<Rightarrow> (RespError 400 (Err ''invalid JSON body''), d)
      | Some m \<Rightarrow>
          (case (get_string ''username'' m, get_string ''password'' m) of
             (Some username, Some password) \<Rightarrow>
               (let username = TrimSpace username
                in if username = '''' \<or> password = '''' then (RespError 400 (Err ''username and password are required''), d)
                   else (case GetUserByUsername username d of
                      (Inl e, d) \<Rightarrow> (RespError 401 (Err ''invalid credentials''), d)
                    | (Inr u, d) \<Rightarrow>
                        if \<not> CheckPassword B (us_password_hash u) password then (RespError 401 (Err ''invalid credentials''), d)
                        else (case ParseRole (us_role u) of
                           None \<Rightarrow> (RespError 500 (Err ''invalid user role''), d)
                         | Some roleNorm \<Rightarrow>
                             (case JWT_Issue L (da_JWT A) \<lparr>p_UserID = us_id u, p_Username = username, p_Role = roleNorm\<rparr> (now d) of
                                Inl e \<Rightarrow> (RespError 500 (Err ''could not issue token''), d)
                              | Inr (token, expiry) \<Rightarrow>
                                  (RespJson 200 (JObj [(''token'', JStr token), (''expires_at'', JStr (t_json L expiry)),
                                      (''user'', JObj [(''id'', JStr (u_str L (us_id u))), (''username'', JStr username), (''role'', JStr roleNorm)])]),
                                   snd (InsertAuditRecord \<lparr>ar_UserID = us_id u, ar_Action = ''auth.login'', ar_ResourceType = ''user'',
                                       ar_ResourceID = Some (us_id u), ar_TargetAssetID = None,
                                       ar_Details = [(''username'', JStr username)], ar_IPAddress = ClientIP L r\<rparr> d))))))
           | _ \<Rightarrow> (RespError 400 (Err ''invalid JSON body''), d))))"

definition handleMe :: "lib \<Rightarrow> DashboardAuth \<Rightarrow> request \<Rightarrow> db \<Rightarrow> response \<times> db" where
  "handleMe L A r d =
     (if rq_Method r \<noteq> ''GET'' then (RespError 405 (Err ''method not allowed''), d)
      else (case RequirePrincipal L A (now d) r of
        Inl e \<Rightarrow> (e, d)
      | Inr p \<Rightarrow>
          (case query_row (\<lambda>d. find (\<lambda>u. us_id u = p_UserID p) (users d)) d of
             (Inl ErrNoRows, d) \<Rightarrow> (RespError 401 (Err ''user no longer exists''), d)
           | (Inl e, d) \<Rightarrow> (RespError 500 (Err ''failed to load user''), d)
           | (Inr u, d) \<Rightarrow>
               (RespJson 200 (JObj [(''id'', JStr (u_str L (us_id u))), (''username'', JStr (us_username u)),
                   (''role'', JStr (case ParseRole (us_role u) of Some rn \<Rightarrow> rn | None \<Rightarrow> us_role u))]), d))))"

end
