(* ===== verification/Users_Facts.thy ===== *)
theory Users_Facts
  imports Users "HOL-Library.Countable"
begin

text \<open>
  Accounts stay manageable: an administrator always remains when requests run one after the other,
  and can be lost when two of them interleave; account changes need an administrator's token; the
  password a user is created with is the one that logs in.
\<close>

section \<open>Administrators\<close>

definition has_admin :: "db \<Rightarrow> bool" where
  "has_admin d \<longleftrightarrow> (\<exists>u \<in> set (users d). us_role u = ''admin'')"

definition wf_users :: "db \<Rightarrow> bool" where
  "wf_users d \<longleftrightarrow> distinct (map us_id (users d))"

lemma find_distinct_id:
  assumes "distinct (map k rows)" and "x \<in> set rows"
  shows "find (\<lambda>r. k r = k x) rows = Some x"
  using assms by (induction rows) (auto simp: image_iff)

lemma IsLastAdmin_state [simp]:
  "users (snd (IsLastAdmin i d)) = users d" "now (snd (IsLastAdmin i d)) = now d"
  "fault_at (snd (IsLastAdmin i d)) = fault_at d"
  by (simp_all add: IsLastAdmin_def CountAdmins_def query_def query_row_def sql_def Let_def
      split: option.splits sql_error.splits)

lemma IsLastAdmin_False:
  assumes "IsLastAdmin i d = (Inr False, d')" and "wf_users d" and "has_admin d"
  shows "\<exists>u \<in> set (users d). us_role u = ''admin'' \<and> us_id u \<noteq> i"
proof (rule ccontr)
  assume no: "\<not> ?thesis"
  from assms(3) obtain a where a: "a \<in> set (users d)" "us_role a = ''admin''" by (auto simp: has_admin_def)
  with no have "us_id a = i" by auto
  with a assms(2) have f: "find (\<lambda>u. us_id u = i) (users d) = Some a"
    using find_distinct_id [of us_id "users d" a] by (simp add: wf_users_def)
  have "set (filter (\<lambda>u. us_role u = ''admin'') (users d)) = {a}"
    using no a assms(2) \<open>us_id a = i\<close> by (auto simp: wf_users_def distinct_map dest: inj_onD)
  moreover have "distinct (filter (\<lambda>u. us_role u = ''admin'') (users d))"
    using assms(2) by (simp add: wf_users_def distinct_map)
  ultimately have one: "length (filter (\<lambda>u. us_role u = ''admin'') (users d)) = 1"
    by (metis distinct_card card_1_singleton_iff One_nat_def)
  from assms(1) show False
    by (simp add: IsLastAdmin_def CountAdmins_def query_def query_row_def sql_def Let_def f a one
        split: if_splits)
qed

lemma roleCheck_Inr:
  assumes "roleCheck i role d = (Inr newRole, d')"
  shows "users d' = users d \<and> (newRole = ''admin'' \<or> (\<exists>d''. IsLastAdmin i d = (Inr False, d'')))"
proof -
  obtain last d1 where l: "IsLastAdmin i d = (last, d1)" by fastforce
  then have "users d1 = users d" by (metis IsLastAdmin_state(1) snd_conv)
  with assms l show ?thesis
    by (auto simp: roleCheck_def split: option.splits sum.splits if_splits)
qed

lemma roleCheck_users [simp]: "users (snd (roleCheck i role d)) = users d"
proof -
  obtain res d1 where l: "IsLastAdmin i d = (res, d1)" by fastforce
  then have "users d1 = users d" by (metis IsLastAdmin_state(1) snd_conv)
  with l show ?thesis by (cases res) (auto simp: roleCheck_def split: option.splits)
qed

lemma roleUpdate_users:
  "users (snd (roleUpdate i newRole d)) = users d
   \<or> users (snd (roleUpdate i newRole d)) = update_where (\<lambda>u. us_id u = i) (\<lambda>u. u\<lparr>us_role := newRole\<rparr>) (users d)"
  by (simp add: roleUpdate_def sql_def Let_def)

lemma passwordUpdate_users:
  "\<exists>f. users (snd (passwordUpdate B i pw d)) = map f (users d) \<and> (\<forall>u. us_role (f u) = us_role u \<and> us_id (f u) = us_id u)"
proof -
  have "\<exists>hash. users (snd (passwordUpdate B i pw d)) = users d
      \<or> users (snd (passwordUpdate B i pw d)) = map (\<lambda>u. if us_id u = i then u\<lparr>us_password_hash := hash\<rparr> else u) (users d)"
  proof (cases "HashPassword B (TrimSpace pw)")
    case (Inl e)
    then show ?thesis by (simp add: passwordUpdate_def Let_def)
  next
    case (Inr hash)
    then show ?thesis
      by (intro exI [of _ hash]) (simp add: passwordUpdate_def sql_def Let_def update_where_def)
  qed
  then show ?thesis
  proof (elim exE disjE)
    fix hash
    assume "users (snd (passwordUpdate B i pw d)) = users d"
    then show ?thesis by (intro exI [of _ "\<lambda>u. u"]) simp
  next
    fix hash
    assume "users (snd (passwordUpdate B i pw d)) = map (\<lambda>u. if us_id u = i then u\<lparr>us_password_hash := hash\<rparr> else u) (users d)"
    then show ?thesis
      by (intro exI [of _ "\<lambda>u. if us_id u = i then u\<lparr>us_password_hash := hash\<rparr> else u"]) simp
  qed
qed

text \<open>A table in which every row keeps its id, and some row other than \<open>i\<close> is an administrator.\<close>

lemma has_admin_roleUpdate:
  assumes "newRole = ''admin'' \<or> (\<exists>u \<in> set (users d). us_role u = ''admin'' \<and> us_id u \<noteq> i)" and "has_admin d"
  shows "has_admin (snd (roleUpdate i newRole d))"
  using roleUpdate_users [of i newRole d]
proof
  assume "users (snd (roleUpdate i newRole d)) = users d"
  with assms(2) show ?thesis by (simp add: has_admin_def)
next
  assume u: "users (snd (roleUpdate i newRole d)) = update_where (\<lambda>u. us_id u = i) (\<lambda>u. u\<lparr>us_role := newRole\<rparr>) (users d)"
  from assms(1) show ?thesis
  proof
    assume "newRole = ''admin''"
    with u assms(2) show ?thesis by (force simp: has_admin_def update_where_def)
  next
    assume "\<exists>u \<in> set (users d). us_role u = ''admin'' \<and> us_id u \<noteq> i"
    with u show ?thesis by (force simp: has_admin_def update_where_def)
  qed
qed

lemma patchRole_admin:
  assumes "wf_users d" and "has_admin d"
  shows "has_admin (snd (patchRole i role d))"
proof (cases role)
  case None
  with assms show ?thesis by (simp add: patchRole_def)
next
  case (Some rl)
  obtain res d1 where c: "roleCheck i rl d = (res, d1)" by fastforce
  show ?thesis
  proof (cases res)
    case (Inl e)
    have "users d1 = users d" using c roleCheck_users [of i rl d] by simp
    with Some c Inl assms(2) show ?thesis by (simp add: patchRole_def has_admin_def)
  next
    case (Inr newRole)
    with c have r: "users d1 = users d" "newRole = ''admin'' \<or> (\<exists>d''. IsLastAdmin i d = (Inr False, d''))"
      using roleCheck_Inr by blast+
    then have "newRole = ''admin'' \<or> (\<exists>u \<in> set (users d1). us_role u = ''admin'' \<and> us_id u \<noteq> i)"
      using IsLastAdmin_False [OF _ assms] by auto
    moreover have "has_admin d1" using r assms(2) by (simp add: has_admin_def)
    ultimately have "has_admin (snd (roleUpdate i newRole d1))" by (rule has_admin_roleUpdate)
    with Some c Inr show ?thesis by (simp add: patchRole_def)
  qed
qed

lemma has_admin_passwordUpdate: "has_admin d \<Longrightarrow> has_admin (snd (passwordUpdate B i pw d))"
  using passwordUpdate_users [of B i pw d] by (auto simp: has_admin_def)

text \<open>What a request can do to the database, per route.\<close>

lemma handlePatch_state:
  "snd (users_handlePatch L B A r d) = d
   \<or> (\<exists>i role. snd (users_handlePatch L B A r d) = snd (patchRole i role d))
   \<or> (\<exists>i role pw. snd (users_handlePatch L B A r d) = snd (passwordUpdate B i pw (snd (patchRole i role d))))"
  unfolding users_handlePatch_def
  by (auto split: sum.splits option.splits prod.splits) (metis snd_conv)+

lemma handleDelete_state:
  "snd (users_handleDelete L A r d) = d
   \<or> (\<exists>i. snd (users_handleDelete L A r d) = snd (IsLastAdmin i d))
   \<or> (\<exists>i d'. IsLastAdmin i d = (Inr False, d') \<and> snd (users_handleDelete L A r d) = snd (sql (deleteUserRow i) d'))"
  unfolding users_handleDelete_def
  by (auto split: sum.splits option.splits prod.splits) (metis snd_conv)+

lemma handleCreate_state:
  "snd (users_handleCreate L B A r d) = d
   \<or> (\<exists>u h role. snd (users_handleCreate L B A r d) = snd (sql (insertUserRow u h role) d))"
  unfolding users_handleCreate_def Let_def
  by (auto split: sum.splits option.splits prod.splits) (metis snd_conv)+

lemma has_admin_deleteUserRow:
  assumes "IsLastAdmin i d = (Inr False, d')" and "wf_users d" and "has_admin d"
  shows "has_admin (snd (sql (deleteUserRow i) d'))"
proof -
  have "users d' = users d" using assms(1) IsLastAdmin_state(1) [of i d] by simp
  with IsLastAdmin_False [OF assms] show ?thesis
    by (auto simp: has_admin_def sql_def Let_def deleteUserRow_def)
qed

lemma has_admin_insertUserRow: "has_admin d \<Longrightarrow> has_admin (snd (sql (insertUserRow u h role) d))"
  by (auto simp: has_admin_def sql_def Let_def insertUserRow_def uuid_used_def)

lemma has_admin_cong: "users d' = users d \<Longrightarrow> has_admin d' = has_admin d"
  by (simp add: has_admin_def)

section \<open>Properties\<close>

text \<open>C3: one request at a time, the dashboard never loses its last administrator: creating, changing
  and deleting accounts keeps at least one admin, whatever the request, the role it asks for and the
  database failures on the way.\<close>

theorem last_admin_kept:
  assumes "wf_users d" and "has_admin d"
  shows "has_admin (snd (users_handleCreate L B A r d)) \<and> has_admin (snd (users_handlePatch L B A r d))
    \<and> has_admin (snd (users_handleDelete L A r d))"
proof (intro conjI)
  show "has_admin (snd (users_handleCreate L B A r d))"
    using handleCreate_state [of L B A r d] assms(2) by (auto simp: has_admin_insertUserRow)
  show "has_admin (snd (users_handlePatch L B A r d))"
    using handlePatch_state [of L B A r d] assms
    by (auto simp: patchRole_admin has_admin_passwordUpdate)
  show "has_admin (snd (users_handleDelete L A r d))"
    using handleDelete_state [of L A r d] assms
    by (auto simp: has_admin_deleteUserRow has_admin_cong [OF IsLastAdmin_state(1)])
qed

definition exampleUser :: "uuid \<Rightarrow> string \<Rightarrow> string \<Rightarrow> string \<Rightarrow> user" where
  "exampleUser i n h role = \<lparr>us_id = i, us_username = n, us_password_hash = h, us_role = role, us_created_at = 0\<rparr>"

theorem last_admin_kept_witness:
  "\<forall>L A r. has_admin (snd (users_handleDelete L A r (empty_db\<lparr>users := [exampleUser 1 ''root'' ''h'' ''admin'']\<rparr>)))"
  using last_admin_kept [of "empty_db\<lparr>users := [exampleUser 1 ''root'' ''h'' ''admin'']\<rparr>"]
  by (simp add: wf_users_def has_admin_def exampleUser_def empty_db_def)

text \<open>With two administrators the check passes for each of them, and the update demotes.\<close>

lemma roleCheck_two_admins:
  assumes "wf_users d" and "\<forall>n. \<not> fault_at d n" and "a \<noteq> b"
    and "us_id ` {u \<in> set (users d). us_role u = ''admin''} = {a, b}" and "c \<in> {a, b}"
  shows "roleCheck c ''viewer'' d = (Inr ''viewer'', d\<lparr>stmt_no := stmt_no d + 2\<rparr>)"
proof -
  let ?adm = "filter (\<lambda>u. us_role u = ''admin'') (users d)"
  have "card (us_id ` set ?adm) = 2" using assms(3,4) by simp
  moreover have "distinct (map us_id ?adm)" using assms(1) by (simp add: wf_users_def distinct_map inj_on_def)
  ultimately have two: "length ?adm = 2"
    using distinct_card [of "map us_id ?adm"] by simp
  have parse: "ParseRole ''viewer'' = Some ''viewer''" by code_simp
  from assms(4,5) obtain x where x: "x \<in> set (users d)" "us_role x = ''admin''" "us_id x = c" by force
  then have "find (\<lambda>u. us_id u = c) (users d) = Some x"
    using find_distinct_id [of us_id "users d" x] assms(1) by (simp add: wf_users_def)
  with x two assms(2) parse show ?thesis
    by (simp add: roleCheck_def IsLastAdmin_def CountAdmins_def query_def query_row_def sql_def Let_def)
qed

lemma roleUpdate_demotes:
  assumes "c \<in> us_id ` set (users d)" and "\<forall>n. \<not> fault_at d n"
  shows "roleUpdate c ''viewer'' d
    = (Inr (), d\<lparr>stmt_no := Suc (stmt_no d), users := update_where (\<lambda>u. us_id u = c) (\<lambda>u. u\<lparr>us_role := ''viewer''\<rparr>) (users d)\<rparr>)"
  using assms by (auto simp: roleUpdate_def sql_def Let_def affected_0)

text \<open>Two requests that interleave between the last-admin check and the update do lose it: from any
  state with exactly two administrators, demoting each of them in two overlapping requests passes both
  checks and leaves no administrator.\<close>

theorem concurrent_demotion_loses_admins:
  assumes "wf_users d" and "\<forall>n. \<not> fault_at d n" and "a \<noteq> b"
    and "us_id ` {u \<in> set (users d). us_role u = ''admin''} = {a, b}"
  shows "\<exists>d1 d2 d3 d4. roleCheck a ''viewer'' d = (Inr ''viewer'', d1) \<and> roleCheck b ''viewer'' d1 = (Inr ''viewer'', d2)
    \<and> roleUpdate a ''viewer'' d2 = (Inr (), d3) \<and> roleUpdate b ''viewer'' d3 = (Inr (), d4)
    \<and> \<not> has_admin d4"
proof -
  let ?demote = "\<lambda>c. update_where (\<lambda>u. us_id u = c) (\<lambda>u. u\<lparr>us_role := ''viewer''\<rparr>)"
  define d1 where "d1 = d\<lparr>stmt_no := stmt_no d + 2\<rparr>"
  define d2 where "d2 = d1\<lparr>stmt_no := stmt_no d1 + 2\<rparr>"
  define d3 where "d3 = d2\<lparr>stmt_no := Suc (stmt_no d2), users := ?demote a (users d2)\<rparr>"
  define d4 where "d4 = d3\<lparr>stmt_no := Suc (stmt_no d3), users := ?demote b (users d3)\<rparr>"
  note defs = d1_def d2_def d3_def d4_def
  have c1: "roleCheck a ''viewer'' d = (Inr ''viewer'', d1)"
    unfolding d1_def by (rule roleCheck_two_admins [OF assms]) simp
  have c2: "roleCheck b ''viewer'' d1 = (Inr ''viewer'', d2)"
    unfolding d2_def by (rule roleCheck_two_admins [of d1 a b]) (use assms in \<open>simp_all add: d1_def wf_users_def\<close>)
  have ex: "c \<in> us_id ` set (users d)" if "c \<in> {a, b}" for c
  proof -
    have "c \<in> us_id ` {u \<in> set (users d). us_role u = ''admin''}" using that assms(4) by simp
    then show ?thesis by blast
  qed
  have u1: "roleUpdate a ''viewer'' d2 = (Inr (), d3)"
    unfolding d3_def by (rule roleUpdate_demotes) (use ex assms(2) in \<open>simp_all add: defs\<close>)
  have "map us_id (users d3) = map us_id (users d)" by (simp add: defs map_update_where)
  then have "us_id ` set (users d3) = us_id ` set (users d)" by (metis set_map)
  then have u2: "roleUpdate b ''viewer'' d3 = (Inr (), d4)"
    unfolding d4_def by (intro roleUpdate_demotes) (use ex assms(2) in \<open>simp_all add: defs\<close>)
  have "us_role u \<noteq> ''admin''" if "u \<in> set (users d)" and "us_id u \<noteq> a" and "us_id u \<noteq> b" for u
    using that assms(4) by blast
  then have "\<not> has_admin d4" by (auto simp: has_admin_def defs update_where_def)
  with c1 c2 u1 u2 show ?thesis by blast
qed

theorem concurrent_demotion_loses_admins_witness:
  "\<exists>d4. \<not> has_admin d4 \<and> (\<exists>d1 d3. roleUpdate 2 ''viewer'' d3 = (Inr (), d4)
     \<and> roleCheck 1 ''viewer'' (empty_db\<lparr>users := [exampleUser 1 ''a'' ''h'' ''admin'', exampleUser 2 ''b'' ''h'' ''admin'']\<rparr>) = (Inr ''viewer'', d1))"
proof -
  let ?d = "empty_db\<lparr>users := [exampleUser 1 ''a'' ''h'' ''admin'', exampleUser 2 ''b'' ''h'' ''admin'']\<rparr>"
  have "us_id ` {u \<in> set (users ?d). us_role u = ''admin''} = {1, 2}"
    unfolding set_filter [symmetric] by (simp add: exampleUser_def empty_db_def)
  moreover have "wf_users ?d" "\<forall>n. \<not> fault_at ?d n" "(1 :: uuid) \<noteq> 2"
    by (simp_all add: wf_users_def exampleUser_def empty_db_def)
  ultimately show ?thesis using concurrent_demotion_loses_admins [of ?d 1 2] by blast
qed

section \<open>Who may change accounts\<close>

lemma RequireMinRole_Inr:
  assumes "RequireMinRole L A t r minRole = Inr p"
  shows "DashboardOriginOK r (da_Origins A) \<and> HasAtLeast (p_Role p) minRole
    \<and> (rq_Principal r = Some p \<or> JWT_Parse L (da_JWT A) t (DashboardBearerToken r) = Inr p)"
proof -
  from assms obtain p' where "RequirePrincipal L A t r = Inr p'" "HasAtLeast (p_Role p') minRole" "p' = p"
    by (auto simp: RequireMinRole_def split: sum.splits if_splits)
  then show ?thesis
    by (auto simp: RequirePrincipal_def Let_def split: if_splits option.splits sum.splits)
qed

lemma RequireMinRole_Inl: "RequireMinRole L A t r minRole = Inl e \<Longrightarrow> resp_status e \<in> {401, 403}"
  by (auto simp: RequireMinRole_def RequirePrincipal_def Let_def split: if_splits option.splits sum.splits)

lemma HasAtLeast_admin: "HasAtLeast role ''admin'' \<longleftrightarrow> ParseRole role = Some ''admin''"
proof -
  have "ParseRole ''admin'' = Some ''admin''" by code_simp
  then have "RoleRank ''admin'' = 3" by (simp add: RoleRank_def)
  then show ?thesis by (auto simp: HasAtLeast_def Let_def RoleRank_def split: option.splits)
qed

lemma users_change_needs_role:
  assumes "users (snd (users_handleCreate L B A r d)) \<noteq> users d \<or> users (snd (users_handlePatch L B A r d)) \<noteq> users d
    \<or> users (snd (users_handleDelete L A r d)) \<noteq> users d"
  shows "\<exists>p. RequireMinRole L A (now d) r ''admin'' = Inr p"
proof (rule ccontr)
  assume "\<not> ?thesis"
  then obtain e where "RequireMinRole L A (now d) r ''admin'' = Inl e"
    by (cases "RequireMinRole L A (now d) r ''admin''") auto
  with assms show False
    by (simp add: users_handleCreate_def users_handlePatch_def users_handleDelete_def split: if_splits)
qed

lemma DashboardRBACMiddleware_Inr:
  assumes "DashboardRBACMiddleware L A t r = Inr r'"
  shows "r' = r \<or> (\<exists>p. r' = r\<lparr>rq_Principal := Some p\<rparr> \<and> JWT_Parse L (da_JWT A) t (DashboardBearerToken r) = Inr p)"
  using assms by (auto simp: DashboardRBACMiddleware_def Let_def split: if_splits sum.splits)

lemma request_principal_simps [simp]:
  "DashboardOriginOK (r\<lparr>rq_Principal := p\<rparr>) os = DashboardOriginOK r os"
  "DashboardBearerToken (r\<lparr>rq_Principal := p\<rparr>) = DashboardBearerToken r"
  by (simp_all add: DashboardOriginOK_def DashboardBearerToken_def Let_def)

text \<open>C28: behind the RBAC middleware, an account is created, changed or deleted only for a request from
  an allowed origin whose bearer token verifies and names the role admin.\<close>

theorem account_change_needs_admin_token:
  assumes "rq_Principal r = None" and "DashboardRBACMiddleware L A (now d) r = Inr r'"
    and "users (snd (users_handleCreate L B A r' d)) \<noteq> users d \<or> users (snd (users_handlePatch L B A r' d)) \<noteq> users d
      \<or> users (snd (users_handleDelete L A r' d)) \<noteq> users d"
  shows "DashboardOriginOK r (da_Origins A)
    \<and> (\<exists>p. JWT_Parse L (da_JWT A) (now d) (DashboardBearerToken r) = Inr p \<and> ParseRole (p_Role p) = Some ''admin'')"
proof -
  obtain p where p: "RequireMinRole L A (now d) r' ''admin'' = Inr p"
    using users_change_needs_role [OF assms(3)] by blast
  from RequireMinRole_Inr [OF p] DashboardRBACMiddleware_Inr [OF assms(2)] assms(1)
  show ?thesis by (auto simp: HasAtLeast_admin)
qed

text \<open>No route under \<open>/v1/install\<close> is public: without a token the middleware answers every method but
  OPTIONS with 401.\<close>

theorem install_routes_need_token:
  assumes "HasPrefix (rq_Path r) ''/v1/install''" and "HasPrefix (rq_Path r) ''/v1/''" and "rq_Method r \<noteq> ''OPTIONS''"
    and "DashboardOriginOK r (da_Origins A)" and "DashboardBearerToken r = ''''"
  shows "DashboardRBACMiddleware L A t r = Inl (RespError 401 (Err ''missing token''))"
proof -
  obtain s where s: "rq_Path r = ''/v1/install'' @ s" using assms(1) by (auto simp: prefix_def)
  have "\<not> dashboardRBACPublic (rq_Method r) (rq_Path r)"
    by (auto simp: dashboardRBACPublic_def s prefix_def)
  with assms show ?thesis by (simp add: DashboardRBACMiddleware_def Let_def)
qed

section \<open>Logging in\<close>

lemma find_append_None: "\<forall>x \<in> set xs. \<not> P x \<Longrightarrow> find P (xs @ ys) = find P ys"
  by (induction xs) auto

text \<open>What is relied on of the token library: a token verifies within its validity period and carries
  its claims, and has no surrounding space.\<close>

definition jwt_sound :: "JWTService \<Rightarrow> bool" where
  "jwt_sound J \<longleftrightarrow> (\<forall>c. jwt_sign J c \<noteq> None)
     \<and> (\<forall>c tok t. jwt_sign J c = Some tok \<longrightarrow> c_IssuedAt c \<le> t \<longrightarrow> t < c_ExpiresAt c \<longrightarrow> jwt_verify J t (TrimSpace tok) = Some c)"

text \<open>What is relied on of bcrypt: a hash is not empty and accepts exactly its password.\<close>

definition bcrypt_sound :: "bcrypt \<Rightarrow> bool" where
  "bcrypt_sound B \<longleftrightarrow> (\<forall>p h q. bc_Generate B p = Some h \<longrightarrow> h \<noteq> '''' \<and> (bc_Compare B h q \<longleftrightarrow> q = p))"

definition uuid_text_sound :: "lib \<Rightarrow> bool" where
  "uuid_text_sound L \<longleftrightarrow> (\<forall>u. u_parse L (TrimSpace (u_str L u)) = Some u)"

lemma ParseRole_idem: "ParseRole s = Some r \<Longrightarrow> ParseRole r = Some r"
proof -
  have "ParseRole ''admin'' = Some ''admin''" "ParseRole ''operator'' = Some ''operator''" "ParseRole ''viewer'' = Some ''viewer''"
    by code_simp+
  then show "ParseRole s = Some r \<Longrightarrow> ParseRole r = Some r"
    by (auto simp: ParseRole_def [of s] Let_def split: if_splits)
qed

lemma JWT_Issue_Parse:
  assumes "jwt_sound J" and "uuid_text_sound L" and "p_UserID p \<noteq> uuid_Nil" and "ParseRole (p_Role p) = Some role"
    and "TrimSpace (p_Username p) \<noteq> ''''"
  shows "\<exists>tok. JWT_Issue L J p t0 = Inr (tok, t0 + jwt_ttl J)
    \<and> (\<forall>t. t0 \<le> t \<longrightarrow> t < t0 + jwt_ttl J \<longrightarrow>
         JWT_Parse L J t tok = Inr \<lparr>p_UserID = p_UserID p, p_Username = TrimSpace (p_Username p), p_Role = role\<rparr>)"
proof -
  let ?c = "\<lparr>c_Username = p_Username p, c_Role = p_Role p, c_Subject = u_str L (p_UserID p), c_IssuedAt = t0, c_ExpiresAt = t0 + jwt_ttl J\<rparr>"
  have "jwt_sign J ?c \<noteq> None" using assms(1) by (simp add: jwt_sound_def)
  then obtain tok where tok: "jwt_sign J ?c = Some tok" by blast
  then have "jwt_verify J t (TrimSpace tok) = Some ?c" if "t0 \<le> t" "t < t0 + jwt_ttl J" for t
    using assms(1) that by (simp add: jwt_sound_def)
  with tok assms show ?thesis
    by (intro exI [of _ tok]) (simp add: JWT_Issue_def JWT_Parse_def uuid_text_sound_def)
qed

text \<open>A login whose user and password are right.\<close>

lemma handleLogin_ok:
  assumes "rq_Method r = ''POST''" and "DashboardOriginOK r (da_Origins A)" and "struct_object (rq_Body r) = Some m"
    and "get_string ''username'' m = Some name" and "get_string ''password'' m = Some pw"
    and "TrimSpace name \<noteq> ''''" and "pw \<noteq> ''''" and "\<not> fault_at d (stmt_no d)"
    and "userByName (TrimSpace name) d = Some u" and "CheckPassword B (us_password_hash u) pw"
    and "ParseRole (us_role u) = Some role" and "us_id u \<noteq> uuid_Nil"
    and "jwt_sound (da_JWT A)" and "uuid_text_sound L"
  shows "\<exists>tok rest. fst (handleLogin L B A r d) = RespJson 200 (JObj ((''token'', JStr tok) # rest))
    \<and> (\<forall>t. now d \<le> t \<longrightarrow> t < now d + jwt_ttl (da_JWT A) \<longrightarrow>
         JWT_Parse L (da_JWT A) t tok = Inr \<lparr>p_UserID = us_id u, p_Username = TrimSpace name, p_Role = role\<rparr>)"
proof -
  let ?p = "\<lparr>p_UserID = us_id u, p_Username = TrimSpace name, p_Role = role\<rparr>"
  obtain tok where tok: "JWT_Issue L (da_JWT A) ?p (now d) = Inr (tok, now d + jwt_ttl (da_JWT A))"
    "\<forall>t. now d \<le> t \<longrightarrow> t < now d + jwt_ttl (da_JWT A) \<longrightarrow> JWT_Parse L (da_JWT A) t tok = Inr ?p"
    using JWT_Issue_Parse [OF assms(13,14), of ?p role "now d"] assms(6,12) ParseRole_idem [OF assms(11)] by auto
  have "GetUserByUsername (TrimSpace name) d = (Inr u, d\<lparr>stmt_no := Suc (stmt_no d)\<rparr>)"
    using assms(6,8,9) by (simp add: GetUserByUsername_def query_row_def sql_def Let_def userByName_def)
  with assms tok show ?thesis by (simp add: handleLogin_def Let_def)
qed


section \<open>Instances of the parameters\<close>

text \<open>A token service that numbers the claims, and a hash that tags the password.\<close>

definition exampleSign :: "arxClaims \<Rightarrow> string" where
  "exampleSign c = nat_str (to_nat (c_Username c, c_Role c, c_Subject c, c_IssuedAt c, c_ExpiresAt c))"

definition exampleVerify :: "time \<Rightarrow> string \<Rightarrow> arxClaims option" where
  "exampleVerify t s =
     (case parse_nat s of
        None \<Rightarrow> None
      | Some n \<Rightarrow>
          (case from_nat n of (u, ro, sub, iat, ex) \<Rightarrow>
             if iat \<le> t \<and> t < ex then Some \<lparr>c_Username = u, c_Role = ro, c_Subject = sub, c_IssuedAt = iat, c_ExpiresAt = ex\<rparr>
             else None))"

definition exampleAuth :: DashboardAuth where
  "exampleAuth = \<lparr>da_JWT = \<lparr>jwt_sign = \<lambda>c. Some (exampleSign c), jwt_verify = exampleVerify, jwt_ttl = 3600\<rparr>, da_Origins = []\<rparr>"

definition exampleBcrypt :: bcrypt where
  "exampleBcrypt = \<lparr>bc_Generate = \<lambda>p. Some (CHR ''$'' # p), bc_Compare = \<lambda>h p. h = CHR ''$'' # p\<rparr>"

lemma is_digit_not_space: "is_digit c \<Longrightarrow> \<not> is_space c"
proof
  assume "is_digit c" and "is_space c"
  then show False by (auto simp: is_digit_def is_space_def Let_def)
qed

lemma TrimSpace_digits: "list_all is_digit s \<Longrightarrow> TrimSpace s = s"
  by (cases "s = []") (auto simp: list_all_iff is_digit_not_space intro!: TrimSpace_id)

lemma TrimSpace_nat_str [simp]: "TrimSpace (nat_str n) = nat_str n"
  by (rule TrimSpace_digits) (rule nat_str_digits)

lemma exampleAuth_sound: "jwt_sound (da_JWT exampleAuth)"
  by (simp add: jwt_sound_def exampleAuth_def exampleSign_def exampleVerify_def)

lemma exampleBcrypt_sound: "bcrypt_sound exampleBcrypt"
  by (auto simp: bcrypt_sound_def exampleBcrypt_def)

lemma exampleLib_sound: "uuid_text_sound exampleLib"
  by (simp add: uuid_text_sound_def exampleLib_def)

definition exampleRequest :: "string \<Rightarrow> string \<Rightarrow> json_object \<Rightarrow> request" where
  "exampleRequest method path body = \<lparr>rq_Method = method, rq_Path = path, rq_PathID = ''2'', rq_PathDevice = '''', rq_Query = (\<lambda>_. ''''), rq_Origin = '''', rq_Authorization = '''',
     rq_TokenQuery = '''', rq_XForwardedFor = '''', rq_RemoteAddr = ''10.0.0.1:80'', rq_RequestID = '''',
     rq_Body = RawDoc (JObj body), rq_Principal = None\<rparr>"

definition exampleAdmin :: Principal where
  "exampleAdmin = \<lparr>p_UserID = 1, p_Username = ''root'', p_Role = ''admin''\<rparr>"

definition adminToken :: string where
  "adminToken = exampleSign \<lparr>c_Username = ''root'', c_Role = ''admin'', c_Subject = u_str exampleLib 1, c_IssuedAt = 0, c_ExpiresAt = 3600\<rparr>"

lemma adminToken_parse: "JWT_Parse exampleLib (da_JWT exampleAuth) 0 adminToken = Inr exampleAdmin"
proof -
  have "ParseRole ''admin'' = Some ''admin''" "TrimSpace ''root'' = ''root''" by code_simp+
  then show ?thesis
    by (simp add: JWT_Parse_def adminToken_def exampleAuth_def exampleSign_def exampleVerify_def exampleLib_def exampleAdmin_def)
qed

definition createBody :: json_object where
  "createBody = [(''username'', JStr ''Ann''), (''password'', JStr '' s3cret ''), (''role'', JStr ''viewer'')]"

definition loginBody :: json_object where
  "loginBody = [(''username'', JStr ''ann''), (''password'', JStr '' s3cret '')]"

lemma exampleBody_fields:
  "get_string ''username'' createBody = Some ''Ann''" "get_string ''password'' createBody = Some '' s3cret ''"
  "get_string ''role'' createBody = Some ''viewer''" "ParseRole ''viewer'' = Some ''viewer''"
  "TrimSpace ''Ann'' = ''Ann''" "TrimSpace '' s3cret '' = ''s3cret''" "HasAtLeast ''admin'' ''admin''"
  "get_string ''username'' loginBody = Some ''ann''" "get_string ''password'' loginBody = Some '' s3cret ''"
  "ToLower (TrimSpace ''ann'') = ToLower (TrimSpace ''Ann'')" "\<not> dashboardRBACPublic ''POST'' ''/v1/users''"
  by code_simp+

lemma exampleCreate:
  assumes "rq_Principal r = Some exampleAdmin" and "rq_Method r = ''POST''" and "rq_Origin r = ''''"
    and "rq_Body r = RawDoc (JObj createBody)"
  shows "users_handleCreate exampleLib exampleBcrypt exampleAuth r empty_db
    = (RespJson 201 (JObj [(''id'', JStr ''1'')]), (uuid_used (empty_db\<lparr>stmt_no := 1\<rparr>))\<lparr>users := [exampleUser 1 ''Ann'' ''$ s3cret '' ''viewer'']\<rparr>)"
proof -
  have "nat_str 1 = ''1''" by code_simp
  with assms show ?thesis
    by (simp add: users_handleCreate_def RequireMinRole_def RequirePrincipal_def DashboardOriginOK_def exampleAdmin_def
        struct_object_def exampleBody_fields HashPassword_def exampleBcrypt_def sql_def insertUserRow_def Let_def
        empty_db_def random_uuid_def uuid_used_def exampleLib_def exampleUser_def)
qed


theorem account_change_needs_admin_token_witness:
  "\<exists>p. JWT_Parse exampleLib (da_JWT exampleAuth) 0
       (DashboardBearerToken ((exampleRequest ''POST'' ''/v1/users'' createBody)\<lparr>rq_TokenQuery := adminToken\<rparr>)) = Inr p
     \<and> ParseRole (p_Role p) = Some ''admin''"
proof -
  let ?r = "(exampleRequest ''POST'' ''/v1/users'' createBody)\<lparr>rq_TokenQuery := adminToken\<rparr>"
  have tok: "DashboardBearerToken ?r = adminToken" "adminToken \<noteq> ''''"
    by (simp_all add: DashboardBearerToken_def Let_def adminToken_def exampleSign_def exampleRequest_def)
  have n: "now empty_db = 0" by (simp add: empty_db_def)
  have o: "rq_Path ?r = ''/v1/users''" "rq_Method ?r = ''POST''" "DashboardOriginOK ?r (da_Origins exampleAuth)"
    "p_Role exampleAdmin = ''admin''" "p_UserID exampleAdmin \<noteq> 0"
    by (simp_all add: exampleRequest_def DashboardOriginOK_def exampleAdmin_def)
  have "DashboardRBACMiddleware exampleLib exampleAuth (now empty_db) ?r = Inr (?r\<lparr>rq_Principal := Some exampleAdmin\<rparr>)"
    using tok adminToken_parse exampleBody_fields(11)
    by (simp add: DashboardRBACMiddleware_def Let_def n o)
  moreover have "users (snd (users_handleCreate exampleLib exampleBcrypt exampleAuth (?r\<lparr>rq_Principal := Some exampleAdmin\<rparr>) empty_db)) \<noteq> users empty_db"
    by (subst exampleCreate) (simp_all add: exampleRequest_def empty_db_def)
  ultimately show ?thesis
    using account_change_needs_admin_token [of ?r exampleLib exampleAuth empty_db] n by (auto simp: exampleRequest_def)
qed

theorem install_routes_need_token_witness:
  "\<forall>L A t. DashboardRBACMiddleware L A t (exampleRequest ''GET'' ''/v1/install/agent.ps1'' [])
     = Inl (RespError 401 (Err ''missing token''))"
  using install_routes_need_token [of "exampleRequest ''GET'' ''/v1/install/agent.ps1'' []"]
  by (simp add: exampleRequest_def DashboardOriginOK_def DashboardBearerToken_def Let_def)

text \<open>A password set by PATCH with surrounding space is stored trimmed while login compares what was
  typed: the account can no longer log in with the password that was set.\<close>

theorem patched_password_trimmed:
  assumes patched: "passwordUpdate B i pw d = (Inr (), d')" and padded: "TrimSpace pw \<noteq> pw"
    and user: "userByName (TrimSpace name) d = Some u" "us_id u = i" and bc: "bcrypt_sound B"
    and login: "rq_Method r = ''POST''" "DashboardOriginOK r (da_Origins A)" "struct_object (rq_Body r) = Some m"
      "get_string ''username'' m = Some name" "get_string ''password'' m = Some pw" "TrimSpace name \<noteq> ''''" "pw \<noteq> ''''"
  shows "fst (handleLogin L B A r d') = RespError 401 (Err ''invalid credentials'')"
proof -
  obtain hash where h: "HashPassword B (TrimSpace pw) = Inr hash"
    using patched by (auto simp: passwordUpdate_def Let_def split: if_splits sum.splits)
  then have gen: "bc_Generate B (TrimSpace pw) = Some hash" by (auto simp: HashPassword_def split: if_splits option.splits)
  have us: "users d' = update_where (\<lambda>u. us_id u = i) (\<lambda>u. u\<lparr>us_password_hash := hash\<rparr>) (users d)"
    using patched h by (auto simp: passwordUpdate_def Let_def sql_def split: if_splits)
  have "userByName (TrimSpace name) d' = Some (u\<lparr>us_password_hash := hash\<rparr>)"
    using user find_update_where [where k = "\<lambda>x. ToLower (us_username x)" and f = "\<lambda>u :: user. u\<lparr>us_password_hash := hash\<rparr>"]
    by (simp add: userByName_def us)
  moreover have "\<not> CheckPassword B hash pw" using bc gen padded by (auto simp: CheckPassword_def bcrypt_sound_def)
  ultimately show ?thesis
    using login by (simp add: handleLogin_def GetUserByUsername_def userByName_def query_row_def sql_def Let_def)
qed

theorem patched_password_trimmed_witness:
  "fst (handleLogin exampleLib exampleBcrypt exampleAuth (exampleRequest ''POST'' ''/v1/auth/login'' loginBody)
      (snd (passwordUpdate exampleBcrypt 1 '' s3cret '' (empty_db\<lparr>users := [exampleUser 1 ''Ann'' ''x'' ''viewer'']\<rparr>))))
    = RespError 401 (Err ''invalid credentials'')"
proof -
  let ?d = "empty_db\<lparr>users := [exampleUser 1 ''Ann'' ''x'' ''viewer'']\<rparr>" and ?l = "exampleRequest ''POST'' ''/v1/auth/login'' loginBody"
  have p: "passwordUpdate exampleBcrypt 1 '' s3cret '' ?d = (Inr (), snd (passwordUpdate exampleBcrypt 1 '' s3cret '' ?d))"
    by (simp add: passwordUpdate_def Let_def exampleBody_fields HashPassword_def TrimSpace_idem [of "'' s3cret ''", unfolded exampleBody_fields]
        exampleBcrypt_def sql_def empty_db_def affected_def exampleUser_def)
  have n: "userByName (TrimSpace ''ann'') ?d = Some (exampleUser 1 ''Ann'' ''x'' ''viewer'')" "TrimSpace ''ann'' \<noteq> ''''"
    using exampleBody_fields(5,10) by (simp_all add: userByName_def exampleUser_def) (metis ToLower_eq_Nil_iff list.discI)
  have b: "struct_object (rq_Body ?l) = Some loginBody" "rq_Method ?l = ''POST''" "DashboardOriginOK ?l (da_Origins exampleAuth)"
    by (simp_all add: exampleRequest_def struct_object_def DashboardOriginOK_def)
  show ?thesis
    by (rule patched_password_trimmed [OF p _ n(1) _ exampleBcrypt_sound b(2,3,1) exampleBody_fields(8,9) n(2)])
      (simp_all add: exampleBody_fields exampleUser_def)
qed

end
