(* ===== verification/Outcomes_Facts.thy ===== *)
theory Outcomes_Facts
  imports Outcomes Compliance_Facts Users_Facts
begin

text \<open>
  Device commands end to end: an agent's messages change only rows of its own device, pending commands
  are delivered in order and marked exactly when accepted, a REST command ends as sent or failed, what an
  agent answers is what is recorded, and which dashboard messages can make an agent lock or wipe itself.
\<close>

section \<open>Reading struct fields of canonical messages\<close>

lemma filter_sort_key: "filter P (sort_key f xs) = sort_key f (filter P xs)"
  by (rule filter_sort)

lemma struct_get_sorted:
  assumes "length (filter (\<lambda>kv. EqualFold (fst kv) name \<and> snd kv \<noteq> JNull) m) \<le> 1"
  shows "struct_get name (sort_key fst m) = struct_get name m"
proof -
  let ?P = "\<lambda>kv. EqualFold (fst kv) name \<and> snd kv \<noteq> JNull"
  have "sort_key fst (filter ?P m) = filter ?P m"
    using assms by (cases "filter ?P m" rule: list.exhaust) auto
  then show ?thesis unfolding struct_get_def filter_sort_key by simp
qed

text \<open>Members are strings, numbers and truth values that the canonical form keeps.\<close>

definition flat_object :: "json_object \<Rightarrow> bool" where
  "flat_object m \<longleftrightarrow> (\<forall>kv \<in> set m. norm_json (snd kv) = snd kv)"

lemma norm_flat_object: "flat_object m \<Longrightarrow> norm_json (JObj m) = JObj (sort_key fst m)"
proof -
  assume "flat_object m"
  then have "map (\<lambda>kv. (fst kv, norm_json (snd kv))) m = m"
    by (intro map_idI) (auto simp: flat_object_def)
  then show ?thesis by simp
qed

section \<open>An agent's messages\<close>

text \<open>Every row stays at its place with its key and owner, and a row that is not selected stays as it is.\<close>

definition rows_kept :: "('r \<Rightarrow> 'k) \<Rightarrow> ('r \<Rightarrow> bool) \<Rightarrow> 'r list \<Rightarrow> 'r list \<Rightarrow> bool" where
  "rows_kept key sel rows rows' \<longleftrightarrow> (\<exists>f. rows' = map f rows \<and> (\<forall>r \<in> set rows. key (f r) = key r \<and> (sel r \<or> f r = r)))"

lemma rows_kept_refl [simp]: "rows_kept key sel rows rows"
  unfolding rows_kept_def by (intro exI [of _ "\<lambda>r. r"]) simp

lemma rows_kept_update_where: "(\<And>r. key (f r) = key r) \<Longrightarrow> (\<And>r. r \<in> set rows \<Longrightarrow> P r \<Longrightarrow> sel r) \<Longrightarrow> rows_kept key sel rows (update_where P f rows)"
  unfolding rows_kept_def update_where_def by (intro exI conjI, rule refl) auto

lemma rows_kept_trans:
  assumes "rows_kept key sel a b" and "rows_kept key sel b c" and "\<And>r r'. key r = key r' \<Longrightarrow> sel r = sel r'"
  shows "rows_kept key sel a c"
proof -
  obtain f where f: "b = map f a" "\<forall>r \<in> set a. key (f r) = key r \<and> (sel r \<or> f r = r)" using assms(1) by (auto simp: rows_kept_def)
  obtain g where g: "c = map g b" "\<forall>r \<in> set b. key (g r) = key r \<and> (sel r \<or> g r = r)" using assms(2) by (auto simp: rows_kept_def)
  have "key (g (f r)) = key r \<and> (sel r \<or> g (f r) = r)" if "r \<in> set a" for r
    using f g that assms(3) [of "f r" r] by (metis image_eqI set_map)
  then show ?thesis unfolding rows_kept_def f(1) g(1) by (intro exI [of _ "g \<circ> f"]) simp
qed

definition own_only :: "string \<Rightarrow> db \<Rightarrow> db \<Rightarrow> bool" where
  "own_only serial d e \<longleftrightarrow> assets e = assets d
     \<and> rows_kept (\<lambda>c. (dc_id c, dc_device_id c)) (\<lambda>c. assetHasSerial d (dc_device_id c) serial) (device_commands d) (device_commands e)
     \<and> rows_kept dp_asset_id (\<lambda>dp. assetHasSerial d (dp_asset_id dp) serial) (deployments d) (deployments e)
     \<and> rows_kept da_device_id (\<lambda>da. assetHasSerial d (da_device_id da) serial) (device_apps d) (device_apps e)"

lemma assetHasSerial_cong: "assets e = assets d \<Longrightarrow> assetHasSerial e i t = assetHasSerial d i t"
  by (simp add: assetHasSerial_def)

lemma own_only_same:
  "assets e = assets d \<Longrightarrow> device_commands e = device_commands d \<Longrightarrow> deployments e = deployments d \<Longrightarrow> device_apps e = device_apps d
   \<Longrightarrow> own_only serial d e"
  by (simp add: own_only_def)

lemma own_only_trans:
  assumes "own_only t a b" and "own_only t b c"
  shows "own_only t a c"
proof -
  have e: "assets b = assets a" using assms(1) by (simp add: own_only_def)
  note as = assetHasSerial_cong [OF e]
  have "rows_kept (\<lambda>c. (dc_id c, dc_device_id c)) (\<lambda>c. assetHasSerial a (dc_device_id c) t) (device_commands a) (device_commands c)"
    using assms unfolding own_only_def as by (elim conjE) (erule (1) rows_kept_trans, simp)
  moreover have "rows_kept dp_asset_id (\<lambda>dp. assetHasSerial a (dp_asset_id dp) t) (deployments a) (deployments c)"
    using assms unfolding own_only_def as by (elim conjE) (erule (1) rows_kept_trans, simp)
  moreover have "rows_kept da_device_id (\<lambda>da. assetHasSerial a (da_device_id da) t) (device_apps a) (device_apps c)"
    using assms unfolding own_only_def as by (elim conjE) (erule (1) rows_kept_trans, simp)
  ultimately show ?thesis using assms by (simp add: own_only_def)
qed

lemma Journal_tables:
  "device_commands (snd (AppendIncidentJournalForTerminalCommand L c b x y z e)) = device_commands e"
  "assets (snd (AppendIncidentJournalForTerminalCommand L c b x y z e)) = assets e"
  "deployments (snd (AppendIncidentJournalForTerminalCommand L c b x y z e)) = deployments e"
  "device_apps (snd (AppendIncidentJournalForTerminalCommand L c b x y z e)) = device_apps e"
  by (auto simp: AppendIncidentJournalForTerminalCommand_def AppendIncidentWorkNoteJSON_def query_row_def sql_def Let_def
      split: option.splits sum.splits)

lemma own_only_finish:
  assumes "distinct (map dc_id (device_commands d))" and "ownedByCertSerial i t d"
  shows "own_only t d (snd (finishDeviceCommand L st ok i out d))"
proof -
  let ?u = "updateDeviceCommandStatus i st (truncateOutput out) True d"
  obtain c where c: "c \<in> set (device_commands d)" "dc_id c = i" "assetHasSerial d (dc_device_id c) t"
    using assms(2) by (auto simp: ownedByCertSerial_def assetHasSerial_def list_ex_iff)
  have own: "assetHasSerial d (dc_device_id x) t" if "x \<in> set (device_commands d)" "dc_id x = i" for x
    using that c assms(1) by (auto simp: distinct_map dest: inj_onD)
  have u: "own_only t d (snd ?u)"
    using own by (auto simp: own_only_def updateDeviceCommandStatus_def sql_def Let_def split: option.splits intro!: rows_kept_update_where)
  obtain r1 d1 where r1: "?u = (r1, d1)" by fastforce
  obtain r2 d2 where r2: "GetDeviceCommand i uuid_Nil d1 = (r2, d2)" by fastforce
  then have d2: "d2 = d1\<lparr>stmt_no := Suc (stmt_no d1)\<rparr>" by (metis GetDeviceCommand_state snd_conv)
  have "own_only t d1 (snd (finishDeviceCommand L st ok i out d))"
    using r1 r2 d2 by (cases r1; cases r2) (auto simp: finishDeviceCommand_def Journal_tables intro!: own_only_same)
  with u r1 show ?thesis by (auto intro: own_only_trans)
qed

lemma humanIDByCertSerial_own: "own_only t e (snd (humanIDByCertSerial x e))"
  by (rule own_only_same) (simp_all add: humanIDByCertSerial_def Let_def)

lemma own_only_CommandOutcome:
  assumes "distinct (map dc_id (device_commands d))"
  shows "own_only (TrimSpace s) d (fst (snd (ApplyDeviceCommandOutcome L s raw (d, dash))))"
proof (cases "decodeCommandResult raw")
  case None
  then show ?thesis by (simp add: ApplyDeviceCommandOutcome_def own_only_same)
next
  case (Some p)
  show ?thesis
  proof (cases "TrimSpace (cr_Type p) = ''device_command_result'' \<and> TrimSpace (cr_CommandID p) \<noteq> '''' \<and> u_parse L (TrimSpace (cr_CommandID p)) \<noteq> None")
    case False
    with Some show ?thesis by (auto simp: ApplyDeviceCommandOutcome_def own_only_same)
  next
    case True
    then obtain i where i: "u_parse L (TrimSpace (cr_CommandID p)) = Some i" by blast
    let ?d1 = "d\<lparr>stmt_no := Suc (stmt_no d)\<rparr>"
    have s1: "own_only t d ?d1" for t by (rule own_only_same) simp_all
    show ?thesis
    proof (cases "\<not> fault_at d (stmt_no d) \<and> ownedByCertSerial i (TrimSpace s) d")
      case False
      have "ownedByCertSerial i (TrimSpace s) ?d1 = ownedByCertSerial i (TrimSpace s) d" by (simp add: ownedByCertSerial_def)
      with False Some True i have "fst (snd (ApplyDeviceCommandOutcome L s raw (d, dash))) = ?d1"
        by (auto simp: ApplyDeviceCommandOutcome_def DeviceCommandOwnedByCertSerial_def query_def sql_def Let_def)
      with s1 show ?thesis by simp
    next
      case owned: True
      then have o: "ownedByCertSerial i (TrimSpace s) ?d1" by (simp add: ownedByCertSerial_def)
      let ?r = "if cr_OK p then CompleteDeviceCommand L i (resultOutput p) ?d1 else FailDeviceCommand L i (resultOutput p) ?d1"
      have f: "own_only (TrimSpace s) d (snd ?r)"
        using own_only_trans [OF s1 own_only_finish [OF _ o]] assms by (simp add: CompleteDeviceCommand_def FailDeviceCommand_def)
      obtain r d2 where r: "?r = (r, d2)" by fastforce
      obtain r3 d3 where h: "humanIDByCertSerial (TrimSpace s) d2 = (r3, d3)" by fastforce
      have o2: "own_only (TrimSpace s) d d2" using f r by simp
      have o3: "own_only (TrimSpace s) d d3" using own_only_trans [OF o2 humanIDByCertSerial_own [of _ d2 "TrimSpace s"]] h by simp
      have own: "DeviceCommandOwnedByCertSerial i (TrimSpace s) d = (Inr True, ?d1)"
        using owned o by (simp add: DeviceCommandOwnedByCertSerial_def query_def sql_def Let_def)
      have "fst (snd (ApplyDeviceCommandOutcome L s raw (d, dash))) \<in> {d2, d3}"
        using Some True i own r h by (cases "cr_OK p"; cases r; cases r3) (simp_all add: ApplyDeviceCommandOutcome_def)
      then show ?thesis using o2 o3 by auto
    qed
  qed
qed

lemma own_only_sql: "own_only t (d\<lparr>stmt_no := Suc (stmt_no d)\<rparr>) (snd (f (d\<lparr>stmt_no := Suc (stmt_no d)\<rparr>))) \<Longrightarrow> own_only t d (snd (sql f d))"
proof -
  have s1: "own_only t d (d\<lparr>stmt_no := Suc (stmt_no d)\<rparr>)" by (rule own_only_same) simp_all
  assume "own_only t (d\<lparr>stmt_no := Suc (stmt_no d)\<rparr>) (snd (f (d\<lparr>stmt_no := Suc (stmt_no d)\<rparr>)))"
  with own_only_trans [OF s1] s1 show ?thesis by (simp add: sql_def Let_def)
qed

lemma own_only_PackageOutcome: "own_only (TrimSpace s) d (snd (ApplyPackageDeploymentOutcome L s raw d))"
proof -
  have "own_only (TrimSpace s) d (snd (sql (\<lambda>d. (Inr (), d\<lparr>deployments := update_where
      (\<lambda>dp. dp_id dp = i \<and> assetHasSerial d (dp_asset_id dp) (TrimSpace s))
      (\<lambda>dp. dp\<lparr>dp_status := st, dp_error_message := er, dp_updated_at := now d\<rparr>) (deployments d)\<rparr>)) d))" for i st er
    by (rule own_only_sql) (auto simp: own_only_def intro!: rows_kept_update_where)
  then show ?thesis
    by (auto simp: ApplyPackageDeploymentOutcome_def Let_def own_only_same split: option.splits)
qed

lemma own_only_InstallOutcome: "own_only (TrimSpace s) d (snd (ApplyInstallAppOutcome L s raw d))"
proof -
  have "own_only (TrimSpace s) d (snd (sql (\<lambda>d. (Inr (), d\<lparr>device_apps := update_where
      (\<lambda>da. da_app_id da = i \<and> assetHasSerial d (da_device_id da) (TrimSpace s))
      (\<lambda>da. da\<lparr>da_status := st, da_error_message := er, da_last_updated := now d\<rparr>) (device_apps d)\<rparr>)) d))" for i st er
    by (rule own_only_sql) (auto simp: own_only_def intro!: rows_kept_update_where)
  then show ?thesis
    by (auto simp: ApplyInstallAppOutcome_def Let_def own_only_same split: option.splits)
qed

lemma own_only_uplink: "own_only t d (fst (snd (tryBroadcastAgentUplink s data (d, dash))))"
proof -
  obtain r d1 where h: "humanIDByCertSerial s d = (r, d1)" by fastforce
  have "own_only t d d1" using humanIDByCertSerial_own [of t d s] by (simp add: h)
  then show ?thesis
    by (cases r) (auto simp: tryBroadcastAgentUplink_def h own_only_same split: option.splits)
qed

lemma own_only_ids: "own_only t d e \<Longrightarrow> map dc_id (device_commands e) = map dc_id (device_commands d)"
  by (auto simp: own_only_def rows_kept_def)


definition exampleResult :: raw_json where
  "exampleResult = RawDoc (JObj [(''type'', JStr ''device_command_result''), (''command_id'', JStr ''2''), (''ok'', JBool True), (''output'', JStr ''pong'')])"


section \<open>Delivery of pending commands\<close>

lemma MarkDeviceCommandSent_rows:
  assumes "\<forall>n. \<not> fault_at d n"
  shows "snd (MarkDeviceCommandSent i d) = d\<lparr>stmt_no := Suc (stmt_no d), device_commands :=
      map (\<lambda>c. if dc_id c = i then c\<lparr>dc_status := ''sent'', dc_output := ''''\<rparr> else c) (device_commands d)\<rparr>"
proof -
  have "validateDeviceCommandStatus ''sent'' = None" by code_simp
  with assms show ?thesis
    by (simp add: MarkDeviceCommandSent_def updateDeviceCommandStatus_def sql_def Let_def update_where_def)
qed

text \<open>The table with some commands marked as sent.\<close>

definition markedSent :: "uuid set \<Rightarrow> device_command list \<Rightarrow> device_command list" where
  "markedSent ids = map (\<lambda>c. if dc_id c \<in> ids then c\<lparr>dc_status := ''sent'', dc_output := ''''\<rparr> else c)"

definition downlinkOf :: "lib \<Rightarrow> device_command \<Rightarrow> json" where
  "downlinkOf L c = norm_json (commandDownlink L (dc_id c) (dc_command_type c) (dc_payload c))"

lemma markedSent_insert: "markedSent ids (map (\<lambda>c. if dc_id c = i then c\<lparr>dc_status := ''sent'', dc_output := ''''\<rparr> else c) cs) = markedSent (insert i ids) cs"
  by (simp add: markedSent_def)

context c2_dispatcher
begin

lemma flushRows_delivers:
  assumes "live w" and "\<forall>n. \<not> fault_at d n" and "flushRows L dispatch s cmds (d, w) = (d', w')"
  shows "\<exists>sent. subseq sent cmds \<and> queued w' (TrimSpace s) = queued w (TrimSpace s) @ map (downlinkOf L) sent
    \<and> (\<forall>t. t \<noteq> TrimSpace s \<longrightarrow> queued w' t = queued w t) \<and> device_commands d' = markedSent (dc_id ` set sent) (device_commands d)"
  using assms
proof (induction cmds arbitrary: d w)
  case Nil
  then show ?case by (auto simp: markedSent_def)
next
  case (Cons c cmds)
  obtain ok w1 where k: "dispatch s (commandDownlink L (dc_id c) (dc_command_type c) (dc_payload c)) w = (ok, w1)" by fastforce
  define d1 where "d1 = (if ok then snd (MarkDeviceCommandSent (dc_id c) d) else d)"
  have "live w1" using dispatch_live [OF Cons.prems(1)] k by (metis snd_conv)
  moreover have "\<forall>n. \<not> fault_at d1 n" using Cons.prems(2) by (simp add: d1_def MarkDeviceCommandSent_rows)
  moreover have "flushRows L dispatch s cmds (d1, w1) = (d', w')" using Cons.prems(3) k by (simp add: d1_def)
  ultimately obtain sent where sent: "subseq sent cmds" "queued w' (TrimSpace s) = queued w1 (TrimSpace s) @ map (downlinkOf L) sent"
    "\<forall>t. t \<noteq> TrimSpace s \<longrightarrow> queued w' t = queued w1 t" "device_commands d' = markedSent (dc_id ` set sent) (device_commands d1)"
    using Cons.IH by blast
  note q = dispatch_queued [OF Cons.prems(1) k]
  show ?case
  proof (cases ok)
    case False
    with sent q show ?thesis by (intro exI [of _ sent]) (auto simp: d1_def intro: list_emb_Cons)
  next
    case True
    have "device_commands d' = markedSent (dc_id ` set (c # sent)) (device_commands d)"
      using sent(4) True by (simp add: d1_def MarkDeviceCommandSent_rows [OF Cons.prems(2)] markedSent_insert)
    with True sent q show ?thesis
      by (intro exI [of _ "c # sent"]) (auto simp: downlinkOf_def)
  qed
qed

end



section \<open>What a dashboard client can make an agent do\<close>

lemma DispatchJSONByHumanID_queued:
  assumes "wf_registry h" and "DispatchJSONByHumanID target payload (d, h) = (r, d', h')"
  shows "hub_queued h' t = hub_queued h t \<or> hub_queued h' t = hub_queued h t @ [norm_json payload]"
proof -
  have "h' = h \<or> (\<exists>s. h' = snd (DispatchJSON s payload h))"
    using assms(2) unfolding DispatchJSONByHumanID_def Let_def
    by (auto split: if_splits prod.splits sum.splits sql_error.splits bool.splits) (metis snd_conv)+
  moreover have "hub_queued (snd (DispatchJSON s payload h)) t = hub_queued h t
      \<or> hub_queued (snd (DispatchJSON s payload h)) t = hub_queued h t @ [norm_json payload]" for s
    using DispatchJSON_queued [OF assms(1), of s payload "fst (DispatchJSON s payload h)" "snd (DispatchJSON s payload h)" t] by auto
  ultimately show ?thesis by auto
qed

text \<open>The agent reads the canonical form of an object as the server read the object, if no two members have
  names that differ only in case.\<close>

lemma distinct_in_singleton: "distinct xs \<Longrightarrow> set xs \<subseteq> {a} \<Longrightarrow> length xs \<le> 1"
  by (cases xs rule: remdups_adj.cases) auto

lemma struct_get_norm:
  assumes "distinct (map (\<lambda>kv. ToLower (fst kv)) m)"
  shows "struct_get name (sort_key fst (map (\<lambda>kv. (fst kv, norm_json (snd kv))) m)) = map_option norm_json (struct_get name m)"
proof -
  let ?n = "\<lambda>kv :: string \<times> json. (fst kv, norm_json (snd kv))"
  let ?P = "\<lambda>kv :: string \<times> json. EqualFold (fst kv) name \<and> snd kv \<noteq> JNull"
  have nn: "norm_json v = JNull \<longleftrightarrow> v = JNull" for v by (cases v) auto
  have one: "length (filter ?P m) \<le> 1"
  proof -
    have "distinct (map (\<lambda>kv. ToLower (fst kv)) (filter ?P m))" using assms by (simp add: distinct_map inj_on_def)
    moreover have "set (map (\<lambda>kv. ToLower (fst kv)) (filter ?P m)) \<subseteq> {ToLower name}" by (auto simp: EqualFold_def)
    ultimately have "length (map (\<lambda>kv. ToLower (fst kv)) (filter ?P m)) \<le> 1" by (rule distinct_in_singleton)
    then show ?thesis by simp
  qed
  have f: "filter ?P (map ?n m) = map ?n (filter ?P m)" by (simp add: filter_map comp_def nn)
  with one have "length (filter ?P (map ?n m)) \<le> 1" by simp
  then have "struct_get name (sort_key fst (map ?n m)) = struct_get name (map ?n m)" by (rule struct_get_sorted)
  also have "\<dots> = map_option norm_json (struct_get name m)"
    using one unfolding struct_get_def f by (cases "filter ?P m" rule: list.exhaust) (auto split: list.splits)
  finally show ?thesis .
qed

lemma get_string_norm:
  "distinct (map (\<lambda>kv. ToLower (fst kv)) m) \<Longrightarrow> get_string name (sort_key fst (map (\<lambda>kv. (fst kv, norm_json (snd kv))) m)) = get_string name m"
  using struct_get_norm [of m name] by (cases "struct_get name m") (auto simp: get_string_def split: json.splits)

lemma get_bool_norm:
  "distinct (map (\<lambda>kv. ToLower (fst kv)) m) \<Longrightarrow> get_bool name (sort_key fst (map (\<lambda>kv. (fst kv, norm_json (snd kv))) m)) = get_bool name m"
  using struct_get_norm [of m name] by (cases "struct_get name m") (auto simp: get_bool_def split: json.splits)

lemma get_string_delete:
  assumes "\<not> EqualFold k name"
  shows "get_string name (AList.delete k m) = get_string name m"
proof -
  have "filter (\<lambda>kv. EqualFold (fst kv) name \<and> snd kv \<noteq> JNull) (AList.delete k m) = filter (\<lambda>kv. EqualFold (fst kv) name \<and> snd kv \<noteq> JNull) m"
    using assms unfolding AList.delete_eq filter_filter by (intro filter_cong) auto
  then show ?thesis by (simp add: get_string_def struct_get_def)
qed

lemma handleDownlink_action: "handleDownlink (RawDoc (norm_json (JObj [(''action'', JStr a)]))) = handleDownlink (RawDoc (JObj [(''action'', JStr a)]))"
  by simp

lemma handleDownlink_passThrough:
  assumes "distinct (map (\<lambda>kv. ToLower (fst kv)) m)" and "get_string ''action'' m = Some a" and "TrimSpace (ToLower a) \<in> set passThroughActions"
  shows "handleDownlink (RawDoc (norm_json (JObj (AList.delete ''target_arx_id'' m)))) \<notin> {AgentLock, AgentWipe}"
proof -
  have "\<not> EqualFold ''target_arx_id'' ''action''" by code_simp
  then have g: "get_string ''action'' (AList.delete ''target_arx_id'' m) = Some a" using assms(2) by (simp add: get_string_delete)
  have "distinct (map (\<lambda>kv. ToLower (fst kv)) (AList.delete ''target_arx_id'' m))"
    using assms(1) by (simp add: AList.delete_eq distinct_map_filter)
  then have "get_string ''action'' (sort_key fst (map (\<lambda>kv. (fst kv, norm_json (snd kv))) (AList.delete ''target_arx_id'' m))) = Some a"
    using g by (simp add: get_string_norm)
  with assms(3) show ?thesis by (auto simp: handleDownlink_def struct_object_def Let_def)
qed

lemma dashDispatch_queued:
  assumes "wf_registry h" and "dashDispatch L r p action target payload (d, h) = (res, d', h')"
  shows "hub_queued h' t = hub_queued h t \<or> hub_queued h' t = hub_queued h t @ [norm_json payload]"
proof -
  obtain x d1 h1 where x: "DispatchJSONByHumanID target payload (d, h) = (x, d1, h1)" by (metis prod_cases3)
  with assms(2) have "h' = h1" by (cases x) (auto simp: dashDispatch_def)
  with DispatchJSONByHumanID_queued [OF assms(1) x] show ?thesis by simp
qed

text \<open>C35: a dashboard client without the admin role cannot make an agent lock or wipe its device, as long as
  its message has no two members whose names differ only in case: every message it gets queued for
  any agent makes the agent do something else.\<close>

theorem dashboard_no_lock_or_wipe:
  assumes "wf_registry h" and "p_Role p \<noteq> ''admin''" and "distinct (map (\<lambda>kv. ToLower (fst kv)) m)"
    and "dashboardMessage L r p (RawDoc (JObj m)) (d, h) = (res, d', h')"
  shows "\<forall>t. hub_queued h' t = hub_queued h t
    \<or> (\<exists>msg. hub_queued h' t = hub_queued h t @ [msg] \<and> handleDownlink (RawDoc msg) \<notin> {AgentLock, AgentWipe})"
proof
  fix t
  have sd: "handleDownlink (RawDoc (norm_json (JObj [(''action'', JStr ''shutdown'')]))) = AgentShutdown" by code_simp
  consider "h' = h" | tg where "dashDispatch L r p ''shutdown'' tg (JObj [(''action'', JStr ''shutdown'')]) (d, h) = (res, d', h')"
    | a tg where "get_string ''action'' m = Some a" "TrimSpace (ToLower a) \<in> set passThroughActions"
      "dashDispatch L r p (TrimSpace (ToLower a)) tg (JObj (AList.delete ''target_arx_id'' m)) (d, h) = (res, d', h')"
    using assms(2,4) by (auto simp: dashboardMessage_def struct_object_def Let_def split: option.splits if_splits)
  then show "hub_queued h' t = hub_queued h t
    \<or> (\<exists>msg. hub_queued h' t = hub_queued h t @ [msg] \<and> handleDownlink (RawDoc msg) \<notin> {AgentLock, AgentWipe})"
  proof cases
    case (2 tg)
    from dashDispatch_queued [OF assms(1) 2, of t] show ?thesis using sd by auto
  next
    case (3 a tg)
    from dashDispatch_queued [OF assms(1) 3(3), of t] handleDownlink_passThrough [OF assms(3) 3(1,2)] show ?thesis by blast
  qed simp
qed

definition exampleOperator :: Principal where
  "exampleOperator = \<lparr>p_UserID = 3, p_Username = ''op'', p_Role = ''operator''\<rparr>"

definition exampleDashRequest :: request where
  "exampleDashRequest = \<lparr>rq_Method = ''GET'', rq_Path = ''/v1/ws'', rq_PathID = '''', rq_PathDevice = '''', rq_Query = (\<lambda>_. ''''), rq_Origin = '''', rq_Authorization = '''',
     rq_TokenQuery = '''', rq_XForwardedFor = '''', rq_RemoteAddr = ''10.0.0.1:80'', rq_RequestID = '''', rq_Body = RawEmpty, rq_Principal = None\<rparr>"

theorem dashboard_no_lock_or_wipe_witness:
  "hub_queued (snd (snd (dashboardMessage exampleLib exampleDashRequest exampleOperator
       (RawDoc (JObj [(''action'', JStr ''wipe''), (''target_arx_id'', JStr ''dev-1'')])) (exampleQueue, snd (hub_register ''42'' NewHub))))) ''42'' = []
   \<or> (\<exists>msg. hub_queued (snd (snd (dashboardMessage exampleLib exampleDashRequest exampleOperator
       (RawDoc (JObj [(''action'', JStr ''wipe''), (''target_arx_id'', JStr ''dev-1'')])) (exampleQueue, snd (hub_register ''42'' NewHub))))) ''42'' = [msg]
       \<and> handleDownlink (RawDoc msg) \<noteq> AgentWipe)"
proof -
  let ?r = "dashboardMessage exampleLib exampleDashRequest exampleOperator
       (RawDoc (JObj [(''action'', JStr ''wipe''), (''target_arx_id'', JStr ''dev-1'')])) (exampleQueue, snd (hub_register ''42'' NewHub))"
  have w: "wf_registry (snd (hub_register ''42'' NewHub))" by (rule wf_registry_register) simp
  have q: "hub_queued (snd (hub_register ''42'' NewHub)) ''42'' = []" by code_simp
  have r: "p_Role exampleOperator \<noteq> ''admin''" by (simp add: exampleOperator_def)
  have u: "distinct (map (\<lambda>kv. ToLower (fst kv)) [(''action'', JStr ''wipe''), (''target_arx_id'', JStr ''dev-1'')])"
    by (simp add: ToLower_def)
  have "?r = (fst ?r, fst (snd ?r), snd (snd ?r))" by simp
  from dashboard_no_lock_or_wipe [OF w r u this, rule_format, of "''42''"] show ?thesis unfolding q by auto
qed

definition wipeMessage :: "string \<Rightarrow> json_object" where
  "wipeMessage target = [(''action'', JStr ''wipe''), (''ACTION'', JStr ''net_list''), (''target_arx_id'', JStr target)]"

lemma wipeMessage_fields:
  "get_string ''action'' (wipeMessage target) = Some ''net_list''" "get_string ''target_arx_id'' (wipeMessage target) = Some target"
  "handleDownlink (RawDoc (norm_json (JObj (AList.delete ''target_arx_id'' (wipeMessage target))))) = AgentWipe"
  "TrimSpace (ToLower ''net_list'') = ''net_list''" "''net_list'' \<in> set passThroughActions"
proof -
  have e: "EqualFold ''action'' ''action''" "EqualFold ''ACTION'' ''action''" "\<not> EqualFold ''target_arx_id'' ''action''"
    "\<not> EqualFold ''action'' ''target_arx_id''" "\<not> EqualFold ''ACTION'' ''target_arx_id''" "EqualFold ''target_arx_id'' ''target_arx_id''"
    by code_simp+
  show "get_string ''action'' (wipeMessage target) = Some ''net_list''" "get_string ''target_arx_id'' (wipeMessage target) = Some target"
    by (simp_all add: get_string_def struct_get_def wipeMessage_def e)
  have "AList.delete ''target_arx_id'' (wipeMessage target) = [(''action'', JStr ''wipe''), (''ACTION'', JStr ''net_list'')]"
    by (simp add: wipeMessage_def)
  moreover have "handleDownlink (RawDoc (norm_json (JObj [(''action'', JStr ''wipe''), (''ACTION'', JStr ''net_list'')]))) = AgentWipe" by code_simp
  ultimately show "handleDownlink (RawDoc (norm_json (JObj (AList.delete ''target_arx_id'' (wipeMessage target))))) = AgentWipe" by simp
  show "TrimSpace (ToLower ''net_list'') = ''net_list''" "''net_list'' \<in> set passThroughActions" by code_simp+
qed

text \<open>With two members \<open>action\<close> and \<open>ACTION\<close> the role check is bypassed: the server reads the later one,
  a pass-through action that operators may use, while the forwarded object is written in key order and the
  agent reads \<open>wipe\<close>. Any operator can wipe any connected device this way.\<close>

theorem operator_wipes_device:
  assumes "wf_registry h" and "\<not> fault_at d (stmt_no d)" and "p_Role p = ''operator''" and "TrimSpace target \<noteq> ''''"
    and "find (\<lambda>a. a_human_id a = TrimSpace target) (assets d) = Some a" and "a_cert_serial a = Some serial" and "TrimSpace serial \<noteq> ''''"
    and "fst (DispatchJSON (TrimSpace serial) (JObj (AList.delete ''target_arx_id'' (wipeMessage target))) h)"
  shows "\<exists>msg res d' h'. dashboardMessage L r p (RawDoc (JObj (wipeMessage target))) (d, h) = (res, d', h') \<and> fst res
    \<and> hub_queued h' (TrimSpace serial) = hub_queued h (TrimSpace serial) @ [msg] \<and> handleDownlink (RawDoc msg) = AgentWipe"
proof -
  let ?m = "JObj (AList.delete ''target_arx_id'' (wipeMessage target))"
  obtain h' where k: "DispatchJSON (TrimSpace serial) ?m h = (True, h')" using assms(8) by (cases "DispatchJSON (TrimSpace serial) ?m h") auto
  have q: "hub_queued h' (TrimSpace serial) = hub_queued h (TrimSpace serial) @ [norm_json ?m]"
    using DispatchJSON_queued [OF assms(1) k, of "TrimSpace serial"] by simp
  let ?d1 = "d\<lparr>stmt_no := Suc (stmt_no d)\<rparr>"
  have "DispatchJSONByHumanID (TrimSpace target) ?m (d, h) = (Inr (), ?d1, h')"
    using assms(2,4-7) k by (simp add: DispatchJSONByHumanID_def sql_def Let_def)
  then have "dashboardMessage L r p (RawDoc (JObj (wipeMessage target))) (d, h)
      = ((True, Err (''net_list'' @ '' dispatched'')), auditDashboardDispatch L r (p_UserID p) ''net_list'' (TrimSpace target) ?d1, h')"
    using assms(3,4) wipeMessage_fields by (simp add: dashboardMessage_def struct_object_def dashDispatch_def Let_def)
  with q wipeMessage_fields(3) show ?thesis by fastforce
qed

theorem operator_wipes_device_witness:
  "\<exists>msg res d' h'. dashboardMessage exampleLib exampleDashRequest exampleOperator (RawDoc (JObj (wipeMessage ''dev-1'')))
       (exampleQueue, snd (hub_register ''42'' NewHub)) = (res, d', h')
     \<and> handleDownlink (RawDoc msg) = AgentWipe \<and> msg \<in> set (hub_queued h' ''42'')"
proof -
  have w: "wf_registry (snd (hub_register ''42'' NewHub))" by (rule wf_registry_register) simp
  have u: "\<not> fault_at exampleQueue (stmt_no exampleQueue)" by (simp add: exampleQueue_def empty_db_def)
  have r: "p_Role exampleOperator = ''operator''" by (simp add: exampleOperator_def)
  have t: "TrimSpace ''dev-1'' = ''dev-1''" "TrimSpace ''42'' = ''42''" by code_simp+
  have a: "find (\<lambda>a. a_human_id a = TrimSpace ''dev-1'') (assets exampleQueue) = Some exampleDevice" "a_cert_serial exampleDevice = Some ''42''"
    by (simp_all add: t exampleQueue_def exampleDevice_def)
  have "fst (DispatchJSON (TrimSpace ''42'') (JObj (AList.delete ''target_arx_id'' (wipeMessage ''dev-1''))) (snd (hub_register ''42'' NewHub)))"
    by code_simp
  from operator_wipes_device [OF w u r _ a _ this] t show ?thesis by fastforce
qed

section \<open>A command and its answer\<close>

lemma downlink_fields:
  "struct_object (RawDoc (downlinkOf L c)) = Some (sort_key fst (map (\<lambda>kv. (fst kv, norm_json (snd kv)))
     [(''action'', JStr ''device_command''), (''command_id'', JStr (u_str L (dc_id c))), (''command_type'', JStr (dc_command_type c)),
      (''payload'', JStr (dc_payload c))]))"
  by (simp add: downlinkOf_def commandDownlink_def struct_object_def)

lemma downlink_reads:
  assumes "m = [(''action'', JStr a), (''command_id'', JStr i), (''command_type'', JStr t), (''payload'', JStr pl)]"
  shows "get_string ''action'' m = Some a" "get_string ''command_id'' m = Some i" "get_string ''command_type'' m = Some t"
    "get_string ''payload'' m = Some pl" "distinct (map (\<lambda>kv. ToLower (fst kv)) m)"
  unfolding assms by (simp_all add: get_string_def struct_get_def EqualFold_def ToLower_def lower_char_def)

lemma result_reads:
  assumes "m = [(''type'', JStr t), (''command_id'', JStr i), (''ok'', JBool b), (''output'', JStr out), (''error'', JStr e)]"
  shows "get_string ''type'' m = Some t" "get_string ''command_id'' m = Some i" "get_bool ''ok'' m = Some b"
    "get_string ''output'' m = Some out" "get_string ''error'' m = Some e" "distinct (map (\<lambda>kv. ToLower (fst kv)) m)"
  unfolding assms by (simp_all add: get_string_def get_bool_def struct_get_def EqualFold_def ToLower_def lower_char_def)

lemma decode_reportResult:
  "decodeCommandResult (RawDoc (norm_json (reportResult i ok out e))) = Some \<lparr>cr_Type = ''device_command_result'', cr_CommandID = i, cr_OK = ok,
     cr_Output = (if \<not> ok \<and> out = '''' then e else out), cr_Error = e\<rparr>"
proof -
  let ?m = "[(''type'', JStr ''device_command_result''), (''command_id'', JStr i), (''ok'', JBool ok),
      (''output'', JStr (if \<not> ok \<and> out = '''' then e else out)), (''error'', JStr e)]"
  note r = result_reads [OF refl, of "''device_command_result''" i ok "if \<not> ok \<and> out = '''' then e else out" e]
  have "struct_object (RawDoc (norm_json (reportResult i ok out e))) = Some (sort_key fst (map (\<lambda>kv. (fst kv, norm_json (snd kv))) ?m))"
    by (simp add: reportResult_def struct_object_def)
  then show ?thesis unfolding decodeCommandResult_def
    using r by (simp only: option.case prod.case get_string_norm [OF r(6)] get_bool_norm [OF r(6)])
qed

text \<open>The agent always answers a queued command, for its id.\<close>

lemma HandleDownlink_answers:
  assumes "TrimSpace (u_str L (dc_id c)) \<noteq> ''''"
  shows "\<exists>ok out e. HandleDownlink L P (RawDoc (downlinkOf L c)) = Some (reportResult (TrimSpace (u_str L (dc_id c))) ok out e)
    \<and> (TrimSpace (ToLower (dc_command_type c)) = ''ping'' \<longrightarrow> ok \<and> out = ''pong'')"
proof -
  note r = downlink_reads [OF refl, of "''device_command''" "u_str L (dc_id c)" "dc_command_type c" "dc_payload c"]
  have run: "\<exists>ok out e. reportRun i x = reportResult i ok out e" for i x
    by (cases x; cases "snd x") (auto simp: reportRun_def)
  have e: "HandleDownlink L P (RawDoc (downlinkOf L c)) = (let commandID = TrimSpace (u_str L (dc_id c)); commandType = TrimSpace (ToLower (dc_command_type c)) in
      Some
                     (if commandType = '''' then reportResult commandID False '''' ''command_type is required''
                      else if commandType = ''ping'' then reportResult commandID True ''pong'' ''''
                      else if commandType = ''reboot'' then reportResult commandID True ''reboot scheduled'' ''''
                      else if commandType = ''script'' then reportRun commandID (pf_script P (dc_payload c))
                      else if commandType = ''restart_service'' then
                        (case BuildRestartServiceScript (dc_payload c) of
                           Inl e \<Rightarrow> reportResult commandID False '''' e
                         | Inr body \<Rightarrow> reportRun commandID (pf_script P body))
                      else if commandType = ''push_config'' then
                        (case BuildPushConfigScript L P (dc_payload c) of
                           Inl e \<Rightarrow> reportResult commandID False '''' e
                         | Inr body \<Rightarrow> reportRun commandID (pf_script P body))
                      else if commandType = ''quarantine'' then reportRun commandID (pf_quarantine P (dc_payload c))
                      else reportResult commandID False '''' (''unsupported command_type '' @ go_quote commandType)))"
    unfolding HandleDownlink_def downlink_fields
    using assms by (simp only: option.case prod.case get_string_norm [OF r(5)] r Let_def if_False)
  show ?thesis
  proof (cases "TrimSpace (ToLower (dc_command_type c)) = ''ping''")
    case True
    then show ?thesis unfolding e by (auto simp: Let_def)
  next
    case False
    then show ?thesis unfolding e Let_def using run by (auto split: sum.splits)
  qed
qed

definition finishedRow :: "bool \<Rightarrow> string \<Rightarrow> time \<Rightarrow> device_command \<Rightarrow> device_command" where
  "finishedRow ok out t c = c\<lparr>dc_status := (if ok then ''completed'' else ''failed''), dc_output := truncateOutput out, dc_completed_at := Some t\<rparr>"

lemma finish_rows:
  assumes "\<forall>n. \<not> fault_at d n"
  shows "device_commands (snd (if ok then CompleteDeviceCommand L i out d else FailDeviceCommand L i out d))
    = map (\<lambda>x. if dc_id x = i then finishedRow ok out (now d) x else x) (device_commands d)"
proof -
  have v: "validateDeviceCommandStatus ''completed'' = None" "validateDeviceCommandStatus ''failed'' = None" by code_simp+
  have f: "device_commands (snd (finishDeviceCommand L st b i out d))
      = map (\<lambda>x. if dc_id x = i then x\<lparr>dc_status := st, dc_output := truncateOutput out, dc_completed_at := Some (now d)\<rparr> else x) (device_commands d)"
    if "validateDeviceCommandStatus st = None" for st b
  proof -
    let ?u = "updateDeviceCommandStatus i st (truncateOutput out) True d"
    obtain r1 d1 where r1: "?u = (r1, d1)" by fastforce
    obtain r2 d2 where r2: "GetDeviceCommand i uuid_Nil d1 = (r2, d2)" by fastforce
    then have d2: "d2 = d1\<lparr>stmt_no := Suc (stmt_no d1)\<rparr>" by (metis GetDeviceCommand_state snd_conv)
    have "device_commands d1 = map (\<lambda>x. if dc_id x = i then x\<lparr>dc_status := st, dc_output := truncateOutput out, dc_completed_at := Some (now d)\<rparr> else x) (device_commands d)"
      using r1 that assms by (auto simp: updateDeviceCommandStatus_def sql_def Let_def update_where_def)
    with r1 r2 d2 show ?thesis by (cases r1; cases r2) (simp_all add: finishDeviceCommand_def Journal_tables)
  qed
  show ?thesis using f [OF v(1)] f [OF v(2)] by (auto simp: CompleteDeviceCommand_def FailDeviceCommand_def finishedRow_def)
qed

lemma ApplyOutcome_rows:
  assumes up: "\<forall>n. \<not> fault_at d n" and p: "decodeCommandResult raw = Some p" "TrimSpace (cr_Type p) = ''device_command_result''"
    and i: "TrimSpace (cr_CommandID p) \<noteq> ''''" "u_parse L (TrimSpace (cr_CommandID p)) = Some i" and o: "ownedByCertSerial i (TrimSpace s) d"
  shows "device_commands (fst (snd (ApplyDeviceCommandOutcome L s raw (d, dash))))
    = map (\<lambda>x. if dc_id x = i then finishedRow (cr_OK p) (resultOutput p) (now d) x else x) (device_commands d)"
proof -
  let ?d1 = "d\<lparr>stmt_no := Suc (stmt_no d)\<rparr>"
  let ?r = "if cr_OK p then CompleteDeviceCommand L i (resultOutput p) ?d1 else FailDeviceCommand L i (resultOutput p) ?d1"
  have "ownedByCertSerial i (TrimSpace s) ?d1" using o by (simp add: ownedByCertSerial_def)
  then have own: "DeviceCommandOwnedByCertSerial i (TrimSpace s) d = (Inr True, ?d1)"
    using up by (simp add: DeviceCommandOwnedByCertSerial_def query_def sql_def Let_def)
  obtain r d2 where r: "?r = (r, d2)" by fastforce
  obtain r3 d3 where h: "humanIDByCertSerial (TrimSpace s) d2 = (r3, d3)" by fastforce
  have "device_commands d3 = device_commands d2" using h by (auto simp: humanIDByCertSerial_def Let_def query_row_def sql_def split: if_splits)
  moreover have "fst (snd (ApplyDeviceCommandOutcome L s raw (d, dash))) \<in> {d2, d3}"
    using p i own r h by (cases "cr_OK p"; cases r; cases r3) (simp_all add: ApplyDeviceCommandOutcome_def)
  moreover have "device_commands d2 = map (\<lambda>x. if dc_id x = i then finishedRow (cr_OK p) (resultOutput p) (now d) x else x) (device_commands d)"
    using finish_rows [of ?d1 "cr_OK p" L i "resultOutput p"] up r by simp
  ultimately show ?thesis by auto
qed



end
