(* ===== verification/Incidents.thy ===== *)
theory Incidents
  imports Commands
begin

text \<open>
  Incidents (\<open>internal/database/incidents.go\<close>) and the bridge that opens and resolves them for alerts
  (\<open>internal/itsm/alert_bridge.go\<close>). \<open>incident_seq\<close> holds the last value the sequence gave out; a
  transaction that fails does not give it back. Work notes are kept as decoded documents.
\<close>

section \<open>Numbers and rows\<close>

definition nextval :: "db \<Rightarrow> int sql_result" where
  "nextval = sql (\<lambda>d. (Inr (incident_seq d + 1), d\<lparr>incident_seq := incident_seq d + 1\<rparr>))"

text \<open>\<open>fmt.Sprintf("INC%07d", n)\<close>: at least seven digits.\<close>

definition incident_fmt :: "int \<Rightarrow> string" where
  "incident_fmt n = (let s = int_str n in ''INC'' @ replicate (7 - length s) (CHR ''0'') @ s)"

definition NextIncidentHumanNumber :: "db \<Rightarrow> (go_error + string) \<times> db" where
  "NextIncidentHumanNumber d =
     (case nextval d of
        (Inl e, d) \<Rightarrow> (Inl (Wrap ''database: allocate incident seq'' e), d)
      | (Inr n, d) \<Rightarrow> (Inr (incident_fmt n), d))"

definition allocateIncidentNumTx :: "db \<Rightarrow> (go_error + string) \<times> db" where
  "allocateIncidentNumTx d =
     (case nextval d of
        (Inl e, d) \<Rightarrow> (Inl (Wrap ''database: allocate incident seq'' e), d)
      | (Inr n, d) \<Rightarrow> (Inr (incident_fmt n), d))"

text \<open>The constraints of the table: number format \<open>^INC[0-9]{7}$\<close>, states, impact and urgency, references.\<close>

definition incidentNumberOK :: "string \<Rightarrow> bool" where
  "incidentNumberOK s \<longleftrightarrow> take 3 s = ''INC'' \<and> length s = 10 \<and> list_all is_digit (drop 3 s)"

definition incidentStates :: "string list" where
  "incidentStates = [''new'', ''in_progress'', ''on_hold'', ''resolved'', ''closed'']"

definition incidentCheck :: "incident \<Rightarrow> bool" where
  "incidentCheck r \<longleftrightarrow> incidentNumberOK (in_incident_number r) \<and> in_state r \<in> set incidentStates
     \<and> in_impact r \<in> {1, 2, 3} \<and> in_urgency r \<in> {1, 2, 3}"

definition refers :: "uuid option \<Rightarrow> uuid list \<Rightarrow> bool" where
  "refers x ids \<longleftrightarrow> (case x of None \<Rightarrow> True | Some i \<Rightarrow> i \<in> set ids)"

definition insertIncidentRow :: "incident \<Rightarrow> db \<Rightarrow> uuid sql_result" where
  "insertIncidentRow row d =
     (let i = random_uuid d; row = row\<lparr>in_id := i, in_created_at := now d, in_updated_at := now d\<rparr>; d = uuid_used d
      in if \<not> incidentCheck row then (Inl ErrCheck, d)
         else if i \<in> in_id ` set (incidents d) \<or> in_incident_number row \<in> in_incident_number ` set (incidents d)
           then (Inl ErrUnique, d)
         else if (case in_source_alert_fingerprint row of
                    None \<Rightarrow> False
                  | Some fp \<Rightarrow> pg_trim fp \<noteq> '''' \<and> Some fp \<in> in_source_alert_fingerprint ` set (incidents d))
           then (Inl ErrUnique, d)
         else if \<not> (refers (in_cmdb_ci row) (map a_id (assets d)) \<and> refers (in_caller_id row) (map us_id (users d))
                    \<and> refers (in_assigned_to row) (map us_id (users d)))
           then (Inl ErrForeignKey, d)
         else (Inr i, d\<lparr>incidents := incidents d @ [row]\<rparr>))"

text \<open>\<open>priority\<close> is a column computed from impact and urgency by \<open>incident_priority_rank\<close>.\<close>

definition in_priority :: "incident \<Rightarrow> int" where
  "in_priority r =
     (let k = in_impact r * 10 + in_urgency r
      in if k = 11 then 1 else if k = 12 then 2 else if k = 13 then 3 else if k = 21 then 2 else if k = 22 then 3
         else if k = 23 then 4 else if k = 31 then 3 else if k = 32 then 4 else if k = 33 then 5 else 3)"

section \<open>Incidents of alerts\<close>

definition severityImpact :: "string \<Rightarrow> int \<times> int" where
  "severityImpact severity =
     (let s = ToLower (TrimSpace severity)
      in if s = ''critical'' then (1, 1) else if s = ''warning'' then (2, 1) else (2, 2))"

definition severitySLA :: "string \<Rightarrow> int" where
  "severitySLA severity =
     (let s = ToLower (TrimSpace severity)
      in if s = ''critical'' then 4 * time_Hour else if s = ''warning'' then 24 * time_Hour else 72 * time_Hour)"

text \<open>The separator of the opening note is U+00B7 in UTF-8.\<close>

definition openNote :: "lib \<Rightarrow> time \<Rightarrow> string \<Rightarrow> uuid \<Rightarrow> string \<Rightarrow> string \<Rightarrow> json" where
  "openNote L t fp deviceID title alertMessage =
     JObj [(''ts'', JStr (t_rfc3339 L t)), (''author_type'', JStr ''system''), (''kind'', JStr ''alert_open''),
           (''text'', JStr (TrimSpace title @ '' '' @ [CHR 0xC2, CHR 0xB7] @ '' '' @ TrimSpace alertMessage)),
           (''fingerprint'', JStr fp), (''active_alert_summary'', JStr (TrimSpace alertMessage)),
           (''cm_device_id'', JStr (u_str L deviceID))]"

definition repeatNote :: "lib \<Rightarrow> time \<Rightarrow> string \<Rightarrow> uuid \<Rightarrow> string \<Rightarrow> string \<Rightarrow> json" where
  "repeatNote L t fp deviceID title alertMessage =
     JObj [(''ts'', JStr (t_rfc3339 L t)), (''author_type'', JStr ''system''), (''kind'', JStr ''alert_repeat''),
           (''text'', JStr (''Alert re-triggered: '' @ TrimSpace alertMessage)), (''fingerprint'', JStr fp),
           (''short_title'', JStr (TrimSpace title)), (''cm_device_id'', JStr (u_str L deviceID))]"

definition newAlertIncident :: "lib \<Rightarrow> time \<Rightarrow> string \<Rightarrow> uuid \<Rightarrow> string \<Rightarrow> string \<Rightarrow> string \<Rightarrow> string \<Rightarrow> time \<Rightarrow> incident" where
  "newAlertIncident L t fp deviceID title alertMessage severity incNum slaDue =
     \<lparr>in_id = uuid_Nil, in_incident_number = incNum, in_caller_id = None, in_assigned_to = None, in_cmdb_ci = Some deviceID,
      in_state = ''new'', in_impact = fst (severityImpact severity), in_urgency = snd (severityImpact severity),
      in_short_description = take 500 (TrimSpace title),
      in_work_notes = [openNote L t fp deviceID title alertMessage], in_sla_due = slaDue,
      in_source_alert_fingerprint = Some fp, in_created_at = 0, in_updated_at = 0\<rparr>"

definition refreshAlertIncident ::
  "lib \<Rightarrow> time \<Rightarrow> string \<Rightarrow> uuid \<Rightarrow> string \<Rightarrow> string \<Rightarrow> string \<Rightarrow> time \<Rightarrow> incident \<Rightarrow> incident" where
  "refreshAlertIncident L t fp deviceID title alertMessage severity slaDue r =
     r\<lparr>in_updated_at := t, in_sla_due := slaDue, in_short_description := take 500 (TrimSpace title),
       in_impact := fst (severityImpact severity), in_urgency := snd (severityImpact severity),
       in_cmdb_ci := (case in_cmdb_ci r of None \<Rightarrow> Some deviceID | Some c \<Rightarrow> Some c),
       in_state := (if in_state r \<in> {''resolved'', ''closed''} then ''in_progress'' else in_state r),
       in_work_notes := in_work_notes r @ [repeatNote L t fp deviceID title alertMessage]\<rparr>"

definition updateIncidentRow :: "uuid \<Rightarrow> (incident \<Rightarrow> incident) \<Rightarrow> db \<Rightarrow> nat sql_result" where
  "updateIncidentRow i f d =
     (let rows = update_where (\<lambda>r. in_id r = i) f (incidents d)
      in if list_ex (\<lambda>r. in_id r = i \<and> \<not> incidentCheck r) rows then (Inl ErrCheck, d)
         else if list_ex (\<lambda>r. in_id r = i \<and> \<not> (refers (in_cmdb_ci r) (map a_id (assets d))
                \<and> refers (in_assigned_to r) (map us_id (users d)))) rows then (Inl ErrForeignKey, d)
         else (Inr (affected (\<lambda>r. in_id r = i) (incidents d)), d\<lparr>incidents := rows\<rparr>))"

text \<open>The body of the transaction.\<close>

definition upsertIncidentBody ::
  "lib \<Rightarrow> string \<Rightarrow> uuid \<Rightarrow> string \<Rightarrow> string \<Rightarrow> string \<Rightarrow> time \<Rightarrow> db \<Rightarrow> (go_error + unit) \<times> db" where
  "upsertIncidentBody L fp deviceID title alertMessage severity slaDue d =
     (case query_row (\<lambda>d. find (\<lambda>r. in_source_alert_fingerprint r = Some fp) (incidents d)) d of
        (Inl ErrNoRows, d) \<Rightarrow>
          (case allocateIncidentNumTx d of
             (Inl e, d) \<Rightarrow> (Inl e, d)
           | (Inr incNum, d) \<Rightarrow>
               (case sql (insertIncidentRow (newAlertIncident L (now d) fp deviceID title alertMessage severity incNum slaDue)) d of
                  (Inl e, d) \<Rightarrow> (Inl (Wrap ''database: insert incident'' e), d)
                | (Inr _, d) \<Rightarrow> (Inr (), d)))
      | (Inl e, d) \<Rightarrow> (Inl (Wrap ''database: lookup incident fingerprint'' e), d)
      | (Inr inc, d) \<Rightarrow>
          (case sql (updateIncidentRow (in_id inc)
                  (refreshAlertIncident L (now d) fp deviceID title alertMessage severity slaDue)) d of
             (Inl e, d) \<Rightarrow> (Inl (Driver e), d)
           | (Inr n, d) \<Rightarrow> if n = 0 then (Inl (Err ''database: incident fingerprint update missed row''), d) else (Inr (), d)))"

definition UpsertIncidentForCriticalFingerprint ::
  "lib \<Rightarrow> string \<Rightarrow> uuid \<Rightarrow> string \<Rightarrow> string \<Rightarrow> string \<Rightarrow> db \<Rightarrow> (go_error + unit) \<times> db" where
  "UpsertIncidentForCriticalFingerprint L fingerprint deviceID title alertMessage severity d =
     (let fp = TrimSpace fingerprint; slaDue = now d + severitySLA severity
      in if fp = '''' \<or> deviceID = uuid_Nil then (Inl (Err ''database: fingerprint and device id required''), d)
         else transaction (upsertIncidentBody L fp deviceID title alertMessage severity slaDue) Driver Driver d)"

definition recoveryNote :: "lib \<Rightarrow> time \<Rightarrow> string \<Rightarrow> json" where
  "recoveryNote L t fp =
     JObj [(''ts'', JStr (t_rfc3339 L t)), (''author_type'', JStr ''system''), (''kind'', JStr ''alert_recovery''),
           (''text'', JStr (''Monitoring detected recovery for alert fingerprint '' @ fp @ ''. Incident resolved automatically.'')),
           (''fingerprint'', JStr fp)]"

definition resolveRow :: "lib \<Rightarrow> time \<Rightarrow> string \<Rightarrow> incident \<Rightarrow> incident" where
  "resolveRow L t fp r =
     r\<lparr>in_work_notes := in_work_notes r @ [recoveryNote L t fp], in_updated_at := t,
       in_state := (if in_state r \<in> {''new'', ''in_progress'', ''on_hold''} then ''resolved'' else in_state r)\<rparr>"

fun autoResolveLoop :: "lib \<Rightarrow> string list \<Rightarrow> string list \<Rightarrow> db \<Rightarrow> (go_error + unit) \<times> db" where
  "autoResolveLoop L seen [] d = (Inr (), d)"
| "autoResolveLoop L seen (fp0 # fps) d =
     (let fp = TrimSpace fp0
      in if fp = '''' \<or> fp \<in> set seen then autoResolveLoop L seen fps d
         else (case sql (\<lambda>d. (Inr (), d\<lparr>incidents := update_where
                    (\<lambda>r. in_source_alert_fingerprint r = Some fp \<and> in_state r \<noteq> ''closed'') (resolveRow L (now d) fp) (incidents d)\<rparr>)) d of
                 (Inl e, d) \<Rightarrow> (Inl (Wrap ''database: auto-resolve incidents'' e), d)
               | (Inr _, d) \<Rightarrow> autoResolveLoop L (fp # seen) fps d))"

definition AutoResolveIncidentsForAlertFingerprints :: "lib \<Rightarrow> string list \<Rightarrow> db \<Rightarrow> (go_error + unit) \<times> db" where
  "AutoResolveIncidentsForAlertFingerprints L fingerprints d = autoResolveLoop L [] fingerprints d"

section \<open>The bridge (alert_bridge.go)\<close>

text \<open>Errors are only logged.\<close>

definition OnCriticalDeviceFingerprint :: "lib \<Rightarrow> string \<Rightarrow> string \<Rightarrow> uuid \<Rightarrow> string \<Rightarrow> string \<Rightarrow> db \<Rightarrow> db" where
  "OnCriticalDeviceFingerprint L fingerprint severity deviceID title message d =
     snd (UpsertIncidentForCriticalFingerprint L fingerprint deviceID title message severity d)"

definition OnAlertFingerprintsResolved :: "lib \<Rightarrow> string list \<Rightarrow> db \<Rightarrow> db" where
  "OnAlertFingerprintsResolved L fingerprints d =
     (if fingerprints = [] then d else snd (AutoResolveIncidentsForAlertFingerprints L fingerprints d))"

section \<open>The device of an incident\<close>

record IncidentCMDBSnapshot =
  sn_DeviceID :: uuid
  sn_HumanID :: string
  sn_Hostname :: "string option"
  sn_OperationalStatus :: string
  sn_CostCenter :: string
  sn_Location :: string
  sn_CertSerial :: "string option"
  sn_LastSeen :: "time option"
  sn_CpuUsagePercent :: "rat option"
  sn_RAMPercent :: "rat option"
  sn_DiskPercent :: "rat option"
  sn_LatestMetricsAt :: "time option"
  sn_RecentCommandTypes :: "string list"

definition latestMetric :: "uuid \<Rightarrow> db \<Rightarrow> device_metric option" where
  "latestMetric deviceID d =
     (case sort_key (\<lambda>m. - dm_created_at m) (filter (\<lambda>m. dm_device_id m = deviceID) (device_metrics d)) of
        [] \<Rightarrow> None | m # _ \<Rightarrow> Some m)"

definition percentOf :: "int \<Rightarrow> int \<Rightarrow> rat option" where
  "percentOf used whole = (if whole > 0 then Some (100 * of_int used / of_int whole) else None)"

text \<open>The second query fails silently: the list is then empty.\<close>

definition LoadIncidentCMDBSnapshot :: "uuid \<Rightarrow> db \<Rightarrow> (go_error + IncidentCMDBSnapshot) \<times> db" where
  "LoadIncidentCMDBSnapshot deviceID d =
     (if deviceID = uuid_Nil then (Inl (Err ''database: snapshot args''), d)
      else
        (case query_row (\<lambda>d. map_option (\<lambda>a. (a, latestMetric deviceID d)) (find (\<lambda>a. a_id a = deviceID) (assets d))) d of
           (Inl ErrNoRows, d) \<Rightarrow> (Inl (Driver ErrNoRows), d)
         | (Inl e, d) \<Rightarrow> (Inl (Wrap ''database: cmdb snapshot'' e), d)
         | (Inr (a, m), d) \<Rightarrow>
             (case query (\<lambda>d. map dc_command_type (take 12 (sort_key (\<lambda>c. - dc_created_at c)
                       (filter (\<lambda>c. dc_device_id c = deviceID) (device_commands d))))) d of
                (types, d) \<Rightarrow>
                  (Inr \<lparr>sn_DeviceID = a_id a, sn_HumanID = pg_trim (a_human_id a), sn_Hostname = a_hostname a,
                        sn_OperationalStatus = a_operational_status a, sn_CostCenter = a_cost_center a, sn_Location = a_location a,
                        sn_CertSerial = a_cert_serial a, sn_LastSeen = a_last_seen a,
                        sn_CpuUsagePercent = map_option dm_cpu_usage m,
                        sn_RAMPercent = Option.bind m (\<lambda>m. percentOf (dm_ram_used m) (dm_ram_total m)),
                        sn_DiskPercent = Option.bind m (\<lambda>m. percentOf (dm_disk_used m) (dm_disk_total m)),
                        sn_LatestMetricsAt = map_option dm_created_at m,
                        sn_RecentCommandTypes =
                          (case types of Inl _ \<Rightarrow> [] | Inr ts \<Rightarrow> filter (\<lambda>t. t \<noteq> '''') (map TrimSpace ts))\<rparr>, d))))"

end
