(* ===== verification/Alerting.thy ===== *)
theory Alerting
  imports Incidents
begin

text \<open>
  Alert rules, active alerts and device metrics (\<open>internal/database/alerting.go\<close>,
  \<open>device_metrics.go\<close>) and the alert engine (\<open>internal/alerting/engine.go\<close>).

  One reading of the clock, \<open>now\<close>, serves a pass of the engine and the statements it runs. The engine
  hands notifications to the dispatcher's queue and starts goroutines for the incident hooks: both are
  recorded in the state of a pass, and the goroutines run later, in any order.
\<close>

section \<open>Rules\<close>

definition ruleCheck :: "alert_rule \<Rightarrow> bool" where
  "ruleCheck r \<longleftrightarrow> ar_target_type r \<in> {''device'', ''system''} \<and> ar_operator r \<in> {''>'', ''<'', ''>='', ''<='', ''==''}
     \<and> ar_severity r \<in> {''info'', ''warning'', ''critical''}
     \<and> ar_metric r \<in> {''cpu_usage'', ''offline_status'', ''ram_usage_percent'', ''disk_usage_percent''}"

text \<open>An interval is stored as an \<open>int64\<close> count of microseconds.\<close>

definition intervalOK :: "int \<Rightarrow> bool" where
  "intervalOK secs \<longleftrightarrow> \<bar>secs\<bar> * 1000000 < 2 ^ 63"

definition ListAlertRules :: "db \<Rightarrow> (go_error + alert_rule list) \<times> db" where
  "ListAlertRules d =
     (case query (\<lambda>d. sort_key (\<lambda>r. - ar_created_at r) (alert_rules d)) d of
        (Inl e, d) \<Rightarrow> (Inl (Wrap ''database: list alert_rules'' e), d)
      | (Inr rs, d) \<Rightarrow> (Inr rs, d))"

definition trimmedRule :: "alert_rule \<Rightarrow> alert_rule" where
  "trimmedRule r = r\<lparr>ar_name := TrimSpace (ar_name r), ar_target_type := TrimSpace (ar_target_type r),
     ar_metric := TrimSpace (ar_metric r), ar_operator := TrimSpace (ar_operator r), ar_severity := TrimSpace (ar_severity r)\<rparr>"

definition ruleInputError :: "alert_rule \<Rightarrow> go_error option" where
  "ruleInputError r =
     (if ar_duration_seconds r \<le> 0 then Some (Err ''database: duration_seconds must be positive'')
      else if TrimSpace (ar_name r) = '''' then Some (Err ''database: name is required'')
      else None)"

definition ruleRowError :: "alert_rule \<Rightarrow> db \<Rightarrow> sql_error option" where
  "ruleRowError r d =
     (if \<not> intervalOK (ar_duration_seconds r) \<or> \<not> ruleCheck r then Some ErrCheck
      else if \<not> refers (ar_target_device_id r) (map a_id (assets d)) then Some ErrForeignKey
      else None)"

definition InsertAlertRule :: "alert_rule \<Rightarrow> db \<Rightarrow> (go_error + uuid) \<times> db" where
  "InsertAlertRule r d =
     (case ruleInputError r of
        Some e \<Rightarrow> (Inl e, d)
      | None \<Rightarrow>
          (case sql (\<lambda>d. let i = random_uuid d; row = (trimmedRule r)\<lparr>ar_id := i, ar_created_at := now d, ar_updated_at := now d\<rparr>; d = uuid_used d
                        in case ruleRowError row d of
                             Some e \<Rightarrow> (Inl e, d)
                           | None \<Rightarrow> if i \<in> ar_id ` set (alert_rules d) then (Inl ErrUnique, d)
                                     else (Inr i, d\<lparr>alert_rules := alert_rules d @ [row]\<rparr>)) d of
             (Inl e, d) \<Rightarrow> (Inl (Wrap ''database: insert alert_rule'' e), d)
           | (Inr i, d) \<Rightarrow> (Inr i, d)))"

definition UpdateAlertRule :: "uuid \<Rightarrow> alert_rule \<Rightarrow> db \<Rightarrow> (go_error + unit) \<times> db" where
  "UpdateAlertRule i r d =
     (case ruleInputError r of
        Some e \<Rightarrow> (Inl e, d)
      | None \<Rightarrow>
          (case sql (\<lambda>d.
                 if i \<notin> ar_id ` set (alert_rules d) then (Inr 0, d)
                 else (case ruleRowError (trimmedRule r) d of
                   Some e \<Rightarrow> (Inl e, d)
                 | None \<Rightarrow>
                     (Inr (affected (\<lambda>x. ar_id x = i) (alert_rules d)),
                      d\<lparr>alert_rules := update_where (\<lambda>x. ar_id x = i)
                          (\<lambda>x. (trimmedRule r)\<lparr>ar_id := ar_id x, ar_created_at := ar_created_at x, ar_updated_at := now d\<rparr>) (alert_rules d)\<rparr>))) d of
             (Inl e, d) \<Rightarrow> (Inl (Wrap ''database: update alert_rule'' e), d)
           | (Inr n, d) \<Rightarrow> if n = (0 :: nat) then (Inl (Driver ErrNoRows), d) else (Inr (), d)))"

text \<open>The reference of an alert to a deleted rule becomes NULL.\<close>

definition DeleteAlertRule :: "uuid \<Rightarrow> db \<Rightarrow> (go_error + unit) \<times> db" where
  "DeleteAlertRule i d =
     (case sql (\<lambda>d. (Inr (affected (\<lambda>r. ar_id r = i) (alert_rules d)),
            d\<lparr>alert_rules := filter (\<lambda>r. ar_id r \<noteq> i) (alert_rules d),
              active_alerts := update_where (\<lambda>a. al_alert_rule_id a = Some i) (\<lambda>a. a\<lparr>al_alert_rule_id := None\<rparr>) (active_alerts d)\<rparr>)) d of
        (Inl e, d) \<Rightarrow> (Inl (Wrap ''database: delete alert_rule'' e), d)
      | (Inr n, d) \<Rightarrow> if n = 0 then (Inl (Driver ErrNoRows), d) else (Inr (), d))"

definition LoadAlertRule :: "uuid \<Rightarrow> db \<Rightarrow> (go_error + alert_rule) \<times> db" where
  "LoadAlertRule i d =
     (case query_row (\<lambda>d. find (\<lambda>r. ar_id r = i) (alert_rules d)) d of
        (Inl e, d) \<Rightarrow> (Inl (Driver e), d)
      | (Inr r, d) \<Rightarrow> (Inr r, d))"

definition ListAlertRulesEnabled :: "db \<Rightarrow> (go_error + alert_rule list) \<times> db" where
  "ListAlertRulesEnabled d =
     (case query (\<lambda>d. sort_key ar_created_at (filter (\<lambda>r. ar_is_enabled r \<and> ar_target_type r = ''device'') (alert_rules d))) d of
        (Inl e, d) \<Rightarrow> (Inl (Driver e), d)
      | (Inr rs, d) \<Rightarrow> (Inr rs, d))"

section \<open>Metrics\<close>

record AlertRuleMetricSample =
  ms_AvgMetric :: rat
  ms_SampleRows :: nat

text \<open>The average over the rows for which the expression is not NULL, 0 when there is none.\<close>

definition metricExpr :: "string \<Rightarrow> (device_metric \<Rightarrow> rat option) option" where
  "metricExpr metricKey =
     (let k = TrimSpace metricKey
      in if k = ''cpu_usage'' then Some (\<lambda>m. Some (dm_cpu_usage m))
         else if k = ''ram_usage_percent'' then Some (\<lambda>m. percentOf (dm_ram_used m) (dm_ram_total m))
         else if k = ''disk_usage_percent'' then Some (\<lambda>m. percentOf (dm_disk_used m) (dm_disk_total m))
         else None)"

definition sql_avg :: "rat list \<Rightarrow> rat" where
  "sql_avg xs = (if xs = [] then 0 else sum_list xs / of_nat (length xs))"

text \<open>Over no row \<open>MIN(created_at)\<close> is NULL, which does not scan into a \<open>time.Time\<close>: the call fails.\<close>

definition LoadAggregatedMetricInWindow :: "uuid \<Rightarrow> string \<Rightarrow> int \<Rightarrow> db \<Rightarrow> (go_error + AlertRuleMetricSample) \<times> db" where
  "LoadAggregatedMetricInWindow deviceID metricKey window d =
     (if window \<le> 0 then (Inl (Err ''database: window must be positive''), d)
      else (case metricExpr metricKey of
        None \<Rightarrow> (Inl (Err (''database: unknown metric '' @ go_quote metricKey)), d)
      | Some f \<Rightarrow>
          (let cutoff = now d - window
           in case sql (\<lambda>d. let rows = filter (\<lambda>m. dm_device_id m = deviceID \<and> dm_created_at m \<ge> cutoff) (device_metrics d)
                            in (if rows = [] then Inl ErrScan
                                else Inr \<lparr>ms_AvgMetric = sql_avg (List.map_filter f rows), ms_SampleRows = length rows\<rparr>, d)) d of
                (Inl e, d) \<Rightarrow> (Inl (Wrap ''database: metric window'' e), d)
              | (Inr s, d) \<Rightarrow> (Inr s, d))))"

definition nonNegativeInt64 :: "int \<Rightarrow> int" where
  "nonNegativeInt64 v = (if v < 0 then 0 else v)"

text \<open>NaN and infinities do not occur: the model's numbers are rational.\<close>

definition sanitizeTelemetryFloat :: "rat \<Rightarrow> rat" where
  "sanitizeTelemetryFloat v = (if v < 0 then 0 else if v > 100 then 100 else v)"

definition InsertDeviceMetric :: "uuid \<Rightarrow> rat \<Rightarrow> int \<Rightarrow> int \<Rightarrow> int \<Rightarrow> int \<Rightarrow> db \<Rightarrow> (go_error + unit) \<times> db" where
  "InsertDeviceMetric deviceID cpuUsage ramTotal ramUsed diskTotal diskUsed d =
     (let cpuUsage = sanitizeTelemetryFloat cpuUsage; ramTotal = nonNegativeInt64 ramTotal; ramUsed = nonNegativeInt64 ramUsed;
          diskTotal = nonNegativeInt64 diskTotal; diskUsed = nonNegativeInt64 diskUsed;
          diskUsed = (if diskUsed > diskTotal \<and> diskTotal > 0 then diskTotal else diskUsed);
          ramUsed = (if ramUsed > ramTotal \<and> ramTotal > 0 then ramTotal else ramUsed)
      in case sql (\<lambda>d.
             if deviceID \<notin> a_id ` set (assets d) then (Inl ErrForeignKey, d)
             else (Inr (), d\<lparr>device_metrics := device_metrics d @ [\<lparr>dm_device_id = deviceID, dm_cpu_usage = cpuUsage, dm_ram_total = ramTotal,
                     dm_ram_used = ramUsed, dm_disk_total = diskTotal, dm_disk_used = diskUsed, dm_created_at = now d\<rparr>]\<rparr>)) d of
           (Inl e, d) \<Rightarrow> (Inl (Wrap ''database: insert device_metrics'' e), d)
         | (Inr _, d) \<Rightarrow> (Inr (), d))"

record DeviceMetricSeriesPoint =
  sp_T :: int
  sp_CPUUsage :: rat
  sp_RAMUsedPercent :: rat

record DeviceMetricDiskSample =
  ds_TotalBytes :: int
  ds_UsedBytes :: int
  ds_SampledAt :: time

record DeviceMetricHistory =
  mh_DeviceID :: uuid
  mh_Hours :: int
  mh_BucketSeconds :: int
  mh_Series :: "DeviceMetricSeriesPoint list"
  mh_Disk :: "DeviceMetricDiskSample option"

definition historyHours :: "int \<Rightarrow> int" where
  "historyHours hours = (let h = (if hours < 1 then 24 else hours) in if h > 168 then 168 else h)"

definition historyBucket :: "int \<Rightarrow> int" where
  "historyBucket hours = (let b = (hours * 3600) div 360 in if b < 60 then 60 else b)"

text \<open>The start of a bucket in seconds; the groups come in increasing order.\<close>

definition bucketStart :: "int \<Rightarrow> device_metric \<Rightarrow> int" where
  "bucketStart bucket m = dm_created_at m div (bucket * time_Second) * bucket"

definition seriesPoint :: "int \<Rightarrow> device_metric list \<Rightarrow> int \<Rightarrow> DeviceMetricSeriesPoint" where
  "seriesPoint bucket rows t =
     (let g = filter (\<lambda>m. bucketStart bucket m = t) rows;
          ram = sql_avg (List.map_filter (\<lambda>m. percentOf (dm_ram_used m) (dm_ram_total m)) g);
          ram = (if ram < 0 then 0 else ram); ram = (if ram > 100 then 100 else ram)
      in \<lparr>sp_T = t, sp_CPUUsage = sanitizeTelemetryFloat (sql_avg (map dm_cpu_usage g)), sp_RAMUsedPercent = ram\<rparr>)"

definition metricSeries :: "int \<Rightarrow> device_metric list \<Rightarrow> DeviceMetricSeriesPoint list" where
  "metricSeries bucket rows = map (seriesPoint bucket rows) (sort (remdups (map (bucketStart bucket) rows)))"

definition diskSample :: "device_metric \<Rightarrow> DeviceMetricDiskSample option" where
  "diskSample m =
     (let dt = dm_disk_total m; du = dm_disk_used m
      in if dt > 0 \<or> du > 0 then
           Some \<lparr>ds_TotalBytes = dt, ds_UsedBytes = (if du > dt \<and> dt > 0 then dt else du), ds_SampledAt = dm_created_at m\<rparr>
         else None)"

definition LoadDeviceMetricHistory :: "uuid \<Rightarrow> int \<Rightarrow> db \<Rightarrow> (go_error + DeviceMetricHistory) \<times> db" where
  "LoadDeviceMetricHistory deviceID hours d =
     (let hours = historyHours hours; bucket = historyBucket hours; cutoff = now d - hours * time_Hour;
          inWindow = (\<lambda>d. filter (\<lambda>m. dm_device_id m = deviceID \<and> dm_created_at m \<ge> cutoff) (device_metrics d))
      in case query (\<lambda>d. metricSeries bucket (inWindow d)) d of
           (Inl e, d) \<Rightarrow> (Inl (Wrap ''database: query device_metrics series'' e), d)
         | (Inr series, d) \<Rightarrow>
             (case query_row (\<lambda>d. case sort_key (\<lambda>m. - dm_created_at m) (inWindow d) of [] \<Rightarrow> None | m # _ \<Rightarrow> Some m) d of
                (Inl ErrNoRows, d) \<Rightarrow>
                  (Inr \<lparr>mh_DeviceID = deviceID, mh_Hours = hours, mh_BucketSeconds = bucket, mh_Series = series, mh_Disk = None\<rparr>, d)
              | (Inl e, d) \<Rightarrow> (Inl (Wrap ''database: query device_metrics disk'' e), d)
              | (Inr m, d) \<Rightarrow>
                  (Inr \<lparr>mh_DeviceID = deviceID, mh_Hours = hours, mh_BucketSeconds = bucket, mh_Series = series, mh_Disk = diskSample m\<rparr>, d)))"

section \<open>Active alerts\<close>

definition alertRowError :: "active_alert \<Rightarrow> db \<Rightarrow> sql_error option" where
  "alertRowError a d =
     (if al_severity a \<notin> {''info'', ''warning'', ''critical''}
         \<or> al_alert_kind a \<notin> {''builtin_offline'', ''rule_offline'', ''rule_metric'', ''event_fanout''} then Some ErrCheck
      else if \<not> (refers (al_device_id a) (map a_id (assets d)) \<and> refers (al_alert_rule_id a) (map ar_id (alert_rules d)))
        then Some ErrForeignKey
      else None)"

definition insertAlertRow :: "active_alert \<Rightarrow> db \<Rightarrow> uuid sql_result" where
  "insertAlertRow row d =
     (let i = random_uuid d; row = row\<lparr>al_id := i\<rparr>; d = uuid_used d
      in case alertRowError row d of
           Some e \<Rightarrow> (Inl e, d)
         | None \<Rightarrow>
             if i \<in> al_id ` set (active_alerts d) \<or> al_fingerprint row \<in> al_fingerprint ` set (active_alerts d) then (Inl ErrUnique, d)
             else (Inr i, d\<lparr>active_alerts := active_alerts d @ [row]\<rparr>))"

definition updateAlertRow :: "uuid \<Rightarrow> (active_alert \<Rightarrow> active_alert) \<Rightarrow> db \<Rightarrow> unit sql_result" where
  "updateAlertRow i f d =
     (case find (\<lambda>e. e \<noteq> None) (map (\<lambda>a. alertRowError (f a) d) (filter (\<lambda>a. al_id a = i) (active_alerts d))) of
        Some (Some e) \<Rightarrow> (Inl e, d)
      | _ \<Rightarrow> (Inr (), d\<lparr>active_alerts := update_where (\<lambda>a. al_id a = i) f (active_alerts d)\<rparr>))"

record FireAlertOutcome =
  fo_AlertID :: uuid
  fo_ShouldNotify :: bool

text \<open>What an alert is about: the arguments of \<open>UpsertUnresolvedAlert\<close>.\<close>

record alert_input =
  ai_fingerprint :: string
  ai_kind :: string
  ai_device :: "uuid option"
  ai_rule :: "uuid option"
  ai_severity :: string
  ai_title :: string
  ai_message :: string
  ai_details :: json_object

definition openAlertRow :: "alert_input \<Rightarrow> time \<Rightarrow> active_alert" where
  "openAlertRow x t =
     \<lparr>al_id = uuid_Nil, al_alert_rule_id = ai_rule x, al_fingerprint = ai_fingerprint x, al_alert_kind = ai_kind x,
      al_device_id = ai_device x, al_severity = TrimSpace (ai_severity x), al_title = TrimSpace (ai_title x),
      al_message = TrimSpace (ai_message x), al_details = JObj (ai_details x), al_triggered_at = t,
      al_last_notified_at = Some t, al_resolved_at = None\<rparr>"

definition reopenAlertRow :: "alert_input \<Rightarrow> time \<Rightarrow> active_alert \<Rightarrow> active_alert" where
  "reopenAlertRow x t a =
     a\<lparr>al_alert_rule_id := ai_rule x, al_alert_kind := ai_kind x, al_device_id := ai_device x,
       al_severity := TrimSpace (ai_severity x), al_title := TrimSpace (ai_title x), al_message := TrimSpace (ai_message x),
       al_details := JObj (ai_details x), al_resolved_at := None, al_triggered_at := t, al_last_notified_at := None\<rparr>"

definition coalesce :: "'a option \<Rightarrow> 'a option \<Rightarrow> 'a option" where
  "coalesce x y = (case x of None \<Rightarrow> y | Some v \<Rightarrow> Some v)"

definition refreshAlertRow :: "alert_input \<Rightarrow> active_alert \<Rightarrow> active_alert" where
  "refreshAlertRow x a =
     a\<lparr>al_alert_rule_id := coalesce (ai_rule x) (al_alert_rule_id a), al_device_id := coalesce (ai_device x) (al_device_id a),
       al_severity := TrimSpace (ai_severity x), al_title := TrimSpace (ai_title x), al_message := TrimSpace (ai_message x),
       al_details := JObj (ai_details x)\<rparr>"

definition decideNotifyOnOpen :: "bool \<Rightarrow> time option \<Rightarrow> int \<Rightarrow> time \<Rightarrow> bool" where
  "decideNotifyOnOpen reopened lastNotify cooldown t =
     (reopened \<or> (case lastNotify of None \<Rightarrow> True | Some n \<Rightarrow> t - n \<ge> cooldown))"

text \<open>The part of \<open>UpsertUnresolvedAlert\<close> for a fingerprint that has a row.\<close>

definition refreshAlert :: "alert_input \<Rightarrow> int \<Rightarrow> active_alert \<Rightarrow> db \<Rightarrow> (go_error + FireAlertOutcome) \<times> db" where
  "refreshAlert x cooldown a d =
     (let i = al_id a; reopened = (al_resolved_at a \<noteq> None);
          lastNotify = (if reopened then None else al_last_notified_at a)
      in case sql (updateAlertRow i (if reopened then reopenAlertRow x (now d) else refreshAlertRow x)) d of
           (Inl e, d) \<Rightarrow> (Inl (Wrap ''database: refresh active alert'' e), d)
         | (Inr _, d) \<Rightarrow>
             if decideNotifyOnOpen reopened lastNotify cooldown (now d) then
               (case sql (updateAlertRow i (\<lambda>a. a\<lparr>al_last_notified_at := Some (now d)\<rparr>)) d of
                  (Inl e, d) \<Rightarrow> (Inl (Wrap ''database: stamp notify window'' e), d)
                | (Inr _, d) \<Rightarrow> (Inr \<lparr>fo_AlertID = i, fo_ShouldNotify = True\<rparr>, d))
             else (Inr \<lparr>fo_AlertID = i, fo_ShouldNotify = False\<rparr>, d))"

text \<open>The statements between \<open>Begin\<close> and \<open>Commit\<close>.\<close>

definition upsertAlertBody :: "alert_input \<Rightarrow> int \<Rightarrow> db \<Rightarrow> (go_error + FireAlertOutcome) \<times> db" where
  "upsertAlertBody x cooldown d =
     (case query_row (\<lambda>d. find (\<lambda>a. al_fingerprint a = ai_fingerprint x) (active_alerts d)) d of
        (Inl ErrNoRows, d) \<Rightarrow>
          (case sql (insertAlertRow (openAlertRow x (now d))) d of
             (Inl e, d) \<Rightarrow> (Inl (Wrap ''database: insert active alert'' e), d)
           | (Inr i, d) \<Rightarrow> (Inr \<lparr>fo_AlertID = i, fo_ShouldNotify = True\<rparr>, d))
      | (Inl e, d) \<Rightarrow> (Inl (Wrap ''database: lock active alert'' e), d)
      | (Inr a, d) \<Rightarrow> refreshAlert x cooldown a d)"

definition UpsertUnresolvedAlert :: "alert_input \<Rightarrow> int \<Rightarrow> db \<Rightarrow> (go_error + FireAlertOutcome) \<times> db" where
  "UpsertUnresolvedAlert x reopenNotifyCooldown d =
     transaction (upsertAlertBody x (if reopenNotifyCooldown \<le> 0 then time_Hour else reopenNotifyCooldown)) Driver Driver d"

text \<open>\<open>UPDATE ... SET resolved_at = now() WHERE ... RETURNING fingerprint\<close>.\<close>

definition resolveAlertsWhere :: "(active_alert \<Rightarrow> bool) \<Rightarrow> db \<Rightarrow> (string list) sql_result" where
  "resolveAlertsWhere P =
     sql (\<lambda>d. (Inr (map al_fingerprint (filter (\<lambda>a. al_resolved_at a = None \<and> P a) (active_alerts d))),
            d\<lparr>active_alerts := update_where (\<lambda>a. al_resolved_at a = None \<and> P a) (\<lambda>a. a\<lparr>al_resolved_at := Some (now d)\<rparr>) (active_alerts d)\<rparr>))"

definition nonEmptyTrimmed :: "string list \<Rightarrow> string list" where
  "nonEmptyTrimmed fps = filter (\<lambda>fp. fp \<noteq> '''') (map TrimSpace fps)"

definition ResolveActiveAlertsKindsForDeviceReturning :: "uuid \<Rightarrow> db \<Rightarrow> (go_error + string list) \<times> db" where
  "ResolveActiveAlertsKindsForDeviceReturning deviceID d =
     (if deviceID = uuid_Nil then (Inl (Err ''database: resolve offline args''), d)
      else (case resolveAlertsWhere (\<lambda>a. al_device_id a = Some deviceID \<and> al_alert_kind a \<in> {''builtin_offline'', ''rule_offline''}) d of
              (Inl e, d) \<Rightarrow> (Inl (Driver e), d)
            | (Inr fps, d) \<Rightarrow> (Inr (nonEmptyTrimmed fps), d)))"

definition ResolveActiveAlertsKindsForDevice :: "uuid \<Rightarrow> db \<Rightarrow> (go_error + unit) \<times> db" where
  "ResolveActiveAlertsKindsForDevice deviceID d =
     (case ResolveActiveAlertsKindsForDeviceReturning deviceID d of (Inl e, d) \<Rightarrow> (Inl e, d) | (Inr _, d) \<Rightarrow> (Inr (), d))"

definition ResolveActiveAlertByID :: "uuid \<Rightarrow> db \<Rightarrow> (go_error + unit) \<times> db" where
  "ResolveActiveAlertByID i d =
     (case resolveAlertsWhere (\<lambda>a. al_id a = i) d of
        (Inl e, d) \<Rightarrow> (Inl (Driver e), d)
      | (Inr fps, d) \<Rightarrow> if fps = [] then (Inl (Driver ErrNoRows), d) else (Inr (), d))"

definition ListActiveAlerts :: "int \<Rightarrow> bool \<Rightarrow> db \<Rightarrow> (go_error + active_alert list) \<times> db" where
  "ListActiveAlerts limit includeResolved d =
     (let limit = (if limit < 1 then 50 else limit); limit = (if limit > 200 then 200 else limit)
      in case query (\<lambda>d. take (nat limit)
             (if includeResolved
              then sort_key (\<lambda>a. if al_resolved_at a = None then 0 else (1 :: nat)) (sort_key (\<lambda>a. - al_triggered_at a) (active_alerts d))
              else sort_key (\<lambda>a. - al_triggered_at a) (filter (\<lambda>a. al_resolved_at a = None) (active_alerts d)))) d of
           (Inl e, d) \<Rightarrow> (Inl (Wrap ''database: list active_alerts'' e), d)
         | (Inr as, d) \<Rightarrow> (Inr as, d))"

definition CloseAlertsKindsExceptReturning :: "string \<Rightarrow> string list \<Rightarrow> db \<Rightarrow> (go_error + string list) \<times> db" where
  "CloseAlertsKindsExceptReturning alertKind desiredFingerprints d =
     (let k = TrimSpace alertKind; keep = nonEmptyTrimmed desiredFingerprints
      in if k = '''' then (Inl (Err ''database: alert kind required''), d)
         else (case resolveAlertsWhere (\<lambda>a. al_alert_kind a = k \<and> (keep = [] \<or> al_fingerprint a \<notin> set keep)) d of
                 (Inl e, d) \<Rightarrow> (Inl (Driver e), d)
               | (Inr fps, d) \<Rightarrow> (Inr (nonEmptyTrimmed fps), d)))"

definition CloseAlertsKindsExcept :: "string \<Rightarrow> string list \<Rightarrow> db \<Rightarrow> (go_error + unit) \<times> db" where
  "CloseAlertsKindsExcept alertKind desiredFingerprints d =
     (case CloseAlertsKindsExceptReturning alertKind desiredFingerprints d of (Inl e, d) \<Rightarrow> (Inl e, d) | (Inr _, d) \<Rightarrow> (Inr (), d))"

section \<open>Notification channels\<close>

definition ListActiveNotificationChannels :: "db \<Rightarrow> (go_error + notification_channel list) \<times> db" where
  "ListActiveNotificationChannels d =
     (case query (\<lambda>d. sort_key nc_created_at (filter nc_is_active (notification_channels d))) d of
        (Inl e, d) \<Rightarrow> (Inl (Wrap ''database: list notification_channels'' e), d)
      | (Inr cs, d) \<Rightarrow> (Inr cs, d))"

definition LoadNotificationChannelByID :: "uuid \<Rightarrow> db \<Rightarrow> (go_error + notification_channel) \<times> db" where
  "LoadNotificationChannelByID i d =
     (case query_row (\<lambda>d. find (\<lambda>c. nc_id c = i) (notification_channels d)) d of
        (Inl e, d) \<Rightarrow> (Inl (Driver e), d)
      | (Inr c, d) \<Rightarrow> (Inr c, d))"

section \<open>Assets for alerting\<close>

definition ListAssetsForAlerting :: "uuid option \<Rightarrow> db \<Rightarrow> (go_error + uuid list) \<times> db" where
  "ListAssetsForAlerting only d =
     (case query (\<lambda>d. case only of
              Some i \<Rightarrow> if i \<noteq> uuid_Nil then map a_id (filter (\<lambda>a. a_id a = i) (assets d)) else map a_id (sort_key a_human_id (assets d))
            | None \<Rightarrow> map a_id (sort_key a_human_id (assets d))) d of
        (Inl e, d) \<Rightarrow> (Inl (Wrap ''database: list assets for alerting'' e), d)
      | (Inr is, d) \<Rightarrow> (Inr is, d))"

record AssetLastSeenRow =
  lr_ID :: uuid
  lr_HumanID :: string
  lr_Hostname :: string
  lr_LastSeen :: "time option"

definition lastSeenRow :: "asset \<Rightarrow> AssetLastSeenRow" where
  "lastSeenRow a = \<lparr>lr_ID = a_id a, lr_HumanID = pg_trim (a_human_id a),
     lr_Hostname = (case a_hostname a of None \<Rightarrow> '''' | Some h \<Rightarrow> pg_trim h), lr_LastSeen = a_last_seen a\<rparr>"

definition offlineBefore :: "time \<Rightarrow> asset \<Rightarrow> bool" where
  "offlineBefore cutoff a \<longleftrightarrow> (case a_last_seen a of None \<Rightarrow> True | Some t \<Rightarrow> t < cutoff)"

definition ScanAssetsOfflineBefore :: "time \<Rightarrow> db \<Rightarrow> (go_error + AssetLastSeenRow list) \<times> db" where
  "ScanAssetsOfflineBefore cutoffUTC d =
     (case query (\<lambda>d. map lastSeenRow (filter (offlineBefore cutoffUTC) (assets d))) d of
        (Inl e, d) \<Rightarrow> (Inl (Wrap ''database: offline scan'' e), d)
      | (Inr rows, d) \<Rightarrow> (Inr rows, d))"

definition LoadAssetHeartbeatMeta :: "uuid \<Rightarrow> db \<Rightarrow> (go_error + string \<times> string \<times> time option) \<times> db" where
  "LoadAssetHeartbeatMeta assetID d =
     (case query_row (\<lambda>d. map_option lastSeenRow (find (\<lambda>a. a_id a = assetID) (assets d))) d of
        (Inl ErrNoRows, d) \<Rightarrow> (Inl (Driver ErrNoRows), d)
      | (Inl e, d) \<Rightarrow> (Inl (Wrap ''database: load asset meta'' e), d)
      | (Inr r, d) \<Rightarrow> (Inr (lr_HumanID r, lr_Hostname r, lr_LastSeen r), d))"

definition SecondsSinceLastSeen :: "time \<Rightarrow> time option \<Rightarrow> rat" where
  "SecondsSinceLastSeen t lastSeen = (case lastSeen of None \<Rightarrow> 1000000000000 | Some s \<Rightarrow> of_int (t - s) / of_int time_Second)"

end
