(* ===== verification/AlertEngine.thy ===== *)
theory AlertEngine
  imports Alerting
begin

text \<open>
  The alert engine (\<open>internal/alerting/engine.go\<close>) with the queue of the notification dispatcher
  (\<open>Notify\<close> of \<open>internal/notifications/dispatcher.go\<close>).

  A pass works on the database, the dispatcher's queue and the list of goroutines it has started for
  the incident hooks. A started goroutine is a value of \<open>hook_call\<close>; \<open>runHook\<close> says what it does to the
  world the hooks work on, and the scheduler may run the started goroutines in any order.
\<close>

section \<open>Events and hooks\<close>

record AlertEvent =
  ev_Type :: string
  ev_Severity :: string
  ev_Title :: string
  ev_Message :: string
  ev_Details :: json_object

definition eventQueueDepth :: nat where
  "eventQueueDepth = 512"

definition Notify :: "AlertEvent \<Rightarrow> AlertEvent list \<Rightarrow> AlertEvent list" where
  "Notify ev ch =
     (if TrimSpace (ev_Type ev) = '''' \<or> TrimSpace (ev_Title ev) = '''' then ch
      else if length ch < eventQueueDepth then ch @ [ev] else ch)"

datatype hook_call =
    OnCritical string string uuid string string
  | OnResolved "string list"

record engine_state =
  en_db :: db
  en_events :: "AlertEvent list"
  en_spawned :: "hook_call list"

text \<open>\<open>IncidentAutomationHooks\<close>: the two operations of the interface, on a world of their own.\<close>

fun runHook :: "(string \<Rightarrow> string \<Rightarrow> uuid \<Rightarrow> string \<Rightarrow> string \<Rightarrow> 'w \<Rightarrow> 'w) \<Rightarrow> (string list \<Rightarrow> 'w \<Rightarrow> 'w) \<Rightarrow> hook_call \<Rightarrow> 'w \<Rightarrow> 'w" where
  "runHook onCritical onResolved (OnCritical fp sev dev title msg) w = onCritical fp sev dev title msg w"
| "runHook onCritical onResolved (OnResolved fps) w = onResolved fps w"

section \<open>Comparison and text\<close>

definition offlineBuiltinGrace :: int where
  "offlineBuiltinGrace = 5 * time_Minute"

definition notifyDedupCooldown :: int where
  "notifyDedupCooldown = time_Hour"

definition almostEqual :: "rat \<Rightarrow> rat \<Rightarrow> bool" where
  "almostEqual a b \<longleftrightarrow> \<bar>a - b\<bar> \<le> 1 / 1000000"

definition compareFloat :: "string \<Rightarrow> rat \<Rightarrow> rat \<Rightarrow> bool" where
  "compareFloat operator value threshold =
     (if operator = ''>'' then value > threshold
      else if operator = ''<'' then value < threshold
      else if operator = ''>='' then value \<ge> threshold
      else if operator = ''<='' then value \<le> threshold
      else if operator = ''=='' then almostEqual value threshold
      else False)"

definition sanitizeMetricSample :: "string \<Rightarrow> rat \<Rightarrow> rat" where
  "sanitizeMetricSample metric v =
     (if TrimSpace metric \<in> {''cpu_usage'', ''ram_usage_percent'', ''disk_usage_percent''} then (if v < 0 then 0 else v) else v)"

definition math_Round :: "rat \<Rightarrow> rat" where
  "math_Round x = (if x \<ge> 0 then of_int \<lfloor>x + 1 / 2\<rfloor> else - of_int \<lfloor>1 / 2 - x\<rfloor>)"

definition dedupeFingerprints :: "string list \<Rightarrow> string list" where
  "dedupeFingerprints fps = dedup_by id [] (nonEmptyTrimmed fps)"

definition fpBuiltinOffline :: "lib \<Rightarrow> uuid \<Rightarrow> string" where
  "fpBuiltinOffline L a = ''builtin-offline:'' @ u_str L a"

definition fpRuleOffline :: "lib \<Rightarrow> uuid \<Rightarrow> uuid \<Rightarrow> string" where
  "fpRuleOffline L r a = ''rule-offline:'' @ u_str L r @ '':'' @ u_str L a"

definition fpRuleMetric :: "lib \<Rightarrow> uuid \<Rightarrow> uuid \<Rightarrow> string" where
  "fpRuleMetric L r a = ''rule-metric:'' @ u_str L r @ '':'' @ u_str L a"

section \<open>Starting the hooks\<close>

definition submitResolvedFingerprints :: "bool \<Rightarrow> string list \<Rightarrow> engine_state \<Rightarrow> engine_state" where
  "submitResolvedFingerprints hooks fps s =
     (if fps = [] \<or> \<not> hooks then s else s\<lparr>en_spawned := en_spawned s @ [OnResolved (dedupeFingerprints fps)]\<rparr>)"

definition maybeOpenIncidentForCritical :: "bool \<Rightarrow> string \<Rightarrow> string \<Rightarrow> uuid \<Rightarrow> string \<Rightarrow> string \<Rightarrow> engine_state \<Rightarrow> engine_state" where
  "maybeOpenIncidentForCritical hooks fp severity deviceID title msg s =
     (if \<not> hooks \<or> TrimSpace (ToLower severity) \<noteq> ''critical'' then s
      else s\<lparr>en_spawned := en_spawned s @ [OnCritical (TrimSpace fp) ''critical'' deviceID (TrimSpace title) (TrimSpace msg)]\<rparr>)"

text \<open>The part the three kinds of alert share: upsert, notification, hook; the error of the upsert is the
  result.\<close>

definition fireAlert :: "bool \<Rightarrow> alert_input \<Rightarrow> uuid \<Rightarrow> AlertEvent \<Rightarrow> engine_state \<Rightarrow> (go_error + unit) \<times> engine_state" where
  "fireAlert hooks x dev ev s =
     (case UpsertUnresolvedAlert x notifyDedupCooldown (en_db s) of
        (Inl e, d) \<Rightarrow> (Inl e, s\<lparr>en_db := d\<rparr>)
      | (Inr outcome, d) \<Rightarrow>
          (let s = s\<lparr>en_db := d\<rparr>;
               s = (if fo_ShouldNotify outcome then s\<lparr>en_events := Notify ev (en_events s)\<rparr> else s)
           in (Inr (), maybeOpenIncidentForCritical hooks (ai_fingerprint x) (ai_severity x) dev (ai_title x) (ai_message x) s)))"

section \<open>The built-in watchdog\<close>

definition builtinTitle :: "AssetLastSeenRow \<Rightarrow> string" where
  "builtinTitle a = lr_HumanID a @ '' offline (built-in watchdog)''"

definition builtinBody :: "lib \<Rightarrow> AssetLastSeenRow \<Rightarrow> string" where
  "builtinBody L a =
     ''Asset '' @ TrimSpace (lr_HumanID a) @ '' ('' @ TrimSpace (lr_Hostname a) @ '') has not communicated for at least ''
     @ f_fixed L 0 (of_int offlineBuiltinGrace / of_int time_Second) @ '' seconds.''
     @ (case lr_LastSeen a of None \<Rightarrow> '''' | Some t \<Rightarrow> '' Last heartbeat at '' @ t_rfc3339 L t @ ''.'')"

definition builtinInput :: "lib \<Rightarrow> time \<Rightarrow> AssetLastSeenRow \<Rightarrow> alert_input" where
  "builtinInput L t a =
     \<lparr>ai_fingerprint = fpBuiltinOffline L (lr_ID a), ai_kind = ''builtin_offline'', ai_device = Some (lr_ID a), ai_rule = None,
      ai_severity = ''critical'', ai_title = builtinTitle a, ai_message = builtinBody L a,
      ai_details = [(''asset_id'', JStr (u_str L (lr_ID a))), (''human_id'', JStr (lr_HumanID a)), (''hostname'', JStr (lr_Hostname a)),
                    (''offline_secs'', JNum (SecondsSinceLastSeen t (lr_LastSeen a)))]\<rparr>"

definition builtinEvent :: "lib \<Rightarrow> time \<Rightarrow> AssetLastSeenRow \<Rightarrow> AlertEvent" where
  "builtinEvent L t a =
     \<lparr>ev_Type = ''device_offline'', ev_Severity = ''critical'', ev_Title = builtinTitle a, ev_Message = builtinBody L a,
      ev_Details = [(''fingerprint'', JStr (fpBuiltinOffline L (lr_ID a))), (''human_id'', JStr (lr_HumanID a)),
                    (''offline_seconds'', JNum (math_Round (SecondsSinceLastSeen t (lr_LastSeen a))))]\<rparr>"

text \<open>The loop collects the fingerprints to keep and stops at the first error.\<close>

fun builtinLoop :: "lib \<Rightarrow> bool \<Rightarrow> AssetLastSeenRow list \<Rightarrow> string list \<Rightarrow> engine_state \<Rightarrow> (go_error + string list) \<times> engine_state" where
  "builtinLoop L hooks [] desired s = (Inr desired, s)"
| "builtinLoop L hooks (a # as) desired s =
     (let t = now (en_db s)
      in case fireAlert hooks (builtinInput L t a) (lr_ID a) (builtinEvent L t a) s of
           (Inl e, s) \<Rightarrow> (Inl e, s)
         | (Inr _, s) \<Rightarrow> builtinLoop L hooks as (desired @ [fpBuiltinOffline L (lr_ID a)]) s)"

definition evaluateBuiltinOffline :: "lib \<Rightarrow> bool \<Rightarrow> engine_state \<Rightarrow> (go_error + unit) \<times> engine_state" where
  "evaluateBuiltinOffline L hooks s =
     (case ScanAssetsOfflineBefore (now (en_db s) - offlineBuiltinGrace) (en_db s) of
        (Inl e, d) \<Rightarrow> (Inl e, s\<lparr>en_db := d\<rparr>)
      | (Inr offlineRows, d) \<Rightarrow>
          (case builtinLoop L hooks offlineRows [] (s\<lparr>en_db := d\<rparr>) of
             (Inl e, s) \<Rightarrow> (Inl e, s)
           | (Inr desired, s) \<Rightarrow>
               (case CloseAlertsKindsExceptReturning ''builtin_offline'' desired (en_db s) of
                  (Inl e, d) \<Rightarrow> (Inl e, s\<lparr>en_db := d\<rparr>)
                | (Inr fps, d) \<Rightarrow> (Inr (), submitResolvedFingerprints hooks fps (s\<lparr>en_db := d\<rparr>)))))"

section \<open>Offline rules\<close>

definition offlineRuleInput :: "lib \<Rightarrow> alert_rule \<Rightarrow> uuid \<Rightarrow> string \<Rightarrow> string \<Rightarrow> rat \<Rightarrow> alert_input" where
  "offlineRuleInput L rule assetID human host sec =
     \<lparr>ai_fingerprint = fpRuleOffline L (ar_id rule) assetID, ai_kind = ''rule_offline'', ai_device = Some assetID, ai_rule = Some (ar_id rule),
      ai_severity = TrimSpace (ar_severity rule),
      ai_title = ''['' @ ToUpper (ar_severity rule) @ ''] '' @ TrimSpace human @ '' breached offline policy'',
      ai_message = ''Rule '' @ go_quote (ar_name rule) @ '' reports asset '' @ TrimSpace (human @ '' '' @ host)
        @ '' has been unreachable for '' @ f_fixed L 0 sec @ '' seconds (threshold '' @ f_fixed L 0 (ar_threshold rule)
        @ '', operator '' @ TrimSpace (ar_operator rule) @ '').'',
      ai_details = [(''rule_id'', JStr (u_str L (ar_id rule))), (''asset_id'', JStr (u_str L assetID)), (''offline_seconds'', JNum sec)]\<rparr>"

definition ruleEvent :: "lib \<Rightarrow> string \<Rightarrow> alert_rule \<Rightarrow> uuid \<Rightarrow> alert_input \<Rightarrow> json_object \<Rightarrow> AlertEvent" where
  "ruleEvent L type rule assetID x extra =
     \<lparr>ev_Type = type, ev_Severity = ai_severity x, ev_Title = ai_title x, ev_Message = ai_message x,
      ev_Details = [(''rule_id'', JStr (u_str L (ar_id rule))), (''asset_id'', JStr (u_str L assetID))] @ extra\<rparr>"

text \<open>An asset whose lookup or upsert fails is skipped; a skipped lookup leaves its fingerprint out of
  those to keep.\<close>

fun handleOfflineRule :: "lib \<Rightarrow> bool \<Rightarrow> alert_rule \<Rightarrow> uuid list \<Rightarrow> string list \<Rightarrow> engine_state \<Rightarrow> string list \<times> engine_state" where
  "handleOfflineRule L hooks rule [] out s = (out, s)"
| "handleOfflineRule L hooks rule (assetID # devices) out s =
     (case LoadAssetHeartbeatMeta assetID (en_db s) of
        (Inl _, d) \<Rightarrow> handleOfflineRule L hooks rule devices out (s\<lparr>en_db := d\<rparr>)
      | (Inr (human, host, lastSeen), d) \<Rightarrow>
          (let s = s\<lparr>en_db := d\<rparr>; sec = SecondsSinceLastSeen (now d) lastSeen; x = offlineRuleInput L rule assetID human host sec
           in if \<not> compareFloat (TrimSpace (ar_operator rule)) sec (ar_threshold rule)
              then handleOfflineRule L hooks rule devices out s
              else handleOfflineRule L hooks rule devices (out @ [fpRuleOffline L (ar_id rule) assetID])
                     (snd (fireAlert hooks x assetID (ruleEvent L ''alert_rule_offline'' rule assetID x []) s))))"

section \<open>Metric rules\<close>

definition metricRuleInput :: "lib \<Rightarrow> alert_rule \<Rightarrow> uuid \<Rightarrow> int \<Rightarrow> rat \<Rightarrow> nat \<Rightarrow> string \<Rightarrow> string \<Rightarrow> alert_input" where
  "metricRuleInput L rule assetID window applied samples human host =
     \<lparr>ai_fingerprint = fpRuleMetric L (ar_id rule) assetID, ai_kind = ''rule_metric'', ai_device = Some assetID, ai_rule = Some (ar_id rule),
      ai_severity = TrimSpace (ar_severity rule),
      ai_title = ''['' @ ToUpper (ar_severity rule) @ ''] '' @ ar_name rule @ '' triggered'',
      ai_message = ''Metric '' @ TrimSpace (ar_metric rule) @ '' averaged '' @ f_fixed L 2 applied @ '' over '' @ d_string L window
        @ '' (threshold '' @ f_fixed L 2 (ar_threshold rule) @ '', operator '' @ TrimSpace (ar_operator rule)
        @ '', samples '' @ nat_str samples @ '').'',
      ai_details = [(''rule_id'', JStr (u_str L (ar_id rule))), (''asset_id'', JStr (u_str L assetID)), (''metric'', JStr (TrimSpace (ar_metric rule))),
                    (''window'', JStr (d_string L window)), (''avg_value'', JNum applied), (''human_id'', JStr human), (''hostname'', JStr host),
                    (''samples'', JNum (of_nat samples))]\<rparr>"

fun handleTelemetryRule :: "lib \<Rightarrow> bool \<Rightarrow> alert_rule \<Rightarrow> int \<Rightarrow> uuid list \<Rightarrow> string list \<Rightarrow> engine_state \<Rightarrow> string list \<times> engine_state" where
  "handleTelemetryRule L hooks rule window [] out s = (out, s)"
| "handleTelemetryRule L hooks rule window (assetID # devices) out s =
     (case LoadAggregatedMetricInWindow assetID (ar_metric rule) window (en_db s) of
        (Inl _, d) \<Rightarrow> handleTelemetryRule L hooks rule window devices out (s\<lparr>en_db := d\<rparr>)
      | (Inr sample, d) \<Rightarrow>
          (let s = s\<lparr>en_db := d\<rparr>; applied = sanitizeMetricSample (ar_metric rule) (ms_AvgMetric sample)
           in if ms_SampleRows sample = 0 \<or> \<not> compareFloat (TrimSpace (ar_operator rule)) applied (ar_threshold rule)
              then handleTelemetryRule L hooks rule window devices out s
              else
                (case LoadAssetHeartbeatMeta assetID (en_db s) of (meta, d) \<Rightarrow>
                   let s = s\<lparr>en_db := d\<rparr>;
                       hh = (case meta of Inl _ \<Rightarrow> ('''', '''') | Inr (human, host, _) \<Rightarrow> (human, host));
                       x = metricRuleInput L rule assetID window applied (ms_SampleRows sample) (fst hh) (snd hh)
                   in handleTelemetryRule L hooks rule window devices (out @ [fpRuleMetric L (ar_id rule) assetID])
                        (snd (fireAlert hooks x assetID (ruleEvent L ''alert_rule_metric'' rule assetID x [(''avg'', JNum applied)]) s)))))"

section \<open>A pass\<close>

definition ruleWindow :: "alert_rule \<Rightarrow> int" where
  "ruleWindow rule = (let w = int64_mult (ar_duration_seconds rule) time_Second in if w \<le> 0 then time_Minute else w)"

text \<open>The loop over the rules; the first asset list that cannot be read ends the pass.\<close>

fun rulesLoop :: "lib \<Rightarrow> bool \<Rightarrow> alert_rule list \<Rightarrow> string list \<times> string list \<Rightarrow> engine_state
    \<Rightarrow> (go_error + string list \<times> string list) \<times> engine_state" where
  "rulesLoop L hooks [] outs s = (Inr outs, s)"
| "rulesLoop L hooks (rule # rules) (desiredOffline, desiredMetric) s =
     (case ListAssetsForAlerting (ar_target_device_id rule) (en_db s) of
        (Inl e, d) \<Rightarrow> (Inl e, s\<lparr>en_db := d\<rparr>)
      | (Inr devices, d) \<Rightarrow>
          (if TrimSpace (ar_metric rule) = ''offline_status'' then
             (case handleOfflineRule L hooks rule devices desiredOffline (s\<lparr>en_db := d\<rparr>) of
                (out, s) \<Rightarrow> rulesLoop L hooks rules (out, desiredMetric) s)
           else
             (case handleTelemetryRule L hooks rule (ruleWindow rule) devices desiredMetric (s\<lparr>en_db := d\<rparr>) of
                (out, s) \<Rightarrow> rulesLoop L hooks rules (desiredOffline, out) s)))"

definition evaluateDeviceRules :: "lib \<Rightarrow> bool \<Rightarrow> engine_state \<Rightarrow> (go_error + unit) \<times> engine_state" where
  "evaluateDeviceRules L hooks s =
     (case ListAlertRulesEnabled (en_db s) of
        (Inl e, d) \<Rightarrow> (Inl e, s\<lparr>en_db := d\<rparr>)
      | (Inr rules, d) \<Rightarrow>
          (case rulesLoop L hooks rules ([], []) (s\<lparr>en_db := d\<rparr>) of
             (Inl e, s) \<Rightarrow> (Inl e, s)
           | (Inr (desiredOffline, desiredMetric), s) \<Rightarrow>
               (case CloseAlertsKindsExceptReturning ''rule_offline'' desiredOffline (en_db s) of
                  (Inl e, d) \<Rightarrow> (Inl e, s\<lparr>en_db := d\<rparr>)
                | (Inr fpsOffline, d) \<Rightarrow>
                    (case CloseAlertsKindsExceptReturning ''rule_metric'' desiredMetric d of
                       (Inl e, d) \<Rightarrow> (Inl e, s\<lparr>en_db := d\<rparr>)
                     | (Inr fpsMetric, d) \<Rightarrow>
                         (Inr (), submitResolvedFingerprints hooks (dedupeFingerprints (fpsOffline @ fpsMetric)) (s\<lparr>en_db := d\<rparr>))))))"

text \<open>Errors of the two parts are only logged.\<close>

definition evaluate :: "lib \<Rightarrow> bool \<Rightarrow> engine_state \<Rightarrow> engine_state" where
  "evaluate L hooks s = snd (evaluateDeviceRules L hooks (snd (evaluateBuiltinOffline L hooks s)))"

definition OnHeartbeat :: "bool \<Rightarrow> uuid \<Rightarrow> engine_state \<Rightarrow> engine_state" where
  "OnHeartbeat hooks deviceID s =
     (if deviceID = uuid_Nil then s
      else (case ResolveActiveAlertsKindsForDeviceReturning deviceID (en_db s) of (res, d) \<Rightarrow>
              let s = s\<lparr>en_db := d\<rparr>; fps = (case res of Inl _ \<Rightarrow> [] | Inr fps \<Rightarrow> fps)
              in if fps = [] \<or> \<not> hooks then s
                 else s\<lparr>en_spawned := en_spawned s @ [OnResolved (dedupeFingerprints fps)]\<rparr>))"

end
