(* ===== verification/Alerting_Facts.thy ===== *)
theory Alerting_Facts
  imports AlertEngine
begin

text \<open>
  Correctness of the alert table and of the alert engine: one row per fingerprint, the notification
  cadence over every run of the operations, the built-in watchdog as a refinement of \<open>offline since five
  minutes\<close>, and the incidents that follow the alerts whatever the order of the started goroutines.
\<close>

section \<open>One row per fingerprint\<close>

definition wf_alerts :: "db \<Rightarrow> bool" where
  "wf_alerts d \<longleftrightarrow> distinct (map al_id (active_alerts d)) \<and> distinct (map al_fingerprint (active_alerts d))"

definition alertFor :: "db \<Rightarrow> string \<Rightarrow> active_alert option" where
  "alertFor d fp = find (\<lambda>a. al_fingerprint a = fp) (active_alerts d)"

lemma alertFor_Some: "alertFor d fp = Some a \<Longrightarrow> a \<in> set (active_alerts d) \<and> al_fingerprint a = fp"
  by (auto simp: alertFor_def find_Some_iff)

lemma alertFor_None: "alertFor d fp = None \<longleftrightarrow> fp \<notin> al_fingerprint ` set (active_alerts d)"
  by (auto simp: alertFor_def find_None_iff)

lemma alertFor_row: "wf_alerts d \<Longrightarrow> a \<in> set (active_alerts d) \<Longrightarrow> alertFor d (al_fingerprint a) = Some a"
proof -
  assume wf: "wf_alerts d" and a: "a \<in> set (active_alerts d)"
  obtain b where b: "alertFor d (al_fingerprint a) = Some b" using a by (cases "alertFor d (al_fingerprint a)") (auto simp: alertFor_None)
  then have "b \<in> set (active_alerts d)" "al_fingerprint b = al_fingerprint a" using alertFor_Some by blast+
  with wf a have "b = a" by (auto simp: wf_alerts_def distinct_map dest: inj_onD)
  with b show ?thesis by simp
qed

text \<open>What an upsert writes: a new row, or the row of the fingerprint reopened or refreshed and stamped when
  a notification is due.\<close>

definition upsertNotifies :: "db \<Rightarrow> string \<Rightarrow> int \<Rightarrow> bool" where
  "upsertNotifies d fp cooldown \<longleftrightarrow>
     (case alertFor d fp of
        None \<Rightarrow> True
      | Some a \<Rightarrow> al_resolved_at a \<noteq> None
          \<or> (case al_last_notified_at a of None \<Rightarrow> True | Some t \<Rightarrow> now d - t \<ge> cooldown))"

definition upsertedRow :: "alert_input \<Rightarrow> bool \<Rightarrow> time \<Rightarrow> active_alert \<Rightarrow> active_alert" where
  "upsertedRow x notify t a =
     (let b = (if al_resolved_at a \<noteq> None then reopenAlertRow x t a else refreshAlertRow x a)
      in if notify then b\<lparr>al_last_notified_at := Some t\<rparr> else b)"

lemma upsertedRow_simps [simp]:
  "al_id (upsertedRow x n t a) = al_id a" "al_fingerprint (upsertedRow x n t a) = al_fingerprint a"
  "al_resolved_at (upsertedRow x n t a) = None"
  by (auto simp: upsertedRow_def Let_def reopenAlertRow_def refreshAlertRow_def)

lemma updateAlertRow_Inr:
  "updateAlertRow i f d = (Inr u, d') \<Longrightarrow> d' = d\<lparr>active_alerts := update_where (\<lambda>a. al_id a = i) f (active_alerts d)\<rparr>"
  by (auto simp: updateAlertRow_def split: option.splits)

lemma update_where_compose:
  assumes "\<And>r. P (f r) = P r"
  shows "update_where P g (update_where P f rows) = update_where P (\<lambda>r. g (f r)) rows"
  using assms by (simp add: update_where_def)

lemma sql_Inr: "sql stmt d = (Inr x, d') \<Longrightarrow> stmt (d\<lparr>stmt_no := Suc (stmt_no d)\<rparr>) = (Inr x, d')"
  by (auto simp: sql_def Let_def split: if_splits)

lemma update_where_cong:
  "(\<And>r. r \<in> set rows \<Longrightarrow> P r \<Longrightarrow> f r = g r) \<Longrightarrow> update_where P f rows = update_where P g rows"
  by (simp add: update_where_def)

lemma UpsertUnresolvedAlert_new:
  assumes "UpsertUnresolvedAlert x cooldown d = (Inr r, d')" and "alertFor d (ai_fingerprint x) = None"
  shows "fo_ShouldNotify r \<and> fo_AlertID r \<notin> al_id ` set (active_alerts d) \<and> fo_AlertID r = random_uuid d
    \<and> (\<exists>n. d' = d\<lparr>stmt_no := n, uuid_next := Suc (uuid_next d),
          active_alerts := active_alerts d @ [(openAlertRow x (now d))\<lparr>al_id := fo_AlertID r\<rparr>]\<rparr>)"
proof -
  let ?d0 = "d\<lparr>stmt_no := Suc (Suc (stmt_no d))\<rparr>"
  have q: "\<not> fault_at d (Suc (stmt_no d)) \<Longrightarrow>
      query_row (\<lambda>d. find (\<lambda>a. al_fingerprint a = ai_fingerprint x) (active_alerts d)) (d\<lparr>stmt_no := Suc (stmt_no d)\<rparr>) = (Inl ErrNoRows, ?d0)"
    using assms(2) by (simp add: query_row_def sql_def Let_def alertFor_def)
  have f: "\<not> fault_at d (Suc (stmt_no d))"
    using transaction_Inr [OF assms(1) [unfolded UpsertUnresolvedAlert_def]]
    by (auto simp: upsertAlertBody_def query_row_def sql_def Let_def split: if_splits)
  obtain d1 i where i: "sql (insertAlertRow (openAlertRow x (now d))) ?d0 = (Inr i, d1)" "d' = d1\<lparr>stmt_no := Suc (stmt_no d1)\<rparr>"
    and r: "r = \<lparr>fo_AlertID = i, fo_ShouldNotify = True\<rparr>"
    using transaction_Inr [OF assms(1) [unfolded UpsertUnresolvedAlert_def]]
    by (auto simp: upsertAlertBody_def q [OF f] split: prod.splits sum.splits)
  have d1: "i \<notin> al_id ` set (active_alerts d)" "i = random_uuid d" "d1 = ?d0\<lparr>stmt_no := Suc (stmt_no ?d0), uuid_next := Suc (uuid_next d),
      active_alerts := active_alerts d @ [(openAlertRow x (now d))\<lparr>al_id := i\<rparr>]\<rparr>"
    using sql_Inr [OF i(1)]
    by (auto simp: insertAlertRow_def Let_def uuid_used_def random_uuid_def split: if_splits option.splits)
  have "d' = d\<lparr>stmt_no := Suc (stmt_no d1), uuid_next := Suc (uuid_next d), active_alerts := active_alerts d @ [(openAlertRow x (now d))\<lparr>al_id := i\<rparr>]\<rparr>"
    unfolding i(2) by (rule db.equality) (simp_all add: d1)
  with r d1(1,2) show ?thesis by auto
qed

lemma refreshAlert_Inr:
  assumes ref: "refreshAlert x cooldown a d = (Inr r, d')" and a: "alertFor d (ai_fingerprint x) = Some a" and wf: "wf_alerts d"
  shows "fo_ShouldNotify r = upsertNotifies d (ai_fingerprint x) cooldown \<and> fo_AlertID r = al_id a
    \<and> (\<exists>n. d' = d\<lparr>stmt_no := n,
          active_alerts := update_where (\<lambda>b. al_id b = al_id a) (upsertedRow x (fo_ShouldNotify r) (now d)) (active_alerts d)\<rparr>)"
proof -
  let ?P = "\<lambda>b. al_id b = al_id a" and ?n = "upsertNotifies d (ai_fingerprint x) cooldown"
  let ?f = "if al_resolved_at a \<noteq> None then reopenAlertRow x (now d) else refreshAlertRow x"
  have dec: "decideNotifyOnOpen (al_resolved_at a \<noteq> None) (if al_resolved_at a \<noteq> None then None else al_last_notified_at a) cooldown (now d) = ?n"
    using a by (auto simp: decideNotifyOnOpen_def upsertNotifies_def)
  obtain d1 where u: "sql (updateAlertRow (al_id a) ?f) d = (Inr (), d1)"
    using ref by (auto simp: refreshAlert_def Let_def split: prod.splits sum.splits)
  have d1: "d1 = d\<lparr>stmt_no := Suc (stmt_no d), active_alerts := update_where ?P ?f (active_alerts d)\<rparr>"
    using updateAlertRow_Inr [OF sql_Inr [OF u]] by simp
  have fuse: "update_where ?P (upsertedRow x ?n (now d)) (active_alerts d)
      = update_where ?P (\<lambda>b. let b = ?f b in if ?n then b\<lparr>al_last_notified_at := Some (now d)\<rparr> else b) (active_alerts d)"
    using wf alertFor_Some [OF a] by (intro update_where_cong) (auto simp: upsertedRow_def Let_def wf_alerts_def distinct_map dest: inj_onD)
  have nw: "now d1 = now d" by (simp add: d1)
  show ?thesis
  proof (cases ?n)
    case True
    with ref have "sql (updateAlertRow (al_id a) (\<lambda>a. a\<lparr>al_last_notified_at := Some (now d)\<rparr>)) d1 = (Inr (), d')"
      and r: "r = \<lparr>fo_AlertID = al_id a, fo_ShouldNotify = True\<rparr>"
      by (auto simp: refreshAlert_def Let_def u dec nw simp del: not_None_eq split: prod.splits sum.splits)
    from updateAlertRow_Inr [OF sql_Inr [OF this(1)]]
    have d': "d' = d1\<lparr>stmt_no := Suc (stmt_no d1), active_alerts := update_where ?P (\<lambda>a. a\<lparr>al_last_notified_at := Some (now d)\<rparr>) (active_alerts d1)\<rparr>"
      by simp
    have "active_alerts d' = update_where ?P (upsertedRow x ?n (now d)) (active_alerts d)"
      unfolding fuse using True by (simp add: d' d1 update_where_compose Let_def reopenAlertRow_def refreshAlertRow_def)
    then have "d' = d\<lparr>stmt_no := Suc (stmt_no d1), active_alerts := update_where ?P (upsertedRow x ?n (now d)) (active_alerts d)\<rparr>"
      unfolding d' by (simp add: d1)
    with True r show ?thesis by auto
  next
    case False
    with ref have "d' = d1" and r: "r = \<lparr>fo_AlertID = al_id a, fo_ShouldNotify = False\<rparr>"
      by (auto simp: refreshAlert_def Let_def u dec nw simp del: not_None_eq)
    with False have "d' = d\<lparr>stmt_no := Suc (stmt_no d), active_alerts := update_where ?P (upsertedRow x ?n (now d)) (active_alerts d)\<rparr>"
      unfolding fuse by (simp add: d1)
    with False r show ?thesis by auto
  qed
qed

lemma UpsertUnresolvedAlert_old:
  assumes "UpsertUnresolvedAlert x cooldown d = (Inr r, d')" and "alertFor d (ai_fingerprint x) = Some a"
    and wf: "wf_alerts d" and c: "cooldown > 0"
  shows "fo_ShouldNotify r = upsertNotifies d (ai_fingerprint x) cooldown \<and> fo_AlertID r = al_id a
    \<and> (\<exists>n. d' = d\<lparr>stmt_no := n,
          active_alerts := update_where (\<lambda>b. al_id b = al_id a) (upsertedRow x (fo_ShouldNotify r) (now d)) (active_alerts d)\<rparr>)"
proof -
  let ?d0 = "d\<lparr>stmt_no := Suc (Suc (stmt_no d))\<rparr>"
  have f: "\<not> fault_at d (Suc (stmt_no d))"
    using transaction_Inr [OF assms(1) [unfolded UpsertUnresolvedAlert_def]]
    by (auto simp: upsertAlertBody_def query_row_def sql_def Let_def split: if_splits)
  have q: "query_row (\<lambda>d. find (\<lambda>a. al_fingerprint a = ai_fingerprint x) (active_alerts d)) (d\<lparr>stmt_no := Suc (stmt_no d)\<rparr>) = (Inr a, ?d0)"
    using assms(2) f by (simp add: query_row_def sql_def Let_def alertFor_def)
  obtain d2 where b: "refreshAlert x cooldown a ?d0 = (Inr r, d2)" and d': "d' = d2\<lparr>stmt_no := Suc (stmt_no d2)\<rparr>"
    using transaction_Inr [OF assms(1) [unfolded UpsertUnresolvedAlert_def]] c by (auto simp: upsertAlertBody_def q)
  have e: "alertFor ?d0 = alertFor d" "wf_alerts ?d0" "upsertNotifies ?d0 = upsertNotifies d"
    using wf by (auto simp: alertFor_def fun_eq_iff wf_alerts_def upsertNotifies_def split: option.splits)
  from refreshAlert_Inr [OF b _ e(2), unfolded e(1,3), OF assms(2)]
  obtain n where o: "fo_ShouldNotify r = upsertNotifies d (ai_fingerprint x) cooldown" "fo_AlertID r = al_id a"
    and d2: "d2 = ?d0\<lparr>stmt_no := n, active_alerts := update_where (\<lambda>b. al_id b = al_id a) (upsertedRow x (fo_ShouldNotify r) (now d)) (active_alerts d)\<rparr>"
    by auto
  have "d' = d\<lparr>stmt_no := Suc n, active_alerts := update_where (\<lambda>b. al_id b = al_id a) (upsertedRow x (fo_ShouldNotify r) (now d)) (active_alerts d)\<rparr>"
    unfolding d' by (rule db.equality) (simp_all add: d2)
  with o show ?thesis by blast
qed

section \<open>The notification cadence\<close>

text \<open>When the open alert of a fingerprint was last notified.\<close>

definition isOpen :: "db \<Rightarrow> string \<Rightarrow> bool" where
  "isOpen d fp \<longleftrightarrow> (case alertFor d fp of None \<Rightarrow> False | Some a \<Rightarrow> al_resolved_at a = None)"

definition lastNotice :: "db \<Rightarrow> string \<Rightarrow> time option" where
  "lastNotice d fp = (case alertFor d fp of None \<Rightarrow> None | Some a \<Rightarrow> if al_resolved_at a = None then al_last_notified_at a else None)"

lemma upsertNotifies_lastNotice:
  "upsertNotifies d fp c \<longleftrightarrow> (case lastNotice d fp of None \<Rightarrow> True | Some t \<Rightarrow> t + c \<le> now d)"
  by (auto simp: upsertNotifies_def lastNotice_def split: option.splits)

lemma alertFor_update:
  assumes wf: "wf_alerts d" and a: "alertFor d fp = Some a" and f: "\<And>r. al_fingerprint (f r) = al_fingerprint r"
    and d': "active_alerts d' = update_where (\<lambda>b. al_id b = al_id a) f (active_alerts d)"
  shows "alertFor d' fp' = (if fp' = fp then Some (f a) else alertFor d fp')"
proof -
  have eq: "al_id b = al_id a \<longleftrightarrow> b = a" if "b \<in> set (active_alerts d)" for b
    using that wf alertFor_Some [OF a] by (auto simp: wf_alerts_def distinct_map dest: inj_onD)
  have m: "alertFor d' fp' = map_option (\<lambda>b. if al_id b = al_id a then f b else b) (alertFor d fp')"
    unfolding alertFor_def d' by (rule find_update_where [where k = al_fingerprint]) (rule f)
  show ?thesis
  proof (cases "alertFor d fp'")
    case None
    with m a show ?thesis by auto
  next
    case (Some b)
    note b = alertFor_Some [OF Some]
    show ?thesis
    proof (cases "fp' = fp")
      case True
      with m a show ?thesis by simp
    next
      case False
      with b alertFor_Some [OF a] have "b \<noteq> a" by auto
      with b eq [of b] m Some False show ?thesis by simp
    qed
  qed
qed

lemma wf_alerts_update:
  assumes "wf_alerts d" and "\<And>r. al_fingerprint (f r) = al_fingerprint r" and "\<And>r. al_id (f r) = al_id r"
    and "active_alerts d' = update_where P f (active_alerts d)"
  shows "wf_alerts d'"
  using assms by (simp add: wf_alerts_def map_update_where)

lemma alertFor_append: "alertFor (d\<lparr>active_alerts := active_alerts d @ [r]\<rparr>) fp
    = (case alertFor d fp of Some a \<Rightarrow> Some a | None \<Rightarrow> if al_fingerprint r = fp then Some r else None)"
proof -
  have "find P (xs @ [r]) = (case find P xs of Some a \<Rightarrow> Some a | None \<Rightarrow> if P r then Some r else None)" for P and xs :: "active_alert list"
    by (induction xs) auto
  then show ?thesis by (simp add: alertFor_def)
qed

text \<open>The state after a successful upsert, seen by fingerprint.\<close>

lemma upsert_alertFor:
  assumes wf: "wf_alerts d" and c: "cooldown > 0" and up: "UpsertUnresolvedAlert x cooldown d = (Inr r, d')"
  shows "fo_ShouldNotify r = upsertNotifies d (ai_fingerprint x) cooldown" "wf_alerts d'"
    "fp \<noteq> ai_fingerprint x \<Longrightarrow> alertFor d' fp = alertFor d fp"
    "alertFor d' (ai_fingerprint x) = Some (case alertFor d (ai_fingerprint x) of
       None \<Rightarrow> (openAlertRow x (now d))\<lparr>al_id := fo_AlertID r\<rparr>
     | Some a \<Rightarrow> upsertedRow x (fo_ShouldNotify r) (now d) a)"
    "\<exists>n m. d' = d\<lparr>stmt_no := n, uuid_next := m, active_alerts := active_alerts d'\<rparr>"
proof -
  let ?fp = "ai_fingerprint x"
  have "fo_ShouldNotify r = upsertNotifies d ?fp cooldown \<and> wf_alerts d'
      \<and> (fp \<noteq> ?fp \<longrightarrow> alertFor d' fp = alertFor d fp)
      \<and> alertFor d' ?fp = Some (case alertFor d ?fp of
           None \<Rightarrow> (openAlertRow x (now d))\<lparr>al_id := fo_AlertID r\<rparr>
         | Some a \<Rightarrow> upsertedRow x (fo_ShouldNotify r) (now d) a)
      \<and> (\<exists>n m. d' = d\<lparr>stmt_no := n, uuid_next := m, active_alerts := active_alerts d'\<rparr>)" for fp
  proof (cases "alertFor d ?fp")
    case None
    let ?row = "(openAlertRow x (now d))\<lparr>al_id := fo_AlertID r\<rparr>"
    from UpsertUnresolvedAlert_new [OF up None] obtain n where
      o: "fo_ShouldNotify r" "fo_AlertID r \<notin> al_id ` set (active_alerts d)"
      and d': "d' = d\<lparr>stmt_no := n, uuid_next := Suc (uuid_next d), active_alerts := active_alerts d @ [?row]\<rparr>" by blast
    have f: "al_fingerprint ?row = ?fp" by (simp add: openAlertRow_def)
    have "alertFor d' g = alertFor (d\<lparr>active_alerts := active_alerts d @ [?row]\<rparr>) g" for g by (simp add: alertFor_def d')
    then have "alertFor d' g = (case alertFor d g of Some a \<Rightarrow> Some a | None \<Rightarrow> if ?fp = g then Some ?row else None)" for g
      unfolding alertFor_append f .
    moreover have "wf_alerts d'"
      using wf o(2) None unfolding alertFor_None by (simp add: wf_alerts_def d' openAlertRow_def)
    moreover have "upsertNotifies d ?fp cooldown" using None by (simp add: upsertNotifies_def)
    moreover have "d' = d\<lparr>stmt_no := n, uuid_next := Suc (uuid_next d), active_alerts := active_alerts d'\<rparr>" by (simp add: d')
    ultimately show ?thesis using o(1) None by (auto split: option.splits)
  next
    case (Some a)
    from UpsertUnresolvedAlert_old [OF up Some wf c] obtain n where
      o: "fo_ShouldNotify r = upsertNotifies d ?fp cooldown" and
      d': "d' = d\<lparr>stmt_no := n, active_alerts := update_where (\<lambda>b. al_id b = al_id a) (upsertedRow x (fo_ShouldNotify r) (now d)) (active_alerts d)\<rparr>"
      by blast
    have rows: "active_alerts d' = update_where (\<lambda>b. al_id b = al_id a) (upsertedRow x (fo_ShouldNotify r) (now d)) (active_alerts d)"
      by (simp add: d')
    have "alertFor d' g = (if g = ?fp then Some (upsertedRow x (fo_ShouldNotify r) (now d) a) else alertFor d g)" for g
      by (rule alertFor_update [OF wf Some _ rows]) simp
    moreover have "wf_alerts d'" by (rule wf_alerts_update [OF wf _ _ rows]) simp_all
    moreover have "\<exists>n m. d' = d\<lparr>stmt_no := n, uuid_next := m, active_alerts := active_alerts d'\<rparr>"
      by (intro exI [of _ n] exI [of _ "uuid_next d"]) (simp add: d')
    ultimately show ?thesis using o Some by simp
  qed
  then show "fo_ShouldNotify r = upsertNotifies d (ai_fingerprint x) cooldown" "wf_alerts d'"
    "fp \<noteq> ai_fingerprint x \<Longrightarrow> alertFor d' fp = alertFor d fp"
    "alertFor d' (ai_fingerprint x) = Some (case alertFor d (ai_fingerprint x) of
       None \<Rightarrow> (openAlertRow x (now d))\<lparr>al_id := fo_AlertID r\<rparr>
     | Some a \<Rightarrow> upsertedRow x (fo_ShouldNotify r) (now d) a)"
    "\<exists>n m. d' = d\<lparr>stmt_no := n, uuid_next := m, active_alerts := active_alerts d'\<rparr>"
    by blast+
qed

lemma upsert_lastNotice:
  assumes "wf_alerts d" and "cooldown > 0" and "UpsertUnresolvedAlert x cooldown d = (Inr r, d')"
  shows "lastNotice d' fp = (if fp = ai_fingerprint x \<and> fo_ShouldNotify r then Some (now d) else lastNotice d fp)"
    and "isOpen d' fp = (fp = ai_fingerprint x \<or> isOpen d fp)"
proof -
  note u = upsert_alertFor [OF assms]
  show "lastNotice d' fp = (if fp = ai_fingerprint x \<and> fo_ShouldNotify r then Some (now d) else lastNotice d fp)"
  proof (cases "fp = ai_fingerprint x")
    case True
    show ?thesis
      using u(1,4) True by (cases "alertFor d fp")
        (auto simp: lastNotice_def upsertNotifies_def openAlertRow_def upsertedRow_def reopenAlertRow_def refreshAlertRow_def Let_def split: option.splits)
  qed (simp add: lastNotice_def u(3))
  show "isOpen d' fp = (fp = ai_fingerprint x \<or> isOpen d fp)"
    using u(3,4) by (cases "fp = ai_fingerprint x") (auto simp: isOpen_def openAlertRow_def split: option.splits)
qed

text \<open>The operations that close alerts never open one, and keep the notification time of those left open.\<close>

definition closesOnly :: "db \<Rightarrow> db \<Rightarrow> bool" where
  "closesOnly d d' \<longleftrightarrow> wf_alerts d' \<and> now d' = now d
     \<and> (\<forall>fp. isOpen d' fp \<longrightarrow> isOpen d fp \<and> lastNotice d' fp = lastNotice d fp)"

lemma closesOnly_update:
  assumes wf: "wf_alerts d" and rows: "active_alerts d' = update_where P f (active_alerts d)" and nw: "now d' = now d"
    and f: "\<And>r. al_fingerprint (f r) = al_fingerprint r" "\<And>r. al_id (f r) = al_id r"
      "\<And>r. al_resolved_at (f r) = None \<Longrightarrow> al_resolved_at r = None" "\<And>r. al_last_notified_at (f r) = al_last_notified_at r"
  shows "closesOnly d d'"
proof -
  have m: "alertFor d' fp = map_option (\<lambda>b. if P b then f b else b) (alertFor d fp)" for fp
    unfolding alertFor_def rows by (rule find_update_where [where k = al_fingerprint]) (rule f(1))
  have "isOpen d' fp \<longrightarrow> isOpen d fp \<and> lastNotice d' fp = lastNotice d fp" for fp
    using f(3,4) by (auto simp: isOpen_def lastNotice_def m split: option.splits if_splits)
  with wf_alerts_update [OF wf f(1,2) rows] nw show ?thesis by (simp add: closesOnly_def)
qed

lemma closesOnly_refl: "wf_alerts d \<Longrightarrow> same_tables d d' \<Longrightarrow> closesOnly d d'"
  using same_tables_fields(6,13) [of d d']
  by (simp add: closesOnly_def wf_alerts_def isOpen_def lastNotice_def alertFor_def)

lemma closesOnly_resolve:
  "wf_alerts d \<Longrightarrow> closesOnly d (snd (resolveAlertsWhere P d))"
  by (rule closesOnly_update [where P = "\<lambda>a. \<not> fault_at d (stmt_no d) \<and> al_resolved_at a = None \<and> P a" and f = "\<lambda>a. a\<lparr>al_resolved_at := Some (now d)\<rparr>"])
    (auto simp: resolveAlertsWhere_def sql_def Let_def update_where_id split: if_splits)

datatype alert_op =
    Fire alert_input
  | Heartbeat uuid
  | ResolveByID uuid
  | CloseExcept string "string list"
  | DropRule uuid
  | Tick int

datatype alert_note = Notified string time | Resolved string time

fun alertOp :: "alert_op \<Rightarrow> db \<Rightarrow> db" where
  "alertOp (Fire x) d = snd (UpsertUnresolvedAlert x notifyDedupCooldown d)"
| "alertOp (Heartbeat i) d = snd (ResolveActiveAlertsKindsForDeviceReturning i d)"
| "alertOp (ResolveByID i) d = snd (ResolveActiveAlertByID i d)"
| "alertOp (CloseExcept k fps) d = snd (CloseAlertsKindsExceptReturning k fps d)"
| "alertOp (DropRule i) d = snd (DeleteAlertRule i d)"
| "alertOp (Tick n) d = d\<lparr>now := now d + n\<rparr>"

fun notifies :: "alert_op \<Rightarrow> db \<Rightarrow> string list" where
  "notifies (Fire x) d =
     (case fst (UpsertUnresolvedAlert x notifyDedupCooldown d) of
        Inl _ \<Rightarrow> [] | Inr r \<Rightarrow> if fo_ShouldNotify r then [ai_fingerprint x] else [])"
| "notifies _ d = []"

text \<open>A step with what it announces: a notification, and the fingerprints that are no longer open.\<close>

definition alertStep :: "alert_op \<Rightarrow> db \<Rightarrow> alert_note list \<times> db" where
  "alertStep p d =
     (let d' = alertOp p d
      in (map (\<lambda>fp. Notified fp (now d)) (notifies p d)
          @ map (\<lambda>fp. Resolved fp (now d)) (filter (\<lambda>fp. isOpen d fp \<and> \<not> isOpen d' fp) (map al_fingerprint (active_alerts d))), d'))"

fun runAlerts :: "alert_op list \<Rightarrow> db \<Rightarrow> alert_note list \<times> db" where
  "runAlerts [] d = ([], d)"
| "runAlerts (p # ps) d = (case alertStep p d of (l, d) \<Rightarrow> case runAlerts ps d of (ls, d) \<Rightarrow> (l @ ls, d))"

lemma alertOp_closesOnly:
  assumes "wf_alerts d" and "\<forall>x. p \<noteq> Fire x" and "\<forall>n. p \<noteq> Tick n"
  shows "closesOnly d (alertOp p d)"
proof (cases p)
  case (Heartbeat i)
  have "snd (ResolveActiveAlertsKindsForDeviceReturning i d) = d \<or>
      snd (ResolveActiveAlertsKindsForDeviceReturning i d)
        = snd (resolveAlertsWhere (\<lambda>a. al_device_id a = Some i \<and> al_alert_kind a \<in> {''builtin_offline'', ''rule_offline''}) d)"
    by (auto simp: ResolveActiveAlertsKindsForDeviceReturning_def split: prod.splits sum.splits)
  with assms(1) closesOnly_resolve [OF assms(1)] closesOnly_refl [OF assms(1), of d] Heartbeat show ?thesis by (auto simp del: case_wrap_snd)
next
  case (ResolveByID i)
  have "snd (ResolveActiveAlertByID i d) = snd (resolveAlertsWhere (\<lambda>a. al_id a = i) d)"
    by (auto simp: ResolveActiveAlertByID_def split: prod.splits sum.splits)
  with closesOnly_resolve [OF assms(1)] ResolveByID show ?thesis by simp
next
  case (CloseExcept k fps)
  have "snd (CloseAlertsKindsExceptReturning k fps d) = d \<or>
      (\<exists>P. snd (CloseAlertsKindsExceptReturning k fps d) = snd (resolveAlertsWhere P d))"
    by (auto simp: CloseAlertsKindsExceptReturning_def Let_def split: prod.splits sum.splits)
  with closesOnly_resolve [OF assms(1)] closesOnly_refl [OF assms(1), of d] CloseExcept show ?thesis by auto
next
  case (DropRule i)
  have "active_alerts (snd (DeleteAlertRule i d))
      = update_where (\<lambda>a. \<not> fault_at d (stmt_no d) \<and> al_alert_rule_id a = Some i) (\<lambda>a. a\<lparr>al_alert_rule_id := None\<rparr>) (active_alerts d)"
    "now (snd (DeleteAlertRule i d)) = now d"
    by (auto simp: DeleteAlertRule_def sql_def Let_def update_where_id split: if_splits)
  from closesOnly_update [OF assms(1) this] DropRule show ?thesis by simp
qed (use assms in auto)

text \<open>The time of the last notification of each fingerprint since it was last resolved, and the spacing of a
  log: every notification comes at least an hour after that time.\<close>

definition seen :: "alert_note \<Rightarrow> (string \<Rightarrow> time option) \<Rightarrow> string \<Rightarrow> time option" where
  "seen n m = (case n of Notified fp t \<Rightarrow> m(fp \<mapsto> t) | Resolved fp t \<Rightarrow> m(fp := None))"

definition inTime :: "(string \<Rightarrow> time option) \<Rightarrow> alert_note \<Rightarrow> bool" where
  "inTime m n = (case n of Notified fp t \<Rightarrow> (case m fp of None \<Rightarrow> True | Some t0 \<Rightarrow> t0 + time_Hour \<le> t) | Resolved fp t \<Rightarrow> True)"

fun spaced :: "(string \<Rightarrow> time option) \<Rightarrow> alert_note list \<Rightarrow> bool" where
  "spaced m [] = True"
| "spaced m (n # l) = (inTime m n \<and> spaced (seen n m) l)"

lemma spaced_append: "spaced m (xs @ ys) \<longleftrightarrow> spaced m xs \<and> spaced (fold seen xs m) ys"
  by (induction xs arbitrary: m) auto

lemma spaced_resolved: "spaced m (map (\<lambda>fp. Resolved fp t) fps)"
  by (induction fps arbitrary: m) (auto simp: inTime_def)

lemma seen_resolved: "fold seen (map (\<lambda>fp. Resolved fp t) fps) m fp = (if fp \<in> set fps then None else m fp)"
  by (induction fps arbitrary: m) (auto simp: seen_def)

lemma spaced_gap_aux:
  assumes "spaced m (ys @ Notified fp t' # zs)" and "m fp = Some s" and "s \<ge> t" and "\<forall>u. Resolved fp u \<notin> set ys"
  shows "t + time_Hour \<le> t'"
  using assms
proof (induction ys arbitrary: m s)
  case Nil
  then show ?case by (simp add: inTime_def)
next
  case (Cons n ys)
  have h: "time_Hour \<ge> 0" by (simp add: time_Hour_def time_Minute_def time_Second_def)
  from Cons.prems have n: "inTime m n" "spaced (seen n m) (ys @ Notified fp t' # zs)" "\<forall>u. Resolved fp u \<notin> set ys" "\<forall>u. n \<noteq> Resolved fp u" by auto
  have "\<exists>s'. seen n m fp = Some s' \<and> t \<le> s'"
  proof (cases n)
    case (Notified f u)
    with n(1) Cons.prems(2,3) h show ?thesis by (cases "f = fp") (auto simp: inTime_def seen_def)
  next
    case (Resolved f u)
    with n(4) Cons.prems(2,3) show ?thesis by (auto simp: seen_def)
  qed
  with Cons.IH n(2,3) show ?case by blast
qed

lemma spaced_gap:
  "spaced m (Notified fp t # ys @ Notified fp t' # zs) \<Longrightarrow> \<forall>u. Resolved fp u \<notin> set ys \<Longrightarrow> t + time_Hour \<le> t'"
  using spaced_gap_aux [of "seen (Notified fp t) m" ys fp t' zs t t] by (simp add: seen_def)

lemma alertStep_spaced:
  assumes wf: "wf_alerts d" and m: "\<forall>fp t. m fp = Some t \<longrightarrow> isOpen d fp \<and> lastNotice d fp = Some t" and st: "alertStep p d = (l, d')"
  shows "wf_alerts d' \<and> spaced m l \<and> (\<forall>fp t. fold seen l m fp = Some t \<longrightarrow> isOpen d' fp \<and> lastNotice d' fp = Some t)"
proof -
  let ?gone = "filter (\<lambda>fp. isOpen d fp \<and> \<not> isOpen d' fp) (map al_fingerprint (active_alerts d))"
  have d': "d' = alertOp p d" and l: "l = map (\<lambda>fp. Notified fp (now d)) (notifies p d) @ map (\<lambda>fp. Resolved fp (now d)) ?gone"
    using st by (auto simp: alertStep_def Let_def)
  have same: ?thesis if "wf_alerts d'" "notifies p d = []" "isOpen d' = isOpen d" "lastNotice d' = lastNotice d"
    using that m by (simp add: l)
  show ?thesis
  proof (cases "\<exists>x n. p = Fire x \<or> p = Tick n")
    case False
    then have c: "closesOnly d d'" using alertOp_closesOnly [OF wf] d' by blast
    have n: "notifies p d = []" using False by (cases p) auto
    have kept: "isOpen d' fp \<and> lastNotice d' fp = Some t" if "fold seen l m fp = Some t" for fp t
    proof -
      have "fold seen l m fp = (if fp \<in> set ?gone then None else m fp)" by (simp only: l n list.map append_Nil seen_resolved)
      then have fp: "m fp = Some t \<and> fp \<notin> set ?gone" unfolding that by (cases "fp \<in> set ?gone") (simp_all only: if_True if_False option.distinct simp_thms)
      with m have o: "isOpen d fp" "lastNotice d fp = Some t" by auto
      then have "fp \<in> al_fingerprint ` set (active_alerts d)" by (auto simp: isOpen_def dest: alertFor_Some split: option.splits)
      then have "isOpen d' fp" using fp o(1) unfolding set_filter set_map by blast
      with o c show ?thesis unfolding closesOnly_def by simp
    qed
    have "spaced m l" unfolding l n list.map append_Nil by (rule spaced_resolved)
    moreover have "wf_alerts d'" using c by (simp only: closesOnly_def)
    ultimately show ?thesis using kept by blast
  next
    case True
    then consider (fire) x where "p = Fire x" | (tick) k where "p = Tick k" by blast
    then show ?thesis
    proof cases
      case tick
      then show ?thesis using wf by (intro same) (auto simp: d' wf_alerts_def isOpen_def lastNotice_def alertFor_def fun_eq_iff)
    next
      case fire
      have c: "notifyDedupCooldown > 0" by (simp add: notifyDedupCooldown_def time_Hour_def time_Minute_def time_Second_def)
      obtain res where up: "UpsertUnresolvedAlert x notifyDedupCooldown d = (res, d')" using d' fire by (metis alertOp.simps(1) prod.collapse)
      show ?thesis
      proof (cases res)
        case (Inl e)
        have "same_tables d d'" by (rule transaction_Inl [OF up [unfolded UpsertUnresolvedAlert_def Inl]])
        from closesOnly_refl [OF wf this] same_tables_fields(6) [OF this] wf up Inl fire
        show ?thesis by (intro same) (auto simp: wf_alerts_def isOpen_def lastNotice_def alertFor_def fun_eq_iff)
      next
        case (Inr r)
        note up = up [unfolded Inr]
        note u = upsert_lastNotice [OF wf c up] and w = upsert_alertFor(1,2) [OF wf c up]
        have gone: "?gone = []" by (auto simp: filter_empty_conv u(2))
        show ?thesis
        proof (cases "fo_ShouldNotify r")
          case False
          with fire up have "notifies p d = []" by simp
          with gone w(2) m u False show ?thesis by (simp add: l)
        next
          case True
          with fire up have n: "notifies p d = [ai_fingerprint x]" by simp
          have "inTime m (Notified (ai_fingerprint x) (now d))"
            using True w(1) m by (auto simp: upsertNotifies_lastNotice inTime_def notifyDedupCooldown_def split: option.splits)
          with gone w(2) m u True show ?thesis by (auto simp: l n seen_def)
        qed
      qed
    qed
  qed
qed

lemma runAlerts_spaced:
  assumes "wf_alerts d" and "\<forall>fp t. m fp = Some t \<longrightarrow> isOpen d fp \<and> lastNotice d fp = Some t"
  shows "spaced m (fst (runAlerts ps d))"
  using assms
proof (induction ps arbitrary: d m)
  case (Cons p ps)
  obtain l d' where st: "alertStep p d = (l, d')" by fastforce
  from alertStep_spaced [OF Cons.prems st] Cons.IH [of d' "fold seen l m"] st
  show ?case by (simp add: spaced_append split: prod.splits) (metis fst_conv)
qed simp

text \<open>C36: the notification cadence. In every run of the alert operations (firing, heartbeats, manual
  resolution, closing by kind, deletion of rules, any move of the clock; statements may fail), two notifications
  for the same fingerprint between which it was not resolved are at least an hour apart.\<close>

theorem notify_cadence:
  assumes "wf_alerts d" and "fst (runAlerts ops d) = xs @ Notified fp t # ys @ Notified fp t' # zs"
    and "\<forall>u. Resolved fp u \<notin> set ys"
  shows "t + time_Hour \<le> t'"
proof -
  have "spaced (\<lambda>_. None) (xs @ Notified fp t # ys @ Notified fp t' # zs)"
    using runAlerts_spaced [OF assms(1), of "\<lambda>_. None" ops] assms(2) by simp
  then have "spaced (fold seen xs (\<lambda>_. None)) (Notified fp t # ys @ Notified fp t' # zs)"
    by (simp add: spaced_append)
  then show ?thesis using assms(3) by (rule spaced_gap)
qed

definition exampleAlert :: alert_input where
  "exampleAlert = \<lparr>ai_fingerprint = ''fp'', ai_kind = ''rule_metric'', ai_device = None, ai_rule = None, ai_severity = ''warning'',
     ai_title = ''t'', ai_message = ''m'', ai_details = []\<rparr>"

theorem notify_cadence_witness:
  "fst (runAlerts [Fire exampleAlert, Tick 60, Fire exampleAlert, Tick 3600000000000, Fire exampleAlert] empty_db)
     = [Notified ''fp'' 0, Notified ''fp'' 3600000000060] \<and> 0 + time_Hour \<le> 3600000000060"
proof
  show run: "fst (runAlerts [Fire exampleAlert, Tick 60, Fire exampleAlert, Tick 3600000000000, Fire exampleAlert] empty_db)
     = [Notified ''fp'' 0, Notified ''fp'' 3600000000060]" by code_simp
  show "0 + time_Hour \<le> 3600000000060"
    by (rule notify_cadence [of empty_db "[Fire exampleAlert, Tick 60, Fire exampleAlert, Tick 3600000000000, Fire exampleAlert]" "[]" "''fp''" 0 "[]" _ "[]"])
      (use run in \<open>simp_all add: wf_alerts_def empty_db_def\<close>)
qed

section \<open>The built-in watchdog\<close>

text \<open>Documented behaviour of the UUID package: the text of a UUID is not empty, has no space and parses back.\<close>

definition uuid_plain :: "lib \<Rightarrow> bool" where
  "uuid_plain L \<longleftrightarrow> (\<forall>u. u_parse L (u_str L u) = Some u \<and> u_str L u \<noteq> [] \<and> list_all (\<lambda>c. \<not> is_space c) (u_str L u))"

lemma TrimSpace_builtin:
  assumes "uuid_plain L"
  shows "TrimSpace (fpBuiltinOffline L i) = fpBuiltinOffline L i"
proof -
  have u: "u_str L i \<noteq> []" "list_all (\<lambda>c. \<not> is_space c) (u_str L i)" using assms by (simp_all add: uuid_plain_def)
  then have "\<not> is_space (last (fpBuiltinOffline L i))" by (simp add: fpBuiltinOffline_def list_all_iff)
  moreover have "\<not> is_space (hd (fpBuiltinOffline L i))"
  proof -
    have "\<not> is_space (CHR ''b'')" by code_simp
    then show ?thesis by (simp add: fpBuiltinOffline_def)
  qed
  ultimately show ?thesis by (intro TrimSpace_id) (simp_all add: fpBuiltinOffline_def)
qed

lemma fpBuiltinOffline_inj:
  assumes "uuid_plain L" and "fpBuiltinOffline L i = fpBuiltinOffline L j"
  shows "i = j"
proof -
  have "u_parse L (u_str L i) = u_parse L (u_str L j)" using assms(2) by (simp add: fpBuiltinOffline_def)
  with assms(1) show ?thesis by (simp add: uuid_plain_def)
qed

lemma fpBuiltinOffline_not_Nil: "fpBuiltinOffline L i \<noteq> []"
  by (simp add: fpBuiltinOffline_def)

text \<open>The table: unique rows that satisfy the constraints, fingerprints without
  surrounding space, and the watchdog's fingerprints are of its kind.\<close>

definition alertTable :: "lib \<Rightarrow> db \<Rightarrow> bool" where
  "alertTable L d \<longleftrightarrow> wf_alerts d \<and> (\<forall>a \<in> set (active_alerts d). alertRowError a d = None)
     \<and> (\<forall>a \<in> set (active_alerts d). TrimSpace (al_fingerprint a) = al_fingerprint a
          \<and> (\<forall>i. al_fingerprint a = fpBuiltinOffline L i \<longrightarrow> al_alert_kind a = ''builtin_offline''))"

text \<open>The next \<open>n\<close> random identifiers are new.\<close>

definition freshAlertIds :: "nat \<Rightarrow> db \<Rightarrow> bool" where
  "freshAlertIds n d \<longleftrightarrow> inj_on (uuid_stream d) {uuid_next d..<uuid_next d + n}
     \<and> (\<forall>k \<in> {uuid_next d..<uuid_next d + n}. uuid_stream d k \<notin> al_id ` set (active_alerts d))"

lemma alertRowError_state [simp]:
  "alertRowError a (d\<lparr>active_alerts := xs\<rparr>) = alertRowError a d" "alertRowError a (d\<lparr>stmt_no := n\<rparr>) = alertRowError a d"
  "alertRowError a (d\<lparr>uuid_next := n\<rparr>) = alertRowError a d"
  by (simp_all add: alertRowError_def)

lemma alertRowError_cong: "assets d' = assets d \<Longrightarrow> alert_rules d' = alert_rules d \<Longrightarrow> alertRowError a d' = alertRowError a d"
  by (simp add: alertRowError_def)

text \<open>An upsert of a valid alert succeeds.\<close>

definition validInput :: "alert_input \<Rightarrow> db \<Rightarrow> bool" where
  "validInput x d \<longleftrightarrow> alertRowError (openAlertRow x (now d)) d = None"

lemma updateAlertRow_ok:
  assumes "\<And>a. a \<in> set (active_alerts d) \<Longrightarrow> al_id a = i \<Longrightarrow> alertRowError (f a) d = None"
  shows "updateAlertRow i f d = (Inr (), d\<lparr>active_alerts := update_where (\<lambda>a. al_id a = i) f (active_alerts d)\<rparr>)"
proof -
  have "find (\<lambda>e. e \<noteq> None) (map (\<lambda>a. alertRowError (f a) d) (filter (\<lambda>a. al_id a = i) (active_alerts d))) = None"
    using assms by (auto simp: find_None_iff)
  then show ?thesis by (simp add: updateAlertRow_def)
qed

lemma alertRowError_reopen: "alertRowError (reopenAlertRow x t a) d = alertRowError (openAlertRow x t) d"
  by (simp add: alertRowError_def reopenAlertRow_def openAlertRow_def)

lemma alertRowError_refresh:
  "alertRowError a d = None \<Longrightarrow> alertRowError (openAlertRow x t) d = None \<Longrightarrow> alertRowError (refreshAlertRow x a) d = None"
  by (auto simp: alertRowError_def refreshAlertRow_def openAlertRow_def coalesce_def refers_def split: if_splits option.splits)

lemma alertRowError_stamp [simp]: "alertRowError (a\<lparr>al_last_notified_at := t\<rparr>) d = alertRowError a d"
  by (simp add: alertRowError_def)

lemma alertRowError_id [simp]: "alertRowError (a\<lparr>al_id := i\<rparr>) d = alertRowError a d"
  by (simp add: alertRowError_def)

lemma alertRowError_upserted:
  "alertRowError a d = None \<Longrightarrow> alertRowError (openAlertRow x t) d = None \<Longrightarrow> alertRowError (upsertedRow x n t a) d = None"
  by (simp add: upsertedRow_def Let_def alertRowError_reopen alertRowError_refresh)

lemma refreshAlert_ok:
  assumes up: "\<forall>n. \<not> fault_at d n" and tbl: "\<forall>a \<in> set (active_alerts d). alertRowError a d = None" and x: "validInput x d"
  shows "\<exists>r d2. refreshAlert x c a d = (Inr r, d2) \<and> fault_at d2 = fault_at d"
proof -
  let ?f = "if al_resolved_at a \<noteq> None then reopenAlertRow x (now d) else refreshAlertRow x" and ?d0 = "d\<lparr>stmt_no := Suc (stmt_no d)\<rparr>"
  let ?d1 = "?d0\<lparr>active_alerts := update_where (\<lambda>b. al_id b = al_id a) ?f (active_alerts d)\<rparr>"
  have f: "alertRowError (?f b) d = None" if "b \<in> set (active_alerts d)" for b
    using that tbl x by (simp add: alertRowError_reopen alertRowError_refresh validInput_def)
  have u: "sql (updateAlertRow (al_id a) ?f) d = (Inr (), ?d1)"
    using up updateAlertRow_ok [of ?d0 "al_id a" ?f] f by (simp add: sql_def Let_def alertRowError_cong [of ?d0 d])
  have "sql (updateAlertRow (al_id a) (\<lambda>a. a\<lparr>al_last_notified_at := Some (now d)\<rparr>)) ?d1
      = (Inr (), ?d1\<lparr>stmt_no := Suc (stmt_no ?d1), active_alerts := update_where (\<lambda>b. al_id b = al_id a) (\<lambda>a. a\<lparr>al_last_notified_at := Some (now d)\<rparr>) (active_alerts ?d1)\<rparr>)"
  proof -
    let ?d2 = "?d1\<lparr>stmt_no := Suc (stmt_no ?d1)\<rparr>"
    have "alertRowError (b\<lparr>al_last_notified_at := Some (now d)\<rparr>) ?d2 = None" if "b \<in> set (active_alerts ?d2)" for b
      using that f tbl by (auto simp: set_update_where split: if_splits)
    from updateAlertRow_ok [of ?d2 "al_id a" "\<lambda>a. a\<lparr>al_last_notified_at := Some (now d)\<rparr>", OF this] up
    show ?thesis by (simp add: sql_def Let_def)
  qed
  with u show ?thesis by (auto simp: refreshAlert_def Let_def simp del: not_None_eq)
qed

lemma upsert_ok:
  assumes up: "\<forall>n. \<not> fault_at d n" and tbl: "\<forall>a \<in> set (active_alerts d). alertRowError a d = None"
    and x: "validInput x d" and new: "random_uuid d \<notin> al_id ` set (active_alerts d)"
  shows "\<exists>r d'. UpsertUnresolvedAlert x cooldown d = (Inr r, d')"
proof -
  let ?d0 = "d\<lparr>stmt_no := Suc (stmt_no d)\<rparr>" and ?d1 = "d\<lparr>stmt_no := Suc (Suc (stmt_no d))\<rparr>"
  let ?body = "upsertAlertBody x (if cooldown \<le> 0 then time_Hour else cooldown)"
  have q: "query_row (\<lambda>d. find (\<lambda>a. al_fingerprint a = ai_fingerprint x) (active_alerts d)) ?d0
      = (case alertFor d (ai_fingerprint x) of None \<Rightarrow> Inl ErrNoRows | Some a \<Rightarrow> Inr a, ?d1)"
    using up by (simp add: query_row_def sql_def Let_def alertFor_def)
  have "\<exists>r d2. ?body ?d0 = (Inr r, d2) \<and> fault_at d2 = fault_at d"
  proof (cases "alertFor d (ai_fingerprint x)")
    case None
    with up x new show ?thesis
      unfolding alertFor_None
      by (auto simp: upsertAlertBody_def q [unfolded None option.case] sql_def Let_def insertAlertRow_def uuid_used_def random_uuid_def validInput_def
          alertRowError_def openAlertRow_def split: option.splits if_splits)
  next
    case (Some a)
    have "validInput x ?d1" "\<forall>a \<in> set (active_alerts ?d1). alertRowError a ?d1 = None"
      using x tbl by (simp_all add: validInput_def alertRowError_cong [of ?d1 d])
    from refreshAlert_ok [OF _ this(2,1)] up q Some show ?thesis by (simp add: upsertAlertBody_def)
  qed
  then obtain r d2 where "?body ?d0 = (Inr r, d2)" "fault_at d2 = fault_at d" by blast
  from transaction_ok [where body = ?body, OF up this] show ?thesis unfolding UpsertUnresolvedAlert_def by blast
qed

definition passReady :: "lib \<Rightarrow> nat \<Rightarrow> db \<Rightarrow> bool" where
  "passReady L n d \<longleftrightarrow> (\<forall>k. \<not> fault_at d k) \<and> alertTable L d \<and> freshAlertIds n d"

lemma freshAlertIds_less: "freshAlertIds (Suc n) d \<Longrightarrow> freshAlertIds n d"
  by (auto simp: freshAlertIds_def inj_on_def)

lemma upsert_fresh:
  assumes wf: "wf_alerts d" and c: "cooldown > 0" and up: "UpsertUnresolvedAlert x cooldown d = (Inr r, d')" and fr: "freshAlertIds (Suc n) d"
  shows "freshAlertIds n d'"
proof (cases "alertFor d (ai_fingerprint x)")
  case None
  from UpsertUnresolvedAlert_new [OF up None] obtain m where
    d': "d' = d\<lparr>stmt_no := m, uuid_next := Suc (uuid_next d), active_alerts := active_alerts d @ [(openAlertRow x (now d))\<lparr>al_id := random_uuid d\<rparr>]\<rparr>"
    by metis
  have inj: "inj_on (uuid_stream d) {uuid_next d..<uuid_next d + Suc n}"
    and new: "\<forall>k \<in> {uuid_next d..<uuid_next d + Suc n}. uuid_stream d k \<notin> al_id ` set (active_alerts d)"
    using fr by (simp_all add: freshAlertIds_def)
  have sub: "{Suc (uuid_next d)..<Suc (uuid_next d) + n} \<subseteq> {uuid_next d..<uuid_next d + Suc n}" by auto
  have "uuid_stream d k \<noteq> uuid_stream d (uuid_next d)" if "k \<in> {Suc (uuid_next d)..<Suc (uuid_next d) + n}" for k
    using that inj_onD [OF inj, of k "uuid_next d"] by force
  with inj_on_subset [OF inj sub] new sub show ?thesis by (auto simp: freshAlertIds_def d' random_uuid_def)
next
  case (Some a)
  from UpsertUnresolvedAlert_old [OF up Some wf c] obtain m where
    d': "d' = d\<lparr>stmt_no := m, active_alerts := update_where (\<lambda>b. al_id b = al_id a) (upsertedRow x (fo_ShouldNotify r) (now d)) (active_alerts d)\<rparr>"
    by blast
  have "map al_id (active_alerts d') = map al_id (active_alerts d)" by (simp add: d' map_update_where)
  then have "al_id ` set (active_alerts d') = al_id ` set (active_alerts d)" by (metis list.set_map)
  with freshAlertIds_less [OF fr] show ?thesis by (simp add: freshAlertIds_def d')
qed

lemma upsert_table:
  assumes tbl: "alertTable L d" and c: "cooldown > 0" and up: "UpsertUnresolvedAlert x cooldown d = (Inr r, d')"
    and x: "validInput x d" "\<And>i. ai_fingerprint x = fpBuiltinOffline L i \<Longrightarrow> ai_kind x = ''builtin_offline''"
      "TrimSpace (ai_fingerprint x) = ai_fingerprint x"
  shows "alertTable L d'"
proof -
  have wf: "wf_alerts d" and ok: "\<forall>a \<in> set (active_alerts d). alertRowError a d = None"
    and k: "\<forall>a \<in> set (active_alerts d). TrimSpace (al_fingerprint a) = al_fingerprint a
        \<and> (\<forall>i. al_fingerprint a = fpBuiltinOffline L i \<longrightarrow> al_alert_kind a = ''builtin_offline'')"
    using tbl by (simp_all add: alertTable_def)
  note u = upsert_alertFor [OF wf c up]
  obtain n m where d': "d' = d\<lparr>stmt_no := n, uuid_next := m, active_alerts := active_alerts d'\<rparr>" using u(5) by blast
  have e: "alertRowError b d' = alertRowError b d" for b by (subst d') simp
  have row: "alertRowError b d = None \<and> TrimSpace (al_fingerprint b) = al_fingerprint b \<and> (\<forall>i. al_fingerprint b = fpBuiltinOffline L i \<longrightarrow> al_alert_kind b = ''builtin_offline'')"
    if "b \<in> set (active_alerts d')" for b
  proof (cases "al_fingerprint b = ai_fingerprint x")
    case False
    have "alertFor d (al_fingerprint b) = Some b" using u(3) [OF False] alertFor_row [OF u(2) that] by simp
    then show ?thesis using alertFor_Some ok k by blast
  next
    case True
    have b: "alertFor d' (ai_fingerprint x) = Some b" using alertFor_row [OF u(2) that] True by simp
    show ?thesis
    proof (cases "alertFor d (ai_fingerprint x)")
      case None
      with b u(4) x show ?thesis by (auto simp: validInput_def) (auto simp: openAlertRow_def)
    next
      case (Some a)
      have a: "a \<in> set (active_alerts d)" "al_fingerprint a = ai_fingerprint x" using alertFor_Some [OF Some] by auto
      have "b = upsertedRow x (fo_ShouldNotify r) (now d) a" using b u(4) Some by simp
      moreover have "al_alert_kind (upsertedRow x (fo_ShouldNotify r) (now d) a) = (if al_resolved_at a = None then al_alert_kind a else ai_kind x)"
        by (simp add: upsertedRow_def Let_def reopenAlertRow_def refreshAlertRow_def)
      ultimately show ?thesis using a ok k x True by (auto simp: alertRowError_upserted validInput_def)
    qed
  qed
  then show ?thesis unfolding alertTable_def e using u(2) by blast
qed

lemma upsert_pass:
  assumes ready: "passReady L (Suc n) d" and x: "validInput x d" "\<And>i. ai_fingerprint x = fpBuiltinOffline L i \<Longrightarrow> ai_kind x = ''builtin_offline''"
    "TrimSpace (ai_fingerprint x) = ai_fingerprint x"
  shows "\<exists>r d'. UpsertUnresolvedAlert x notifyDedupCooldown d = (Inr r, d') \<and> passReady L n d'
    \<and> assets d' = assets d \<and> now d' = now d \<and> alert_rules d' = alert_rules d \<and> incidents d' = incidents d
    \<and> (\<forall>fp. isOpen d' fp = (fp = ai_fingerprint x \<or> isOpen d fp))"
proof -
  have c: "notifyDedupCooldown > 0" by (simp add: notifyDedupCooldown_def time_Hour_def time_Minute_def time_Second_def)
  have up: "\<forall>k. \<not> fault_at d k" and tbl: "alertTable L d" and fr: "freshAlertIds (Suc n) d" using ready by (simp_all add: passReady_def)
  have wf: "wf_alerts d" and ok: "\<forall>a \<in> set (active_alerts d). alertRowError a d = None" using tbl by (simp_all add: alertTable_def)
  have "random_uuid d \<notin> al_id ` set (active_alerts d)" using fr by (simp add: freshAlertIds_def random_uuid_def)
  then obtain r d' where u: "UpsertUnresolvedAlert x notifyDedupCooldown d = (Inr r, d')" using upsert_ok [OF up ok x(1)] by blast
  obtain k m where d': "d' = d\<lparr>stmt_no := k, uuid_next := m, active_alerts := active_alerts d'\<rparr>" using upsert_alertFor(5) [OF wf c u] by blast
  have f: "assets d' = assets d" "now d' = now d" "alert_rules d' = alert_rules d" "incidents d' = incidents d" "fault_at d' = fault_at d"
    by (subst d', simp)+
  have "passReady L n d'" using upsert_fresh [OF wf c u fr] upsert_table [OF tbl c u x] up f(5) by (simp add: passReady_def)
  with u f upsert_lastNotice(2) [OF wf c u] show ?thesis by blast
qed

text \<open>The goroutine a fired critical alert starts.\<close>

definition criticalHook :: "alert_input \<Rightarrow> uuid \<Rightarrow> hook_call" where
  "criticalHook x dev = OnCritical (TrimSpace (ai_fingerprint x)) ''critical'' dev (TrimSpace (ai_title x)) (TrimSpace (ai_message x))"

definition builtinHook :: "lib \<Rightarrow> time \<Rightarrow> AssetLastSeenRow \<Rightarrow> hook_call" where
  "builtinHook L t a = criticalHook (builtinInput L t a) (lr_ID a)"

lemma validInput_builtin:
  assumes "lr_ID a \<in> a_id ` set (assets d)"
  shows "validInput (builtinInput L t a) d"
proof -
  have "TrimSpace ''critical'' = ''critical''" by code_simp
  with assms show ?thesis by (simp add: validInput_def alertRowError_def openAlertRow_def builtinInput_def refers_def)
qed

lemma builtinLoop_ok:
  assumes plain: "uuid_plain L" and "passReady L (length rows) (en_db s)" and "\<forall>a \<in> set rows. lr_ID a \<in> a_id ` set (assets (en_db s))"
  shows "\<exists>s'. builtinLoop L hooks rows desired s = (Inr (desired @ map (\<lambda>a. fpBuiltinOffline L (lr_ID a)) rows), s')
    \<and> passReady L 0 (en_db s') \<and> assets (en_db s') = assets (en_db s) \<and> now (en_db s') = now (en_db s) \<and> incidents (en_db s') = incidents (en_db s)
    \<and> (\<forall>fp. isOpen (en_db s') fp = (fp \<in> (\<lambda>a. fpBuiltinOffline L (lr_ID a)) ` set rows \<or> isOpen (en_db s) fp))
    \<and> en_spawned s' = en_spawned s @ (if hooks then map (builtinHook L (now (en_db s))) rows else [])"
  using assms(2-)
proof (induction rows arbitrary: s desired)
  case (Cons a rows)
  let ?x = "builtinInput L (now (en_db s)) a"
  have fp: "ai_fingerprint ?x = fpBuiltinOffline L (lr_ID a)" "ai_severity ?x = ''critical''" "ai_kind ?x = ''builtin_offline''"
    by (simp_all add: builtinInput_def)
  have sev: "TrimSpace (ToLower ''critical'') = ''critical''" by code_simp
  from upsert_pass [of L "length rows" "en_db s" ?x] Cons.prems validInput_builtin [of a "en_db s" L] fp TrimSpace_builtin [OF plain, of "lr_ID a"]
  obtain r d' where u: "UpsertUnresolvedAlert ?x notifyDedupCooldown (en_db s) = (Inr r, d')" and p: "passReady L (length rows) d'"
    and f: "assets d' = assets (en_db s)" "now d' = now (en_db s)" "incidents d' = incidents (en_db s)"
    and o: "\<forall>fp. isOpen d' fp = (fp = fpBuiltinOffline L (lr_ID a) \<or> isOpen (en_db s) fp)"
    by auto
  obtain s1 where fire: "fireAlert hooks ?x (lr_ID a) (builtinEvent L (now (en_db s)) a) s = (Inr (), s1)" and s1: "en_db s1 = d'"
    "en_spawned s1 = en_spawned s @ (if hooks then [builtinHook L (now (en_db s)) a] else [])"
    by (simp add: fireAlert_def u Let_def maybeOpenIncidentForCritical_def fp(2) sev builtinHook_def criticalHook_def)
  have "\<forall>b \<in> set rows. lr_ID b \<in> a_id ` set (assets (en_db s1))" using Cons.prems(2) f s1 by simp
  from Cons.IH [OF _ this, of "desired @ [fpBuiltinOffline L (lr_ID a)]"] p s1(1)
  obtain s' where s': "builtinLoop L hooks rows (desired @ [fpBuiltinOffline L (lr_ID a)]) s1
        = (Inr ((desired @ [fpBuiltinOffline L (lr_ID a)]) @ map (\<lambda>a. fpBuiltinOffline L (lr_ID a)) rows), s')"
    "passReady L 0 (en_db s')" "assets (en_db s') = assets (en_db s1)" "now (en_db s') = now (en_db s1)" "incidents (en_db s') = incidents (en_db s1)"
    "\<forall>fp. isOpen (en_db s') fp = (fp \<in> (\<lambda>a. fpBuiltinOffline L (lr_ID a)) ` set rows \<or> isOpen (en_db s1) fp)"
    "en_spawned s' = en_spawned s1 @ (if hooks then map (builtinHook L (now (en_db s1))) rows else [])"
    by auto
  show ?case
    using s' s1 f o by (intro exI [of _ s']) (auto simp: fire Let_def)
qed auto

lemma nonEmptyTrimmed_builtin:
  "uuid_plain L \<Longrightarrow> nonEmptyTrimmed (map (\<lambda>a. fpBuiltinOffline L (g a)) rows) = map (\<lambda>a. fpBuiltinOffline L (g a)) rows"
  by (simp add: nonEmptyTrimmed_def TrimSpace_builtin fpBuiltinOffline_not_Nil comp_def filter_id_conv)

text \<open>Closing by kind, without faults, seen by fingerprint.\<close>

lemma isOpen_resolve:
  assumes "wf_alerts d" and "\<not> fault_at d (stmt_no d)"
  shows "isOpen (snd (resolveAlertsWhere P d)) fp = (isOpen d fp \<and> (\<forall>a. alertFor d fp = Some a \<longrightarrow> \<not> P a))"
proof -
  let ?d' = "snd (resolveAlertsWhere P d)"
  have rows: "active_alerts ?d' = update_where (\<lambda>a. al_resolved_at a = None \<and> P a) (\<lambda>a. a\<lparr>al_resolved_at := Some (now d)\<rparr>) (active_alerts d)"
    using assms(2) by (simp add: resolveAlertsWhere_def sql_def Let_def)
  have "alertFor ?d' fp = map_option (\<lambda>a. if al_resolved_at a = None \<and> P a then a\<lparr>al_resolved_at := Some (now d)\<rparr> else a) (alertFor d fp)"
    unfolding alertFor_def rows by (rule find_update_where [where k = al_fingerprint]) simp
  then show ?thesis by (auto simp: isOpen_def split: option.splits)
qed

lemma isOpen_resolve_closed:
  assumes wf: "wf_alerts d" and "\<not> fault_at d (stmt_no d)"
  shows "isOpen (snd (resolveAlertsWhere P d)) fp
    = (isOpen d fp \<and> fp \<notin> set (map al_fingerprint (filter (\<lambda>a. al_resolved_at a = None \<and> P a) (active_alerts d))))"
proof (cases "alertFor d fp")
  case None
  then show ?thesis unfolding isOpen_resolve [OF assms] by (simp add: isOpen_def)
next
  case (Some a)
  from alertFor_Some [OF this] have a: "a \<in> set (active_alerts d)" "al_fingerprint a = fp" by simp_all
  have "b = a" if "b \<in> set (active_alerts d)" "al_fingerprint b = fp" for b using alertFor_row [OF wf that(1)] Some that(2) by simp
  then have mem: "fp \<in> set (map al_fingerprint (filter (\<lambda>a. al_resolved_at a = None \<and> P a) (active_alerts d))) \<longleftrightarrow> al_resolved_at a = None \<and> P a"
    using a unfolding set_map set_filter by blast
  show ?thesis unfolding isOpen_resolve [OF assms] mem by (auto simp add: isOpen_def Some)
qed

lemma resolveAlertsWhere_ok:
  "\<not> fault_at d (stmt_no d) \<Longrightarrow> resolveAlertsWhere P d
     = (Inr (map al_fingerprint (filter (\<lambda>a. al_resolved_at a = None \<and> P a) (active_alerts d))), snd (resolveAlertsWhere P d))"
  by (simp add: resolveAlertsWhere_def sql_def Let_def)

lemma resolveAlertsWhere_other:
  "assets (snd (resolveAlertsWhere P d)) = assets d" "now (snd (resolveAlertsWhere P d)) = now d" "incidents (snd (resolveAlertsWhere P d)) = incidents d"
  "fault_at (snd (resolveAlertsWhere P d)) = fault_at d" "alert_rules (snd (resolveAlertsWhere P d)) = alert_rules d"
  by (auto simp: resolveAlertsWhere_def sql_def Let_def)

text \<open>The specification of the watchdog: the assets it reports, and those with an open watchdog alert.\<close>

definition offlineAssets :: "db \<Rightarrow> uuid set" where
  "offlineAssets d = a_id ` {a \<in> set (assets d). offlineBefore (now d - offlineBuiltinGrace) a}"

definition watchedAssets :: "lib \<Rightarrow> db \<Rightarrow> uuid set" where
  "watchedAssets L d = {i \<in> a_id ` set (assets d). isOpen d (fpBuiltinOffline L i)}"

lemma isOpen_row: "wf_alerts d \<Longrightarrow> isOpen d fp \<longleftrightarrow> (\<exists>a \<in> set (active_alerts d). al_fingerprint a = fp \<and> al_resolved_at a = None)"
  unfolding isOpen_def using alertFor_row alertFor_Some alertFor_None by (fastforce split: option.splits)

lemma dedupeFingerprints_set: "set (dedupeFingerprints fps) = set (nonEmptyTrimmed fps)"
  by (simp add: dedupeFingerprints_def id_def set_dedup_by_id)

lemma nonEmptyTrimmed_idem: "set (nonEmptyTrimmed (nonEmptyTrimmed fps)) = set (nonEmptyTrimmed fps)"
  by (force simp: nonEmptyTrimmed_def image_iff)

lemma dedupeFingerprints_Nil: "dedupeFingerprints (nonEmptyTrimmed fps) = [] \<longleftrightarrow> nonEmptyTrimmed fps = []"
  using dedupeFingerprints_set [of "nonEmptyTrimmed fps"] nonEmptyTrimmed_idem [of fps] by (metis set_empty)

lemma ScanAssetsOfflineBefore_ok:
  "\<not> fault_at d (stmt_no d) \<Longrightarrow>
     ScanAssetsOfflineBefore t d = (Inr (map lastSeenRow (filter (offlineBefore t) (assets d))), d\<lparr>stmt_no := Suc (stmt_no d)\<rparr>)"
  by (simp add: ScanAssetsOfflineBefore_def query_def sql_def Let_def)

text \<open>A pass of the watchdog without faults.\<close>

lemma evaluateBuiltinOffline_ok:
  assumes plain: "uuid_plain L" and ready: "passReady L (length (assets (en_db s))) (en_db s)"
  defines "rows \<equiv> map lastSeenRow (filter (offlineBefore (now (en_db s) - offlineBuiltinGrace)) (assets (en_db s)))"
  shows "\<exists>s' closed. evaluateBuiltinOffline L hooks s = (Inr (), s')
    \<and> assets (en_db s') = assets (en_db s) \<and> now (en_db s') = now (en_db s) \<and> incidents (en_db s') = incidents (en_db s) \<and> fault_at (en_db s') = fault_at (en_db s)
    \<and> (\<forall>i. isOpen (en_db s') (fpBuiltinOffline L i) = (i \<in> offlineAssets (en_db s)))
    \<and> (\<forall>i. fpBuiltinOffline L i \<in> set closed \<longleftrightarrow> isOpen (en_db s) (fpBuiltinOffline L i) \<and> i \<notin> offlineAssets (en_db s))
    \<and> (\<forall>fp \<in> set closed. fp \<noteq> [] \<and> TrimSpace fp = fp)
    \<and> en_spawned s' = en_spawned s @ (if hooks then map (builtinHook L (now (en_db s))) rows @ (if closed = [] then [] else [OnResolved closed]) else [])"
proof -
  let ?d = "en_db s" and ?fp = "\<lambda>i. fpBuiltinOffline L i"
  let ?dz = "?d\<lparr>stmt_no := Suc (stmt_no ?d)\<rparr>"
  have up: "\<forall>k. \<not> fault_at ?d k" using ready by (simp add: passReady_def)
  have scan: "ScanAssetsOfflineBefore (now ?d - offlineBuiltinGrace) ?d = (Inr rows, ?dz)"
    using up unfolding rows_def by (intro ScanAssetsOfflineBefore_ok) simp
  have fr: "freshAlertIds m d" if "freshAlertIds n d" "m \<le> n" for m n d
    using that by (auto simp: freshAlertIds_def inj_on_def)
  have "passReady L (length rows) ?dz"
    using ready fr [of "length (assets ?d)" ?d "length rows"]
    by (auto simp: passReady_def alertTable_def wf_alerts_def freshAlertIds_def rows_def)
  moreover have rid: "(\<lambda>a. lr_ID a) ` set rows = offlineAssets ?d" by (force simp: rows_def lastSeenRow_def offlineAssets_def)
  then have "\<forall>a \<in> set rows. lr_ID a \<in> a_id ` set (assets ?d)" by (auto simp: offlineAssets_def)
  ultimately obtain s1 where loop: "builtinLoop L hooks rows [] (s\<lparr>en_db := ?dz\<rparr>) = (Inr (map (\<lambda>a. ?fp (lr_ID a)) rows), s1)"
    and p1: "passReady L 0 (en_db s1)" and f1: "assets (en_db s1) = assets ?d" "now (en_db s1) = now ?d" "incidents (en_db s1) = incidents ?d"
    and o1: "\<forall>fp. isOpen (en_db s1) fp = (fp \<in> (\<lambda>a. ?fp (lr_ID a)) ` set rows \<or> isOpen ?dz fp)"
    and sp1: "en_spawned s1 = en_spawned s @ (if hooks then map (builtinHook L (now ?d)) rows else [])"
    using builtinLoop_ok [OF plain, of rows "s\<lparr>en_db := ?dz\<rparr>" hooks "[]"] by auto
  let ?d1 = "en_db s1" and ?keep = "map (\<lambda>a. ?fp (lr_ID a)) rows"
  let ?P = "\<lambda>a. al_alert_kind a = ''builtin_offline'' \<and> (?keep = [] \<or> al_fingerprint a \<notin> set ?keep)"
  let ?raw = "map al_fingerprint (filter (\<lambda>a. al_resolved_at a = None \<and> ?P a) (active_alerts ?d1))"
  let ?d2 = "snd (resolveAlertsWhere ?P ?d1)" and ?closed = "dedupeFingerprints (nonEmptyTrimmed ?raw)"
  have up1: "\<not> fault_at ?d1 (stmt_no ?d1)" and tbl: "alertTable L ?d1" using p1 by (simp_all add: passReady_def)
  then have wf: "wf_alerts ?d1" by (simp add: alertTable_def)
  have kind: "TrimSpace ''builtin_offline'' = ''builtin_offline''" by code_simp
  have mem: "?fp i \<in> set ?keep \<longleftrightarrow> i \<in> offlineAssets ?d" for i
    using fpBuiltinOffline_inj [OF plain] by (auto simp: rid [symmetric] image_iff)
  have close: "CloseAlertsKindsExceptReturning ''builtin_offline'' ?keep ?d1 = (Inr (nonEmptyTrimmed ?raw), ?d2)"
    unfolding CloseAlertsKindsExceptReturning_def Let_def kind nonEmptyTrimmed_builtin [OF plain]
    by (subst resolveAlertsWhere_ok [OF up1]) simp
  define s' where "s' = submitResolvedFingerprints hooks (nonEmptyTrimmed ?raw) (s1\<lparr>en_db := ?d2\<rparr>)"
  have run: "evaluateBuiltinOffline L hooks s = (Inr (), s')"
    unfolding evaluateBuiltinOffline_def scan prod.case sum.case loop close s'_def ..
  have raw: "?fp i \<in> set ?raw \<longleftrightarrow> isOpen ?d1 (?fp i) \<and> i \<notin> offlineAssets ?d" for i
  proof -
    have "?fp i \<in> set ?raw \<longleftrightarrow> (\<exists>a \<in> set (active_alerts ?d1). al_fingerprint a = ?fp i \<and> al_resolved_at a = None \<and> ?P a)" by (simp add: image_iff) (metis (no_types, lifting))
    also have "\<dots> \<longleftrightarrow> (\<exists>a \<in> set (active_alerts ?d1). al_fingerprint a = ?fp i \<and> al_resolved_at a = None) \<and> i \<notin> offlineAssets ?d"
    proof -
      have "?P a \<longleftrightarrow> i \<notin> offlineAssets ?d" if "a \<in> set (active_alerts ?d1)" "al_fingerprint a = ?fp i" for a
      proof -
        have "al_alert_kind a = ''builtin_offline''" using tbl that unfolding alertTable_def by blast
        with mem [of i] that(2) show ?thesis by (cases "?keep = []") (simp_all del: set_map)
      qed
      then show ?thesis by blast
    qed
    finally show ?thesis by (simp add: isOpen_row [OF wf])
  qed
  have closed: "?fp i \<in> set ?closed \<longleftrightarrow> isOpen ?d (?fp i) \<and> i \<notin> offlineAssets ?d" for i
  proof -
    have "?fp i \<in> set ?closed \<longleftrightarrow> ?fp i \<in> set ?raw"
    proof -
      have "TrimSpace a = a" if "a \<in> set ?raw" for a using tbl that by (auto simp: alertTable_def)
      then have "map TrimSpace ?raw = ?raw" by (intro map_idI)
      then show ?thesis unfolding dedupeFingerprints_set nonEmptyTrimmed_idem
        by (simp add: nonEmptyTrimmed_def fpBuiltinOffline_not_Nil del: map_map)
    qed
    also have "\<dots> \<longleftrightarrow> isOpen ?d (?fp i) \<and> i \<notin> offlineAssets ?d"
      using raw [of i] o1 mem [of i] by (auto simp: isOpen_def alertFor_def)
    finally show ?thesis .
  qed
  have opn: "isOpen ?d2 (?fp i) \<longleftrightarrow> i \<in> offlineAssets ?d" for i
  proof -
    have "isOpen ?d2 (?fp i) \<longleftrightarrow> isOpen ?d1 (?fp i) \<and> ?fp i \<notin> set ?raw"
      by (rule isOpen_resolve_closed [OF wf up1])
    with raw [of i] o1 mem [of i] show ?thesis by auto
  qed
  have empty: "?closed = [] \<longleftrightarrow> nonEmptyTrimmed ?raw = []"
    by (rule dedupeFingerprints_Nil)
  have fa: "fault_at ?d1 = fault_at ?d" using up p1 by (auto simp: passReady_def)
  have "en_db s' = ?d2" and "en_spawned s' = en_spawned s1 @ (if hooks \<and> ?closed \<noteq> [] then [OnResolved ?closed] else [])"
    unfolding empty by (simp_all add: s'_def submitResolvedFingerprints_def)
  moreover have "\<forall>fp \<in> set ?closed. fp \<noteq> [] \<and> TrimSpace fp = fp" unfolding dedupeFingerprints_set by (auto simp: nonEmptyTrimmed_def)
  ultimately show ?thesis using run closed opn f1 sp1 fa
    by (intro exI [of _ s'] exI [of _ ?closed]) (simp add: resolveAlertsWhere_other)
qed

text \<open>C7: the built-in watchdog implements its specification. When the database answers, a pass succeeds and
  leaves an open watchdog alert for exactly the assets that have been silent for the grace period, whatever
  alerts were open before.\<close>

theorem watchdog_refines:
  assumes "uuid_plain L" and "passReady L (length (assets (en_db s))) (en_db s)"
  shows "fst (evaluateBuiltinOffline L hooks s) = Inr ()
    \<and> watchedAssets L (en_db (snd (evaluateBuiltinOffline L hooks s))) = offlineAssets (en_db s)"
  using evaluateBuiltinOffline_ok [OF assms, of hooks] by (auto simp: watchedAssets_def offlineAssets_def)

lemma exampleLib_plain: "uuid_plain exampleLib"
proof -
  have "\<not> is_space c" if "is_digit c" for c using that by (auto simp: is_space_def is_digit_def)
  then have "list_all (\<lambda>c. \<not> is_space c) (nat_str n)" for n using nat_str_digits [of n] by (auto simp: list_all_iff)
  then show ?thesis by (simp add: uuid_plain_def exampleLib_def)
qed

definition watchedAsset :: "uuid \<Rightarrow> time option \<Rightarrow> asset" where
  "watchedAsset i t = \<lparr>a_id = i, a_human_id = ''dev'', a_display_name = None, a_hostname = None, a_cert_serial = None, a_os_type = ''linux'',
     a_last_seen = t, a_metadata = JNull, a_updated_at = 0, a_operational_status = ''operational'', a_cost_center = '''', a_location = '''',
     a_compliance_status = ''compliant'', a_compliance_reason = '''', a_quarantine_enabled = False\<rparr>"

text \<open>Asset 7 is silent, asset 8 reported a second ago and still has a watchdog alert.\<close>

definition exampleWatch :: engine_state where
  "exampleWatch = \<lparr>en_db = empty_db\<lparr>now := time_Hour, assets := [watchedAsset 7 (Some 0), watchedAsset 8 (Some (time_Hour - time_Second))],
       uuid_next := 1, active_alerts := [(openAlertRow (builtinInput exampleLib 0 (lastSeenRow (watchedAsset 8 None))) 0)\<lparr>al_id := 1\<rparr>]\<rparr>,
     en_events = [], en_spawned = []\<rparr>"

lemma exampleWatch_ready: "passReady exampleLib 2 (en_db exampleWatch)"
proof -
  let ?a = "(openAlertRow (builtinInput exampleLib 0 (lastSeenRow (watchedAsset 8 None))) 0)\<lparr>al_id := 1\<rparr>"
  have "TrimSpace (al_fingerprint ?a) = al_fingerprint ?a" "al_alert_kind ?a = ''builtin_offline''" by code_simp+
  moreover have "alertRowError ?a (en_db exampleWatch) = None" by code_simp
  moreover have "freshAlertIds 2 (en_db exampleWatch)"
    by (simp add: exampleWatch_def empty_db_def freshAlertIds_def numeral_2_eq_2 atLeastLessThanSuc)
  ultimately show ?thesis by (simp add: passReady_def alertTable_def wf_alerts_def exampleWatch_def empty_db_def)
qed

lemma exampleWatch_offline: "offlineAssets (en_db exampleWatch) = {7}"
proof -
  have "map a_id (filter (offlineBefore (now (en_db exampleWatch) - offlineBuiltinGrace)) (assets (en_db exampleWatch))) = [7]" by code_simp
  from arg_cong [OF this, of set] show ?thesis by (simp add: offlineAssets_def)
qed

theorem watchdog_refines_witness:
  "offlineAssets (en_db exampleWatch) = {7}
   \<and> watchedAssets exampleLib (en_db exampleWatch) = {8}
   \<and> watchedAssets exampleLib (en_db (snd (evaluateBuiltinOffline exampleLib True exampleWatch))) = {7}"
proof -
  have l: "length (assets (en_db exampleWatch)) = 2" by (simp add: exampleWatch_def)

  have before: "watchedAssets exampleLib (en_db exampleWatch) = {8}"
  proof -
    have "isOpen (en_db exampleWatch) (fpBuiltinOffline exampleLib 8)" "\<not> isOpen (en_db exampleWatch) (fpBuiltinOffline exampleLib 7)" by code_simp+
    then show ?thesis by (auto simp: watchedAssets_def) (auto simp: exampleWatch_def watchedAsset_def)
  qed
  show ?thesis
    using watchdog_refines [OF exampleLib_plain, of exampleWatch True] exampleWatch_ready exampleWatch_offline l before by simp
qed

section \<open>Offline rules and lost lookups\<close>

lemma isOpen_resolved_kind:
  assumes "wf_alerts d" and "\<not> fault_at d (stmt_no d)" and "\<And>a. alertFor d fp = Some a \<Longrightarrow> P a"
  shows "\<not> isOpen (snd (resolveAlertsWhere P d)) fp"
  unfolding isOpen_resolve [OF assms(1,2)] using assms(3) by (auto simp: isOpen_def split: option.splits)

lemma isOpen_resolve_mono:
  assumes "wf_alerts d" and "\<not> isOpen d fp"
  shows "\<not> isOpen (snd (resolveAlertsWhere P d)) fp"
proof (cases "fault_at d (stmt_no d)")
  case True
  then show ?thesis using assms(2) by (simp add: resolveAlertsWhere_def sql_fault isOpen_def alertFor_def)
next
  case False
  then show ?thesis using isOpen_resolve [OF assms(1) False] assms(2) by simp
qed

lemma CloseAlerts_state:
  assumes "TrimSpace kind \<noteq> []"
  shows "snd (CloseAlertsKindsExceptReturning kind desired d)
    = snd (resolveAlertsWhere (\<lambda>a. al_alert_kind a = TrimSpace kind \<and> (nonEmptyTrimmed desired = [] \<or> al_fingerprint a \<notin> set (nonEmptyTrimmed desired))) d)"
  using assms by (auto simp: CloseAlertsKindsExceptReturning_def Let_def split: prod.splits sum.splits)

lemma evaluateDeviceRules_closes:
  assumes rules: "ListAlertRulesEnabled (en_db s) = (Inr rules, d)" and loop: "rulesLoop L hooks rules ([], []) (s\<lparr>en_db := d\<rparr>) = (Inr ([], []), s1)"
    and wf: "wf_alerts (en_db s1)" and up: "\<not> fault_at (en_db s1) (stmt_no (en_db s1))"
    and kind: "\<And>a. alertFor (en_db s1) fp = Some a \<Longrightarrow> al_alert_kind a = ''rule_offline''"
  shows "\<not> isOpen (en_db (snd (evaluateDeviceRules L hooks s))) fp"
proof -
  have k: "TrimSpace ''rule_offline'' = ''rule_offline''" "TrimSpace ''rule_metric'' = ''rule_metric''" by code_simp+
  let ?r1 = "CloseAlertsKindsExceptReturning ''rule_offline'' [] (en_db s1)"
  let ?r2 = "CloseAlertsKindsExceptReturning ''rule_metric'' [] (snd ?r1)"
  have c1: "\<not> isOpen (snd ?r1) fp"
    using isOpen_resolved_kind [OF wf up] kind CloseAlerts_state [of "''rule_offline''" "[]" "en_db s1"] by (simp add: k nonEmptyTrimmed_def)
  have wf1: "wf_alerts (snd ?r1)"
    using closesOnly_resolve [OF wf] CloseAlerts_state [of "''rule_offline''" "[]" "en_db s1"] by (simp add: k nonEmptyTrimmed_def closesOnly_def)
  have c2: "\<not> isOpen (snd ?r2) fp"
    using isOpen_resolve_mono [OF wf1 c1] CloseAlerts_state [of "''rule_metric''" "[]" "snd ?r1"] by (simp add: k nonEmptyTrimmed_def)
  have "en_db (snd (evaluateDeviceRules L hooks s)) \<in> {snd ?r1, snd ?r2}"
    by (cases ?r1; cases ?r2; cases "fst ?r1"; cases "fst ?r2")
      (auto simp: evaluateDeviceRules_def rules loop submitResolvedFingerprints_def)
  with c1 c2 show ?thesis by auto
qed

text \<open>A lost lookup resolves a live alert. When the lookup of an asset fails for an offline rule (a dropped
  connection, not a missing row), the asset is skipped, its fingerprint is not among those to keep, and the alert that
  is open for it is resolved although the asset may still be silent.\<close>

theorem lost_lookup_resolves_alert:
  assumes rule: "filter (\<lambda>r. ar_is_enabled r \<and> ar_target_type r = ''device'') (alert_rules d) = [rule]"
      "TrimSpace (ar_metric rule) = ''offline_status''" "ar_target_device_id rule = Some i" "i \<noteq> uuid_Nil"
    and asset: "filter (\<lambda>a. a_id a = i) (assets d) = [a]"
    and wf: "wf_alerts d" and kind: "\<And>x. alertFor d (fpRuleOffline L (ar_id rule) i) = Some x \<Longrightarrow> al_alert_kind x = ''rule_offline''"
    and fault: "fault_at d = (\<lambda>k. k = stmt_no d + 2)" and s: "en_db s = d"
  shows "\<not> isOpen (en_db (snd (evaluateDeviceRules L hooks s))) (fpRuleOffline L (ar_id rule) i)"
proof -
  let ?d = "d\<lparr>stmt_no := stmt_no d + 1\<rparr>" and ?e = "d\<lparr>stmt_no := stmt_no d + 3\<rparr>"
  have ids: "map a_id (filter (\<lambda>a. a_id a = i) (assets d)) = [i]"
  proof -
    have "a \<in> set (filter (\<lambda>a. a_id a = i) (assets d))" unfolding asset by simp
    then have "a_id a = i" by simp
    then show ?thesis using asset by simp
  qed
  have "ListAlertRulesEnabled d = (Inr [rule], ?d)"
    using rule(1) by (simp add: ListAlertRulesEnabled_def query_def sql_def Let_def fault)
  moreover have "rulesLoop L hooks [rule] ([], []) (s\<lparr>en_db := ?d\<rparr>) = (Inr ([], []), s\<lparr>en_db := ?e\<rparr>)"
    using rule ids by (simp add: ListAssetsForAlerting_def LoadAssetHeartbeatMeta_def query_def query_row_def sql_def Let_def fault numeral_3_eq_3 numeral_2_eq_2)
  moreover have "wf_alerts ?e" "\<not> fault_at ?e (stmt_no ?e)" using wf fault by (simp_all add: wf_alerts_def)
  moreover have "alertFor ?e fp = alertFor d fp" for fp by (simp add: alertFor_def)
  ultimately show ?thesis using kind s by (intro evaluateDeviceRules_closes [of s "[rule]" ?d L hooks "s\<lparr>en_db := ?e\<rparr>"]) simp_all
qed

definition exampleRule :: alert_rule where
  "exampleRule = \<lparr>ar_id = 3, ar_name = ''silent'', ar_target_type = ''device'', ar_metric = ''offline_status'', ar_operator = ''>'', ar_threshold = 60,
     ar_duration_seconds = 60, ar_severity = ''warning'', ar_is_enabled = True, ar_target_device_id = Some 7, ar_created_at = 0, ar_updated_at = 0\<rparr>"

definition exampleRuleState :: "(nat \<Rightarrow> bool) \<Rightarrow> engine_state" where
  "exampleRuleState faults = \<lparr>en_db = empty_db\<lparr>now := time_Hour, assets := [watchedAsset 7 (Some 0)], alert_rules := [exampleRule], fault_at := faults,
       active_alerts := [(openAlertRow (offlineRuleInput exampleLib exampleRule 7 ''dev'' '''' 60) 0)\<lparr>al_id := 9\<rparr>]\<rparr>,
     en_events = [], en_spawned = []\<rparr>"

text \<open>The rule still applies to the asset, whose alert is open; it is resolved when statement 2 fails.\<close>

theorem lost_lookup_resolves_alert_witness:
  "isOpen (en_db (exampleRuleState (\<lambda>k. k = 2))) (fpRuleOffline exampleLib 3 7)
   \<and> compareFloat (ar_operator exampleRule) (SecondsSinceLastSeen time_Hour (Some 0)) (ar_threshold exampleRule)
   \<and> \<not> isOpen (en_db (snd (evaluateDeviceRules exampleLib True (exampleRuleState (\<lambda>k. k = 2))))) (fpRuleOffline exampleLib 3 7)"
proof (intro conjI)
  show "isOpen (en_db (exampleRuleState (\<lambda>k. k = 2))) (fpRuleOffline exampleLib 3 7)" by code_simp
  show "compareFloat (ar_operator exampleRule) (SecondsSinceLastSeen time_Hour (Some 0)) (ar_threshold exampleRule)" by code_simp
  let ?s = "exampleRuleState (\<lambda>k. k = 2)"
  have "\<not> isOpen (en_db (snd (evaluateDeviceRules exampleLib True ?s))) (fpRuleOffline exampleLib (ar_id exampleRule) 7)"
  proof (rule lost_lookup_resolves_alert [of "en_db ?s" exampleRule 7 "watchedAsset 7 (Some 0)"])
    show "TrimSpace (ar_metric exampleRule) = ''offline_status''" by code_simp
  qed (auto simp: exampleRuleState_def exampleRule_def empty_db_def watchedAsset_def wf_alerts_def alertFor_def openAlertRow_def offlineRuleInput_def
        split: if_splits)
  then show "\<not> isOpen (en_db (snd (evaluateDeviceRules exampleLib True ?s))) (fpRuleOffline exampleLib 3 7)" by (simp add: exampleRule_def)
qed

end
