(* ===== verification/Incidents_Facts.thy ===== *)
theory Incidents_Facts
  imports Alerting_Facts
begin

text \<open>
  Incidents follow alerts: the contract of the incident hooks as a locale, what running the started
  goroutines in any order does under it, its instance on the bridge of \<open>itsm/alert_bridge.go\<close>, and the
  composition with the watchdog.
\<close>

section \<open>The contract of the hooks\<close>

fun criticalFps :: "hook_call list \<Rightarrow> string set" where
  "criticalFps [] = {}"
| "criticalFps (OnCritical fp sev dev title msg # hs) = insert fp (criticalFps hs)"
| "criticalFps (OnResolved fps # hs) = criticalFps hs"

fun resolvedFps :: "hook_call list \<Rightarrow> string set" where
  "resolvedFps [] = {}"
| "resolvedFps (OnCritical fp sev dev title msg # hs) = resolvedFps hs"
| "resolvedFps (OnResolved fps # hs) = set fps \<union> resolvedFps hs"

text \<open>The calls the engine makes: trimmed fingerprints and devices the table of assets has.\<close>

fun hookOK :: "(uuid \<Rightarrow> bool) \<Rightarrow> hook_call \<Rightarrow> bool" where
  "hookOK known (OnCritical fp sev dev title msg) \<longleftrightarrow> fp \<noteq> [] \<and> TrimSpace fp = fp \<and> known dev"
| "hookOK known (OnResolved fps) \<longleftrightarrow> (\<forall>fp \<in> set fps. fp \<noteq> [] \<and> TrimSpace fp = fp)"

locale incident_hooks =
  fixes onCritical :: "string \<Rightarrow> string \<Rightarrow> uuid \<Rightarrow> string \<Rightarrow> string \<Rightarrow> 'w \<Rightarrow> 'w"
    and onResolved :: "string list \<Rightarrow> 'w \<Rightarrow> 'w"
    and openFor :: "'w \<Rightarrow> string \<Rightarrow> bool"
    and ready :: "nat \<Rightarrow> 'w \<Rightarrow> bool"
    and known :: "'w \<Rightarrow> uuid \<Rightarrow> bool"
  assumes critical_ready: "ready (Suc n) w \<Longrightarrow> hookOK (known w) (OnCritical fp sev dev title msg)
      \<Longrightarrow> ready n (onCritical fp sev dev title msg w) \<and> known (onCritical fp sev dev title msg w) = known w"
    and critical_open: "ready (Suc n) w \<Longrightarrow> hookOK (known w) (OnCritical fp sev dev title msg)
      \<Longrightarrow> openFor (onCritical fp sev dev title msg w) x = (x = fp \<or> openFor w x)"
    and resolved_ready: "ready (Suc n) w \<Longrightarrow> hookOK (known w) (OnResolved fps)
      \<Longrightarrow> ready n (onResolved fps w) \<and> known (onResolved fps w) = known w"
    and resolved_open: "ready (Suc n) w \<Longrightarrow> hookOK (known w) (OnResolved fps)
      \<Longrightarrow> openFor (onResolved fps w) x = (openFor w x \<and> x \<notin> set fps)"
begin

text \<open>Whatever order the goroutines run in, what is open afterwards depends on the sets of fingerprints only.\<close>

lemma run_open:
  assumes "ready (length hs) w" and "list_all (hookOK (known w)) hs" and "criticalFps hs \<inter> resolvedFps hs = {}"
  shows "openFor (fold (runHook onCritical onResolved) hs w) x = (x \<in> criticalFps hs \<or> openFor w x \<and> x \<notin> resolvedFps hs)"
  using assms
proof (induction hs arbitrary: w)
  case (Cons h hs)
  show ?case
  proof (cases h)
    case (OnCritical fp sev dev title msg)
    then have r: "ready (Suc (length hs)) w" "hookOK (known w) (OnCritical fp sev dev title msg)" using Cons.prems by simp_all
    from critical_ready [OF r] critical_open [OF r] Cons OnCritical show ?thesis by auto
  next
    case (OnResolved fps)
    then have r: "ready (Suc (length hs)) w" "hookOK (known w) (OnResolved fps)" using Cons.prems by simp_all
    have "criticalFps hs \<inter> resolvedFps hs = {}" using Cons.prems(3) OnResolved by auto
    from Cons.IH [OF _ _ this] resolved_ready [OF r] resolved_open [OF r] Cons.prems OnResolved show ?thesis by auto
  qed
qed simp

lemma run_ready:
  assumes "ready (length hs) w" and "list_all (hookOK (known w)) hs"
  shows "ready 0 (fold (runHook onCritical onResolved) hs w)"
  using assms
proof (induction hs arbitrary: w)
  case (Cons h hs)
  then show ?case using critical_ready resolved_ready by (cases h) auto
qed simp

end

text \<open>The sets of a permutation are the same.\<close>

lemma fps_perm:
  assumes "mset hs = mset ks"
  shows "criticalFps hs = criticalFps ks" and "resolvedFps hs = resolvedFps ks"
proof -
  have c: "criticalFps hs = {fp. \<exists>sev dev title msg. OnCritical fp sev dev title msg \<in> set hs}" for hs
    by (induction hs rule: criticalFps.induct) auto
  have r: "resolvedFps hs = {fp. \<exists>fps. OnResolved fps \<in> set hs \<and> fp \<in> set fps}" for hs
    by (induction hs rule: resolvedFps.induct) auto
  have "set hs = set ks" using assms by (rule mset_eq_setD)
  then show "criticalFps hs = criticalFps ks" "resolvedFps hs = resolvedFps ks" by (simp_all add: c r)
qed

section \<open>Incident numbers\<close>

lemma length_nat_str: "n < 10 ^ k \<Longrightarrow> 0 < k \<Longrightarrow> length (nat_str n) \<le> k"
proof (induction k arbitrary: n)
  case (Suc k)
  show ?case
  proof (cases "n < 10")
    case True
    then show ?thesis by (subst nat_str.simps) simp
  next
    case False
    then have "0 < k" using Suc.prems by (cases k) auto
    moreover have "n div 10 < 10 ^ k" using Suc.prems by (simp add: less_mult_imp_div_less)
    ultimately show ?thesis using Suc.IH [of "n div 10"] False by (subst nat_str.simps) simp
  qed
qed simp

lemma nat_str_bound: "m < 10 ^ length (nat_str m)"
proof -
  have "foldl (\<lambda>n c. 10 * n + digit_val c) 0 xs < 10 ^ length xs" if "list_all is_digit xs" for xs
    using that
  proof (induction xs rule: rev_induct)
    case (snoc x xs)
    have "is_digit x" using snoc.prems by simp
    then have "digit_val x < 10" by (auto simp: is_digit_def digit_val_def Let_def)
    with snoc show ?case by simp
  qed simp
  from this [OF nat_str_digits [of m]] show ?thesis by (simp add: foldl_nat_str)
qed

lemma incident_fmt_ok:
  assumes "0 \<le> n" and "n < 10000000"
  shows "incidentNumberOK (incident_fmt n)"
proof -
  have "length (int_str n) \<le> 7" using assms length_nat_str [of "nat n" 7] by (simp add: int_str_def)
  moreover have "list_all is_digit (int_str n)" using assms by (simp add: int_str_def nat_str_digits)
  moreover have "is_digit (CHR ''0'')" by code_simp
  ultimately show ?thesis by (auto simp: incidentNumberOK_def incident_fmt_def Let_def list_all_iff)
qed

text \<open>Past 9,999,999 the number no longer has the format the table demands.\<close>

lemma incident_fmt_overflow:
  assumes "10000000 \<le> n"
  shows "\<not> incidentNumberOK (incident_fmt n)"
proof -
  have "7 < length (nat_str m)" if "10 ^ 7 \<le> m" for m
  proof (rule ccontr)
    assume "\<not> 7 < length (nat_str m)"
    with nat_str_bound [of m] show False using that power_increasing [of "length (nat_str m)" 7 "10::nat"] by simp
  qed
  then have "7 < length (nat_str (nat n))" using assms by simp
  then show ?thesis using assms by (simp add: incidentNumberOK_def incident_fmt_def int_str_def Let_def)
qed

lemma incident_fmt_inj:
  assumes "incident_fmt m = incident_fmt n" and "0 \<le> m" and "0 \<le> n"
  shows "m = n"
proof -
  let ?v = "foldl (\<lambda>n c. 10 * n + digit_val c) (0::nat)"
  have z: "?v (replicate k (CHR ''0'')) = 0" for k
    by (induction k) (simp_all add: digit_val_def)
  have "?v (drop 3 (incident_fmt k)) = nat k" if "0 \<le> k" for k
    using that by (simp add: incident_fmt_def int_str_def Let_def z foldl_nat_str)
  from this [OF assms(2)] this [OF assms(3)] assms show ?thesis by simp
qed

section \<open>The bridge provides the contract\<close>

definition rowOpen :: "incident \<Rightarrow> string \<Rightarrow> bool" where
  "rowOpen r fp \<longleftrightarrow> in_source_alert_fingerprint r = Some fp \<and> in_state r \<in> {''new'', ''in_progress'', ''on_hold''}"

definition openIncident :: "db \<Rightarrow> string \<Rightarrow> bool" where
  "openIncident d fp \<longleftrightarrow> (\<exists>r \<in> set (incidents d). rowOpen r fp)"

lemma openIncident_update:
  assumes "incidents d' = update_where P f rows"
  shows "openIncident d' fp \<longleftrightarrow> (\<exists>r \<in> set rows. rowOpen (if P r then f r else r) fp)"
  unfolding openIncident_def assms update_where_def set_map by blast

definition incidentRowOK :: "db \<Rightarrow> incident \<Rightarrow> bool" where
  "incidentRowOK d r \<longleftrightarrow> incidentCheck r \<and> refers (in_cmdb_ci r) (map a_id (assets d)) \<and> refers (in_caller_id r) (map us_id (users d))
     \<and> refers (in_assigned_to r) (map us_id (users d))"

text \<open>The next \<open>n\<close> random identifiers and incident numbers are unused.\<close>

definition freshIncidents :: "nat \<Rightarrow> db \<Rightarrow> bool" where
  "freshIncidents n d \<longleftrightarrow> inj_on (uuid_stream d) {uuid_next d..<uuid_next d + n}
     \<and> (\<forall>k \<in> {uuid_next d..<uuid_next d + n}. uuid_stream d k \<notin> in_id ` set (incidents d))
     \<and> 0 \<le> incident_seq d \<and> incident_seq d + int n \<le> 9999999
     \<and> (\<forall>k \<in> {incident_seq d<..incident_seq d + int n}. incident_fmt k \<notin> in_incident_number ` set (incidents d))"

definition incidentsReady :: "nat \<Rightarrow> db \<Rightarrow> bool" where
  "incidentsReady n d \<longleftrightarrow> (\<forall>k. \<not> fault_at d k) \<and> distinct (map in_id (incidents d)) \<and> (\<forall>r \<in> set (incidents d). incidentRowOK d r)
     \<and> freshIncidents n d"

definition knownDevice :: "db \<Rightarrow> uuid \<Rightarrow> bool" where
  "knownDevice d i \<longleftrightarrow> i \<noteq> uuid_Nil \<and> i \<in> a_id ` set (assets d)"

lemma freshIncidents_less: "freshIncidents (Suc n) d \<Longrightarrow> freshIncidents n d"
  by (auto simp: freshIncidents_def inj_on_def)

lemma severityImpact_range: "fst (severityImpact s) \<in> {1, 2, 3}" "snd (severityImpact s) \<in> {1, 2, 3}"
  by (auto simp: severityImpact_def Let_def)

lemma newAlertIncident_ok:
  assumes "incidentNumberOK num" and "dev \<in> a_id ` set (assets d)"
  shows "incidentRowOK d ((newAlertIncident L t fp dev title msg sev num sla)\<lparr>in_id := i, in_created_at := t', in_updated_at := t'\<rparr>)"
  using assms severityImpact_range [of sev]
  by (auto simp: incidentRowOK_def incidentCheck_def newAlertIncident_def refers_def incidentStates_def)

lemma refreshAlertIncident_ok:
  assumes "incidentRowOK d r" and "dev \<in> a_id ` set (assets d)"
  shows "incidentRowOK d (refreshAlertIncident L t fp dev title msg sev sla r)"
  using assms severityImpact_range [of sev]
  by (auto simp: incidentRowOK_def incidentCheck_def refreshAlertIncident_def refers_def incidentStates_def split: option.splits)

lemma refreshAlertIncident_simps [simp]:
  "in_id (refreshAlertIncident L t fp dev title msg sev sla r) = in_id r"
  "in_incident_number (refreshAlertIncident L t fp dev title msg sev sla r) = in_incident_number r"
  "in_source_alert_fingerprint (refreshAlertIncident L t fp dev title msg sev sla r) = in_source_alert_fingerprint r"
  by (simp_all add: refreshAlertIncident_def)

lemma refreshAlertIncident_open:
  "incidentCheck r \<Longrightarrow> in_state (refreshAlertIncident L t fp dev title msg sev sla r) \<in> {''new'', ''in_progress'', ''on_hold''}"
  by (auto simp: refreshAlertIncident_def incidentCheck_def incidentStates_def)

text \<open>A fingerprint with no incident gets a new one.\<close>

lemma upsertIncidentBody_new:
  assumes ready: "incidentsReady (Suc n) d" and none: "find (\<lambda>r. in_source_alert_fingerprint r = Some fp) (incidents d) = None"
    and dev: "dev \<in> a_id ` set (assets d)"
  shows "\<exists>r m. upsertIncidentBody L fp dev title msg sev sla d
      = (Inr (), d\<lparr>incident_seq := incident_seq d + 1, stmt_no := m, uuid_next := Suc (uuid_next d), incidents := incidents d @ [r]\<rparr>)
    \<and> in_id r = random_uuid d \<and> in_incident_number r = incident_fmt (incident_seq d + 1) \<and> incidentRowOK d r
    \<and> in_source_alert_fingerprint r = Some fp \<and> in_state r = ''new''"
proof -
  have up: "\<not> fault_at d k" for k using ready by (simp add: incidentsReady_def)
  have seq: "0 \<le> incident_seq d" "incident_seq d + 1 \<le> 9999999" and num: "incident_fmt (incident_seq d + 1) \<notin> in_incident_number ` set (incidents d)"
    and fr: "random_uuid d \<notin> in_id ` set (incidents d)"
    using ready by (auto simp: incidentsReady_def freshIncidents_def random_uuid_def)
  have nofp: "Some fp \<notin> in_source_alert_fingerprint ` set (incidents d)" using none by (auto simp: find_None_iff)
  let ?r = "(newAlertIncident L (now d) fp dev title msg sev (incident_fmt (incident_seq d + 1)) sla)
      \<lparr>in_id := random_uuid d, in_created_at := now d, in_updated_at := now d\<rparr>"
  have ok: "incidentRowOK d ?r" using incident_fmt_ok [of "incident_seq d + 1"] seq dev by (intro newAlertIncident_ok) auto
  let ?e = "d\<lparr>incident_seq := incident_seq d + 1, stmt_no := Suc (Suc (Suc (stmt_no d)))\<rparr>"
  have ins: "insertIncidentRow (newAlertIncident L (now d) fp dev title msg sev (incident_fmt (incident_seq d + 1)) sla) ?e
      = (Inr (random_uuid d), ?e\<lparr>uuid_next := Suc (uuid_next d), incidents := incidents d @ [?r]\<rparr>)"
    using ok fr num nofp by (simp add: insertIncidentRow_def Let_def random_uuid_def uuid_used_def incidentRowOK_def newAlertIncident_def)
  have "upsertIncidentBody L fp dev title msg sev sla d = (Inr (), ?e\<lparr>uuid_next := Suc (uuid_next d), incidents := incidents d @ [?r]\<rparr>)"
    using ins by (simp add: upsertIncidentBody_def query_row_def allocateIncidentNumTx_def nextval_def sql_def Let_def up none)
  moreover have "in_source_alert_fingerprint ?r = Some fp" "in_state ?r = ''new''" "in_incident_number ?r = incident_fmt (incident_seq d + 1)"
    by (simp_all add: newAlertIncident_def)
  ultimately show ?thesis using ok by (intro exI [of _ ?r] exI [of _ "stmt_no ?e"]) simp
qed

text \<open>The incident of a fingerprint is refreshed and reopened.\<close>

lemma upsertIncidentBody_old:
  assumes ready: "incidentsReady n d" and some: "find (\<lambda>r. in_source_alert_fingerprint r = Some fp) (incidents d) = Some inc"
    and dev: "dev \<in> a_id ` set (assets d)"
  shows "\<exists>m. upsertIncidentBody L fp dev title msg sev sla d = (Inr (), d\<lparr>stmt_no := m,
      incidents := update_where (\<lambda>r. in_id r = in_id inc) (refreshAlertIncident L (now d) fp dev title msg sev sla) (incidents d)\<rparr>)"
proof -
  have up: "\<not> fault_at d k" for k using ready by (simp add: incidentsReady_def)
  let ?e = "d\<lparr>stmt_no := Suc (Suc (stmt_no d))\<rparr>" and ?f = "refreshAlertIncident L (now d) fp dev title msg sev sla"
  have inc: "inc \<in> set (incidents d)" using some by (auto simp: find_Some_iff)
  then have aff: "affected (\<lambda>r. in_id r = in_id inc) (incidents d) \<noteq> 0" by (auto simp: affected_0)
  have "incidentRowOK d r" if "r \<in> set (update_where (\<lambda>r. in_id r = in_id inc) ?f (incidents d))" for r
    using that ready dev refreshAlertIncident_ok by (fastforce simp: set_update_where incidentsReady_def)
  then have "updateIncidentRow (in_id inc) ?f ?e
      = (Inr (affected (\<lambda>r. in_id r = in_id inc) (incidents d)), ?e\<lparr>incidents := update_where (\<lambda>r. in_id r = in_id inc) ?f (incidents d)\<rparr>)"
    by (auto simp: updateIncidentRow_def Let_def list_ex_iff incidentRowOK_def)
  then have "upsertIncidentBody L fp dev title msg sev sla d
      = (Inr (), ?e\<lparr>incidents := update_where (\<lambda>r. in_id r = in_id inc) ?f (incidents d)\<rparr>)"
    using aff by (simp add: upsertIncidentBody_def query_row_def sql_def Let_def up some)
  then show ?thesis by auto
qed

text \<open>The state after an upsert, seen by fingerprint.\<close>

lemma incidentRowOK_cong: "assets d' = assets d \<Longrightarrow> users d' = users d \<Longrightarrow> incidentRowOK d' r = incidentRowOK d r"
  by (simp add: incidentRowOK_def)

lemma ready_new:
  assumes ready: "incidentsReady (Suc n) d" and r: "in_id r = random_uuid d" "in_incident_number r = incident_fmt (incident_seq d + 1)" "incidentRowOK d r"
  shows "incidentsReady n (d\<lparr>incident_seq := incident_seq d + 1, stmt_no := m, uuid_next := Suc (uuid_next d), incidents := incidents d @ [r]\<rparr>)"
    (is "incidentsReady n ?d")
proof -
  have fr: "freshIncidents (Suc n) d" and rest: "\<forall>k. \<not> fault_at d k" "distinct (map in_id (incidents d))" "\<forall>r \<in> set (incidents d). incidentRowOK d r"
    using ready by (simp_all add: incidentsReady_def)
  have new: "random_uuid d \<notin> in_id ` set (incidents d)" using fr by (simp add: freshIncidents_def random_uuid_def)
  have u: "uuid_stream d k \<noteq> random_uuid d" if "k \<in> {Suc (uuid_next d)..<Suc (uuid_next d) + n}" for k
  proof
    assume "uuid_stream d k = random_uuid d"
    then have "k = uuid_next d" using fr that by (auto simp: freshIncidents_def random_uuid_def dest: inj_onD)
    with that show False by simp
  qed
  have i: "incident_fmt k \<noteq> incident_fmt (incident_seq d + 1)" if "k \<in> {incident_seq d + 1<..incident_seq d + 1 + int n}" for k
    using incident_fmt_inj [of k "incident_seq d + 1"] that fr by (auto simp: freshIncidents_def)
  have "inj_on (uuid_stream d) {Suc (uuid_next d)..<Suc (uuid_next d) + n}"
    using fr by (auto simp: freshIncidents_def intro: inj_on_subset)
  then have "freshIncidents n ?d" using fr u i r by (auto simp: freshIncidents_def)
  moreover have "incidentRowOK ?d x = incidentRowOK d x" for x by (rule incidentRowOK_cong) simp_all
  ultimately show ?thesis using rest new r by (auto simp: incidentsReady_def)
qed

lemma ready_update:
  assumes ready: "incidentsReady n d" and ids: "\<And>r. in_id (f r) = in_id r" "\<And>r. in_incident_number (f r) = in_incident_number r"
    and ok: "\<And>r. incidentRowOK d r \<Longrightarrow> incidentRowOK d (f r)"
  shows "incidentsReady n (d\<lparr>stmt_no := m, incidents := update_where P f (incidents d)\<rparr>)" (is "incidentsReady n ?d")
proof -
  have m: "map in_id (update_where P f (incidents d)) = map in_id (incidents d)" "map in_incident_number (update_where P f (incidents d)) = map in_incident_number (incidents d)"
    using ids by (simp_all add: map_update_where)
  have s: "in_id ` set (update_where P f (incidents d)) = in_id ` set (incidents d)"
    "in_incident_number ` set (update_where P f (incidents d)) = in_incident_number ` set (incidents d)"
    using m by (metis set_map)+
  have "incidentRowOK ?d x = incidentRowOK d x" for x by (rule incidentRowOK_cong) simp_all
  with ready ok show ?thesis by (auto simp: incidentsReady_def freshIncidents_def m(1) s set_update_where)
qed

lemma openIncident_refresh:
  assumes ready: "incidentsReady n d" and some: "find (\<lambda>r. in_source_alert_fingerprint r = Some fp) (incidents d) = Some inc"
  shows "openIncident (d\<lparr>stmt_no := m, incidents := update_where (\<lambda>r. in_id r = in_id inc) (refreshAlertIncident L t fp dev title msg sev sla) (incidents d)\<rparr>) x
    \<longleftrightarrow> x = fp \<or> openIncident d x" (is "openIncident ?d x \<longleftrightarrow> _")
proof -
  let ?f = "refreshAlertIncident L t fp dev title msg sev sla"
  have inc: "inc \<in> set (incidents d)" "in_source_alert_fingerprint inc = Some fp" using some by (auto simp: find_Some_iff)
  have only: "r = inc" if "r \<in> set (incidents d)" "in_id r = in_id inc" for r
    using ready inc that by (auto simp: incidentsReady_def distinct_map dest: inj_onD)
  have "rowOpen (?f inc) x \<longleftrightarrow> x = fp"
    using ready inc refreshAlertIncident_open [of inc] by (auto simp: incidentsReady_def incidentRowOK_def rowOpen_def)
  moreover have "openIncident ?d x \<longleftrightarrow> (\<exists>r \<in> set (incidents d). rowOpen (if in_id r = in_id inc then ?f r else r) x)"
    by (rule openIncident_update) simp
  moreover have "rowOpen inc x \<Longrightarrow> x = fp" using inc by (simp add: rowOpen_def)
  ultimately show ?thesis
    using inc(1) only unfolding openIncident_def by (cases "x = fp") fastforce+
qed

lemma UpsertIncident_ok:
  assumes ready: "incidentsReady (Suc n) d" and fp: "fp \<noteq> []" "TrimSpace fp = fp" and dev: "knownDevice d dev"
  shows "\<exists>d'. UpsertIncidentForCriticalFingerprint L fp dev title msg sev d = (Inr (), d') \<and> incidentsReady n d'
    \<and> assets d' = assets d \<and> (\<forall>x. openIncident d' x \<longleftrightarrow> x = fp \<or> openIncident d x)"
proof -
  let ?b = "upsertIncidentBody L fp dev title msg sev (now d + severitySLA sev)" and ?e = "d\<lparr>stmt_no := Suc (stmt_no d)\<rparr>"
  have up: "\<forall>k. \<not> fault_at d k" using ready by (simp add: incidentsReady_def)
  have r: "incidentsReady (Suc n) ?e"
    using ready incidentRowOK_cong [of ?e d] by (simp add: incidentsReady_def freshIncidents_def)
  have dev': "dev \<in> a_id ` set (assets ?e)" using dev by (simp add: knownDevice_def)
  have "\<exists>d'. ?b ?e = (Inr (), d') \<and> incidentsReady n d' \<and> assets d' = assets d \<and> (\<forall>x. openIncident d' x \<longleftrightarrow> x = fp \<or> openIncident d x)"
  proof (cases "find (\<lambda>r. in_source_alert_fingerprint r = Some fp) (incidents ?e)")
    case None
    from upsertIncidentBody_new [OF r None dev', of L title msg sev "now d + severitySLA sev"] obtain row m where
      b: "?b ?e = (Inr (), ?e\<lparr>incident_seq := incident_seq ?e + 1, stmt_no := m, uuid_next := Suc (uuid_next ?e), incidents := incidents ?e @ [row]\<rparr>)"
      and row: "in_id row = random_uuid ?e" "in_incident_number row = incident_fmt (incident_seq ?e + 1)" "incidentRowOK ?e row"
      "in_source_alert_fingerprint row = Some fp" "in_state row = ''new''" by blast
    have "rowOpen row x \<longleftrightarrow> x = fp" for x using row(4,5) by (auto simp: rowOpen_def)
    with b ready_new [OF r row(1-3), of m] show ?thesis by (auto simp: openIncident_def)
  next
    case (Some inc)
    from upsertIncidentBody_old [OF r Some dev', of L title msg sev "now d + severitySLA sev"] obtain m where
      b: "?b ?e = (Inr (), ?e\<lparr>stmt_no := m,
        incidents := update_where (\<lambda>r. in_id r = in_id inc) (refreshAlertIncident L (now ?e) fp dev title msg sev (now d + severitySLA sev)) (incidents ?e)\<rparr>)"
      by blast
    have "incidentsReady n ?e" using r freshIncidents_less by (auto simp: incidentsReady_def)
    from ready_update [OF this, of "refreshAlertIncident L (now ?e) fp dev title msg sev (now d + severitySLA sev)" "\<lambda>r. in_id r = in_id inc" m] dev' refreshAlertIncident_ok
    have "incidentsReady n (?e\<lparr>stmt_no := m,
        incidents := update_where (\<lambda>r. in_id r = in_id inc) (refreshAlertIncident L (now ?e) fp dev title msg sev (now d + severitySLA sev)) (incidents ?e)\<rparr>)"
      by simp
    moreover have "openIncident ?e x = openIncident d x" for x by (simp add: openIncident_def)
    ultimately show ?thesis using b openIncident_refresh [OF r Some, where m = m] by auto
  qed
  then obtain d' where d': "?b ?e = (Inr (), d')" "incidentsReady n d'" "assets d' = assets d" "\<forall>x. openIncident d' x \<longleftrightarrow> x = fp \<or> openIncident d x"
    by blast
  have "fault_at d' = fault_at d" using d'(2) up by (auto simp: incidentsReady_def)
  from transaction_ok [where body = ?b, OF up d'(1) this, of Driver Driver]
  have "UpsertIncidentForCriticalFingerprint L fp dev title msg sev d = (Inr (), d'\<lparr>stmt_no := Suc (stmt_no d')\<rparr>)"
    using fp dev by (simp add: UpsertIncidentForCriticalFingerprint_def Let_def knownDevice_def)
  moreover have "incidentsReady n (d'\<lparr>stmt_no := Suc (stmt_no d')\<rparr>)"
    using d'(2) incidentRowOK_cong [of "d'\<lparr>stmt_no := Suc (stmt_no d')\<rparr>" d'] by (simp add: incidentsReady_def freshIncidents_def)
  ultimately show ?thesis using d' by (auto simp: openIncident_def)
qed

lemma resolveRow_ok: "incidentRowOK d r \<Longrightarrow> incidentRowOK d (resolveRow L t fp r)"
  by (auto simp: incidentRowOK_def incidentCheck_def resolveRow_def incidentStates_def)

lemma openIncident_resolve:
  assumes "incidents d' = update_where (\<lambda>r. in_source_alert_fingerprint r = Some fp \<and> in_state r \<noteq> ''closed'') (resolveRow L t fp) (incidents d)"
  shows "openIncident d' x \<longleftrightarrow> openIncident d x \<and> x \<noteq> fp"
proof -
  have "rowOpen (if in_source_alert_fingerprint r = Some fp \<and> in_state r \<noteq> ''closed'' then resolveRow L t fp r else r) x \<longleftrightarrow> rowOpen r x \<and> x \<noteq> fp" for r
    by (auto simp: rowOpen_def resolveRow_def)
  then show ?thesis unfolding openIncident_update [OF assms] by (auto simp: openIncident_def)
qed

lemma autoResolveLoop_ok:
  assumes "incidentsReady n d" and "\<forall>fp \<in> set fps. fp \<noteq> [] \<and> TrimSpace fp = fp"
  shows "\<exists>d'. autoResolveLoop L done fps d = (Inr (), d') \<and> incidentsReady n d' \<and> assets d' = assets d
    \<and> (\<forall>x. openIncident d' x \<longleftrightarrow> openIncident d x \<and> \<not> (x \<in> set fps \<and> x \<notin> set done))"
  using assms
proof (induction fps arbitrary: "done" d)
  case (Cons fp fps)
  have fp: "fp \<noteq> []" "TrimSpace fp = fp" using Cons.prems by simp_all
  show ?case
  proof (cases "fp \<in> set done")
    case True
    with Cons.IH [OF Cons.prems(1), of "done"] Cons.prems fp show ?thesis by auto
  next
    case False
    let ?P = "\<lambda>r. in_source_alert_fingerprint r = Some fp \<and> in_state r \<noteq> ''closed''"
    let ?d = "d\<lparr>stmt_no := Suc (stmt_no d), incidents := update_where ?P (resolveRow L (now d) fp) (incidents d)\<rparr>"
    have "incidentsReady n ?d"
      using Cons.prems(1) resolveRow_ok by (intro ready_update) (simp_all add: resolveRow_def)
    from Cons.IH [OF this, of "fp # done"] Cons.prems(2) obtain d' where
      d': "autoResolveLoop L (fp # done) fps ?d = (Inr (), d')" "incidentsReady n d'" "assets d' = assets d"
        "\<forall>x. openIncident d' x \<longleftrightarrow> openIncident ?d x \<and> \<not> (x \<in> set fps \<and> x \<notin> set (fp # done))" by auto
    have "\<not> fault_at d (stmt_no d)" using Cons.prems(1) by (simp add: incidentsReady_def)
    then have "autoResolveLoop L done (fp # fps) d = autoResolveLoop L (fp # done) fps ?d"
      using fp False by (simp add: Let_def sql_def)
    moreover have "openIncident ?d x \<longleftrightarrow> openIncident d x \<and> x \<noteq> fp" for x by (rule openIncident_resolve) simp
    ultimately show ?thesis using d' False by auto
  qed
qed auto

lemma OnCritical_bridge:
  assumes "incidentsReady (Suc n) d" and "hookOK (knownDevice d) (OnCritical fp sev dev title msg)"
  shows "incidentsReady n (OnCriticalDeviceFingerprint L fp sev dev title msg d)
    \<and> assets (OnCriticalDeviceFingerprint L fp sev dev title msg d) = assets d \<and> knownDevice (OnCriticalDeviceFingerprint L fp sev dev title msg d) = knownDevice d
    \<and> (\<forall>x. openIncident (OnCriticalDeviceFingerprint L fp sev dev title msg d) x \<longleftrightarrow> x = fp \<or> openIncident d x)"
proof -
  obtain d' where d': "UpsertIncidentForCriticalFingerprint L fp dev title msg sev d = (Inr (), d')" "incidentsReady n d'" "assets d' = assets d"
      "\<forall>x. openIncident d' x \<longleftrightarrow> x = fp \<or> openIncident d x"
    using UpsertIncident_ok [OF assms(1), of fp dev L title msg sev] assms(2) by auto
  have "knownDevice d' = knownDevice d" using d'(3) by (simp add: knownDevice_def fun_eq_iff)
  with d' show ?thesis by (simp add: OnCriticalDeviceFingerprint_def)
qed

lemma OnResolved_bridge:
  assumes "incidentsReady n d" and "hookOK (knownDevice d) (OnResolved fps)"
  shows "incidentsReady n (OnAlertFingerprintsResolved L fps d)
    \<and> knownDevice (OnAlertFingerprintsResolved L fps d) = knownDevice d
    \<and> (\<forall>x. openIncident (OnAlertFingerprintsResolved L fps d) x \<longleftrightarrow> openIncident d x \<and> x \<notin> set fps)"
proof -
  obtain d' where d': "autoResolveLoop L [] fps d = (Inr (), d')" "incidentsReady n d'" "assets d' = assets d"
      "\<forall>x. openIncident d' x \<longleftrightarrow> openIncident d x \<and> \<not> (x \<in> set fps \<and> x \<notin> set [])"
    using autoResolveLoop_ok [OF assms(1), of fps L "[]"] assms(2) by auto
  then have "OnAlertFingerprintsResolved L fps d = d'"
    by (auto simp: OnAlertFingerprintsResolved_def AutoResolveIncidentsForAlertFingerprints_def)
  with d' show ?thesis by (auto simp: knownDevice_def fun_eq_iff)
qed

lemma incidentsReady_less: "incidentsReady (Suc n) d \<Longrightarrow> incidentsReady n d"
  using freshIncidents_less by (auto simp: incidentsReady_def)

interpretation bridge: incident_hooks "OnCriticalDeviceFingerprint L" "OnAlertFingerprintsResolved L" openIncident incidentsReady knownDevice for L
  by unfold_locales (use OnCritical_bridge OnResolved_bridge incidentsReady_less in blast)+

section \<open>The watchdog and the bridge together\<close>

lemma builtinHook_ok:
  assumes "uuid_plain L" and "knownDevice d (lr_ID a)"
  shows "hookOK (knownDevice d) (builtinHook L t a)"
  using assms TrimSpace_builtin [OF assms(1)] fpBuiltinOffline_not_Nil
  by (simp add: builtinHook_def criticalHook_def builtinInput_def)

lemma fps_builtin:
  assumes "uuid_plain L"
  shows "criticalFps (map (builtinHook L t) rows @ hs) = (\<lambda>a. fpBuiltinOffline L (lr_ID a)) ` set rows \<union> criticalFps hs"
    and "resolvedFps (map (builtinHook L t) rows @ hs) = resolvedFps hs"
  using TrimSpace_builtin [OF assms] by (induction rows) (auto simp: builtinHook_def criticalHook_def builtinInput_def)


text \<open>The incident of asset 8 is open; the goroutines run in reverse order.\<close>

definition exampleIncidents :: db where
  "exampleIncidents = OnCriticalDeviceFingerprint exampleLib (fpBuiltinOffline exampleLib 8) ''critical'' 8 ''t'' ''m'' (en_db exampleWatch)"

definition exampleHooks :: "hook_call list" where
  "exampleHooks = rev (en_spawned (snd (evaluateBuiltinOffline exampleLib True exampleWatch)))"


end
