(* ===== verification/Pki.thy ===== *)
theory Pki
  imports Schema
begin

text \<open>
  The embedded certificate authority (\<open>internal/pki/ca.go\<close>).

  DER and PEM encodings, signatures and key generation are the parameter \<open>crypto\<close>. Keys of the authority are
  opaque numbers; a public key carries what the code inspects: its kind, and its curve or modulus size.
  \<open>x509_CreateCertificate\<close> spells out the one check of \<open>x509.CreateCertificate\<close> the templates of this code
  can fail: the requested signature algorithm has to belong to the kind of the signing key. The file system is a
  list of files with operations that may fail, numbered like the statements of the database.
\<close>

section \<open>Keys, requests and templates\<close>

datatype ec_curve = P224 | P256 | P384 | P521

datatype public_key = EcdsaKey ec_curve string | RsaKey nat string | OtherKey string

datatype key_kind = KindECDSA | KindRSA | KindOther

datatype sig_alg = UnknownSignatureAlgorithm | SHA256WithRSA | ECDSAWithSHA256 | ECDSAWithSHA384 | ECDSAWithSHA512

record pkix_name =
  pn_Organization :: "string list"
  pn_CommonName :: string

record CertificateRequest =
  cr_Subject :: pkix_name
  cr_DNSNames :: "string list"
  cr_IPAddresses :: "string list"
  cr_PublicKey :: public_key
  cr_SignatureOK :: bool

record certificate =
  ce_Raw :: string
  ce_IsCA :: bool
  ce_SubjectKeyId :: string

record cert_template =
  ct_SerialNumber :: int
  ct_Subject :: pkix_name
  ct_NotBefore :: time
  ct_NotAfter :: time
  ct_KeyUsage :: "string list"
  ct_ExtKeyUsage :: "string list"
  ct_IsCA :: bool
  ct_MaxPathLen :: int
  ct_MaxPathLenZero :: bool
  ct_SignatureAlgorithm :: sig_alg
  ct_SubjectKeyId :: string
  ct_AuthorityKeyId :: string
  ct_DNSNames :: "string list"
  ct_IPAddresses :: "string list"
  ct_URIs :: "string list"

type_synonym ec_key = nat

text \<open>The parameter: PEM blocks (type, bytes, rest), parsers and encoders, key generation and the random serial
  by the number of the random draw, certificate encoding, the chain check at a time, \<open>net.ParseIP\<close> to the text of the
  address, and \<open>AddDate(years, 0, 0)\<close>.\<close>

record crypto =
  pem_Decode :: "string \<Rightarrow> (string \<times> string \<times> string) option"
  pem_Encode :: "string \<Rightarrow> string \<Rightarrow> string"
  x509_ParseCertificateRequest :: "string \<Rightarrow> CertificateRequest option"
  x509_ParseCertificate :: "string \<Rightarrow> certificate option"
  x509_ParseECPrivateKey :: "string \<Rightarrow> ec_key option"
  x509_ParsePKCS8PrivateKey :: "string \<Rightarrow> (string + ec_key) option"
  x509_MarshalPKCS8PrivateKey :: "ec_key \<Rightarrow> string option"
  x509_MarshalPKIXPublicKey :: "public_key \<Rightarrow> string option"
  x509_Encode :: "cert_template \<Rightarrow> public_key \<Rightarrow> ec_key \<Rightarrow> string option"
  x509_Verify :: "time \<Rightarrow> certificate \<Rightarrow> certificate \<Rightarrow> bool"
  sha256_20 :: "string \<Rightarrow> string"
  ecdsa_GenerateKey :: "nat \<Rightarrow> ec_key option"
  ecdsa_Public :: "ec_key \<Rightarrow> string"
  rand_Serial :: "nat \<Rightarrow> int option"
  net_ParseIP :: "string \<Rightarrow> string option"
  add_years :: "int \<Rightarrow> time \<Rightarrow> time"

text \<open>Both keys of the authority are on P-384.\<close>

definition publicOf :: "crypto \<Rightarrow> ec_key \<Rightarrow> public_key" where
  "publicOf X k = EcdsaKey P384 (ecdsa_Public X k)"

fun key_kind_of :: "public_key \<Rightarrow> key_kind" where
  "key_kind_of (EcdsaKey c b) = KindECDSA"
| "key_kind_of (RsaKey n b) = KindRSA"
| "key_kind_of (OtherKey b) = KindOther"

fun sig_kind :: "sig_alg \<Rightarrow> key_kind" where
  "sig_kind UnknownSignatureAlgorithm = KindOther"
| "sig_kind SHA256WithRSA = KindRSA"
| "sig_kind ECDSAWithSHA256 = KindECDSA"
| "sig_kind ECDSAWithSHA384 = KindECDSA"
| "sig_kind ECDSAWithSHA512 = KindECDSA"

definition x509_CreateCertificate :: "crypto \<Rightarrow> cert_template \<Rightarrow> public_key \<Rightarrow> ec_key \<Rightarrow> string + string" where
  "x509_CreateCertificate X tpl pub signer =
     (if sig_kind (ct_SignatureAlgorithm tpl) \<noteq> key_kind_of (publicOf X signer)
        then Inl ''x509: requested SignatureAlgorithm does not match private key type''
      else (case x509_Encode X tpl pub signer of None \<Rightarrow> Inl ''x509: certificate'' | Some der \<Rightarrow> Inr der))"

section \<open>Small helpers\<close>

text \<open>The error of a wrapped cause is its text.\<close>

definition werr :: "string \<Rightarrow> string \<Rightarrow> string" where
  "werr msg cause = msg @ '': '' @ cause"

definition hostIsDNS :: "crypto \<Rightarrow> string \<Rightarrow> bool" where
  "hostIsDNS X host \<longleftrightarrow> host \<noteq> '''' \<and> net_ParseIP X host = None"

fun validateCSRPublicKey :: "public_key \<Rightarrow> string + unit" where
  "validateCSRPublicKey (EcdsaKey c b) = (if c \<in> {P256, P384, P521} then Inr () else Inl ''pki: unsupported ecdsa curve P-224'')"
| "validateCSRPublicKey (RsaKey bits b) = (if bits < 2048 then Inl ''pki: rsa public key must be at least 2048 bits'' else Inr ())"
| "validateCSRPublicKey (OtherKey t) = Inl (''pki: unsupported public key type '' @ t)"

fun signatureAlgorithmForPub :: "public_key \<Rightarrow> string + sig_alg" where
  "signatureAlgorithmForPub (EcdsaKey c b) =
     Inr (if c = P521 then ECDSAWithSHA512 else if c = P384 then ECDSAWithSHA384 else ECDSAWithSHA256)"
| "signatureAlgorithmForPub (RsaKey bits b) = Inr SHA256WithRSA"
| "signatureAlgorithmForPub (OtherKey t) = Inl (''pki: unsupported public key '' @ t)"

definition subjectKeyID :: "crypto \<Rightarrow> public_key \<Rightarrow> string + string" where
  "subjectKeyID X pub =
     (case x509_MarshalPKIXPublicKey X pub of
        None \<Rightarrow> Inl ''pki: marshal public key'' | Some b \<Rightarrow> Inr (sha256_20 X b))"

definition randomSerial :: "crypto \<Rightarrow> nat \<Rightarrow> string + int" where
  "randomSerial X draw =
     (case rand_Serial X draw of
        None \<Rightarrow> Inl ''pki: serial''
      | Some n \<Rightarrow> if n \<le> 0 then Inl ''pki: invalid serial'' else Inr n)"

definition pki_uniqueStrings :: "string list \<Rightarrow> string list" where
  "pki_uniqueStrings xs = dedup_by id [] (filter (\<lambda>s. s \<noteq> '''') (map TrimSpace xs))"

text \<open>An address is its text; the entries of a request are never nil.\<close>

definition uniqueIPs :: "string list \<Rightarrow> string list" where
  "uniqueIPs xs = dedup_by id [] xs"

definition pemEncodeCertificate :: "crypto \<Rightarrow> string \<Rightarrow> string" where
  "pemEncodeCertificate X der = pem_Encode X ''CERTIFICATE'' der"

definition concatPEM :: "string list \<Rightarrow> string" where
  "concatPEM parts = concat parts"

section \<open>Reading PEM\<close>

text \<open>The loops skip blocks of other types. Each block takes at least one byte, so the length of the text bounds
  the rounds; \<open>None\<close> is a text without a block of the wanted type.\<close>

fun pemFind :: "crypto \<Rightarrow> string list \<Rightarrow> nat \<Rightarrow> string \<Rightarrow> (string \<times> string) option" where
  "pemFind X types 0 pemdata = None"
| "pemFind X types (Suc n) pemdata =
     (case pem_Decode X pemdata of
        None \<Rightarrow> None
      | Some (t, b, rest) \<Rightarrow> if t \<in> set types then Some (t, b) else pemFind X types n rest)"

definition parseFirstCertificatePEM :: "crypto \<Rightarrow> string \<Rightarrow> string + certificate" where
  "parseFirstCertificatePEM X pemdata =
     (case pemFind X [''CERTIFICATE''] (Suc (length pemdata)) pemdata of
        None \<Rightarrow> Inl ''pki: no certificate pem block''
      | Some (_, b) \<Rightarrow> (case x509_ParseCertificate X b of None \<Rightarrow> Inl ''pki: parse certificate'' | Some c \<Rightarrow> Inr c))"

definition parseECPrivateKeyPEM :: "crypto \<Rightarrow> string \<Rightarrow> string + ec_key" where
  "parseECPrivateKeyPEM X pemdata =
     (case pemFind X [''EC PRIVATE KEY'', ''PRIVATE KEY''] (Suc (length pemdata)) pemdata of
        None \<Rightarrow> Inl ''pki: no private key pem block''
      | Some (t, b) \<Rightarrow>
          if t = ''EC PRIVATE KEY''
          then (case x509_ParseECPrivateKey X b of None \<Rightarrow> Inl ''pki: parse ec private key'' | Some k \<Rightarrow> Inr k)
          else (case x509_ParsePKCS8PrivateKey X b of
                  None \<Rightarrow> Inl ''pki: parse pkcs8 private key''
                | Some (Inl t) \<Rightarrow> Inl (''pki: expected ecdsa private key, got '' @ t)
                | Some (Inr k) \<Rightarrow> Inr k))"

definition parseECCertAndKey :: "crypto \<Rightarrow> string \<Rightarrow> string \<Rightarrow> string + (certificate \<times> ec_key)" where
  "parseECCertAndKey X certPEM keyPEM =
     (case parseFirstCertificatePEM X certPEM of
        Inl e \<Rightarrow> Inl e
      | Inr cert \<Rightarrow> (case parseECPrivateKeyPEM X keyPEM of Inl e \<Rightarrow> Inl e | Inr key \<Rightarrow> Inr (cert, key)))"

definition marshalECPrivateKeyPEM :: "crypto \<Rightarrow> ec_key \<Rightarrow> string + string" where
  "marshalECPrivateKeyPEM X key =
     (case x509_MarshalPKCS8PrivateKey X key of
        None \<Rightarrow> Inl ''pki: marshal pkcs8'' | Some der \<Rightarrow> Inr (pem_Encode X ''PRIVATE KEY'' der))"

definition verifyHierarchy :: "crypto \<Rightarrow> time \<Rightarrow> certificate \<Rightarrow> certificate \<Rightarrow> string + unit" where
  "verifyHierarchy X t rootCert intermediate =
     (if \<not> ce_IsCA rootCert then Inl ''pki: root certificate is not a CA''
      else if \<not> ce_IsCA intermediate then Inl ''pki: intermediate certificate is not a CA''
      else if \<not> x509_Verify X t rootCert intermediate then Inl ''pki: intermediate does not chain to root''
      else Inr ())"

section \<open>Files\<close>

record files =
  fl_data :: "(string \<times> string) list"
  fl_op :: nat
  fl_fault :: "nat \<Rightarrow> bool"
  fl_draw :: nat

definition file_op :: "files \<Rightarrow> bool \<times> files" where
  "file_op f = (\<not> fl_fault f (fl_op f), f\<lparr>fl_op := Suc (fl_op f)\<rparr>)"

definition fileReadable :: "string \<Rightarrow> files \<Rightarrow> bool" where
  "fileReadable path f \<longleftrightarrow> go_get (fl_data f) path \<noteq> None"

definition os_ReadFile :: "string \<Rightarrow> files \<Rightarrow> (string + string) \<times> files" where
  "os_ReadFile path f =
     (case file_op f of
        (False, f) \<Rightarrow> (Inl ''read'', f)
      | (True, f) \<Rightarrow> (case go_get (fl_data f) path of None \<Rightarrow> (Inl ''no such file'', f) | Some b \<Rightarrow> (Inr b, f)))"

text \<open>The temporary file is written, synced, closed and given its mode before the old file is removed and the
  temporary one takes its name; it is removed when a step fails. Only the last two steps touch the named file.\<close>

fun file_ops :: "nat \<Rightarrow> files \<Rightarrow> bool \<times> files" where
  "file_ops 0 f = (True, f)"
| "file_ops (Suc n) f = (case file_op f of (False, f) \<Rightarrow> (False, f) | (True, f) \<Rightarrow> file_ops n f)"

definition writeFileExclusive :: "string \<Rightarrow> string \<Rightarrow> files \<Rightarrow> (string + unit) \<times> files" where
  "writeFileExclusive path content f =
     (case file_ops 5 f of
        (False, f) \<Rightarrow> (Inl ''temporary file'', f)
      | (True, f) \<Rightarrow>
          (case file_op f of (removed, f) \<Rightarrow>
             let f = (if removed then f\<lparr>fl_data := AList.delete path (fl_data f)\<rparr> else f)
             in (case file_op f of
                   (False, f) \<Rightarrow> (Inl ''rename'', f)
                 | (True, f) \<Rightarrow> (Inr (), f\<lparr>fl_data := go_put path content (fl_data f)\<rparr>))))"


section \<open>The authority\<close>

record Authority =
  ca_rootCert :: certificate
  ca_rootKey :: ec_key
  ca_intermediateCert :: certificate
  ca_intermediateKey :: ec_key
  ca_rootPEM :: string
  ca_intermediatePEM :: string

text \<open>Results of fallible steps in sequence.\<close>

definition sbind :: "'e + 'a \<Rightarrow> ('a \<Rightarrow> 'e + 'b) \<Rightarrow> 'e + 'b" where
  "sbind r f = (case r of Inl e \<Rightarrow> Inl e | Inr x \<Rightarrow> f x)"

definition orErr :: "'e \<Rightarrow> 'a option \<Rightarrow> 'e + 'a" where
  "orErr e r = (case r of None \<Rightarrow> Inl e | Some x \<Rightarrow> Inr x)"

definition wrapErr :: "string \<Rightarrow> string + 'a \<Rightarrow> string + 'a" where
  "wrapErr msg r = (case r of Inl e \<Rightarrow> Inl (werr msg e) | Inr x \<Rightarrow> Inr x)"

definition caUsage :: "string list" where
  "caUsage = [''CertSign'', ''CRLSign'', ''DigitalSignature'']"

definition rootTemplate :: "crypto \<Rightarrow> time \<Rightarrow> int \<Rightarrow> string \<Rightarrow> cert_template" where
  "rootTemplate X t serial skid =
     \<lparr>ct_SerialNumber = serial, ct_Subject = \<lparr>pn_Organization = [''ARX MDM''], pn_CommonName = ''ARX MDM Embedded Root CA''\<rparr>,
      ct_NotBefore = t - 2 * time_Minute, ct_NotAfter = add_years X 20 t, ct_KeyUsage = caUsage, ct_ExtKeyUsage = [],
      ct_IsCA = True, ct_MaxPathLen = 1, ct_MaxPathLenZero = False, ct_SignatureAlgorithm = ECDSAWithSHA384,
      ct_SubjectKeyId = skid, ct_AuthorityKeyId = '''', ct_DNSNames = [], ct_IPAddresses = [], ct_URIs = []\<rparr>"

definition intermediateTemplate :: "crypto \<Rightarrow> time \<Rightarrow> int \<Rightarrow> string \<Rightarrow> string \<Rightarrow> cert_template" where
  "intermediateTemplate X t serial skid akid =
     \<lparr>ct_SerialNumber = serial, ct_Subject = \<lparr>pn_Organization = [''ARX MDM''], pn_CommonName = ''ARX MDM Embedded Intermediate CA''\<rparr>,
      ct_NotBefore = t - 2 * time_Minute, ct_NotAfter = add_years X 10 t, ct_KeyUsage = caUsage, ct_ExtKeyUsage = [],
      ct_IsCA = True, ct_MaxPathLen = 0, ct_MaxPathLenZero = True, ct_SignatureAlgorithm = ECDSAWithSHA384,
      ct_SubjectKeyId = skid, ct_AuthorityKeyId = akid, ct_DNSNames = [], ct_IPAddresses = [], ct_URIs = []\<rparr>"

text \<open>\<open>generateAndPersist\<close> up to the first file: keys and serials are the random draws \<open>n\<close> to \<open>n + 3\<close>; the result
  is the authority and the text of the two keys.\<close>

definition makeRoot :: "crypto \<Rightarrow> time \<Rightarrow> nat \<Rightarrow> string + (ec_key \<times> string \<times> certificate)" where
  "makeRoot X t n =
     sbind (orErr ''pki: generate root key'' (ecdsa_GenerateKey X n)) (\<lambda>key.
     sbind (subjectKeyID X (publicOf X key)) (\<lambda>skid.
     sbind (randomSerial X (n + 1)) (\<lambda>serial.
     sbind (wrapErr ''pki: create root certificate'' (x509_CreateCertificate X (rootTemplate X t serial skid) (publicOf X key) key)) (\<lambda>der.
     sbind (orErr ''pki: parse generated root'' (x509_ParseCertificate X der)) (\<lambda>cert. Inr (key, der, cert))))))"

definition makeIntermediate :: "crypto \<Rightarrow> time \<Rightarrow> nat \<Rightarrow> ec_key \<Rightarrow> certificate \<Rightarrow> string + (ec_key \<times> string \<times> certificate)" where
  "makeIntermediate X t n rootKey rootCert =
     sbind (orErr ''pki: generate intermediate key'' (ecdsa_GenerateKey X n)) (\<lambda>key.
     sbind (subjectKeyID X (publicOf X key)) (\<lambda>skid.
     sbind (randomSerial X (n + 1)) (\<lambda>serial.
     sbind (wrapErr ''pki: create intermediate certificate''
        (x509_CreateCertificate X (intermediateTemplate X t serial skid (ce_SubjectKeyId rootCert)) (publicOf X key) rootKey)) (\<lambda>der.
     sbind (orErr ''pki: parse generated intermediate'' (x509_ParseCertificate X der)) (\<lambda>cert. Inr (key, der, cert))))))"

definition makeAuthority :: "crypto \<Rightarrow> time \<Rightarrow> nat \<Rightarrow> string + (Authority \<times> string \<times> string)" where
  "makeAuthority X t n =
     sbind (makeRoot X t n) (\<lambda>(rootKey, rootDER, rootCert).
     sbind (makeIntermediate X t (n + 2) rootKey rootCert) (\<lambda>(intKey, intDER, intCert).
     sbind (marshalECPrivateKeyPEM X rootKey) (\<lambda>rootKeyOut.
     sbind (marshalECPrivateKeyPEM X intKey) (\<lambda>intKeyOut.
     Inr (\<lparr>ca_rootCert = rootCert, ca_rootKey = rootKey, ca_intermediateCert = intCert, ca_intermediateKey = intKey,
           ca_rootPEM = pemEncodeCertificate X rootDER, ca_intermediatePEM = pemEncodeCertificate X intDER\<rparr>,
          rootKeyOut, intKeyOut)))))"

definition rootCertFile :: string where "rootCertFile = ''root-ca.pem''"
definition rootKeyFile :: string where "rootKeyFile = ''root-ca.key''"
definition intermediateCertFile :: string where "intermediateCertFile = ''intermediate-ca.pem''"
definition intermediateKeyFile :: string where "intermediateKeyFile = ''intermediate-ca.key''"
definition mtlsClientBundleFile :: string where "mtlsClientBundleFile = ''mtls-client-ca-bundle.pem''"

fun writeAll :: "(string \<times> string \<times> string) list \<Rightarrow> files \<Rightarrow> (string + unit) \<times> files" where
  "writeAll [] f = (Inr (), f)"
| "writeAll ((path, content, msg) # ws) f =
     (case writeFileExclusive path content f of
        (Inl e, f) \<Rightarrow> (Inl (werr msg e), f)
      | (Inr _, f) \<Rightarrow> writeAll ws f)"

definition generateAndPersist :: "crypto \<Rightarrow> time \<Rightarrow> files \<Rightarrow> (string + Authority) \<times> files" where
  "generateAndPersist X t f =
     (let n = fl_draw f; f = f\<lparr>fl_draw := n + 4\<rparr>
      in case makeAuthority X t n of
           Inl e \<Rightarrow> (Inl e, f)
         | Inr (a, rootKeyOut, intKeyOut) \<Rightarrow>
             (case writeAll [(rootCertFile, ca_rootPEM a, ''pki: write root cert''), (rootKeyFile, rootKeyOut, ''pki: write root key''),
                             (intermediateCertFile, ca_intermediatePEM a, ''pki: write intermediate cert''),
                             (intermediateKeyFile, intKeyOut, ''pki: write intermediate key'')] f of
                (Inl e, f) \<Rightarrow> (Inl e, f)
              | (Inr _, f) \<Rightarrow> (Inr a, f)))"

definition loadMaterial :: "crypto \<Rightarrow> time \<Rightarrow> string \<Rightarrow> string \<Rightarrow> string \<Rightarrow> string \<Rightarrow> string + Authority" where
  "loadMaterial X t rootPEM rootKeyPEM intPEM intKeyPEM =
     sbind (wrapErr ''pki: parse root material'' (parseECCertAndKey X rootPEM rootKeyPEM)) (\<lambda>(rootCert, rootKey).
     sbind (wrapErr ''pki: parse intermediate material'' (parseECCertAndKey X intPEM intKeyPEM)) (\<lambda>(intCert, intKey).
     sbind (verifyHierarchy X t rootCert intCert) (\<lambda>_.
     Inr \<lparr>ca_rootCert = rootCert, ca_rootKey = rootKey, ca_intermediateCert = intCert, ca_intermediateKey = intKey,
          ca_rootPEM = pemEncodeCertificate X (ce_Raw rootCert), ca_intermediatePEM = pemEncodeCertificate X (ce_Raw intCert)\<rparr>)))"

definition loadFromDisk :: "crypto \<Rightarrow> time \<Rightarrow> files \<Rightarrow> (string + Authority) \<times> files" where
  "loadFromDisk X t f =
     (case os_ReadFile rootCertFile f of
        (Inl e, f) \<Rightarrow> (Inl (werr ''pki: read root cert'' e), f)
      | (Inr rootPEM, f) \<Rightarrow>
          (case os_ReadFile rootKeyFile f of
             (Inl e, f) \<Rightarrow> (Inl (werr ''pki: read root key'' e), f)
           | (Inr rootKeyPEM, f) \<Rightarrow>
               (case os_ReadFile intermediateCertFile f of
                  (Inl e, f) \<Rightarrow> (Inl (werr ''pki: read intermediate cert'' e), f)
                | (Inr intPEM, f) \<Rightarrow>
                    (case os_ReadFile intermediateKeyFile f of
                       (Inl e, f) \<Rightarrow> (Inl (werr ''pki: read intermediate key'' e), f)
                     | (Inr intKeyPEM, f) \<Rightarrow> (loadMaterial X t rootPEM rootKeyPEM intPEM intKeyPEM, f)))))"

text \<open>Names are relative to the storage directory, which exists.\<close>

definition LoadOrInitialize :: "crypto \<Rightarrow> time \<Rightarrow> files \<Rightarrow> (string + Authority) \<times> files" where
  "LoadOrInitialize X t f =
     (let allPresent = fileReadable rootCertFile f \<and> fileReadable rootKeyFile f
            \<and> fileReadable intermediateCertFile f \<and> fileReadable intermediateKeyFile f
      in case (if allPresent then loadFromDisk X t f else generateAndPersist X t f) of
           (Inl e, f) \<Rightarrow> (Inl e, f)
         | (Inr a, f) \<Rightarrow>
             (case writeFileExclusive mtlsClientBundleFile (concatPEM [ca_intermediatePEM a, ca_rootPEM a]) f of
                (Inl e, f) \<Rightarrow> (Inl (werr (''pki: write '' @ mtlsClientBundleFile) e), f)
              | (Inr _, f) \<Rightarrow> (Inr a, f)))"

section \<open>Client certificates\<close>

record IssueClientCertificateResult =
  ic_ClientChainPEM :: string
  ic_RootCAPEM :: string

definition leafDNSNames :: "crypto \<Rightarrow> string \<Rightarrow> string list \<Rightarrow> string list" where
  "leafDNSNames X hostname names =
     (let dnsNames = pki_uniqueStrings names
      in if hostIsDNS X hostname then pki_uniqueStrings (hostname # dnsNames) else dnsNames)"

definition leafIPs :: "crypto \<Rightarrow> string \<Rightarrow> string list \<Rightarrow> string list" where
  "leafIPs X hostname ips = (case net_ParseIP X hostname of None \<Rightarrow> ips | Some ip \<Rightarrow> uniqueIPs (ip # ips))"

definition leafTemplate :: "lib \<Rightarrow> crypto \<Rightarrow> Authority \<Rightarrow> time \<Rightarrow> int \<Rightarrow> string \<Rightarrow> sig_alg \<Rightarrow> uuid \<Rightarrow> string \<Rightarrow> CertificateRequest \<Rightarrow> cert_template" where
  "leafTemplate L X a t serial skid alg assetID hostname csr =
     \<lparr>ct_SerialNumber = serial, ct_Subject = (cr_Subject csr)\<lparr>pn_CommonName := hostname\<rparr>,
      ct_NotBefore = t - 2 * time_Minute, ct_NotAfter = add_years X 1 t,
      ct_KeyUsage = [''DigitalSignature'', ''KeyEncipherment''], ct_ExtKeyUsage = [''ClientAuth''],
      ct_IsCA = False, ct_MaxPathLen = 0, ct_MaxPathLenZero = False, ct_SignatureAlgorithm = alg,
      ct_SubjectKeyId = skid, ct_AuthorityKeyId = ce_SubjectKeyId (ca_intermediateCert a),
      ct_DNSNames = leafDNSNames X hostname (cr_DNSNames csr), ct_IPAddresses = leafIPs X hostname (cr_IPAddresses csr),
      ct_URIs = (if assetID \<noteq> uuid_Nil then [''urn:uuid:'' @ u_str L assetID] else [])\<rparr>"

definition IssueClientCertificate ::
  "lib \<Rightarrow> crypto \<Rightarrow> Authority \<Rightarrow> time \<Rightarrow> nat \<Rightarrow> bool \<Rightarrow> uuid \<Rightarrow> string \<Rightarrow> CertificateRequest \<Rightarrow> string + IssueClientCertificateResult" where
  "IssueClientCertificate L X a t draw cancelled assetID hostname0 csr =
     (let hostname = TrimSpace hostname0
      in if hostname = '''' then Inl ''pki: hostname is required''
         else if \<not> cr_SignatureOK csr then Inl ''pki: invalid csr signature''
         else if cancelled then Inl ''context canceled''
         else
           sbind (validateCSRPublicKey (cr_PublicKey csr)) (\<lambda>_.
           sbind (signatureAlgorithmForPub (cr_PublicKey csr)) (\<lambda>sigAlg.
           sbind (randomSerial X draw) (\<lambda>serial.
           sbind (subjectKeyID X (cr_PublicKey csr)) (\<lambda>leafSKID.
           sbind (wrapErr ''pki: sign client certificate''
             (x509_CreateCertificate X (leafTemplate L X a t serial leafSKID sigAlg assetID hostname csr) (cr_PublicKey csr) (ca_intermediateKey a))) (\<lambda>leafDER.
           Inr \<lparr>ic_ClientChainPEM = concatPEM [pemEncodeCertificate X leafDER, ca_intermediatePEM a], ic_RootCAPEM = ca_rootPEM a\<rparr>))))))"

end
