(* ===== verification/Enroll.thy ===== *)
theory Enroll
  imports Pki Auth
begin

text \<open>
  Enrollment of agents: the token store (\<open>auth/enrollment_store.go\<close>), the coordinator
  (\<open>auth/enrollment_service.go\<close> with \<open>enrollment_csr.go\<close>, \<open>enrollment_response.go\<close>, \<open>tokenhash.go\<close>,
  \<open>errors.go\<close>) and the routes of \<open>api/enroll.go\<close>.

  The sentinel errors are constructors; \<open>errorsIs\<close> looks through wrapping as \<open>errors.Is\<close> does.
\<close>

section \<open>Errors\<close>

datatype enroll_error =
    ErrEnrollmentTokenInvalid
  | ErrEnrollmentCSRInvalid
  | ErrEnrollmentSignEmpty
  | EnrollErr string
  | EnrollSql string sql_error
  | EnrollWrap string enroll_error

fun errorsIs :: "enroll_error \<Rightarrow> enroll_error \<Rightarrow> bool" where
  "errorsIs (EnrollWrap m e) target = errorsIs e target"
| "errorsIs e target = (e = target)"

definition MapProcessEnrollHTTP :: "enroll_error option \<Rightarrow> nat \<times> string" where
  "MapProcessEnrollHTTP err =
     (case err of
        None \<Rightarrow> (200, '''')
      | Some e \<Rightarrow>
          if errorsIs e ErrEnrollmentTokenInvalid then (401, ''invalid or expired enrollment token'')
          else if errorsIs e ErrEnrollmentCSRInvalid then (400, ''invalid certificate signing request'')
          else if errorsIs e ErrEnrollmentSignEmpty then (502, ''certificate authority returned an empty response'')
          else (502, ''enrollment failed''))"

section \<open>The token store\<close>

definition EnrollmentPresentationHash :: "lib \<Rightarrow> string \<Rightarrow> string" where
  "EnrollmentPresentationHash L secret = sha256_hex L secret"

record ClaimedEnrollmentToken =
  cl_ID :: uuid
  cl_AssetID :: "uuid option"

definition claimable :: "string \<Rightarrow> time \<Rightarrow> enrollment_token \<Rightarrow> bool" where
  "claimable hash t e \<longleftrightarrow> et_token_hash e = hash \<and> \<not> et_is_used e \<and> et_expires_at e > t"

definition EnrollmentTokenUnusedValid :: "string \<Rightarrow> db \<Rightarrow> (enroll_error + bool) \<times> db" where
  "EnrollmentTokenUnusedValid hash d =
     (case query (\<lambda>d. list_ex (claimable hash (now d)) (enrollment_tokens d)) d of
        (Inl e, d) \<Rightarrow> (Inl (EnrollSql ''auth: check enrollment token'' e), d)
      | (Inr ok, d) \<Rightarrow> (Inr ok, d))"

text \<open>One statement marks the row and returns it.\<close>

definition ClaimByPresentationHash :: "string \<Rightarrow> db \<Rightarrow> (enroll_error + ClaimedEnrollmentToken) \<times> db" where
  "ClaimByPresentationHash hash d =
     (case sql (\<lambda>d. (case find (claimable hash (now d)) (enrollment_tokens d) of
                       None \<Rightarrow> (Inl ErrNoRows, d)
                     | Some e \<Rightarrow> (Inr \<lparr>cl_ID = et_id e, cl_AssetID = et_asset_id e\<rparr>,
                         d\<lparr>enrollment_tokens := update_where (claimable hash (now d))
                             (\<lambda>e. e\<lparr>et_is_used := True, et_used_at := Some (now d)\<rparr>) (enrollment_tokens d)\<rparr>))) d of
        (Inl ErrNoRows, d) \<Rightarrow> (Inl ErrEnrollmentTokenInvalid, d)
      | (Inl e, d) \<Rightarrow> (Inl (EnrollSql ''auth: claim enrollment token'' e), d)
      | (Inr c, d) \<Rightarrow> (Inr c, d))"

definition ReleaseClaim :: "uuid \<Rightarrow> db \<Rightarrow> (enroll_error + unit) \<times> db" where
  "ReleaseClaim i d =
     (case sql (\<lambda>d. let P = (\<lambda>e. et_id e = i \<and> et_is_used e)
                in (Inr (affected P (enrollment_tokens d)),
                    d\<lparr>enrollment_tokens := update_where P (\<lambda>e. e\<lparr>et_is_used := False, et_used_at := None\<rparr>) (enrollment_tokens d)\<rparr>)) d of
        (Inl e, d) \<Rightarrow> (Inl (EnrollSql ''auth: release enrollment token claim'' e), d)
      | (Inr n, d) \<Rightarrow>
          if n \<noteq> 1 then (Inl (EnrollErr (''auth: release enrollment token claim: expected 1 row updated, got '' @ nat_str n)), d)
          else (Inr (), d))"

section \<open>Certificate requests\<close>

fun csrBlock :: "crypto \<Rightarrow> nat \<Rightarrow> string \<Rightarrow> string + string" where
  "csrBlock X 0 pemData = Inl ''auth: no PEM block found in CSR''"
| "csrBlock X (Suc n) pemData =
     (case pem_Decode X pemData of
        None \<Rightarrow> Inl ''auth: no PEM block found in CSR''
      | Some (t, b, rest) \<Rightarrow>
          if t \<in> {''CERTIFICATE REQUEST'', ''NEW CERTIFICATE REQUEST''} then Inr b
          else if rest = [] then Inl (''auth: unsupported PEM type '' @ go_quote t @ '' for CSR'')
          else csrBlock X n rest)"

definition ParseCertificateRequestPEM :: "crypto \<Rightarrow> string \<Rightarrow> string + CertificateRequest" where
  "ParseCertificateRequestPEM X pemData =
     sbind (csrBlock X (Suc (length pemData)) pemData) (\<lambda>b. orErr ''auth: parse CSR'' (x509_ParseCertificateRequest X b))"

definition HostnameFromCSR :: "CertificateRequest \<Rightarrow> string" where
  "HostnameFromCSR cr = (case cr_DNSNames cr of n # _ \<Rightarrow> TrimSpace n | [] \<Rightarrow> TrimSpace (pn_CommonName (cr_Subject cr)))"

definition ValidateCSRPEM :: "crypto \<Rightarrow> string \<Rightarrow> enroll_error + unit" where
  "ValidateCSRPEM X csrPEM =
     (case ParseCertificateRequestPEM X csrPEM of
        Inl e \<Rightarrow> Inl (EnrollWrap e ErrEnrollmentCSRInvalid)
      | Inr cr \<Rightarrow> if cr_SignatureOK cr then Inr () else Inl (EnrollWrap ''signature'' ErrEnrollmentCSRInvalid))"

section \<open>The coordinator\<close>

record EnrollAPIResponse =
  er_ClientCert :: string
  er_RootCA :: string

definition BuildEnrollAPIResponse :: "IssueClientCertificateResult option \<Rightarrow> enroll_error + EnrollAPIResponse" where
  "BuildEnrollAPIResponse res =
     (case res of
        None \<Rightarrow> Inl ErrEnrollmentSignEmpty
      | Some r \<Rightarrow>
          if TrimSpace (ic_ClientChainPEM r) = '''' \<or> TrimSpace (ic_RootCAPEM r) = ''''
          then Inl (EnrollErr ''auth: enrollment signing result missing PEM material'')
          else Inr \<lparr>er_ClientCert = ic_ClientChainPEM r, er_RootCA = ic_RootCAPEM r\<rparr>)"

record EnrollOutcome =
  eo_Response :: EnrollAPIResponse
  eo_EnrollmentTokenID :: uuid

text \<open>The part before the claim: the trimmed inputs, the parsed request and its host name.\<close>

definition checkEnroll :: "crypto \<Rightarrow> string \<Rightarrow> string \<Rightarrow> enroll_error + (string \<times> CertificateRequest \<times> string)" where
  "checkEnroll X presentationSecret csrPEM =
     (let secret = TrimSpace presentationSecret; csr = TrimSpace csrPEM
      in if secret = '''' \<or> csr = '''' then Inl (EnrollErr ''auth: presentation token and CSR are required'')
         else sbind (ValidateCSRPEM X csr) (\<lambda>_.
           (case ParseCertificateRequestPEM X csr of
              Inl e \<Rightarrow> Inl (EnrollWrap e ErrEnrollmentCSRInvalid)
            | Inr cr \<Rightarrow>
                (let hostname = HostnameFromCSR cr
                 in if hostname = '''' then Inl (EnrollWrap ''missing hostname (CN or DNS SAN)'' ErrEnrollmentCSRInvalid)
                    else Inr (secret, cr, hostname)))))"

text \<open>The part after the claim: sign, build the response.\<close>

definition signEnroll :: "lib \<Rightarrow> crypto \<Rightarrow> Authority \<Rightarrow> time \<Rightarrow> nat \<Rightarrow> bool \<Rightarrow> ClaimedEnrollmentToken \<Rightarrow> string \<Rightarrow> CertificateRequest
    \<Rightarrow> enroll_error + EnrollAPIResponse" where
  "signEnroll L X a t draw cancelled claimed hostname cr =
     (let assetID = (case cl_AssetID claimed of None \<Rightarrow> uuid_Nil | Some i \<Rightarrow> i)
      in case IssueClientCertificate L X a t draw cancelled assetID hostname cr of
           Inl e \<Rightarrow> Inl (EnrollWrap ''auth: embedded ca sign failed'' (EnrollErr e))
         | Inr leaf \<Rightarrow>
             (case BuildEnrollAPIResponse (Some leaf) of
                Inl e \<Rightarrow> Inl (EnrollWrap ''auth: build enroll response'' e)
              | Inr resp \<Rightarrow> Inr resp))"

text \<open>\<open>ReleaseClaim\<close> runs under the context of the request; once that is cancelled no statement is sent.\<close>

definition releaseUnder :: "bool \<Rightarrow> uuid \<Rightarrow> db \<Rightarrow> (enroll_error + unit) \<times> db" where
  "releaseUnder cancelled i d =
     (if cancelled then (Inl (EnrollSql ''auth: release enrollment token claim'' ErrConn), d) else ReleaseClaim i d)"

text \<open>A failure after the claim releases it; a failed release only adds to the message.\<close>

definition finishEnroll :: "bool \<Rightarrow> ClaimedEnrollmentToken \<Rightarrow> enroll_error + EnrollAPIResponse \<Rightarrow> db \<Rightarrow> (enroll_error + EnrollOutcome) \<times> db" where
  "finishEnroll cancelled claimed res d =
     (case res of
        Inl e \<Rightarrow> (case releaseUnder cancelled (cl_ID claimed) d of (Inl relErr, d) \<Rightarrow> (Inl (EnrollWrap ''release claim'' e), d) | (Inr _, d) \<Rightarrow> (Inl e, d))
      | Inr resp \<Rightarrow> (Inr \<lparr>eo_Response = resp, eo_EnrollmentTokenID = cl_ID claimed\<rparr>, d))"

text \<open>\<open>cancelled\<close> says whether the client has gone away by the time the certificate is signed.\<close>

definition ProcessEnroll :: "lib \<Rightarrow> crypto \<Rightarrow> Authority \<Rightarrow> nat \<Rightarrow> bool \<Rightarrow> string \<Rightarrow> string \<Rightarrow> db \<Rightarrow> (enroll_error + EnrollOutcome) \<times> db" where
  "ProcessEnroll L X a draw cancelled presentationSecret csrPEM d =
     (case checkEnroll X presentationSecret csrPEM of
        Inl e \<Rightarrow> (Inl e, d)
      | Inr (secret, cr, hostname) \<Rightarrow>
          (case ClaimByPresentationHash (EnrollmentPresentationHash L secret) d of
             (Inl e, d) \<Rightarrow> (Inl e, d)
           | (Inr claimed, d) \<Rightarrow> finishEnroll cancelled claimed (signEnroll L X a (now d) draw cancelled claimed hostname cr) d))"

section \<open>Routes (api/enroll.go)\<close>

definition handlePublicEnroll :: "lib \<Rightarrow> crypto \<Rightarrow> Authority \<Rightarrow> nat \<Rightarrow> bool \<Rightarrow> request \<Rightarrow> db \<Rightarrow> response \<times> db" where
  "handlePublicEnroll L X a draw cancelled r d =
     (case struct_object (rq_Body r) of
        None \<Rightarrow> (RespError 400 (Err ''invalid JSON body''), d)
      | Some m \<Rightarrow>
          (case (get_string ''csr'' m, get_string ''token'' m) of
             (Some csr, Some token) \<Rightarrow>
               if TrimSpace token = '''' \<or> TrimSpace csr = '''' then (RespError 400 (Err ''csr and token are required''), d)
               else (case ProcessEnroll L X a draw cancelled token csr d of
                       (Inl e, d) \<Rightarrow> (case MapProcessEnrollHTTP (Some e) of (status, msg) \<Rightarrow> (RespError status (Err msg), d))
                     | (Inr outcome, d) \<Rightarrow>
                         (RespJson 201 (JObj [(''client_cert'', JStr (er_ClientCert (eo_Response outcome))),
                                              (''root_ca'', JStr (er_RootCA (eo_Response outcome)))]), d))
           | _ \<Rightarrow> (RespError 400 (Err ''invalid JSON body''), d)))"

definition androidQR :: "string \<Rightarrow> string \<Rightarrow> string \<Rightarrow> string \<Rightarrow> json" where
  "androidQR component sig serverURL token =
     JObj [(''android.app.extra.PROVISIONING_DEVICE_ADMIN_COMPONENT_NAME'', JStr component),
           (''android.app.extra.PROVISIONING_DEVICE_ADMIN_SIGNATURE_CHECKSUM'', JStr sig),
           (''android.app.extra.PROVISIONING_ADMIN_EXTRAS_BUNDLE'',
              JObj [(''com.arx.mdm.EXTRA_SERVER_URL'', JStr serverURL), (''com.arx.mdm.EXTRA_ENROLLMENT_TOKEN'', JStr token)])]"

definition handleAndroidEnrollmentQR :: "lib \<Rightarrow> DashboardAuth \<Rightarrow> request \<Rightarrow> db \<Rightarrow> response \<times> db" where
  "handleAndroidEnrollmentQR L A r d =
     (if rq_Method r \<noteq> ''POST'' then (RespError 405 (Err ''method not allowed''), d)
      else (case RequireMinRole L A (now d) r ''operator'' of
        Inl e \<Rightarrow> (e, d)
      | Inr _ \<Rightarrow>
          (case struct_object (rq_Body r) of
             None \<Rightarrow> (RespError 400 (Err ''invalid JSON body''), d)
           | Some m \<Rightarrow>
               (case (get_string ''enrollment_token'' m, get_string ''server_url'' m, get_string ''device_admin_component_name'' m,
                      get_string ''device_admin_signature_checksum'' m) of
                  (Some token0, Some url0, Some comp0, Some sig0) \<Rightarrow>
                    (let token = TrimSpace token0
                     in if token = '''' then (RespError 400 (Err ''enrollment_token is required''), d)
                        else (case EnrollmentTokenUnusedValid (EnrollmentPresentationHash L token) d of
                                (Inl e, d) \<Rightarrow> (RespError 500 (Err ''failed to validate enrollment token''), d)
                              | (Inr valid, d) \<Rightarrow>
                                  (let serverURL = (if TrimSpace url0 = '''' then TrimSpace (os_Getenv L ''ARX_MDM_PUBLIC_BASE_URL'') else TrimSpace url0);
                                       component = (if TrimSpace comp0 = '''' then ''com.arx.mdm/com.arx.mdm.ArxDeviceAdminReceiver'' else TrimSpace comp0);
                                       sig = TrimSpace sig0
                                   in if \<not> valid then (RespError 400 (Err ''enrollment token is unknown, expired, or already used''), d)
                                      else if serverURL = '''' then (RespError 400 (Err ''server_url is required (or set ARX_MDM_PUBLIC_BASE_URL)''), d)
                                      else if sig = '''' then
                                        (RespError 400 (Err ''device_admin_signature_checksum is required (SHA-256 of the DPC signing certificate per Android device owner provisioning)''), d)
                                      else (RespJson 200 (androidQR component sig serverURL token), d))))
                | _ \<Rightarrow> (RespError 400 (Err ''invalid JSON body''), d)))))"

end
