(* ===== verification/Enroll_Facts.thy ===== *)
theory Enroll_Facts
  imports Enroll
begin

text \<open>
  Enrollment: the contract of the token store as a locale, the interleaving of concurrent requests as a step
  relation under it, its instance on the PostgreSQL store, and what a request does to the tokens. The last part is
  about the authority: what it signs, and what a restart finds on disk.
\<close>

section \<open>Concurrent requests\<close>

text \<open>A request waits, holds a claimed token while the certificate is signed, and ends.\<close>

datatype enroll_pc = Waiting | Holding ClaimedEnrollmentToken | Enrolled uuid | Rejected

text \<open>Steps of any number of requests: request \<open>k\<close> presents the hash \<open>h k\<close>. Signing succeeds or fails; after a
  failure the claim is released, or not when the client has gone. Between the steps the clock moves.\<close>

inductive enroll_step ::
  "(string \<Rightarrow> 's \<Rightarrow> (enroll_error + ClaimedEnrollmentToken) \<times> 's) \<Rightarrow> (uuid \<Rightarrow> 's \<Rightarrow> (enroll_error + unit) \<times> 's) \<Rightarrow> (time \<Rightarrow> 's \<Rightarrow> 's)
    \<Rightarrow> (nat \<Rightarrow> string) \<Rightarrow> (nat \<Rightarrow> enroll_pc) \<times> 's \<Rightarrow> (nat \<Rightarrow> enroll_pc) \<times> 's \<Rightarrow> bool"
  for claim release tick h
where
  claim_ok: "pc k = Waiting \<Longrightarrow> claim (h k) s = (Inr c, s') \<Longrightarrow> enroll_step claim release tick h (pc, s) (pc(k := Holding c), s')"
| claim_err: "pc k = Waiting \<Longrightarrow> claim (h k) s = (Inl e, s') \<Longrightarrow> enroll_step claim release tick h (pc, s) (pc(k := Rejected), s')"
| sign_ok: "pc k = Holding c \<Longrightarrow> enroll_step claim release tick h (pc, s) (pc(k := Enrolled (cl_ID c)), s)"
| sign_err: "pc k = Holding c \<Longrightarrow> release (cl_ID c) s = (r, s') \<Longrightarrow> enroll_step claim release tick h (pc, s) (pc(k := Rejected), s')"
| abandon: "pc k = Holding c \<Longrightarrow> enroll_step claim release tick h (pc, s) (pc(k := Rejected), s)"
| clock: "enroll_step claim release tick h (pc, s) (pc, tick t s)"

abbreviation "enroll_steps claim release tick h \<equiv> (enroll_step claim release tick h)\<^sup>*\<^sup>*"

text \<open>The token a request holds or was enrolled with.\<close>

fun token_of :: "enroll_pc \<Rightarrow> uuid option" where
  "token_of (Holding c) = Some (cl_ID c)"
| "token_of (Enrolled i) = Some i"
| "token_of pc = None"

locale token_store =
  fixes claim :: "string \<Rightarrow> 's \<Rightarrow> (enroll_error + ClaimedEnrollmentToken) \<times> 's"
    and release :: "uuid \<Rightarrow> 's \<Rightarrow> (enroll_error + unit) \<times> 's"
    and tick :: "time \<Rightarrow> 's \<Rightarrow> 's"
    and wf :: "'s \<Rightarrow> bool"
    and used :: "'s \<Rightarrow> uuid \<Rightarrow> bool"
  assumes claim_wf: "wf s \<Longrightarrow> claim x s = (r, s') \<Longrightarrow> wf s'"
    and claim_takes: "wf s \<Longrightarrow> claim x s = (Inr c, s') \<Longrightarrow> \<not> used s (cl_ID c) \<and> used s' = (used s)(cl_ID c := True)"
    and claim_fails: "wf s \<Longrightarrow> claim x s = (Inl e, s') \<Longrightarrow> used s' = used s"
    and release_wf: "wf s \<Longrightarrow> release i s = (q, s') \<Longrightarrow> wf s'"
    and release_frees: "wf s \<Longrightarrow> release i s = (q, s') \<Longrightarrow> used s' = (used s)(i := False) \<or> used s' = used s"
    and tick_keeps: "wf s \<Longrightarrow> wf (tick t s) \<and> used (tick t s) = used s"
begin

text \<open>The invariant: every token held or enrolled with is marked used, and by one request only.\<close>

definition owned :: "(nat \<Rightarrow> enroll_pc) \<times> 's \<Rightarrow> bool" where
  "owned st \<longleftrightarrow> wf (snd st) \<and> (\<forall>k i. token_of (fst st k) = Some i \<longrightarrow> used (snd st) i)
     \<and> (\<forall>j k i. token_of (fst st j) = Some i \<longrightarrow> token_of (fst st k) = Some i \<longrightarrow> j = k)"

lemma owned_step: "enroll_step claim release tick h st st' \<Longrightarrow> owned st \<Longrightarrow> owned st'"
proof (induction rule: enroll_step.induct)
  case (claim_ok pc k s c s')
  then have w: "wf s" by (simp add: owned_def)
  from claim_takes [OF w claim_ok(2)] claim_wf [OF w claim_ok(2)] claim_ok(3) show ?case
    by (auto simp: owned_def)
next
  case (claim_err pc k s e s')
  then have w: "wf s" by (simp add: owned_def)
  from claim_fails [OF w claim_err(2)] claim_wf [OF w claim_err(2)] claim_err(3) show ?case
    by (auto simp: owned_def)
next
  case (sign_ok pc k c s)
  then have "token_of ((pc(k := Enrolled (cl_ID c))) j) = token_of (pc j)" for j by simp
  then show ?case using sign_ok.prems by (simp add: owned_def)
next
  case (sign_err pc k c s r s')
  then have w: "wf s" by (simp add: owned_def)
  have other: "i \<noteq> cl_ID c" if "token_of (pc j) = Some i" "j \<noteq> k" for i j
    using sign_err(1,3) that unfolding owned_def by (metis fst_conv token_of.simps(1))
  from release_frees [OF w sign_err(2)] release_wf [OF w sign_err(2)] sign_err(3) other show ?case
    by (auto simp: owned_def)
next
  case (abandon pc k c s)
  then show ?case by (auto simp: owned_def)
next
  case (clock pc s t)
  then show ?case using tick_keeps [of s t] by (simp add: owned_def)
qed

lemma owned_run: "enroll_steps claim release tick h st st' \<Longrightarrow> owned st \<Longrightarrow> owned st'"
  by (induction rule: rtranclp_induct) (auto intro: owned_step)

lemma enrolled_once:
  assumes "enroll_steps claim release tick h (\<lambda>_. Waiting, s) (pc, s')" and "wf s" and "pc j = Enrolled i" and "pc k = Enrolled i"
  shows "j = k"
proof -
  have "owned (\<lambda>_. Waiting, s)" using assms(2) by (simp add: owned_def)
  from owned_run [OF assms(1) this] have o: "\<And>j k i. token_of (pc j) = Some i \<Longrightarrow> token_of (pc k) = Some i \<Longrightarrow> j = k"
    unfolding owned_def by auto
  show ?thesis by (rule o [of j i k]) (simp_all add: assms)
qed

end

section \<open>The PostgreSQL store provides the contract\<close>

definition wf_tokens :: "db \<Rightarrow> bool" where
  "wf_tokens d \<longleftrightarrow> distinct (map et_id (enrollment_tokens d)) \<and> distinct (map et_token_hash (enrollment_tokens d))"

definition tokenUsed :: "db \<Rightarrow> uuid \<Rightarrow> bool" where
  "tokenUsed d i \<longleftrightarrow> (\<exists>e \<in> set (enrollment_tokens d). et_id e = i \<and> et_is_used e)"

definition setClock :: "time \<Rightarrow> db \<Rightarrow> db" where
  "setClock t d = d\<lparr>now := t\<rparr>"

definition markUsed :: "time \<Rightarrow> enrollment_token \<Rightarrow> enrollment_token" where
  "markUsed t e = e\<lparr>et_is_used := True, et_used_at := Some t\<rparr>"

lemma markUsed_simps [simp]:
  "et_id (markUsed t e) = et_id e" "et_token_hash (markUsed t e) = et_token_hash e" "et_is_used (markUsed t e)"
  by (simp_all add: markUsed_def)

text \<open>A claim marks exactly one row, one that was unused and unexpired.\<close>

lemma claim_row:
  assumes wf: "wf_tokens d" and c: "ClaimByPresentationHash x d = (Inr c, d')"
  shows "\<exists>e. e \<in> set (enrollment_tokens d) \<and> claimable x (now d) e \<and> c = \<lparr>cl_ID = et_id e, cl_AssetID = et_asset_id e\<rparr>
    \<and> d' = d\<lparr>stmt_no := Suc (stmt_no d), enrollment_tokens := update_where (\<lambda>r. et_id r = et_id e) (markUsed (now d)) (enrollment_tokens d)\<rparr>"
proof -
  from c obtain e where e: "find (claimable x (now d)) (enrollment_tokens d) = Some e" and c': "c = \<lparr>cl_ID = et_id e, cl_AssetID = et_asset_id e\<rparr>"
    and d': "d' = d\<lparr>stmt_no := Suc (stmt_no d), enrollment_tokens := update_where (claimable x (now d)) (\<lambda>e. e\<lparr>et_is_used := True, et_used_at := Some (now d)\<rparr>) (enrollment_tokens d)\<rparr>"
    by (auto simp: ClaimByPresentationHash_def sql_def Let_def split: if_splits option.splits sum.splits sql_error.splits)
  then have in_e: "e \<in> set (enrollment_tokens d)" "claimable x (now d) e" by (auto simp: find_Some_iff)
  have "claimable x (now d) r \<longleftrightarrow> et_id r = et_id e" if "r \<in> set (enrollment_tokens d)" for r
    using wf in_e that by (auto simp: wf_tokens_def claimable_def distinct_map dest: inj_onD)
  then have "update_where (claimable x (now d)) (markUsed (now d)) (enrollment_tokens d)
      = update_where (\<lambda>r. et_id r = et_id e) (markUsed (now d)) (enrollment_tokens d)"
    by (auto simp: update_where_def)
  moreover have "markUsed (now d) = (\<lambda>e. e\<lparr>et_is_used := True, et_used_at := Some (now d)\<rparr>)" by (auto simp: markUsed_def)
  ultimately show ?thesis using d' c' in_e by (intro exI [of _ e]) simp
qed

lemma claim_error:
  assumes "ClaimByPresentationHash x d = (Inl e, d')"
  shows "d' = d\<lparr>stmt_no := Suc (stmt_no d)\<rparr>"
  using assms by (auto simp: ClaimByPresentationHash_def sql_def Let_def split: if_splits option.splits sum.splits sql_error.splits)

lemma release_row:
  assumes "ReleaseClaim i d = (r, d')"
  shows "d' = d\<lparr>stmt_no := Suc (stmt_no d)\<rparr>
    \<or> d' = d\<lparr>stmt_no := Suc (stmt_no d), enrollment_tokens := update_where (\<lambda>e. et_id e = i \<and> et_is_used e) (\<lambda>e. e\<lparr>et_is_used := False, et_used_at := None\<rparr>) (enrollment_tokens d)\<rparr>"
  using assms by (auto simp: ReleaseClaim_def sql_def Let_def split: if_splits)

lemma wf_tokens_update:
  assumes "wf_tokens d" and "\<And>e. et_id (f e) = et_id e" and "\<And>e. et_token_hash (f e) = et_token_hash e"
    and "enrollment_tokens d' = update_where P f (enrollment_tokens d)"
  shows "wf_tokens d'"
  using assms by (simp add: wf_tokens_def map_update_where)

lemma tokenUsed_update:
  assumes "enrollment_tokens d' = update_where P f (enrollment_tokens d)" and "\<And>e. et_id (f e) = et_id e"
  shows "tokenUsed d' i \<longleftrightarrow> (\<exists>e \<in> set (enrollment_tokens d). et_id e = i \<and> et_is_used (if P e then f e else e))"
  unfolding tokenUsed_def assms(1) update_where_def set_map using assms(2) by (auto split: if_splits)

interpretation pgx: token_store ClaimByPresentationHash ReleaseClaim setClock wf_tokens tokenUsed
proof
  fix s s' x r assume wf: "wf_tokens s" and c: "ClaimByPresentationHash x s = (r, s')"
  show "wf_tokens s'"
  proof (cases r)
    case (Inl e)
    with claim_error c have "s' = s\<lparr>stmt_no := Suc (stmt_no s)\<rparr>" by blast
    with wf show ?thesis by (simp add: wf_tokens_def)
  next
    case (Inr t)
    with c have "ClaimByPresentationHash x s = (Inr t, s')" by simp
    from claim_row [OF wf this] obtain e :: enrollment_token where "s' = s\<lparr>stmt_no := Suc (stmt_no s), enrollment_tokens := update_where (\<lambda>r. et_id r = et_id e) (markUsed (now s)) (enrollment_tokens s)\<rparr>"
      by blast
    then show ?thesis using wf by (intro wf_tokens_update [OF wf, of "markUsed (now s)"]) simp_all
  qed
next
  fix s s' x c assume wf: "wf_tokens s" and c: "ClaimByPresentationHash x s = (Inr c, s')"
  from claim_row [OF wf c] obtain e where e: "e \<in> set (enrollment_tokens s)" "claimable x (now s) e" "cl_ID c = et_id e"
    and s': "s' = s\<lparr>stmt_no := Suc (stmt_no s), enrollment_tokens := update_where (\<lambda>r. et_id r = et_id e) (markUsed (now s)) (enrollment_tokens s)\<rparr>" by auto
  have "\<not> tokenUsed s (et_id e)" using wf e by (auto simp: tokenUsed_def wf_tokens_def claimable_def distinct_map dest: inj_onD)
  moreover have "tokenUsed s' i \<longleftrightarrow> i = et_id e \<or> tokenUsed s i" for i
  proof -
    have "tokenUsed s' i \<longleftrightarrow> (\<exists>r \<in> set (enrollment_tokens s). et_id r = i \<and> et_is_used (if et_id r = et_id e then markUsed (now s) r else r))"
      by (rule tokenUsed_update) (simp_all add: s')
    also have "\<dots> \<longleftrightarrow> i = et_id e \<or> tokenUsed s i" using e(1) by (auto simp: tokenUsed_def) metis
    finally show ?thesis .
  qed
  ultimately show "\<not> tokenUsed s (cl_ID c) \<and> tokenUsed s' = (tokenUsed s)(cl_ID c := True)" by (auto simp: e(3) fun_eq_iff)
next
  fix s s' x e assume "ClaimByPresentationHash x s = (Inl e, s')"
  then show "tokenUsed s' = tokenUsed s" using claim_error by (fastforce simp: tokenUsed_def)
next
  fix s s' i q assume wf: "wf_tokens s" and "ReleaseClaim i s = (q, s')"
  from release_row [OF this(2)] have "enrollment_tokens s' = enrollment_tokens s
      \<or> enrollment_tokens s' = update_where (\<lambda>e. et_id e = i \<and> et_is_used e) (\<lambda>e. e\<lparr>et_is_used := False, et_used_at := None\<rparr>) (enrollment_tokens s)"
    by auto
  then show "wf_tokens s'"
  proof
    assume "enrollment_tokens s' = enrollment_tokens s"
    with wf show ?thesis by (simp add: wf_tokens_def)
  next
    assume "enrollment_tokens s' = update_where (\<lambda>e. et_id e = i \<and> et_is_used e) (\<lambda>e. e\<lparr>et_is_used := False, et_used_at := None\<rparr>) (enrollment_tokens s)"
    then show ?thesis by (rule wf_tokens_update [OF wf, rotated 2]) simp_all
  qed
next
  fix s s' i q assume "ReleaseClaim i s = (q, s')"
  from release_row [OF this] show "tokenUsed s' = (tokenUsed s)(i := False) \<or> tokenUsed s' = tokenUsed s"
  proof
    assume "s' = s\<lparr>stmt_no := Suc (stmt_no s)\<rparr>"
    then show ?thesis by (auto simp: tokenUsed_def)
  next
    assume s': "s' = s\<lparr>stmt_no := Suc (stmt_no s), enrollment_tokens := update_where (\<lambda>e. et_id e = i \<and> et_is_used e) (\<lambda>e. e\<lparr>et_is_used := False, et_used_at := None\<rparr>) (enrollment_tokens s)\<rparr>"
    have "tokenUsed s' j \<longleftrightarrow> (\<exists>r \<in> set (enrollment_tokens s). et_id r = j \<and> et_is_used (if et_id r = i \<and> et_is_used r then r\<lparr>et_is_used := False, et_used_at := None\<rparr> else r))" for j
      by (rule tokenUsed_update) (simp_all add: s')
    then have "tokenUsed s' = (tokenUsed s)(i := False)" by (auto simp: fun_eq_iff tokenUsed_def)
    then show ?thesis ..
  qed
next
  fix s t assume "wf_tokens s"
  then show "wf_tokens (setClock t s) \<and> tokenUsed (setClock t s) = tokenUsed s" by (simp add: wf_tokens_def tokenUsed_def setClock_def fun_eq_iff)
qed

text \<open>A run of \<open>ProcessEnroll\<close> that passes its checks is a sequence of steps of a request.\<close>

lemma process_enroll_steps:
  assumes "pc k = Waiting" and "checkEnroll X secret csr = Inr (sec, cr, host)" and h: "h k = EnrollmentPresentationHash L sec"
    and run: "ProcessEnroll L X a draw cancelled secret csr d = (r, d')"
  shows "enroll_steps ClaimByPresentationHash ReleaseClaim setClock h (pc, d)
    (pc(k := (case r of Inl _ \<Rightarrow> Rejected | Inr out \<Rightarrow> Enrolled (eo_EnrollmentTokenID out))), d')"
proof (cases "ClaimByPresentationHash (h k) d")
  case (Pair q d1)
  show ?thesis
  proof (cases q)
    case (Inl e)
    then have "r = Inl e" "d' = d1" using run assms(2) Pair h by (simp_all add: ProcessEnroll_def)
    with enroll_step.claim_err [of pc k ClaimByPresentationHash h d e d1] Pair Inl assms(1) show ?thesis by auto
  next
    case (Inr c)
    let ?s = "signEnroll L X a (now d1) draw cancelled c host cr" and ?S = "enroll_step ClaimByPresentationHash ReleaseClaim setClock h"
    have fin: "finishEnroll cancelled c ?s d1 = (r, d')" using run assms(2) Pair h Inr by (simp add: ProcessEnroll_def)
    have first: "?S (pc, d) (pc(k := Holding c), d1)" using Pair Inr assms(1) by (auto intro: enroll_step.claim_ok)
    have "?S (pc(k := Holding c), d1) (pc(k := (case r of Inl _ \<Rightarrow> Rejected | Inr out \<Rightarrow> Enrolled (eo_EnrollmentTokenID out))), d')"
    proof (cases ?s)
      case (Inl e)
      then obtain err where r: "r = Inl err" and rel: "snd (releaseUnder cancelled (cl_ID c) d1) = d'"
        using fin by (auto simp: finishEnroll_def split: prod.splits sum.splits)
      show ?thesis
      proof (cases cancelled)
        case True
        then have "d' = d1" using rel by (simp add: releaseUnder_def)
        with r enroll_step.abandon [of "pc(k := Holding c)" k c ClaimByPresentationHash ReleaseClaim setClock h d1] show ?thesis by simp
      next
        case False
        then obtain q2 where "ReleaseClaim (cl_ID c) d1 = (q2, d')" using rel by (cases "ReleaseClaim (cl_ID c) d1") (simp add: releaseUnder_def)
        with r enroll_step.sign_err [of "pc(k := Holding c)" k c ReleaseClaim d1 q2 d' ClaimByPresentationHash setClock h] show ?thesis by simp
      qed
    next
      case (Inr resp)
      then have "r = Inr \<lparr>eo_Response = resp, eo_EnrollmentTokenID = cl_ID c\<rparr>" "d' = d1" using fin by (auto simp: finishEnroll_def)
      with enroll_step.sign_ok [of "pc(k := Holding c)" k c ClaimByPresentationHash ReleaseClaim setClock h d1] show ?thesis by simp
    qed
    with first show ?thesis by (meson converse_rtranclp_into_rtranclp r_into_rtranclp)
  qed
qed

text \<open>C5: a token enrolls at most one agent. However the claims, signatures and releases of any number of concurrent
  enrollment requests interleave with each other and with the clock, no two requests end enrolled with the same token.
  A run of \<open>ProcessEnroll\<close> is a sequence of these steps.\<close>

theorem token_enrolls_once:
  assumes "enroll_steps ClaimByPresentationHash ReleaseClaim setClock h (\<lambda>_. Waiting, d) (pc, d')" and "wf_tokens d"
    and "pc j = Enrolled i" and "pc k = Enrolled i"
  shows "j = k"
  using assms by (rule pgx.enrolled_once)

text \<open>Releasing a claim undoes it.\<close>

lemma release_restores:
  assumes wf: "wf_tokens d" and fresh: "\<forall>e \<in> set (enrollment_tokens d). \<not> et_is_used e \<longrightarrow> et_used_at e = None"
    and e: "e \<in> set (enrollment_tokens d)" "\<not> et_is_used e"
  shows "update_where (\<lambda>x. et_id x = et_id e \<and> et_is_used x) (\<lambda>x. x\<lparr>et_is_used := False, et_used_at := None\<rparr>)
      (update_where (\<lambda>r. et_id r = et_id e) (markUsed t) (enrollment_tokens d)) = enrollment_tokens d"
proof -
  have "x\<lparr>et_is_used := False, et_used_at := None\<rparr> = x" if "x \<in> set (enrollment_tokens d)" "et_id x = et_id e" for x
  proof -
    have "x = e" using wf e(1) that by (auto simp: wf_tokens_def distinct_map dest: inj_onD)
    then have "\<not> et_is_used x" "et_used_at x = None" using fresh e by auto
    then show ?thesis by (cases x) simp
  qed
  then show ?thesis by (auto simp: update_where_def markUsed_def intro!: map_idI)
qed


text \<open>A cancelled request burns its token. When the client of a valid request goes away after the claim, the certificate is not
  signed and the claim is not released, because the release runs under the cancelled context: the token stays used though nobody was
  enrolled, and no later request can claim it.\<close>

theorem cancelled_enroll_burns_token:
  assumes wf: "wf_tokens d" and up: "\<not> fault_at d (stmt_no d)" and chk: "checkEnroll X secret csr = Inr (sec, cr, host)"
    and e: "e \<in> set (enrollment_tokens d)" "claimable (EnrollmentPresentationHash L sec) (now d) e"
  shows "\<exists>err d'. ProcessEnroll L X a draw True secret csr d = (Inl err, d') \<and> tokenUsed d' (et_id e)"
proof -
  let ?h = "EnrollmentPresentationHash L sec"
  obtain c d1 where cl: "ClaimByPresentationHash ?h d = (Inr c, d1)"
  proof -
    have "find (claimable ?h (now d)) (enrollment_tokens d) \<noteq> None" using e by (auto simp: find_None_iff)
    then show ?thesis using up that by (auto simp: ClaimByPresentationHash_def sql_def Let_def)
  qed
  from claim_row [OF wf cl] obtain e' where e': "e' \<in> set (enrollment_tokens d)" "claimable ?h (now d) e'" "cl_ID c = et_id e'" by auto
  have "et_token_hash e' = et_token_hash e" using e e' by (simp add: claimable_def)
  then have "e' = e" using wf e(1) e'(1) by (auto simp: wf_tokens_def distinct_map dest: inj_onD)
  then have used: "tokenUsed d1 (et_id e)" using pgx.claim_takes [OF wf cl] e'(3) by simp
  have "\<exists>err. signEnroll L X a (now d1) draw True c host cr = Inl err"
    by (auto simp: signEnroll_def IssueClientCertificate_def Let_def split: option.splits)
  then show ?thesis using used by (auto simp: ProcessEnroll_def chk cl finishEnroll_def releaseUnder_def)
qed

section \<open>The authority\<close>

text \<open>What a restart relies on, as documented of the encoders: PEM and PKCS \#8 decode what they encode, a parsed certificate keeps its
  bytes and its CA flag, and a certificate signed with the key of a self-signed CA verifies against it while both are valid.\<close>

definition crypto_verifies :: "crypto \<Rightarrow> bool" where
  "crypto_verifies X \<longleftrightarrow>
     (\<forall>rt it pub k rd idr rc ic t. x509_Encode X rt (publicOf X k) k = Some rd \<longrightarrow> x509_ParseCertificate X rd = Some rc \<longrightarrow>
          x509_Encode X it pub k = Some idr \<longrightarrow> x509_ParseCertificate X idr = Some ic \<longrightarrow> ct_IsCA rt \<longrightarrow>
          ct_NotBefore rt \<le> t \<longrightarrow> t \<le> ct_NotAfter rt \<longrightarrow> ct_NotBefore it \<le> t \<longrightarrow> t \<le> ct_NotAfter it \<longrightarrow> x509_Verify X t rc ic)"

definition crypto_sound :: "crypto \<Rightarrow> bool" where
  "crypto_sound X \<longleftrightarrow>
     (\<forall>t b. pem_Decode X (pem_Encode X t b) = Some (t, b, []))
     \<and> (\<forall>k der. x509_MarshalPKCS8PrivateKey X k = Some der \<longrightarrow> x509_ParsePKCS8PrivateKey X der = Some (Inr k))
     \<and> (\<forall>der c. x509_ParseCertificate X der = Some c \<longrightarrow> ce_Raw c = der)
     \<and> (\<forall>tpl pub k der c. x509_Encode X tpl pub k = Some der \<longrightarrow> x509_ParseCertificate X der = Some c \<longrightarrow> ce_IsCA c = ct_IsCA tpl)
     \<and> crypto_verifies X"

lemma sbind_Inr [simp]: "sbind r f = Inr y \<longleftrightarrow> (\<exists>x. r = Inr x \<and> f x = Inr y)"
  by (cases r) (auto simp: sbind_def)

lemma orErr_Inr [simp]: "orErr e r = Inr x \<longleftrightarrow> r = Some x"
  by (cases r) (auto simp: orErr_def)

lemma wrapErr_Inr [simp]: "wrapErr m r = Inr x \<longleftrightarrow> r = Inr x"
  by (cases r) (auto simp: wrapErr_def)

lemma x509_CreateCertificate_Inr:
  "x509_CreateCertificate X tpl pub k = Inr der \<longleftrightarrow> sig_kind (ct_SignatureAlgorithm tpl) = KindECDSA \<and> x509_Encode X tpl pub k = Some der"
  by (auto simp: x509_CreateCertificate_def publicOf_def split: option.splits)

lemma pemFind_encoded: "crypto_sound X \<Longrightarrow> t \<in> set types \<Longrightarrow> pemFind X types (Suc n) (pem_Encode X t b) = Some (t, b)"
  by (simp add: crypto_sound_def)

text \<open>The material the authority makes is material it loads.\<close>

lemma loadMaterial_made:
  assumes X: "crypto_sound X" and made: "makeAuthority X t n = Inr (a, rk, ik)"
    and valid: "t - 2 * time_Minute \<le> t'" "t' \<le> add_years X 10 t" "t' \<le> add_years X 20 t"
  shows "loadMaterial X t' (ca_rootPEM a) rk (ca_intermediatePEM a) ik = Inr a"
proof -
  from made obtain rootKey rootDER rootCert intKey intDER intCert where
    m: "makeRoot X t n = Inr (rootKey, rootDER, rootCert)" "makeIntermediate X t (n + 2) rootKey rootCert = Inr (intKey, intDER, intCert)"
      "marshalECPrivateKeyPEM X rootKey = Inr rk" "marshalECPrivateKeyPEM X intKey = Inr ik"
    and a: "a = \<lparr>ca_rootCert = rootCert, ca_rootKey = rootKey, ca_intermediateCert = intCert, ca_intermediateKey = intKey,
           ca_rootPEM = pemEncodeCertificate X rootDER, ca_intermediatePEM = pemEncodeCertificate X intDER\<rparr>"
    by (auto simp: makeAuthority_def)
  from m(1) obtain rt where r: "x509_Encode X rt (publicOf X rootKey) rootKey = Some rootDER" "x509_ParseCertificate X rootDER = Some rootCert"
    and rt: "ct_IsCA rt" "ct_NotBefore rt = t - 2 * time_Minute" "ct_NotAfter rt = add_years X 20 t"
    by (auto simp: makeRoot_def x509_CreateCertificate_Inr rootTemplate_def)
  from m(2) obtain it where i: "x509_Encode X it (publicOf X intKey) rootKey = Some intDER" "x509_ParseCertificate X intDER = Some intCert"
    and it: "ct_IsCA it" "ct_NotBefore it = t - 2 * time_Minute" "ct_NotAfter it = add_years X 10 t"
    by (auto simp: makeIntermediate_def x509_CreateCertificate_Inr intermediateTemplate_def)
  have raw: "ce_Raw rootCert = rootDER" "ce_Raw intCert = intDER" and ca: "ce_IsCA rootCert" "ce_IsCA intCert"
    using X r i rt it by (auto simp: crypto_sound_def)
  have "crypto_verifies X" using X by (simp add: crypto_sound_def)
  then have ver: "x509_Verify X t' rootCert intCert"
    unfolding crypto_verifies_def by (elim allE [of _ rt] allE [of _ it] allE impE) (use r i rt it valid in auto)
  have cert: "parseFirstCertificatePEM X (pemEncodeCertificate X rootDER) = Inr rootCert" "parseFirstCertificatePEM X (pemEncodeCertificate X intDER) = Inr intCert"
    using r i pemFind_encoded [OF X] by (simp_all add: parseFirstCertificatePEM_def pemEncodeCertificate_def del: pemFind.simps)
  have key: "parseECPrivateKeyPEM X kp = Inr k" if "marshalECPrivateKeyPEM X k = Inr kp" for k kp
    using that X pemFind_encoded [OF X, of "''PRIVATE KEY''" "[''EC PRIVATE KEY'', ''PRIVATE KEY'']"]
    by (auto simp: marshalECPrivateKeyPEM_def parseECPrivateKeyPEM_def crypto_sound_def split: option.splits)
  show ?thesis
    unfolding loadMaterial_def a using cert key [OF m(3)] key [OF m(4)] raw ca ver
    by (simp add: parseECCertAndKey_def verifyHierarchy_def sbind_def wrapErr_def)
qed

lemma file_ops_ok: "\<forall>n. \<not> fl_fault f n \<Longrightarrow> file_ops k f = (True, f\<lparr>fl_op := fl_op f + k\<rparr>)"
  by (induction k arbitrary: f) (auto simp: file_op_def)

lemma writeFileExclusive_ok:
  assumes "\<forall>n. \<not> fl_fault f n"
  shows "\<exists>f'. writeFileExclusive path content f = (Inr (), f') \<and> fl_fault f' = fl_fault f \<and> fl_draw f' = fl_draw f
    \<and> (\<forall>p. go_get (fl_data f') p = (if p = path then Some content else go_get (fl_data f) p))"
  using assms by (simp add: writeFileExclusive_def file_ops_ok file_op_def update_conv' delete_conv')

lemma writeAll_ok:
  assumes "\<forall>n. \<not> fl_fault f n"
  shows "\<exists>f'. writeAll ws f = (Inr (), f') \<and> fl_fault f' = fl_fault f
    \<and> (\<forall>p. go_get (fl_data f') p = (case map_of (rev (map (\<lambda>(p, c, m). (p, c)) ws)) p of None \<Rightarrow> go_get (fl_data f) p | Some c \<Rightarrow> Some c))"
  using assms
proof (induction ws f rule: writeAll.induct)
  case (2 path content msg ws f)
  from writeFileExclusive_ok [OF 2(2), of path content] obtain f1 where f1: "writeFileExclusive path content f = (Inr (), f1)" "fl_fault f1 = fl_fault f"
    "\<forall>p. go_get (fl_data f1) p = (if p = path then Some content else go_get (fl_data f) p)" by blast
  have "\<forall>n. \<not> fl_fault f1 n" using 2(2) f1(2) by simp
  from 2(1) [OF f1(1) [symmetric] refl this] obtain f' where "writeAll ws f1 = (Inr (), f')" "fl_fault f' = fl_fault f1"
    "\<forall>p. go_get (fl_data f') p = (case map_of (rev (map (\<lambda>(p, c, m). (p, c)) ws)) p of None \<Rightarrow> go_get (fl_data f1) p | Some c \<Rightarrow> Some c)" by blast
  with f1 show ?case by (auto simp: map_add_def split: option.splits)
qed simp

lemmas ca_file_names = rootCertFile_def rootKeyFile_def intermediateCertFile_def intermediateKeyFile_def mtlsClientBundleFile_def

lemma os_ReadFile_ok:
  "\<forall>n. \<not> fl_fault f n \<Longrightarrow> go_get (fl_data f) p = Some b \<Longrightarrow> os_ReadFile p f = (Inr b, f\<lparr>fl_op := Suc (fl_op f)\<rparr>)"
  by (simp add: os_ReadFile_def file_op_def)

lemma loadFromDisk_ok:
  assumes "\<forall>n. \<not> fl_fault f n" and "go_get (fl_data f) rootCertFile = Some rc" "go_get (fl_data f) rootKeyFile = Some rk"
    "go_get (fl_data f) intermediateCertFile = Some ic" "go_get (fl_data f) intermediateKeyFile = Some ik"
  shows "loadFromDisk X t f = (loadMaterial X t rc rk ic ik, f\<lparr>fl_op := fl_op f + 4\<rparr>)"
  using assms by (simp add: loadFromDisk_def os_ReadFile_ok)


text \<open>Which requests get a certificate. When the encoders and the random source work, the authority issues a certificate for
  a signed request with a host name exactly when its key is an elliptic curve key on P-256, P-384 or P-521; a request with an RSA key
  passes the key check and is refused by the signature step, whatever its size.\<close>

lemma rsa_refused:
  assumes "cr_PublicKey csr = RsaKey bits b" and "bits \<ge> 2048" and "cr_SignatureOK csr" and "TrimSpace hostname \<noteq> []"
    and "randomSerial X draw = Inr serial" and "subjectKeyID X (cr_PublicKey csr) = Inr skid"
  shows "validateCSRPublicKey (cr_PublicKey csr) = Inr ()
    \<and> IssueClientCertificate L X a t draw False assetID hostname csr
      = Inl (''pki: sign client certificate: x509: requested SignatureAlgorithm does not match private key type'')"
  using assms by (simp add: IssueClientCertificate_def Let_def sbind_def wrapErr_def werr_def x509_CreateCertificate_def leafTemplate_def publicOf_def)

theorem certificate_issued_iff:
  assumes "cr_SignatureOK csr" and "TrimSpace hostname \<noteq> []" and "randomSerial X draw = Inr serial"
    and "subjectKeyID X (cr_PublicKey csr) = Inr skid" and "\<And>tpl pub k. \<exists>der. x509_Encode X tpl pub k = Some der"
  shows "((\<exists>res. IssueClientCertificate L X a t draw False assetID hostname csr = Inr res)
         \<longleftrightarrow> (\<exists>c b. cr_PublicKey csr = EcdsaKey c b \<and> c \<in> {P256, P384, P521}))
    \<and> (\<forall>bits b. cr_PublicKey csr = RsaKey bits b \<and> bits \<ge> 2048 \<longrightarrow> validateCSRPublicKey (cr_PublicKey csr) = Inr ())"
  using assms by (cases "cr_PublicKey csr")
    (auto simp: IssueClientCertificate_def Let_def x509_CreateCertificate_Inr leafTemplate_def split: if_splits)

section \<open>Examples\<close>

text \<open>An instance of \<open>crypto\<close>: PEM with a length prefix, keys as decimal text, certificates as a CA flag.\<close>

definition examplePem :: "string \<Rightarrow> string \<Rightarrow> string" where
  "examplePem t b = replicate (length t) (CHR ''x'') @ CHR ''y'' # t @ b"

definition exampleUnpem :: "string \<Rightarrow> (string \<times> string \<times> string) option" where
  "exampleUnpem s = (let n = length (takeWhile (\<lambda>c. c = CHR ''x'') s); r = drop (Suc n) s in if s = [] then None else Some (take n r, drop n r, []))"

definition exampleCert :: "string \<Rightarrow> certificate option" where
  "exampleCert der = (case der of [] \<Rightarrow> None | c # _ \<Rightarrow> Some \<lparr>ce_Raw = der, ce_IsCA = (c = CHR ''C''), ce_SubjectKeyId = ''skid''\<rparr>)"

definition exampleCrypto :: "CertificateRequest \<Rightarrow> crypto" where
  "exampleCrypto csr = \<lparr>pem_Decode = exampleUnpem, pem_Encode = examplePem, x509_ParseCertificateRequest = (\<lambda>_. Some csr),
     x509_ParseCertificate = exampleCert, x509_ParseECPrivateKey = parse_nat, x509_ParsePKCS8PrivateKey = (\<lambda>s. map_option Inr (parse_nat s)),
     x509_MarshalPKCS8PrivateKey = (\<lambda>k. Some (nat_str k)), x509_MarshalPKIXPublicKey = (\<lambda>_. Some ''pub''),
     x509_Encode = (\<lambda>tpl pub k. Some [if ct_IsCA tpl then CHR ''C'' else CHR ''L'']), x509_Verify = (\<lambda>t r i. True), sha256_20 = id,
     ecdsa_GenerateKey = Some, ecdsa_Public = nat_str, rand_Serial = (\<lambda>n. Some (int n + 1)), net_ParseIP = (\<lambda>_. None),
     add_years = (\<lambda>y t. t + y * 365 * 24 * time_Hour)\<rparr>"

definition exampleCSR :: "public_key \<Rightarrow> CertificateRequest" where
  "exampleCSR k = \<lparr>cr_Subject = \<lparr>pn_Organization = [], pn_CommonName = ''host''\<rparr>, cr_DNSNames = [], cr_IPAddresses = [], cr_PublicKey = k, cr_SignatureOK = True\<rparr>"

lemma examplePem_roundtrip: "exampleUnpem (examplePem t b) = Some (t, b, [])"
proof -
  have "takeWhile (\<lambda>c. c = CHR ''x'') (examplePem t b) = replicate (length t) (CHR ''x'')"
    unfolding examplePem_def by (subst takeWhile_append2) auto
  then show ?thesis by (simp add: exampleUnpem_def Let_def examplePem_def)
qed

lemma exampleCrypto_sound: "crypto_sound (exampleCrypto csr)"
  by (auto simp: crypto_sound_def crypto_verifies_def exampleCrypto_def examplePem_roundtrip exampleCert_def split: list.splits)

definition exampleFiles :: files where
  "exampleFiles = \<lparr>fl_data = [], fl_op = 0, fl_fault = (\<lambda>_. False), fl_draw = 0\<rparr>"

definition exampleCsr :: CertificateRequest where
  "exampleCsr = exampleCSR (EcdsaKey P256 ''k'')"


definition exampleAuthority :: Authority where
  "exampleAuthority = \<lparr>ca_rootCert = \<lparr>ce_Raw = ''C'', ce_IsCA = True, ce_SubjectKeyId = ''skid''\<rparr>, ca_rootKey = 0,
     ca_intermediateCert = \<lparr>ce_Raw = ''C'', ce_IsCA = True, ce_SubjectKeyId = ''skid''\<rparr>, ca_intermediateKey = 2, ca_rootPEM = ''R'', ca_intermediatePEM = ''I''\<rparr>"

theorem certificate_issued_iff_witness:
  "(\<exists>res. IssueClientCertificate exampleLib (exampleCrypto exampleCsr) exampleAuthority 0 0 False 7 ''host'' (exampleCSR (EcdsaKey P384 ''k'')) = Inr res)
   \<and> \<not> (\<exists>res. IssueClientCertificate exampleLib (exampleCrypto exampleCsr) exampleAuthority 0 0 False 7 ''host'' (exampleCSR (RsaKey 4096 ''k'')) = Inr res)"
proof -
  have t: "TrimSpace ''host'' \<noteq> []" by code_simp
  have s: "randomSerial (exampleCrypto exampleCsr) 0 = Inr 1" "subjectKeyID (exampleCrypto exampleCsr) k = Inr ''pub''" for k
    by (simp_all add: randomSerial_def subjectKeyID_def exampleCrypto_def)
  have e: "\<exists>der. x509_Encode (exampleCrypto exampleCsr) tpl pub k = Some der" for tpl pub k by (simp add: exampleCrypto_def)
  have c: "cr_SignatureOK (exampleCSR k)" "cr_PublicKey (exampleCSR k) = k" for k by (simp_all add: exampleCSR_def)
  show ?thesis
    using certificate_issued_iff [OF c(1) [of "EcdsaKey P384 ''k''"] t s e, of exampleLib exampleAuthority 0 7]
      certificate_issued_iff [OF c(1) [of "RsaKey 4096 ''k''"] t s e, of exampleLib exampleAuthority 0 7]
    by (simp add: c(2))
qed

definition exampleToken :: enrollment_token where
  "exampleToken = \<lparr>et_id = 5, et_token_hash = ''secret'', et_asset_id = Some 7, et_expires_at = time_Hour, et_is_used = False, et_used_at = None\<rparr>"

definition exampleTokens :: db where
  "exampleTokens = empty_db\<lparr>enrollment_tokens := [exampleToken]\<rparr>"

text \<open>Two requests present the same secret: the first is enrolled, the second rejected.\<close>

definition exampleRace :: "nat \<Rightarrow> enroll_pc" where
  "exampleRace = (\<lambda>_. Waiting)(0 := Enrolled 5, 1 := Rejected)"

lemma exampleRace_runs:
  "\<exists>d'. enroll_steps ClaimByPresentationHash ReleaseClaim setClock (\<lambda>_. ''secret'') (\<lambda>_. Waiting, exampleTokens) (exampleRace, d')"
proof -
  let ?S = "enroll_step ClaimByPresentationHash ReleaseClaim setClock (\<lambda>_. ''secret'')"
  obtain c d1 where c: "ClaimByPresentationHash ''secret'' exampleTokens = (Inr c, d1)" "cl_ID c = 5" "enrollment_tokens d1 = [markUsed 0 exampleToken]" "fault_at d1 = fault_at exampleTokens"
    by (simp add: ClaimByPresentationHash_def sql_def Let_def exampleTokens_def empty_db_def exampleToken_def claimable_def update_where_def markUsed_def
        time_Hour_def time_Minute_def time_Second_def)
  obtain d2 where d2: "ClaimByPresentationHash ''secret'' d1 = (Inl ErrEnrollmentTokenInvalid, d2)"
    using c(3,4) by (simp add: ClaimByPresentationHash_def sql_def Let_def exampleTokens_def empty_db_def claimable_def)
  let ?p = "\<lambda>_. Waiting"
  have "?S (?p, exampleTokens) (?p(0 := Holding c), d1)" by (rule enroll_step.claim_ok) (simp_all add: c(1))
  moreover have "?S (?p(0 := Holding c), d1) (?p(0 := Holding c, 1 := Rejected), d2)" by (rule enroll_step.claim_err) (simp_all add: d2)
  moreover have "?S (?p(0 := Holding c, 1 := Rejected), d2) (exampleRace, d2)"
    using enroll_step.sign_ok [of "?p(0 := Holding c, 1 := Rejected)" 0 c ClaimByPresentationHash ReleaseClaim setClock "\<lambda>_. ''secret''" d2]
    by (simp add: exampleRace_def c(2) fun_upd_twist)
  ultimately show ?thesis by (meson converse_rtranclp_into_rtranclp rtranclp.rtrancl_refl)
qed

theorem token_enrolls_once_witness:
  "\<exists>d'. enroll_steps ClaimByPresentationHash ReleaseClaim setClock (\<lambda>_. ''secret'') (\<lambda>_. Waiting, exampleTokens) (exampleRace, d')
     \<and> {k. exampleRace k = Enrolled 5} = {0}"
proof -
  obtain d' where run: "enroll_steps ClaimByPresentationHash ReleaseClaim setClock (\<lambda>_. ''secret'') (\<lambda>_. Waiting, exampleTokens) (exampleRace, d')"
    using exampleRace_runs by blast
  have wf: "wf_tokens exampleTokens" and zero: "exampleRace 0 = Enrolled 5" by (simp_all add: wf_tokens_def exampleTokens_def exampleRace_def)
  have "k = 0" if "exampleRace k = Enrolled 5" for k by (rule token_enrolls_once [OF run wf that zero])
  with run zero show ?thesis by auto
qed

definition exampleEnroll :: "(enroll_error + EnrollOutcome) \<times> db" where
  "exampleEnroll = ProcessEnroll exampleLib (exampleCrypto exampleCsr) exampleAuthority 0 False ''secret'' (examplePem ''CERTIFICATE REQUEST'' ''b'') exampleTokens"


theorem cancelled_enroll_burns_token_witness:
  "\<exists>err d'. ProcessEnroll exampleLib (exampleCrypto exampleCsr) exampleAuthority 0 True ''secret'' (examplePem ''CERTIFICATE REQUEST'' ''b'') exampleTokens = (Inl err, d')
     \<and> tokenUsed d' 5"
proof -
  have wf: "wf_tokens exampleTokens" and up: "\<not> fault_at exampleTokens (stmt_no exampleTokens)" by (simp_all add: wf_tokens_def exampleTokens_def empty_db_def)
  have chk: "checkEnroll (exampleCrypto exampleCsr) ''secret'' (examplePem ''CERTIFICATE REQUEST'' ''b'') = Inr (''secret'', exampleCsr, ''host'')" by code_simp
  have e: "exampleToken \<in> set (enrollment_tokens exampleTokens)" "claimable (EnrollmentPresentationHash exampleLib ''secret'') (now exampleTokens) exampleToken"
    by (simp_all add: exampleTokens_def empty_db_def exampleToken_def claimable_def EnrollmentPresentationHash_def exampleLib_def time_Hour_def time_Minute_def time_Second_def)
  show ?thesis using cancelled_enroll_burns_token [OF wf up chk e, of exampleAuthority 0] by (simp add: exampleToken_def)
qed

section \<open>The loops over PEM blocks end\<close>

text \<open>The loop of \<open>ParseCertificateRequestPEM\<close> as the code has it, without a bound on the rounds.\<close>

inductive csr_loop :: "crypto \<Rightarrow> string \<Rightarrow> string + string \<Rightarrow> bool" for X :: crypto where
  csr_none: "pem_Decode X s = None \<Longrightarrow> csr_loop X s (Inl ''auth: no PEM block found in CSR'')"
| csr_found: "pem_Decode X s = Some (t, b, rest) \<Longrightarrow> t \<in> {''CERTIFICATE REQUEST'', ''NEW CERTIFICATE REQUEST''} \<Longrightarrow> csr_loop X s (Inr b)"
| csr_last: "pem_Decode X s = Some (t, b, []) \<Longrightarrow> t \<notin> {''CERTIFICATE REQUEST'', ''NEW CERTIFICATE REQUEST''}
    \<Longrightarrow> csr_loop X s (Inl (''auth: unsupported PEM type '' @ go_quote t @ '' for CSR''))"
| csr_next: "pem_Decode X s = Some (t, b, rest) \<Longrightarrow> t \<notin> {''CERTIFICATE REQUEST'', ''NEW CERTIFICATE REQUEST''} \<Longrightarrow> rest \<noteq> []
    \<Longrightarrow> csr_loop X rest r \<Longrightarrow> csr_loop X s r"

inductive_simps csr_loop_iff: "csr_loop X s r"

text \<open>The loops of \<open>parseFirstCertificatePEM\<close> and \<open>parseECPrivateKeyPEM\<close>.\<close>

inductive pem_loop :: "crypto \<Rightarrow> string list \<Rightarrow> string \<Rightarrow> (string \<times> string) option \<Rightarrow> bool" for X :: crypto and types :: "string list" where
  pem_none: "pem_Decode X s = None \<Longrightarrow> pem_loop X types s None"
| pem_found: "pem_Decode X s = Some (t, b, rest) \<Longrightarrow> t \<in> set types \<Longrightarrow> pem_loop X types s (Some (t, b))"
| pem_next: "pem_Decode X s = Some (t, b, rest) \<Longrightarrow> t \<notin> set types \<Longrightarrow> pem_loop X types rest r \<Longrightarrow> pem_loop X types s r"

inductive_simps pem_loop_iff: "pem_loop X types s r"

definition decoder_consumes :: "crypto \<Rightarrow> bool" where
  "decoder_consumes X \<longleftrightarrow> (\<forall>s t b rest. pem_Decode X s = Some (t, b, rest) \<longrightarrow> length rest < length s)"

lemma csr_loop_ends:
  assumes "decoder_consumes X" and "length s < n"
  shows "csr_loop X s r \<longleftrightarrow> r = csrBlock X n s"
  using assms(2)
proof (induction n arbitrary: s)
  case (Suc n)
  have "length rest < n" if "pem_Decode X s = Some (t, b, rest)" for t b rest
    using that assms(1) Suc.prems by (fastforce simp: decoder_consumes_def)
  with Suc.IH show ?case by (subst csr_loop_iff) (auto split: option.split)
qed simp

lemma pem_loop_ends:
  assumes "decoder_consumes X" and "length s < n"
  shows "pem_loop X types s r \<longleftrightarrow> r = pemFind X types n s"
  using assms(2)
proof (induction n arbitrary: s)
  case (Suc n)
  have "length rest < n" if "pem_Decode X s = Some (t, b, rest)" for t b rest
    using that assms(1) Suc.prems by (fastforce simp: decoder_consumes_def)
  with Suc.IH show ?case by (subst pem_loop_iff) (auto split: option.split)
qed simp

text \<open>C40: the loops that search a text for a PEM block end on every input, with exactly one outcome, and the model's
  bound on the rounds, one more than the length of the text, is enough: it computes that outcome. Hypothesis:
  a block that the decoder returns takes at least one byte.\<close>

theorem pem_loops_terminate:
  assumes "decoder_consumes X"
  shows "(csr_loop X s r \<longleftrightarrow> r = csrBlock X (Suc (length s)) s) \<and> (pem_loop X types s q \<longleftrightarrow> q = pemFind X types (Suc (length s)) s)
    \<and> (\<exists>!r. csr_loop X s r) \<and> (\<exists>!q. pem_loop X types s q)"
  using csr_loop_ends [OF assms, of s "Suc (length s)"] pem_loop_ends [OF assms, of s "Suc (length s)"] by simp

theorem pem_loops_terminate_witness:
  "csr_loop (exampleCrypto exampleCsr) (examplePem ''CERTIFICATE'' ''b'') (Inl (''auth: unsupported PEM type '' @ go_quote ''CERTIFICATE'' @ '' for CSR''))"
proof -
  have c: "decoder_consumes (exampleCrypto exampleCsr)"
    by (auto simp: decoder_consumes_def exampleCrypto_def exampleUnpem_def Let_def split: if_splits)
  have "csrBlock (exampleCrypto exampleCsr) (Suc (length (examplePem ''CERTIFICATE'' ''b''))) (examplePem ''CERTIFICATE'' ''b'')
      = Inl (''auth: unsupported PEM type '' @ go_quote ''CERTIFICATE'' @ '' for CSR'')" by code_simp
  with pem_loops_terminate [OF c, of "examplePem ''CERTIFICATE'' ''b''"] show ?thesis by simp
qed

end
