(* ===== verification/IncidentsApi.thy ===== *)
theory IncidentsApi
  imports Outcomes Incidents
begin

text \<open>
  The service desk routes of \<open>internal/api/incidents.go\<close>: listing, creating, reading, patching and deleting
  incidents, resolutions, and commands run from an incident. The hub appears as the list of connected
  serials (\<open>None\<close> when it is not configured) and as a dispatcher. \<open>OnIncidentsMutated\<close> and
  \<open>OnINCIncidentCreated\<close> are notifications in the result. Text columns hold bytes, \<open>left(s, 500)\<close> cuts there.
\<close>

section \<open>Fields\<close>

definition normalizeIncidentState :: "string \<Rightarrow> string" where
  "normalizeIncidentState s = ToLower (TrimSpace s)"

definition validateIncidentState :: "string \<Rightarrow> bool" where
  "validateIncidentState s \<longleftrightarrow> s \<in> set incidentStates"

text \<open>The conversion \<open>int16(v)\<close> keeps the low 16 bits.\<close>

definition int16 :: "int \<Rightarrow> int" where
  "int16 v = sint (word_of_int v :: 16 word)"

definition impactUrgencyOrDefault :: "int option \<Rightarrow> int" where
  "impactUrgencyOrDefault v =
     (case v of
        None \<Rightarrow> 2
      | Some n \<Rightarrow>
          (let x = int16 n; x = (if x < 1 then 1 else x)
           in if x > 3 then 3 else x))"

definition pointerStr :: "string option \<Rightarrow> string" where
  "pointerStr p = (case p of None \<Rightarrow> '''' | Some s \<Rightarrow> s)"

definition hubCertConnected :: "string list option \<Rightarrow> string \<Rightarrow> bool" where
  "hubCertConnected h certSerial =
     (case h of
        None \<Rightarrow> False
      | Some serials \<Rightarrow>
          (let certSerial = TrimSpace certSerial
           in if certSerial = '''' then False else list_ex (\<lambda>s. TrimSpace s = certSerial) serials))"

definition buildCMDBWire :: "lib \<Rightarrow> string list option \<Rightarrow> IncidentCMDBSnapshot \<Rightarrow> json" where
  "buildCMDBWire L h snap =
     JObj ([(''device_id'', JStr (u_str L (sn_DeviceID snap))), (''human_id'', JStr (sn_HumanID snap))]
       @ opt_field ''hostname'' (map_option JStr (sn_Hostname snap))
       @ [(''operational_status'', JStr (sn_OperationalStatus snap)), (''cost_center'', JStr (sn_CostCenter snap)),
          (''location'', JStr (sn_Location snap))]
       @ opt_field ''last_seen'' (map_option (\<lambda>t. JStr (t_rfc3339 L t)) (sn_LastSeen snap))
       @ [(''c2_connected'', JBool (case sn_CertSerial snap of
             None \<Rightarrow> False | Some s \<Rightarrow> TrimSpace s \<noteq> '''' \<and> hubCertConnected h (TrimSpace s)))]
       @ opt_field ''cpu_usage_percent'' (map_option JNum (sn_CpuUsagePercent snap))
       @ opt_field ''ram_usage_percent'' (map_option JNum (sn_RAMPercent snap))
       @ opt_field ''disk_usage_percent'' (map_option JNum (sn_DiskPercent snap))
       @ opt_field ''latest_metrics_at'' (map_option (\<lambda>t. JStr (t_rfc3339 L t)) (sn_LatestMetricsAt snap))
       @ (if sn_RecentCommandTypes snap = [] then [] else [(''recent_c2_command_types'', JArr (map JStr (sn_RecentCommandTypes snap)))])
       @ [(''c2_capabilities'', JArr (map JStr [''ping'', ''reboot'', ''script'', ''restart_service'', ''push_config'']))])"

section \<open>Rows\<close>

record IncidentListRow =
  il_ID :: uuid
  il_IncidentNumber :: string
  il_ShortDescription :: string
  il_State :: string
  il_Priority :: int
  il_Impact :: int
  il_Urgency :: int
  il_SLADue :: time
  il_SourceAlertFingerprint :: "string option"
  il_LinkedArxID :: "string option"
  il_CMDBDeviceID :: "uuid option"
  il_CreatedAt :: time
  il_UpdatedAt :: time
  il_CallerUserID :: "uuid option"
  il_CallerUsername :: "string option"
  il_AssignedToUserID :: "uuid option"
  il_AssignedToUsername :: "string option"

text \<open>\<open>strings.TrimSpace(*p)\<close> of a column, nil when empty; the left joins on users and assets.\<close>

definition trimmedPtr :: "string option \<Rightarrow> string option" where
  "trimmedPtr p = (case p of None \<Rightarrow> None | Some s \<Rightarrow> if TrimSpace s \<noteq> '''' then Some (TrimSpace s) else None)"

definition joinUser :: "uuid option \<Rightarrow> db \<Rightarrow> string option" where
  "joinUser i d =
     (case i of
        None \<Rightarrow> None
      | Some u \<Rightarrow> (case find (\<lambda>x. us_id x = u) (users d) of
                     None \<Rightarrow> None | Some x \<Rightarrow> if us_username x \<noteq> '''' then Some (us_username x) else None))"

definition joinAsset :: "uuid option \<Rightarrow> db \<Rightarrow> string option" where
  "joinAsset i d = Option.bind i (\<lambda>c. map_option a_human_id (find (\<lambda>a. a_id a = c) (assets d)))"

definition scanIncident :: "db \<Rightarrow> incident \<Rightarrow> IncidentListRow" where
  "scanIncident d r =
     \<lparr>il_ID = in_id r, il_IncidentNumber = in_incident_number r, il_ShortDescription = in_short_description r, il_State = in_state r,
      il_Priority = in_priority r, il_Impact = in_impact r, il_Urgency = in_urgency r, il_SLADue = in_sla_due r,
      il_SourceAlertFingerprint = trimmedPtr (in_source_alert_fingerprint r), il_LinkedArxID = trimmedPtr (joinAsset (in_cmdb_ci r) d),
      il_CMDBDeviceID = in_cmdb_ci r, il_CreatedAt = in_created_at r, il_UpdatedAt = in_updated_at r,
      il_CallerUserID = in_caller_id r, il_CallerUsername = joinUser (in_caller_id r) d,
      il_AssignedToUserID = in_assigned_to r, il_AssignedToUsername = joinUser (in_assigned_to r) d\<rparr>"

definition incidentRowJson :: "lib \<Rightarrow> IncidentListRow \<Rightarrow> json" where
  "incidentRowJson L x =
     JObj ([(''id'', JStr (u_str L (il_ID x))), (''incident_number'', JStr (il_IncidentNumber x)),
            (''short_description'', JStr (il_ShortDescription x)), (''state'', JStr (il_State x)),
            (''priority'', JNum (of_int (il_Priority x))), (''impact'', JNum (of_int (il_Impact x))),
            (''urgency'', JNum (of_int (il_Urgency x))), (''sla_due'', JStr (t_json L (il_SLADue x)))]
       @ opt_field ''source_alert_fingerprint'' (map_option JStr (il_SourceAlertFingerprint x))
       @ opt_field ''linked_arx_id'' (map_option JStr (il_LinkedArxID x))
       @ opt_field ''cmdb_ci'' (map_option (\<lambda>u. JStr (u_str L u)) (il_CMDBDeviceID x))
       @ [(''created_at'', JStr (t_json L (il_CreatedAt x))), (''updated_at'', JStr (t_json L (il_UpdatedAt x)))]
       @ opt_field ''caller_id'' (map_option (\<lambda>u. JStr (u_str L u)) (il_CallerUserID x))
       @ opt_field ''caller_username'' (map_option JStr (il_CallerUsername x))
       @ opt_field ''assigned_to'' (map_option (\<lambda>u. JStr (u_str L u)) (il_AssignedToUserID x))
       @ opt_field ''assigned_to_username'' (map_option JStr (il_AssignedToUsername x)))"

section \<open>Listing and reading\<close>

definition incidents_handleList :: "lib \<Rightarrow> DashboardAuth \<Rightarrow> request \<Rightarrow> db \<Rightarrow> response \<times> db" where
  "incidents_handleList L A r = answer
     (abind (ifMethod r ''GET'') (\<lambda>_.
      abind (authorize L A r ''viewer'') (\<lambda>_.
      let q = TrimSpace (rq_Query r ''device_id'')
      in abind (if q = '''' then areturn None
                else abind (given (u_parse L q) 400 ''invalid device_id query parameter'') (\<lambda>i. areturn (Some i))) (\<lambda>dev.
         abind (statement (query (\<lambda>d. map (scanIncident d) (take 1000 (sort_key (\<lambda>x. - in_created_at x)
                  (filter (\<lambda>x. dev = None \<or> in_cmdb_ci x = dev) (incidents d))))))
                (failWith 500 ''failed to list incidents'')) (\<lambda>rows.
         areturn (RespJson 200 (JArr (map (incidentRowJson L) rows))))))))"

record IncidentDetailResponse =
  id_Incident :: IncidentListRow
  id_WorkNotes :: "json list"
  id_CMDBContext :: "json option"
  id_Resolutions :: "resolution list"

definition resolutionJson :: "lib \<Rightarrow> resolution \<Rightarrow> json" where
  "resolutionJson L x =
     JObj [(''id'', JStr (u_str L (rs_id x))), (''incident_id'', JStr (u_str L (rs_incident_id x))), (''summary'', JStr (rs_summary x)),
           (''markdown'', JStr (rs_markdown x)), (''resolved_at'', JStr (t_json L (rs_resolved_at x))),
           (''created_at'', JStr (t_json L (rs_created_at x)))]"

text \<open>A slice that was never appended to is nil, which is written as \<open>null\<close>.\<close>

definition detailJson :: "lib \<Rightarrow> IncidentDetailResponse \<Rightarrow> json" where
  "detailJson L x =
     JObj ([(''incident'', incidentRowJson L (id_Incident x)), (''work_notes'', JArr (id_WorkNotes x))]
       @ opt_field ''cmdb_context'' (id_CMDBContext x)
       @ [(''resolutions'', if id_Resolutions x = [] then JNull else JArr (map (resolutionJson L) (id_Resolutions x)))])"

definition incidentResolutions :: "uuid \<Rightarrow> db \<Rightarrow> resolution list" where
  "incidentResolutions i d = sort_key rs_created_at (sort_key rs_id (filter (\<lambda>x. rs_incident_id x = i) (resolutions d)))"

definition loadIncidentDetail :: "lib \<Rightarrow> string list option \<Rightarrow> uuid \<Rightarrow> db \<Rightarrow> (sql_error + IncidentDetailResponse) \<times> db" where
  "loadIncidentDetail L h i d =
     rbind (query_row (\<lambda>d. map_option (\<lambda>x. (scanIncident d x, in_work_notes x)) (find (\<lambda>x. in_id x = i) (incidents d))) d) (\<lambda>(row, notes) d.
     case (case il_CMDBDeviceID row of
             None \<Rightarrow> (None, d)
           | Some dev \<Rightarrow>
               if dev = uuid_Nil then (None, d)
               else (case LoadIncidentCMDBSnapshot dev d of
                       (Inl _, d) \<Rightarrow> (None, d)
                     | (Inr snap, d) \<Rightarrow> (Some (buildCMDBWire L h snap), d))) of (cmdb, d) \<Rightarrow>
     rbind (query (incidentResolutions i) d) (\<lambda>res d.
     (Inr \<lparr>id_Incident = row, id_WorkNotes = notes, id_CMDBContext = cmdb, id_Resolutions = res\<rparr>, d)))"

definition parseIncidentUUID :: "lib \<Rightarrow> request \<Rightarrow> uuid option" where
  "parseIncidentUUID L r = (let raw = TrimSpace (rq_PathID r) in if raw = '''' then None else u_parse L raw)"

definition incidents_handleGet :: "lib \<Rightarrow> DashboardAuth \<Rightarrow> string list option \<Rightarrow> request \<Rightarrow> db \<Rightarrow> response \<times> db" where
  "incidents_handleGet L A h r = answer
     (abind (ifMethod r ''GET'') (\<lambda>_.
      abind (authorize L A r ''viewer'') (\<lambda>_.
      abind (given (parseIncidentUUID L r) 400 ''invalid incident id'') (\<lambda>i.
      abind (statement (loadIncidentDetail L h i) (noRows 404 ''incident not found'' 500 ''failed to load incident'')) (\<lambda>detail.
      areturn (RespJson 200 (detailJson L detail)))))))"

section \<open>Creating\<close>

datatype incident_event = IncidentsMutated | INCIncidentCreated string string "uuid option"

record createIncidentRequest =
  ci_ShortDescription :: string
  ci_State :: string
  ci_Impact :: "int option"
  ci_Urgency :: "int option"
  ci_LinkedAssetHumanID :: string
  ci_AssignedToUserID :: string
  ci_InitialNote :: string
  ci_SLADueRFC3339 :: string

definition decodeCreateIncident :: "json_object \<Rightarrow> createIncidentRequest option" where
  "decodeCreateIncident m =
     (case (get_string ''short_description'' m, get_string ''state'' m, get_int_ptr ''impact'' m, get_int_ptr ''urgency'' m,
            get_string ''linked_asset_human_id'' m, get_string ''assigned_to_user_id'' m, get_string ''initial_work_note'' m,
            get_string ''sla_due'' m) of
        (Some sd, Some st, Some im, Some ur, Some la, Some au, Some nt, Some sl) \<Rightarrow>
          Some \<lparr>ci_ShortDescription = sd, ci_State = st, ci_Impact = im, ci_Urgency = ur, ci_LinkedAssetHumanID = la,
                ci_AssignedToUserID = au, ci_InitialNote = nt, ci_SLADueRFC3339 = sl\<rparr>
      | _ \<Rightarrow> None)"

text \<open>\<open>'INC' || LPAD(n, 7, '0')\<close>: \<open>LPAD\<close> cuts a longer numeral to its first seven digits.\<close>

definition lpad7 :: "string \<Rightarrow> string" where
  "lpad7 s = (if length s \<ge> 7 then take 7 s else replicate (7 - length s) (CHR ''0'') @ s)"

definition incidentNumberSQL :: "db \<Rightarrow> string sql_result" where
  "incidentNumberSQL d = (case nextval d of (Inl e, d) \<Rightarrow> (Inl e, d) | (Inr n, d) \<Rightarrow> (Inr (''INC'' @ lpad7 (int_str n)), d))"

definition manualNote :: "lib \<Rightarrow> time \<Rightarrow> string \<Rightarrow> uuid \<Rightarrow> json" where
  "manualNote L t txt user =
     JObj [(''ts'', JStr (t_rfc3339 L t)), (''author_type'', JStr ''operator''), (''kind'', JStr ''manual''), (''text'', JStr txt),
           (''user_id'', JStr (u_str L user))]"

definition assetByHumanID :: "string \<Rightarrow> (db, uuid) act" where
  "assetByHumanID hid = statement (query_row (\<lambda>d. map_option a_id (find (\<lambda>a. a_human_id a = hid) (assets d))))
     (noRows 400 ''linked_asset_human_id not found'' 500 ''failed to resolve asset'')"

text \<open>Parsing a user id and checking that the account exists; a failing query is answered like a missing user.\<close>

definition userByID :: "lib \<Rightarrow> string \<Rightarrow> (db, uuid) act" where
  "userByID L s =
     abind (given (u_parse L s) 400 ''invalid assigned_to_user_id'') (\<lambda>i.
     abind (statement (query (\<lambda>d. i \<in> us_id ` set (users d))) (failWith 400 ''assigned_to_user_id not found'')) (\<lambda>ex.
     abind (require ex 400 ''assigned_to_user_id not found'') (\<lambda>_. areturn i)))"

definition newIncident :: "lib \<Rightarrow> Principal \<Rightarrow> createIncidentRequest \<Rightarrow> string \<Rightarrow> string \<Rightarrow> uuid option \<Rightarrow> uuid option \<Rightarrow> time \<Rightarrow> time \<Rightarrow> incident" where
  "newIncident L p q st incNum cmdb assignee sla t =
     \<lparr>in_id = uuid_Nil, in_incident_number = incNum, in_caller_id = Some (p_UserID p), in_assigned_to = assignee, in_cmdb_ci = cmdb,
      in_state = st, in_impact = impactUrgencyOrDefault (ci_Impact q), in_urgency = impactUrgencyOrDefault (ci_Urgency q),
      in_short_description = take 500 (TrimSpace (ci_ShortDescription q)),
      in_work_notes = (let nt = TrimSpace (ci_InitialNote q) in if nt \<noteq> '''' then [manualNote L t nt (p_UserID p)] else []),
      in_sla_due = sla, in_source_alert_fingerprint = None, in_created_at = 0, in_updated_at = 0\<rparr>"

definition createIncidentTx :: "lib \<Rightarrow> Principal \<Rightarrow> createIncidentRequest \<Rightarrow> string \<Rightarrow> (db, uuid \<times> string \<times> uuid option) act" where
  "createIncidentTx L p q st =
     abind (statement incidentNumberSQL (failWith 500 ''failed to allocate incident number'')) (\<lambda>incNum.
     let hid = TrimSpace (ci_LinkedAssetHumanID q); au = TrimSpace (ci_AssignedToUserID q); raw = TrimSpace (ci_SLADueRFC3339 q)
     in abind (if hid = '''' then areturn None else abind (assetByHumanID hid) (\<lambda>i. areturn (Some i))) (\<lambda>cmdb.
        abind (if au = '''' then areturn None else abind (userByID L au) (\<lambda>i. areturn (Some i))) (\<lambda>assignee.
        abind getState (\<lambda>d.
        abind (if raw = '''' then areturn (now d + 8 * time_Hour) else given (t_parse L raw) 400 ''sla_due must be RFC3339'') (\<lambda>sla.
        abind (statement (sql (insertIncidentRow (newIncident L p q st incNum cmdb assignee sla (now d)))) (failWith 500 ''failed to create incident'')) (\<lambda>newID.
        areturn (newID, incNum, cmdb)))))))"

definition incidents_handleCreate :: "lib \<Rightarrow> DashboardAuth \<Rightarrow> request \<Rightarrow> db \<Rightarrow> (response \<times> incident_event list) \<times> db" where
  "incidents_handleCreate L A r = answerEvents
     (abind (ifMethod r ''POST'') (\<lambda>_.
      abind (authorize L A r ''operator'') (\<lambda>p.
      abind (given (decodeBody r decodeCreateIncident) 400 ''invalid JSON body'') (\<lambda>q.
      abind (require (TrimSpace (ci_ShortDescription q) \<noteq> '''') 400 ''short_description is required'') (\<lambda>_.
      let st = (if normalizeIncidentState (ci_State q) = '''' then ''new'' else normalizeIncidentState (ci_State q))
      in abind (require (validateIncidentState st) 400 ''invalid state'') (\<lambda>_.
         abind (transaction (createIncidentTx L p q st) (failWith 500 ''failed to create incident'') (failWith 500 ''failed to create incident'')) (\<lambda>(newID, incNum, cmdb).
         areturn (RespJson 201 (JObj [(''id'', JStr (u_str L newID)), (''incident_number'', JStr incNum)]),
                  [IncidentsMutated, INCIncidentCreated incNum (TrimSpace (ci_ShortDescription q)) cmdb]))))))))"

section \<open>Patching\<close>

record patchIncidentRequest =
  pi_ShortDescription :: "string option"
  pi_State :: "string option"
  pi_Impact :: "int option"
  pi_Urgency :: "int option"
  pi_LinkedAssetHumanID :: "string option"
  pi_AssignedToUserID :: "string option"
  pi_ClearAssignedTo :: "bool option"
  pi_AppendWorkNote :: "string option"
  pi_SLADueRFC3339 :: "string option"

definition decodePatchIncident :: "json_object \<Rightarrow> patchIncidentRequest option" where
  "decodePatchIncident m =
     (case (get_string_ptr ''short_description'' m, get_string_ptr ''state'' m, get_int_ptr ''impact'' m, get_int_ptr ''urgency'' m,
            get_string_ptr ''linked_asset_human_id'' m, get_string_ptr ''assigned_to_user_id'' m, get_bool_ptr ''clear_assigned_to'' m,
            get_string_ptr ''append_work_note'' m, get_string_ptr ''sla_due'' m) of
        (Some sd, Some st, Some im, Some ur, Some la, Some au, Some cl, Some nt, Some sl) \<Rightarrow>
          Some \<lparr>pi_ShortDescription = sd, pi_State = st, pi_Impact = im, pi_Urgency = ur, pi_LinkedAssetHumanID = la,
                pi_AssignedToUserID = au, pi_ClearAssignedTo = cl, pi_AppendWorkNote = nt, pi_SLADueRFC3339 = sl\<rparr>
      | _ \<Rightarrow> None)"

definition patchIsEmpty :: "patchIncidentRequest \<Rightarrow> bool" where
  "patchIsEmpty q \<longleftrightarrow> pi_ShortDescription q = None \<and> pi_State q = None \<and> pi_Impact q = None \<and> pi_Urgency q = None
     \<and> pi_LinkedAssetHumanID q = None \<and> pi_AssignedToUserID q = None \<and> pi_ClearAssignedTo q = None
     \<and> pi_AppendWorkNote q = None \<and> pi_SLADueRFC3339 q = None"

text \<open>\<open>setParts\<close>: the assignments of the \<open>UPDATE\<close>, in order.\<close>

definition simpleParts :: "patchIncidentRequest \<Rightarrow> (incident \<Rightarrow> incident) list" where
  "simpleParts q =
     (case pi_ShortDescription q of None \<Rightarrow> [] | Some s \<Rightarrow> [in_short_description_update (\<lambda>_. TrimSpace s)])
     @ (case pi_State q of None \<Rightarrow> [] | Some s \<Rightarrow> [in_state_update (\<lambda>_. normalizeIncidentState s)])
     @ (case pi_Impact q of None \<Rightarrow> [] | Some n \<Rightarrow> [in_impact_update (\<lambda>_. impactUrgencyOrDefault (Some n))])
     @ (case pi_Urgency q of None \<Rightarrow> [] | Some n \<Rightarrow> [in_urgency_update (\<lambda>_. impactUrgencyOrDefault (Some n))])"

definition slaParts :: "lib \<Rightarrow> patchIncidentRequest \<Rightarrow> (db, (incident \<Rightarrow> incident) list) act" where
  "slaParts L q =
     (case pi_SLADueRFC3339 q of
        None \<Rightarrow> areturn []
      | Some s \<Rightarrow> abind (given (t_parse L (TrimSpace s)) 400 ''sla_due must be RFC3339'') (\<lambda>t. areturn [in_sla_due_update (\<lambda>_. t)]))"

definition assetParts :: "patchIncidentRequest \<Rightarrow> (db, (incident \<Rightarrow> incident) list) act" where
  "assetParts q =
     (case pi_LinkedAssetHumanID q of
        None \<Rightarrow> areturn []
      | Some s \<Rightarrow>
          (let hv = TrimSpace s
           in if hv = '''' then areturn [in_cmdb_ci_update (\<lambda>_. None)]
              else abind (assetByHumanID hv) (\<lambda>i. areturn [in_cmdb_ci_update (\<lambda>_. Some i)])))"

definition assigneeParts :: "lib \<Rightarrow> patchIncidentRequest \<Rightarrow> (db, (incident \<Rightarrow> incident) list) act" where
  "assigneeParts L q =
     (if pi_ClearAssignedTo q = Some True then areturn [in_assigned_to_update (\<lambda>_. None)]
      else (case pi_AssignedToUserID q of
              None \<Rightarrow> areturn []
            | Some s \<Rightarrow>
                (let au = TrimSpace s
                 in if au = '''' then areturn [in_assigned_to_update (\<lambda>_. None)]
                    else abind (userByID L au) (\<lambda>i. areturn [in_assigned_to_update (\<lambda>_. Some i)]))))"

definition applyParts :: "(incident \<Rightarrow> incident) list \<Rightarrow> time \<Rightarrow> incident \<Rightarrow> incident" where
  "applyParts parts t r = (fold (\<lambda>f. f) parts r)\<lparr>in_updated_at := t\<rparr>"

definition appendManual :: "lib \<Rightarrow> uuid \<Rightarrow> uuid \<Rightarrow> string \<Rightarrow> (db, unit) act" where
  "appendManual L i user txt =
     abind (statement (sql (\<lambda>d. (Inr (affected (\<lambda>x. in_id x = i) (incidents d)), d\<lparr>incidents := update_where (\<lambda>x. in_id x = i)
              (\<lambda>x. x\<lparr>in_work_notes := in_work_notes x @ [manualNote L (now d) txt user], in_updated_at := now d\<rparr>) (incidents d)\<rparr>)))
            (failWith 500 ''failed to append work note'')) (\<lambda>n.
     require (n \<noteq> 0) 404 ''incident not found'')"

definition patchIncidentTx :: "lib \<Rightarrow> Principal \<Rightarrow> uuid \<Rightarrow> patchIncidentRequest \<Rightarrow> (db, unit) act" where
  "patchIncidentTx L p i q =
     (let note = TrimSpace (pointerStr (pi_AppendWorkNote q)); hadManualAppend = (note \<noteq> '''')
      in abind (if hadManualAppend then appendManual L i (p_UserID p) note else areturn ()) (\<lambda>_.
         abind (slaParts L q) (\<lambda>sla.
         abind (assetParts q) (\<lambda>ci.
         abind (assigneeParts L q) (\<lambda>asg.
         let setParts = simpleParts q @ sla @ ci @ asg
         in if setParts \<noteq> [] then
              abind (statement (sql (\<lambda>d. updateIncidentRow i (applyParts setParts (now d)) d)) (failWith 500 ''failed to update incident'')) (\<lambda>n.
              require (n \<noteq> 0) 404 ''incident not found'')
            else require hadManualAppend 400 ''no fields to update'')))))"

definition incidents_handlePatch ::
  "lib \<Rightarrow> DashboardAuth \<Rightarrow> string list option \<Rightarrow> request \<Rightarrow> db \<Rightarrow> (response \<times> incident_event list) \<times> db" where
  "incidents_handlePatch L A h r = answerEvents
     (abind (ifMethod r ''PATCH'') (\<lambda>_.
      abind (authorize L A r ''operator'') (\<lambda>p.
      abind (given (parseIncidentUUID L r) 400 ''invalid incident id'') (\<lambda>i.
      abind (given (decodeBody r decodePatchIncident) 400 ''invalid JSON body'') (\<lambda>q.
      abind (require (\<not> patchIsEmpty q) 400 ''no fields to update'') (\<lambda>_.
      abind (require (case pi_ShortDescription q of None \<Rightarrow> True | Some s \<Rightarrow> TrimSpace s \<noteq> '''') 400 ''short_description cannot be empty'') (\<lambda>_.
      abind (require (case pi_State q of None \<Rightarrow> True | Some s \<Rightarrow> validateIncidentState (normalizeIncidentState s)) 400 ''invalid state'') (\<lambda>_.
      abind (require (\<not> (pi_ClearAssignedTo q = Some True \<and> TrimSpace (pointerStr (pi_AssignedToUserID q)) \<noteq> '''')) 400
               ''clear_assigned_to conflicts with assigned_to_user_id'') (\<lambda>_.
      abind (transaction (patchIncidentTx L p i q) (failWith 500 ''failed to update incident'') (failWith 500 ''failed to update incident'')) (\<lambda>_.
      (\<lambda>d. case loadIncidentDetail L h i d of
             (Inl e, d) \<Rightarrow> (Inr (RespJson 200 (statusJson ''updated''), [IncidentsMutated]), d)
           | (Inr detail, d) \<Rightarrow> (Inr (RespJson 200 (detailJson L detail), [IncidentsMutated]), d))))))))))))"

section \<open>Deleting, resolutions, commands\<close>

text \<open>Resolutions are deleted with their incident; commands keep running without it.\<close>

definition deleteIncidentRow :: "uuid \<Rightarrow> db \<Rightarrow> nat sql_result" where
  "deleteIncidentRow i d =
     (let n = affected (\<lambda>x. in_id x = i) (incidents d)
      in if n = 0 then (Inr 0, d)
         else (Inr n, d\<lparr>incidents := filter (\<lambda>x. in_id x \<noteq> i) (incidents d),
                        resolutions := filter (\<lambda>x. rs_incident_id x \<noteq> i) (resolutions d),
                        device_commands := update_where (\<lambda>c. dc_incident_context_id c = Some i)
                          (\<lambda>c. c\<lparr>dc_incident_context_id := None\<rparr>) (device_commands d)\<rparr>))"

definition incidents_handleDelete :: "lib \<Rightarrow> DashboardAuth \<Rightarrow> request \<Rightarrow> db \<Rightarrow> (response \<times> incident_event list) \<times> db" where
  "incidents_handleDelete L A r = answerEvents
     (abind (ifMethod r ''DELETE'') (\<lambda>_.
      abind (authorize L A r ''operator'') (\<lambda>_.
      abind (given (parseIncidentUUID L r) 400 ''invalid incident id'') (\<lambda>i.
      abind (statement (sql (deleteIncidentRow i)) (failWith 500 ''failed to delete incident'')) (\<lambda>n.
      abind (require (n \<noteq> 0) 404 ''incident not found'') (\<lambda>_.
      areturn (RespEmpty 204, [IncidentsMutated])))))))"

definition insertResolutionRow :: "uuid \<Rightarrow> string \<Rightarrow> string \<Rightarrow> db \<Rightarrow> uuid sql_result" where
  "insertResolutionRow incidentID summary markdown d =
     (let i = random_uuid d
      in if i \<in> rs_id ` set (resolutions d) then (Inl ErrUnique, uuid_used d)
         else if incidentID \<notin> in_id ` set (incidents d) then (Inl ErrForeignKey, uuid_used d)
         else (Inr i, (uuid_used d)\<lparr>resolutions := resolutions d @ [\<lparr>rs_id = i, rs_incident_id = incidentID, rs_summary = summary,
                 rs_markdown = markdown, rs_resolved_at = now d, rs_created_at = now d\<rparr>]\<rparr>))"

definition decodeResolution :: "json_object \<Rightarrow> (string \<times> string) option" where
  "decodeResolution m = (case (get_string ''summary'' m, get_string ''markdown'' m) of (Some s, Some md) \<Rightarrow> Some (s, md) | _ \<Rightarrow> None)"

definition incidents_handlePostResolution :: "lib \<Rightarrow> DashboardAuth \<Rightarrow> request \<Rightarrow> db \<Rightarrow> (response \<times> incident_event list) \<times> db" where
  "incidents_handlePostResolution L A r = answerEvents
     (abind (ifMethod r ''POST'') (\<lambda>_.
      abind (authorize L A r ''operator'') (\<lambda>_.
      abind (given (parseIncidentUUID L r) 400 ''invalid incident id'') (\<lambda>i.
      abind (given (decodeBody r decodeResolution) 400 ''invalid JSON body'') (\<lambda>(summary, markdown).
      abind (require (TrimSpace summary \<noteq> '''') 400 ''summary is required'') (\<lambda>_.
      abind (statement (query (\<lambda>d. i \<in> in_id ` set (incidents d))) (failWith 404 ''incident not found'')) (\<lambda>ex.
      abind (require ex 404 ''incident not found'') (\<lambda>_.
      abind (statement (sql (insertResolutionRow i (TrimSpace summary) markdown)) (failWith 500 ''failed to create resolution'')) (\<lambda>resID.
      areturn (RespJson 201 (JObj [(''id'', JStr (u_str L resID))]), [IncidentsMutated]))))))))))"

definition incidentCommandAudit :: "lib \<Rightarrow> request \<Rightarrow> Principal \<Rightarrow> uuid \<Rightarrow> uuid \<Rightarrow> uuid \<Rightarrow> string \<Rightarrow> AuditRecord" where
  "incidentCommandAudit L r p incidentID deviceID cmdID commandType =
     \<lparr>ar_UserID = p_UserID p, ar_Action = ''incident_command_executed'', ar_ResourceType = ''incident'', ar_ResourceID = Some incidentID,
      ar_TargetAssetID = Some deviceID,
      ar_Details = [(''command_id'', JStr (u_str L cmdID)), (''command_type'', JStr commandType), (''channel'', JStr ''incident_console'')],
      ar_IPAddress = ClientIP L r\<rparr>"

definition decodeIncidentCommand :: "json_object \<Rightarrow> (string \<times> string) option" where
  "decodeIncidentCommand m =
     (case (get_string ''command_type'' m, get_string ''payload'' m) of (Some t, Some pl) \<Rightarrow> Some (t, pl) | _ \<Rightarrow> None)"

text \<open>The command once it is queued: the certificate of the device, the dispatch, the status and the audit record.\<close>

definition dispatchIncidentCommand ::
  "lib \<Rightarrow> 'w dispatcher \<Rightarrow> request \<Rightarrow> Principal \<Rightarrow> uuid \<Rightarrow> uuid \<Rightarrow> string \<Rightarrow> string \<Rightarrow> device_command \<Rightarrow> (db \<times> 'w, response) act" where
  "dispatchIncidentCommand L dispatch r p incidentID deviceID commandType payload cmd s =
     (case s of (d, w) \<Rightarrow>
      case ResolveAssetCertSerial deviceID d of
        (Inl e, d) \<Rightarrow>
          (Inl (RespError 409 e), snd (FailDeviceCommandIfPending L (dc_id cmd)
             (''asset certificate not available: '' @ (case e of Err m \<Rightarrow> m | _ \<Rightarrow> '''')) d), w)
      | (Inr certSerial, d) \<Rightarrow>
          (case dispatch certSerial (commandDownlink L (dc_id cmd) commandType payload) w of
             (False, w) \<Rightarrow>
               (Inl (RespError 409 (Err ''agent not connected'')), snd (FailDeviceCommand L (dc_id cmd) ''agent not connected'' d), w)
           | (True, w) \<Rightarrow>
               (let d = snd (MarkDeviceCommandSent (dc_id cmd) d);
                    d = snd (InsertAuditRecord (incidentCommandAudit L r p incidentID deviceID (dc_id cmd) commandType) d)
                in (Inr (RespJson 201 (JObj (commandWire L (t_json L) (cmd\<lparr>dc_status := ''sent''\<rparr>)))), d, w))))"

definition incidents_handlePostCommand ::
  "lib \<Rightarrow> DashboardAuth \<Rightarrow> 'w dispatcher option \<Rightarrow> request \<Rightarrow> db \<times> 'w \<Rightarrow> response \<times> db \<times> 'w" where
  "incidents_handlePostCommand L A hub r = answer
     (abind (ifMethod r ''POST'') (\<lambda>_.
      abind (onDb (authorize L A r ''operator'')) (\<lambda>p.
      abind (given hub 503 ''c2 hub not configured'') (\<lambda>dispatch.
      abind (given (parseIncidentUUID L r) 400 ''invalid incident id'') (\<lambda>incidentID.
      abind (given (decodeBody r decodeIncidentCommand) 400 ''invalid JSON body'') (\<lambda>(ct, payload).
      let commandType = TrimSpace (ToLower ct)
      in abind (require (commandType \<noteq> '''') 400 ''command_type is required'') (\<lambda>_.
         abind (onDb (statement (query_row (\<lambda>d. map_option in_cmdb_ci (find (\<lambda>x. in_id x = incidentID) (incidents d))))
                  (failWith 404 ''incident not found''))) (\<lambda>cmdbPtr.
         abind (given (case cmdbPtr of None \<Rightarrow> None | Some c \<Rightarrow> if c = uuid_Nil then None else Some c) 409
                  ''incident must be linked to a CMDB CI before running C2'') (\<lambda>deviceID.
         abind (onDb (call (InsertDeviceCommand deviceID commandType payload (Some incidentID)) (RespError 400))) (\<lambda>cmd.
         dispatchIncidentCommand L dispatch r p incidentID deviceID commandType payload cmd))))))))))"

end
