(* ===== verification/IncidentsApi_Facts.thy ===== *)
theory IncidentsApi_Facts
  imports IncidentsApi Incidents_Facts Outcomes_Facts
begin

text \<open>
  What the service desk routes guarantee: impact and urgency stay in range, the incident tables stay
  consistent under every route, the alert bridge and the command queue, a patch is all or nothing, a
  created incident is read back, and a command run from an incident ends in its journal.
\<close>

section \<open>Impact and urgency\<close>

lemma int16_exact: "- 32768 \<le> n \<Longrightarrow> n < 32768 \<Longrightarrow> int16 n = n"
  by (simp add: int16_def sint_sbintrunc' signed_take_bit_int_eq_self)

lemma int16_wraps: "int16 (n + 65536) = int16 n"
proof -
  have "(word_of_int (n + 65536) :: 16 word) = word_of_int n"
    by (simp add: word_of_int_eq_iff take_bit_eq_mod)
  then show ?thesis by (simp only: int16_def)
qed

section \<open>The tables of the service desk\<close>

definition wf_desk :: "db \<Rightarrow> bool" where
  "wf_desk d \<longleftrightarrow> distinct (map in_id (incidents d)) \<and> distinct (map in_incident_number (incidents d))
     \<and> (\<forall>r \<in> set (incidents d). incidentRowOK d r)
     \<and> distinct (map rs_id (resolutions d)) \<and> (\<forall>x \<in> set (resolutions d). rs_incident_id x \<in> in_id ` set (incidents d))
     \<and> (\<forall>c \<in> set (device_commands d). refers (dc_incident_context_id c) (map in_id (incidents d)))"

lemma table_inv_desk [keeps_intros, simp]: "table_inv wf_desk"
  unfolding table_inv_def
proof (intro allI impI)
  fix d d' assume s: "same_tables d d'" and w: "wf_desk d"
  from s have "incidents d' = incidents d" "resolutions d' = resolutions d" "device_commands d' = device_commands d"
    "assets d' = assets d" "users d' = users d" by (simp_all add: same_tables_fields)
  with w show "wf_desk d'" by (simp add: wf_desk_def incidentRowOK_def)
qed

lemma desk_frame:
  "wf_desk (d\<lparr>stmt_no := n\<rparr>) = wf_desk d" "wf_desk (d\<lparr>uuid_next := n\<rparr>) = wf_desk d" "wf_desk (uuid_used d) = wf_desk d"
  "wf_desk (d\<lparr>incident_seq := s\<rparr>) = wf_desk d" "wf_desk (d\<lparr>audit_logs := a\<rparr>) = wf_desk d"
  by (simp_all add: wf_desk_def incidentRowOK_def uuid_used_def)

lemma desk_update:
  assumes wf: "wf_desk d" and ids: "\<And>r. in_id (f r) = in_id r" "\<And>r. in_incident_number (f r) = in_incident_number r"
    and ok: "\<And>r. r \<in> set (incidents d) \<Longrightarrow> P r \<Longrightarrow> incidentRowOK d r \<Longrightarrow> incidentRowOK d (f r)"
  shows "wf_desk (d\<lparr>incidents := update_where P f (incidents d)\<rparr>)" (is "wf_desk ?d")
proof -
  have m: "map in_id (update_where P f (incidents d)) = map in_id (incidents d)"
    "map in_incident_number (update_where P f (incidents d)) = map in_incident_number (incidents d)"
    using ids by (simp_all add: map_update_where)
  have s: "in_id ` set (update_where P f (incidents d)) = in_id ` set (incidents d)" using m(1) by (metis set_map)
  have "incidentRowOK ?d x = incidentRowOK d x" for x by (rule incidentRowOK_cong) simp_all
  with wf ok show ?thesis by (auto simp: wf_desk_def m s set_update_where)
qed

lemma keeps_desk_notes [keeps_intros]:
  assumes "\<And>d r. in_id (f d r) = in_id r \<and> in_incident_number (f d r) = in_incident_number r"
    and "\<And>d r. incidentRowOK d r \<Longrightarrow> incidentRowOK d (f d r)"
  shows "keeps wf_desk (\<lambda>d. (x d, d\<lparr>incidents := update_where (P d) (f d) (incidents d)\<rparr>))"
  using assms by (auto simp: keeps_def intro!: desk_update)

lemma desk_append:
  assumes wf: "wf_desk d" and new: "in_id r \<notin> in_id ` set (incidents d)" "in_incident_number r \<notin> in_incident_number ` set (incidents d)"
    and ok: "incidentRowOK d r"
  shows "wf_desk (d\<lparr>incidents := incidents d @ [r]\<rparr>)" (is "wf_desk ?d")
proof -
  have "incidentRowOK ?d x = incidentRowOK d x" for x by (rule incidentRowOK_cong) simp_all
  with assms show ?thesis by (auto simp: wf_desk_def refers_def split: option.splits)
qed

lemma keeps_desk_insert [keeps_intros]: "keeps wf_desk (insertIncidentRow row)"
proof -
  have "wf_desk (snd (insertIncidentRow row d))" if w: "wf_desk d" for d
  proof -
    define r where "r = row\<lparr>in_id := random_uuid d, in_created_at := now d, in_updated_at := now d\<rparr>"
    have u: "wf_desk (uuid_used d)" using w by (simp add: desk_frame)
    have f: "incidents (uuid_used d) = incidents d" "assets (uuid_used d) = assets d" "users (uuid_used d) = users d" by (simp_all add: uuid_used_def)
    have "wf_desk ((uuid_used d)\<lparr>incidents := incidents d @ [r]\<rparr>)"
      if "incidentCheck r" "in_id r \<notin> in_id ` set (incidents d)" "in_incident_number r \<notin> in_incident_number ` set (incidents d)"
        "refers (in_cmdb_ci r) (map a_id (assets d))" "refers (in_caller_id r) (map us_id (users d))" "refers (in_assigned_to r) (map us_id (users d))"
      using desk_append [OF u, of r] that by (simp add: f incidentRowOK_def)
    then show ?thesis
      unfolding insertIncidentRow_def Let_def r_def [symmetric] f using u by (simp add: r_def)
  qed
  then show ?thesis by (simp add: keeps_def)
qed

lemma keeps_desk_updateRow [keeps_intros]:
  assumes "\<And>d r. in_id (f d r) = in_id r \<and> in_incident_number (f d r) = in_incident_number r \<and> in_caller_id (f d r) = in_caller_id r"
  shows "keeps wf_desk (\<lambda>d. updateIncidentRow i (f d) d)"
proof -
  have "wf_desk (snd (updateIncidentRow i (f d) d))" if w: "wf_desk d" for d
  proof -
    have ok: "incidentRowOK d (f d r)"
      if "r \<in> set (incidents d)" "in_id r = i" "\<not> list_ex (\<lambda>r. in_id r = i \<and> \<not> incidentCheck r) (update_where (\<lambda>r. in_id r = i) (f d) (incidents d))"
        "\<not> list_ex (\<lambda>r. in_id r = i \<and> \<not> (refers (in_cmdb_ci r) (map a_id (assets d)) \<and> refers (in_assigned_to r) (map us_id (users d))))
            (update_where (\<lambda>r. in_id r = i) (f d) (incidents d))" "incidentRowOK d r" for r
    proof -
      have "f d r \<in> set (update_where (\<lambda>r. in_id r = i) (f d) (incidents d))" using that by (auto simp: set_update_where)
      then show ?thesis using that assms by (auto simp: incidentRowOK_def list_ex_iff)
    qed
    show ?thesis using w assms ok unfolding updateIncidentRow_def Let_def by (auto intro!: desk_update)
  qed
  then show ?thesis by (simp add: keeps_def)
qed

lemma keeps_desk_delete [keeps_intros]: "keeps wf_desk (deleteIncidentRow i)"
proof -
  have "wf_desk (snd (deleteIncidentRow i d))" if w: "wf_desk d" for d
  proof -
    let ?inc = "filter (\<lambda>x. in_id x \<noteq> i) (incidents d)"
    have "incidentRowOK (d\<lparr>incidents := a, resolutions := b, device_commands := c\<rparr>) r = incidentRowOK d r" for a b c r
      by (rule incidentRowOK_cong) simp_all
    moreover have "distinct (map in_id ?inc)" "distinct (map in_incident_number ?inc)" "distinct (map rs_id (filter (\<lambda>x. rs_incident_id x \<noteq> i) (resolutions d)))"
      using w by (auto simp: wf_desk_def distinct_map inj_on_def)
    moreover have img: "in_id ` set ?inc = in_id ` set (incidents d) - {i}" by auto
    moreover have "refers (dc_incident_context_id c) (map in_id ?inc)"
      if "c \<in> set (update_where (\<lambda>c. dc_incident_context_id c = Some i) (\<lambda>c. c\<lparr>dc_incident_context_id := None\<rparr>) (device_commands d))" for c
    proof -
      from that obtain s where "s \<in> set (device_commands d)" "c = (if dc_incident_context_id s = Some i then s\<lparr>dc_incident_context_id := None\<rparr> else s)"
        by (auto simp only: set_update_where)
      then show ?thesis using w img by (cases "dc_incident_context_id s") (auto simp: wf_desk_def refers_def)
    qed
    ultimately show ?thesis using w unfolding deleteIncidentRow_def Let_def by (auto simp: wf_desk_def)
  qed
  then show ?thesis by (simp add: keeps_def)
qed

lemma keeps_desk_resolution [keeps_intros]: "keeps wf_desk (insertResolutionRow i s m)"
  unfolding insertResolutionRow_def Let_def uuid_used_def
  by (auto simp: keeps_def wf_desk_def incidentRowOK_def)

lemma keeps_desk_commands [keeps_intros]:
  assumes "\<And>d c. dc_incident_context_id (f d c) = dc_incident_context_id c"
  shows "keeps wf_desk (\<lambda>d. (x d, d\<lparr>device_commands := update_where (P d) (f d) (device_commands d)\<rparr>))"
  using assms by (auto simp: keeps_def wf_desk_def incidentRowOK_def set_update_where)

lemma keeps_desk_insertCommand [keeps_intros]: "keeps wf_desk (insertCommandRow dev ct pl ctx)"
proof -
  have "wf_desk (snd (insertCommandRow dev ct pl ctx d))" if w: "wf_desk d" for d
  proof -
    have "wf_desk ((uuid_used d)\<lparr>device_commands := device_commands d @ [c]\<rparr>)" if "refers (dc_incident_context_id c) (map in_id (incidents d))" for c
    proof -
      have "incidentRowOK ((uuid_used d)\<lparr>device_commands := cs\<rparr>) x = incidentRowOK d x" for cs x
        by (rule incidentRowOK_cong) (simp_all add: uuid_used_def)
      with w that show ?thesis by (auto simp: wf_desk_def uuid_used_def)
    qed
    then show ?thesis using w by (simp add: insertCommandRow_def Let_def desk_frame refers_def split: option.split)
  qed
  then show ?thesis by (simp add: keeps_def)
qed

section \<open>Every operation keeps them consistent\<close>

lemma keeps_desk_AppendNote [keeps_intros]: "keeps wf_desk (AppendIncidentWorkNoteJSON i note)"
  unfolding AppendIncidentWorkNoteJSON_def
  by (intro keeps_intros) (simp_all add: incidentRowOK_def incidentCheck_def)

lemma keeps_desk_Journal [keeps_intros]: "keeps wf_desk (AppendIncidentJournalForTerminalCommand L i ok out u un)"
proof -
  have "wf_desk (snd (AppendIncidentJournalForTerminalCommand L i ok out u un d))" if w: "wf_desk d" for d
    using w keepsD [OF keeps_desk_AppendNote] unfolding AppendIncidentJournalForTerminalCommand_def
    by (auto simp: query_row_def sql_def Let_def desk_frame split: sum.splits option.splits if_splits)
  then show ?thesis by (simp add: keeps_def)
qed

lemma keeps_desk_updateStatus [keeps_intros]: "keeps wf_desk (updateDeviceCommandStatus i st out c)"
  unfolding updateDeviceCommandStatus_def by (intro keeps_intros) simp

lemma keeps_desk_queue [keeps_intros]:
  "keeps wf_desk (MarkDeviceCommandSent i)" "keeps wf_desk (GetDeviceCommand i j)" "keeps wf_desk (finishDeviceCommand L st ok i out)"
  "keeps wf_desk (FailDeviceCommand L i out)" "keeps wf_desk (CompleteDeviceCommand L i out)"
  "keeps wf_desk (FailDeviceCommandIfPending L i msg)" "keeps wf_desk (InsertDeviceCommand dev ct pl ctx)"
proof -
  show s: "keeps wf_desk (MarkDeviceCommandSent i)" for i
    unfolding MarkDeviceCommandSent_def by (intro keeps_intros)
  show g: "keeps wf_desk (GetDeviceCommand i j)" for i j
    by (simp add: keeps_def desk_frame)
  show f: "keeps wf_desk (finishDeviceCommand L st ok i out)" for L st ok i out
    unfolding finishDeviceCommand_def by (intro keeps_intros g)
  show "keeps wf_desk (FailDeviceCommand L i out)" "keeps wf_desk (CompleteDeviceCommand L i out)"
    unfolding FailDeviceCommand_def CompleteDeviceCommand_def by (intro f)+
  show "keeps wf_desk (FailDeviceCommandIfPending L i msg)"
    unfolding FailDeviceCommandIfPending_def Let_def by (intro keeps_intros) simp_all
  show "keeps wf_desk (InsertDeviceCommand dev ct pl ctx)"
    unfolding InsertDeviceCommand_def Let_def by (intro keeps_intros)
qed

lemma keeps_desk_audit [keeps_intros]: "keeps wf_desk (InsertAuditRecord a)"
  by (rule keeps_audit) (simp_all add: desk_frame)

lemma keeps_desk_nextval [keeps_intros]: "keeps wf_desk nextval" "keeps wf_desk incidentNumberSQL" "keeps wf_desk allocateIncidentNumTx"
proof -
  show n: "keeps wf_desk nextval" unfolding nextval_def by (intro keeps_intros) (simp add: keeps_def desk_frame)
  show "keeps wf_desk incidentNumberSQL" "keeps wf_desk allocateIncidentNumTx"
    unfolding incidentNumberSQL_def allocateIncidentNumTx_def by (intro keeps_intros n)+
qed

lemma simpleParts_keep:
  assumes "g \<in> set (simpleParts q)"
  shows "in_id (g r) = in_id r \<and> in_incident_number (g r) = in_incident_number r \<and> in_caller_id (g r) = in_caller_id r"
  using assms by (auto simp: simpleParts_def split: option.splits)

text \<open>The bridge.\<close>

lemma keeps_desk_upsert [keeps_intros]: "keeps wf_desk (UpsertIncidentForCriticalFingerprint L fp dev title msg sev)"
proof -
  have ins: "keeps wf_desk (\<lambda>d. sql (insertIncidentRow (row d)) d)" for row
    by (rule keeps_dep [where f = "\<lambda>x. sql (insertIncidentRow x)"]) (intro keeps_intros)
  have upd: "keeps wf_desk (\<lambda>d. sql (updateIncidentRow i (refreshAlertIncident L (now d) fp' dev title msg sev sla)) d)" for i fp' sla
    by (rule keeps_dep [where f = "\<lambda>t. sql (updateIncidentRow i (refreshAlertIncident L t fp' dev title msg sev sla))"])
      (intro keeps_intros keeps_desk_updateRow [where f = "\<lambda>d. refreshAlertIncident L _ fp' dev title msg sev sla"], simp add: refreshAlertIncident_def)
  have body: "keeps wf_desk (upsertIncidentBody L fp' dev title msg sev sla)" for fp' sla
    unfolding upsertIncidentBody_def by (intro keeps_intros ins upd)
  have "wf_desk (snd (UpsertIncidentForCriticalFingerprint L fp dev title msg sev d))" if "wf_desk d" for d
    using that keepsD [OF keeps_transaction [OF table_inv_desk body]] by (simp add: UpsertIncidentForCriticalFingerprint_def Let_def)
  then show ?thesis by (simp add: keeps_def)
qed

lemma keeps_desk_autoResolve: "wf_desk d \<Longrightarrow> wf_desk (snd (autoResolveLoop L done fps d))"
proof (induction L "done" fps d rule: autoResolveLoop.induct)
  case (2 L "done" fp0 fps d)
  let ?u = "\<lambda>fp d. (Inr (), d\<lparr>incidents := update_where (\<lambda>r. in_source_alert_fingerprint r = Some fp \<and> in_state r \<noteq> ''closed'') (resolveRow L (now d) fp) (incidents d)\<rparr>)"
  have k: "keeps wf_desk (sql (?u fp))" for fp
    by (intro keeps_intros) (simp_all add: resolveRow_ok, simp_all add: resolveRow_def)
  have s: "wf_desk (snd (sql (?u (TrimSpace fp0)) d))" using keepsD [OF k 2(3)] .
  show ?case
  proof (cases "sql (?u (TrimSpace fp0)) d")
    case (Pair x d1)
    then show ?thesis using 2 s by (cases x) (auto simp: Let_def)
  qed
qed simp

text \<open>The routes.\<close>

lemma keeps_desk_lookups [keeps_intros]: "keeps wf_desk (assetByHumanID h)" "keeps wf_desk (userByID L u)"
  unfolding assetByHumanID_def userByID_def by (intro keeps_intros)+

lemma keeps_desk_create [keeps_intros]: "keeps wf_desk (createIncidentTx L p q st)"
  unfolding createIncidentTx_def Let_def by (intro keeps_intros)

lemma keeps_desk_appendManual [keeps_intros]: "keeps wf_desk (appendManual L i u t)"
  unfolding appendManual_def by (intro keeps_intros) (simp_all add: incidentRowOK_def incidentCheck_def)

text \<open>What a patch may assign.\<close>

definition keepsIdentity :: "(incident \<Rightarrow> incident) \<Rightarrow> bool" where
  "keepsIdentity g \<longleftrightarrow> (\<forall>r. in_id (g r) = in_id r \<and> in_incident_number (g r) = in_incident_number r \<and> in_caller_id (g r) = in_caller_id r
     \<and> in_work_notes (g r) = in_work_notes r \<and> in_source_alert_fingerprint (g r) = in_source_alert_fingerprint r \<and> in_created_at (g r) = in_created_at r)"

lemma applyParts_keeps: "list_all keepsIdentity parts \<Longrightarrow> keepsIdentity (applyParts parts t)"
proof -
  have "keepsIdentity (fold (\<lambda>f. f) parts)" if "list_all keepsIdentity parts"
    using that by (induction parts) (simp_all add: keepsIdentity_def)
  then show "list_all keepsIdentity parts \<Longrightarrow> ?thesis" by (simp add: keepsIdentity_def applyParts_def)
qed

lemma patchParts:
  "list_all keepsIdentity (simpleParts q)" "yields (list_all keepsIdentity) (slaParts L q)"
  "yields (list_all keepsIdentity) (assetParts q)" "yields (list_all keepsIdentity) (assigneeParts L q)"
proof -
  show "list_all keepsIdentity (simpleParts q)"
    by (auto simp: simpleParts_def keepsIdentity_def split: option.splits)
  show "yields (list_all keepsIdentity) (slaParts L q)"
    unfolding slaParts_def by (intro yields_intros) (simp_all add: keepsIdentity_def)
  show "yields (list_all keepsIdentity) (assetParts q)"
    unfolding assetParts_def Let_def by (intro yields_intros) (simp_all add: keepsIdentity_def)
  show "yields (list_all keepsIdentity) (assigneeParts L q)"
    unfolding assigneeParts_def Let_def by (intro yields_intros) (simp_all add: keepsIdentity_def)
qed

lemma keeps_desk_parts [keeps_intros]:
  "keeps wf_desk (slaParts L q)" "keeps wf_desk (assetParts q)" "keeps wf_desk (assigneeParts L q)"
  unfolding slaParts_def assetParts_def assigneeParts_def Let_def by (intro keeps_intros)+

lemma keeps_desk_patch [keeps_intros]: "keeps wf_desk (patchIncidentTx L p i q)"
proof -
  have upd: "keeps wf_desk (\<lambda>d. updateIncidentRow i (applyParts parts (now d)) d)" if "list_all keepsIdentity parts" for parts
    by (rule keeps_desk_updateRow) (use applyParts_keeps [OF that] in \<open>simp add: keepsIdentity_def\<close>)
  show ?thesis
    unfolding patchIncidentTx_def Let_def
    by (intro keeps_yields [OF _ patchParts(2)] keeps_yields [OF _ patchParts(3)] keeps_yields [OF _ patchParts(4)] keeps_intros upd)
      (simp_all add: patchParts)
qed

lemma keeps_desk_detail [keeps_intros]: "keeps wf_desk (loadIncidentDetail L h i)"
proof -
  have snap: "keeps wf_desk (LoadIncidentCMDBSnapshot dev)" for dev
    unfolding LoadIncidentCMDBSnapshot_def by (intro keeps_intros)
  show ?thesis unfolding loadIncidentDetail_def by (intro keeps_intros snap)
qed

lemma desk_create: "wf_desk d \<Longrightarrow> wf_desk (snd (incidents_handleCreate L A r d))"
  unfolding incidents_handleCreate_def Let_def by (rule answerEvents_keeps) (intro keeps_intros)

lemma desk_patch: "wf_desk d \<Longrightarrow> wf_desk (snd (incidents_handlePatch L A h r d))"
  unfolding incidents_handlePatch_def by (rule answerEvents_keeps) (intro keeps_intros)

lemma desk_delete: "wf_desk d \<Longrightarrow> wf_desk (snd (incidents_handleDelete L A r d))"
  unfolding incidents_handleDelete_def by (rule answerEvents_keeps) (intro keeps_intros)

lemma desk_resolution: "wf_desk d \<Longrightarrow> wf_desk (snd (incidents_handlePostResolution L A r d))"
  unfolding incidents_handlePostResolution_def by (rule answerEvents_keeps) (intro keeps_intros)

lemma desk_reads: "wf_desk d \<Longrightarrow> wf_desk (snd (incidents_handleList L A r d))" "wf_desk d \<Longrightarrow> wf_desk (snd (incidents_handleGet L A h r d))"
  unfolding incidents_handleList_def incidents_handleGet_def Let_def by (rule answer_keeps, intro keeps_intros, assumption)+

lemma keeps_desk_dispatch [keeps_intros]:
  "keeps (\<lambda>(d, w). wf_desk d) (dispatchIncidentCommand L dispatch r p inc dev ct pl cmd)"
proof -
  have "wf_desk (fst (snd (dispatchIncidentCommand L dispatch r p inc dev ct pl cmd (d, w))))" if d: "wf_desk d" for d w
  proof -
    have res: "keeps wf_desk (ResolveAssetCertSerial dev)" unfolding ResolveAssetCertSerial_def by (intro keeps_intros)
    note k = keepsD [OF res d] keepsD [OF keeps_desk_queue(1)] keepsD [OF keeps_desk_queue(4)] keepsD [OF keeps_desk_queue(6)] keepsD [OF keeps_desk_audit]
    from k show ?thesis
      by (auto simp: dispatchIncidentCommand_def Let_def split: prod.splits sum.splits bool.splits)
  qed
  then show ?thesis by (auto simp: keeps_def split: prod.splits) (metis fst_conv snd_conv)
qed

lemma desk_command: "wf_desk d \<Longrightarrow> wf_desk (fst (snd (incidents_handlePostCommand L A hub r (d, w))))"
proof -
  assume d: "wf_desk d"
  have "keeps (\<lambda>(d, w). wf_desk d) (\<lambda>s. incidents_handlePostCommand L A hub r s)"
    unfolding incidents_handlePostCommand_def Let_def keeps_def
    by (intro allI impI, rule answer_keeps) (intro keeps_intros, assumption)
  from keepsD [OF this, of "(d, w)"] d show ?thesis by (auto split: prod.splits)
qed

section \<open>Runs of the service desk\<close>

text \<open>Any interleaving of the routes, the alert bridge and the command queue, each as one step.\<close>

inductive desk_step :: "lib \<Rightarrow> DashboardAuth \<Rightarrow> db \<Rightarrow> db \<Rightarrow> bool" for L :: lib and A :: DashboardAuth where
  desk_step_list: "desk_step L A d (snd (incidents_handleList L A r d))"
| desk_step_get: "desk_step L A d (snd (incidents_handleGet L A h r d))"
| desk_step_create: "desk_step L A d (snd (incidents_handleCreate L A r d))"
| desk_step_patch: "desk_step L A d (snd (incidents_handlePatch L A h r d))"
| desk_step_delete: "desk_step L A d (snd (incidents_handleDelete L A r d))"
| desk_step_resolution: "desk_step L A d (snd (incidents_handlePostResolution L A r d))"
| desk_step_command: "desk_step L A d (fst (snd (incidents_handlePostCommand L A (None :: unit dispatcher option) r (d, w))))"
| desk_step_dispatch: "desk_step L A d (fst (snd (incidents_handlePostCommand L A (Some DispatchJSON) r (d, h'))))"
| desk_step_critical: "desk_step L A d (OnCriticalDeviceFingerprint L fp sev dev title msg d)"
| desk_step_resolved: "desk_step L A d (OnAlertFingerprintsResolved L fps d)"
| desk_step_complete: "desk_step L A d (snd (CompleteDeviceCommand L i out d))"
| desk_step_fail: "desk_step L A d (snd (FailDeviceCommand L i out d))"
| desk_step_sent: "desk_step L A d (snd (MarkDeviceCommandSent i d))"
| desk_step_insert: "desk_step L A d (snd (InsertDeviceCommand dev ct pl None d))"
| desk_step_clock: "desk_step L A d (d\<lparr>now := t, fault_at := f\<rparr>)"

inductive_cases desk_stepE: "desk_step L A d d'"

lemma desk_step_wf: "desk_step L A d d' \<Longrightarrow> wf_desk d \<Longrightarrow> wf_desk d'"
proof (induction rule: desk_step.induct)
  case (desk_step_critical d fp sev dev title msg)
  then show ?case by (simp add: OnCriticalDeviceFingerprint_def keepsD [OF keeps_desk_upsert])
next
  case (desk_step_resolved d fps)
  then show ?case
    by (simp add: OnAlertFingerprintsResolved_def AutoResolveIncidentsForAlertFingerprints_def keeps_desk_autoResolve)
next
  case (desk_step_clock d t f)
  then show ?case by (simp add: wf_desk_def incidentRowOK_def)
qed (simp_all add: desk_reads desk_create desk_patch desk_delete desk_resolution desk_command keepsD [OF keeps_desk_queue(1)]
      keepsD [OF keeps_desk_queue(4)] keepsD [OF keeps_desk_queue(5)] keepsD [OF keeps_desk_queue(7)])

interpretation desk: maintained "desk_step L A" wf_desk for L A
  by unfold_locales (rule desk_step_wf)

section \<open>The properties\<close>

text \<open>Impact and urgency of an incident written through the routes are 1, 2 or 3 whatever integer the
  client sends; inside the range of \<open>int16\<close> this is the nearest allowed value, and an integer that
  differs by 65536 counts as the same one, so that 65537 is taken for the highest impact.\<close>

theorem impact_in_range:
  "impactUrgencyOrDefault v \<in> {1, 2, 3} \<and> impactUrgencyOrDefault None = 2
   \<and> (- 32768 \<le> n \<and> n < 32768 \<longrightarrow> impactUrgencyOrDefault (Some n) = max 1 (min 3 n))
   \<and> impactUrgencyOrDefault (Some (n + 65536)) = impactUrgencyOrDefault (Some n)"
proof (intro conjI impI)
  have "x \<in> {1, 2, 3}" if "1 \<le> x" "x \<le> 3" for x :: int using that by auto
  then show "impactUrgencyOrDefault v \<in> {1, 2, 3}" by (cases v) (auto simp: impactUrgencyOrDefault_def Let_def)
  show "impactUrgencyOrDefault None = 2" by (simp add: impactUrgencyOrDefault_def)
  show "impactUrgencyOrDefault (Some n) = max 1 (min 3 n)" if "- 32768 \<le> n \<and> n < 32768"
    using that by (simp add: impactUrgencyOrDefault_def Let_def int16_exact)
  show "impactUrgencyOrDefault (Some (n + 65536)) = impactUrgencyOrDefault (Some n)"
    by (simp only: impactUrgencyOrDefault_def option.case int16_wraps)
qed

theorem impact_in_range_witness:
  "impactUrgencyOrDefault (Some 65537) = 1 \<and> impactUrgencyOrDefault (Some 9) = 3 \<and> impactUrgencyOrDefault (Some (- 4)) = 1"
  using impact_in_range [of None 1] impact_in_range [of None 9] impact_in_range [of None "- 4"] by simp


text \<open>What a patch of incident \<open>i\<close> may change.\<close>

definition patched :: "uuid \<Rightarrow> db \<Rightarrow> db \<Rightarrow> bool" where
  "patched i d d' \<longleftrightarrow> filter (\<lambda>x. in_id x \<noteq> i) (incidents d') = filter (\<lambda>x. in_id x \<noteq> i) (incidents d)
     \<and> map in_id (incidents d') = map in_id (incidents d) \<and> map in_incident_number (incidents d') = map in_incident_number (incidents d)
     \<and> assets d' = assets d \<and> users d' = users d \<and> resolutions d' = resolutions d \<and> device_commands d' = device_commands d"

lemma patched_refl: "patched i d d"
  by (simp add: patched_def)

lemma table_inv_patched [keeps_intros]: "table_inv (patched i d)"
  by (auto simp: table_inv_def patched_def same_tables_fields)

lemma filter_update_where:
  assumes "\<And>r. in_id (f r) = in_id r"
  shows "filter (\<lambda>x. in_id x \<noteq> i) (update_where (\<lambda>x. in_id x = i) f rows) = filter (\<lambda>x. in_id x \<noteq> i) rows"
  using assms by (induction rows) (auto simp: update_where_def)

lemma keeps_patched_update [keeps_intros]:
  assumes "\<And>e r. in_id (f e r) = in_id r \<and> in_incident_number (f e r) = in_incident_number r"
  shows "keeps (patched i d) (\<lambda>e. (x e, e\<lparr>incidents := update_where (\<lambda>r. in_id r = i) (f e) (incidents e)\<rparr>))"
  using assms by (auto simp: keeps_def patched_def filter_update_where map_update_where)

lemma keeps_patched_row [keeps_intros]:
  assumes "\<And>e r. in_id (f e r) = in_id r \<and> in_incident_number (f e r) = in_incident_number r"
  shows "keeps (patched i d) (\<lambda>e. updateIncidentRow i (f e) e)"
  using assms by (auto simp: keeps_def updateIncidentRow_def Let_def patched_def filter_update_where map_update_where)

lemma keeps_patched_parts [keeps_intros]:
  "keeps (patched i d) (slaParts L q)" "keeps (patched i d) (assetParts q)" "keeps (patched i d) (assigneeParts L q)"
  unfolding slaParts_def assetParts_def assigneeParts_def assetByHumanID_def userByID_def Let_def by (intro keeps_intros)+

lemma keeps_patched_tx: "keeps (patched i d) (patchIncidentTx L p i q)"
proof -
  have upd: "keeps (patched i d) (\<lambda>e. updateIncidentRow i (applyParts parts (now e)) e)" if "list_all keepsIdentity parts" for parts
    by (rule keeps_patched_row) (use applyParts_keeps [OF that] in \<open>simp add: keepsIdentity_def\<close>)
  show ?thesis
    unfolding patchIncidentTx_def appendManual_def Let_def
    by (intro keeps_yields [OF _ patchParts(2)] keeps_yields [OF _ patchParts(3)] keeps_yields [OF _ patchParts(4)] keeps_intros upd)
      (simp_all add: patchParts)
qed

lemma keeps_patched_detail: "keeps (patched i d) (loadIncidentDetail L h j)"
  unfolding loadIncidentDetail_def LoadIncidentCMDBSnapshot_def by (intro keeps_intros)

lemma refuses_patch [refuses_intros]: "refuses (patchIncidentTx L p i q)"
  unfolding patchIncidentTx_def appendManual_def slaParts_def assetParts_def assigneeParts_def assetByHumanID_def userByID_def Let_def
  by (intro refuses_intros) simp_all

text \<open>C24: patching an incident is all or nothing: a request that is answered with anything but 200 changes no
  table and notifies nobody; otherwise only the row of the named incident differs, it keeps its id
  and number, and the dashboards are notified.\<close>

theorem incident_patch_atomic:
  assumes run: "incidents_handlePatch L A h r d = ((resp, ev), d')"
  shows "(resp_status resp = 200 \<and> ev = [IncidentsMutated] \<and> (\<exists>i. parseIncidentUUID L r = Some i \<and> patched i d d'))
    \<or> (resp_status resp \<noteq> 200 \<and> ev = [] \<and> same_tables d d')"
proof -
  let ?T = "\<lambda>p i q. transaction (patchIncidentTx L p i q) (failWith 500 ''failed to update incident'') (failWith 500 ''failed to update incident'')"
  have bad: "resp_status e \<noteq> 200 \<and> same_tables d d''" if "?T p i q d = (Inl e, d'')" for p i q e d''
  proof -
    have "refuses (?T p i q)" by (intro refuses_intros) simp_all
    from refusesD [OF this that] transaction_Inl [OF that] show ?thesis by auto
  qed
  have good: "patched i d (snd (loadIncidentDetail L h i d1))" if "?T p i q d = (Inr x, d1)" for p i q x d1
  proof -
    have "patched i d d1" using keepsD [OF keeps_transaction [OF table_inv_patched keeps_patched_tx] patched_refl] that by (metis snd_conv)
    then show ?thesis by (rule keepsD [OF keeps_patched_detail])
  qed
  have auth: "resp_status e \<noteq> 200" if "RequireMinRole L A (now d) r ''operator'' = Inl e" for e
    using RequireMinRole_refused [OF that] by auto
  have step: "answerEvents (\<lambda>s. abind (?T p i q) (\<lambda>_ d. case loadIncidentDetail L h i d of
             (Inl e, d) \<Rightarrow> (Inr (RespJson 200 (statusJson ''updated''), [IncidentsMutated]), d)
           | (Inr detail, d) \<Rightarrow> (Inr (RespJson 200 (detailJson L detail), [IncidentsMutated]), d)) s) d = ((resp, ev), d') \<Longrightarrow>
      (resp_status resp = 200 \<and> ev = [IncidentsMutated] \<and> patched i d d') \<or> (resp_status resp \<noteq> 200 \<and> ev = [] \<and> same_tables d d')" for p i q
    using bad [of p i q] good [of p i q]
    by (cases "?T p i q d"; cases "fst (?T p i q d)") (auto simp: answerEvents_def abind_def split: prod.splits sum.splits)
  show ?thesis
    using run auth step unfolding incidents_handlePatch_def answerEvents_def act_unfold
    by (auto split: if_splits option.splits sum.splits)
qed

text \<open>A successful create, step by step.\<close>

lemma createIncidentTx_Inr:
  assumes "createIncidentTx L p q st d = (Inr (newID, incNum, cmdb), d')"
  shows "incNum = ''INC'' @ lpad7 (int_str (incident_seq d + 1)) \<and> (\<exists>sla asg d1. incidents d1 = incidents d \<and> fault_at d1 = fault_at d
    \<and> insertIncidentRow (newIncident L p q st incNum cmdb asg sla (now d)) d1 = (Inr newID, d'))"
proof -
  let ?same = "\<lambda>e. incidents e = incidents d \<and> fault_at e = fault_at d \<and> now e = now d"
  have I: "table_inv ?same" by (auto simp: table_inv_def same_tables_fields)
  have num: "keeps ?same incidentNumberSQL"
    unfolding incidentNumberSQL_def nextval_def by (intro keeps_intros I) (simp add: keeps_def)
  have look: "keeps ?same (assetByHumanID hid)" "keeps ?same (userByID L au)" for hid au
    unfolding assetByHumanID_def userByID_def by (intro keeps_intros I)+
  let ?hid = "TrimSpace (ci_LinkedAssetHumanID q)" and ?au = "TrimSpace (ci_AssignedToUserID q)" and ?raw = "TrimSpace (ci_SLADueRFC3339 q)"
  let ?asset = "if ?hid = '''' then areturn None else abind (assetByHumanID ?hid) (\<lambda>i. areturn (Some i))"
  let ?user = "if ?au = '''' then areturn None else abind (userByID L ?au) (\<lambda>i. areturn (Some i))"
  obtain n d1 c d2 a d3 d0 d4 sla d5 i d6 where
    1: "statement incidentNumberSQL (failWith 500 ''failed to allocate incident number'') d = (Inr n, d1)" and
    2: "?asset d1 = (Inr c, d2)" and 3: "?user d2 = (Inr a, d3)" and 4: "getState d3 = (Inr d0, d4)" and
    5: "(if ?raw = '''' then areturn (now d0 + 8 * time_Hour) else given (t_parse L ?raw) 400 ''sla_due must be RFC3339'') d4 = (Inr sla, d5)" and
    6: "statement (sql (insertIncidentRow (newIncident L p q st n c a sla (now d0)))) (failWith 500 ''failed to create incident'') d5 = (Inr i, d6)" and
    7: "areturn (i, n, c) d6 = (Inr (newID, incNum, cmdb), d')"
    using assms unfolding createIncidentTx_def Let_def by (elim abind_Inr_cases)
  have s1: "?same d1" using keepsD [OF keeps_statement [OF num], of d] 1 by (metis snd_conv)
  have "keeps ?same ?asset" "keeps ?same ?user" by (intro keeps_intros look)+
  from keepsD [OF this(1) s1] keepsD [OF this(2)] 2 3 have s3: "?same d3" by (metis snd_conv)
  have d: "d0 = d3" "d5 = d3" "n = incNum" "c = cmdb" "i = newID" "d6 = d'"
    using 4 5 7 by (auto simp: getState_def areturn_def given_Inr split: if_splits)
  from 6 have "sql (insertIncidentRow (newIncident L p q st incNum cmdb a sla (now d))) d3 = (Inr newID, d')"
    using s3 by (simp add: statement_Inr d)
  then have "insertIncidentRow (newIncident L p q st incNum cmdb a sla (now d)) (d3\<lparr>stmt_no := Suc (stmt_no d3)\<rparr>) = (Inr newID, d')"
    by (simp add: sql_def Let_def split: if_splits)
  moreover have "incNum = ''INC'' @ lpad7 (int_str (incident_seq d + 1))"
    using 1 d by (auto simp: statement_Inr incidentNumberSQL_def nextval_def sql_def Let_def split: if_splits)
  ultimately show ?thesis
    using s3 by (intro conjI exI [of _ sla] exI [of _ a] exI [of _ "d3\<lparr>stmt_no := Suc (stmt_no d3)\<rparr>"]) simp_all
qed

lemma insertIncidentRow_Inr:
  assumes "insertIncidentRow row d = (Inr i, d')"
  shows "i = random_uuid d" "i \<notin> in_id ` set (incidents d)" "incidentCheck (row\<lparr>in_id := i, in_created_at := now d, in_updated_at := now d\<rparr>)"
    "incidents d' = incidents d @ [row\<lparr>in_id := i, in_created_at := now d, in_updated_at := now d\<rparr>]"
    "in_incident_number row \<notin> in_incident_number ` set (incidents d)" "fault_at d' = fault_at d"
  using assms by (auto simp: insertIncidentRow_def Let_def uuid_used_def split: if_splits option.splits)

lemma loadIncidentDetail_ok:
  assumes up: "\<forall>n. \<not> fault_at d n" and row: "find (\<lambda>x. in_id x = i) (incidents d) = Some row"
  shows "\<exists>cmdb d1. loadIncidentDetail L h i d
    = (Inr \<lparr>id_Incident = scanIncident d row, id_WorkNotes = in_work_notes row, id_CMDBContext = cmdb, id_Resolutions = incidentResolutions i d\<rparr>, d1)"
proof -
  let ?d1 = "d\<lparr>stmt_no := Suc (stmt_no d)\<rparr>"
  let ?same = "\<lambda>e. resolutions e = resolutions d \<and> fault_at e = fault_at d"
  have scan: "scanIncident ?d1 r = scanIncident d r" "il_CMDBDeviceID (scanIncident d r) = in_cmdb_ci r" for r
    by (simp_all add: scanIncident_def joinUser_def joinAsset_def split: option.split)
  have I: "table_inv ?same" by (auto simp: table_inv_def same_tables_fields)
  have snap: "keeps ?same (LoadIncidentCMDBSnapshot dev)" for dev
    unfolding LoadIncidentCMDBSnapshot_def by (intro keeps_intros I)
  obtain cmdb d2 where c: "(case in_cmdb_ci row of None \<Rightarrow> (None, ?d1)
      | Some dev \<Rightarrow> if dev = uuid_Nil then (None, ?d1)
          else (case LoadIncidentCMDBSnapshot dev ?d1 of (Inl _, d) \<Rightarrow> (None, d) | (Inr snap, d) \<Rightarrow> (Some (buildCMDBWire L h snap), d))) = (cmdb, d2)"
    by fastforce
  have "?same (snd (LoadIncidentCMDBSnapshot dev ?d1))" for dev by (rule keepsD [OF snap]) simp
  then have s: "?same d2" using c by (auto split: option.splits if_splits prod.splits sum.splits) (metis snd_conv)+
  then have "incidentResolutions i (d2\<lparr>stmt_no := m\<rparr>) = incidentResolutions i d" for m by (simp add: incidentResolutions_def)
  with s up row c show ?thesis
    by (simp add: loadIncidentDetail_def query_row_def query_def sql_def Let_def scan)
qed

definition createTx :: "lib \<Rightarrow> Principal \<Rightarrow> createIncidentRequest \<Rightarrow> string \<Rightarrow> (db, uuid \<times> string \<times> uuid option) act" where
  "createTx L p q st = transaction (createIncidentTx L p q st) (failWith 500 ''failed to create incident'') (failWith 500 ''failed to create incident'')"

lemma createTx_Inl: "createTx L p q st d = (Inl e, d') \<Longrightarrow> 400 \<le> resp_status e \<and> same_tables d d'"
proof -
  assume a: "createTx L p q st d = (Inl e, d')"
  have "refuses (createTx L p q st)"
    unfolding createTx_def createIncidentTx_def assetByHumanID_def userByID_def Let_def by (intro refuses_intros) simp_all
  with a show ?thesis by (auto simp: createTx_def intro: transaction_Inl dest: refusesD)
qed

lemma createTx_Inr:
  assumes "createTx L p q st d = (Inr (i, num, cmdb), d')"
  shows "num = ''INC'' @ lpad7 (int_str (incident_seq d + 1)) \<and> (\<exists>sla asg d1 d2. incidents d1 = incidents d \<and> fault_at d1 = fault_at d
    \<and> insertIncidentRow (newIncident L p q st num cmdb asg sla (now d)) d1 = (Inr i, d2) \<and> d' = d2\<lparr>stmt_no := Suc (stmt_no d2)\<rparr>)"
proof -
  obtain d2 where b: "createIncidentTx L p q st (d\<lparr>stmt_no := Suc (stmt_no d)\<rparr>) = (Inr (i, num, cmdb), d2)" and d': "d' = d2\<lparr>stmt_no := Suc (stmt_no d2)\<rparr>"
    using transaction_Inr [OF assms [unfolded createTx_def]] by blast
  from createIncidentTx_Inr [OF b] d' show ?thesis by auto
qed

text \<open>A create request either is refused and changes no table, or is the transaction above.\<close>

lemma handleCreate_cases:
  assumes run: "incidents_handleCreate L A r d = ((resp, ev), d')"
  obtains (refused) "400 \<le> resp_status resp" "ev = []" "same_tables d d'"
  | (created) p q st i num cmdb where "RequireMinRole L A (now d) r ''operator'' = Inr p" "createTx L p q st d = (Inr (i, num, cmdb), d')"
      "resp = RespJson 201 (JObj [(''id'', JStr (u_str L i)), (''incident_number'', JStr num)])"
proof -
  have step: "thesis" if "RequireMinRole L A (now d) r ''operator'' = Inr p"
      "(case abind (createTx L p q st) (\<lambda>(newID, incNum, cmdb).
         areturn (RespJson 201 (JObj [(''id'', JStr (u_str L newID)), (''incident_number'', JStr incNum)]),
                  [IncidentsMutated, INCIncidentCreated incNum (TrimSpace (ci_ShortDescription q)) cmdb])) d of
        (Inl e, s) \<Rightarrow> ((e, []), s) | (Inr x, s) \<Rightarrow> (x, s)) = ((resp, ev), d')" for p q st
  proof (cases "createTx L p q st d")
    case (Pair x d1)
    show ?thesis
    proof (cases x)
      case (Inl e)
      with Pair createTx_Inl [of L p q st d e d1] that refused show ?thesis by (simp add: abind_def)
    next
      case (Inr y)
      with Pair that created [OF that(1), of q st "fst y" "fst (snd y)" "snd (snd y)"] show ?thesis
        by (simp add: abind_def areturn_def case_prod_beta)
    qed
  qed
  show thesis
    using run step refused unfolding incidents_handleCreate_def answerEvents_def act_unfold Let_def createTx_def [symmetric]
    by (auto split: if_splits option.splits sum.splits dest!: RequireMinRole_refused)
qed

text \<open>An incident that is created exists: it is stored as a new last row with a fresh id, an allowed
  state and the caller's identity, the answer names its id and number, and reading it back returns that
  row with its work notes as long as the database answers.\<close>

theorem created_incident_readable:
  assumes run: "incidents_handleCreate L A r d = ((RespJson 201 body, ev), d')"
    and up: "\<forall>n. \<not> fault_at d n"
  shows "\<exists>row p. incidents d' = incidents d @ [row] \<and> in_id row \<notin> in_id ` set (incidents d) \<and> incidentCheck row
    \<and> RequireMinRole L A (now d) r ''operator'' = Inr p \<and> in_caller_id row = Some (p_UserID p)
    \<and> body = JObj [(''id'', JStr (u_str L (in_id row))), (''incident_number'', JStr (in_incident_number row))]
    \<and> (\<forall>h g q. rq_Method g = ''GET'' \<and> RequireMinRole L A (now d') g ''viewer'' = Inr q \<and> parseIncidentUUID L g = Some (in_id row)
        \<longrightarrow> (\<exists>detail. fst (incidents_handleGet L A h g d') = RespJson 200 (detailJson L detail)
              \<and> id_Incident detail = scanIncident d' row \<and> id_WorkNotes detail = in_work_notes row))"
  using run
proof (cases rule: handleCreate_cases)
  case (created p q st i num cmdb)
  from createTx_Inr [OF created(2)] obtain sla asg d1 d2 where
    ins: "insertIncidentRow (newIncident L p q st num cmdb asg sla (now d)) d1 = (Inr i, d2)"
    and same: "incidents d1 = incidents d" "fault_at d1 = fault_at d" "d' = d2\<lparr>stmt_no := Suc (stmt_no d2)\<rparr>" by blast
  define row where "row = (newIncident L p q st num cmdb asg sla (now d))\<lparr>in_id := i, in_created_at := now d1, in_updated_at := now d1\<rparr>"
  note f = insertIncidentRow_Inr [OF ins, folded row_def]
  have row: "incidents d' = incidents d @ [row]" "in_id row = i" "i \<notin> in_id ` set (incidents d)" "\<forall>n. \<not> fault_at d' n" "in_caller_id row = Some (p_UserID p)"
    "in_incident_number row = num" "incidentCheck row"
    using f same up by (simp_all add: row_def newIncident_def)
  have "\<forall>x \<in> set (incidents d). \<not> in_id x = i" using row(3) by blast
  then have find: "find (\<lambda>x. in_id x = i) (incidents d') = Some row"
    unfolding row(1) using find_append_None [of "incidents d" "\<lambda>x. in_id x = i" "[row]"] row(2) by simp
  have "\<exists>detail. fst (incidents_handleGet L A h g d') = RespJson 200 (detailJson L detail) \<and> id_Incident detail = scanIncident d' row \<and> id_WorkNotes detail = in_work_notes row"
    if "rq_Method g = ''GET'' \<and> RequireMinRole L A (now d') g ''viewer'' = Inr q \<and> parseIncidentUUID L g = Some (in_id row)" for h g q
    using loadIncidentDetail_ok [OF row(4) find, of L h] that row(2)
    by (force simp: incidents_handleGet_def answer_def act_unfold abind_def [of "statement _ _"] statement_def areturn_def)
  with row created show ?thesis by (intro exI [of _ row] exI [of _ p]) simp
qed simp

section \<open>The end of the number range\<close>

text \<open>With eight digits the number is that of the sequence value without its last digit.\<close>

lemma incidentNumber_truncated:
  assumes "10000000 \<le> n" and "n < 100000000"
  shows "''INC'' @ lpad7 (int_str n) = incident_fmt (n div 10)"
proof -
  define m where "m = nat n"
  have m: "10000000 \<le> m" "m < 100000000" "int_str n = nat_str m" "int_str (n div 10) = nat_str (m div 10)"
    using assms by (auto simp: m_def int_str_def nat_div_distrib)
  have "m div 10 < 10 ^ 7" "1000000 \<le> m div 10" using m by auto
  have ge: "7 \<le> length (nat_str (m div 10))"
  proof (rule ccontr)
    assume "\<not> 7 \<le> length (nat_str (m div 10))"
    moreover have "m div 10 < 10 ^ length (nat_str (m div 10))" by (rule nat_str_bound)
    ultimately have "m div 10 < 10 ^ 6" using power_increasing [of "length (nat_str (m div 10))" 6 "10 :: nat"] by simp
    with \<open>1000000 \<le> m div 10\<close> show False by simp
  qed
  moreover have "length (nat_str (m div 10)) \<le> 7" using \<open>m div 10 < 10 ^ 7\<close> by (rule length_nat_str) simp
  ultimately have l: "length (nat_str (m div 10)) = 7" by simp
  have "nat_str m = nat_str (m div 10) @ [digit_char (m mod 10)]" using m by (subst nat_str.simps) simp
  then show ?thesis by (simp add: lpad7_def incident_fmt_def Let_def m l)
qed

text \<open>Past number 9,999,999 the create route reuses the number of an older incident: with a sequence value
  from 10,000,000 to 99,999,999 it computes the number without the last digit, and while the incident
  with that number is stored, every request is refused and no incident is stored.\<close>

theorem incident_numbers_run_out:
  assumes seq: "9999999 \<le> incident_seq d" "incident_seq d < 99999999"
    and old: "incident_fmt ((incident_seq d + 1) div 10) \<in> in_incident_number ` set (incidents d)"
  shows "400 \<le> resp_status (fst (fst (incidents_handleCreate L A r d))) \<and> incidents (snd (incidents_handleCreate L A r d)) = incidents d"
proof -
  obtain resp ev d' where run: "incidents_handleCreate L A r d = ((resp, ev), d')" by (metis prod.exhaust)
  then show ?thesis
  proof (cases rule: handleCreate_cases)
    case refused
    with run show ?thesis by (simp add: same_tables_fields)
  next
    case (created p q st i num cmdb)
    from createTx_Inr [OF created(2)] obtain sla asg d1 d2 where num: "num = ''INC'' @ lpad7 (int_str (incident_seq d + 1))" and
      ins: "insertIncidentRow (newIncident L p q st num cmdb asg sla (now d)) d1 = (Inr i, d2)" and same: "incidents d1 = incidents d" by blast
    have "num \<notin> in_incident_number ` set (incidents d)" using insertIncidentRow_Inr(5) [OF ins] same by (simp add: newIncident_def)
    moreover have "num = incident_fmt ((incident_seq d + 1) div 10)" unfolding num using seq by (intro incidentNumber_truncated) simp_all
    ultimately show ?thesis using old by simp
  qed
qed

section \<open>Commands run from an incident\<close>

definition noteAdded :: "json \<Rightarrow> time \<Rightarrow> incident \<Rightarrow> incident" where
  "noteAdded note t r = r\<lparr>in_work_notes := in_work_notes r @ [note], in_updated_at := t\<rparr>"

lemma Journal_adds:
  assumes up: "\<forall>n. \<not> fault_at d n" and c: "find (\<lambda>c. dc_id c = i) (device_commands d) = Some c" and i: "i \<noteq> uuid_Nil"
    and inc: "dc_incident_context_id c = Some inc" "inc \<noteq> uuid_Nil"
  shows "incidents (snd (AppendIncidentJournalForTerminalCommand L i ok out uuid_Nil '''' d))
    = update_where (\<lambda>r. in_id r = inc) (noteAdded (terminalNote L (now d) i ok out uuid_Nil '''' (dc_command_type c) (dc_status c)) (now d)) (incidents d)"
  using assms by (simp add: AppendIncidentJournalForTerminalCommand_def AppendIncidentWorkNoteJSON_def query_row_def sql_def Let_def noteAdded_def [abs_def])

lemma finish_journal:
  assumes up: "\<forall>n. \<not> fault_at d n" and c: "find (\<lambda>c. dc_id c = i) (device_commands d) = Some c" and i: "i \<noteq> uuid_Nil"
    and inc: "dc_incident_context_id c = Some inc" "inc \<noteq> uuid_Nil" and st: "validateDeviceCommandStatus st = None"
  shows "incidents (snd (finishDeviceCommand L st ok i out d))
    = update_where (\<lambda>r. in_id r = inc) (noteAdded (terminalNote L (now d) i ok (truncateOutput out) uuid_Nil '''' (dc_command_type c) st) (now d)) (incidents d)"
proof -
  let ?f = "\<lambda>c. c\<lparr>dc_status := st, dc_output := truncateOutput out, dc_completed_at := Some (now d)\<rparr>"
  let ?d1 = "d\<lparr>stmt_no := Suc (stmt_no d), device_commands := update_where (\<lambda>c. dc_id c = i) ?f (device_commands d)\<rparr>"
  let ?d2 = "?d1\<lparr>stmt_no := Suc (stmt_no ?d1)\<rparr>"
  have u: "updateDeviceCommandStatus i st (truncateOutput out) True d = (Inr (), ?d1)"
    using up st by (simp add: updateDeviceCommandStatus_def sql_def Let_def)
  have id: "dc_id c = i" using c by (auto simp: find_Some_iff)
  have f: "find (\<lambda>c. dc_id c = i) (device_commands ?d2) = Some (?f c)"
    using find_update_where [of dc_id ?f i "\<lambda>c. dc_id c = i" "device_commands d"] by (simp add: c id)
  then have g: "GetDeviceCommand i uuid_Nil ?d1 = (Inr (?f c), ?d2)"
    using up by (simp add: GetDeviceCommand_def query_row_def sql_def Let_def)
  have "incidents (snd (AppendIncidentJournalForTerminalCommand L i ok (truncateOutput out) uuid_Nil '''' ?d2))
    = update_where (\<lambda>r. in_id r = inc) (noteAdded (terminalNote L (now d) i ok (truncateOutput out) uuid_Nil '''' (dc_command_type c) st) (now d)) (incidents d)"
    using Journal_adds [OF _ f i] up inc by simp
  then show ?thesis by (simp add: finishDeviceCommand_def u g id)
qed

lemma ApplyOutcome_journal:
  assumes up: "\<forall>n. \<not> fault_at d n" and p: "decodeCommandResult raw = Some p" "TrimSpace (cr_Type p) = ''device_command_result''"
    and i: "TrimSpace (cr_CommandID p) \<noteq> ''''" "u_parse L (TrimSpace (cr_CommandID p)) = Some i" "i \<noteq> uuid_Nil"
    and o: "ownedByCertSerial i (TrimSpace s) d"
    and c: "find (\<lambda>c. dc_id c = i) (device_commands d) = Some c" "dc_incident_context_id c = Some inc" "inc \<noteq> uuid_Nil"
  shows "incidents (fst (snd (ApplyDeviceCommandOutcome L s raw (d, dash))))
    = update_where (\<lambda>r. in_id r = inc) (noteAdded (terminalNote L (now d) i (cr_OK p) (truncateOutput (resultOutput p)) uuid_Nil ''''
        (dc_command_type c) (if cr_OK p then ''completed'' else ''failed'')) (now d)) (incidents d)"
proof -
  let ?d1 = "d\<lparr>stmt_no := Suc (stmt_no d)\<rparr>"
  let ?r = "if cr_OK p then CompleteDeviceCommand L i (resultOutput p) ?d1 else FailDeviceCommand L i (resultOutput p) ?d1"
  have v: "validateDeviceCommandStatus ''completed'' = None" "validateDeviceCommandStatus ''failed'' = None" by code_simp+
  have "ownedByCertSerial i (TrimSpace s) ?d1" using o by (simp add: ownedByCertSerial_def)
  then have own: "DeviceCommandOwnedByCertSerial i (TrimSpace s) d = (Inr True, ?d1)"
    using up by (simp add: DeviceCommandOwnedByCertSerial_def query_def sql_def Let_def)
  obtain r d2 where r: "?r = (r, d2)" by fastforce
  obtain r3 d3 where h: "humanIDByCertSerial (TrimSpace s) d2 = (r3, d3)" by fastforce
  have "incidents d3 = incidents d2" using h by (auto simp: humanIDByCertSerial_def Let_def query_row_def sql_def split: if_splits)
  moreover have "fst (snd (ApplyDeviceCommandOutcome L s raw (d, dash))) \<in> {d2, d3}"
    using p i own r h by (cases "cr_OK p"; cases r; cases r3) (simp_all add: ApplyDeviceCommandOutcome_def)
  moreover have "incidents d2 = update_where (\<lambda>r. in_id r = inc) (noteAdded (terminalNote L (now d) i (cr_OK p) (truncateOutput (resultOutput p)) uuid_Nil ''''
        (dc_command_type c) (if cr_OK p then ''completed'' else ''failed'')) (now d)) (incidents d)"
  proof -
    have "incidents (snd (finishDeviceCommand L st b i out ?d1))
      = update_where (\<lambda>r. in_id r = inc) (noteAdded (terminalNote L (now d) i b (truncateOutput out) uuid_Nil '''' (dc_command_type c) st) (now d)) (incidents d)"
      if "validateDeviceCommandStatus st = None" for st b out
      using finish_journal [of ?d1 i c inc st L b out] up c i(3) that by simp
    from this [OF v(1)] this [OF v(2)] show ?thesis
      using r by (auto simp: CompleteDeviceCommand_def FailDeviceCommand_def split: if_splits) (metis snd_conv)+
  qed
  ultimately show ?thesis by auto
qed

lemma insert_new:
  assumes "\<not> fault_at d (stmt_no d)" "random_uuid d \<notin> dc_id ` set (device_commands d)" and ins: "InsertDeviceCommand dev ct pl inc d = (Inr c, d')"
  shows "c = newCommand dev (TrimSpace (ToLower ct)) (TrimSpace pl) inc d" "device_commands d' = device_commands d @ [c]"
    "\<And>x. inc = Some x \<Longrightarrow> x \<in> in_id ` set (incidents d)"
  using InsertDeviceCommand_result [of dev ct pl inc d c] insertCommandRow_result [OF assms(1,2), of dev "TrimSpace (ToLower ct)" "TrimSpace pl" inc c] ins
  by auto

lemma refuses_dispatch [refuses_intros]: "refuses (dispatchIncidentCommand L dispatch r p inc dev ct pl cmd)"
  by (auto simp: refuses_def dispatchIncidentCommand_def Let_def split: prod.splits sum.splits bool.splits)

lemma postCommand_queues:
  assumes post: "incidents_handlePostCommand L A (Some dispatch) r (d, w) = (RespJson 201 j, d1, w1)"
    and up: "\<forall>n. \<not> fault_at d n" and fresh: "random_uuid d \<notin> dc_id ` set (device_commands d)"
  shows "\<exists>inc c. parseIncidentUUID L r = Some inc \<and> inc \<in> in_id ` set (incidents d) \<and> dc_id c = random_uuid d \<and> dc_incident_context_id c = Some inc
    \<and> dc_status c = ''sent'' \<and> device_commands d1 = device_commands d @ [c] \<and> incidents d1 = incidents d
    \<and> assets d1 = assets d \<and> fault_at d1 = fault_at d \<and> now d1 = now d"
proof -
  obtain p inc ct payload dev cmd d2 where inc: "parseIncidentUUID L r = Some inc"
    and ins: "InsertDeviceCommand dev (TrimSpace (ToLower ct)) payload (Some inc) (d\<lparr>stmt_no := Suc (stmt_no d)\<rparr>) = (Inr cmd, d2)"
    and run: "dispatchIncidentCommand L dispatch r p inc dev (TrimSpace (ToLower ct)) payload cmd (d2, w) = (Inr (RespJson 201 j), d1, w1)"
    using post unfolding incidents_handlePostCommand_def Let_def
    by (elim answer_success [elim_format]) ((intro refuses_intros; simp)+, auto elim!: abind_Inr_cases simp: act_Inr)
  let ?ct = "TrimSpace (ToLower ct)"
  let ?same = "\<lambda>e. incidents e = incidents d \<and> assets e = assets d \<and> fault_at e = fault_at d \<and> now e = now d"
  have I: "table_inv ?same" by (auto simp: table_inv_def same_tables_fields)
  have "keeps ?same (insertCommandRow dv t pl x)" for dv t pl x
    by (auto simp: keeps_def insertCommandRow_def Let_def uuid_used_def)
  then have "keeps ?same (InsertDeviceCommand dev ?ct payload (Some inc))"
    unfolding InsertDeviceCommand_def Let_def by (intro keeps_intros I)
  from keepsD [OF this, of "d\<lparr>stmt_no := Suc (stmt_no d)\<rparr>"] have s2: "?same d2" by (simp add: ins)
  have c: "cmd = newCommand dev (TrimSpace (ToLower ?ct)) (TrimSpace payload) (Some inc) d" "device_commands d2 = device_commands d @ [cmd]"
    "inc \<in> in_id ` set (incidents d)"
    using insert_new [OF _ _ ins] up fresh by (simp_all add: newCommand_def random_uuid_def)
  obtain serial d3 w2 where r3: "ResolveAssetCertSerial dev d2 = (Inr serial, d3)"
    and d1: "d1 = snd (InsertAuditRecord (incidentCommandAudit L r p inc dev (dc_id cmd) ?ct) (snd (MarkDeviceCommandSent (dc_id cmd) d3)))"
    using run by (auto simp: dispatchIncidentCommand_def Let_def split: prod.splits sum.splits bool.splits)
  let ?all = "\<lambda>e. ?same e \<and> device_commands e = device_commands d2"
  have A: "table_inv ?all" by (auto simp: table_inv_def same_tables_fields)
  have "keeps ?all (ResolveAssetCertSerial dev)" unfolding ResolveAssetCertSerial_def by (intro keeps_intros A)
  from keepsD [OF this, of d2] s2 r3 have s3: "?all d3" by simp
  have m: "?same (snd (MarkDeviceCommandSent (dc_id cmd) d3))" "device_commands (snd (MarkDeviceCommandSent (dc_id cmd) d3))
      = map (\<lambda>x. if dc_id x = dc_id cmd then x\<lparr>dc_status := ''sent'', dc_output := ''''\<rparr> else x) (device_commands d2)"
    using MarkDeviceCommandSent_rows [of d3 "dc_id cmd"] up s3 by simp_all
  have "keeps (\<lambda>e. ?same e \<and> device_commands e = cs) (InsertAuditRecord a)" for cs a
    by (rule keeps_audit) (auto simp: table_inv_def same_tables_fields)
  from keepsD [OF this, of "snd (MarkDeviceCommandSent (dc_id cmd) d3)"] m d1
  have e: "?same d1" "device_commands d1 = map (\<lambda>x. if dc_id x = dc_id cmd then x\<lparr>dc_status := ''sent'', dc_output := ''''\<rparr> else x) (device_commands d2)"
    by auto
  have id: "dc_id cmd = random_uuid d" using c(1) by (simp add: newCommand_def)
  have "map (\<lambda>x. if dc_id x = dc_id cmd then x\<lparr>dc_status := ''sent'', dc_output := ''''\<rparr> else x) (device_commands d) = device_commands d"
    using fresh id by (intro map_idI) (metis imageI)
  then show ?thesis
    using e inc c by (intro exI [of _ inc] exI [of _ "cmd\<lparr>dc_status := ''sent'', dc_output := ''''\<rparr>"]) (simp add: newCommand_def)
qed

text \<open>C25: a command run from an incident ends in its journal: when the route answers 201 the command is queued
  with a reference to the incident, and the answer of the device's agent then appends one work note to
  that incident, with the command, its outcome and its output, and touches no other incident.\<close>

theorem incident_command_journalled:
  assumes post: "incidents_handlePostCommand L A (Some dispatch) r (d, w) = (RespJson 201 j, d1, w1)"
    and up: "\<forall>n. \<not> fault_at d n" and fresh: "random_uuid d \<notin> dc_id ` set (device_commands d)" "random_uuid d \<noteq> uuid_Nil"
    and lib: "uuid_text_sound L" "TrimSpace (u_str L (random_uuid d)) \<noteq> ''''" and inc: "parseIncidentUUID L r = Some inc" "inc \<noteq> uuid_Nil"
  shows "\<exists>c. device_commands d1 = device_commands d @ [c] \<and> dc_incident_context_id c = Some inc \<and> inc \<in> in_id ` set (incidents d)
    \<and> (\<forall>serial ok out e dash. assetHasSerial d (dc_device_id c) (TrimSpace serial) \<longrightarrow>
        (\<exists>p. decodeCommandResult (RawDoc (norm_json (reportResult (TrimSpace (u_str L (dc_id c))) ok out e))) = Some p \<and> cr_OK p = ok
          \<and> incidents (fst (snd (ApplyDeviceCommandOutcome L serial (RawDoc (norm_json (reportResult (TrimSpace (u_str L (dc_id c))) ok out e))) (d1, dash))))
            = update_where (\<lambda>r. in_id r = inc) (noteAdded (terminalNote L (now d) (dc_id c) ok (truncateOutput (resultOutput p)) uuid_Nil ''''
                (dc_command_type c) (if ok then ''completed'' else ''failed'')) (now d)) (incidents d)))"
proof -
  obtain c where c: "inc \<in> in_id ` set (incidents d)" "dc_id c = random_uuid d" "dc_incident_context_id c = Some inc"
    "device_commands d1 = device_commands d @ [c]" "incidents d1 = incidents d" "assets d1 = assets d" "fault_at d1 = fault_at d" "now d1 = now d"
    using postCommand_queues [OF post up fresh(1)] inc by auto
  have "\<forall>x \<in> set (device_commands d). \<not> dc_id x = random_uuid d" using fresh(1) by (metis imageI)
  then have find: "find (\<lambda>x. dc_id x = random_uuid d) (device_commands d1) = Some c"
    unfolding c(4) using find_append_None [of "device_commands d" "\<lambda>x. dc_id x = random_uuid d" "[c]"] c(2) by simp
  have "\<exists>p. decodeCommandResult (RawDoc (norm_json (reportResult (TrimSpace (u_str L (dc_id c))) ok out e))) = Some p \<and> cr_OK p = ok
      \<and> incidents (fst (snd (ApplyDeviceCommandOutcome L serial (RawDoc (norm_json (reportResult (TrimSpace (u_str L (dc_id c))) ok out e))) (d1, dash))))
        = update_where (\<lambda>r. in_id r = inc) (noteAdded (terminalNote L (now d) (dc_id c) ok (truncateOutput (resultOutput p)) uuid_Nil ''''
            (dc_command_type c) (if ok then ''completed'' else ''failed'')) (now d)) (incidents d)"
    if own: "assetHasSerial d (dc_device_id c) (TrimSpace serial)" for serial ok out e dash
  proof -
    define p where "p = \<lparr>cr_Type = ''device_command_result'', cr_CommandID = TrimSpace (u_str L (dc_id c)), cr_OK = ok,
       cr_Output = (if \<not> ok \<and> out = '''' then e else out), cr_Error = e\<rparr>"
    have p: "decodeCommandResult (RawDoc (norm_json (reportResult (TrimSpace (u_str L (dc_id c))) ok out e))) = Some p"
      unfolding p_def by (rule decode_reportResult)
    have t: "TrimSpace ''device_command_result'' = ''device_command_result''" by code_simp
    have o: "ownedByCertSerial (random_uuid d) (TrimSpace serial) d1"
      using c own by (auto simp: ownedByCertSerial_def assetHasSerial_def list_ex_iff)
    have "incidents (fst (snd (ApplyDeviceCommandOutcome L serial (RawDoc (norm_json (reportResult (TrimSpace (u_str L (dc_id c))) ok out e))) (d1, dash))))
        = update_where (\<lambda>r. in_id r = inc) (noteAdded (terminalNote L (now d1) (random_uuid d) (cr_OK p) (truncateOutput (resultOutput p)) uuid_Nil ''''
            (dc_command_type c) (if cr_OK p then ''completed'' else ''failed'')) (now d1)) (incidents d1)"
      by (rule ApplyOutcome_journal [OF _ p _ _ _ fresh(2) o find c(3) inc(2)]) (use up c lib t in \<open>simp_all add: p_def uuid_text_sound_def\<close>)
    with p c show ?thesis by (intro exI [of _ p]) (simp add: p_def)
  qed
  with c show ?thesis by blast
qed

section \<open>An example\<close>

definition exampleIncident :: "string \<Rightarrow> incident" where
  "exampleIncident num = \<lparr>in_id = 2, in_incident_number = num, in_caller_id = Some 1, in_assigned_to = None, in_cmdb_ci = Some 7, in_state = ''new'',
     in_impact = 2, in_urgency = 2, in_short_description = ''printer'', in_work_notes = [], in_sla_due = 0, in_source_alert_fingerprint = None,
     in_created_at = 0, in_updated_at = 0\<rparr>"

definition exampleDesk :: "string \<Rightarrow> int \<Rightarrow> db" where
  "exampleDesk num seq = empty_db\<lparr>users := [exampleUser 1 ''root'' ''h'' ''admin''], assets := [exampleDevice], incidents := [exampleIncident num],
     incident_seq := seq, uuid_next := 9\<rparr>"

definition deskRequest :: "string \<Rightarrow> json_object \<Rightarrow> request" where
  "deskRequest m body = (exampleRequest m ''/v1/incidents/2'' body)\<lparr>rq_Principal := Some exampleAdmin\<rparr>"

lemma exampleDesk_incidents: "incidents (exampleDesk num seq) = [exampleIncident num]"
  by (simp add: exampleDesk_def)

lemma exampleDesk_wf: "wf_desk (exampleDesk ''INC0000001'' 1)"
proof -
  have "incidentCheck (exampleIncident ''INC0000001'')" by code_simp
  then show ?thesis
    by (simp add: wf_desk_def exampleDesk_def empty_db_def incidentRowOK_def refers_def exampleUser_def exampleDevice_def)
      (simp add: exampleIncident_def)
qed


theorem incident_patch_atomic_witness:
  "\<exists>d'. snd (incidents_handlePatch exampleLib exampleAuth None (deskRequest ''PATCH'' [(''state'', JStr ''Resolved'')]) (exampleDesk ''INC0000001'' 1)) = d'
     \<and> patched 2 (exampleDesk ''INC0000001'' 1) d' \<and> map in_state (incidents d') = [''resolved'']"
proof -
  let ?run = "incidents_handlePatch exampleLib exampleAuth None (deskRequest ''PATCH'' [(''state'', JStr ''Resolved'')]) (exampleDesk ''INC0000001'' 1)"
  have s: "resp_status (fst (fst ?run)) = 200" and p: "parseIncidentUUID exampleLib (deskRequest ''PATCH'' [(''state'', JStr ''Resolved'')]) = Some 2"
    and m: "map in_state (incidents (snd ?run)) = [''resolved'']" by code_simp+
  obtain resp ev d' where r: "?run = ((resp, ev), d')" by (metis prod.exhaust)
  from incident_patch_atomic [OF r] s p m show ?thesis by (auto simp: r)
qed

theorem created_incident_readable_witness:
  "\<exists>row. incidents (snd (incidents_handleCreate exampleLib exampleAuth (deskRequest ''POST'' [(''short_description'', JStr ''x'')]) (exampleDesk ''INC0000001'' 1)))
      = [exampleIncident ''INC0000001'', row] \<and> in_caller_id row = Some 1"
proof -
  let ?run = "incidents_handleCreate exampleLib exampleAuth (deskRequest ''POST'' [(''short_description'', JStr ''x'')]) (exampleDesk ''INC0000001'' 1)"
  obtain resp ev d' where r: "?run = ((resp, ev), d')" by (metis prod.exhaust)
  have "case fst (fst ?run) of RespJson n _ \<Rightarrow> n = 201 | _ \<Rightarrow> False" by code_simp
  then obtain body where b: "resp = RespJson 201 body" by (cases resp) (auto simp: r)
  have up: "\<forall>n. \<not> fault_at (exampleDesk ''INC0000001'' 1) n" by (simp add: exampleDesk_def empty_db_def)
  have q: "RequireMinRole exampleLib exampleAuth (now (exampleDesk ''INC0000001'' 1)) (deskRequest ''POST'' [(''short_description'', JStr ''x'')]) ''operator'' = Inr exampleAdmin"
    by code_simp
  from created_incident_readable [OF r [unfolded b] up] q show ?thesis
    using exampleDesk_incidents by (auto simp: r exampleAdmin_def)
qed

theorem incident_numbers_run_out_witness:
  "400 \<le> resp_status (fst (fst (incidents_handleCreate exampleLib exampleAuth (deskRequest ''POST'' [(''short_description'', JStr ''x'')])
     (exampleDesk ''INC1000000'' 9999999))))"
proof -
  have "char_of (49 :: nat) = CHR ''1''" "char_of (48 :: nat) = CHR ''0''" by code_simp+
  then have "incident_fmt 1000000 = ''INC1000000''" by (simp add: incident_fmt_def int_str_def nat_str.simps digit_char_def Let_def)
  then show ?thesis
    using incident_numbers_run_out [of "exampleDesk ''INC1000000'' 9999999" exampleLib exampleAuth "deskRequest ''POST'' [(''short_description'', JStr ''x'')]"]
    by (simp add: exampleDesk_def exampleIncident_def)
qed

theorem incident_command_journalled_witness:
  "\<exists>note. map in_work_notes (incidents (fst (snd (ApplyDeviceCommandOutcome exampleLib ''42'' (RawDoc (norm_json (reportResult ''10'' True ''pong'' '''')))
      (fst (snd (incidents_handlePostCommand exampleLib exampleAuth (Some (\<lambda>_ _ w. (True, w))) (deskRequest ''POST'' [(''command_type'', JStr ''ping'')])
        (exampleDesk ''INC0000001'' 1, ()))), NewDashboardHub))))) = [[note]]"
proof -
  let ?d = "exampleDesk ''INC0000001'' 1" and ?r = "deskRequest ''POST'' [(''command_type'', JStr ''ping'')]"
  let ?run = "incidents_handlePostCommand exampleLib exampleAuth (Some (\<lambda>_ _ w. (True, w))) ?r (?d, ())"
  obtain resp d1 x where r: "?run = (resp, d1, x)" by (cases ?run) auto
  have "case fst ?run of RespJson n _ \<Rightarrow> n = 201 | _ \<Rightarrow> False" by code_simp
  then obtain j where j: "resp = RespJson 201 j" by (cases resp) (auto simp: r)
  have u: "random_uuid ?d = 10" "TrimSpace (u_str exampleLib 10) = ''10''" "TrimSpace ''42'' = ''42''" by code_simp+
  have p: "parseIncidentUUID exampleLib ?r = Some 2" by code_simp
  have e: "\<forall>n. \<not> fault_at ?d n" "random_uuid ?d \<notin> dc_id ` set (device_commands ?d)" "random_uuid ?d \<noteq> uuid_Nil" "TrimSpace (u_str exampleLib (random_uuid ?d)) \<noteq> ''''"
    "device_commands ?d = []" "incidents ?d = [exampleIncident ''INC0000001'']"
    unfolding u by (simp_all add: exampleDesk_def empty_db_def)
  have two: "(2 :: uuid) \<noteq> uuid_Nil" by simp
  obtain c where c: "device_commands d1 = device_commands ?d @ [c]" "\<forall>serial ok out e dash. assetHasSerial ?d (dc_device_id c) (TrimSpace serial) \<longrightarrow>
        (\<exists>p. decodeCommandResult (RawDoc (norm_json (reportResult (TrimSpace (u_str exampleLib (dc_id c))) ok out e))) = Some p \<and> cr_OK p = ok
          \<and> incidents (fst (snd (ApplyDeviceCommandOutcome exampleLib serial (RawDoc (norm_json (reportResult (TrimSpace (u_str exampleLib (dc_id c))) ok out e))) (d1, dash))))
            = update_where (\<lambda>r. in_id r = 2) (noteAdded (terminalNote exampleLib (now ?d) (dc_id c) ok (truncateOutput (resultOutput p)) uuid_Nil []
                (dc_command_type c) (if ok then ''completed'' else ''failed'')) (now ?d)) (incidents ?d))"
    using incident_command_journalled [OF r [unfolded j] e(1-3) exampleLib_sound e(4) p two] by blast
  have "map dc_id (device_commands (fst (snd ?run))) = [10] \<and> map dc_device_id (device_commands (fst (snd ?run))) = [7]" by code_simp
  then have i: "dc_id c = 10" "dc_device_id c = 7" using c(1) by (simp_all add: r e(5))
  have own: "assetHasSerial ?d (dc_device_id c) (TrimSpace ''42'')" unfolding i by code_simp
  obtain p where "incidents (fst (snd (ApplyDeviceCommandOutcome exampleLib ''42'' (RawDoc (norm_json (reportResult ''10'' True ''pong'' []))) (d1, NewDashboardHub))))
      = update_where (\<lambda>r. in_id r = 2) (noteAdded (terminalNote exampleLib (now ?d) (dc_id c) True (truncateOutput (resultOutput p)) uuid_Nil []
                (dc_command_type c) ''completed'') (now ?d)) (incidents ?d)"
    using c(2) [rule_format, OF own, of True "''pong''" "[]" NewDashboardHub] unfolding i u by auto
  then show ?thesis by (simp add: r e(6) update_where_def noteAdded_def) (simp add: exampleIncident_def)
qed

end
