(* ===== verification/Profiles.thy ===== *)
theory Profiles
  imports Compliance Routes
begin

text \<open>
  Configuration profiles and their assignments (\<open>api/configuration_profiles.go\<close>) and the device groups they
  are assigned to (\<open>api/principal_groups.go\<close>). The constraints are those of migrations 16 and 17. \<open>rq_PathID\<close>
  is \<open>{id}\<close> or \<open>{assignmentId}\<close>, \<open>rq_PathDevice\<close> is \<open>{deviceId}\<close>.
\<close>

section \<open>Profiles\<close>

definition parseProfileUUID :: "lib \<Rightarrow> request \<Rightarrow> string + uuid" where
  "parseProfileUUID L r =
     (let raw = TrimSpace (rq_PathID r)
      in if raw = '''' then Inl ''missing profile id'' else (case u_parse L raw of None \<Rightarrow> Inl (u_parse_err L raw) | Some i \<Rightarrow> Inr i))"

definition profileID :: "lib \<Rightarrow> request \<Rightarrow> ('s, uuid) act" where
  "profileID L r = (case parseProfileUUID L r of Inl e \<Rightarrow> fail 400 e | Inr i \<Rightarrow> areturn i)"

definition allowedPlatforms :: "string list" where
  "allowedPlatforms = [''windows'', ''linux'', ''android'']"

definition allowedPlatform :: "string \<Rightarrow> string option" where
  "allowedPlatform s = (let p = ToLower (TrimSpace s) in if p \<in> set allowedPlatforms then Some p else None)"

definition payloadJson :: "raw_json \<Rightarrow> json" where
  "payloadJson raw = (case raw of RawDoc v \<Rightarrow> v | _ \<Rightarrow> JObj [])"

definition profileJson :: "lib \<Rightarrow> configuration_profile \<Rightarrow> json" where
  "profileJson L p =
     JObj [(''id'', JStr (u_str L (cf_id p))), (''name'', JStr (cf_name p)), (''platform'', JStr (cf_platform p)), (''type'', JStr (cf_type p)),
           (''payload'', payloadJson (cf_payload p)), (''created_at'', JStr (t_json L (cf_created_at p)))]"

definition profiles_handleList :: "lib \<Rightarrow> DashboardAuth \<Rightarrow> request \<Rightarrow> db \<Rightarrow> response \<times> db" where
  "profiles_handleList L A r = answer
     (abind (ifMethod r ''GET'') (\<lambda>_.
      abind (authorize L A r ''viewer'') (\<lambda>_.
      abind (statement (query (\<lambda>d. take 800 (sort_key (\<lambda>p. - cf_created_at p) (configuration_profiles d)))) (failWith 500 ''failed to list profiles'')) (\<lambda>rows.
      areturn (RespJson 200 (JArr (map (profileJson L) rows)))))))"

definition profileCheck :: "configuration_profile \<Rightarrow> bool" where
  "profileCheck p \<longleftrightarrow> cf_platform p \<in> set allowedPlatforms \<and> pg_trim (cf_type p) \<noteq> ''''"

definition insertProfileRow :: "string \<Rightarrow> string \<Rightarrow> string \<Rightarrow> raw_json \<Rightarrow> db \<Rightarrow> uuid sql_result" where
  "insertProfileRow name platform ptype payload d =
     (let i = random_uuid d;
          row = \<lparr>cf_id = i, cf_name = name, cf_platform = platform, cf_type = ptype, cf_payload = payload, cf_created_at = now d\<rparr>
      in if \<not> profileCheck row then (Inl ErrCheck, uuid_used d)
         else if i \<in> cf_id ` set (configuration_profiles d) then (Inl ErrUnique, uuid_used d)
         else (Inr i, (uuid_used d)\<lparr>configuration_profiles := configuration_profiles d @ [row]\<rparr>))"

definition decodeCreateProfile :: "json_object \<Rightarrow> (string \<times> string \<times> string \<times> raw_json) option" where
  "decodeCreateProfile m =
     (case (get_string ''name'' m, get_string ''platform'' m, get_string ''type'' m) of
        (Some n, Some p, Some t) \<Rightarrow> Some (n, p, t, get_raw ''payload'' m)
      | _ \<Rightarrow> None)"

definition profiles_handleCreate :: "lib \<Rightarrow> DashboardAuth \<Rightarrow> request \<Rightarrow> db \<Rightarrow> response \<times> db" where
  "profiles_handleCreate L A r = answer
     (abind (ifMethod r ''POST'') (\<lambda>_.
      abind (authorize L A r ''operator'') (\<lambda>_.
      abind (given (decodeBody r decodeCreateProfile) 400 ''invalid JSON body'') (\<lambda>(n, pl, t, raw).
      let name = TrimSpace n; ptype = TrimSpace t
      in abind (require (\<not> (name = '''' \<or> RuneCount name > 200 \<or> ptype = '''')) 400 ''name and type are required'') (\<lambda>_.
         abind (given (allowedPlatform pl) 400 ''platform must be windows, linux, or android'') (\<lambda>platform.
         let payload = (if raw = RawEmpty then RawDoc (JObj []) else raw)
         in abind (statement (sql (insertProfileRow name platform ptype payload)) (failWith 500 ''failed to create profile'')) (\<lambda>i.
            areturn (RespJson 201 (JObj [(''id'', JStr (u_str L i))])))))))))"

definition profiles_handleGet :: "lib \<Rightarrow> DashboardAuth \<Rightarrow> request \<Rightarrow> db \<Rightarrow> response \<times> db" where
  "profiles_handleGet L A r = answer
     (abind (ifMethod r ''GET'') (\<lambda>_.
      abind (authorize L A r ''viewer'') (\<lambda>_.
      abind (profileID L r) (\<lambda>pid.
      abind (statement (query_row (\<lambda>d. find (\<lambda>p. cf_id p = pid) (configuration_profiles d))) (failWith 404 ''profile not found'')) (\<lambda>p.
      areturn (RespJson 200 (profileJson L p)))))))"

definition updateProfileRow :: "uuid \<Rightarrow> (configuration_profile \<Rightarrow> configuration_profile) \<Rightarrow> db \<Rightarrow> nat sql_result" where
  "updateProfileRow pid f d =
     (let rows = update_where (\<lambda>p. cf_id p = pid) f (configuration_profiles d)
      in if list_ex (\<lambda>p. cf_id p = pid \<and> \<not> profileCheck p) rows then (Inl ErrCheck, d)
         else (Inr (affected (\<lambda>p. cf_id p = pid) (configuration_profiles d)), d\<lparr>configuration_profiles := rows\<rparr>))"

text \<open>One \<open>UPDATE\<close> of the patch: an error and a missing row are answered alike.\<close>

definition profileSet :: "uuid \<Rightarrow> (configuration_profile \<Rightarrow> configuration_profile) \<Rightarrow> (db, unit) act" where
  "profileSet pid f =
     abind (statement (sql (updateProfileRow pid f)) (failWith 404 ''profile not found'')) (\<lambda>n.
     require (n \<noteq> 0) 404 ''profile not found'')"

record patchProfileRequest =
  pp_Name :: "string option"
  pp_Type :: "string option"
  pp_Payload :: raw_json
  pp_Platform :: "string option"

definition decodePatchProfile :: "json_object \<Rightarrow> patchProfileRequest option" where
  "decodePatchProfile m =
     (case (get_string_ptr ''name'' m, get_string_ptr ''type'' m, get_string_ptr ''platform'' m) of
        (Some n, Some t, Some p) \<Rightarrow> Some \<lparr>pp_Name = n, pp_Type = t, pp_Payload = get_raw ''payload'' m, pp_Platform = p\<rparr>
      | _ \<Rightarrow> None)"

definition patchProfile :: "uuid \<Rightarrow> patchProfileRequest \<Rightarrow> (db, unit) act" where
  "patchProfile pid q =
     abind (case pp_Name q of
              None \<Rightarrow> areturn ()
            | Some s \<Rightarrow>
                (let name = TrimSpace s
                 in abind (require (\<not> (name = '''' \<or> RuneCount name > 200)) 400 ''invalid name'') (\<lambda>_.
                    profileSet pid (cf_name_update (\<lambda>_. name))))) (\<lambda>_.
     abind (case pp_Type q of
              None \<Rightarrow> areturn ()
            | Some s \<Rightarrow>
                (let t = TrimSpace s
                 in abind (require (t \<noteq> '''') 400 ''invalid type'') (\<lambda>_. profileSet pid (cf_type_update (\<lambda>_. t))))) (\<lambda>_.
     abind (case pp_Platform q of
              None \<Rightarrow> areturn ()
            | Some s \<Rightarrow>
                abind (given (allowedPlatform s) 400 ''invalid platform'') (\<lambda>p. profileSet pid (cf_platform_update (\<lambda>_. p)))) (\<lambda>_.
     if pp_Payload q = RawEmpty then areturn () else profileSet pid (cf_payload_update (\<lambda>_. pp_Payload q)))))"

definition profiles_handlePatch :: "lib \<Rightarrow> DashboardAuth \<Rightarrow> request \<Rightarrow> db \<Rightarrow> response \<times> db" where
  "profiles_handlePatch L A r = answer
     (abind (ifMethod r ''PATCH'') (\<lambda>_.
      abind (authorize L A r ''operator'') (\<lambda>_.
      abind (profileID L r) (\<lambda>pid.
      abind (given (decodeBody r decodePatchProfile) 400 ''invalid JSON body'') (\<lambda>q.
      abind (patchProfile pid q) (\<lambda>_.
      areturn (RespJson 200 (statusJson ''ok''))))))))"

text \<open>Assignments are deleted with their profile.\<close>

definition deleteProfileRow :: "uuid \<Rightarrow> db \<Rightarrow> nat sql_result" where
  "deleteProfileRow pid d =
     (let n = affected (\<lambda>p. cf_id p = pid) (configuration_profiles d)
      in if n = 0 then (Inr 0, d)
         else (Inr n, d\<lparr>configuration_profiles := filter (\<lambda>p. cf_id p \<noteq> pid) (configuration_profiles d),
                        profile_assignments := filter (\<lambda>a. pa_profile_id a \<noteq> pid) (profile_assignments d)\<rparr>))"

definition profiles_handleDelete :: "lib \<Rightarrow> DashboardAuth \<Rightarrow> request \<Rightarrow> db \<Rightarrow> response \<times> db" where
  "profiles_handleDelete L A r = answer
     (abind (ifMethod r ''DELETE'') (\<lambda>_.
      abind (authorize L A r ''operator'') (\<lambda>_.
      abind (profileID L r) (\<lambda>pid.
      abind (statement (sql (deleteProfileRow pid)) (failWith 500 ''failed to delete profile'')) (\<lambda>n.
      abind (require (n \<noteq> 0) 404 ''profile not found'') (\<lambda>_.
      areturn (RespJson 200 (statusJson ''ok''))))))))"

section \<open>Assignments\<close>

definition assignmentJson :: "lib \<Rightarrow> profile_assignment \<Rightarrow> json" where
  "assignmentJson L a =
     JObj ([(''id'', JStr (u_str L (pa_id a))), (''profile_id'', JStr (u_str L (pa_profile_id a))), (''target_kind'', JStr (pa_target_kind a))]
       @ opt_field ''device_id'' (map_option (\<lambda>u. JStr (u_str L u)) (pa_device_id a))
       @ opt_field ''principal_group_id'' (map_option (\<lambda>u. JStr (u_str L u)) (pa_principal_group_id a))
       @ [(''created_at'', JStr (t_json L (pa_created_at a))), (''assignment_state'', JStr (pa_assignment_state a))])"

definition profiles_handleListAssignments :: "lib \<Rightarrow> DashboardAuth \<Rightarrow> request \<Rightarrow> db \<Rightarrow> response \<times> db" where
  "profiles_handleListAssignments L A r = answer
     (abind (ifMethod r ''GET'') (\<lambda>_.
      abind (authorize L A r ''viewer'') (\<lambda>_.
      abind (profileID L r) (\<lambda>pid.
      abind (statement (query (\<lambda>d. take 8000 (sort_key (\<lambda>a. - pa_created_at a) (filter (\<lambda>a. pa_profile_id a = pid) (profile_assignments d)))))
               (failWith 500 ''failed to list assignments'')) (\<lambda>rows.
      areturn (RespJson 200 (JArr (map (assignmentJson L) rows))))))))"

text \<open>\<open>INSERT ... ON CONFLICT DO NOTHING RETURNING id\<close>: no row on a conflict with the unique indexes.\<close>

definition sameAssignment :: "uuid \<Rightarrow> string \<Rightarrow> uuid option \<Rightarrow> uuid option \<Rightarrow> profile_assignment \<Rightarrow> bool" where
  "sameAssignment pid kind dev grp a \<longleftrightarrow> pa_profile_id a = pid \<and> pa_target_kind a = kind
     \<and> (kind = ''device'' \<longrightarrow> pa_device_id a = dev) \<and> (kind = ''principal_group'' \<longrightarrow> pa_principal_group_id a = grp)"

definition insertAssignmentRow :: "uuid \<Rightarrow> string \<Rightarrow> uuid option \<Rightarrow> uuid option \<Rightarrow> db \<Rightarrow> uuid sql_result" where
  "insertAssignmentRow pid kind dev grp d =
     (let i = random_uuid d;
          row = \<lparr>pa_id = i, pa_profile_id = pid, pa_target_kind = kind, pa_device_id = dev, pa_principal_group_id = grp,
                 pa_assignment_state = ''ok'', pa_created_at = now d\<rparr>
      in if i \<in> pa_id ` set (profile_assignments d) \<or> list_ex (sameAssignment pid kind dev grp) (profile_assignments d)
           then (Inl ErrNoRows, uuid_used d)
         else if pid \<notin> cf_id ` set (configuration_profiles d)
              \<or> (case dev of None \<Rightarrow> False | Some x \<Rightarrow> x \<notin> a_id ` set (assets d))
              \<or> (case grp of None \<Rightarrow> False | Some x \<Rightarrow> x \<notin> pg_id ` set (principal_groups d))
           then (Inl ErrForeignKey, uuid_used d)
         else (Inr i, (uuid_used d)\<lparr>profile_assignments := profile_assignments d @ [row]\<rparr>))"

definition findAssignment :: "uuid \<Rightarrow> string \<Rightarrow> uuid option \<Rightarrow> uuid option \<Rightarrow> db \<Rightarrow> uuid sql_result" where
  "findAssignment pid kind dev grp = query_row (\<lambda>d. map_option pa_id (find (sameAssignment pid kind dev grp) (profile_assignments d)))"

text \<open>Insert, or find the row that is already there.\<close>

definition assignTarget :: "uuid \<Rightarrow> string \<Rightarrow> uuid option \<Rightarrow> uuid option \<Rightarrow> string \<Rightarrow> string \<Rightarrow> (db, uuid) act" where
  "assignTarget pid kind dev grp failMsg dupMsg d =
     (case sql (insertAssignmentRow pid kind dev grp) d of
        (Inr i, d) \<Rightarrow> (Inr i, d)
      | (Inl e, d) \<Rightarrow>
          if e \<noteq> ErrNoRows then (Inl (RespError 500 (Err failMsg)), d)
          else statement (findAssignment pid kind dev grp) (failWith 409 dupMsg) d)"

definition decodeAssign :: "json_object \<Rightarrow> (string \<times> string \<times> string) option" where
  "decodeAssign m =
     (case (get_string ''target_kind'' m, get_string ''device_id'' m, get_string ''principal_group_id'' m) of
        (Some k, Some dv, Some g) \<Rightarrow> Some (k, dv, g)
      | _ \<Rightarrow> None)"

definition nonNil :: "uuid option \<Rightarrow> uuid option" where
  "nonNil x = (case x of None \<Rightarrow> None | Some i \<Rightarrow> if i = uuid_Nil then None else Some i)"

definition profiles_handleAssign :: "lib \<Rightarrow> DashboardAuth \<Rightarrow> request \<Rightarrow> db \<Rightarrow> response \<times> db" where
  "profiles_handleAssign L A r = answer
     (abind (ifMethod r ''POST'') (\<lambda>_.
      abind (authorize L A r ''operator'') (\<lambda>_.
      abind (profileID L r) (\<lambda>pid.
      abind (given (decodeBody r decodeAssign) 400 ''invalid JSON body'') (\<lambda>(k, dv, g).
      let target = TrimSpace (ToLower k)
      in abind (require (target = ''device'' \<or> target = ''principal_group'') 400 ''target_kind must be device or principal_group'') (\<lambda>_.
         abind (statement (query_row (\<lambda>d. find (\<lambda>p. cf_id p = pid) (configuration_profiles d))) (failWith 404 ''profile not found'')) (\<lambda>_.
         abind (if target = ''device'' then
                  abind (given (nonNil (u_parse L (TrimSpace dv))) 400 ''device_id is required'') (\<lambda>did.
                  assignTarget pid ''device'' (Some did) None ''failed to link device assignment'' ''duplicate assignment or invalid asset'')
                else
                  abind (given (nonNil (u_parse L (TrimSpace g))) 400 ''principal_group_id is required'') (\<lambda>gid.
                  assignTarget pid ''principal_group'' None (Some gid) ''failed to link cohort assignment'' ''duplicate assignment or invalid cohort'')) (\<lambda>i.
         areturn (RespJson 201 (JObj [(''assignment_id'', JStr (u_str L i))]))))))))))"

definition deleteAssignmentRow :: "uuid \<Rightarrow> db \<Rightarrow> nat sql_result" where
  "deleteAssignmentRow i d =
     (Inr (affected (\<lambda>a. pa_id a = i) (profile_assignments d)), d\<lparr>profile_assignments := filter (\<lambda>a. pa_id a \<noteq> i) (profile_assignments d)\<rparr>)"

definition profiles_handleRemoveAssignment :: "lib \<Rightarrow> DashboardAuth \<Rightarrow> request \<Rightarrow> db \<Rightarrow> response \<times> db" where
  "profiles_handleRemoveAssignment L A r = answer
     (abind (ifMethod r ''DELETE'') (\<lambda>_.
      abind (authorize L A r ''operator'') (\<lambda>_.
      abind (given (nonNil (u_parse L (TrimSpace (rq_PathID r)))) 400 ''assignment id invalid'') (\<lambda>i.
      abind (statement (sql (deleteAssignmentRow i)) (failWith 500 ''failed to remove assignment'')) (\<lambda>n.
      abind (require (n \<noteq> 0) 404 ''assignment missing'') (\<lambda>_.
      areturn (RespJson 200 (statusJson ''ok''))))))))"

section \<open>Groups (principal_groups.go)\<close>

definition parseGroupID :: "lib \<Rightarrow> request \<Rightarrow> uuid option" where
  "parseGroupID L r = (let raw = TrimSpace (rq_PathID r) in if raw = '''' then None else nonNil (u_parse L raw))"

definition groupJson :: "lib \<Rightarrow> principal_group \<Rightarrow> json" where
  "groupJson L g =
     JObj [(''id'', JStr (u_str L (pg_id g))), (''name'', JStr (pg_name g)), (''description'', JStr (pg_description g)),
           (''created_at'', JStr (t_json L (pg_created_at g)))]"

definition groups_handleList :: "lib \<Rightarrow> DashboardAuth \<Rightarrow> request \<Rightarrow> db \<Rightarrow> response \<times> db" where
  "groups_handleList L A r = answer
     (abind (ifMethod r ''GET'') (\<lambda>_.
      abind (authorize L A r ''viewer'') (\<lambda>_.
      abind (statement (query (\<lambda>d. take 500 (sort_key (\<lambda>g. ToLower (pg_name g)) (principal_groups d)))) (failWith 500 ''failed to load groups'')) (\<lambda>rows.
      areturn (RespJson 200 (JArr (map (groupJson L) rows)))))))"

text \<open>The unique index on \<open>lower(trim(name))\<close>.\<close>

definition groupKey :: "string \<Rightarrow> string" where
  "groupKey name = ToLower (pg_trim name)"

definition insertGroupRow :: "string \<Rightarrow> string \<Rightarrow> db \<Rightarrow> uuid sql_result" where
  "insertGroupRow name description d =
     (let i = random_uuid d
      in if i \<in> pg_id ` set (principal_groups d) \<or> groupKey name \<in> (\<lambda>g. groupKey (pg_name g)) ` set (principal_groups d)
           then (Inl ErrUnique, uuid_used d)
         else (Inr i, (uuid_used d)\<lparr>principal_groups := principal_groups d @
                 [\<lparr>pg_id = i, pg_name = name, pg_description = description, pg_created_at = now d\<rparr>]\<rparr>))"

definition decodeGroup :: "json_object \<Rightarrow> (string \<times> string) option" where
  "decodeGroup m = (case (get_string ''name'' m, get_string ''description'' m) of (Some n, Some x) \<Rightarrow> Some (n, x) | _ \<Rightarrow> None)"

definition groups_handleCreate :: "lib \<Rightarrow> DashboardAuth \<Rightarrow> request \<Rightarrow> db \<Rightarrow> response \<times> db" where
  "groups_handleCreate L A r = answer
     (abind (ifMethod r ''POST'') (\<lambda>_.
      abind (authorize L A r ''operator'') (\<lambda>_.
      abind (given (decodeBody r decodeGroup) 400 ''invalid JSON body'') (\<lambda>(n, x).
      let name = TrimSpace n
      in abind (require (\<not> (name = '''' \<or> RuneCount name > 200)) 400 ''name is required'') (\<lambda>_.
         abind (statement (sql (insertGroupRow name (TrimSpace x))) (failWith 500 ''failed to create group'')) (\<lambda>i.
         areturn (RespJson 201 (JObj [(''id'', JStr (u_str L i))]))))))))"

definition groupMembers :: "uuid \<Rightarrow> db \<Rightarrow> uuid list" where
  "groupMembers gid d = map gd_device_id (take 5000 (sort_key (\<lambda>m. - gd_created_at m) (filter (\<lambda>m. gd_group_id m = gid) (principal_group_devices d))))"

definition groups_handleGet :: "lib \<Rightarrow> DashboardAuth \<Rightarrow> request \<Rightarrow> db \<Rightarrow> response \<times> db" where
  "groups_handleGet L A r = answer
     (abind (ifMethod r ''GET'') (\<lambda>_.
      abind (authorize L A r ''viewer'') (\<lambda>_.
      abind (given (parseGroupID L r) 400 ''missing group id'') (\<lambda>gid.
      abind (statement (query_row (\<lambda>d. find (\<lambda>g. pg_id g = gid) (principal_groups d))) (failWith 404 ''group not found'')) (\<lambda>g.
      abind (statement (query (groupMembers gid)) (failWith 500 ''failed to enumerate members'')) (\<lambda>ids.
      areturn (RespJson 200 (JObj [(''group'', groupJson L g), (''device_ids'', JArr (map (\<lambda>i. JStr (u_str L i)) ids))]))))))))"

definition updateGroupRow :: "uuid \<Rightarrow> (principal_group \<Rightarrow> principal_group) \<Rightarrow> db \<Rightarrow> nat sql_result" where
  "updateGroupRow gid f d =
     (let rows = update_where (\<lambda>g. pg_id g = gid) f (principal_groups d)
      in if \<not> distinct (map (\<lambda>g. groupKey (pg_name g)) rows) then (Inl ErrUnique, d)
         else (Inr (affected (\<lambda>g. pg_id g = gid) (principal_groups d)), d\<lparr>principal_groups := rows\<rparr>))"

definition groupSet :: "uuid \<Rightarrow> (principal_group \<Rightarrow> principal_group) \<Rightarrow> (db, unit) act" where
  "groupSet gid f =
     abind (statement (sql (updateGroupRow gid f)) (failWith 500 ''failed to update group'')) (\<lambda>n.
     require (n \<noteq> 0) 404 ''group not found'')"

definition decodePatchGroup :: "json_object \<Rightarrow> (string option \<times> string option) option" where
  "decodePatchGroup m = (case (get_string_ptr ''name'' m, get_string_ptr ''description'' m) of (Some n, Some x) \<Rightarrow> Some (n, x) | _ \<Rightarrow> None)"

definition patchGroup :: "uuid \<Rightarrow> string option \<Rightarrow> string option \<Rightarrow> (db, unit) act" where
  "patchGroup gid n x =
     abind (case n of
              None \<Rightarrow> areturn ()
            | Some s \<Rightarrow>
                (let name = TrimSpace s
                 in abind (require (\<not> (name = '''' \<or> RuneCount name > 200)) 400 ''invalid name'') (\<lambda>_.
                    groupSet gid (pg_name_update (\<lambda>_. name))))) (\<lambda>_.
     case x of None \<Rightarrow> areturn () | Some s \<Rightarrow> groupSet gid (pg_description_update (\<lambda>_. TrimSpace s)))"

definition groups_handlePatch :: "lib \<Rightarrow> DashboardAuth \<Rightarrow> request \<Rightarrow> db \<Rightarrow> response \<times> db" where
  "groups_handlePatch L A r = answer
     (abind (ifMethod r ''PATCH'') (\<lambda>_.
      abind (authorize L A r ''operator'') (\<lambda>_.
      abind (given (parseGroupID L r) 400 ''missing group id'') (\<lambda>gid.
      abind (given (decodeBody r decodePatchGroup) 400 ''invalid JSON body'') (\<lambda>(n, x).
      abind (patchGroup gid n x) (\<lambda>_.
      areturn (RespJson 200 (statusJson ''ok''))))))))"

text \<open>Members and assignments of a group are deleted with it.\<close>

definition deleteGroupRow :: "uuid \<Rightarrow> db \<Rightarrow> nat sql_result" where
  "deleteGroupRow gid d =
     (let n = affected (\<lambda>g. pg_id g = gid) (principal_groups d)
      in if n = 0 then (Inr 0, d)
         else (Inr n, d\<lparr>principal_groups := filter (\<lambda>g. pg_id g \<noteq> gid) (principal_groups d),
                        principal_group_devices := filter (\<lambda>m. gd_group_id m \<noteq> gid) (principal_group_devices d),
                        profile_assignments := filter (\<lambda>a. pa_principal_group_id a \<noteq> Some gid) (profile_assignments d)\<rparr>))"

definition groups_handleDelete :: "lib \<Rightarrow> DashboardAuth \<Rightarrow> request \<Rightarrow> db \<Rightarrow> response \<times> db" where
  "groups_handleDelete L A r = answer
     (abind (ifMethod r ''DELETE'') (\<lambda>_.
      abind (authorize L A r ''operator'') (\<lambda>_.
      abind (given (parseGroupID L r) 400 ''missing group id'') (\<lambda>gid.
      abind (statement (sql (deleteGroupRow gid)) (failWith 500 ''failed to delete group'')) (\<lambda>n.
      abind (require (n \<noteq> 0) 404 ''group not found'') (\<lambda>_.
      areturn (RespJson 200 (statusJson ''ok''))))))))"

text \<open>\<open>INSERT ... ON CONFLICT DO NOTHING\<close>: the number of rows added.\<close>

definition insertMemberRow :: "uuid \<Rightarrow> uuid \<Rightarrow> db \<Rightarrow> nat sql_result" where
  "insertMemberRow gid dev d =
     (if list_ex (\<lambda>m. gd_group_id m = gid \<and> gd_device_id m = dev) (principal_group_devices d) then (Inr 0, d)
      else if gid \<notin> pg_id ` set (principal_groups d) \<or> dev \<notin> a_id ` set (assets d) then (Inl ErrForeignKey, d)
      else (Inr 1, d\<lparr>principal_group_devices := principal_group_devices d @ [\<lparr>gd_group_id = gid, gd_device_id = dev, gd_created_at = now d\<rparr>]\<rparr>))"

fun addMembers :: "uuid \<Rightarrow> uuid list \<Rightarrow> nat \<Rightarrow> (db, nat) act" where
  "addMembers gid [] inserted = areturn inserted"
| "addMembers gid (dev # devs) inserted =
     abind (statement (sql (insertMemberRow gid dev)) (failWith 500 ''failed to add devices'')) (\<lambda>n. addMembers gid devs (inserted + n))"

definition groups_handleAddDevices :: "lib \<Rightarrow> DashboardAuth \<Rightarrow> request \<Rightarrow> db \<Rightarrow> response \<times> db" where
  "groups_handleAddDevices L A r = answer
     (abind (ifMethod r ''POST'') (\<lambda>_.
      abind (authorize L A r ''operator'') (\<lambda>_.
      abind (given (parseGroupID L r) 400 ''missing group id'') (\<lambda>gid.
      abind (given (decodeBody r (get_string_list ''device_ids'')) 400 ''invalid JSON body'') (\<lambda>raws.
      abind (require (raws \<noteq> []) 400 ''device_ids is required'') (\<lambda>_.
      abind (given (those (map (\<lambda>s. u_parse L (TrimSpace s)) raws)) 400 ''invalid device id'') (\<lambda>devs.
      abind (statement (query_row (\<lambda>d. find (\<lambda>g. pg_id g = gid) (principal_groups d))) (failWith 404 ''group not found'')) (\<lambda>_.
      abind (addMembers gid devs 0) (\<lambda>inserted.
      areturn (RespJson 200 (JObj [(''status'', JStr ''ok''), (''memberships_inserted'', JNum (of_nat inserted))])))))))))))"

definition deleteMemberRow :: "uuid \<Rightarrow> uuid \<Rightarrow> db \<Rightarrow> nat sql_result" where
  "deleteMemberRow gid dev d =
     (Inr (affected (\<lambda>m. gd_group_id m = gid \<and> gd_device_id m = dev) (principal_group_devices d)),
      d\<lparr>principal_group_devices := filter (\<lambda>m. \<not> (gd_group_id m = gid \<and> gd_device_id m = dev)) (principal_group_devices d)\<rparr>)"

definition groups_handleRemoveDevice :: "lib \<Rightarrow> DashboardAuth \<Rightarrow> request \<Rightarrow> db \<Rightarrow> response \<times> db" where
  "groups_handleRemoveDevice L A r = answer
     (abind (ifMethod r ''DELETE'') (\<lambda>_.
      abind (authorize L A r ''operator'') (\<lambda>_.
      abind (given (parseGroupID L r) 400 ''missing group id'') (\<lambda>gid.
      abind (given (nonNil (u_parse L (TrimSpace (rq_PathDevice r)))) 400 ''invalid device id'') (\<lambda>did.
      abind (statement (sql (deleteMemberRow gid did)) (failWith 500 ''failed to detach device'')) (\<lambda>n.
      abind (require (n \<noteq> 0) 404 ''membership not found'') (\<lambda>_.
      areturn (RespJson 200 (statusJson ''ok'')))))))))"

end
