(* ===== verification/Profiles_Facts.thy ===== *)
theory Profiles_Facts
  imports Profiles Compliance_Facts Users_Facts Policy_Correct
begin

text \<open>
  What the profile and group routes guarantee: their tables stay consistent, an assignment reaches exactly the
  devices it names, directly or through a group, and the ways a stored profile can defeat the merge.
\<close>

section \<open>The tables\<close>

definition assignmentOK :: "db \<Rightarrow> profile_assignment \<Rightarrow> bool" where
  "assignmentOK d a \<longleftrightarrow> pa_profile_id a \<in> cf_id ` set (configuration_profiles d)
     \<and> (pa_target_kind a = ''device'' \<and> pa_principal_group_id a = None \<and> (\<exists>i. pa_device_id a = Some i \<and> i \<in> a_id ` set (assets d))
        \<or> pa_target_kind a = ''principal_group'' \<and> pa_device_id a = None \<and> (\<exists>g. pa_principal_group_id a = Some g \<and> g \<in> pg_id ` set (principal_groups d)))"

definition wf_profiles :: "db \<Rightarrow> bool" where
  "wf_profiles d \<longleftrightarrow> distinct (map cf_id (configuration_profiles d)) \<and> list_all profileCheck (configuration_profiles d)
     \<and> distinct (map pg_id (principal_groups d)) \<and> distinct (map (\<lambda>g. groupKey (pg_name g)) (principal_groups d))
     \<and> distinct (map pa_id (profile_assignments d)) \<and> list_all (assignmentOK d) (profile_assignments d)
     \<and> distinct (map (\<lambda>m. (gd_group_id m, gd_device_id m)) (principal_group_devices d))
     \<and> (\<forall>m \<in> set (principal_group_devices d). gd_group_id m \<in> pg_id ` set (principal_groups d) \<and> gd_device_id m \<in> a_id ` set (assets d))"

lemma table_inv_profiles [keeps_intros]: "table_inv wf_profiles"
  unfolding table_inv_def
proof (intro allI impI)
  fix d d' assume s: "same_tables d d'" and w: "wf_profiles d"
  from s have "configuration_profiles d' = configuration_profiles d" "profile_assignments d' = profile_assignments d"
    "principal_groups d' = principal_groups d" "principal_group_devices d' = principal_group_devices d" "assets d' = assets d"
    by (simp_all add: same_tables_fields)
  with w show "wf_profiles d'" by (simp add: wf_profiles_def assignmentOK_def list_all_iff)
qed

lemma assignmentOK_frame:
  "configuration_profiles d' = configuration_profiles d \<Longrightarrow> principal_groups d' = principal_groups d \<Longrightarrow> assets d' = assets d
   \<Longrightarrow> assignmentOK d' a = assignmentOK d a"
  by (simp add: assignmentOK_def)

lemma keeps_profile_insert [keeps_intros]: "keeps wf_profiles (insertProfileRow n p t pl)"
  by (auto simp: keeps_def insertProfileRow_def Let_def uuid_used_def wf_profiles_def list_all_iff assignmentOK_def)

lemma keeps_profile_update [keeps_intros]:
  assumes "\<And>p. cf_id (f p) = cf_id p"
  shows "keeps wf_profiles (updateProfileRow i f)"
proof -
  have "wf_profiles (snd (updateProfileRow i f d))" if w: "wf_profiles d" for d
  proof -
    let ?rows = "update_where (\<lambda>p. cf_id p = i) f (configuration_profiles d)"
    have m: "map cf_id ?rows = map cf_id (configuration_profiles d)" using assms by (simp add: map_update_where)
    then have s: "cf_id ` set ?rows = cf_id ` set (configuration_profiles d)" by (metis set_map)
    have "list_all profileCheck ?rows" if "\<not> list_ex (\<lambda>p. cf_id p = i \<and> \<not> profileCheck p) ?rows"
      unfolding list_all_iff
    proof
      fix r assume r: "r \<in> set ?rows"
      show "profileCheck r"
      proof (cases "cf_id r = i")
        case True
        with r that show ?thesis by (auto simp: list_ex_iff)
      next
        case False
        with r assms have "r \<in> set (configuration_profiles d)" by (auto simp: set_update_where split: if_splits)
        with w show ?thesis by (simp add: wf_profiles_def list_all_iff)
      qed
    qed
    then show ?thesis using w m s by (simp add: updateProfileRow_def Let_def wf_profiles_def assignmentOK_def list_all_iff)
  qed
  then show ?thesis by (simp add: keeps_def)
qed

lemma keeps_profile_delete [keeps_intros]: "keeps wf_profiles (deleteProfileRow i)"
  by (auto simp: keeps_def deleteProfileRow_def Let_def wf_profiles_def distinct_map inj_on_def list_all_iff assignmentOK_def)

lemma keeps_assignment_insert [keeps_intros]:
  assumes "kind = ''device'' \<and> (\<exists>i. dev = Some i) \<and> grp = None \<or> kind = ''principal_group'' \<and> dev = None \<and> (\<exists>g. grp = Some g)"
  shows "keeps wf_profiles (insertAssignmentRow pid kind dev grp)"
proof -
  have "wf_profiles (snd (insertAssignmentRow pid kind dev grp d))" if w: "wf_profiles d" for d
    using w assms unfolding insertAssignmentRow_def Let_def uuid_used_def
    by (auto simp: wf_profiles_def assignmentOK_def list_all_iff)
  then show ?thesis by (simp add: keeps_def)
qed

lemma keeps_assignment_delete [keeps_intros]: "keeps wf_profiles (deleteAssignmentRow i)"
  by (auto simp: keeps_def deleteAssignmentRow_def wf_profiles_def distinct_map inj_on_def list_all_iff assignmentOK_def)

lemma keeps_group_insert [keeps_intros]: "keeps wf_profiles (insertGroupRow n x)"
  by (auto simp: keeps_def insertGroupRow_def Let_def uuid_used_def wf_profiles_def list_all_iff assignmentOK_def)

lemma keeps_group_update [keeps_intros]:
  assumes "\<And>g. pg_id (f g) = pg_id g"
  shows "keeps wf_profiles (updateGroupRow i f)"
proof -
  have "wf_profiles (snd (updateGroupRow i f d))" if w: "wf_profiles d" for d
  proof -
    let ?rows = "update_where (\<lambda>g. pg_id g = i) f (principal_groups d)"
    have m: "map pg_id ?rows = map pg_id (principal_groups d)" using assms by (simp add: map_update_where)
    then have s: "pg_id ` set ?rows = pg_id ` set (principal_groups d)" by (metis set_map)
    show ?thesis using w m s by (simp add: updateGroupRow_def Let_def wf_profiles_def assignmentOK_def list_all_iff)
  qed
  then show ?thesis by (simp add: keeps_def)
qed

lemma keeps_group_delete [keeps_intros]: "keeps wf_profiles (deleteGroupRow i)"
  by (auto simp: keeps_def deleteGroupRow_def Let_def wf_profiles_def distinct_map inj_on_def list_all_iff assignmentOK_def)

lemma keeps_member_insert [keeps_intros]: "keeps wf_profiles (insertMemberRow g i)"
  by (auto simp: keeps_def insertMemberRow_def Let_def wf_profiles_def list_all_iff assignmentOK_def list_ex_iff)

lemma keeps_member_delete [keeps_intros]: "keeps wf_profiles (deleteMemberRow g i)"
  by (auto simp: keeps_def deleteMemberRow_def wf_profiles_def distinct_map inj_on_def list_all_iff assignmentOK_def)

section \<open>The routes keep them consistent\<close>

lemma keeps_profileID [keeps_intros]: "keeps I (profileID L r)"
  unfolding profileID_def by (intro keeps_intros)

lemma keeps_profileSet [keeps_intros]: "(\<And>p. cf_id (f p) = cf_id p) \<Longrightarrow> keeps wf_profiles (profileSet i f)"
  unfolding profileSet_def by (intro keeps_intros)

lemma keeps_patchProfile [keeps_intros]: "keeps wf_profiles (patchProfile i q)"
  unfolding patchProfile_def Let_def by (intro keeps_intros) simp_all

lemma keeps_assignTarget [keeps_intros]:
  assumes "kind = ''device'' \<and> (\<exists>i. dev = Some i) \<and> grp = None \<or> kind = ''principal_group'' \<and> dev = None \<and> (\<exists>g. grp = Some g)"
  shows "keeps wf_profiles (assignTarget pid kind dev grp fm dm)"
proof -
  have "keeps wf_profiles (findAssignment pid kind dev grp)" unfolding findAssignment_def by (intro keeps_intros)
  then show ?thesis unfolding assignTarget_def by (intro keeps_intros assms)
qed

lemma keeps_groupSet [keeps_intros]: "(\<And>g. pg_id (f g) = pg_id g) \<Longrightarrow> keeps wf_profiles (groupSet i f)"
  unfolding groupSet_def by (intro keeps_intros)

lemma keeps_patchGroup [keeps_intros]: "keeps wf_profiles (patchGroup i n x)"
  unfolding patchGroup_def Let_def by (intro keeps_intros) simp_all

lemma keeps_addMembers [keeps_intros]: "keeps wf_profiles (addMembers g devs n)"
proof (induction g devs n rule: addMembers.induct)
  case (1 g n)
  then show ?case by (simp add: keeps_areturn)
next
  case (2 g dev devs n)
  then show ?case unfolding addMembers.simps by (intro keeps_intros)
qed

text \<open>Any interleaving of the routes.\<close>

inductive profile_step :: "lib \<Rightarrow> DashboardAuth \<Rightarrow> db \<Rightarrow> db \<Rightarrow> bool" for L :: lib and A :: DashboardAuth where
  ps_profile_list: "profile_step L A d (snd (profiles_handleList L A r d))"
| ps_profile_create: "profile_step L A d (snd (profiles_handleCreate L A r d))"
| ps_profile_get: "profile_step L A d (snd (profiles_handleGet L A r d))"
| ps_profile_patch: "profile_step L A d (snd (profiles_handlePatch L A r d))"
| ps_profile_delete: "profile_step L A d (snd (profiles_handleDelete L A r d))"
| ps_assignments: "profile_step L A d (snd (profiles_handleListAssignments L A r d))"
| ps_assign: "profile_step L A d (snd (profiles_handleAssign L A r d))"
| ps_unassign: "profile_step L A d (snd (profiles_handleRemoveAssignment L A r d))"
| ps_group_list: "profile_step L A d (snd (groups_handleList L A r d))"
| ps_group_create: "profile_step L A d (snd (groups_handleCreate L A r d))"
| ps_group_get: "profile_step L A d (snd (groups_handleGet L A r d))"
| ps_group_patch: "profile_step L A d (snd (groups_handlePatch L A r d))"
| ps_group_delete: "profile_step L A d (snd (groups_handleDelete L A r d))"
| ps_add_devices: "profile_step L A d (snd (groups_handleAddDevices L A r d))"
| ps_remove_device: "profile_step L A d (snd (groups_handleRemoveDevice L A r d))"
| ps_effective_policy: "profile_step L A d (snd (computeMergedEffectivePolicy L i (telemetryPlatformKey os) d))"
| ps_clock: "profile_step L A d (d\<lparr>now := t, fault_at := f\<rparr>)"

lemmas profile_routes = profiles_handleList_def profiles_handleCreate_def profiles_handleGet_def profiles_handlePatch_def profiles_handleDelete_def
  profiles_handleListAssignments_def profiles_handleAssign_def profiles_handleRemoveAssignment_def
  groups_handleList_def groups_handleCreate_def groups_handleGet_def groups_handlePatch_def groups_handleDelete_def
  groups_handleAddDevices_def groups_handleRemoveDevice_def

lemma keeps_computeMerged: "keeps wf_profiles (computeMergedEffectivePolicy L i p)"
proof -
  have set: "keeps wf_profiles (setAssignmentState P st)" for P st
  proof -
    have "assignmentOK (e\<lparr>profile_assignments := x\<rparr>) (if b then a\<lparr>pa_assignment_state := st\<rparr> else a) = assignmentOK e a" for e x b a
      by (simp add: assignmentOK_def)
    then show ?thesis
      unfolding setAssignmentState_def
      by (intro keeps_intros) (auto simp: keeps_def wf_profiles_def map_update_where set_update_where list_all_iff)
  qed
  have rec: "keeps wf_profiles (ReconcileProfileAssignmentStates i p ids)" for ids
    unfolding ReconcileProfileAssignmentStates_def by (intro keeps_intros set)
  have list: "keeps wf_profiles (ListAssignedProfilesForAsset i p)"
    unfolding ListAssignedProfilesForAsset_def Let_def by (intro keeps_intros)
  show ?thesis unfolding computeMergedEffectivePolicy_def by (intro keeps_intros rec list)
qed

lemma profile_step_wf: "profile_step L A d d' \<Longrightarrow> wf_profiles d \<Longrightarrow> wf_profiles d'"
proof (induction rule: profile_step.induct)
  case (ps_effective_policy d i os)
  then show ?case by (rule keepsD [OF keeps_computeMerged])
next
  case (ps_clock d t f)
  then show ?case by (simp add: wf_profiles_def assignmentOK_def list_all_iff)
qed (unfold profile_routes Let_def, (rule answer_keeps, (intro keeps_intros; simp), assumption)+)

section \<open>What an assignment reaches\<close>

definition members :: "uuid \<Rightarrow> db \<Rightarrow> uuid set" where
  "members g d = {gd_device_id m | m. m \<in> set (principal_group_devices d) \<and> gd_group_id m = g}"

lemma profileID_Inr: "profileID L r s = (Inr i, s') \<longleftrightarrow> parseProfileUUID L r = Inr i \<and> s' = s"
  by (auto simp: profileID_def fail_def areturn_def split: sum.splits)

text \<open>The devices that the target of an assignment stands for.\<close>

definition targets :: "string \<Rightarrow> uuid option \<Rightarrow> uuid option \<Rightarrow> db \<Rightarrow> uuid set" where
  "targets kind dev grp d = (if kind = ''device'' then set_option dev else (case grp of None \<Rightarrow> {} | Some g \<Rightarrow> members g d))"

lemma assignedTo_targets:
  assumes "pa_target_kind a \<in> {''device'', ''principal_group''}"
  shows "assignedTo i d a \<longleftrightarrow> i \<in> targets (pa_target_kind a) (pa_device_id a) (pa_principal_group_id a) d"
  using assms by (auto simp: assignedTo_def targets_def members_def list_ex_iff split: option.splits)

lemma assignTarget_Inr:
  assumes run: "assignTarget pid kind dev grp fm dm d = (Inr i, d')"
    and k: "kind = ''device'' \<and> (\<exists>i. dev = Some i) \<and> grp = None \<or> kind = ''principal_group'' \<and> dev = None \<and> (\<exists>g. grp = Some g)"
    and wf: "wf_profiles d"
  shows "(profile_assignments d' = profile_assignments d \<or> (\<exists>st t. profile_assignments d' = profile_assignments d @
        [\<lparr>pa_id = i, pa_profile_id = pid, pa_target_kind = kind, pa_device_id = dev, pa_principal_group_id = grp, pa_assignment_state = st, pa_created_at = t\<rparr>]))
    \<and> (\<exists>a \<in> set (profile_assignments d'). pa_id a = i \<and> pa_profile_id a = pid \<and> pa_target_kind a = kind \<and> pa_device_id a = dev \<and> pa_principal_group_id a = grp)
    \<and> configuration_profiles d' = configuration_profiles d \<and> principal_group_devices d' = principal_group_devices d"
proof (cases "sql (insertAssignmentRow pid kind dev grp) d")
  case (Pair x d1)
  show ?thesis
  proof (cases x)
    case (Inr j)
    with Pair run have "d' = d1" "j = i" by (simp_all add: assignTarget_def)
    with Pair Inr show ?thesis
      by (auto simp: sql_def Let_def insertAssignmentRow_def uuid_used_def split: if_splits)
  next
    case (Inl e)
    have f: "profile_assignments d1 = profile_assignments d" "configuration_profiles d1 = configuration_profiles d" "principal_group_devices d1 = principal_group_devices d"
      using Pair Inl by (auto simp: sql_def Let_def insertAssignmentRow_def uuid_used_def split: if_splits)
    have "statement (findAssignment pid kind dev grp) (failWith 409 dm) d1 = (Inr i, d')"
      using Pair Inl run by (simp add: assignTarget_def split: if_splits)
    then obtain a where a: "find (sameAssignment pid kind dev grp) (profile_assignments d) = Some a" "pa_id a = i" "d' = d1\<lparr>stmt_no := Suc (stmt_no d1)\<rparr>"
      using f by (auto simp: statement_Inr findAssignment_def query_row_Inr)
    then have m: "a \<in> set (profile_assignments d)" "sameAssignment pid kind dev grp a" by (auto simp: find_Some_iff)
    then have "pa_profile_id a = pid" "pa_target_kind a = kind" "pa_device_id a = dev" "pa_principal_group_id a = grp"
      using wf k by (auto simp: sameAssignment_def wf_profiles_def list_all_iff assignmentOK_def)
    with m a f show ?thesis by auto
  qed
qed

text \<open>What the request names: the kind of target and the device or the group.\<close>

definition requestedTarget :: "lib \<Rightarrow> string \<times> string \<times> string \<Rightarrow> string \<times> uuid option \<times> uuid option" where
  "requestedTarget L = (\<lambda>(k, dv, g). if TrimSpace (ToLower k) = ''device'' then (''device'', u_parse L (TrimSpace dv), None)
     else (''principal_group'', None, u_parse L (TrimSpace g)))"

lemma nonNil_Some: "nonNil x = Some i \<Longrightarrow> x = Some i"
  by (auto simp: nonNil_def split: option.splits if_splits)

text \<open>The steps of an accepted assignment.\<close>

lemma refuses_assign [refuses_intros]: "refuses (assignTarget pid kind dev grp fm dm)"
  by (auto simp: refuses_def assignTarget_def statement_def failWith_def split: prod.splits sum.splits if_splits)

lemma refuses_profileID [refuses_intros]: "refuses (profileID L r)"
  by (auto simp: refuses_def profileID_def fail_def areturn_def split: sum.splits)

lemma handleAssign_Inr:
  assumes run: "profiles_handleAssign L A r d = (RespJson 201 j, d')"
  shows "\<exists>pid b kind dev grp fm dm i cp. parseProfileUUID L r = Inr pid \<and> decodeBody r decodeAssign = Some b
    \<and> (kind, dev, grp) = requestedTarget L b \<and> find (\<lambda>p. cf_id p = pid) (configuration_profiles d) = Some cp
    \<and> assignTarget pid kind dev grp fm dm (d\<lparr>stmt_no := Suc (stmt_no d)\<rparr>) = (Inr i, d')
    \<and> (kind = ''device'' \<and> (\<exists>i. dev = Some i) \<and> grp = None \<or> kind = ''principal_group'' \<and> dev = None \<and> (\<exists>g. grp = Some g))"
  using run unfolding profiles_handleAssign_def Let_def
  apply (elim answer_success [elim_format])
    apply (intro refuses_intros; simp)
   apply simp
  apply (elim abind_Inr_cases)
  apply (simp only: act_Inr profileID_Inr split_paired_all prod.case)
  apply (elim abind_Inr_cases)
  apply (clarsimp simp only: act_Inr)
  apply (simp add: areturn_def split: if_splits)
   apply (elim abind_Inr_cases, simp only: act_Inr requestedTarget_def prod.case, fastforce dest: nonNil_Some)+
  done

text \<open>C18: an accepted assignment reaches exactly its target: afterwards the profile applies to the named device,
  or to every member of the named group, in addition to what applied before, for no other device and for
  no other profile. Assigning twice is answered like assigning once.\<close>

theorem assignment_reaches_targets:
  assumes run: "profiles_handleAssign L A r d = (RespJson 201 j, d')" and wf: "wf_profiles d"
  shows "\<exists>pid b kind dev grp. parseProfileUUID L r = Inr pid \<and> pid \<in> cf_id ` set (configuration_profiles d)
    \<and> decodeBody r decodeAssign = Some b \<and> requestedTarget L b = (kind, dev, grp)
    \<and> (\<forall>i p. set (assignedProfiles i p d') = set (assignedProfiles i p d)
        \<union> {cp \<in> set (configuration_profiles d). cf_id cp = pid \<and> ToLower (pg_trim (cf_platform cp)) = p \<and> i \<in> targets kind dev grp d})"
proof -
  obtain pid b kind dev grp fm dm i d1 cp where b: "decodeBody r decodeAssign = Some b" "requestedTarget L b = (kind, dev, grp)" and s: "parseProfileUUID L r = Inr pid" "find (\<lambda>p. cf_id p = pid) (configuration_profiles d) = Some cp"
      "d1 = d\<lparr>stmt_no := Suc (stmt_no d)\<rparr>" "assignTarget pid kind dev grp fm dm d1 = (Inr i, d')"
      "kind = ''device'' \<and> (\<exists>i. dev = Some i) \<and> grp = None \<or> kind = ''principal_group'' \<and> dev = None \<and> (\<exists>g. grp = Some g)"
    using handleAssign_Inr [OF run] by metis
  have w: "wf_profiles d1" using wf s(3) table_invD [OF table_inv_profiles same_tables_stmt] by simp
  note t = assignTarget_Inr [OF s(4,5) w]
  have m: "members g d1 = members g d" "members g d' = members g d" for g using t s(3) by (simp_all add: members_def)
  have c: "configuration_profiles d' = configuration_profiles d" using t s(3) by simp
  have old: "assignedTo x d' a = assignedTo x d a" for x a using t s(3) by (simp add: assignedTo_def)
  have new: "(\<exists>a \<in> set (profile_assignments d'). pa_profile_id a = p \<and> assignedTo x d a)
      \<longleftrightarrow> (\<exists>a \<in> set (profile_assignments d). pa_profile_id a = p \<and> assignedTo x d a) \<or> p = pid \<and> x \<in> targets kind dev grp d" for p x
  proof -
    have k: "assignedTo x d a \<longleftrightarrow> x \<in> targets kind dev grp d" if "pa_target_kind a = kind" "pa_device_id a = dev" "pa_principal_group_id a = grp" for a
      using assignedTo_targets [of a x d] that s(5) by auto
    have p: "profile_assignments d1 = profile_assignments d" using s(3) by simp
    from t obtain a where "a \<in> set (profile_assignments d')" "pa_profile_id a = pid" "pa_target_kind a = kind" "pa_device_id a = dev" "pa_principal_group_id a = grp"
      by blast
    then have a: "\<exists>a \<in> set (profile_assignments d'). pa_profile_id a = pid \<and> (assignedTo x d a \<longleftrightarrow> x \<in> targets kind dev grp d)" using k by blast
    from t show ?thesis
    proof (elim conjE disjE exE)
      assume "profile_assignments d' = profile_assignments d1"
      with a p show ?thesis by auto
    next
      fix st tm
      assume e: "profile_assignments d' = profile_assignments d1 @ [\<lparr>pa_id = i, pa_profile_id = pid, pa_target_kind = kind, pa_device_id = dev,
        pa_principal_group_id = grp, pa_assignment_state = st, pa_created_at = tm\<rparr>]"
      show ?thesis unfolding e p using k [of "\<lparr>pa_id = i, pa_profile_id = pid, pa_target_kind = kind, pa_device_id = dev,
        pa_principal_group_id = grp, pa_assignment_state = st, pa_created_at = tm\<rparr>"] by auto
    qed
  qed
  have "set (assignedProfiles x p d') = set (assignedProfiles x p d)
        \<union> {cp \<in> set (configuration_profiles d). cf_id cp = pid \<and> ToLower (pg_trim (cf_platform cp)) = p \<and> x \<in> targets kind dev grp d}" for x p
    unfolding assignedProfiles_def set_sort set_filter c list_ex_iff old using new by blast
  moreover have "pid \<in> cf_id ` set (configuration_profiles d)" using s(2) by (auto simp: find_Some_iff)
  ultimately show ?thesis using s(1) b by blast
qed

section \<open>The two computations of the effective policy\<close>

lemma merge_inputs_agree:
  "MergeAssignedPayloads ffmt (assignedInputs rows) = MergeAssignedPayloads ffmt (assignedRowsToMergeInputs rows)"
proof -
  have "collectContributions (assignedInputs rows) acc = collectContributions (assignedRowsToMergeInputs rows) acc" for acc
    by (induction rows arbitrary: acc) (simp_all add: assignedInputs_def assignedRowsToMergeInputs_def split: option.splits)
  moreover have "assignedInputs rows = [] \<longleftrightarrow> assignedRowsToMergeInputs rows = []"
    by (simp add: assignedInputs_def assignedRowsToMergeInputs_def)
  ultimately show ?thesis by (simp add: MergeAssignedPayloads_def)
qed

lemma Reconcile_healthy:
  assumes "\<forall>n. \<not> fault_at d n"
  shows "fst (ReconcileProfileAssignmentStates i p ids d) = Inr ()"
  using assms by (simp add: ReconcileProfileAssignmentStates_def transaction_def setAssignmentState_def nop_def sql_def Let_def)

text \<open>C17: the compliance evaluator and the policy routes, which prepare the assigned payloads differently, compute
  the same effective payload and fail on the same profiles.\<close>

theorem effective_policies_agree:
  assumes "\<forall>n. \<not> fault_at d n"
  shows "fst (EffectiveMergedPayload L i os d)
       = map_sum id EffectivePayload (fst (computeMergedEffectivePolicy L i (telemetryPlatformKey os) d))"
proof -
  have f: "\<forall>n. \<not> fault_at (snd (ListAssignedProfilesForAsset i p d)) n" for p
    using assms by (simp add: ListAssignedProfilesForAsset_def Let_def query_def sql_def)
  show ?thesis
    unfolding EffectiveMergedPayload_def computeMergedEffectivePolicy_def telemetryPlatformKey_def merge_inputs_agree
    using Reconcile_healthy [OF f [of "ToLower (TrimSpace os)"], of i "ToLower (TrimSpace os)"]
    by (auto split: prod.splits sum.splits)
qed

section \<open>A profile that defeats the merge\<close>

lemma ListAssigned_healthy:
  assumes "\<not> fault_at d (stmt_no d)" and "ToLower (TrimSpace p) \<noteq> ''''"
  shows "fst (ListAssignedProfilesForAsset i p d) = Inr (map (\<lambda>cp. \<lparr>ap_ID = cf_id cp, ap_Name = cf_name cp, ap_Type = cf_type cp,
                        ap_Payload_raw = cf_payload cp, ap_Platform = cf_platform cp\<rparr>) (assignedProfiles i (ToLower (TrimSpace p)) d))"
proof -
  have "assignedProfiles i q (d\<lparr>stmt_no := m\<rparr>) = assignedProfiles i q d" for q m
    by (simp add: assignedProfiles_def assignedTo_def)
  with assms show ?thesis by (simp add: ListAssignedProfilesForAsset_def Let_def query_def sql_def)
qed

lemma undecodable_merge:
  assumes "inp \<in> set inputs" "ps_ID (ap_Source inp) \<noteq> uuid_Nil" "\<not> decodable inp"
  shows "\<exists>e. MergeAssignedPayloads ffmt inputs = Inl e"
  using assms MergeAssignedPayloads_decodable by (cases "MergeAssignedPayloads ffmt inputs") blast+

lemma non_object_undecodable: "\<lbrakk>v \<noteq> JNull; \<forall>m. v \<noteq> JObj m\<rbrakk> \<Longrightarrow> unmarshal_object (RawDoc v) = None"
  by (cases v) auto

lemma non_object_payload_fails:
  assumes asg: "cp \<in> set (assignedProfiles i (ToLower (TrimSpace os)) d)" and raw: "cf_payload cp = RawDoc v"
    and v: "v \<noteq> JNull" "\<forall>m. v \<noteq> JObj m" and c: "cf_id cp \<noteq> uuid_Nil"
  shows "\<exists>e. fst (computeMergedEffectivePolicy L i (telemetryPlatformKey os) d) = Inl e"
proof -
  let ?row = "\<lambda>cp. \<lparr>ap_ID = cf_id cp, ap_Name = cf_name cp, ap_Type = cf_type cp, ap_Payload_raw = cf_payload cp, ap_Platform = cf_platform cp\<rparr>"
  let ?rows = "map ?row (assignedProfiles i (ToLower (TrimSpace os)) d)"
  let ?inp = "\<lparr>ap_Source = \<lparr>ps_ID = cf_id cp, ps_Name = cf_name cp\<rparr>, ap_Payload = RawDoc v\<rparr>"
  have "?inp \<in> set (assignedRowsToMergeInputs ?rows)" using asg raw by (force simp: assignedRowsToMergeInputs_def)
  from undecodable_merge [OF this] c v have m: "\<exists>e. MergeAssignedPayloads (j_num L) (assignedRowsToMergeInputs ?rows) = Inl e"
    by (simp add: decodable_def non_object_undecodable)
  have "(\<exists>e. fst (ListAssignedProfilesForAsset i (telemetryPlatformKey os) d) = Inl e)
      \<or> fst (ListAssignedProfilesForAsset i (telemetryPlatformKey os) d) = Inr ?rows"
  proof -
    have "ToLower (TrimSpace (telemetryPlatformKey os)) = ToLower (TrimSpace os)"
      by (simp add: telemetryPlatformKey_def)
    moreover have "assignedProfiles i q (d\<lparr>stmt_no := m\<rparr>) = assignedProfiles i q d" for q m
      by (simp add: assignedProfiles_def assignedTo_def)
    ultimately show ?thesis by (auto simp: ListAssignedProfilesForAsset_def Let_def query_def sql_def)
  qed
  with m show ?thesis unfolding computeMergedEffectivePolicy_def by (auto split: prod.splits sum.splits)
qed

lemma insertProfileRow_Inr:
  assumes "sql (insertProfileRow n p t pl) d = (Inr i, d')"
  shows "\<exists>cp. configuration_profiles d' = configuration_profiles d @ [cp] \<and> cf_payload cp = pl
    \<and> cf_id cp = random_uuid (d\<lparr>stmt_no := Suc (stmt_no d)\<rparr>)"
  using assms by (auto simp: sql_def Let_def insertProfileRow_def uuid_used_def split: if_splits)

text \<open>Profile creation stores the payload as it came, so a payload that is valid JSON but not an object (a
  string, a number, a list) is accepted with 201; from then on, on every device that the stored profile
  applies to, the effective policy cannot be computed and the policy routes answer 500.\<close>

theorem non_object_payload_poisons:
  assumes run: "profiles_handleCreate L A r d0 = (RespJson 201 j, d1)" and body: "decodeBody r decodeCreateProfile = Some (n, pl, t, RawDoc v)"
    and v: "v \<noteq> JNull" "\<forall>m. v \<noteq> JObj m" and u: "random_uuid (d0\<lparr>stmt_no := Suc (stmt_no d0)\<rparr>) \<noteq> uuid_Nil"
  shows "\<exists>cp. configuration_profiles d1 = configuration_profiles d0 @ [cp] \<and> cf_payload cp = RawDoc v
    \<and> (\<forall>i os d. cp \<in> set (assignedProfiles i (ToLower (TrimSpace os)) d) \<longrightarrow>
         (\<exists>e. fst (computeMergedEffectivePolicy L i (telemetryPlatformKey os) d) = Inl e))"
proof -
  have "\<exists>name platform ptype i. sql (insertProfileRow name platform ptype (RawDoc v)) d0 = (Inr i, d1)"
    using run body unfolding profiles_handleCreate_def Let_def
    apply (elim answer_success [elim_format])
      apply (intro refuses_intros; simp)
     apply simp
    apply (elim abind_Inr_cases)
    apply (simp only: act_Inr split_paired_all prod.case)
    apply (elim abind_Inr_cases)
    apply (clarsimp simp only: act_Inr)
    apply (simp add: areturn_def)
    done
  then obtain cp where "configuration_profiles d1 = configuration_profiles d0 @ [cp]" "cf_payload cp = RawDoc v"
      "cf_id cp = random_uuid (d0\<lparr>stmt_no := Suc (stmt_no d0)\<rparr>)"
    using insertProfileRow_Inr by metis
  with non_object_payload_fails v u show ?thesis by metis
qed

text \<open>The patch of a profile is not atomic: each field is its own \<open>UPDATE\<close>, so a valid name followed by a
  blank type is answered 400 although the profile has been renamed.\<close>

theorem profile_patch_partial:
  assumes role: "RequireMinRole L A (now d) r ''operator'' = Inr p" and m: "rq_Method r = ''PATCH''" and i: "parseProfileUUID L r = Inr pid"
    and q: "decodeBody r decodePatchProfile = Some q" "pp_Name q = Some s" "pp_Type q = Some t"
    and s: "TrimSpace s \<noteq> ''''" "RuneCount (TrimSpace s) \<le> 200" and t: "TrimSpace t = ''''"
    and up: "\<not> fault_at d (stmt_no d)" and wf: "wf_profiles d" and ex: "pid \<in> cf_id ` set (configuration_profiles d)"
  shows "\<exists>d'. profiles_handlePatch L A r d = (RespError 400 (Err ''invalid type''), d')
    \<and> configuration_profiles d' = update_where (\<lambda>p. cf_id p = pid) (cf_name_update (\<lambda>_. TrimSpace s)) (configuration_profiles d)"
proof -
  let ?rows = "update_where (\<lambda>p. cf_id p = pid) (cf_name_update (\<lambda>_. TrimSpace s)) (configuration_profiles d)"
  have k: "profileCheck (cf_name_update g p) = profileCheck p" for g p by (simp add: profileCheck_def)
  have w: "profileCheck p" if "p \<in> set (configuration_profiles d)" for p using wf that by (simp add: wf_profiles_def list_all_iff)
  have c: "\<not> list_ex (\<lambda>p. cf_id p = pid \<and> \<not> profileCheck p) ?rows"
  proof -
    have "\<forall>p \<in> set ?rows. profileCheck p" unfolding update_where_def using k w by auto
    then show ?thesis by (auto simp: list_ex_iff)
  qed
  have n: "affected (\<lambda>p. cf_id p = pid) (configuration_profiles d) \<noteq> 0"
    using ex by (auto simp: affected_def filter_empty_conv)
  let ?d' = "d\<lparr>stmt_no := Suc (stmt_no d), configuration_profiles := ?rows\<rparr>"
  have "profileSet pid (cf_name_update (\<lambda>_. TrimSpace s)) d = (Inr (), ?d')"
  proof -
    have "updateProfileRow pid (cf_name_update (\<lambda>_. TrimSpace s)) (d\<lparr>stmt_no := Suc (stmt_no d)\<rparr>)
        = (Inr (affected (\<lambda>p. cf_id p = pid) (configuration_profiles d)), ?d')"
      using c by (simp add: updateProfileRow_def Let_def)
    then show ?thesis using up n by (simp add: profileSet_def abind_def require_def areturn_def statement_def sql_def Let_def)
  qed
  then have "patchProfile pid q d = (Inl (RespError 400 (Err ''invalid type'')), ?d')"
    unfolding patchProfile_def q(2,3) Let_def option.case using s t by (simp add: abind_def require_def areturn_def fail_def)
  with role m i q show ?thesis
    by (simp add: profiles_handlePatch_def answer_def act_unfold profileID_def) (simp add: abind_def)
qed

interpretation profiles: maintained "profile_step L A" wf_profiles for L A
  by unfold_locales (rule profile_step_wf)

text \<open>Whatever the order in which the profile, assignment and group routes and the policy computation run,
  and whichever statements fail, the tables stay consistent: unique ids, group names unique up to case,
  platforms and types in range, every assignment of an existing profile to exactly one existing target of the
  kind it names, and every membership of an existing group and device, listed once.\<close>

theorem profile_tables_consistent:
  assumes "(profile_step L A)\<^sup>*\<^sup>* d d'" and "wf_profiles d"
  shows "wf_profiles d'"
  using assms by (rule profiles.run_keeps)

section \<open>Examples\<close>

definition exampleProfile0 :: configuration_profile where
  "exampleProfile0 = \<lparr>cf_id = 2, cf_name = ''base'', cf_platform = ''linux'', cf_type = ''restrictions'', cf_payload = RawDoc (JObj []), cf_created_at = 0\<rparr>"

definition exampleGroups :: db where
  "exampleGroups = empty_db\<lparr>assets := [exampleAsset 7 ''42''], configuration_profiles := [exampleProfile0],
     principal_groups := [\<lparr>pg_id = 3, pg_name = ''Lab'', pg_description = '''', pg_created_at = 0\<rparr>],
     principal_group_devices := [\<lparr>gd_group_id = 3, gd_device_id = 7, gd_created_at = 0\<rparr>]\<rparr>"

definition profileRequest :: "string \<Rightarrow> json_object \<Rightarrow> request" where
  "profileRequest m body = (exampleRequest m ''/v1/mdm/profiles/2'' body)\<lparr>rq_Principal := Some exampleAdmin\<rparr>"

lemma exampleGroups_wf: "wf_profiles exampleGroups"
proof -
  have "profileCheck exampleProfile0" by code_simp
  then show ?thesis by (simp add: wf_profiles_def exampleGroups_def empty_db_def exampleAsset_def)
qed

definition exampleAssign :: "response \<times> db" where
  "exampleAssign = profiles_handleAssign exampleLib exampleAuth
     (profileRequest ''POST'' [(''target_kind'', JStr ''principal_group''), (''principal_group_id'', JStr ''3'')]) exampleGroups"

theorem assignment_reaches_targets_witness:
  "exampleProfile0 \<in> set (assignedProfiles 7 ''linux'' (snd exampleAssign)) \<and> exampleProfile0 \<notin> set (assignedProfiles 8 ''linux'' (snd exampleAssign))"
proof -
  let ?r = "profileRequest ''POST'' [(''target_kind'', JStr ''principal_group''), (''principal_group_id'', JStr ''3'')]"
  have "fst exampleAssign = RespJson 201 (JObj [(''assignment_id'', JStr ''1'')])" by code_simp
  then have r: "profiles_handleAssign exampleLib exampleAuth ?r exampleGroups = (RespJson 201 (JObj [(''assignment_id'', JStr ''1'')]), snd exampleAssign)"
    by (simp add: exampleAssign_def prod_eq_iff)
  have p: "parseProfileUUID exampleLib ?r = Inr 2" and b: "decodeBody ?r decodeAssign = Some (''principal_group'', [], ''3'')"
    and t: "requestedTarget exampleLib (''principal_group'', [], ''3'') = (''principal_group'', None, Some 3)"
    and o: "assignedProfiles 8 ''linux'' exampleGroups = []" and l: "ToLower (pg_trim ''linux'') = ''linux''"
    by code_simp+
  have m: "targets ''principal_group'' None (Some 3) exampleGroups = {7}" by (auto simp: targets_def members_def exampleGroups_def)
  have c: "configuration_profiles exampleGroups = [exampleProfile0]" "cf_id exampleProfile0 = 2" "cf_platform exampleProfile0 = ''linux''"
    by (simp_all add: exampleGroups_def exampleProfile0_def)
  from assignment_reaches_targets [OF r exampleGroups_wf] p b t m
  have "set (assignedProfiles i ''linux'' (snd exampleAssign)) = set (assignedProfiles i ''linux'' exampleGroups) \<union> (if i = 7 then {exampleProfile0} else {})" for i
    using c l by auto
  then show ?thesis using o by simp
qed

theorem profile_tables_consistent_witness:
  "wf_profiles (snd (profiles_handleDelete exampleLib exampleAuth (profileRequest ''DELETE'' []) (snd exampleAssign)))
   \<and> profile_assignments (snd (profiles_handleDelete exampleLib exampleAuth (profileRequest ''DELETE'' []) (snd exampleAssign))) = []"
proof
  have "(profile_step exampleLib exampleAuth)\<^sup>*\<^sup>* exampleGroups
      (snd (profiles_handleDelete exampleLib exampleAuth (profileRequest ''DELETE'' []) (snd exampleAssign)))"
    unfolding exampleAssign_def by (blast intro: ps_assign ps_profile_delete rtranclp.intros)
  from profile_tables_consistent [OF this exampleGroups_wf]
  show "wf_profiles (snd (profiles_handleDelete exampleLib exampleAuth (profileRequest ''DELETE'' []) (snd exampleAssign)))" .
  show "profile_assignments (snd (profiles_handleDelete exampleLib exampleAuth (profileRequest ''DELETE'' []) (snd exampleAssign))) = []"
    by code_simp
qed

theorem effective_policies_agree_witness:
  "fst (EffectiveMergedPayload exampleLib 7 ''Linux'' (exampleGroups\<lparr>profile_assignments := profile_assignments (snd exampleAssign)\<rparr>))
   = map_sum id EffectivePayload (fst (computeMergedEffectivePolicy exampleLib 7 (telemetryPlatformKey ''Linux'')
       (exampleGroups\<lparr>profile_assignments := profile_assignments (snd exampleAssign)\<rparr>)))"
  by (rule effective_policies_agree) (simp add: exampleGroups_def empty_db_def)

theorem non_object_payload_poisons_witness:
  "\<exists>cp. configuration_profiles (snd (profiles_handleCreate exampleLib exampleAuth (profileRequest ''POST''
       [(''name'', JStr ''x''), (''type'', JStr ''t''), (''platform'', JStr ''linux''), (''payload'', JStr ''bad'')]) exampleGroups)) = [exampleProfile0, cp]
     \<and> cf_payload cp = RawDoc (JStr ''bad'')"
proof -
  let ?r = "profileRequest ''POST'' [(''name'', JStr ''x''), (''type'', JStr ''t''), (''platform'', JStr ''linux''), (''payload'', JStr ''bad'')]"
  let ?run = "profiles_handleCreate exampleLib exampleAuth ?r exampleGroups"
  have s: "fst ?run = RespJson 201 (JObj [(''id'', JStr ''1'')])" and b: "decodeBody ?r decodeCreateProfile = Some (''x'', ''linux'', ''t'', RawDoc (JStr ''bad''))" by code_simp+
  have r: "?run = (RespJson 201 (JObj [(''id'', JStr ''1'')]), snd ?run)" using s by (simp add: prod_eq_iff)
  have "random_uuid (exampleGroups\<lparr>stmt_no := Suc (stmt_no exampleGroups)\<rparr>) \<noteq> uuid_Nil" by code_simp
  from non_object_payload_poisons [OF r b _ _ this] show ?thesis by (auto simp: exampleGroups_def)
qed

theorem profile_patch_partial_witness:
  "\<exists>d'. profiles_handlePatch exampleLib exampleAuth (profileRequest ''PATCH'' [(''name'', JStr ''new''), (''type'', JStr '' '')]) exampleGroups
      = (RespError 400 (Err ''invalid type''), d') \<and> map cf_name (configuration_profiles d') = [''new'']"
proof -
  let ?r = "profileRequest ''PATCH'' [(''name'', JStr ''new''), (''type'', JStr '' '')]"
  let ?q = "\<lparr>pp_Name = Some ''new'', pp_Type = Some '' '', pp_Payload = RawEmpty, pp_Platform = None\<rparr>"
  have "RequireMinRole exampleLib exampleAuth (now exampleGroups) ?r ''operator'' = Inr exampleAdmin" "rq_Method ?r = ''PATCH''"
    "parseProfileUUID exampleLib ?r = Inr 2" "decodeBody ?r decodePatchProfile = Some ?q" "TrimSpace ''new'' = ''new''" "TrimSpace '' '' = ''''"
    "RuneCount (TrimSpace ''new'') \<le> 200" "\<not> fault_at exampleGroups (stmt_no exampleGroups)"
    by code_simp+
  then show ?thesis
    using profile_patch_partial [of exampleLib exampleAuth exampleGroups ?r exampleAdmin 2 ?q "''new''" "'' ''"] exampleGroups_wf
    by (auto simp: exampleGroups_def exampleProfile0_def update_where_def)
qed

end
