(* ===== verification/Packages.thy ===== *)
theory Packages
  imports Outcomes
begin

text \<open>
  The package catalogue and deployments to devices (\<open>api/packages.go\<close>), with the constraints of migration 1. A deployment is stored, sent to the agent over
  the hub and then marked; \<open>meanwhile\<close> stands for what other goroutines do to the database and the hub
  between the dispatch and the mark. \<open>pgx\<close> is the text of a driver error.
\<close>

section \<open>Packages\<close>

definition allowedPackageTypes :: "string list" where
  "allowedPackageTypes = [''winget'', ''apt'', ''dnf'', ''choco'', ''custom'']"

definition packageWire :: "lib \<Rightarrow> package \<Rightarrow> json" where
  "packageWire L p =
     JObj [(''id'', JStr (u_str L (pk_id p))), (''name'', JStr (pk_name p)), (''version'', JStr (pk_version p)), (''type'', JStr (pk_type p)),
           (''install_cmd'', JStr (pk_install_cmd p)), (''created_at'', JStr (t_json L (pk_created_at p))), (''updated_at'', JStr (t_json L (pk_updated_at p)))]"

definition handleListPackages :: "lib \<Rightarrow> DashboardAuth \<Rightarrow> request \<Rightarrow> db \<Rightarrow> response \<times> db" where
  "handleListPackages L A r = answer
     (abind (ifMethod r ''GET'') (\<lambda>_.
      abind (authorize L A r ''viewer'') (\<lambda>_.
      abind (statement (query (\<lambda>d. sort_key pk_name (sort_key pk_type (sort_key pk_version (packages d))))) (failWith 500 ''failed to list packages'')) (\<lambda>rows.
      areturn (RespJson 200 (JArr (map (packageWire L) rows)))))))"

definition insertPackageRow :: "string \<Rightarrow> string \<Rightarrow> string \<Rightarrow> string \<Rightarrow> db \<Rightarrow> uuid sql_result" where
  "insertPackageRow name version ptype cmd d =
     (let i = random_uuid d
      in if ptype \<notin> set allowedPackageTypes then (Inl ErrCheck, uuid_used d)
         else if i \<in> pk_id ` set (packages d) then (Inl ErrUnique, uuid_used d)
         else (Inr i, (uuid_used d)\<lparr>packages := packages d @ [\<lparr>pk_id = i, pk_name = name, pk_version = version, pk_type = ptype,
                 pk_install_cmd = cmd, pk_created_at = now d, pk_updated_at = now d\<rparr>]\<rparr>))"

definition decodeCreatePackage :: "json_object \<Rightarrow> (string \<times> string \<times> string \<times> string) option" where
  "decodeCreatePackage m =
     (case (get_string ''name'' m, get_string ''version'' m, get_string ''type'' m, get_string ''install_cmd'' m) of
        (Some n, Some v, Some t, Some c) \<Rightarrow> Some (n, v, t, c)
      | _ \<Rightarrow> None)"

definition handleCreatePackage :: "lib \<Rightarrow> DashboardAuth \<Rightarrow> request \<Rightarrow> db \<Rightarrow> response \<times> db" where
  "handleCreatePackage L A r = answer
     (abind (ifMethod r ''POST'') (\<lambda>_.
      abind (authorize L A r ''operator'') (\<lambda>_.
      abind (given (decodeBody r decodeCreatePackage) 400 ''invalid JSON body'') (\<lambda>(n, v, t, c).
      let name = TrimSpace n; ptype = ToLower (TrimSpace t); version = TrimSpace v; cmd = TrimSpace c
      in abind (require (name \<noteq> '''') 400 ''name is required'') (\<lambda>_.
         abind (require (ptype \<in> set allowedPackageTypes) 400 ''invalid type'') (\<lambda>_.
         abind (require (\<not> (ptype = ''custom'' \<and> cmd = '''')) 400 ''install_cmd is required for custom packages'') (\<lambda>_.
         abind (statement (sql (insertPackageRow name version ptype cmd)) (failWith 500 ''failed to create package'')) (\<lambda>i.
         areturn (RespJson 201 (JObj [(''id'', JStr (u_str L i))]))))))))))"

definition findPackage :: "uuid \<Rightarrow> db \<Rightarrow> package sql_result" where
  "findPackage i = query_row (\<lambda>d. find (\<lambda>p. pk_id p = i) (packages d))"

definition handleGetPackage :: "lib \<Rightarrow> DashboardAuth \<Rightarrow> request \<Rightarrow> db \<Rightarrow> response \<times> db" where
  "handleGetPackage L A r = answer
     (abind (ifMethod r ''GET'') (\<lambda>_.
      abind (authorize L A r ''viewer'') (\<lambda>_.
      abind (given (pathUUID L r) 400 ''invalid package id'') (\<lambda>i.
      abind (statement (findPackage i) (noRows 404 ''package not found'' 500 ''failed to load package'')) (\<lambda>p.
      areturn (RespJson 200 (packageWire L p)))))))"

record patchPackageRequest =
  pq_Name :: "string option"
  pq_Version :: "string option"
  pq_Type :: "string option"
  pq_InstallCmd :: "string option"

definition decodePatchPackage :: "json_object \<Rightarrow> patchPackageRequest option" where
  "decodePatchPackage m =
     (case (get_string_ptr ''name'' m, get_string_ptr ''version'' m, get_string_ptr ''type'' m, get_string_ptr ''install_cmd'' m) of
        (Some n, Some v, Some t, Some c) \<Rightarrow> Some \<lparr>pq_Name = n, pq_Version = v, pq_Type = t, pq_InstallCmd = c\<rparr>
      | _ \<Rightarrow> None)"

text \<open>The \<open>SET\<close> list of the one \<open>UPDATE\<close>: absent fields keep their column.\<close>

definition patchPackageRow :: "patchPackageRequest \<Rightarrow> time \<Rightarrow> package \<Rightarrow> package" where
  "patchPackageRow q t p =
     p\<lparr>pk_name := (case pq_Name q of None \<Rightarrow> pk_name p | Some s \<Rightarrow> TrimSpace s),
       pk_version := (case pq_Version q of None \<Rightarrow> pk_version p | Some s \<Rightarrow> TrimSpace s),
       pk_type := (case pq_Type q of None \<Rightarrow> pk_type p | Some s \<Rightarrow> ToLower (TrimSpace s)),
       pk_install_cmd := (case pq_InstallCmd q of None \<Rightarrow> pk_install_cmd p | Some s \<Rightarrow> TrimSpace s),
       pk_updated_at := t\<rparr>"

definition updatePackageRow :: "uuid \<Rightarrow> patchPackageRequest \<Rightarrow> db \<Rightarrow> nat sql_result" where
  "updatePackageRow i q d =
     (let rows = update_where (\<lambda>p. pk_id p = i) (patchPackageRow q (now d)) (packages d)
      in if list_ex (\<lambda>p. pk_id p = i \<and> pk_type p \<notin> set allowedPackageTypes) rows then (Inl ErrCheck, d)
         else (Inr (affected (\<lambda>p. pk_id p = i) (packages d)), d\<lparr>packages := rows\<rparr>))"

definition handlePatchPackage :: "lib \<Rightarrow> DashboardAuth \<Rightarrow> request \<Rightarrow> db \<Rightarrow> response \<times> db" where
  "handlePatchPackage L A r = answer
     (abind (ifMethod r ''PATCH'') (\<lambda>_.
      abind (authorize L A r ''operator'') (\<lambda>_.
      abind (given (pathUUID L r) 400 ''invalid package id'') (\<lambda>i.
      abind (given (decodeBody r decodePatchPackage) 400 ''invalid JSON body'') (\<lambda>q.
      abind (require (\<not> (pq_Name q = None \<and> pq_Version q = None \<and> pq_Type q = None \<and> pq_InstallCmd q = None)) 400 ''no fields to update'') (\<lambda>_.
      abind (require (case pq_Name q of None \<Rightarrow> True | Some s \<Rightarrow> TrimSpace s \<noteq> '''') 400 ''name cannot be empty'') (\<lambda>_.
      abind (require (case pq_Type q of None \<Rightarrow> True | Some s \<Rightarrow> ToLower (TrimSpace s) \<in> set allowedPackageTypes) 400 ''invalid type'') (\<lambda>_.
      abind (statement (sql (updatePackageRow i q)) (failWith 500 ''failed to update package'')) (\<lambda>n.
      abind (require (n \<noteq> 0) 404 ''package not found'') (\<lambda>_.
      (\<lambda>d. (case findPackage i d of
              (Inl e, d) \<Rightarrow> (Inr (RespJson 200 (statusJson ''updated'')), d)
            | (Inr p, d) \<Rightarrow> (Inr (RespJson 200 (packageWire L p)), d)))))))))))))"

definition deletePackageRow :: "uuid \<Rightarrow> db \<Rightarrow> nat sql_result" where
  "deletePackageRow i d =
     (let n = affected (\<lambda>p. pk_id p = i) (packages d)
      in if n = 0 then (Inr 0, d)
         else (Inr n, d\<lparr>packages := filter (\<lambda>p. pk_id p \<noteq> i) (packages d),
                        deployments := filter (\<lambda>dp. dp_package_id dp \<noteq> i) (deployments d)\<rparr>))"

definition handleDeletePackage :: "lib \<Rightarrow> DashboardAuth \<Rightarrow> request \<Rightarrow> db \<Rightarrow> response \<times> db" where
  "handleDeletePackage L A r = answer
     (abind (ifMethod r ''DELETE'') (\<lambda>_.
      abind (authorize L A r ''admin'') (\<lambda>_.
      abind (given (pathUUID L r) 400 ''invalid package id'') (\<lambda>i.
      abind (statement (sql (deletePackageRow i)) (failWith 500 ''failed to delete package'')) (\<lambda>n.
      abind (require (n \<noteq> 0) 404 ''package not found'') (\<lambda>_.
      areturn (RespEmpty 204)))))))"

section \<open>Deployments\<close>

definition deploymentWire :: "lib \<Rightarrow> deployment \<times> asset \<times> package \<Rightarrow> json" where
  "deploymentWire L = (\<lambda>(dp, a, p).
     JObj ([(''id'', JStr (u_str L (dp_id dp))), (''asset_id'', JStr (u_str L (dp_asset_id dp))), (''asset_human_id'', JStr (a_human_id a)),
            (''package_id'', JStr (u_str L (dp_package_id dp))), (''package_name'', JStr (pk_name p)), (''package_type'', JStr (pk_type p)),
            (''package_version'', JStr (pk_version p)), (''status'', JStr (dp_status dp))]
       @ opt_field ''error_message'' (map_option JStr (dp_error_message dp))
       @ [(''created_at'', JStr (t_json L (dp_created_at dp))), (''updated_at'', JStr (t_json L (dp_updated_at dp)))]))"

text \<open>The inner joins with \<open>assets\<close> and \<open>packages\<close> on their keys.\<close>

definition joinDeployment :: "db \<Rightarrow> deployment \<Rightarrow> (deployment \<times> asset \<times> package) list" where
  "joinDeployment d dp =
     (case (find (\<lambda>a. a_id a = dp_asset_id dp) (assets d), find (\<lambda>p. pk_id p = dp_package_id dp) (packages d)) of
        (Some a, Some p) \<Rightarrow> [(dp, a, p)]
      | _ \<Rightarrow> [])"

definition listDeployments :: "string \<Rightarrow> db \<Rightarrow> (deployment \<times> asset \<times> package) list" where
  "listDeployments assetHID d =
     take 500 (sort_key (\<lambda>(dp, a, p). - dp_created_at dp)
       (filter (\<lambda>(dp, a, p). assetHID = '''' \<or> a_human_id a = assetHID) (concat (map (joinDeployment d) (deployments d)))))"

definition handleListDeployments :: "lib \<Rightarrow> DashboardAuth \<Rightarrow> request \<Rightarrow> db \<Rightarrow> response \<times> db" where
  "handleListDeployments L A r = answer
     (abind (ifMethod r ''GET'') (\<lambda>_.
      abind (authorize L A r ''viewer'') (\<lambda>_.
      abind (statement (query (listDeployments (TrimSpace (rq_Query r ''asset_human_id'')))) (failWith 500 ''failed to list deployments'')) (\<lambda>rows.
      areturn (RespJson 200 (JArr (map (deploymentWire L) rows)))))))"

definition findAssetID :: "string \<Rightarrow> db \<Rightarrow> uuid sql_result" where
  "findAssetID hid = query_row (\<lambda>d. map_option a_id (find (\<lambda>a. a_human_id a = hid) (assets d)))"

definition insertDeploymentRow :: "uuid \<Rightarrow> uuid \<Rightarrow> db \<Rightarrow> uuid sql_result" where
  "insertDeploymentRow assetID pkgID d =
     (let i = random_uuid d
      in if i \<in> dp_id ` set (deployments d) then (Inl ErrUnique, uuid_used d)
         else if assetID \<notin> a_id ` set (assets d) \<or> pkgID \<notin> pk_id ` set (packages d) then (Inl ErrForeignKey, uuid_used d)
         else (Inr i, (uuid_used d)\<lparr>deployments := deployments d @ [\<lparr>dp_id = i, dp_asset_id = assetID, dp_package_id = pkgID,
                 dp_status = ''pending'', dp_error_message = None, dp_created_at = now d, dp_updated_at = now d\<rparr>]\<rparr>))"

definition setDeployment :: "uuid \<Rightarrow> (time \<Rightarrow> deployment \<Rightarrow> deployment) \<Rightarrow> db \<Rightarrow> unit sql_result" where
  "setDeployment i f = sql (\<lambda>d. (Inr (), d\<lparr>deployments := update_where (\<lambda>dp. dp_id dp = i) (f (now d)) (deployments d)\<rparr>))"

definition deploymentFailed :: "string \<Rightarrow> time \<Rightarrow> deployment \<Rightarrow> deployment" where
  "deploymentFailed msg t dp = dp\<lparr>dp_status := ''failed'', dp_error_message := Some msg, dp_updated_at := t\<rparr>"

definition deploymentDispatched :: "time \<Rightarrow> deployment \<Rightarrow> deployment" where
  "deploymentDispatched t dp = dp\<lparr>dp_status := ''dispatched'', dp_updated_at := t\<rparr>"

definition errorText :: "(sql_error \<Rightarrow> string) \<Rightarrow> go_error \<Rightarrow> string" where
  "errorText pgx e = (case e of Err s \<Rightarrow> s | Wrap s x \<Rightarrow> s @ '': '' @ pgx x | Driver x \<Rightarrow> pgx x)"

definition deployPayload :: "lib \<Rightarrow> uuid \<Rightarrow> string \<Rightarrow> package \<Rightarrow> json" where
  "deployPayload L depID op p =
     JObj [(''action'', JStr ''deploy_package''), (''deployment_id'', JStr (u_str L depID)), (''operation'', JStr op), (''package_type'', JStr (pk_type p)),
           (''name'', JStr (pk_name p)), (''version'', JStr (pk_version p)), (''install_cmd'', JStr (pk_install_cmd p))]"

text \<open>Dispatch and mark: the error text, empty on success.\<close>

definition sendDeployment ::
  "(sql_error \<Rightarrow> string) \<Rightarrow> (db \<times> hub \<Rightarrow> db \<times> hub) \<Rightarrow> uuid \<Rightarrow> string \<Rightarrow> json \<Rightarrow> db \<times> hub \<Rightarrow> (string + unit) \<times> db \<times> hub" where
  "sendDeployment pgx meanwhile depID hid payload s =
     (case DispatchJSONByHumanID hid payload s of
        (Inl e, d, h) \<Rightarrow> (Inl (errorText pgx e), snd (setDeployment depID (deploymentFailed (errorText pgx e)) d), h)
      | (Inr _, s) \<Rightarrow> (case meanwhile s of (d, h) \<Rightarrow> (Inr (), snd (setDeployment depID deploymentDispatched d), h)))"

record createDeploymentRequest =
  cd_AssetHumanID :: string
  cd_PackageID :: string
  cd_TriggerDeploy :: bool
  cd_Operation :: string

definition decodeCreateDeployment :: "json_object \<Rightarrow> createDeploymentRequest option" where
  "decodeCreateDeployment m =
     (case (get_string ''asset_human_id'' m, get_string ''package_id'' m, get_bool ''trigger_deploy'' m, get_string ''operation'' m) of
        (Some a, Some p, Some t, Some op) \<Rightarrow> Some \<lparr>cd_AssetHumanID = a, cd_PackageID = p, cd_TriggerDeploy = t, cd_Operation = op\<rparr>
      | _ \<Rightarrow> None)"

definition nullIfEmpty :: "string \<Rightarrow> json" where
  "nullIfEmpty s = (if TrimSpace s = '''' then JNull else JStr s)"

text \<open>A deployment without a trigger stays pending; without a hub it fails at once.\<close>

definition triggerDeployment ::
  "(sql_error \<Rightarrow> string) \<Rightarrow> bool \<Rightarrow> (db \<times> hub \<Rightarrow> db \<times> hub) \<Rightarrow> bool \<Rightarrow> uuid \<Rightarrow> string \<Rightarrow> json \<Rightarrow> (db \<times> hub, bool \<times> string) act" where
  "triggerDeployment pgx hubSet meanwhile trigger depID hid payload s =
     (if \<not> trigger then (Inr (False, ''''), s)
      else if \<not> hubSet then
        (case s of (d, h) \<Rightarrow> (Inr (False, ''c2 hub not configured''), snd (setDeployment depID (deploymentFailed ''c2 hub not configured'') d), h))
      else (case sendDeployment pgx meanwhile depID hid payload s of
              (Inl e, s) \<Rightarrow> (Inr (False, e), s)
            | (Inr _, s) \<Rightarrow> (Inr (True, ''''), s)))"

definition handleCreateDeployment ::
  "lib \<Rightarrow> DashboardAuth \<Rightarrow> (sql_error \<Rightarrow> string) \<Rightarrow> bool \<Rightarrow> (db \<times> hub \<Rightarrow> db \<times> hub) \<Rightarrow> request \<Rightarrow> db \<times> hub \<Rightarrow> response \<times> db \<times> hub" where
  "handleCreateDeployment L A pgx hubSet meanwhile r = answer
     (abind (ifMethod r ''POST'') (\<lambda>_.
      abind (onDb (authorize L A r ''operator'')) (\<lambda>_.
      abind (given (decodeBody r decodeCreateDeployment) 400 ''invalid JSON body'') (\<lambda>q.
      let hid = TrimSpace (cd_AssetHumanID q); pkgRef = TrimSpace (cd_PackageID q); given_op = ToLower (TrimSpace (cd_Operation q));
          op = (if given_op = '''' then ''install'' else given_op)
      in abind (require (\<not> (hid = '''' \<or> pkgRef = '''')) 400 ''asset_human_id and package_id are required'') (\<lambda>_.
         abind (require (op = ''install'' \<or> op = ''uninstall'') 400 ''operation must be install or uninstall'') (\<lambda>_.
         abind (given (u_parse L pkgRef) 400 ''invalid package_id'') (\<lambda>pkgID.
         abind (onDb (statement (findAssetID hid) (noRows 400 ''asset not found'' 500 ''failed to resolve asset''))) (\<lambda>assetID.
         abind (onDb (statement (findPackage pkgID) (noRows 400 ''package not found'' 500 ''failed to load package''))) (\<lambda>pkg.
         abind (onDb (statement (sql (insertDeploymentRow assetID (pk_id pkg))) (failWith 500 ''failed to create deployment''))) (\<lambda>depID.
         abind (triggerDeployment pgx hubSet meanwhile (cd_TriggerDeploy q) depID hid (deployPayload L depID op pkg)) (\<lambda>(dispatched, err).
         areturn (RespJson 201 (JObj [(''id'', JStr (u_str L depID)), (''triggered'', JBool (cd_TriggerDeploy q)),
           (''dispatch_succeeded'', JBool dispatched), (''dispatch_error'', nullIfEmpty err)])))))))))))))"

end
