(* ===== verification/Scheduler.thy ===== *)
theory Scheduler
  imports Packages
begin

text \<open>
  Scheduled automations: the cron runner (\<open>scheduler/cron.go\<close>) and its REST routes (\<open>api/automations.go\<close>). The
  parsers of \<open>robfig/cron\<close> and the \<open>%v\<close> format of a float are parameters. A schedule is the function from a
  time to the next activation. The runner keeps the registered jobs; a job reads its automation again when
  it fires. \<open>meanwhile\<close> is what other goroutines do between a dispatch and the mark that follows it.
\<close>

type_synonym schedule = "time \<Rightarrow> time"

record cron_lib =
  cron_ParseStandard :: "string \<Rightarrow> string + schedule"
  cron_ParseOptional :: "string \<Rightarrow> string + schedule"
  fmt_float :: "rat \<Rightarrow> string"

section \<open>The runner (cron.go)\<close>

definition parseCronSpec :: "cron_lib \<Rightarrow> string \<Rightarrow> string + schedule" where
  "parseCronSpec C spec =
     (let spec = TrimSpace spec
      in if spec = '''' then Inl ''empty cron expression''
         else (case cron_ParseStandard C spec of Inr sched \<Rightarrow> Inr sched | Inl _ \<Rightarrow> cron_ParseOptional C spec))"

definition ValidateCronSchedule :: "cron_lib \<Rightarrow> string \<Rightarrow> string option" where
  "ValidateCronSchedule C spec = (case parseCronSpec C spec of Inl e \<Rightarrow> Some e | Inr _ \<Rightarrow> None)"

text \<open>\<open>s.cr\<close>: the jobs of the running \<open>cron.Cron\<close>, \<open>None\<close> when there is none.\<close>

record Scheduler =
  sc_cr :: "(schedule \<times> uuid) list option"

definition loadActive :: "db \<Rightarrow> automation list sql_result" where
  "loadActive = query (\<lambda>d. filter at_is_active (automations d))"

definition cronJobs :: "cron_lib \<Rightarrow> automation list \<Rightarrow> (schedule \<times> uuid) list" where
  "cronJobs C rows =
     concat (map (\<lambda>row. case parseCronSpec C (at_cron_schedule row) of Inl _ \<Rightarrow> [] | Inr sched \<Rightarrow> [(sched, at_id row)]) rows)"

definition reload :: "cron_lib \<Rightarrow> Scheduler \<Rightarrow> db \<Rightarrow> Scheduler \<times> db" where
  "reload C s d =
     (case loadActive d of
        (Inl e, d) \<Rightarrow> (s, d)
      | (Inr rows, d) \<Rightarrow> (s\<lparr>sc_cr := Some (cronJobs C rows)\<rparr>, d))"

definition stopCron :: "Scheduler \<Rightarrow> Scheduler" where
  "stopCron s = s\<lparr>sc_cr := None\<rparr>"

definition hasCert :: "asset \<Rightarrow> bool" where
  "hasCert a \<longleftrightarrow> (case a_cert_serial a of None \<Rightarrow> False | Some c \<Rightarrow> pg_trim c \<noteq> '''')"

definition resolveTargetHumanIDs :: "automation \<Rightarrow> db \<Rightarrow> (go_error + string list) \<times> db" where
  "resolveTargetHumanIDs row d =
     (case at_target_asset_id row of
        Some i \<Rightarrow>
          (case query_row (\<lambda>d. map_option a_human_id (find (\<lambda>a. a_id a = i \<and> hasCert a) (assets d))) d of
             (Inl e, d) \<Rightarrow> (if e = ErrNoRows then Inr [] else Inl (Driver e), d)
           | (Inr hid, d) \<Rightarrow> (Inr [TrimSpace hid], d))
      | None \<Rightarrow>
          (case at_target_os row of
             None \<Rightarrow> (Inl (Err ''target_os and target_asset_id unset''), d)
           | Some t \<Rightarrow>
               (case query (\<lambda>d. map a_human_id (filter (\<lambda>a. a_os_type a = TrimSpace (ToLower t) \<and> hasCert a) (assets d))) d of
                  (Inl e, d) \<Rightarrow> (Inl (Driver e), d)
                | (Inr hids, d) \<Rightarrow> (Inr (filter (\<lambda>h. h \<noteq> '''') (map TrimSpace hids)), d))))"

definition auditDispatch :: "automation \<Rightarrow> string \<Rightarrow> string \<Rightarrow> json_object \<Rightarrow> db \<Rightarrow> db" where
  "auditDispatch row hid action details d =
     (case query_row (\<lambda>d. map_option a_id (find (\<lambda>a. a_human_id a = hid) (assets d))) d of
        (x, d) \<Rightarrow>
          let assetID = (case x of Inl _ \<Rightarrow> None | Inr i \<Rightarrow> Some i)
          in snd (InsertAuditRecord \<lparr>ar_UserID = uuid_Nil, ar_Action = action, ar_ResourceType = ''device'', ar_ResourceID = assetID,
               ar_TargetAssetID = assetID, ar_Details = details, ar_IPAddress = ''''\<rparr> d))"

definition dispatchShutdown :: "lib \<Rightarrow> automation \<Rightarrow> string \<Rightarrow> db \<times> hub \<Rightarrow> db \<times> hub" where
  "dispatchShutdown L row hid s =
     (case DispatchJSONByHumanID hid (JObj [(''action'', JStr ''shutdown'')]) s of
        (Inl e, s) \<Rightarrow> s
      | (Inr _, d, h) \<Rightarrow>
          (auditDispatch row hid ''automation.shutdown'' [(''automation_id'', JStr (u_str L (at_id row))), (''automation_name'', JStr (at_name row)),
             (''target_human_id'', JStr hid)] d, h))"

text \<open>\<open>fmt.Sprint\<close> of a decoded value; a map prints its keys in order.\<close>

fun Sprint :: "cron_lib \<Rightarrow> json \<Rightarrow> string" where
  "Sprint C JNull = ''<nil>''"
| "Sprint C (JBool b) = (if b then ''true'' else ''false'')"
| "Sprint C (JNum x) = fmt_float C x"
| "Sprint C (JStr s) = s"
| "Sprint C (JArr xs) = ''['' @ Join (map (Sprint C) xs) '' '' @ '']''"
| "Sprint C (JObj m) = ''map['' @ Join (map (\<lambda>kv. fst kv @ '':'' @ snd kv) (sort_key fst (map (\<lambda>kv. (fst kv, Sprint C (snd kv))) m))) '' '' @ '']''"

definition mapValue :: "json_object \<Rightarrow> string \<Rightarrow> json" where
  "mapValue m k = (case go_get m k of None \<Rightarrow> JNull | Some v \<Rightarrow> v)"

definition deployOperation :: "cron_lib \<Rightarrow> json_object \<Rightarrow> string option" where
  "deployOperation C m =
     (let given_op = ToLower (TrimSpace (Sprint C (mapValue m ''operation'')));
          op = (if given_op = '''' then ''install'' else given_op)
      in if op = ''install'' \<or> op = ''uninstall'' then Some op else None)"

definition deployPackageRef :: "lib \<Rightarrow> json_object \<Rightarrow> uuid option" where
  "deployPackageRef L m = u_parse L (TrimSpace (case mapValue m ''package_id'' of JStr s \<Rightarrow> s | _ \<Rightarrow> ''''))"

definition dispatchDeploy ::
  "lib \<Rightarrow> cron_lib \<Rightarrow> (sql_error \<Rightarrow> string) \<Rightarrow> (db \<times> hub \<Rightarrow> db \<times> hub) \<Rightarrow> automation \<Rightarrow> string \<Rightarrow> db \<times> hub \<Rightarrow> db \<times> hub" where
  "dispatchDeploy L C pgx meanwhile row hid s =
     (case (case unmarshal_object (RawDoc (at_payload_json row)) of
              None \<Rightarrow> None
            | Some m \<Rightarrow> (case (deployPackageRef L m, deployOperation C m) of (Some i, Some op) \<Rightarrow> Some (i, op) | _ \<Rightarrow> None)) of
        None \<Rightarrow> s
      | Some (pkgID, op) \<Rightarrow>
          (case s of (d, h) \<Rightarrow>
           case findAssetID hid d of
             (Inl e, d) \<Rightarrow> (d, h)
           | (Inr assetID, d) \<Rightarrow>
               (case findPackage pkgID d of
                  (Inl e, d) \<Rightarrow> (d, h)
                | (Inr pkg, d) \<Rightarrow>
                    (case sql (insertDeploymentRow assetID (pk_id pkg)) d of
                       (Inl e, d) \<Rightarrow> (d, h)
                     | (Inr depID, d) \<Rightarrow>
                         (case sendDeployment pgx meanwhile depID hid (deployPayload L depID op pkg) (d, h) of
                            (Inl e, s) \<Rightarrow> s
                          | (Inr _, d, h) \<Rightarrow>
                              (auditDispatch row hid ''automation.deploy_package'' [(''automation_id'', JStr (u_str L (at_id row))),
                                 (''automation_name'', JStr (at_name row)), (''target_human_id'', JStr hid), (''deployment_id'', JStr (u_str L depID)),
                                 (''package_id'', JStr (u_str L (pk_id pkg)))] d, h))))))"

definition dispatchTo ::
  "lib \<Rightarrow> cron_lib \<Rightarrow> (sql_error \<Rightarrow> string) \<Rightarrow> (db \<times> hub \<Rightarrow> db \<times> hub) \<Rightarrow> automation \<Rightarrow> string \<Rightarrow> db \<times> hub \<Rightarrow> db \<times> hub" where
  "dispatchTo L C pgx meanwhile row hid s =
     (let action = TrimSpace (ToLower (at_action_type row))
      in if action = ''shutdown'' then dispatchShutdown L row hid s
         else if action = ''deploy_package'' then dispatchDeploy L C pgx meanwhile row hid s
         else s)"

definition dispatchAutomation ::
  "lib \<Rightarrow> cron_lib \<Rightarrow> (sql_error \<Rightarrow> string) \<Rightarrow> (db \<times> hub \<Rightarrow> db \<times> hub) \<Rightarrow> uuid \<Rightarrow> db \<times> hub \<Rightarrow> db \<times> hub" where
  "dispatchAutomation L C pgx meanwhile automationID s =
     (case s of (d, h) \<Rightarrow>
      case query_row (\<lambda>d. find (\<lambda>a. at_id a = automationID) (automations d)) d of
        (Inl e, d) \<Rightarrow> (d, h)
      | (Inr row, d) \<Rightarrow>
          if \<not> at_is_active row then (d, h)
          else (case resolveTargetHumanIDs row d of
                  (Inl e, d) \<Rightarrow> (d, h)
                | (Inr hids, d) \<Rightarrow> fold (dispatchTo L C pgx meanwhile row) hids (d, h)))"

section \<open>Routes (automations.go)\<close>

definition allowedAutomationTargetOS :: "string list" where
  "allowedAutomationTargetOS = [''unknown'', ''windows'', ''linux'', ''darwin'', ''android'', ''ios'']"

definition automationWire :: "lib \<Rightarrow> automation \<Rightarrow> json" where
  "automationWire L a =
     JObj ([(''id'', JStr (u_str L (at_id a))), (''name'', JStr (at_name a)), (''cron_schedule'', JStr (at_cron_schedule a)),
            (''action_type'', JStr (at_action_type a))]
       @ opt_field ''target_os'' (map_option JStr (at_target_os a))
       @ opt_field ''target_asset_id'' (map_option (\<lambda>u. JStr (u_str L u)) (at_target_asset_id a))
       @ [(''payload_json'', at_payload_json a), (''is_active'', JBool (at_is_active a)),
          (''created_at'', JStr (t_json L (at_created_at a))), (''updated_at'', JStr (t_json L (at_updated_at a)))])"

definition automations_handleList :: "lib \<Rightarrow> DashboardAuth \<Rightarrow> request \<Rightarrow> db \<Rightarrow> response \<times> db" where
  "automations_handleList L A r = answer
     (abind (ifMethod r ''GET'') (\<lambda>_.
      abind (authorize L A r ''viewer'') (\<lambda>_.
      abind (statement (query (\<lambda>d. take 500 (sort_key (\<lambda>a. - at_created_at a) (automations d)))) (failWith 500 ''failed to list automations'')) (\<lambda>rows.
      areturn (RespJson 200 (JArr (map (automationWire L) rows)))))))"

definition automationCheck :: "automation \<Rightarrow> bool" where
  "automationCheck a \<longleftrightarrow> at_action_type a \<in> {''shutdown'', ''deploy_package''}
     \<and> (case at_target_os a of None \<Rightarrow> at_target_asset_id a \<noteq> None | Some s \<Rightarrow> s \<in> set allowedAutomationTargetOS)"

definition insertAutomationRow ::
  "string \<Rightarrow> string \<Rightarrow> string \<Rightarrow> string option \<Rightarrow> uuid option \<Rightarrow> json \<Rightarrow> bool \<Rightarrow> db \<Rightarrow> uuid sql_result" where
  "insertAutomationRow name cron action tos asset payload active d =
     (let i = random_uuid d;
          row = \<lparr>at_id = i, at_name = name, at_cron_schedule = cron, at_action_type = action, at_target_os = tos, at_target_asset_id = asset,
                 at_payload_json = payload, at_is_active = active, at_created_at = now d, at_updated_at = now d\<rparr>
      in if \<not> automationCheck row then (Inl ErrCheck, uuid_used d)
         else if i \<in> at_id ` set (automations d) then (Inl ErrUnique, uuid_used d)
         else if (case asset of None \<Rightarrow> False | Some x \<Rightarrow> x \<notin> a_id ` set (assets d)) then (Inl ErrForeignKey, uuid_used d)
         else (Inr i, (uuid_used d)\<lparr>automations := automations d @ [row]\<rparr>))"

record createAutomationRequest =
  cq_Name :: string
  cq_CronSchedule :: string
  cq_ActionType :: string
  cq_TargetOS :: "string option"
  cq_TargetAssetID :: "string option"
  cq_PayloadJSON :: raw_json
  cq_IsActive :: "bool option"

definition decodeCreateAutomation :: "json_object \<Rightarrow> createAutomationRequest option" where
  "decodeCreateAutomation m =
     (case (get_string ''name'' m, get_string ''cron_schedule'' m, get_string ''action_type'' m, get_string_ptr ''target_os'' m,
            get_string_ptr ''target_asset_id'' m, get_bool_ptr ''is_active'' m) of
        (Some n, Some c, Some a, Some t, Some i, Some b) \<Rightarrow>
          Some \<lparr>cq_Name = n, cq_CronSchedule = c, cq_ActionType = a, cq_TargetOS = t, cq_TargetAssetID = i,
                cq_PayloadJSON = get_raw ''payload_json'' m, cq_IsActive = b\<rparr>
      | _ \<Rightarrow> None)"

text \<open>A non-blank \<open>target_asset_id\<close> wins over \<open>target_os\<close>.\<close>

definition automationTarget :: "lib \<Rightarrow> createAutomationRequest \<Rightarrow> ('s, string option \<times> uuid option) act" where
  "automationTarget L q =
     (let asset = TrimSpace (case cq_TargetAssetID q of None \<Rightarrow> '''' | Some s \<Rightarrow> s);
          tos = ToLower (TrimSpace (case cq_TargetOS q of None \<Rightarrow> '''' | Some s \<Rightarrow> s))
      in if asset \<noteq> '''' then abind (given (u_parse L asset) 400 ''invalid target_asset_id'') (\<lambda>i. areturn (None, Some i))
         else if tos \<noteq> '''' then abind (require (tos \<in> set allowedAutomationTargetOS) 400 ''invalid target_os'') (\<lambda>_. areturn (Some tos, None))
         else fail 400 ''target_asset_id or target_os is required'')"

definition payloadOf :: "raw_json \<Rightarrow> json option" where
  "payloadOf raw = (case raw of RawEmpty \<Rightarrow> Some (JObj []) | RawDoc v \<Rightarrow> Some v | RawInvalid \<Rightarrow> None)"

definition probePackageID :: "json \<Rightarrow> string" where
  "probePackageID v = (case Option.bind (struct_object (RawDoc v)) (get_string ''package_id'') of None \<Rightarrow> '''' | Some s \<Rightarrow> s)"

definition automations_handleCreate :: "lib \<Rightarrow> DashboardAuth \<Rightarrow> cron_lib \<Rightarrow> request \<Rightarrow> db \<Rightarrow> response \<times> db" where
  "automations_handleCreate L A C r = answer
     (abind (ifMethod r ''POST'') (\<lambda>_.
      abind (authorize L A r ''operator'') (\<lambda>_.
      abind (given (decodeBody r decodeCreateAutomation) 400 ''invalid JSON body'') (\<lambda>q.
      let name = TrimSpace (cq_Name q); cron = TrimSpace (cq_CronSchedule q); action = ToLower (TrimSpace (cq_ActionType q))
      in abind (require (\<not> (name = '''' \<or> cron = '''' \<or> action = '''')) 400 ''name, cron_schedule, and action_type are required'') (\<lambda>_.
         abind (require (action = ''shutdown'' \<or> action = ''deploy_package'') 400 ''action_type must be shutdown or deploy_package'') (\<lambda>_.
         abind (case ValidateCronSchedule C cron of None \<Rightarrow> areturn () | Some e \<Rightarrow> fail 400 (''invalid cron_schedule: '' @ e)) (\<lambda>_.
         abind (require (RuneCount name \<le> 200) 400 ''name too long'') (\<lambda>_.
         abind (automationTarget L q) (\<lambda>(tos, asset).
         abind (given (payloadOf (cq_PayloadJSON q)) 400 ''payload_json must be valid JSON'') (\<lambda>payload.
         abind (require (\<not> (action = ''deploy_package'' \<and> TrimSpace (probePackageID payload) = '''')) 400 ''deploy_package requires payload_json.package_id'') (\<lambda>_.
         let active = (case cq_IsActive q of None \<Rightarrow> True | Some b \<Rightarrow> b)
         in abind (statement (sql (insertAutomationRow name cron action tos asset payload active)) (failWith 500 ''failed to create automation'')) (\<lambda>i.
            areturn (RespJson 201 (JObj [(''id'', JStr (u_str L i))]))))))))))))))"

definition setAutomationActive :: "uuid \<Rightarrow> bool \<Rightarrow> db \<Rightarrow> nat sql_result" where
  "setAutomationActive i b d =
     (Inr (affected (\<lambda>a. at_id a = i) (automations d)),
      d\<lparr>automations := update_where (\<lambda>a. at_id a = i) (\<lambda>a. a\<lparr>at_is_active := b, at_updated_at := now d\<rparr>) (automations d)\<rparr>)"

definition automations_handlePatch :: "lib \<Rightarrow> DashboardAuth \<Rightarrow> request \<Rightarrow> db \<Rightarrow> response \<times> db" where
  "automations_handlePatch L A r = answer
     (abind (ifMethod r ''PATCH'') (\<lambda>_.
      abind (authorize L A r ''operator'') (\<lambda>_.
      abind (given (case u_parse L (TrimSpace (rq_PathID r)) of None \<Rightarrow> None | Some i \<Rightarrow> if i = uuid_Nil then None else Some i) 400 ''invalid id'') (\<lambda>i.
      abind (given (decodeBody r (get_bool_ptr ''is_active'')) 400 ''invalid JSON body'') (\<lambda>active.
      abind (given active 400 ''is_active is required'') (\<lambda>b.
      abind (statement (sql (setAutomationActive i b)) (failWith 500 ''failed to update automation'')) (\<lambda>n.
      abind (require (n \<noteq> 0) 404 ''automation not found'') (\<lambda>_.
      areturn (RespJson 200 (JObj [(''ok'', JBool True)]))))))))))"

end
