(* ===== verification/Scheduler_Facts.thy ===== *)
theory Scheduler_Facts
  imports Scheduler Outcomes_Facts Users_Facts
begin

text \<open>
  Packages, deployments and automations: the tables stay consistent under every interleaving of the routes, the
  scheduler and the agents' reports; a deployment reaches its device once and is marked accordingly; an
  automation reaches devices in its scope only; and where the code falls short of this.
\<close>

section \<open>Dispatching by human id\<close>

lemma DispatchJSONByHumanID_state:
  "fst (snd (DispatchJSONByHumanID hid p (d, h))) = d \<or> fst (snd (DispatchJSONByHumanID hid p (d, h))) = d\<lparr>stmt_no := Suc (stmt_no d)\<rparr>"
  unfolding DispatchJSONByHumanID_def Let_def
  by (auto simp: sql_def Let_def split: prod.splits sum.splits sql_error.splits bool.splits option.splits if_splits)

lemma DispatchJSONByHumanID_Inl:
  assumes "wf_registry h" and "DispatchJSONByHumanID hid p (d, h) = (Inl e, d', h')"
  shows "hub_queued h' t = hub_queued h t \<and> wf_registry h'"
proof -
  have "h' = h \<or> (\<exists>s. DispatchJSON s p h = (False, h'))"
    using assms(2) unfolding DispatchJSONByHumanID_def Let_def
    by (auto split: if_splits prod.splits sum.splits sql_error.splits bool.splits)
  then show ?thesis
  proof (elim disjE exE)
    fix s assume s: "DispatchJSON s p h = (False, h')"
    then show ?thesis using DispatchJSON_queued [OF assms(1) s, of t] wf_registry_DispatchJSON [OF assms(1), of s p] by simp
  qed (use assms(1) in simp)
qed

text \<open>On success exactly one message is queued, for the device with that human id.\<close>

lemma DispatchJSONByHumanID_Inr:
  assumes "wf_registry h" and "DispatchJSONByHumanID hid p (d, h) = (Inr (), d', h')"
  obtains a c where "find (\<lambda>a. a_human_id a = TrimSpace hid) (assets d) = Some a" "a_cert_serial a = Some c" "TrimSpace c \<noteq> ''''"
    "d' = d\<lparr>stmt_no := Suc (stmt_no d)\<rparr>" "wf_registry h'"
    "\<And>t. hub_queued h' t = hub_queued h t @ (if t = TrimSpace c then [norm_json p] else [])"
proof -
  obtain a c where a: "find (\<lambda>a. a_human_id a = TrimSpace hid) (assets d) = Some a" "a_cert_serial a = Some c" "TrimSpace c \<noteq> ''''"
      "d' = d\<lparr>stmt_no := Suc (stmt_no d)\<rparr>" "DispatchJSON (TrimSpace c) p h = (True, h')"
    using assms(2) unfolding DispatchJSONByHumanID_def Let_def
    by (auto simp: sql_def Let_def split: if_splits prod.splits sum.splits sql_error.splits bool.splits option.splits)
  show ?thesis
    by (rule that [OF a(1,2,3,4)])
      (use DispatchJSON_queued [OF assms(1) a(5)] wf_registry_DispatchJSON [OF assms(1), of "TrimSpace c" p] a(5) in auto)
qed

section \<open>The tables\<close>

definition deploymentStatuses :: "string list" where
  "deploymentStatuses = [''pending'', ''dispatched'', ''in_progress'', ''succeeded'', ''failed'']"

definition wf_deploy :: "db \<Rightarrow> bool" where
  "wf_deploy d \<longleftrightarrow> distinct (map pk_id (packages d)) \<and> (\<forall>p \<in> set (packages d). pk_type p \<in> set allowedPackageTypes)
     \<and> distinct (map dp_id (deployments d))
     \<and> (\<forall>dp \<in> set (deployments d). dp_status dp \<in> set deploymentStatuses \<and> dp_asset_id dp \<in> a_id ` set (assets d)
          \<and> dp_package_id dp \<in> pk_id ` set (packages d))
     \<and> distinct (map at_id (automations d))
     \<and> (\<forall>a \<in> set (automations d). automationCheck a \<and> (\<forall>i. at_target_asset_id a = Some i \<longrightarrow> i \<in> a_id ` set (assets d)))"

lemma table_inv_deploy [keeps_intros]: "table_inv wf_deploy"
  unfolding table_inv_def
proof (intro allI impI)
  fix d d' assume s: "same_tables d d'" and w: "wf_deploy d"
  from s have "packages d' = packages d" "deployments d' = deployments d" "automations d' = automations d" "assets d' = assets d"
    by (simp_all add: same_tables_fields)
  with w show "wf_deploy d'" by (simp add: wf_deploy_def)
qed

lemma keeps_package_insert [keeps_intros]: "keeps wf_deploy (insertPackageRow n v t c)"
  by (auto simp: keeps_def insertPackageRow_def Let_def uuid_used_def wf_deploy_def)

lemma keeps_package_update [keeps_intros]: "keeps wf_deploy (updatePackageRow i q)"
proof -
  have "wf_deploy (snd (updatePackageRow i q d))" if w: "wf_deploy d" for d
  proof -
    let ?rows = "update_where (\<lambda>p. pk_id p = i) (patchPackageRow q (now d)) (packages d)"
    have m: "map pk_id ?rows = map pk_id (packages d)" by (simp add: map_update_where patchPackageRow_def)
    then have s: "pk_id ` set ?rows = pk_id ` set (packages d)" by (metis set_map)
    have "pk_type p \<in> set allowedPackageTypes" if "\<not> list_ex (\<lambda>p. pk_id p = i \<and> pk_type p \<notin> set allowedPackageTypes) ?rows" "p \<in> set ?rows" for p
    proof (cases "pk_id p = i")
      case True
      with that show ?thesis by (auto simp: list_ex_iff)
    next
      case False
      with that(2) have "p \<in> set (packages d)" by (auto simp: set_update_where patchPackageRow_def split: if_splits)
      with w show ?thesis by (simp add: wf_deploy_def)
    qed
    then show ?thesis using w m s by (simp add: updatePackageRow_def Let_def wf_deploy_def)
  qed
  then show ?thesis by (simp add: keeps_def)
qed

lemma keeps_package_delete [keeps_intros]: "keeps wf_deploy (deletePackageRow i)"
  by (auto simp: keeps_def deletePackageRow_def Let_def wf_deploy_def distinct_map inj_on_def)

lemma keeps_deployment_insert [keeps_intros]: "keeps wf_deploy (insertDeploymentRow a p)"
  by (auto simp: keeps_def insertDeploymentRow_def Let_def uuid_used_def wf_deploy_def deploymentStatuses_def)

lemma keeps_deployment_update:
  assumes "\<And>dp. dp_id (f dp) = dp_id dp \<and> dp_asset_id (f dp) = dp_asset_id dp \<and> dp_package_id (f dp) = dp_package_id dp
      \<and> dp_status (f dp) \<in> set deploymentStatuses" and "wf_deploy d"
  shows "wf_deploy (d\<lparr>deployments := update_where P f (deployments d)\<rparr>)"
proof -
  have "map dp_id (update_where P f (deployments d)) = map dp_id (deployments d)" using assms(1) by (simp add: map_update_where)
  with assms show ?thesis by (auto simp: wf_deploy_def set_update_where)
qed

lemma keeps_setDeployment [keeps_intros]:
  "keeps wf_deploy (setDeployment i (deploymentFailed msg))" "keeps wf_deploy (setDeployment i deploymentDispatched)"
  unfolding setDeployment_def
  by (intro keeps_intros, simp add: keeps_def keeps_deployment_update deploymentFailed_def deploymentDispatched_def deploymentStatuses_def)+

lemma keeps_automation_insert [keeps_intros]: "keeps wf_deploy (insertAutomationRow n c a t i p b)"
  by (auto simp: keeps_def insertAutomationRow_def Let_def uuid_used_def wf_deploy_def)

lemma keeps_automation_active [keeps_intros]: "keeps wf_deploy (setAutomationActive i b)"
proof -
  have "automationCheck (a\<lparr>at_is_active := x, at_updated_at := t\<rparr>) = automationCheck a" for a x t by (simp add: automationCheck_def split: option.split)
  then show ?thesis
    by (auto simp: keeps_def setAutomationActive_def wf_deploy_def map_update_where set_update_where split: if_splits)
qed

lemma keeps_package_result: "keeps wf_deploy (ApplyPackageDeploymentOutcome L c raw)"
proof -
  have "wf_deploy (snd (sql (\<lambda>d. (Inr (), d\<lparr>deployments := update_where (P d) (\<lambda>dp. dp\<lparr>dp_status := st,
      dp_error_message := e, dp_updated_at := now d\<rparr>) (deployments d)\<rparr>)) d))" if "wf_deploy d" "st \<in> {''succeeded'', ''failed''}" for P st e d
    using that by (intro keepsD [OF keeps_sql [OF table_inv_deploy]]) (auto simp: keeps_def keeps_deployment_update deploymentStatuses_def)
  then show ?thesis
    unfolding ApplyPackageDeploymentOutcome_def keeps_def Let_def
    by (auto split: option.split)
qed

section \<open>Every interleaving keeps them consistent\<close>

abbreviation deploy_inv :: "db \<times> hub \<Rightarrow> bool" where
  "deploy_inv s \<equiv> (case s of (d, h) \<Rightarrow> wf_deploy d)"

lemma deploy_inv_frame: "wf_deploy d \<Longrightarrow> same_tables d d' \<Longrightarrow> wf_deploy d'"
  by (rule table_invD [OF table_inv_deploy])

lemma deploy_inv_dispatch: "wf_deploy d \<Longrightarrow> deploy_inv (snd (DispatchJSONByHumanID hid p (d, h)))"
  using DispatchJSONByHumanID_state [of hid p d h] deploy_inv_frame [OF _ same_tables_stmt]
  by (cases "DispatchJSONByHumanID hid p (d, h)") auto

lemma deploy_inv_send:
  assumes M: "\<forall>s. deploy_inv s \<longrightarrow> deploy_inv (M s)" and w: "deploy_inv s"
  shows "deploy_inv (snd (sendDeployment pgx M i hid p s))"
proof (cases s)
  case (Pair d h)
  obtain x s1 where x: "DispatchJSONByHumanID hid p (d, h) = (x, s1)" by (cases "DispatchJSONByHumanID hid p (d, h)")
  with deploy_inv_dispatch [of d hid p h] w Pair have i: "deploy_inv s1" by simp
  then show ?thesis
    using M [rule_format, OF i] keepsD [OF keeps_setDeployment(1)] keepsD [OF keeps_setDeployment(2)]
    by (auto simp: Pair x sendDeployment_def split: prod.splits sum.splits)
qed

lemma keeps_trigger:
  assumes "\<forall>s. deploy_inv s \<longrightarrow> deploy_inv (M s)"
  shows "keeps deploy_inv (triggerDeployment pgx b M t i hid p)"
proof -
  have "deploy_inv (snd (triggerDeployment pgx b M t i hid p s))" if w: "deploy_inv s" for s
    using w deploy_inv_send [OF assms w, where pgx = pgx and i = i and hid = hid and p = p] keepsD [OF keeps_setDeployment(1)]
    by (auto simp: triggerDeployment_def split: prod.splits sum.splits)
  then show ?thesis by (simp add: keeps_def)
qed

lemma keeps_deploy_queries [keeps_intros]:
  "keeps wf_deploy (findPackage i)" "keeps wf_deploy (findAssetID hid)"
  unfolding findPackage_def findAssetID_def by (intro keeps_intros)+

lemma keeps_deploy_audit: "keeps wf_deploy (InsertAuditRecord rec)"
  by (rule keeps_audit [OF table_inv_deploy]) (simp add: wf_deploy_def)

lemma deploy_inv_audit:
  assumes "wf_deploy d"
  shows "wf_deploy (auditDispatch row hid act det d)"
proof -
  have "wf_deploy (snd (query_row (\<lambda>d. map_option a_id (find (\<lambda>a. a_human_id a = hid) (assets d))) d))"
    using assms by (rule keepsD [OF keeps_query_row [OF table_inv_deploy]])
  then show ?thesis unfolding auditDispatch_def Let_def
    using keepsD [OF keeps_deploy_audit] by (cases "query_row (\<lambda>d. map_option a_id (find (\<lambda>a. a_human_id a = hid) (assets d))) d") simp
qed

lemma deploy_inv_shutdown: "deploy_inv s \<Longrightarrow> deploy_inv (dispatchShutdown L row hid s)"
  using deploy_inv_dispatch [of "fst s" hid "JObj [(''action'', JStr ''shutdown'')]" "snd s"] deploy_inv_audit
  unfolding dispatchShutdown_def by (auto split: prod.splits sum.splits)

lemma deploy_inv_deploy:
  assumes M: "\<forall>s. deploy_inv s \<longrightarrow> deploy_inv (M s)" and w: "deploy_inv s"
  shows "deploy_inv (dispatchDeploy L C pgx M row hid s)"
proof -
  have a: "wf_deploy d' " if "findAssetID hid d = (x, d')" "wf_deploy d" for x d d'
    using that keepsD [OF keeps_deploy_queries(2), of d hid] by simp
  have b: "wf_deploy d'" if "findPackage i d = (x, d')" "wf_deploy d" for x d d' i
    using that keepsD [OF keeps_deploy_queries(1), of d i] by simp
  have c: "wf_deploy d'" if "sql (insertDeploymentRow i j) d = (x, d')" "wf_deploy d" for x d d' i j
    using that keepsD [OF keeps_sql [OF table_inv_deploy keeps_deployment_insert], of d i j] by simp
  have e: "deploy_inv s'" if "sendDeployment pgx M i hid p s = (x, s')" "deploy_inv s" for i p s x s'
    using that deploy_inv_send [OF M that(2), where pgx = pgx and i = i and hid = hid and p = p] by simp
  show ?thesis
    using w unfolding dispatchDeploy_def
    by (auto split: option.splits prod.splits sum.splits dest!: a b c e intro: deploy_inv_audit)
qed

lemma resolve_same_tables: "resolveTargetHumanIDs row d = (x, d') \<Longrightarrow> same_tables d d'"
  unfolding resolveTargetHumanIDs_def
  by (auto simp: query_row_def query_def sql_def Let_def split: option.splits prod.splits sum.splits if_splits)

lemma deploy_inv_fire:
  assumes M: "\<forall>s. deploy_inv s \<longrightarrow> deploy_inv (M s)" and w: "deploy_inv s"
  shows "deploy_inv (dispatchAutomation L C pgx M i s)"
proof -
  have to: "deploy_inv (dispatchTo L C pgx M row hid s)" if "deploy_inv s" for row hid s
    using deploy_inv_shutdown [OF that] deploy_inv_deploy [OF M that] that by (simp add: dispatchTo_def Let_def)
  have all: "deploy_inv (fold (dispatchTo L C pgx M row) hids s)" if "deploy_inv s" for row hids s
    using that by (induction hids arbitrary: s) (simp_all add: to)
  have q: "wf_deploy d'" if "query_row g d = (x, d')" "wf_deploy d" for g x d d'
    using that keepsD [OF keeps_query_row [OF table_inv_deploy], of d g] by simp
  have r: "wf_deploy d'" if "resolveTargetHumanIDs row d = (x, d')" "wf_deploy d" for row x d d'
    by (rule deploy_inv_frame [OF that(2) resolve_same_tables [OF that(1)]])
  obtain d h where s: "s = (d, h)" by (cases s)
  obtain x d1 where x: "query_row (\<lambda>d. find (\<lambda>a. at_id a = i) (automations d)) d = (x, d1)"
    by (cases "query_row (\<lambda>d. find (\<lambda>a. at_id a = i) (automations d)) d")
  with q w s have d1: "wf_deploy d1" by simp
  obtain y d2 where y: "resolveTargetHumanIDs (projr x) d1 = (y, d2)" by (cases "resolveTargetHumanIDs (projr x) d1")
  with r d1 have d2: "wf_deploy d2" by simp
  show ?thesis using x y d1 d2 all unfolding dispatchAutomation_def s by (cases x; cases y) simp_all
qed

inductive deploy_step :: "lib \<Rightarrow> DashboardAuth \<Rightarrow> cron_lib \<Rightarrow> (sql_error \<Rightarrow> string) \<Rightarrow> db \<times> hub \<Rightarrow> db \<times> hub \<Rightarrow> bool"
  for L :: lib and A :: DashboardAuth and C :: cron_lib and pgx :: "sql_error \<Rightarrow> string" where
  dst_list_packages: "deploy_step L A C pgx (d, h) (snd (handleListPackages L A r d), h)"
| dst_create_package: "deploy_step L A C pgx (d, h) (snd (handleCreatePackage L A r d), h)"
| dst_get_package: "deploy_step L A C pgx (d, h) (snd (handleGetPackage L A r d), h)"
| dst_patch_package: "deploy_step L A C pgx (d, h) (snd (handlePatchPackage L A r d), h)"
| dst_delete_package: "deploy_step L A C pgx (d, h) (snd (handleDeletePackage L A r d), h)"
| dst_list_deployments: "deploy_step L A C pgx (d, h) (snd (handleListDeployments L A r d), h)"
| dst_deploy: "(\<And>s. (deploy_step L A C pgx)\<^sup>*\<^sup>* s (M s)) \<Longrightarrow> deploy_step L A C pgx s (snd (handleCreateDeployment L A pgx b M r s))"
| dst_list_automations: "deploy_step L A C pgx (d, h) (snd (automations_handleList L A r d), h)"
| dst_create_automation: "deploy_step L A C pgx (d, h) (snd (automations_handleCreate L A C r d), h)"
| dst_patch_automation: "deploy_step L A C pgx (d, h) (snd (automations_handlePatch L A r d), h)"
| dst_reload: "deploy_step L A C pgx (d, h) (snd (reload C sc d), h)"
| dst_fire: "(\<And>s. (deploy_step L A C pgx)\<^sup>*\<^sup>* s (M s)) \<Longrightarrow> deploy_step L A C pgx s (dispatchAutomation L C pgx M i s)"
| dst_report: "deploy_step L A C pgx (d, h) (snd (ApplyPackageDeploymentOutcome L serial raw d), h)"
| dst_hub: "deploy_step L A C pgx (d, h) (d, h')"
| dst_clock: "deploy_step L A C pgx (d, h) (d\<lparr>now := t, fault_at := f\<rparr>, h)"

lemmas deploy_routes = handleListPackages_def handleCreatePackage_def handleGetPackage_def handlePatchPackage_def handleDeletePackage_def
  handleListDeployments_def automations_handleList_def automations_handleCreate_def automations_handlePatch_def

lemma keeps_automationTarget [keeps_intros]: "keeps I (automationTarget L q)"
  unfolding automationTarget_def Let_def by (intro keeps_intros)

lemma deploy_inv_create:
  assumes "\<forall>s. deploy_inv s \<longrightarrow> deploy_inv (M s)" and "deploy_inv s"
  shows "deploy_inv (snd (handleCreateDeployment L A pgx b M r s))"
  unfolding handleCreateDeployment_def Let_def
  by (rule answer_keeps) (intro keeps_intros keeps_trigger [OF assms(1)] | rule assms)+

lemma deploy_step_inv: "deploy_step L A C pgx s s' \<Longrightarrow> deploy_inv s \<Longrightarrow> deploy_inv s'"
proof (induction rule: deploy_step.induct)
  case (dst_deploy M s b r)
  have "deploy_inv u \<longrightarrow> deploy_inv (M u)" for u
    using dst_deploy.IH [of u] by (induction rule: rtranclp_induct) auto
  with dst_deploy.prems show ?case by (intro deploy_inv_create) auto
next
  case (dst_fire M s i)
  have "deploy_inv u \<longrightarrow> deploy_inv (M u)" for u
    using dst_fire.IH [of u] by (induction rule: rtranclp_induct) auto
  with dst_fire.prems show ?case by (intro deploy_inv_fire) auto
next
  case (dst_reload d h sc)
  have "snd (reload C sc d) = d\<lparr>stmt_no := Suc (stmt_no d)\<rparr>"
    by (simp add: reload_def loadActive_def query_def sql_def Let_def)
  with dst_reload show ?case using deploy_inv_frame [OF _ same_tables_stmt] by simp
next
  case (dst_report d h serial raw)
  then show ?case using keepsD [OF keeps_package_result] by simp
next
  case (dst_clock d h t f)
  then show ?case by (simp add: wf_deploy_def)
qed (unfold deploy_routes Let_def prod.case, (rule answer_keeps, (intro keeps_intros; simp), assumption)+, simp)

interpretation deployment: maintained "deploy_step L A C pgx" deploy_inv for L A C pgx
  by unfold_locales (rule deploy_step_inv)

text \<open>Whatever the interleaving of the package, deployment and automation routes, the scheduler's jobs and
  the agents' reports, also in the middle of a dispatch, and whichever statements fail, the tables stay
  consistent: unique ids, package types and deployment states in range, every deployment of an existing
  package to an existing device, every automation with a known action and a target.\<close>

theorem deployment_tables_consistent:
  assumes "(deploy_step L A C pgx)\<^sup>*\<^sup>* (d, h) (d', h')" and "wf_deploy d"
  shows "wf_deploy d'"
  using deployment.run_keeps [OF assms(1)] assms(2) by simp

section \<open>A deployment reaches its device\<close>

lemma refuses_trigger [refuses_intros]: "refuses (triggerDeployment pgx b M t i hid p)"
  by (auto simp: refuses_def triggerDeployment_def split: prod.splits sum.splits if_splits)

definition requestedOp :: "createDeploymentRequest \<Rightarrow> string" where
  "requestedOp q = (let op = ToLower (TrimSpace (cd_Operation q)) in if op = '''' then ''install'' else op)"

lemma handleCreateDeployment_Inr:
  assumes run: "handleCreateDeployment L A pgx b M r (d, h) = (RespJson 201 j, d', h')"
  shows "\<exists>q aid p dep x. decodeBody r decodeCreateDeployment = Some q
    \<and> find (\<lambda>a. a_human_id a = TrimSpace (cd_AssetHumanID q)) (assets d) = Some aid
    \<and> (\<exists>i. u_parse L (TrimSpace (cd_PackageID q)) = Some i \<and> find (\<lambda>p. pk_id p = i) (packages d) = Some p)
    \<and> sql (insertDeploymentRow (a_id aid) (pk_id p)) (d\<lparr>stmt_no := Suc (Suc (stmt_no d))\<rparr>) = (Inr dep, x)
    \<and> (\<exists>y. triggerDeployment pgx b M (cd_TriggerDeploy q) dep (TrimSpace (cd_AssetHumanID q)) (deployPayload L dep (requestedOp q) p) (x, h) = (Inr y, d', h'))"
  using run unfolding handleCreateDeployment_def Let_def requestedOp_def [symmetric, unfolded Let_def]
  apply (elim answer_success [elim_format])
    apply (intro refuses_intros; simp)
   apply simp
  apply (elim abind_Inr_cases)
  apply (simp only: act_Inr split_paired_all prod.case)
  apply (clarsimp simp: areturn_def findAssetID_def findPackage_def query_row_Inr)
  done

lemma insertDeploymentRow_Inr:
  assumes "sql (insertDeploymentRow i j) d = (Inr dep, d')"
  shows "d' = (uuid_used (d\<lparr>stmt_no := Suc (stmt_no d)\<rparr>))\<lparr>deployments := deployments d @ [\<lparr>dp_id = dep, dp_asset_id = i, dp_package_id = j,
       dp_status = ''pending'', dp_error_message = None, dp_created_at = now d, dp_updated_at = now d\<rparr>]\<rparr>
    \<and> dep \<notin> dp_id ` set (deployments d)"
  using assms by (auto simp: sql_def Let_def insertDeploymentRow_def uuid_used_def split: if_splits)

lemma setDeployment_new:
  assumes "deployments d = rows @ [row]" "dp_id row = i" "i \<notin> dp_id ` set rows" "\<not> fault_at d (stmt_no d)"
  shows "deployments (snd (setDeployment i f d)) = rows @ [f (now d) row]"
proof -
  have "update_where (\<lambda>dp. dp_id dp = i) g rows = rows" for g using assms(3) by (intro update_where_id) auto
  with assms show ?thesis by (simp add: setDeployment_def sql_def Let_def) (simp add: update_where_def)
qed

lemma trigger_outcome:
  assumes w: "wf_registry h" and run: "triggerDeployment pgx b (\<lambda>s. s) t i hid p (d, h) = (Inr y, d', h')"
    and rows: "deployments d = rows @ [row]" "dp_id row = i" "i \<notin> dp_id ` set rows" and up: "\<forall>n. \<not> fault_at d n"
  shows "\<not> t \<and> d' = d \<and> h' = h
    \<or> t \<and> (\<exists>m. deployments d' = rows @ [deploymentFailed m (now d) row]) \<and> (\<forall>s. hub_queued h' s = hub_queued h s)
    \<or> t \<and> deployments d' = rows @ [deploymentDispatched (now d) row]
      \<and> (\<exists>a c. find (\<lambda>a. a_human_id a = TrimSpace hid) (assets d) = Some a \<and> a_cert_serial a = Some c
          \<and> (\<forall>s. hub_queued h' s = hub_queued h s @ (if s = TrimSpace c then [norm_json p] else [])))"
proof -
  consider "\<not> t" | "t" "\<not> b" | "t" "b" by blast
  then show ?thesis
  proof cases
    case 1
    with run show ?thesis by (simp add: triggerDeployment_def)
  next
    case 2
    with run setDeployment_new [OF rows, of "deploymentFailed ''c2 hub not configured''"] up show ?thesis
      by (auto simp: triggerDeployment_def)
  next
    case 3
    obtain x d1 h1 where x: "DispatchJSONByHumanID hid p (d, h) = (x, d1, h1)" by (cases "DispatchJSONByHumanID hid p (d, h)") auto
    have d1: "deployments d1 = rows @ [row]" "now d1 = now d" "\<not> fault_at d1 (stmt_no d1)"
      using DispatchJSONByHumanID_state [of hid p d h] x rows(1) up by auto
    note upd = setDeployment_new [OF d1(1) rows(2,3) d1(3), unfolded d1(2)]
    show ?thesis
    proof (cases x)
      case (Inl e)
      with 3 run x upd [of "deploymentFailed (errorText pgx e)"] DispatchJSONByHumanID_Inl [OF w x [unfolded Inl]] show ?thesis
        by (auto simp: triggerDeployment_def sendDeployment_def)
    next
      case (Inr u)
      from Inr x have "DispatchJSONByHumanID hid p (d, h) = (Inr (), d1, h1)" by simp
      then obtain a c where "find (\<lambda>a. a_human_id a = TrimSpace hid) (assets d) = Some a" "a_cert_serial a = Some c"
          "\<And>s. hub_queued h1 s = hub_queued h s @ (if s = TrimSpace c then [norm_json p] else [])"
        by (rule DispatchJSONByHumanID_Inr [OF w]) blast
      with 3 run x Inr upd [of deploymentDispatched] show ?thesis by (auto simp: triggerDeployment_def sendDeployment_def)
    qed
  qed
qed


section \<open>The scope of an automation\<close>

definition inScope :: "automation \<Rightarrow> asset \<Rightarrow> bool" where
  "inScope row a \<longleftrightarrow> hasCert a \<and> (case at_target_asset_id row of
     Some i \<Rightarrow> a_id a = i
   | None \<Rightarrow> (case at_target_os row of None \<Rightarrow> False | Some t \<Rightarrow> a_os_type a = TrimSpace (ToLower t)))"

text \<open>A change of the hub that only queues for the device with the given human id.\<close>

definition reaches :: "string \<Rightarrow> db \<times> hub \<Rightarrow> db \<times> hub \<Rightarrow> bool" where
  "reaches hid s s' \<longleftrightarrow> (wf_registry (snd s) \<longrightarrow> wf_registry (snd s')) \<and> assets (fst s') = assets (fst s)
     \<and> (wf_registry (snd s) \<longrightarrow> (\<forall>t. hub_queued (snd s') t \<noteq> hub_queued (snd s) t \<longrightarrow>
         (\<exists>a c. find (\<lambda>a. a_human_id a = TrimSpace hid) (assets (fst s)) = Some a \<and> a_cert_serial a = Some c \<and> TrimSpace c = t)))"

lemma reaches_refl [simp]: "reaches hid s s"
  by (simp add: reaches_def)

lemma reaches_trans: "reaches hid s s1 \<Longrightarrow> reaches hid s1 s2 \<Longrightarrow> reaches hid s s2"
  unfolding reaches_def by metis

lemma reaches_db: "assets d' = assets d \<Longrightarrow> reaches hid (d, h) (d', h)"
  by (simp add: reaches_def)

lemma reaches_dispatch: "reaches hid (d, h) (snd (DispatchJSONByHumanID hid p (d, h)))"
proof -
  obtain x d' h' where x: "DispatchJSONByHumanID hid p (d, h) = (x, d', h')" by (cases "DispatchJSONByHumanID hid p (d, h)") auto
  have a: "assets d' = assets d" using DispatchJSONByHumanID_state [of hid p d h] x by auto
  show ?thesis
  proof (cases x)
    case (Inl e)
    with DispatchJSONByHumanID_Inl [of h hid p d e d' h'] x a show ?thesis by (simp add: reaches_def)
  next
    case (Inr u)
    then have i: "DispatchJSONByHumanID hid p (d, h) = (Inr (), d', h')" using x by simp
    {
      assume "wf_registry h"
      then obtain b c where "find (\<lambda>a. a_human_id a = TrimSpace hid) (assets d) = Some b" "a_cert_serial b = Some c" "wf_registry h'"
          "\<And>t. hub_queued h' t = hub_queued h t @ (if t = TrimSpace c then [norm_json p] else [])"
        by (rule DispatchJSONByHumanID_Inr [OF _ i]) blast
      then have "wf_registry h' \<and> (\<forall>t. hub_queued h' t \<noteq> hub_queued h t \<longrightarrow>
          (\<exists>a c. find (\<lambda>a. a_human_id a = TrimSpace hid) (assets d) = Some a \<and> a_cert_serial a = Some c \<and> TrimSpace c = t))" by auto
    }
    with a x show ?thesis by (simp add: reaches_def)
  qed
qed

lemma assets_audit [simp]: "assets (auditDispatch row hid act det d) = assets d"
  by (auto simp: auditDispatch_def InsertAuditRecord_def InsertAuditLogRow_def query_row_def sql_def Let_def split: prod.splits)

lemma assets_setDeployment [simp]: "assets (snd (setDeployment i f d)) = assets d"
  by (simp add: setDeployment_def sql_def Let_def)

lemma reaches_send: "reaches hid (d, h) (snd (sendDeployment pgx (\<lambda>s. s) i hid p (d, h)))"
proof -
  obtain x d1 h1 where x: "DispatchJSONByHumanID hid p (d, h) = (x, d1, h1)" by (cases "DispatchJSONByHumanID hid p (d, h)") auto
  have r: "reaches hid (d, h) (d1, h1)" using reaches_dispatch [of hid d h p] x by simp
  have "reaches hid (d, h) (snd (setDeployment i f d1), h1)" for f by (rule reaches_trans [OF r reaches_db]) simp
  then show ?thesis by (cases x) (simp_all add: sendDeployment_def x)
qed

lemma reaches_shutdown: "reaches hid (d, h) (dispatchShutdown L row hid (d, h))"
proof -
  obtain x d1 h1 where x: "DispatchJSONByHumanID hid (JObj [(''action'', JStr ''shutdown'')]) (d, h) = (x, d1, h1)"
    by (cases "DispatchJSONByHumanID hid (JObj [(''action'', JStr ''shutdown'')]) (d, h)") auto
  have r: "reaches hid (d, h) (d1, h1)" using reaches_dispatch [of hid d h "JObj [(''action'', JStr ''shutdown'')]"] x by simp
  have "reaches hid (d, h) (auditDispatch row hid act det d1, h1)" for act det by (rule reaches_trans [OF r reaches_db]) simp
  with r show ?thesis by (cases x) (simp_all add: dispatchShutdown_def x)
qed

lemma assets_deploy_queries:
  "assets (snd (findAssetID hid d)) = assets d" "assets (snd (findPackage i d)) = assets d" "assets (snd (sql (insertDeploymentRow i j) d)) = assets d"
  by (simp_all add: findAssetID_def findPackage_def sql_def insertDeploymentRow_def uuid_used_def Let_def)

lemma reaches_deploy: "reaches hid (d, h) (dispatchDeploy L C pgx (\<lambda>s. s) row hid (d, h))"
proof -
  have a: "assets e' = assets e" if "findAssetID hid e = (x, e')" for x e e' using that assets_deploy_queries(1) [of hid e] by simp
  have b: "assets e' = assets e" if "findPackage i e = (x, e')" for x e e' i using that assets_deploy_queries(2) [of i e] by simp
  have c: "assets e' = assets e" if "sql (insertDeploymentRow i j) e = (x, e')" for x e e' i j
    using that assets_deploy_queries(3) [of i j e] by simp
  have s: "reaches hid (d, h) s'" if "sendDeployment pgx (\<lambda>s. s) i hid p (e, h) = (x, s')" "assets e = assets d" for i p e x s'
    using reaches_trans [OF reaches_db [OF that(2)] reaches_send [of hid e h pgx i p]] that(1) by simp
  have t: "reaches hid (d, h) (auditDispatch row hid act det e, h')" if "reaches hid (d, h) (e, h')" for e h' act det
    using reaches_trans [OF that reaches_db [OF assets_audit]] .
  show ?thesis
    unfolding dispatchDeploy_def
    by (auto split: option.splits prod.splits sum.splits intro!: reaches_db t dest!: a b c s)
qed

lemma reaches_to: "reaches hid s (dispatchTo L C pgx (\<lambda>s. s) row hid s)"
  by (cases s) (simp add: dispatchTo_def Let_def reaches_shutdown reaches_deploy)

lemma reaches_all:
  "(wf_registry (snd s) \<longrightarrow> wf_registry (snd (fold (dispatchTo L C pgx (\<lambda>s. s) row) hids s)))
   \<and> assets (fst (fold (dispatchTo L C pgx (\<lambda>s. s) row) hids s)) = assets (fst s)
   \<and> (wf_registry (snd s) \<longrightarrow> hub_queued (snd (fold (dispatchTo L C pgx (\<lambda>s. s) row) hids s)) t \<noteq> hub_queued (snd s) t \<longrightarrow>
     (\<exists>hid \<in> set hids. \<exists>a c. find (\<lambda>a. a_human_id a = TrimSpace hid) (assets (fst s)) = Some a \<and> a_cert_serial a = Some c \<and> TrimSpace c = t))"
proof (induction hids arbitrary: s)
  case (Cons hid hids)
  let ?s = "dispatchTo L C pgx (\<lambda>s. s) row hid s"
  show ?case using Cons.IH [of ?s] reaches_to [of hid s L C pgx row] by (simp add: reaches_def) metis
qed simp

lemma resolve_scope:
  assumes run: "resolveTargetHumanIDs row d = (Inr hids, d')" and plain: "\<forall>a \<in> set (assets d). TrimSpace (a_human_id a) = a_human_id a"
    and hid: "hid \<in> set hids"
  shows "\<exists>a \<in> set (assets d). a_human_id a = hid \<and> inScope row a"
  using run hid plain unfolding resolveTargetHumanIDs_def
  by (auto simp: inScope_def query_row_def query_def sql_def Let_def find_Some_iff split: option.splits prod.splits sum.splits if_splits)

text \<open>C27: a job of the scheduler reaches only devices in the scope of its automation as stored when it fires: if
  the queue of an agent changes, the automation is active and the agent's certificate is that of an enrolled
  device which is its target, or has its target operating system. Pausing an automation thus stops jobs
  that are already registered.\<close>

theorem automation_scope:
  assumes run: "dispatchAutomation L C pgx (\<lambda>s. s) i (d, h) = (d', h')" and w: "wf_registry h"
    and ids: "distinct (map a_human_id (assets d))" "\<forall>a \<in> set (assets d). TrimSpace (a_human_id a) = a_human_id a"
    and ch: "hub_queued h' t \<noteq> hub_queued h t"
  shows "\<exists>row a c. find (\<lambda>a. at_id a = i) (automations d) = Some row \<and> at_is_active row
    \<and> a \<in> set (assets d) \<and> inScope row a \<and> a_cert_serial a = Some c \<and> TrimSpace c = t"
proof -
  define d1 where "d1 = d\<lparr>stmt_no := Suc (stmt_no d)\<rparr>"
  have "\<exists>row hids d2. find (\<lambda>a. at_id a = i) (automations d) = Some row \<and> at_is_active row \<and> assets d1 = assets d
      \<and> resolveTargetHumanIDs row d1 = (Inr hids, d2) \<and> (d', h') = fold (dispatchTo L C pgx (\<lambda>s. s) row) hids (d2, h)"
    using run ch unfolding dispatchAutomation_def d1_def
    by (auto simp: query_row_def sql_def Let_def split: option.splits prod.splits sum.splits if_splits)
  then obtain row hids d2 where q: "find (\<lambda>a. at_id a = i) (automations d) = Some row" "at_is_active row" "assets d1 = assets d"
      "resolveTargetHumanIDs row d1 = (Inr hids, d2)" "(d', h') = fold (dispatchTo L C pgx (\<lambda>s. s) row) hids (d2, h)" by blast
  have d2: "assets d2 = assets d" using q(3) resolve_same_tables [OF q(4)] by (simp add: same_tables_fields)
  from reaches_all [of "(d2, h)" L C pgx row hids t] w ch q(5) [symmetric]
  obtain hid a c where h: "hid \<in> set hids" "find (\<lambda>a. a_human_id a = TrimSpace hid) (assets d2) = Some a" "a_cert_serial a = Some c" "TrimSpace c = t"
    by auto
  from resolve_scope [OF q(4) _ h(1)] ids(2) q(3) obtain b where b: "b \<in> set (assets d)" "a_human_id b = hid" "inScope row b" by auto
  have "a \<in> set (assets d)" "a_human_id a = hid" using h(2) d2 b(1,2) ids(2) by (auto simp: find_Some_iff)
  with b ids(1) have "a = b" by (metis distinct_map inj_onD)
  with q b h show ?thesis by blast
qed

section \<open>Where the code falls short\<close>

lemma find_setDeployment:
  assumes "\<not> fault_at d (stmt_no d)" and "\<And>t dp. dp_id (f t dp) = dp_id dp"
  shows "find (\<lambda>dp. dp_id dp = i) (deployments (snd (setDeployment i f d))) = map_option (f (now d)) (find (\<lambda>dp. dp_id dp = i) (deployments d))"
proof -
  let ?g = "\<lambda>r. if dp_id r = i then f (now d) r else r"
  have "find (\<lambda>dp. dp_id dp = i) (deployments (snd (setDeployment i f d))) = map_option ?g (find (\<lambda>dp. dp_id dp = i) (deployments d))"
    using assms by (simp add: setDeployment_def sql_def Let_def find_update_where [where k = dp_id])
  moreover have "map_option ?g (find (\<lambda>dp. dp_id dp = i) rows) = map_option (f (now d)) (find (\<lambda>dp. dp_id dp = i) rows)" for rows
    by (induction rows) simp_all
  ultimately show ?thesis by simp
qed

text \<open>The agent may report before the server has marked the deployment as dispatched. The mark is
  unconditional, so the reported outcome is lost: the row, which the report had set to \<open>succeeded\<close> or \<open>failed\<close>,
  ends as \<open>dispatched\<close> and keeps that state unless the agent reports again. The routes and the scheduler share
  this sequence.\<close>

theorem deployment_result_overwritten:
  assumes sent: "DispatchJSONByHumanID hid p (d, h) = (Inr (), d1, h1)"
    and report: "meanwhile (d1, h1) = (snd (ApplyPackageDeploymentOutcome L serial raw d1), h1)"
    and stored: "find (\<lambda>dp. dp_id dp = dep) (deployments (snd (ApplyPackageDeploymentOutcome L serial raw d1))) = Some dp"
      "dp_status dp \<in> {''succeeded'', ''failed''}"
    and up: "\<forall>n. \<not> fault_at d n"
  shows "\<exists>d' h' dp'. sendDeployment pgx meanwhile dep hid p (d, h) = (Inr (), d', h')
    \<and> find (\<lambda>dp. dp_id dp = dep) (deployments d') = Some dp' \<and> dp_status dp' = ''dispatched'' \<and> dp_error_message dp' = dp_error_message dp"
proof -
  let ?d2 = "snd (ApplyPackageDeploymentOutcome L serial raw d1)"
  have "fault_at d1 = fault_at d" using DispatchJSONByHumanID_state [of hid p d h] sent by auto
  moreover have "fault_at ?d2 = fault_at d1"
    unfolding ApplyPackageDeploymentOutcome_def Let_def by (auto simp: sql_def Let_def split: option.split)
  ultimately have "\<not> fault_at ?d2 (stmt_no ?d2)" using up by simp
  from find_setDeployment [OF this, of deploymentDispatched dep] stored(1) show ?thesis
    by (simp add: sendDeployment_def sent report deploymentDispatched_def)
qed

text \<open>The scheduler takes a missing \<open>operation\<close> for the text \<open><nil>\<close>, so the default \<open>install\<close> never applies: a
  deployment automation whose payload leaves the operation out, which the create route accepts and which a
  deployment request treats as an installation, does nothing when it fires, on any device.\<close>

theorem automation_without_operation_idle:
  assumes row: "find (\<lambda>a. at_id a = i) (automations d) = Some row" "TrimSpace (ToLower (at_action_type row)) = ''deploy_package''"
    and m: "unmarshal_object (RawDoc (at_payload_json row)) = Some m" "mapValue m ''operation'' = JNull"
  shows "\<exists>d'. dispatchAutomation L C pgx meanwhile i (d, h) = (d', h) \<and> same_tables d d'"
proof -
  have "deployOperation C m = None"
  proof -
    have "ToLower (TrimSpace ''<nil>'') = ''<nil>''" by code_simp
    then show ?thesis by (simp add: deployOperation_def m(2))
  qed
  then have to: "dispatchTo L C pgx meanwhile row hid s = s" for hid s
    using row(2) m(1) by (simp add: dispatchTo_def Let_def dispatchDeploy_def split: option.split)
  have "fold (dispatchTo L C pgx meanwhile row) hids s = s" for hids s
    by (induction hids) (simp_all add: to)
  moreover have "same_tables d d2" if "resolveTargetHumanIDs row (d\<lparr>stmt_no := Suc (stmt_no d)\<rparr>) = (x, d2)" for x d2
    by (rule same_tables_trans [OF same_tables_stmt resolve_same_tables [OF that]])
  ultimately show ?thesis
    using row(1) unfolding dispatchAutomation_def
    by (auto simp: query_row_def sql_def Let_def split: prod.splits sum.splits)
qed

section \<open>Examples\<close>

definition examplePackage :: package where
  "examplePackage = \<lparr>pk_id = 4, pk_name = ''vim'', pk_version = '''', pk_type = ''apt'', pk_install_cmd = '''', pk_created_at = 0, pk_updated_at = 0\<rparr>"

definition exampleAutomation :: "string \<Rightarrow> automation" where
  "exampleAutomation action = \<lparr>at_id = 6, at_name = ''nightly'', at_cron_schedule = ''@daily'', at_action_type = action, at_target_os = Some ''linux'', at_target_asset_id = None,
     at_payload_json = JObj [(''package_id'', JStr ''4'')], at_is_active = True, at_created_at = 0, at_updated_at = 0\<rparr>"

definition exampleRollout :: "string \<Rightarrow> db" where
  "exampleRollout action = empty_db\<lparr>assets := [exampleAsset 7 ''42''], packages := [examplePackage], automations := [exampleAutomation action]\<rparr>"

definition exampleCron :: cron_lib where
  "exampleCron = \<lparr>cron_ParseStandard = (\<lambda>s. Inr (\<lambda>t. t + 1)), cron_ParseOptional = (\<lambda>s. Inl ''''), fmt_float = (\<lambda>_. ''0'')\<rparr>"

definition deployRequest :: request where
  "deployRequest = (exampleRequest ''POST'' ''/v1/deployments'' [(''asset_human_id'', JStr ''dev-1''), (''package_id'', JStr ''4''), (''trigger_deploy'', JBool True)])
     \<lparr>rq_Principal := Some exampleAdmin\<rparr>"

definition exampleOnline :: hub where
  "exampleOnline = snd (hub_register ''42'' NewHub)"

lemma exampleOnline_wf: "wf_registry exampleOnline"
  unfolding exampleOnline_def by (rule wf_registry_register) simp

lemma exampleRollout_wf: "wf_deploy (exampleRollout a)" if "a \<in> {''shutdown'', ''deploy_package''}"
  using that by (auto simp: wf_deploy_def exampleRollout_def empty_db_def examplePackage_def exampleAutomation_def exampleAsset_def
      allowedPackageTypes_def automationCheck_def allowedAutomationTargetOS_def)

lemma exampleRollout_up: "\<forall>n. \<not> fault_at (exampleRollout a) n"
  by (simp add: exampleRollout_def empty_db_def)

theorem deployment_tables_consistent_witness:
  "wf_deploy (fst (snd (handleCreateDeployment exampleLib exampleAuth (\<lambda>_. '''') True (\<lambda>s. s) deployRequest (exampleRollout ''shutdown'', exampleOnline))))"
proof -
  let ?run = "handleCreateDeployment exampleLib exampleAuth (\<lambda>_. '''') True (\<lambda>s. s) deployRequest (exampleRollout ''shutdown'', exampleOnline)"
  have "(deploy_step exampleLib exampleAuth exampleCron (\<lambda>_. ''''))\<^sup>*\<^sup>* (exampleRollout ''shutdown'', exampleOnline) (snd ?run)"
    by (rule r_into_rtranclp, rule dst_deploy) simp
  then have "(deploy_step exampleLib exampleAuth exampleCron (\<lambda>_. ''''))\<^sup>*\<^sup>* (exampleRollout ''shutdown'', exampleOnline) (fst (snd ?run), snd (snd ?run))" by simp
  from deployment_tables_consistent [OF this exampleRollout_wf] show ?thesis by simp
qed


theorem automation_scope_witness:
  "hub_queued (snd (dispatchAutomation exampleLib exampleCron (\<lambda>_. '''') (\<lambda>s. s) 6 (exampleRollout ''shutdown'', exampleOnline))) ''42'' \<noteq> []
   \<and> inScope (exampleAutomation ''shutdown'') (exampleAsset 7 ''42'')"
proof -
  let ?run = "dispatchAutomation exampleLib exampleCron (\<lambda>_. '''') (\<lambda>s. s) 6 (exampleRollout ''shutdown'', exampleOnline)"
  have n: "hub_queued (snd ?run) ''42'' = [JObj [(''action'', JStr ''shutdown'')]]" and o: "hub_queued exampleOnline ''42'' = []" by code_simp+
  have i: "distinct (map a_human_id (assets (exampleRollout ''shutdown'')))" by (simp add: exampleRollout_def)
  have "TrimSpace ''dev-1'' = ''dev-1''" by code_simp
  then have p: "\<forall>a \<in> set (assets (exampleRollout ''shutdown'')). TrimSpace (a_human_id a) = a_human_id a" by (simp add: exampleRollout_def exampleAsset_def)
  have "?run = (fst ?run, snd ?run)" by simp
  from automation_scope [OF this exampleOnline_wf i p, of "''42''"] n o show ?thesis
    by (auto simp: exampleRollout_def exampleAutomation_def exampleAsset_def split: if_splits)
qed

theorem automation_without_operation_idle_witness:
  "\<exists>d'. dispatchAutomation exampleLib exampleCron (\<lambda>_. '''') (\<lambda>s. s) 6 (exampleRollout ''deploy_package'', exampleOnline) = (d', exampleOnline)
     \<and> same_tables (exampleRollout ''deploy_package'') d'"
proof (rule automation_without_operation_idle)
  show "find (\<lambda>a. at_id a = 6) (automations (exampleRollout ''deploy_package'')) = Some (exampleAutomation ''deploy_package'')"
    by (simp add: exampleRollout_def exampleAutomation_def)
  show "TrimSpace (ToLower (at_action_type (exampleAutomation ''deploy_package''))) = ''deploy_package''"
    "unmarshal_object (RawDoc (at_payload_json (exampleAutomation ''deploy_package''))) = Some [(''package_id'', JStr ''4'')]"
    "mapValue [(''package_id'', JStr ''4'')] ''operation'' = JNull" by code_simp+
qed

definition failedReport :: raw_json where
  "failedReport = RawDoc (JObj [(''type'', JStr ''package_result''), (''deployment_id'', JStr ''9''), (''ok'', JBool False), (''error'', JStr ''no space'')])"

definition exampleSent :: db where
  "exampleSent = (exampleRollout ''shutdown'')\<lparr>deployments := [\<lparr>dp_id = 9, dp_asset_id = 7, dp_package_id = 4, dp_status = ''pending'', dp_error_message = None,
     dp_created_at = 0, dp_updated_at = 0\<rparr>]\<rparr>"

theorem deployment_result_overwritten_witness:
  "\<exists>d' h' dp'. sendDeployment (\<lambda>_. '''') (\<lambda>(d, h). (snd (ApplyPackageDeploymentOutcome exampleLib ''42'' failedReport d), h)) 9 ''dev-1'' JNull (exampleSent, exampleOnline)
      = (Inr (), d', h')
    \<and> find (\<lambda>dp. dp_id dp = 9) (deployments d') = Some dp' \<and> dp_status dp' = ''dispatched'' \<and> dp_error_message dp' = Some ''no space''"
proof -
  let ?sent = "DispatchJSONByHumanID ''dev-1'' JNull (exampleSent, exampleOnline)"
  let ?rep = "snd (ApplyPackageDeploymentOutcome exampleLib ''42'' failedReport (fst (snd ?sent)))"
  have "fst ?sent = Inr ()" by code_simp
  then have s: "?sent = (Inr (), fst (snd ?sent), snd (snd ?sent))" by (simp add: prod_eq_iff)
  have f: "find (\<lambda>dp. dp_id dp = 9) (deployments ?rep) = Some \<lparr>dp_id = 9, dp_asset_id = 7, dp_package_id = 4, dp_status = ''failed'', dp_error_message = Some ''no space'',
     dp_created_at = 0, dp_updated_at = 0\<rparr>" by code_simp
  have u: "\<forall>n. \<not> fault_at exampleSent n" by (simp add: exampleSent_def exampleRollout_def empty_db_def)
  from deployment_result_overwritten [OF s _ f _ u, of "\<lambda>(d, h). (snd (ApplyPackageDeploymentOutcome exampleLib ''42'' failedReport d), h)" "\<lambda>_. []"]
  show ?thesis by (simp add: case_prod_unfold)
qed

end
