(* ===== verification/Notifications.thy ===== *)
theory Notifications
  imports AlertEngine Routes
begin

text \<open>
  Delivery of notifications (\<open>internal/notifications\<close>): the dispatcher takes an event from its queue and hands it to
  every active channel as an SMTP message, a signed webhook or a Slack message. The mail client, the HTTP
  client and HMAC are parameters; what is handed to them is recorded. A client returns the text of its error
  or \<open>None\<close>. The text of JSON decoding errors is left out.
\<close>

record smtp_message =
  sm_Host :: string
  sm_Port :: int
  sm_From :: string
  sm_To :: "string list"
  sm_Subject :: string
  sm_Body :: string
  sm_ImplicitTLS :: bool
  sm_SkipVerify :: bool
  sm_Auth :: "(string \<times> string) option"

record http_post =
  hp_URL :: string
  hp_Header :: "(string \<times> string) list"
  hp_Body :: string

datatype outbound = Mail smtp_message | Post http_post

record net_lib =
  n_send :: "smtp_message \<Rightarrow> string option"
  n_post :: "http_post \<Rightarrow> string option"
  n_hmac :: "string \<Rightarrow> string \<Rightarrow> string"

text \<open>A delivery: the error, if any, and what was handed to a client.\<close>

type_synonym delivery = "go_error option \<times> outbound list"

section \<open>SMTP (smtp.go)\<close>

record smtpDeliveryConfig =
  sd_Host :: string
  sd_Port :: int
  sd_Username :: string
  sd_User :: string
  sd_Password :: string
  sd_From :: string
  sd_To :: "string list"
  sd_UseImplicitTLS :: bool
  sd_InsecureSkipVerify :: bool

definition decodeSMTP :: "json \<Rightarrow> smtpDeliveryConfig option" where
  "decodeSMTP cfg =
     (case struct_object (RawDoc cfg) of
        None \<Rightarrow> None
      | Some m \<Rightarrow>
          (case (get_string ''host'' m, get_int ''port'' m, get_string ''username'' m, get_string ''user'' m, get_string ''password'' m,
                 get_string ''from'' m, get_string_list ''to'' m, get_bool ''use_implicit_tls'' m, get_bool ''insecure_skip_verify'' m) of
             (Some h, Some p, Some un, Some u, Some pw, Some f, Some t, Some tls, Some ins) \<Rightarrow>
               Some \<lparr>sd_Host = h, sd_Port = p, sd_Username = un, sd_User = u, sd_Password = pw, sd_From = f, sd_To = t,
                     sd_UseImplicitTLS = tls, sd_InsecureSkipVerify = ins\<rparr>
           | _ \<Rightarrow> None))"

definition smtpMessage :: "smtpDeliveryConfig \<Rightarrow> AlertEvent \<Rightarrow> go_error + smtp_message" where
  "smtpMessage c ev =
     (let username = (if TrimSpace (sd_Username c) = '''' then TrimSpace (sd_User c) else sd_Username c);
          host = TrimSpace (sd_Host c); from = TrimSpace (sd_From c);
          recipients = filter (\<lambda>a. a \<noteq> '''') (map TrimSpace (sd_To c));
          subject = TrimSpace (ev_Title ev); body = TrimSpace (ev_Message ev)
      in if host = '''' \<or> from = '''' \<or> sd_Port c \<le> 0 then Inl (Err ''smtp: host, from, and positive port are required'')
         else if recipients = [] then Inl (Err ''smtp: at least one recipient is required'')
         else Inr \<lparr>sm_Host = host, sm_Port = sd_Port c, sm_From = from, sm_To = recipients, sm_Subject = subject,
                   sm_Body = (if body = '''' then subject else body), sm_ImplicitTLS = sd_UseImplicitTLS c, sm_SkipVerify = sd_InsecureSkipVerify c,
                   sm_Auth = (if username \<noteq> '''' then Some (username, sd_Password c) else None)\<rparr>)"

definition sendSMTPWithGoMail :: "net_lib \<Rightarrow> notification_channel \<Rightarrow> AlertEvent \<Rightarrow> delivery" where
  "sendSMTPWithGoMail N row ev =
     (case decodeSMTP (nc_config_json row) of
        None \<Rightarrow> (Some (Err ''smtp JSON''), [])
      | Some c \<Rightarrow>
          (case smtpMessage c ev of
             Inl e \<Rightarrow> (Some e, [])
           | Inr msg \<Rightarrow> (map_option (\<lambda>s. Err (''smtp send: '' @ s)) (n_send N msg), [Mail msg])))"

section \<open>Webhooks (dispatcher.go)\<close>

text \<open>\<open>headers\<close> is a map of strings; a \<open>null\<close> value is the empty string.\<close>

definition headerMap :: "json_object \<Rightarrow> (string \<times> string) list option" where
  "headerMap m =
     (case struct_get ''headers'' m of
        None \<Rightarrow> Some []
      | Some (JObj hs) \<Rightarrow> those (map (\<lambda>kv. case snd kv of JStr s \<Rightarrow> Some (fst kv, s) | JNull \<Rightarrow> Some (fst kv, '''') | _ \<Rightarrow> None) hs)
      | Some _ \<Rightarrow> None)"

definition decodeWebhook :: "json \<Rightarrow> (string \<times> (string \<times> string) list) option" where
  "decodeWebhook cfg =
     (case struct_object (RawDoc cfg) of
        None \<Rightarrow> None
      | Some m \<Rightarrow> (case (get_string ''url'' m, headerMap m) of (Some u, Some hs) \<Rightarrow> Some (u, hs) | _ \<Rightarrow> None))"

text \<open>\<open>Header.Set\<close>: header names are compared without regard to case.\<close>

definition header_set :: "string \<Rightarrow> string \<Rightarrow> (string \<times> string) list \<Rightarrow> (string \<times> string) list" where
  "header_set k v hs = filter (\<lambda>kv. \<not> EqualFold (fst kv) k) hs @ [(k, v)]"

definition header_get :: "string \<Rightarrow> (string \<times> string) list \<Rightarrow> string option" where
  "header_get k hs = map_option snd (find (\<lambda>kv. EqualFold (fst kv) k) hs)"

definition configHeaders :: "(string \<times> string) list \<Rightarrow> (string \<times> string) list \<Rightarrow> (string \<times> string) list" where
  "configHeaders cfg hs = fold (\<lambda>(k, v) hs. if TrimSpace k = '''' then hs else header_set (TrimSpace k) v hs) cfg hs"

definition signHeaders :: "net_lib \<Rightarrow> string \<Rightarrow> string \<Rightarrow> string \<Rightarrow> (string \<times> string) list \<Rightarrow> (string \<times> string) list" where
  "signHeaders N secret ts body hs =
     (if secret = '''' then hs
      else header_set ''Arx-Signature'' (''sha256='' @ n_hmac N secret (ts @ ''.'' @ body)) (header_set ''Arx-Timestamp'' ts hs))"

definition dispatchSignedWebhook ::
  "net_lib \<Rightarrow> time \<Rightarrow> string \<Rightarrow> (string \<times> string) list \<Rightarrow> string \<Rightarrow> string \<Rightarrow> delivery" where
  "dispatchSignedWebhook N t url cfg secret body =
     (let ts = int_str (t div 1000000000);
          base = header_set ''User-Agent'' ''arx-mdm-notifications/1.0'' (header_set ''Content-Type'' ''application/json'' []);
          post = \<lparr>hp_URL = url, hp_Header = signHeaders N (TrimSpace secret) ts body (configHeaders cfg base), hp_Body = body\<rparr>
      in (map_option Err (n_post N post), [Post post]))"

text \<open>\<open>json.Marshal\<close> of an event: the fields in order, empty severity and details left out.\<close>

definition marshalEvent :: "lib \<Rightarrow> AlertEvent \<Rightarrow> string" where
  "marshalEvent L ev =
     ''{'' @ json_quote ''type'' @ '':'' @ json_quote (ev_Type ev)
     @ (if ev_Severity ev = '''' then '''' else '','' @ json_quote ''severity'' @ '':'' @ json_quote (ev_Severity ev))
     @ '','' @ json_quote ''title'' @ '':'' @ json_quote (ev_Title ev)
     @ '','' @ json_quote ''message'' @ '':'' @ json_quote (ev_Message ev)
     @ (if ev_Details ev = [] then '''' else '','' @ json_quote ''details'' @ '':'' @ marshal (j_num L) (JObj (ev_Details ev)))
     @ ''}''"

definition postOutboundHook :: "lib \<Rightarrow> net_lib \<Rightarrow> time \<Rightarrow> notification_channel \<Rightarrow> AlertEvent \<Rightarrow> delivery" where
  "postOutboundHook L N t row ev =
     (case decodeWebhook (nc_config_json row) of
        None \<Rightarrow> (Some (Err ''webhook JSON''), [])
      | Some (u, hs) \<Rightarrow>
          if TrimSpace u = '''' then (Some (Err ''webhook: url is required''), [])
          else dispatchSignedWebhook N t (TrimSpace u) hs (nc_signing_secret row) (marshalEvent L ev))"

definition escapeSlackItalic :: "string \<Rightarrow> string" where
  "escapeSlackItalic s =
     concat (map (\<lambda>c. if c = CHR ''&'' then ''&amp;'' else if c = CHR ''<'' then ''&lt;'' else if c = CHR ''>'' then ''&gt;'' else [c]) s)"

definition postSlackHook :: "net_lib \<Rightarrow> time \<Rightarrow> notification_channel \<Rightarrow> AlertEvent \<Rightarrow> delivery" where
  "postSlackHook N t row ev =
     (case decodeWebhook (nc_config_json row) of
        None \<Rightarrow> (Some (Err ''slack JSON''), [])
      | Some (u, hs) \<Rightarrow>
          if TrimSpace u = '''' then (Some (Err ''slack: url is required''), [])
          else (let text = ''*'' @ escapeSlackItalic (ev_Title ev) @ ''*'' @ [CHR 0x0A] @ escapeSlackItalic (ev_Message ev);
                    body = ''{'' @ json_quote ''text'' @ '':'' @ json_quote text @ '','' @ json_quote ''mrkdwn'' @ '':true}''
                in dispatchSignedWebhook N t (TrimSpace u) hs (nc_signing_secret row) body))"

definition deliverChannel :: "lib \<Rightarrow> net_lib \<Rightarrow> time \<Rightarrow> AlertEvent \<Rightarrow> notification_channel \<Rightarrow> delivery" where
  "deliverChannel L N t ev row =
     (let ty = TrimSpace (nc_channel_type row)
      in if ty = ''smtp'' then sendSMTPWithGoMail N row ev
         else if ty = ''webhook'' then postOutboundHook L N t row ev
         else if ty = ''slack'' then postSlackHook N t row ev
         else (Some (Err (''notifications: unsupported channel type '' @ go_quote (nc_channel_type row))), []))"

text \<open>Errors of a channel are logged; the next channel is served.\<close>

definition deliverOnce :: "lib \<Rightarrow> net_lib \<Rightarrow> AlertEvent \<Rightarrow> db \<Rightarrow> outbound list \<times> db" where
  "deliverOnce L N ev d =
     (case ListActiveNotificationChannels d of
        (Inl e, d) \<Rightarrow> ([], d)
      | (Inr rows, d) \<Rightarrow> (concat (map (\<lambda>row. snd (deliverChannel L N (now d) ev row)) rows), d))"

definition testEvent :: "lib \<Rightarrow> uuid \<Rightarrow> AlertEvent" where
  "testEvent L i = \<lparr>ev_Type = ''test'', ev_Severity = ''info'', ev_Title = ''ARX MDM connectivity test'',
     ev_Message = ''Synthetic alert validating outbound routing for this channel.'', ev_Details = [(''channel_id'', JStr (u_str L i))]\<rparr>"

definition SendTestChannel :: "lib \<Rightarrow> net_lib \<Rightarrow> uuid \<Rightarrow> db \<Rightarrow> delivery \<times> db" where
  "SendTestChannel L N i d =
     (case LoadNotificationChannelByID i d of
        (Inl e, d) \<Rightarrow> ((Some (case e of Driver x \<Rightarrow> Wrap ''notifications: missing channel row'' x | _ \<Rightarrow> e), []), d)
      | (Inr row, d) \<Rightarrow> (deliverChannel L N (now d) (testEvent L i) row, d))"

end
