(* ===== verification/AlertsApi.thy ===== *)
theory AlertsApi
  imports Notifications
begin

text \<open>
  The routes of notification channels, alert rules and active alerts (\<open>api/alerts.go\<close>). Only administrators may
  see or change channels and rules. A JSON body that is decoded into a map is looked up by the exact name, one
  that is decoded into a struct without regard to case.
\<close>

section \<open>Notification channels\<close>

definition channelTypes :: "string list" where
  "channelTypes = [''smtp'', ''webhook'', ''slack'']"

text \<open>A \<open>map[string]any\<close> field: \<open>Some None\<close> is the nil map.\<close>

definition get_object_ptr :: "string \<Rightarrow> json_object \<Rightarrow> json_object option option" where
  "get_object_ptr name m = (case struct_get name m of None \<Rightarrow> Some None | Some (JObj x) \<Rightarrow> Some (Some x) | Some _ \<Rightarrow> None)"

record notificationChannelPayload =
  np_Name :: string
  np_Type :: string
  np_ChannelType :: string
  np_Config :: "json_object option"
  np_SigningSecret :: string
  np_IsActive :: "bool option"

definition decodeChannelPayload :: "json_object \<Rightarrow> notificationChannelPayload option" where
  "decodeChannelPayload m =
     (case (get_string ''name'' m, get_string ''type'' m, get_string ''channel_type'' m, get_object_ptr ''config'' m,
            get_string ''signing_secret'' m, get_bool_ptr ''is_active'' m) of
        (Some n, Some t, Some ct, Some c, Some s, Some a) \<Rightarrow>
          Some \<lparr>np_Name = n, np_Type = t, np_ChannelType = ct, np_Config = c, np_SigningSecret = s, np_IsActive = a\<rparr>
      | _ \<Rightarrow> None)"

definition parseChannelPayload :: "notificationChannelPayload \<Rightarrow> (string \<times> string) option" where
  "parseChannelPayload p =
     (let name = (if TrimSpace (np_Name p) = '''' then ''Notification channel'' else TrimSpace (np_Name p));
          ct = ToLower (TrimSpace (np_ChannelType p));
          ct = (if ct = '''' then ToLower (TrimSpace (np_Type p)) else ct)
      in if ct \<in> set channelTypes then Some (name, ct) else None)"

definition maskChannelPublicConfig :: "string \<Rightarrow> json_object \<Rightarrow> json_object" where
  "maskChannelPublicConfig typ cfg =
     (if EqualFold typ ''smtp'' \<and> go_get cfg ''password'' \<noteq> None then go_put ''password'' (JStr '''') cfg else cfg)"

definition mergeMaps :: "json_object \<Rightarrow> json_object \<Rightarrow> json_object" where
  "mergeMaps existing patch = fold (\<lambda>kv. go_put (fst kv) (snd kv)) patch existing"

definition mergeSMTPPasswordPreserve :: "json_object \<Rightarrow> json_object \<Rightarrow> json_object" where
  "mergeSMTPPasswordPreserve existing patch =
     (let oldPass = (case as_string (go_get existing ''password'') of None \<Rightarrow> '''' | Some s \<Rightarrow> s);
          out = mergeMaps existing patch
      in case as_string (go_get out ''password'') of
           Some s \<Rightarrow> if TrimSpace s = '''' \<and> oldPass \<noteq> '''' then go_put ''password'' (JStr oldPass) out else out
         | None \<Rightarrow> out)"

definition mergeSigningSecretPreserve :: "string \<Rightarrow> string \<Rightarrow> string" where
  "mergeSigningSecretPreserve existing patch = (let p = TrimSpace patch in if p = '''' then TrimSpace existing else p)"

definition configObject :: "notification_channel \<Rightarrow> json_object" where
  "configObject c = (case unmarshal_object (RawDoc (nc_config_json c)) of None \<Rightarrow> [] | Some m \<Rightarrow> m)"

definition notificationChannelDTO :: "lib \<Rightarrow> notification_channel \<Rightarrow> json" where
  "notificationChannelDTO L c =
     JObj [(''id'', JStr (u_str L (nc_id c))), (''name'', JStr (pg_trim (nc_name c))), (''channel_type'', JStr (nc_channel_type c)),
           (''config'', JObj (maskChannelPublicConfig (nc_channel_type c) (configObject c))), (''is_active'', JBool (nc_is_active c)),
           (''signing_secret_configured'', JBool (nc_signing_secret c \<noteq> '''')),
           (''created_at'', JStr (t_json L (nc_created_at c))), (''updated_at'', JStr (t_json L (nc_updated_at c)))]"

definition handleListChannels :: "lib \<Rightarrow> DashboardAuth \<Rightarrow> request \<Rightarrow> db \<Rightarrow> response \<times> db" where
  "handleListChannels L A r = answer
     (abind (ifMethod r ''GET'') (\<lambda>_.
      abind (authorize L A r ''admin'') (\<lambda>_.
      abind (statement (query (\<lambda>d. sort_key nc_channel_type (sort_key nc_created_at (notification_channels d)))) (failWith 500 ''failed to list channels'')) (\<lambda>rows.
      areturn (RespJson 200 (JArr (map (notificationChannelDTO L) rows)))))))"

definition insertChannelRow :: "string \<Rightarrow> string \<Rightarrow> json \<Rightarrow> string \<Rightarrow> bool \<Rightarrow> db \<Rightarrow> uuid sql_result" where
  "insertChannelRow name ct cfg secret active d =
     (let i = random_uuid d
      in if ct \<notin> set channelTypes then (Inl ErrCheck, uuid_used d)
         else if i \<in> nc_id ` set (notification_channels d) then (Inl ErrUnique, uuid_used d)
         else (Inr i, (uuid_used d)\<lparr>notification_channels := notification_channels d @ [\<lparr>nc_id = i, nc_name = name, nc_channel_type = ct,
                 nc_config_json = cfg, nc_signing_secret = secret, nc_is_active = active, nc_created_at = now d, nc_updated_at = now d\<rparr>]\<rparr>))"

definition handleCreateChannel :: "lib \<Rightarrow> DashboardAuth \<Rightarrow> request \<Rightarrow> db \<Rightarrow> response \<times> db" where
  "handleCreateChannel L A r = answer
     (abind (ifMethod r ''POST'') (\<lambda>_.
      abind (authorize L A r ''admin'') (\<lambda>_.
      abind (given (decodeBody r decodeChannelPayload) 400 ''invalid JSON body'') (\<lambda>q.
      abind (given (np_Config q) 400 ''invalid JSON body'') (\<lambda>cfg.
      abind (given (parseChannelPayload q) 400 ''channel_type must be smtp, webhook, or slack'') (\<lambda>(name, ct).
      let active = (case np_IsActive q of None \<Rightarrow> True | Some b \<Rightarrow> b)
      in abind (statement (sql (insertChannelRow name ct (norm_json (JObj cfg)) (TrimSpace (np_SigningSecret q)) active)) (failWith 500 ''failed to save channel'')) (\<lambda>i.
         areturn (RespJson 201 (JObj [(''id'', JStr (u_str L i))])))))))))"

definition alertPathID :: "lib \<Rightarrow> request \<Rightarrow> ('s, uuid) act" where
  "alertPathID L r = given (u_parse L (TrimSpace (rq_PathID r))) 400 ''invalid id''"

record notificationChannelPatch =
  nq_Name :: string
  nq_Config :: "json_object option"
  nq_IsActive :: "bool option"
  nq_SigningSecret :: string

definition decodeChannelPatch :: "json_object \<Rightarrow> notificationChannelPatch option" where
  "decodeChannelPatch m =
     (case (get_string ''name'' m, get_object_ptr ''config'' m, get_bool_ptr ''is_active'' m, get_string ''signing_secret'' m) of
        (Some n, Some c, Some a, Some s) \<Rightarrow> Some \<lparr>nq_Name = n, nq_Config = c, nq_IsActive = a, nq_SigningSecret = s\<rparr>
      | _ \<Rightarrow> None)"

definition curNameOrDefault :: "string \<Rightarrow> string" where
  "curNameOrDefault name = (if TrimSpace name = '''' then ''Notification channel'' else TrimSpace name)"

text \<open>The row that the patch writes, computed from the row read before.\<close>

definition patchedChannel :: "notificationChannelPatch \<Rightarrow> notification_channel \<Rightarrow> time \<Rightarrow> notification_channel \<Rightarrow> notification_channel" where
  "patchedChannel q cur t row =
     row\<lparr>nc_name := curNameOrDefault (if TrimSpace (nq_Name q) \<noteq> '''' then TrimSpace (nq_Name q) else TrimSpace (pg_trim (nc_name cur))),
         nc_config_json := norm_json (JObj (case nq_Config q of
             None \<Rightarrow> configObject cur
           | Some c \<Rightarrow> if nc_channel_type cur = ''smtp'' then mergeSMTPPasswordPreserve (configObject cur) c else c)),
         nc_signing_secret := mergeSigningSecretPreserve (nc_signing_secret cur) (nq_SigningSecret q),
         nc_is_active := (case nq_IsActive q of None \<Rightarrow> nc_is_active cur | Some b \<Rightarrow> b),
         nc_updated_at := t\<rparr>"

definition updateChannelRow :: "uuid \<Rightarrow> (time \<Rightarrow> notification_channel \<Rightarrow> notification_channel) \<Rightarrow> db \<Rightarrow> unit sql_result" where
  "updateChannelRow i f d =
     (Inr (), d\<lparr>notification_channels := update_where (\<lambda>c. nc_id c = i) (f (now d)) (notification_channels d)\<rparr>)"

definition handlePatchChannel :: "lib \<Rightarrow> DashboardAuth \<Rightarrow> request \<Rightarrow> db \<Rightarrow> response \<times> db" where
  "handlePatchChannel L A r = answer
     (abind (ifMethod r ''PATCH'') (\<lambda>_.
      abind (authorize L A r ''admin'') (\<lambda>_.
      abind (alertPathID L r) (\<lambda>i.
      abind (given (decodeBody r decodeChannelPatch) 400 ''invalid JSON body'') (\<lambda>q.
      abind (require (\<not> (nq_Config q = None \<and> nq_IsActive q = None \<and> TrimSpace (nq_SigningSecret q) = '''' \<and> TrimSpace (nq_Name q) = '''')) 400 ''no fields supplied'') (\<lambda>_.
      abind (statement (query_row (\<lambda>d. find (\<lambda>c. nc_id c = i) (notification_channels d))) (noRows 404 ''channel not found'' 500 ''failed to load channel'')) (\<lambda>cur.
      abind (statement (sql (updateChannelRow i (patchedChannel q cur))) (failWith 500 ''failed to update channel'')) (\<lambda>_.
      areturn (RespJson 200 (statusJson ''updated''))))))))))"

text \<open>The test route also returns what was handed to the clients.\<close>

definition handleTestChannel :: "lib \<Rightarrow> DashboardAuth \<Rightarrow> net_lib \<Rightarrow> request \<Rightarrow> db \<Rightarrow> (response \<times> outbound list) \<times> db" where
  "handleTestChannel L A N r = answerEvents
     (abind (ifMethod r ''POST'') (\<lambda>_.
      abind (authorize L A r ''admin'') (\<lambda>_.
      abind (alertPathID L r) (\<lambda>i d.
      (case SendTestChannel L N i d of
         ((Some e, out), d) \<Rightarrow> (Inr (RespError 400 e, out), d)
       | ((None, out), d) \<Rightarrow> (Inr (RespJson 200 (statusJson ''sent''), out), d))))))"

section \<open>Alert rules\<close>

text \<open>\<open>json.Unmarshal\<close> into \<open>models.AlertRule\<close>: identifiers and times must be well-formed strings.\<close>

definition get_text :: "(string \<Rightarrow> 'a option) \<Rightarrow> string \<Rightarrow> json_object \<Rightarrow> 'a option option" where
  "get_text parse name m = (case struct_get name m of None \<Rightarrow> Some None | Some (JStr s) \<Rightarrow> map_option Some (parse s) | Some _ \<Rightarrow> None)"

definition decodeAlertRule :: "lib \<Rightarrow> json_object \<Rightarrow> alert_rule option" where
  "decodeAlertRule L m =
     (case (get_text (u_parse L) ''id'' m, get_string ''name'' m, get_string ''target_type'' m, get_string ''metric'' m, get_string ''operator'' m,
            get_float ''threshold'' m, get_int ''duration_seconds'' m, get_string ''severity'' m) of
        (Some _, Some n, Some tt, Some me, Some op, Some th, Some du, Some sev) \<Rightarrow>
          (case (get_bool ''is_enabled'' m, get_text (u_parse L) ''target_device_id'' m, get_text (t_parse L) ''created_at'' m, get_text (t_parse L) ''updated_at'' m) of
             (Some en, Some td, Some _, Some _) \<Rightarrow>
               Some \<lparr>ar_id = uuid_Nil, ar_name = n, ar_target_type = tt, ar_metric = me, ar_operator = op, ar_threshold = th, ar_duration_seconds = du,
                     ar_severity = sev, ar_is_enabled = en, ar_target_device_id = td, ar_created_at = 0, ar_updated_at = 0\<rparr>
           | _ \<Rightarrow> None)
      | _ \<Rightarrow> None)"

definition alertRuleJson :: "lib \<Rightarrow> alert_rule \<Rightarrow> json" where
  "alertRuleJson L r =
     JObj ([(''id'', JStr (u_str L (ar_id r))), (''name'', JStr (ar_name r)), (''target_type'', JStr (ar_target_type r)), (''metric'', JStr (ar_metric r)),
            (''operator'', JStr (ar_operator r)), (''threshold'', JNum (ar_threshold r)), (''duration_seconds'', JNum (of_int (ar_duration_seconds r))),
            (''severity'', JStr (ar_severity r)), (''is_enabled'', JBool (ar_is_enabled r))]
       @ opt_field ''target_device_id'' (map_option (\<lambda>u. JStr (u_str L u)) (ar_target_device_id r))
       @ [(''created_at'', JStr (t_json L (ar_created_at r))), (''updated_at'', JStr (t_json L (ar_updated_at r)))])"

text \<open>An empty result is a nil slice, written as \<open>null\<close>.\<close>

definition handleListRules :: "lib \<Rightarrow> DashboardAuth \<Rightarrow> request \<Rightarrow> db \<Rightarrow> response \<times> db" where
  "handleListRules L A r = answer
     (abind (ifMethod r ''GET'') (\<lambda>_.
      abind (authorize L A r ''admin'') (\<lambda>_.
      abind (call ListAlertRules (\<lambda>_. RespError 500 (Err ''failed to list rules''))) (\<lambda>rules.
      areturn (RespJson 200 (if rules = [] then JNull else JArr (map (alertRuleJson L) rules)))))))"

text \<open>The length test on the raw member only separates \<open>null\<close> and short strings from identifiers.\<close>

definition createRuleTarget :: "lib \<Rightarrow> json_object \<Rightarrow> uuid option \<Rightarrow> ('s, uuid option) act" where
  "createRuleTarget L tmp td =
     (case go_get tmp ''target_device_id'' of
        Some (JStr s) \<Rightarrow>
          if length s + 2 > 4 \<and> TrimSpace s \<noteq> ''''
          then abind (given (u_parse L (TrimSpace s)) 400 ''invalid target_device_id'') (\<lambda>i. areturn (if i \<noteq> uuid_Nil then Some i else td))
          else areturn td
      | _ \<Rightarrow> areturn td)"

definition isEnabledField :: "json_object \<Rightarrow> bool \<Rightarrow> bool" where
  "isEnabledField tmp dflt = (case go_get tmp ''is_enabled'' of Some (JBool b) \<Rightarrow> b | _ \<Rightarrow> dflt)"

definition thresholdField :: "json_object \<Rightarrow> rat \<Rightarrow> rat option" where
  "thresholdField tmp dflt =
     (case go_get tmp ''threshold'' of None \<Rightarrow> Some dflt | Some (JNum x) \<Rightarrow> Some x | Some JNull \<Rightarrow> Some 0 | Some _ \<Rightarrow> None)"

definition handleCreateRule :: "lib \<Rightarrow> DashboardAuth \<Rightarrow> request \<Rightarrow> db \<Rightarrow> response \<times> db" where
  "handleCreateRule L A r = answer
     (abind (ifMethod r ''POST'') (\<lambda>_.
      abind (authorize L A r ''admin'') (\<lambda>_.
      abind (given (unmarshal_object (rq_Body r)) 400 ''invalid JSON body'') (\<lambda>tmp.
      abind (given (decodeBody r (decodeAlertRule L)) 400 ''invalid rule json'') (\<lambda>rr.
      let rr = (case thresholdField tmp (ar_threshold rr) of None \<Rightarrow> rr | Some x \<Rightarrow> rr\<lparr>ar_threshold := x\<rparr>)
      in abind (createRuleTarget L tmp (ar_target_device_id rr)) (\<lambda>td.
         abind (require (ar_duration_seconds rr > 0) 400 ''duration_seconds must be > 0'') (\<lambda>_.
         abind (call (InsertAlertRule (rr\<lparr>ar_target_device_id := td, ar_is_enabled := isEnabledField tmp True\<rparr>)) (RespError 400)) (\<lambda>i.
         areturn (RespJson 201 (JObj [(''id'', JStr (u_str L i))]))))))))))"

definition isNoRows :: "go_error \<Rightarrow> bool" where
  "isNoRows e \<longleftrightarrow> (case e of Driver ErrNoRows \<Rightarrow> True | Wrap _ ErrNoRows \<Rightarrow> True | _ \<Rightarrow> False)"

definition patchRuleTarget :: "lib \<Rightarrow> json_object \<Rightarrow> uuid option \<Rightarrow> ('s, uuid option) act" where
  "patchRuleTarget L tmp cur =
     (case go_get tmp ''target_device_id'' of
        None \<Rightarrow> areturn cur
      | Some JNull \<Rightarrow> areturn None
      | Some (JStr s) \<Rightarrow>
          if TrimSpace s = '''' then areturn None
          else abind (given (u_parse L (TrimSpace s)) 400 ''invalid target_device_id'') (\<lambda>i. areturn (Some i))
      | Some _ \<Rightarrow> fail 400 ''target_device_id must be a string UUID or null'')"

definition mergedRule :: "json_object \<Rightarrow> alert_rule \<Rightarrow> alert_rule \<Rightarrow> alert_rule" where
  "mergedRule tmp patch base =
     (let has = (\<lambda>k. go_get tmp k \<noteq> None)
      in base\<lparr>ar_name := (if has ''name'' then TrimSpace (ar_name patch) else ar_name base),
              ar_target_type := (if has ''target_type'' then TrimSpace (ar_target_type patch) else ar_target_type base),
              ar_metric := (if has ''metric'' then TrimSpace (ar_metric patch) else ar_metric base),
              ar_operator := (if has ''operator'' then TrimSpace (ar_operator patch) else ar_operator base),
              ar_duration_seconds := (if has ''duration_seconds'' then ar_duration_seconds patch else ar_duration_seconds base),
              ar_severity := (if has ''severity'' then TrimSpace (ar_severity patch) else ar_severity base),
              ar_is_enabled := isEnabledField tmp (ar_is_enabled base)\<rparr>)"

definition handlePatchRule :: "lib \<Rightarrow> DashboardAuth \<Rightarrow> request \<Rightarrow> db \<Rightarrow> response \<times> db" where
  "handlePatchRule L A r = answer
     (abind (ifMethod r ''PATCH'') (\<lambda>_.
      abind (authorize L A r ''admin'') (\<lambda>_.
      abind (alertPathID L r) (\<lambda>i.
      abind (given (unmarshal_object (rq_Body r)) 400 ''invalid JSON body'') (\<lambda>tmp.
      abind (require (tmp \<noteq> []) 400 ''no mutable fields supplied'') (\<lambda>_.
      abind (call (LoadAlertRule i) (\<lambda>e. if isNoRows e then RespError 404 (Err ''rule not found'') else RespError 500 (Err ''failed to load rule''))) (\<lambda>base.
      abind (given (decodeBody r (decodeAlertRule L)) 400 ''invalid rule json'') (\<lambda>patch.
      abind (given (thresholdField tmp (ar_threshold base)) 400 ''invalid threshold'') (\<lambda>th.
      abind (require (go_get tmp ''duration_seconds'' = None \<or> ar_duration_seconds patch > 0) 400 ''duration_seconds must be positive'') (\<lambda>_.
      abind (patchRuleTarget L tmp (ar_target_device_id base)) (\<lambda>td.
      let merged = (mergedRule tmp patch base)\<lparr>ar_threshold := th, ar_target_device_id := td, ar_id := i\<rparr>
      in abind (call (UpdateAlertRule i merged) (\<lambda>e. if isNoRows e then RespError 404 (Err ''rule not found'') else RespError 400 e)) (\<lambda>_.
         areturn (RespJson 200 (statusJson ''updated''))))))))))))))"

definition handleDeleteRule :: "lib \<Rightarrow> DashboardAuth \<Rightarrow> request \<Rightarrow> db \<Rightarrow> response \<times> db" where
  "handleDeleteRule L A r = answer
     (abind (ifMethod r ''DELETE'') (\<lambda>_.
      abind (authorize L A r ''admin'') (\<lambda>_.
      abind (alertPathID L r) (\<lambda>i.
      abind (call (DeleteAlertRule i) (\<lambda>e. if isNoRows e then RespError 404 (Err ''rule not found'') else RespError 500 (Err ''failed to delete rule''))) (\<lambda>_.
      areturn (RespEmpty 204))))))"

section \<open>Active alerts\<close>

definition activeAlertDTO :: "lib \<Rightarrow> active_alert \<Rightarrow> json" where
  "activeAlertDTO L a =
     JObj ([(''id'', JStr (u_str L (al_id a)))]
       @ opt_field ''alert_rule_id'' (map_option (\<lambda>u. JStr (u_str L u)) (al_alert_rule_id a))
       @ [(''fingerprint'', JStr (al_fingerprint a)), (''alert_kind'', JStr (al_alert_kind a))]
       @ opt_field ''device_id'' (map_option (\<lambda>u. JStr (u_str L u)) (al_device_id a))
       @ [(''severity'', JStr (al_severity a)), (''title'', JStr (al_title a)), (''message'', JStr (al_message a)), (''details'', al_details a),
          (''triggered_at'', JStr (t_json L (al_triggered_at a)))]
       @ opt_field ''last_notified_at'' (map_option (\<lambda>t. JStr (t_json L t)) (al_last_notified_at a))
       @ opt_field ''resolved_at'' (map_option (\<lambda>t. JStr (t_json L t)) (al_resolved_at a)))"

definition handleListActiveAlerts :: "lib \<Rightarrow> DashboardAuth \<Rightarrow> request \<Rightarrow> db \<Rightarrow> response \<times> db" where
  "handleListActiveAlerts L A r = answer
     (abind (ifMethod r ''GET'') (\<lambda>_.
      abind (authorize L A r ''viewer'') (\<lambda>_.
      let limit = (case parse_int (TrimSpace (rq_Query r ''limit'')) of None \<Rightarrow> 50 | Some v \<Rightarrow> if - (2 ^ 63) \<le> v \<and> v < 2 ^ 63 then v else 50);
          inc = (EqualFold (TrimSpace (rq_Query r ''include_resolved'')) ''true'' \<or> rq_Query r ''include_resolved'' = ''1'')
      in abind (call (ListActiveAlerts limit inc) (\<lambda>_. RespError 500 (Err ''failed to list alerts''))) (\<lambda>rows.
         areturn (RespJson 200 (JArr (map (activeAlertDTO L) rows)))))))"

definition handleResolveActiveAlert :: "lib \<Rightarrow> DashboardAuth \<Rightarrow> request \<Rightarrow> db \<Rightarrow> response \<times> db" where
  "handleResolveActiveAlert L A r = answer
     (abind (ifMethod r ''POST'') (\<lambda>_.
      abind (authorize L A r ''admin'') (\<lambda>_.
      abind (alertPathID L r) (\<lambda>i.
      abind (call (ResolveActiveAlertByID i) (\<lambda>e. if isNoRows e then RespError 404 (Err ''alert not found'') else RespError 500 (Err ''failed to resolve alert''))) (\<lambda>_.
      areturn (RespJson 200 (statusJson ''resolved'')))))))"

end
