(* ===== verification/AlertsApi_Facts.thy ===== *)
theory AlertsApi_Facts
  imports AlertsApi Users_Facts "HOL-Library.Multiset"
begin

text \<open>
  Secrets of notification channels: what a patch keeps, what the list hides and what it does not, and that webhooks
  are signed with the channel's secret. A rule once bound to a device cannot be released by an empty target.
\<close>

section \<open>Patching a channel keeps its secrets\<close>

lemma map_of_mergeMaps: "map_of (mergeMaps old patch) k = (case map_of (rev patch) k of Some v \<Rightarrow> Some v | None \<Rightarrow> map_of old k)"
proof (induction patch arbitrary: old)
  case (Cons kv patch)
  have "mergeMaps old (kv # patch) = mergeMaps (go_put (fst kv) (snd kv) old) patch" by (simp add: mergeMaps_def)
  with Cons [of "go_put (fst kv) (snd kv) old"] show ?case
    by (simp add: update_conv' map_add_def split: option.splits)
qed (simp add: mergeMaps_def)

lemma distinct_mergeMaps: "distinct (map fst old) \<Longrightarrow> distinct (map fst (mergeMaps old patch))"
proof (induction patch arbitrary: old)
  case (Cons kv patch)
  then show ?case using distinct_update [OF Cons.prems] by (simp add: mergeMaps_def)
qed (simp add: mergeMaps_def)

lemma map_of_eqI_set: "distinct (map fst xs) \<Longrightarrow> distinct (map fst ys) \<Longrightarrow> set xs = set ys \<Longrightarrow> map_of xs = map_of ys"
  by (simp add: map_of_inject_set)

text \<open>Storing as \<open>jsonb\<close> and reading back.\<close>

lemma map_of_stored:
  assumes "distinct (map fst m)" and "norm_json (JObj m) = JObj m'"
  shows "map_of m' k = map_option norm_json (map_of m k)"
proof -
  let ?l = "map (\<lambda>kv. (fst kv, norm_json (snd kv))) m"
  have d: "distinct (map fst ?l)" using assms(1) by (simp add: o_def)
  have m: "mset (map fst (sort_key fst ?l)) = mset (map fst ?l)" by (simp only: mset_map mset_sort)
  have d': "distinct (map fst (sort_key fst ?l))" by (rule iffD2 [OF mset_eq_imp_distinct_iff [OF m] d])
  have "map_of (sort_key fst ?l) = map_of ?l" by (rule map_of_eqI_set) (use d d' in simp_all)
  with assms(2) show ?thesis by (auto simp: map_of_map_snd)
qed

lemma merge_password:
  assumes "go_get old ''password'' = Some (JStr pw)" "pw \<noteq> ''''" "distinct (map fst old)" "distinct (map fst c)"
    and "go_get c ''password'' = None \<or> (\<exists>s. go_get c ''password'' = Some (JStr s) \<and> TrimSpace s = '''')"
  shows "distinct (map fst (mergeSMTPPasswordPreserve old c))"
    and "go_get (mergeSMTPPasswordPreserve old c) k
      = (if k = ''password'' then Some (JStr pw) else case go_get c k of Some v \<Rightarrow> Some v | None \<Rightarrow> go_get old k)"
proof -
  have r: "map_of (rev c) = map_of c" using assms(4) by (intro map_of_eqI_set) (simp_all add: rev_map [symmetric])
  have o: "go_get (mergeMaps old c) k = (case go_get c k of Some v \<Rightarrow> Some v | None \<Rightarrow> go_get old k)" for k
    by (simp add: map_of_mergeMaps r)
  have d: "distinct (map fst (mergeMaps old c))" by (rule distinct_mergeMaps [OF assms(3)])
  show "distinct (map fst (mergeSMTPPasswordPreserve old c))"
    unfolding mergeSMTPPasswordPreserve_def Let_def using d distinct_update [OF d] by (simp split: option.split)
  show "go_get (mergeSMTPPasswordPreserve old c) k
      = (if k = ''password'' then Some (JStr pw) else case go_get c k of Some v \<Rightarrow> Some v | None \<Rightarrow> go_get old k)"
  proof -
    from assms(1,2,5) o [of "''password''"] obtain s where "go_get (mergeMaps old c) ''password'' = Some (JStr s)" "TrimSpace s = '''' \<or> s = pw"
      by auto
    then show ?thesis
      using assms(1,2) o [of k] by (auto simp: mergeSMTPPasswordPreserve_def Let_def update_conv')
  qed
qed

lemma handlePatchChannel_Inr:
  assumes "handlePatchChannel L A r d = (RespJson 200 j, d')" and "decodeBody r decodeChannelPatch = Some q"
    and "u_parse L (TrimSpace (rq_PathID r)) = Some i" and "find (\<lambda>c. nc_id c = i) (notification_channels d) = Some cur"
  shows "notification_channels d' = update_where (\<lambda>c. nc_id c = i) (patchedChannel q cur (now d)) (notification_channels d)"
  using assms unfolding handlePatchChannel_def alertPathID_def
  apply (elim answer_success [elim_format])
    apply (intro refuses_intros; simp)
   apply simp
  apply (elim abind_Inr_cases)
  apply (clarsimp simp: act_Inr areturn_def sql_def Let_def updateChannelRow_def split: if_splits)
  done


section \<open>What the channel list shows\<close>

lemma mask_password:
  assumes "distinct (map fst cfg)"
  shows "go_get (maskChannelPublicConfig ''smtp'' cfg) ''password'' \<in> {None, Some (JStr '''')}"
    and "k \<noteq> ''password'' \<Longrightarrow> go_get (maskChannelPublicConfig ''smtp'' cfg) k = go_get cfg k"
  by (auto simp: maskChannelPublicConfig_def EqualFold_def update_conv')

lemma struct_get_only:
  assumes "\<forall>kv \<in> set m. EqualFold (fst kv) name \<longrightarrow> kv = (k, v)" "(k, v) \<in> set m" "EqualFold k name" "v \<noteq> JNull"
  shows "struct_get name m = Some v"
proof -
  let ?f = "filter (\<lambda>kv. EqualFold (fst kv) name \<and> snd kv \<noteq> JNull) m"
  have n: "?f \<noteq> []" using assms(2-4) by (force simp: filter_empty_conv)
  then have "last ?f \<in> set ?f" by (rule last_in_set)
  with assms(1) have "last ?f = (k, v)" by auto
  with n show ?thesis unfolding struct_get_def by (cases ?f) simp_all
qed

text \<open>The channel list blanks the member spelt \<open>password\<close>, and only that one. The mail client reads its
  configuration without regard to case, so a channel saved with \<open>Password\<close> works, with exactly that password,
  and the list shows it.\<close>

theorem channel_list_leaks_password:
  assumes cfg: "nc_config_json c = JObj m" "nc_channel_type c = ''smtp''" "distinct (map fst m)"
    and pw: "(k, JStr pw) \<in> set m" "EqualFold k ''password''" "k \<noteq> ''password''" "\<forall>kv \<in> set m. EqualFold (fst kv) ''password'' \<longrightarrow> kv = (k, JStr pw)"
    and sent: "Mail msg \<in> set (snd (deliverChannel L N t ev c))" "sm_Auth msg = Some (u, p)"
  shows "p = pw \<and> go_get (maskChannelPublicConfig (nc_channel_type c) (configObject c)) k = Some (JStr p)
    \<and> (''config'', JObj (maskChannelPublicConfig (nc_channel_type c) (configObject c))) \<in> set (the (unmarshal_object (RawDoc (notificationChannelDTO L c))))"
proof -
  have s: "struct_get ''password'' m = Some (JStr pw)" by (rule struct_get_only [OF pw(4,1,2)]) simp
  have "TrimSpace ''smtp'' = ''smtp''" by code_simp
  with sent(1) cfg(2) obtain cf where cf: "decodeSMTP (nc_config_json c) = Some cf" "smtpMessage cf ev = Inr msg"
    by (auto simp: deliverChannel_def sendSMTPWithGoMail_def split: option.splits sum.splits)
  have "sd_Password cf = pw" using cf(1) cfg(1) s
    by (auto simp: decodeSMTP_def struct_object_def get_string_def split: option.splits)
  then have "p = pw" using cf(2) sent(2) by (auto simp: smtpMessage_def Let_def split: if_splits)
  moreover have "go_get m k = Some (JStr pw)" using pw(1) cfg(3) by simp
  ultimately show ?thesis using mask_password(2) [OF cfg(3) pw(3)] cfg by (simp add: configObject_def notificationChannelDTO_def)
qed

section \<open>Webhooks are signed\<close>

lemma EqualFold_refl [simp]: "EqualFold s s"
  by (simp add: EqualFold_def)

lemma header_get_set: "header_get k (header_set k v hs) = Some v"
proof -
  have "find (\<lambda>kv. EqualFold (fst kv) k) (filter (\<lambda>kv. \<not> EqualFold (fst kv) k) hs @ [(k, v)]) = Some (k, v)"
    by (subst find_append_None) auto
  then show ?thesis by (simp add: header_get_def header_set_def)
qed

lemma header_get_other:
  assumes "\<not> EqualFold k' k"
  shows "header_get k (header_set k' v hs) = header_get k hs"
proof -
  have n: "EqualFold (fst kv) k \<Longrightarrow> \<not> EqualFold (fst kv) k'" for kv :: "string \<times> string" using assms by (auto simp: EqualFold_def)
  have "find (\<lambda>kv. EqualFold (fst kv) k) (filter (\<lambda>kv. \<not> EqualFold (fst kv) k') hs @ [(k', v)]) = find (\<lambda>kv. EqualFold (fst kv) k) hs"
    using assms n by (induction hs) auto
  then show ?thesis by (simp add: header_get_def header_set_def)
qed

lemma dispatchSignedWebhook_signed:
  assumes "Post p \<in> set (snd (dispatchSignedWebhook N t url cfg secret body))" and "TrimSpace secret \<noteq> ''''"
  shows "header_get ''Arx-Timestamp'' (hp_Header p) = Some (int_str (t div 1000000000))
    \<and> header_get ''Arx-Signature'' (hp_Header p) = Some (''sha256='' @ n_hmac N (TrimSpace secret) (int_str (t div 1000000000) @ ''.'' @ hp_Body p))"
proof -
  have n: "\<not> EqualFold ''Arx-Signature'' ''Arx-Timestamp''" by code_simp
  from assms show ?thesis
    by (auto simp: dispatchSignedWebhook_def Let_def signHeaders_def header_get_set header_get_other [OF n])
qed


section \<open>Alert rules\<close>

text \<open>A rule's device target can be removed with \<open>null\<close> but not, as the route intends, with a blank string: the
  blank text is rejected when the body is decoded as a rule, before the branch that would clear the target.
  Hypothesis: the identifier parser rejects that text.\<close>

theorem blank_target_rejected:
  assumes run: "handlePatchRule L A r d = (resp, d')" and body: "rq_Body r = RawDoc (JObj m)"
    and td: "go_get m ''target_device_id'' = Some (JStr s)" "distinct (map (\<lambda>kv. ToLower (fst kv)) m)" and parser: "u_parse L s = None"
  shows "resp_status resp \<ge> 400 \<and> alert_rules d' = alert_rules d"
proof -
  have "struct_get ''target_device_id'' m = Some (JStr s)"
  proof (rule struct_get_only)
    show k: "(''target_device_id'', JStr s) \<in> set m" using td(1) by (rule map_of_SomeD)
    show "\<forall>kv \<in> set m. EqualFold (fst kv) ''target_device_id'' \<longrightarrow> kv = (''target_device_id'', JStr s)"
      using td(2) k by (auto simp: distinct_map inj_on_def EqualFold_def)
  qed simp_all
  with parser have n: "decodeBody r (decodeAlertRule L) = None"
    by (simp add: decodeBody_def struct_object_def body decodeAlertRule_def get_text_def split: option.split)
  have load: "keeps (\<lambda>e. alert_rules e = alert_rules d) (LoadAlertRule i)" for i
    by (simp add: keeps_def LoadAlertRule_def query_row_def sql_def Let_def split: option.split)
  obtain M where M: "handlePatchRule L A r = answer M" "refuses M" "yields (\<lambda>_. False) M" "keeps (\<lambda>e. alert_rules e = alert_rules d) M"
    by (rule that [OF handlePatchRule_def [of L A r, unfolded n alertPathID_def given_None abind_fail]]) (intro refuses_intros yields_intros keeps_intros load; simp)+
  from M(1,3) run have e: "M d = (Inl resp, d')" by (auto simp: answer_def yields_def split: prod.splits sum.splits)
  from refusesD [OF M(2) e] keepsD [OF M(4), of d] e show ?thesis by simp
qed

section \<open>Examples\<close>

definition exampleChannel :: "string \<Rightarrow> json_object \<Rightarrow> notification_channel" where
  "exampleChannel ty cfg = \<lparr>nc_id = 2, nc_name = ''ops'', nc_channel_type = ty, nc_config_json = JObj cfg, nc_signing_secret = ''key'', nc_is_active = True,
     nc_created_at = 0, nc_updated_at = 0\<rparr>"

definition exampleNet :: net_lib where
  "exampleNet = \<lparr>n_send = (\<lambda>_. None), n_post = (\<lambda>_. None), n_hmac = (\<lambda>k m. k @ m)\<rparr>"

definition smtpConfig :: "string \<Rightarrow> json_object" where
  "smtpConfig k = [(''from'', JStr ''a@b''), (''host'', JStr ''mx''), (k, JStr ''s3''), (''port'', JNum 25), (''to'', JArr [JStr ''c@d'']), (''user'', JStr ''u'')]"

definition exampleChannels :: db where
  "exampleChannels = empty_db\<lparr>notification_channels := [exampleChannel ''smtp'' (smtpConfig ''password'')]\<rparr>"

definition channelRequest :: "string \<Rightarrow> json_object \<Rightarrow> request" where
  "channelRequest m body = (exampleRequest m ''/v1/alerts/channels/2'' body)\<lparr>rq_Principal := Some exampleAdmin\<rparr>"


theorem channel_list_leaks_password_witness:
  "go_get (maskChannelPublicConfig ''smtp'' (smtpConfig ''Password'')) ''Password'' = Some (JStr ''s3'')"
proof -
  let ?c = "exampleChannel ''smtp'' (smtpConfig ''Password'')"
  let ?ev = "testEvent exampleLib 2"
  let ?msg = "\<lparr>sm_Host = ''mx'', sm_Port = 25, sm_From = ''a@b'', sm_To = [''c@d''], sm_Subject = ''ARX MDM connectivity test'',
     sm_Body = ''Synthetic alert validating outbound routing for this channel.'', sm_ImplicitTLS = False, sm_SkipVerify = False, sm_Auth = Some (''u'', ''s3'')\<rparr>"
  have "snd (deliverChannel exampleLib exampleNet 0 ?ev ?c) = [Mail ?msg]" by code_simp
  then have s: "Mail ?msg \<in> set (snd (deliverChannel exampleLib exampleNet 0 ?ev ?c))" by simp
  have m: "\<forall>kv \<in> set (smtpConfig ''Password''). EqualFold (fst kv) ''password'' \<longrightarrow> kv = (''Password'', JStr ''s3'')"
    "EqualFold ''Password'' ''password''" "distinct (map fst (smtpConfig ''Password''))" by code_simp+
  have c: "nc_config_json ?c = JObj (smtpConfig ''Password'')" "nc_channel_type ?c = ''smtp''" by (simp_all add: exampleChannel_def)
  have i: "(''Password'', JStr ''s3'') \<in> set (smtpConfig ''Password'')" by (simp add: smtpConfig_def)
  from channel_list_leaks_password [OF c m(3) i m(2) _ m(1) s, of "''u''" "''s3''"] c show ?thesis by (simp add: configObject_def)
qed


theorem blank_target_rejected_witness:
  "resp_status (fst (handlePatchRule exampleLib exampleAuth (channelRequest ''PATCH'' [(''target_device_id'', JStr '''')]) exampleChannels)) \<ge> 400"
proof -
  let ?r = "channelRequest ''PATCH'' [(''target_device_id'', JStr '''')]"
  let ?run = "handlePatchRule exampleLib exampleAuth ?r exampleChannels"
  have b: "rq_Body ?r = RawDoc (JObj [(''target_device_id'', JStr '''')])" by (simp add: channelRequest_def exampleRequest_def)
  have p: "u_parse exampleLib '''' = None" by code_simp
  have "?run = (fst ?run, snd ?run)" by simp
  from blank_target_rejected [OF this b _ _ p] show ?thesis by simp
qed

end
