(* ===== verification/Apps.thy ===== *)
theory Apps
  imports Packages
begin

text \<open>
  The app catalogue: catalogue entries with uploaded or external installers and their assignment to devices
  (\<open>api/app_catalog.go\<close>), the download of an installer by an agent (\<open>api/agent_app_download.go\<close>) and managed
  configurations (\<open>api/app_managed_config.go\<close>), with the constraints of migrations 14 and 16. The lexical path
  functions of \<open>path/filepath\<close> are those of Unix. The file store maps absolute paths to contents; \<open>io\<close> says which
  file operations fail. \<open>rq_PathID\<close> is \<open>{id}\<close> or \<open>{catalogId}\<close>, \<open>rq_PathDevice\<close> is \<open>{configId}\<close>. \<open>meanwhile\<close> is what other
  goroutines do between a dispatch and the mark that follows it.
\<close>

section \<open>Paths (path/filepath)\<close>

definition pathComponents :: "string \<Rightarrow> string list" where
  "pathComponents s = filter (\<lambda>c. c \<noteq> '''') (Split s (CHR ''/''))"

fun cleanComps :: "bool \<Rightarrow> string list \<Rightarrow> string list \<Rightarrow> string list" where
  "cleanComps rooted [] acc = rev acc"
| "cleanComps rooted (c # cs) acc =
     (if c = ''.'' then cleanComps rooted cs acc
      else if c = ''..'' then
        (case acc of
           [] \<Rightarrow> if rooted then cleanComps rooted cs [] else cleanComps rooted cs [''..'']
         | a # as \<Rightarrow> if a = ''..'' then cleanComps rooted cs (''..'' # acc) else cleanComps rooted cs as)
      else cleanComps rooted cs (c # acc))"

definition path_Clean :: "string \<Rightarrow> string" where
  "path_Clean s =
     (let rooted = prefix ''/'' s; cs = cleanComps rooted (pathComponents s) []
      in if rooted then ''/'' @ Join cs ''/'' else if cs = [] then ''.'' else Join cs ''/'')"

definition path_Join :: "string \<Rightarrow> string \<Rightarrow> string" where
  "path_Join a b =
     (if a = '''' then (if b = '''' then '''' else path_Clean b)
      else if b = '''' then path_Clean a
      else path_Clean (a @ ''/'' @ b))"

definition path_Abs :: "string \<Rightarrow> string \<Rightarrow> string" where
  "path_Abs cwd p = (if prefix ''/'' p then path_Clean p else path_Join cwd p)"

fun dropCommon :: "string list \<Rightarrow> string list \<Rightarrow> string list \<times> string list" where
  "dropCommon (a # as) (b # bs) = (if a = b then dropCommon as bs else (a # as, b # bs))"
| "dropCommon as bs = (as, bs)"

text \<open>\<open>filepath.Rel\<close> of cleaned absolute paths.\<close>

definition path_Rel :: "string \<Rightarrow> string \<Rightarrow> string" where
  "path_Rel base targ =
     (case dropCommon (pathComponents base) (pathComponents targ) of
        (up, down) \<Rightarrow> let cs = replicate (length up) ''..'' @ down in if cs = [] then ''.'' else Join cs ''/'')"

definition path_Base :: "string \<Rightarrow> string" where
  "path_Base s = (if s = '''' then ''.'' else if pathComponents s = [] then ''/'' else last (pathComponents s))"

section \<open>Locations\<close>

definition toSlash :: "string \<Rightarrow> string" where
  "toSlash s = map (\<lambda>c. if c = CHR 0x5C then CHR ''/'' else c) s"

definition looksLikeHTTPSURL :: "string \<Rightarrow> bool" where
  "looksLikeHTTPSURL s \<longleftrightarrow> HasPrefix (ToLower (TrimSpace s)) ''https://'' \<or> HasPrefix (ToLower (TrimSpace s)) ''http://''"

definition looksLikeUploadedBlobPath :: "string \<Rightarrow> bool" where
  "looksLikeUploadedBlobPath s \<longleftrightarrow> HasPrefix (TrimSpace (toSlash s)) ''blobs/''"

definition safeAppsPath :: "string \<Rightarrow> string \<Rightarrow> string \<Rightarrow> string option" where
  "safeAppsPath cwd rootDir stored =
     (let t = TrimSpace (toSlash stored);
          s = (if prefix ''/'' t then drop 1 t else t)
      in if s = '''' \<or> Contains s ''..'' then None
         else (let absRoot = path_Abs cwd (path_Clean (TrimSpace rootDir)); target = path_Clean (path_Join absRoot s)
               in if HasPrefix (path_Rel absRoot target) ''..'' then None else Some target))"

text \<open>On ASCII; bytes from 128 on are kept.\<close>

definition uploadChar :: "char \<Rightarrow> bool" where
  "uploadChar c \<longleftrightarrow> (let n = (of_char c :: nat) in 48 \<le> n \<and> n \<le> 57 \<or> 65 \<le> n \<and> n \<le> 90 \<or> 97 \<le> n \<and> n \<le> 122 \<or> n \<ge> 128)
     \<or> c \<in> {CHR ''.'', CHR ''-'', CHR ''_''}"

definition sanitizeUploadBaseName :: "string \<Rightarrow> string" where
  "sanitizeUploadBaseName name =
     (let base = path_Base (TrimSpace name)
      in if base = '''' \<or> base = ''.'' then ''package.bin''
         else (let out = map (\<lambda>c. if uploadChar c then c else CHR ''_'') base
               in if out = '''' \<or> out = ''.'' then ''package.bin'' else out))"

definition normalizeTargetOS :: "string \<Rightarrow> string option" where
  "normalizeTargetOS s = (let t = ToLower (TrimSpace s) in if t \<in> {''windows'', ''linux'', ''android''} then Some t else None)"

definition assetOsMatchesTarget :: "string \<Rightarrow> string \<Rightarrow> bool" where
  "assetOsMatchesTarget deviceOS target \<longleftrightarrow>
     (let dv = ToLower (TrimSpace deviceOS); t = ToLower (TrimSpace target) in t \<in> {''windows'', ''linux'', ''android''} \<and> dv = t)"

section \<open>Catalogue entries (app_catalog.go)\<close>

type_synonym store = "(string \<times> string) list"

definition appCatalogWire :: "lib \<Rightarrow> catalog_app \<Rightarrow> json" where
  "appCatalogWire L a =
     JObj [(''id'', JStr (u_str L (ca_id a))), (''name'', JStr (ca_name a)), (''version'', JStr (ca_version a)), (''target_os'', JStr (ca_target_os a)),
           (''file_path_or_url'', JStr (ca_file_path_or_url a)), (''install_args'', JStr (ca_install_args a)), (''created_at'', JStr (t_json L (ca_created_at a)))]"

definition handleListCatalog :: "lib \<Rightarrow> DashboardAuth \<Rightarrow> request \<Rightarrow> db \<Rightarrow> response \<times> db" where
  "handleListCatalog L A r = answer
     (abind (ifMethod r ''GET'') (\<lambda>_.
      abind (authorize L A r ''viewer'') (\<lambda>_.
      abind (statement (query (\<lambda>d. sort_key (\<lambda>a. - ca_created_at a) (app_catalog d))) (failWith 500 ''failed to list catalog'')) (\<lambda>rows.
      areturn (RespJson 200 (JArr (map (appCatalogWire L) rows)))))))"

definition insertCatalogRow :: "string \<Rightarrow> string \<Rightarrow> string \<Rightarrow> string \<Rightarrow> string \<Rightarrow> db \<Rightarrow> uuid sql_result" where
  "insertCatalogRow name version tos loc args d =
     (let i = random_uuid d
      in if tos \<notin> {''windows'', ''linux'', ''android''} then (Inl ErrCheck, uuid_used d)
         else if i \<in> ca_id ` set (app_catalog d) then (Inl ErrUnique, uuid_used d)
         else (Inr i, (uuid_used d)\<lparr>app_catalog := app_catalog d @ [\<lparr>ca_id = i, ca_name = name, ca_version = version, ca_target_os = tos,
                 ca_file_path_or_url = loc, ca_install_args = args, ca_created_at = now d\<rparr>]\<rparr>))"

record createCatalogJSONRequest =
  cc_Name :: string
  cc_Version :: string
  cc_TargetOS :: string
  cc_FilePathOrURL :: string
  cc_InstallArgs :: string

definition decodeCreateCatalog :: "json_object \<Rightarrow> createCatalogJSONRequest option" where
  "decodeCreateCatalog m =
     (case (get_string ''name'' m, get_string ''version'' m, get_string ''target_os'' m, get_string ''file_path_or_url'' m, get_string ''install_args'' m) of
        (Some n, Some v, Some t, Some f, Some a) \<Rightarrow>
          Some \<lparr>cc_Name = n, cc_Version = v, cc_TargetOS = t, cc_FilePathOrURL = f, cc_InstallArgs = a\<rparr>
      | _ \<Rightarrow> None)"

definition handleCreateCatalogJSON :: "lib \<Rightarrow> DashboardAuth \<Rightarrow> request \<Rightarrow> db \<Rightarrow> response \<times> db" where
  "handleCreateCatalogJSON L A r = answer
     (abind (ifMethod r ''POST'') (\<lambda>_.
      abind (authorize L A r ''operator'') (\<lambda>_.
      abind (given (decodeBody r decodeCreateCatalog) 400 ''invalid JSON body'') (\<lambda>q.
      let name = TrimSpace (cc_Name q); loc = TrimSpace (cc_FilePathOrURL q)
      in abind (require (name \<noteq> '''') 400 ''name is required'') (\<lambda>_.
         abind (given (normalizeTargetOS (cc_TargetOS q)) 400 ''invalid target_os'') (\<lambda>tos.
         abind (require (loc \<noteq> '''') 400 ''file_path_or_url is required'') (\<lambda>_.
         abind (require (looksLikeHTTPSURL loc) 400 ''file_path_or_url must be https:// URL for metadata-only catalog entries'') (\<lambda>_.
         abind (statement (sql (insertCatalogRow name (TrimSpace (cc_Version q)) tos loc (TrimSpace (cc_InstallArgs q)))) (failWith 500 ''failed to create catalog row'')) (\<lambda>i.
         areturn (RespJson 201 (JObj [(''id'', JStr (u_str L i))])))))))))))"

text \<open>A parsed multipart form: its values and the file with its name, declared size and content.\<close>

record upload_form =
  uf_ok :: bool
  uf_value :: "string \<Rightarrow> string"
  uf_file :: "(string \<times> nat \<times> string) option"

definition maxAppUploadBytes :: nat where
  "maxAppUploadBytes = 536870912"

definition newBlobName :: "lib \<Rightarrow> string \<Rightarrow> db \<Rightarrow> string \<times> db" where
  "newBlobName L fname d = (''blobs/'' @ u_str L (random_uuid d) @ ''_'' @ sanitizeUploadBaseName fname, uuid_used d)"

text \<open>Write to a temporary name, check the size, rename; a failure removes the temporary file (that this removal
  works is taken for granted).\<close>

definition storeUpload :: "(string \<Rightarrow> bool) \<Rightarrow> string \<Rightarrow> string \<Rightarrow> (db \<times> store, unit) act" where
  "storeUpload io absPath content s =
     (case s of (d, fs) \<Rightarrow>
      if io ''mkdir'' then (Inl (RespError 500 (Err ''failed to persist upload'')), s)
      else if io ''open'' then (Inl (RespError 500 (Err ''failed to persist upload'')), s)
      else if io ''copy'' then (Inl (RespError 400 (Err ''failed to stream upload body'')), d, AList.delete (absPath @ ''.partial'') fs)
      else if length (take maxAppUploadBytes content) = maxAppUploadBytes then (Inl (RespError 400 (Err ''file too large'')), d, AList.delete (absPath @ ''.partial'') fs)
      else if io ''rename'' then (Inl (RespError 500 (Err ''finalize upload failed'')), d, AList.delete (absPath @ ''.partial'') fs)
      else (Inr (), d, go_put absPath content (AList.delete (absPath @ ''.partial'') fs)))"

definition handleUploadCatalog ::
  "lib \<Rightarrow> DashboardAuth \<Rightarrow> (string \<Rightarrow> bool) \<Rightarrow> string \<Rightarrow> string \<Rightarrow> upload_form \<Rightarrow> request \<Rightarrow> db \<times> store \<Rightarrow> response \<times> db \<times> store" where
  "handleUploadCatalog L A io cwd rootDir form r = answer
     (abind (ifMethod r ''POST'') (\<lambda>_.
      abind (onDb (authorize L A r ''operator'')) (\<lambda>_.
      abind (require (uf_ok form) 400 ''invalid multipart form'') (\<lambda>_.
      let name = TrimSpace (uf_value form ''name''); version = TrimSpace (uf_value form ''version''); args = TrimSpace (uf_value form ''install_args'')
      in abind (given (normalizeTargetOS (uf_value form ''target_os'')) 400 ''invalid target_os'') (\<lambda>tos.
         abind (require (name \<noteq> '''') 400 ''name is required'') (\<lambda>_.
         abind (given (uf_file form) 400 ''file field is required'') (\<lambda>(fname, size, content).
         abind (require (size \<le> maxAppUploadBytes) 400 ''file too large'') (\<lambda>_.
         abind (onDb (\<lambda>d. case newBlobName L fname d of (n, d) \<Rightarrow> (Inr n, d))) (\<lambda>relName.
         abind (given (safeAppsPath cwd rootDir relName) 500 ''storage path error'') (\<lambda>absPath.
         abind (storeUpload io absPath content) (\<lambda>_.
         abind (onDb (statement (sql (insertCatalogRow name version tos relName args)) (failWith 500 ''failed to persist catalog row''))) (\<lambda>i.
         areturn (RespJson 201 (JObj [(''id'', JStr (u_str L i))]))))))))))))))"

definition findCatalog :: "uuid \<Rightarrow> db \<Rightarrow> catalog_app sql_result" where
  "findCatalog i = query_row (\<lambda>d. find (\<lambda>a. ca_id a = i) (app_catalog d))"

definition handleGetCatalog :: "lib \<Rightarrow> DashboardAuth \<Rightarrow> request \<Rightarrow> db \<Rightarrow> response \<times> db" where
  "handleGetCatalog L A r = answer
     (abind (ifMethod r ''GET'') (\<lambda>_.
      abind (authorize L A r ''viewer'') (\<lambda>_.
      abind (given (pathUUID L r) 400 ''invalid id'') (\<lambda>i.
      abind (statement (findCatalog i) (noRows 404 ''catalog entry not found'' 500 ''lookup failed'')) (\<lambda>a.
      areturn (RespJson 200 (appCatalogWire L a)))))))"

record patchCatalogRequest =
  pc_Name :: "string option"
  pc_Version :: "string option"
  pc_TargetOS :: "string option"
  pc_FilePathOrURL :: "string option"
  pc_InstallArgs :: "string option"

definition decodePatchCatalog :: "json_object \<Rightarrow> patchCatalogRequest option" where
  "decodePatchCatalog m =
     (case (get_string_ptr ''name'' m, get_string_ptr ''version'' m, get_string_ptr ''target_os'' m, get_string_ptr ''file_path_or_url'' m, get_string_ptr ''install_args'' m) of
        (Some n, Some v, Some t, Some f, Some a) \<Rightarrow>
          Some \<lparr>pc_Name = n, pc_Version = v, pc_TargetOS = t, pc_FilePathOrURL = f, pc_InstallArgs = a\<rparr>
      | _ \<Rightarrow> None)"

definition patchedText :: "string option \<Rightarrow> string \<Rightarrow> string" where
  "patchedText x cur = (case x of None \<Rightarrow> cur | Some s \<Rightarrow> TrimSpace s)"

definition updateCatalogRow :: "uuid \<Rightarrow> string \<Rightarrow> string \<Rightarrow> string \<Rightarrow> string \<Rightarrow> string \<Rightarrow> db \<Rightarrow> unit sql_result" where
  "updateCatalogRow i name version tos loc args d =
     (if tos \<notin> {''windows'', ''linux'', ''android''} \<and> i \<in> ca_id ` set (app_catalog d) then (Inl ErrCheck, d)
      else (Inr (), d\<lparr>app_catalog := update_where (\<lambda>a. ca_id a = i) (\<lambda>a. a\<lparr>ca_name := name, ca_version := version, ca_target_os := tos,
              ca_file_path_or_url := loc, ca_install_args := args\<rparr>) (app_catalog d)\<rparr>))"

definition handlePatchCatalog :: "lib \<Rightarrow> DashboardAuth \<Rightarrow> request \<Rightarrow> db \<Rightarrow> response \<times> db" where
  "handlePatchCatalog L A r = answer
     (abind (ifMethod r ''PATCH'') (\<lambda>_.
      abind (authorize L A r ''operator'') (\<lambda>_.
      abind (given (pathUUID L r) 400 ''invalid id'') (\<lambda>i.
      abind (given (decodeBody r decodePatchCatalog) 400 ''invalid JSON body'') (\<lambda>q.
      abind (statement (findCatalog i) (noRows 404 ''catalog entry not found'' 500 ''lookup failed'')) (\<lambda>cur.
      abind (case pc_TargetOS q of None \<Rightarrow> areturn (ca_target_os cur) | Some t \<Rightarrow> given (normalizeTargetOS t) 400 ''invalid target_os'') (\<lambda>tos.
      let name = patchedText (pc_Name q) (ca_name cur); loc = patchedText (pc_FilePathOrURL q) (ca_file_path_or_url cur)
      in abind (require (pc_FilePathOrURL q = None \<or> loc = '''' \<or> looksLikeHTTPSURL loc \<or> looksLikeUploadedBlobPath loc) 400
                 ''file_path_or_url must remain a staged blobs/ path or an https:// URL'') (\<lambda>_.
         abind (require (name \<noteq> '''') 400 ''name is required'') (\<lambda>_.
         abind (require (loc \<noteq> '''') 400 ''file_path_or_url is required'') (\<lambda>_.
         abind (statement (sql (updateCatalogRow i name (patchedText (pc_Version q) (ca_version cur)) tos loc (patchedText (pc_InstallArgs q) (ca_install_args cur))))
                  (failWith 500 ''update failed'')) (\<lambda>_.
         areturn (RespJson 200 (statusJson ''ok'')))))))))))))"

definition deleteCatalogRow :: "uuid \<Rightarrow> db \<Rightarrow> nat sql_result" where
  "deleteCatalogRow i d =
     (let n = affected (\<lambda>a. ca_id a = i) (app_catalog d)
      in if n = 0 then (Inr 0, d)
         else (Inr n, d\<lparr>app_catalog := filter (\<lambda>a. ca_id a \<noteq> i) (app_catalog d),
                        device_apps := filter (\<lambda>x. da_app_id x \<noteq> i) (device_apps d),
                        app_configurations := filter (\<lambda>c. ac_catalog_app_id c \<noteq> i) (app_configurations d)\<rparr>))"

definition unlinkBlob :: "(string \<Rightarrow> bool) \<Rightarrow> string \<Rightarrow> string \<Rightarrow> string \<Rightarrow> store \<Rightarrow> store" where
  "unlinkBlob io cwd rootDir loc fs =
     (if \<not> looksLikeUploadedBlobPath loc then fs
      else (case safeAppsPath cwd rootDir loc of None \<Rightarrow> fs | Some p \<Rightarrow> if io ''remove'' then fs else AList.delete p fs))"

definition handleDeleteCatalog ::
  "lib \<Rightarrow> DashboardAuth \<Rightarrow> (string \<Rightarrow> bool) \<Rightarrow> string \<Rightarrow> string \<Rightarrow> request \<Rightarrow> db \<times> store \<Rightarrow> response \<times> db \<times> store" where
  "handleDeleteCatalog L A io cwd rootDir r = answer
     (abind (ifMethod r ''DELETE'') (\<lambda>_.
      abind (onDb (authorize L A r ''operator'')) (\<lambda>_.
      abind (given (pathUUID L r) 400 ''invalid id'') (\<lambda>i.
      abind (onDb (statement (findCatalog i) (noRows 404 ''catalog entry not found'' 500 ''lookup failed''))) (\<lambda>cur.
      abind (onDb (statement (sql (deleteCatalogRow i)) (failWith 500 ''delete failed''))) (\<lambda>n.
      abind (require (n \<noteq> 0) 404 ''catalog entry not found'') (\<lambda>_.
      abind (onWorld (\<lambda>fs. ((), unlinkBlob io cwd rootDir (ca_file_path_or_url cur) fs))) (\<lambda>_.
      areturn (RespEmpty 204)))))))))"

section \<open>Installations on devices\<close>

definition deviceAppWire :: "lib \<Rightarrow> device_app \<times> catalog_app \<Rightarrow> json" where
  "deviceAppWire L = (\<lambda>(x, a).
     JObj ([(''device_id'', JStr (u_str L (da_device_id x))), (''app_id'', JStr (u_str L (da_app_id x))), (''app_name'', JStr (ca_name a)),
            (''app_version'', JStr (ca_version a)), (''target_os'', JStr (ca_target_os a)), (''status'', JStr (da_status x))]
       @ opt_field ''error_message'' (map_option JStr (da_error_message x)) @ [(''last_updated'', JStr (t_json L (da_last_updated x)))]))"

definition deviceApps :: "uuid \<Rightarrow> db \<Rightarrow> (device_app \<times> catalog_app) list" where
  "deviceApps i d =
     sort_key (\<lambda>(x, a). - da_last_updated x) (concat (map (\<lambda>x. case find (\<lambda>a. ca_id a = da_app_id x) (app_catalog d) of None \<Rightarrow> [] | Some a \<Rightarrow> [(x, a)])
       (filter (\<lambda>x. da_device_id x = i) (device_apps d))))"

definition handleListDeviceApps :: "lib \<Rightarrow> DashboardAuth \<Rightarrow> request \<Rightarrow> db \<Rightarrow> response \<times> db" where
  "handleListDeviceApps L A r = answer
     (abind (ifMethod r ''GET'') (\<lambda>_.
      abind (authorize L A r ''viewer'') (\<lambda>_.
      abind (given (u_parse L (TrimSpace (rq_PathID r))) 400 ''invalid device id'') (\<lambda>i.
      abind (statement (query (\<lambda>d. i \<in> a_id ` set (assets d))) (failWith 500 ''lookup failed'')) (\<lambda>ex.
      abind (require ex 404 ''device not found'') (\<lambda>_.
      abind (statement (query (deviceApps i)) (failWith 500 ''list failed'')) (\<lambda>rows.
      areturn (RespJson 200 (JArr (map (deviceAppWire L) rows))))))))))"

definition upsertDeviceApp :: "uuid \<Rightarrow> uuid \<Rightarrow> db \<Rightarrow> unit sql_result" where
  "upsertDeviceApp dev app d =
     (if list_ex (\<lambda>x. da_device_id x = dev \<and> da_app_id x = app) (device_apps d)
      then (Inr (), d\<lparr>device_apps := update_where (\<lambda>x. da_device_id x = dev \<and> da_app_id x = app)
              (\<lambda>x. x\<lparr>da_status := ''pending'', da_last_updated := now d, da_error_message := None\<rparr>) (device_apps d)\<rparr>)
      else if dev \<notin> a_id ` set (assets d) \<or> app \<notin> ca_id ` set (app_catalog d) then (Inl ErrForeignKey, d)
      else (Inr (), d\<lparr>device_apps := device_apps d @ [\<lparr>da_device_id = dev, da_app_id = app, da_status = ''pending'', da_error_message = None,
              da_last_updated = now d\<rparr>]\<rparr>))"

definition setDeviceApp :: "uuid \<Rightarrow> uuid \<Rightarrow> (device_app \<Rightarrow> device_app) \<Rightarrow> db \<Rightarrow> unit sql_result" where
  "setDeviceApp dev app f =
     sql (\<lambda>d. (Inr (), d\<lparr>device_apps := update_where (\<lambda>x. da_device_id x = dev \<and> da_app_id x = app) (\<lambda>x. (f x)\<lparr>da_last_updated := now d\<rparr>) (device_apps d)\<rparr>))"

definition installPayload :: "lib \<Rightarrow> catalog_app \<Rightarrow> string \<Rightarrow> json" where
  "installPayload L a artifact =
     JObj [(''action'', JStr ''install_app''), (''app_id'', JStr (u_str L (ca_id a))), (''artifact_path'', JStr artifact), (''install_args'', JStr (ca_install_args a)),
           (''target_os_hint'', JStr (ToLower (TrimSpace (ca_target_os a))))]"

definition artifactPath :: "lib \<Rightarrow> catalog_app \<Rightarrow> string option" where
  "artifactPath L a =
     (let p = TrimSpace (ca_file_path_or_url a)
      in if looksLikeHTTPSURL p then Some p
         else if looksLikeUploadedBlobPath p then Some (''/v1/agent/app-artifacts/'' @ u_str L (ca_id a))
         else None)"

definition dispatchInstall ::
  "(sql_error \<Rightarrow> string) \<Rightarrow> bool \<Rightarrow> (db \<times> hub \<Rightarrow> db \<times> hub) \<Rightarrow> uuid \<Rightarrow> uuid \<Rightarrow> string \<Rightarrow> json \<Rightarrow> db \<times> hub \<Rightarrow> response \<times> db \<times> hub" where
  "dispatchInstall pgx hubSet meanwhile dev app hid payload s =
     (case (if \<not> hubSet then (Inl (Err ''c2 hub not configured''), s) else DispatchJSONByHumanID hid payload s) of
        (Inl e, d, h) \<Rightarrow>
          (RespJson 200 (JObj [(''status'', JStr ''queued''), (''dispatch_error'', JStr (errorText pgx e)), (''dispatch_succeeded'', JBool False)]),
           snd (setDeviceApp dev app (\<lambda>x. x\<lparr>da_status := ''failed'', da_error_message := Some (errorText pgx e)\<rparr>) d), h)
      | (Inr _, s) \<Rightarrow>
          (case meanwhile s of (d, h) \<Rightarrow>
             (RespJson 201 (JObj [(''status'', JStr ''dispatched''), (''dispatch_succeeded'', JBool True), (''dispatch_error'', JNull)]),
              snd (setDeviceApp dev app (\<lambda>x. x\<lparr>da_status := ''installing''\<rparr>) d), h)))"

definition handleAssignApp ::
  "lib \<Rightarrow> DashboardAuth \<Rightarrow> (sql_error \<Rightarrow> string) \<Rightarrow> bool \<Rightarrow> (db \<times> hub \<Rightarrow> db \<times> hub) \<Rightarrow> request \<Rightarrow> db \<times> hub \<Rightarrow> response \<times> db \<times> hub" where
  "handleAssignApp L A pgx hubSet meanwhile r = answer
     (abind (ifMethod r ''POST'') (\<lambda>_.
      abind (onDb (authorize L A r ''operator'')) (\<lambda>_.
      abind (given (u_parse L (TrimSpace (rq_PathID r))) 400 ''invalid device id'') (\<lambda>dev.
      abind (given (decodeBody r (get_string ''app_id'')) 400 ''invalid JSON body'') (\<lambda>ref.
      abind (given (u_parse L (TrimSpace ref)) 400 ''invalid app_id'') (\<lambda>appID.
      abind (onDb (statement (query_row (\<lambda>d. find (\<lambda>a. a_id a = dev) (assets d))) (noRows 404 ''device not found'' 500 ''lookup failed''))) (\<lambda>asset.
      abind (require (TrimSpace (a_human_id asset) \<noteq> '''') 400 ''device has no human_id'') (\<lambda>_.
      abind (require (case a_cert_serial asset of None \<Rightarrow> False | Some c \<Rightarrow> TrimSpace c \<noteq> '''') 400 ''device is not enrolled with a certificate serial'') (\<lambda>_.
      abind (onDb (statement (findCatalog appID) (noRows 404 ''catalog entry not found'' 500 ''lookup failed''))) (\<lambda>app.
      abind (require (assetOsMatchesTarget (a_os_type asset) (ca_target_os app)) 400 ''device os_type does not match catalog target_os'') (\<lambda>_.
      abind (onDb (statement (sql (upsertDeviceApp dev appID)) (failWith 500 ''failed to schedule deployment''))) (\<lambda>_.
      abind (given (artifactPath L app) 400 ''catalog entry missing staged blob or HTTPS URL'') (\<lambda>artifact s.
      (case dispatchInstall pgx hubSet meanwhile dev appID (a_human_id asset) (installPayload L app artifact) s of (resp, s) \<Rightarrow> (Inr resp, s)))))))))))))))"

section \<open>Download by an agent (agent_app_download.go)\<close>

text \<open>The agent is identified by the serial of its verified client certificate, \<open>None\<close> without one; \<open>Inr\<close> is the
  content sent.\<close>

definition authorizedArtifact :: "uuid \<Rightarrow> string \<Rightarrow> db \<Rightarrow> catalog_app option" where
  "authorizedArtifact app serial d =
     (if list_ex (\<lambda>x. da_app_id x = app \<and> da_status x \<in> {''pending'', ''installing''} \<and> assetHasSerial d (da_device_id x) serial) (device_apps d)
      then find (\<lambda>a. ca_id a = app) (app_catalog d) else None)"

definition isDirectory :: "store \<Rightarrow> string \<Rightarrow> bool" where
  "isDirectory fs p = list_ex (\<lambda>q. prefix (p @ ''/'') (fst q)) fs"

definition handleDownload ::
  "lib \<Rightarrow> bool \<Rightarrow> string option \<Rightarrow> string \<Rightarrow> string \<Rightarrow> request \<Rightarrow> db \<times> store \<Rightarrow> (response + string) \<times> db \<times> store" where
  "handleDownload L mtlsRequired peer cwd rootDir r =
     abind (ifMethod r ''GET'') (\<lambda>_.
     abind (given (if mtlsRequired then peer else None) 403 ''mutual tls is required'') (\<lambda>serial.
     abind (given (u_parse L (TrimSpace (rq_PathID r))) 400 ''invalid app id'') (\<lambda>app.
     abind (require (serial \<noteq> '''') 400 ''client certificate serial invalid'') (\<lambda>_.
     abind (onDb (statement (query_row (authorizedArtifact app serial)) (failWith 404 ''artifact not authorized or unavailable''))) (\<lambda>a.
     abind (require (\<not> looksLikeHTTPSURL (ca_file_path_or_url a)) 404
              ''this catalog entry references an external url; configure direct download metadata on the endpoint'') (\<lambda>_.
     abind (given (safeAppsPath cwd rootDir (ca_file_path_or_url a)) 500 ''storage path rejected'') (\<lambda>p.
     abind (onWorld (\<lambda>fs. ((go_get fs p, isDirectory fs p), fs))) (\<lambda>(content, dir).
     abind (require (\<not> (content = None \<and> dir)) 404 ''artifact missing'') (\<lambda>_.
     given content 404 ''file not found'')))))))))"

section \<open>Managed configurations (app_managed_config.go)\<close>

definition catalogParam :: "lib \<Rightarrow> request \<Rightarrow> ('s, uuid) act" where
  "catalogParam L r =
     (let raw = TrimSpace (rq_PathID r)
      in if raw = '''' then fail 400 ''missing catalogId''
         else (case u_parse L raw of None \<Rightarrow> fail 400 (u_parse_err L raw) | Some i \<Rightarrow> areturn i))"

definition configParam :: "lib \<Rightarrow> request \<Rightarrow> ('s, uuid) act" where
  "configParam L r =
     given (case u_parse L (TrimSpace (rq_PathDevice r)) of None \<Rightarrow> None | Some i \<Rightarrow> if i = uuid_Nil then None else Some i) 400 ''missing configuration id''"

definition managedConfigJson :: "lib \<Rightarrow> app_configuration \<Rightarrow> json" where
  "managedConfigJson L c =
     JObj [(''id'', JStr (u_str L (ac_id c))), (''catalog_app_id'', JStr (u_str L (ac_catalog_app_id c))), (''managed_package_name'', JStr (ac_managed_package_name c)),
           (''managed_app_label'', JStr (ac_managed_app_label c)), (''config_kv'', (case ac_config_kv c of RawDoc v \<Rightarrow> v | _ \<Rightarrow> JNull)),
           (''created_at'', JStr (t_json L (ac_created_at c)))]"

definition managed_handleList :: "lib \<Rightarrow> DashboardAuth \<Rightarrow> request \<Rightarrow> db \<Rightarrow> response \<times> db" where
  "managed_handleList L A r = answer
     (abind (ifMethod r ''GET'') (\<lambda>_.
      abind (authorize L A r ''viewer'') (\<lambda>_.
      abind (catalogParam L r) (\<lambda>cat.
      abind (statement (query (\<lambda>d. take 250 (sort_key (\<lambda>c. ToLower (ac_managed_package_name c)) (filter (\<lambda>c. ac_catalog_app_id c = cat) (app_configurations d)))))
               (failWith 500 ''failed to list configs'')) (\<lambda>rows.
      areturn (RespJson 200 (JArr (map (managedConfigJson L) rows))))))))"

definition insertConfigRow :: "uuid \<Rightarrow> string \<Rightarrow> string \<Rightarrow> raw_json \<Rightarrow> db \<Rightarrow> uuid sql_result" where
  "insertConfigRow cat pkg label kv d =
     (let i = random_uuid d
      in if pg_trim pkg = '''' then (Inl ErrCheck, uuid_used d)
         else if list_ex (\<lambda>c. ac_id c = i \<or> ac_catalog_app_id c = cat \<and> ac_managed_package_name c = pkg) (app_configurations d) then (Inl ErrUnique, uuid_used d)
         else if cat \<notin> ca_id ` set (app_catalog d) then (Inl ErrForeignKey, uuid_used d)
         else (Inr i, (uuid_used d)\<lparr>app_configurations := app_configurations d @ [\<lparr>ac_id = i, ac_catalog_app_id = cat, ac_managed_package_name = pkg,
                 ac_managed_app_label = label, ac_config_kv = kv, ac_created_at = now d\<rparr>]\<rparr>))"

definition decodeCreateConfig :: "json_object \<Rightarrow> (string \<times> string \<times> raw_json) option" where
  "decodeCreateConfig m =
     (case (get_string ''managed_package_name'' m, get_string ''managed_app_label'' m) of
        (Some p, Some l) \<Rightarrow> Some (p, l, get_raw ''config_kv'' m)
      | _ \<Rightarrow> None)"

definition managed_handleCreate :: "lib \<Rightarrow> DashboardAuth \<Rightarrow> request \<Rightarrow> db \<Rightarrow> response \<times> db" where
  "managed_handleCreate L A r = answer
     (abind (ifMethod r ''POST'') (\<lambda>_.
      abind (authorize L A r ''operator'') (\<lambda>_.
      abind (catalogParam L r) (\<lambda>cat.
      abind (given (decodeBody r decodeCreateConfig) 400 ''invalid JSON body'') (\<lambda>(p, l, kv).
      abind (require (\<not> (TrimSpace p = '''' \<or> RuneCount (TrimSpace p) > 512)) 400 ''managed_package_name is required'') (\<lambda>_.
      abind (statement (findCatalog cat) (failWith 404 ''catalog entry missing'')) (\<lambda>_.
      abind (statement (sql (insertConfigRow cat (TrimSpace p) (TrimSpace l) (if kv = RawEmpty then RawDoc (JObj []) else kv)))
               (failWith 409 ''package mapping already registered for this catalog app'')) (\<lambda>i.
      areturn (RespJson 201 (JObj [(''id'', JStr (u_str L i))]))))))))))"

definition updateConfigRow :: "uuid \<Rightarrow> uuid \<Rightarrow> (app_configuration \<Rightarrow> app_configuration) \<Rightarrow> db \<Rightarrow> nat sql_result" where
  "updateConfigRow cat cfg f d =
     (let P = (\<lambda>c. ac_id c = cfg \<and> ac_catalog_app_id c = cat); rows = update_where P f (app_configurations d)
      in if list_ex (\<lambda>c. P c \<and> pg_trim (ac_managed_package_name c) = '''') rows then (Inl ErrCheck, d)
         else if \<not> distinct (map (\<lambda>c. (ac_catalog_app_id c, ac_managed_package_name c)) rows) then (Inl ErrUnique, d)
         else (Inr (affected P (app_configurations d)), d\<lparr>app_configurations := rows\<rparr>))"

definition configSet :: "uuid \<Rightarrow> uuid \<Rightarrow> (app_configuration \<Rightarrow> app_configuration) \<Rightarrow> nat \<Rightarrow> string \<Rightarrow> (db, unit) act" where
  "configSet cat cfg f code msg =
     abind (statement (sql (updateConfigRow cat cfg f)) (failWith code msg)) (\<lambda>n. require (n \<noteq> 0) 404 ''configuration missing'')"

definition decodePatchConfig :: "json_object \<Rightarrow> (string option \<times> string option \<times> raw_json) option" where
  "decodePatchConfig m =
     (case (get_string_ptr ''managed_package_name'' m, get_string_ptr ''managed_app_label'' m) of
        (Some p, Some l) \<Rightarrow> Some (p, l, get_raw ''config_kv'' m)
      | _ \<Rightarrow> None)"

definition managed_handlePatch :: "lib \<Rightarrow> DashboardAuth \<Rightarrow> request \<Rightarrow> db \<Rightarrow> response \<times> db" where
  "managed_handlePatch L A r = answer
     (abind (ifMethod r ''PATCH'') (\<lambda>_.
      abind (authorize L A r ''operator'') (\<lambda>_.
      abind (catalogParam L r) (\<lambda>cat.
      abind (configParam L r) (\<lambda>cfg.
      abind (given (decodeBody r decodePatchConfig) 400 ''invalid JSON body'') (\<lambda>(p, l, kv).
      abind (case p of
               None \<Rightarrow> areturn ()
             | Some s \<Rightarrow> abind (require (TrimSpace s \<noteq> '''') 400 ''managed_package_name invalid'') (\<lambda>_.
                         configSet cat cfg (ac_managed_package_name_update (\<lambda>_. TrimSpace s)) 500 ''failed to rename configuration'')) (\<lambda>_.
      abind (case l of None \<Rightarrow> areturn () | Some s \<Rightarrow> configSet cat cfg (ac_managed_app_label_update (\<lambda>_. TrimSpace s)) 404 ''configuration missing'') (\<lambda>_.
      abind (case kv of RawDoc v \<Rightarrow> configSet cat cfg (ac_config_kv_update (\<lambda>_. RawDoc v)) 404 ''configuration missing'' | _ \<Rightarrow> areturn ()) (\<lambda>_.
      areturn (RespJson 200 (statusJson ''ok'')))))))))))"

definition deleteConfigRow :: "uuid \<Rightarrow> uuid \<Rightarrow> db \<Rightarrow> nat sql_result" where
  "deleteConfigRow cat cfg d =
     (let P = (\<lambda>c. ac_id c = cfg \<and> ac_catalog_app_id c = cat)
      in (Inr (affected P (app_configurations d)), d\<lparr>app_configurations := filter (\<lambda>c. \<not> P c) (app_configurations d)\<rparr>))"

definition managed_handleDelete :: "lib \<Rightarrow> DashboardAuth \<Rightarrow> request \<Rightarrow> db \<Rightarrow> response \<times> db" where
  "managed_handleDelete L A r = answer
     (abind (ifMethod r ''DELETE'') (\<lambda>_.
      abind (authorize L A r ''operator'') (\<lambda>_.
      abind (catalogParam L r) (\<lambda>cat.
      abind (configParam L r) (\<lambda>cfg.
      abind (statement (sql (deleteConfigRow cat cfg)) (failWith 500 ''failed to delete configuration'')) (\<lambda>n.
      abind (require (n \<noteq> 0) 404 ''configuration missing'') (\<lambda>_.
      areturn (RespJson 200 (statusJson ''ok'')))))))))"

end
