(* ===== verification/Apps_Facts.thy ===== *)
theory Apps_Facts
  imports Apps Scheduler_Facts
begin

text \<open>
  The app catalogue: installers are stored and served inside the storage directory only, agents can fetch only what is
  being installed on them, the tables stay consistent under the routes and the agents' reports, and entries
  that share an installer break each other when one is deleted.
\<close>

section \<open>Paths\<close>

definition plainComp :: "string \<Rightarrow> bool" where
  "plainComp c \<longleftrightarrow> c \<noteq> '''' \<and> CHR ''/'' \<notin> set c \<and> c \<noteq> ''.'' \<and> c \<noteq> ''..''"

lemma pathComponents_append: "pathComponents (a @ CHR ''/'' # b) = pathComponents a @ pathComponents b"
  by (simp add: pathComponents_def Split_append)

lemma pathComponents_slash [simp]: "pathComponents (CHR ''/'' # s) = pathComponents s"
  using pathComponents_append [of "[]" s] by (simp add: pathComponents_def)

lemma pathComponents_Join: "\<forall>c \<in> set cs. c \<noteq> '''' \<and> CHR ''/'' \<notin> set c \<Longrightarrow> pathComponents (Join cs ''/'') = cs"
proof (induction cs "''/''" rule: Join.induct)
  case (2 s)
  then show ?case by (simp add: pathComponents_def Split_no_sep)
next
  case (3 s t ss)
  then show ?case by (simp add: pathComponents_append) (simp add: pathComponents_def Split_no_sep)
qed (simp add: pathComponents_def)

lemma cleanComps_rooted:
  assumes "\<forall>c \<in> set acc. plainComp c" and "\<forall>c \<in> set cs. c \<noteq> '''' \<and> CHR ''/'' \<notin> set c"
  shows "\<forall>c \<in> set (cleanComps True cs acc). plainComp c"
  using assms
proof (induction cs arbitrary: acc)
  case (Cons c cs)
  show ?case
  proof (cases "c = ''..''")
    case True
    show ?thesis
    proof (cases acc)
      case Nil
      with True Cons.IH [of "[]"] Cons.prems show ?thesis by simp
    next
      case (Cons x xs)
      with Cons.prems have "x \<noteq> ''..''" by (simp add: plainComp_def)
      with True Cons Cons.IH [of xs] Cons.prems show ?thesis by simp
    qed
  next
    case False
    then have "c = ''.'' \<or> plainComp c" using Cons.prems by (auto simp: plainComp_def)
    then show ?thesis
    proof
      assume "c = ''.''"
      with Cons.IH [of acc] Cons.prems show ?thesis by simp
    next
      assume c: "plainComp c"
      then have e: "cleanComps True (c # cs) acc = cleanComps True cs (c # acc)" by (simp add: plainComp_def)
      show ?thesis unfolding e by (rule Cons.IH) (use c Cons.prems in simp_all)
    qed
  qed
qed simp

lemma cleanComps_no_up: "''..'' \<notin> set cs \<Longrightarrow> cleanComps b cs acc = rev acc @ filter (\<lambda>c. c \<noteq> ''.'') cs"
  by (induction b cs acc rule: cleanComps.induct) auto

lemma pathComponents_good: "c \<in> set (pathComponents s) \<Longrightarrow> c \<noteq> '''' \<and> CHR ''/'' \<notin> set c"
  by (auto simp: pathComponents_def dest: Split_no_sep_elem)

text \<open>A cleaned absolute path.\<close>

lemma Clean_rooted:
  assumes "prefix ''/'' s"
  obtains R where "path_Clean s = ''/'' @ Join R ''/''" "R = cleanComps True (pathComponents s) []" "\<forall>c \<in> set R. plainComp c"
    "pathComponents (path_Clean s) = R"
proof -
  let ?R = "cleanComps True (pathComponents s) []"
  have p: "\<forall>c \<in> set ?R. plainComp c" by (rule cleanComps_rooted) (auto dest: pathComponents_good)
  have e: "path_Clean s = ''/'' @ Join ?R ''/''" using assms by (simp add: path_Clean_def)
  have "pathComponents (path_Clean s) = ?R" unfolding e using p pathComponents_Join [of ?R] by (simp add: plainComp_def)
  with that [OF e refl p] show ?thesis by blast
qed

lemma Abs_rooted:
  assumes "prefix ''/'' cwd"
  obtains s where "path_Abs cwd p = path_Clean s" "prefix ''/'' s"
proof (cases "prefix ''/'' p")
  case True
  then show ?thesis using that [of p] by (simp add: path_Abs_def)
next
  case False
  obtain c where "cwd = CHR ''/'' # c" using assms by (auto simp: prefix_def)
  then show ?thesis
    using False that [of cwd] that [of "cwd @ ''/'' @ p"] by (cases "p = []") (auto simp: path_Abs_def path_Join_def)
qed

lemma Join_infix: "c \<in> set cs \<Longrightarrow> \<exists>a b. Join cs sep = a @ c @ b"
proof (induction cs sep rule: Join.induct)
  case (2 s sep)
  then show ?case by (intro exI [of _ "[]"]) simp
next
  case (3 s t ss sep)
  show ?case
  proof (cases "c = s")
    case True
    then have "Join (s # t # ss) sep = [] @ c @ (sep @ Join (t # ss) sep)" by simp
    then show ?thesis by blast
  next
    case False
    with 3 obtain a b where "Join (t # ss) sep = a @ c @ b" by auto
    then show ?thesis by (intro exI [of _ "s @ sep @ a"] exI [of _ b]) simp
  qed
qed simp

lemma not_Contains_component:
  assumes "\<not> Contains s p" and "c \<in> set (Split s x)"
  shows "\<not> Contains c p"
proof
  assume "Contains c p"
  then obtain a b where c: "c = a @ p @ b" by (auto simp: Contains_iff)
  from Join_infix [OF assms(2), of "[x]"] obtain u v where "s = u @ c @ v" by (auto simp: Join_Split)
  with c have "s = (u @ a) @ p @ (b @ v)" by simp
  then have "Contains s p" unfolding Contains_iff by blast
  with assms(1) show False by contradiction
qed

lemma Clean_fixed:
  assumes "\<forall>c \<in> set R. plainComp c"
  shows "path_Clean (''/'' @ Join R ''/'') = ''/'' @ Join R ''/''" "pathComponents (''/'' @ Join R ''/'') = R"
proof -
  from assms have g: "pathComponents (Join R ''/'') = R" "''..'' \<notin> set R" "filter (\<lambda>c. c \<noteq> ''.'') R = R"
    by (auto intro!: pathComponents_Join simp: plainComp_def filter_id_conv)
  then show "pathComponents (''/'' @ Join R ''/'') = R" by simp
  with g show "path_Clean (''/'' @ Join R ''/'') = ''/'' @ Join R ''/''" by (simp add: path_Clean_def cleanComps_no_up)
qed

lemma Join_below:
  assumes R: "\<forall>c \<in> set R. plainComp c" and s: "s \<noteq> ''''" "\<not> Contains s ''..''"
  obtains rest where "path_Join (''/'' @ Join R ''/'') s = ''/'' @ Join (R @ rest) ''/''" "\<forall>c \<in> set rest. plainComp c"
proof -
  let ?rest = "filter (\<lambda>c. c \<noteq> ''.'') (pathComponents s)"
  have up: "''..'' \<notin> set (pathComponents s)"
  proof
    assume "''..'' \<in> set (pathComponents s)"
    then have "''..'' \<in> set (Split s (CHR ''/''))" by (simp add: pathComponents_def)
    from not_Contains_component [OF s(2) this] have "\<not> Contains ''..'' ''..''" .
    then show False by (auto simp: Contains_iff)
  qed
  have R': "''..'' \<notin> set R" "filter (\<lambda>c. c \<noteq> ''.'') R = R" using R by (auto simp: plainComp_def filter_id_conv)
  have "pathComponents ((''/'' @ Join R ''/'') @ ''/'' @ s) = R @ pathComponents s"
    using pathComponents_append [of "''/'' @ Join R ''/''" s] Clean_fixed(2) [OF R] by simp
  then have "path_Join (''/'' @ Join R ''/'') s = ''/'' @ Join (R @ ?rest) ''/''"
    using s(1) up R' by (simp add: path_Join_def path_Clean_def cleanComps_no_up)
  moreover have "\<forall>c \<in> set ?rest. plainComp c" using up by (auto simp: plainComp_def dest: pathComponents_good)
  ultimately show ?thesis by (rule that)
qed

text \<open>Where a stored location may lead: a cleaned absolute path below the storage directory.\<close>

definition confined :: "string \<Rightarrow> string \<Rightarrow> string \<Rightarrow> bool" where
  "confined cwd rootDir p \<longleftrightarrow>
     (\<exists>rest. p = ''/'' @ Join (pathComponents (path_Abs cwd (path_Clean (TrimSpace rootDir))) @ rest) ''/'' \<and> (\<forall>c \<in> set rest. plainComp c))"

lemma safeAppsPath_confined:
  assumes "prefix ''/'' cwd" and "safeAppsPath cwd rootDir stored = Some p"
  shows "confined cwd rootDir p"
proof -
  let ?root = "path_Abs cwd (path_Clean (TrimSpace rootDir))"
  obtain s0 where s0: "?root = path_Clean s0" "prefix ''/'' s0" by (rule Abs_rooted [OF assms(1)])
  from Clean_rooted [OF s0(2)] obtain R where R: "?root = ''/'' @ Join R ''/''" "\<forall>c \<in> set R. plainComp c" "pathComponents ?root = R"
    using s0(1) by metis
  have sel: "\<not> a \<and> x = y" if "(if a then None else if b then None else Some x) = Some y" for a b and x y :: string
    using that by (auto split: if_splits)
  from sel [OF assms(2) [unfolded safeAppsPath_def Let_def]]
  obtain s where s: "s \<noteq> ''''" "\<not> Contains s ''..''" "p = path_Clean (path_Join ?root s)" by blast
  from Join_below [OF R(2) s(1,2)] obtain rest where
    r: "path_Join ?root s = ''/'' @ Join (R @ rest) ''/''" "\<forall>c \<in> set rest. plainComp c" using R(1) by metis
  have "\<forall>c \<in> set (R @ rest). plainComp c" using R(2) r(2) by auto
  from Clean_fixed(1) [OF this] r s(3) R(3) show ?thesis unfolding confined_def by auto
qed

section \<open>Storing and fetching installers\<close>

lemma keeps_given_bind: "(\<And>y. x = Some y \<Longrightarrow> keeps I (f y)) \<Longrightarrow> keeps I (abind (given x c m) f)"
  by (cases x) (simp_all add: keeps_def abind_given)

lemma keeps_world_intros:
  "keeps (\<lambda>(d, w). J w) (onDb m)" "(\<And>w. J w \<Longrightarrow> J (snd (f w))) \<Longrightarrow> keeps (\<lambda>(d, w). J w) (onWorld f)"
  by (auto simp: keeps_def onDb_def onWorld_def case_prod_unfold)

text \<open>C20: whatever a catalogue row holds, the file that the server writes, serves or deletes for it lies below the
  storage directory: the path is the cleaned storage directory followed by plain components, none of them
  empty, \<open>.\<close> or \<open>..\<close>, and every other file of the store stays as it is under an upload and a deletion.\<close>

theorem stored_files_confined:
  assumes cwd: "prefix ''/'' cwd" and other: "\<not> confined cwd rootDir p"
    and plain: "\<not> (\<exists>q. p = q @ ''.partial'' \<and> confined cwd rootDir q)"
  shows "(\<forall>stored. safeAppsPath cwd rootDir stored \<noteq> Some p)
    \<and> go_get (snd (snd (handleUploadCatalog L A io cwd rootDir form r (d, fs)))) p = go_get fs p
    \<and> go_get (snd (snd (handleDeleteCatalog L A io cwd rootDir r (d, fs)))) p = go_get fs p"
proof -
  have no: "safeAppsPath cwd rootDir stored \<noteq> Some p" for stored using safeAppsPath_confined [OF cwd] other by blast
  let ?J = "\<lambda>s. go_get s p = go_get fs p"
  have store: "keeps (\<lambda>(d, s). ?J s) (storeUpload io q c)" if "safeAppsPath cwd rootDir n = Some q" for q c n
  proof -
    from safeAppsPath_confined [OF cwd that] other plain have "p \<noteq> q" "p \<noteq> q @ ''.partial''" by auto
    then show ?thesis by (auto simp: keeps_def storeUpload_def update_conv' delete_conv')
  qed
  have unlink: "?J (unlinkBlob io cwd rootDir loc s)" if "?J s" for s loc
    using that no [of loc] by (auto simp: unlinkBlob_def delete_conv' split: option.split)
  have "(\<lambda>(d, s). ?J s) (snd (handleUploadCatalog L A io cwd rootDir form r (d, fs)))"
    unfolding handleUploadCatalog_def
    by (rule answer_keeps) (intro keeps_let keeps_given_bind keeps_case_prod keeps_world_intros keeps_intros store, assumption, simp)
  moreover have "(\<lambda>(d, s). ?J s) (snd (handleDeleteCatalog L A io cwd rootDir r (d, fs)))"
    unfolding handleDeleteCatalog_def
    by (rule answer_keeps) (intro keeps_let keeps_given_bind keeps_case_prod keeps_world_intros keeps_intros, simp_all add: unlink)
  ultimately show ?thesis using no by (simp add: case_prod_unfold)
qed

lemma handleDownload_Inr:
  assumes "handleDownload L mtls peer cwd rootDir r (d, fs) = (Inr content, d', fs')"
  obtains serial i a p where "mtls" "peer = Some serial" "u_parse L (TrimSpace (rq_PathID r)) = Some i"
    "authorizedArtifact i serial (d\<lparr>stmt_no := Suc (stmt_no d)\<rparr>) = Some a" "\<not> looksLikeHTTPSURL (ca_file_path_or_url a)"
    "safeAppsPath cwd rootDir (ca_file_path_or_url a) = Some p" "go_get fs p = Some content" "d' = d\<lparr>stmt_no := Suc (stmt_no d)\<rparr>" "fs' = fs"
  using assms unfolding handleDownload_def
  apply (elim abind_Inr_cases)
  apply (simp only: act_Inr split_paired_all prod.case)
  apply (elim abind_Inr_cases)
  apply (clarsimp simp: act_Inr onWorld_def split: if_splits)
  done

lemma authorizedArtifact_Some:
  assumes "authorizedArtifact i serial d = Some a"
  shows "a \<in> set (app_catalog d) \<and> ca_id a = i \<and> find (\<lambda>a. ca_id a = i) (app_catalog d) = Some a
    \<and> (\<exists>x \<in> set (device_apps d). da_app_id x = i \<and> da_status x \<in> {''pending'', ''installing''} \<and> assetHasSerial d (da_device_id x) serial)"
proof -
  have e: "list_ex (\<lambda>x. da_app_id x = i \<and> da_status x \<in> {''pending'', ''installing''} \<and> assetHasSerial d (da_device_id x) serial) (device_apps d)"
    and f: "find (\<lambda>a. ca_id a = i) (app_catalog d) = Some a"
    using assms unfolding authorizedArtifact_def by (simp_all split: if_split_asm)
  from f have "a \<in> set (app_catalog d) \<and> ca_id a = i" by (auto simp: find_Some_iff)
  with e f show ?thesis by (simp add: list_ex_iff)
qed

text \<open>C21: an installer reaches an agent only over mutual TLS, only when the device that the certificate's serial
  belongs to has that app pending or installing, and only from a file below the storage directory named by
  the catalogue entry; the download changes neither the tables nor the store.\<close>

theorem download_authorised:
  assumes run: "handleDownload L mtls peer cwd rootDir r (d, fs) = (Inr content, d', fs')" and cwd: "prefix ''/'' cwd"
  shows "\<exists>serial x a p. mtls \<and> peer = Some serial \<and> u_parse L (TrimSpace (rq_PathID r)) = Some (da_app_id x)
    \<and> x \<in> set (device_apps d) \<and> da_status x \<in> {''pending'', ''installing''} \<and> assetHasSerial d (da_device_id x) serial
    \<and> a \<in> set (app_catalog d) \<and> ca_id a = da_app_id x \<and> \<not> looksLikeHTTPSURL (ca_file_path_or_url a)
    \<and> safeAppsPath cwd rootDir (ca_file_path_or_url a) = Some p \<and> confined cwd rootDir p \<and> go_get fs p = Some content
    \<and> same_tables d d' \<and> fs' = fs"
proof -
  let ?d = "d\<lparr>stmt_no := Suc (stmt_no d)\<rparr>"
  from run obtain serial i a p where h: "mtls" "peer = Some serial" "u_parse L (TrimSpace (rq_PathID r)) = Some i"
    "authorizedArtifact i serial ?d = Some a" "\<not> looksLikeHTTPSURL (ca_file_path_or_url a)"
    "safeAppsPath cwd rootDir (ca_file_path_or_url a) = Some p" "go_get fs p = Some content" "d' = ?d" "fs' = fs"
    by (rule handleDownload_Inr)
  have same: "assetHasSerial ?d k t = assetHasSerial d k t" "app_catalog ?d = app_catalog d" "device_apps ?d = device_apps d" for k t
    by (simp_all add: assetHasSerial_def)
  from authorizedArtifact_Some [OF h(4), unfolded same] obtain x where "a \<in> set (app_catalog d)" "ca_id a = i" "x \<in> set (device_apps d)"
    "da_app_id x = i" "da_status x \<in> {''pending'', ''installing''}" "assetHasSerial d (da_device_id x) serial"
    by blast
  moreover have "same_tables d d'" unfolding h(8) by (rule same_tables_stmt)
  ultimately show ?thesis using h(1-3,5-7,9) safeAppsPath_confined [OF cwd h(6)] by (intro exI [of _ serial] exI [of _ x] exI [of _ a] exI [of _ p]) simp
qed

text \<open>Entries may share an installer, since a patch may point an entry at any stored \<open>blobs/\<close> path. Deleting one
  of them deletes the file, so that every later download for the others fails, whichever agent asks.\<close>

theorem shared_installer_deleted:
  assumes run: "handleDeleteCatalog L A io cwd rootDir r (d, fs) = (RespEmpty 204, d', fs')"
    and i: "pathUUID L r = Some i" "find (\<lambda>a. ca_id a = i) (app_catalog d) = Some a" "looksLikeUploadedBlobPath (ca_file_path_or_url a)"
    and p: "safeAppsPath cwd rootDir (ca_file_path_or_url a) = Some p" "\<not> io ''remove''"
    and j: "j \<noteq> i" "find (\<lambda>b. ca_id b = j) (app_catalog d) = Some b" "safeAppsPath cwd rootDir (ca_file_path_or_url b) = Some p"
  shows "find (\<lambda>b. ca_id b = j) (app_catalog d') = Some b
    \<and> (\<forall>r'. u_parse L (TrimSpace (rq_PathID r')) = Some j \<longrightarrow> (\<exists>e. fst (handleDownload L mtls peer cwd rootDir r' (d', fs')) = Inl e))"
proof -
  have del: "app_catalog d' = filter (\<lambda>a. ca_id a \<noteq> i) (app_catalog d) \<and> fs' = AList.delete p fs"
    using run i p unfolding handleDeleteCatalog_def findCatalog_def
    apply (elim answer_success [elim_format])
      apply (intro refuses_intros; simp)
     apply simp
    apply (elim abind_Inr_cases)
    apply (simp only: act_Inr split_paired_all prod.case)
    apply (clarsimp simp: areturn_def onWorld_def sql_def Let_def deleteCatalogRow_def unlinkBlob_def split: if_splits)
    done
  have keep: "find (\<lambda>b. ca_id b = j) (filter (\<lambda>a. ca_id a \<noteq> i) xs) = find (\<lambda>b. ca_id b = j) xs" for xs :: "catalog_app list"
    using j(1) by (induction xs) auto
  have found: "find (\<lambda>b. ca_id b = j) (app_catalog d') = Some b" using del keep j(2) by simp
  have "\<exists>e. fst (handleDownload L mtls peer cwd rootDir r' (d', fs')) = Inl e" if "u_parse L (TrimSpace (rq_PathID r')) = Some j" for r'
  proof (cases "fst (handleDownload L mtls peer cwd rootDir r' (d', fs'))")
    case (Inr c)
    then have "handleDownload L mtls peer cwd rootDir r' (d', fs') = (Inr c, fst (snd (handleDownload L mtls peer cwd rootDir r' (d', fs'))),
        snd (snd (handleDownload L mtls peer cwd rootDir r' (d', fs'))))" by (simp add: prod_eq_iff)
    then obtain serial k a' q where q: "u_parse L (TrimSpace (rq_PathID r')) = Some k"
        "authorizedArtifact k serial (d'\<lparr>stmt_no := Suc (stmt_no d')\<rparr>) = Some a'"
        "safeAppsPath cwd rootDir (ca_file_path_or_url a') = Some q" "go_get fs' q = Some c"
      by (rule handleDownload_Inr)
    from q(1) that have "k = j" by simp
    with authorizedArtifact_Some [OF q(2)] found have "a' = b" by simp
    with q(3) j(3) have "q = p" by simp
    with q(4) del have False by (simp add: delete_conv')
    then show ?thesis ..
  qed simp
  with found show ?thesis by simp
qed

section \<open>Installable entries\<close>

text \<open>The entry can be handed to an agent: its system is known and its location is a link or a staged file.\<close>

definition installable :: "catalog_app \<Rightarrow> bool" where
  "installable a \<longleftrightarrow> ca_target_os a \<in> {''windows'', ''linux'', ''android''}
     \<and> (looksLikeHTTPSURL (ca_file_path_or_url a) \<or> looksLikeUploadedBlobPath (ca_file_path_or_url a))"

definition wf_catalog :: "db \<Rightarrow> bool" where
  "wf_catalog d \<longleftrightarrow> distinct (map ca_id (app_catalog d)) \<and> (\<forall>a \<in> set (app_catalog d). installable a)
     \<and> distinct (map (\<lambda>x. (da_device_id x, da_app_id x)) (device_apps d))
     \<and> (\<forall>x \<in> set (device_apps d). da_device_id x \<in> a_id ` set (assets d) \<and> da_app_id x \<in> ca_id ` set (app_catalog d))
     \<and> (\<forall>c \<in> set (app_configurations d). ac_catalog_app_id c \<in> ca_id ` set (app_catalog d) \<and> pg_trim (ac_managed_package_name c) \<noteq> '''')
     \<and> distinct (map (\<lambda>c. (ac_catalog_app_id c, ac_managed_package_name c)) (app_configurations d))"

lemma table_inv_catalog [keeps_intros]: "table_inv wf_catalog"
  unfolding table_inv_def
proof (intro allI impI)
  fix d d' assume s: "same_tables d d'" and w: "wf_catalog d"
  have e: "d' = d\<lparr>stmt_no := stmt_no d', uuid_next := uuid_next d', incident_seq := incident_seq d'\<rparr>" using s by (simp only: same_tables_def)
  have "app_catalog d' = app_catalog d" "device_apps d' = device_apps d" "app_configurations d' = app_configurations d" "assets d' = assets d"
    by (subst e, simp)+
  with w show "wf_catalog d'" by (simp add: wf_catalog_def)
qed

lemma keeps_catalog_insert:
  "looksLikeHTTPSURL loc \<or> looksLikeUploadedBlobPath loc \<Longrightarrow> keeps wf_catalog (insertCatalogRow n v tos loc args)"
  by (auto simp: keeps_def insertCatalogRow_def Let_def uuid_used_def wf_catalog_def installable_def)

lemma keeps_catalog_update:
  assumes "looksLikeHTTPSURL loc \<or> looksLikeUploadedBlobPath loc"
  shows "keeps wf_catalog (updateCatalogRow i n v tos loc args)"
proof -
  have "wf_catalog (snd (updateCatalogRow i n v tos loc args d))" if w: "wf_catalog d" for d
  proof (cases "tos \<notin> {''windows'', ''linux'', ''android''} \<and> i \<in> ca_id ` set (app_catalog d)")
    case False
    let ?f = "\<lambda>a :: catalog_app. a\<lparr>ca_name := n, ca_version := v, ca_target_os := tos, ca_file_path_or_url := loc, ca_install_args := args\<rparr>"
    let ?rows = "update_where (\<lambda>a. ca_id a = i) ?f (app_catalog d)"
    have m: "map ca_id ?rows = map ca_id (app_catalog d)" by (simp add: map_update_where)
    then have s: "ca_id ` set ?rows = ca_id ` set (app_catalog d)" by (metis set_map)
    have "installable a" if "a \<in> set ?rows" for a
    proof -
      from that obtain a0 where a0: "a0 \<in> set (app_catalog d)" "a = (if ca_id a0 = i then ?f a0 else a0)" by (auto simp: set_update_where)
      show ?thesis
      proof (cases "ca_id a0 = i")
        case True
        with a0 False assms show ?thesis by (auto simp: installable_def)
      next
        case False
        with a0 w show ?thesis by (simp add: wf_catalog_def)
      qed
    qed
    moreover have "updateCatalogRow i n v tos loc args d = (Inr (), d\<lparr>app_catalog := ?rows\<rparr>)"
      unfolding updateCatalogRow_def using False by (rule if_not_P)
    ultimately show ?thesis using w m s by (simp add: wf_catalog_def)
  qed (use w in \<open>simp add: updateCatalogRow_def\<close>)
  then show ?thesis by (simp add: keeps_def)
qed

lemma keeps_catalog_delete [keeps_intros]: "keeps wf_catalog (deleteCatalogRow i)"
  by (auto simp: keeps_def deleteCatalogRow_def Let_def wf_catalog_def distinct_map inj_on_def)

lemma keeps_device_app_update:
  assumes "\<And>x. da_device_id (f x) = da_device_id x \<and> da_app_id (f x) = da_app_id x" and w: "wf_catalog d"
  shows "wf_catalog (d\<lparr>device_apps := update_where P f (device_apps d)\<rparr>)"
proof -
  have "map (\<lambda>x. (da_device_id x, da_app_id x)) (update_where P f (device_apps d)) = map (\<lambda>x. (da_device_id x, da_app_id x)) (device_apps d)"
    using assms(1) by (simp add: map_update_where)
  with assms show ?thesis by (auto simp: wf_catalog_def set_update_where)
qed

lemma keeps_device_app_upsert [keeps_intros]: "keeps wf_catalog (upsertDeviceApp dev app)"
proof -
  have "wf_catalog (snd (upsertDeviceApp dev app d))" if w: "wf_catalog d" for d
  proof (cases "list_ex (\<lambda>x. da_device_id x = dev \<and> da_app_id x = app) (device_apps d)")
    case True
    with w show ?thesis by (simp add: upsertDeviceApp_def keeps_device_app_update)
  next
    case False
    with w show ?thesis by (auto simp: upsertDeviceApp_def wf_catalog_def list_ex_iff)
  qed
  then show ?thesis by (simp add: keeps_def)
qed

lemma keeps_device_app_set [keeps_intros]:
  "keeps wf_catalog (setDeviceApp dev app (\<lambda>x. x\<lparr>da_status := st, da_error_message := e\<rparr>))"
  "keeps wf_catalog (setDeviceApp dev app (\<lambda>x. x\<lparr>da_status := st\<rparr>))"
  unfolding setDeviceApp_def by (intro keeps_intros, simp add: keeps_def keeps_device_app_update)+

lemma keeps_config_insert [keeps_intros]: "keeps wf_catalog (insertConfigRow cat pkg l kv)"
  by (auto simp: keeps_def insertConfigRow_def Let_def uuid_used_def wf_catalog_def list_ex_iff)

lemma keeps_config_update:
  assumes "\<And>c. ac_catalog_app_id (f c) = ac_catalog_app_id c \<and> ac_id (f c) = ac_id c"
  shows "keeps wf_catalog (updateConfigRow cat cfg f)"
proof -
  have "wf_catalog (snd (updateConfigRow cat cfg f d))" if w: "wf_catalog d" for d
  proof -
    let ?P = "\<lambda>c. ac_id c = cfg \<and> ac_catalog_app_id c = cat"
    let ?rows = "update_where ?P f (app_configurations d)"
    have "pg_trim (ac_managed_package_name c) \<noteq> '''' \<and> ac_catalog_app_id c \<in> ca_id ` set (app_catalog d)"
      if "\<not> list_ex (\<lambda>c. ?P c \<and> pg_trim (ac_managed_package_name c) = '''') ?rows" "c \<in> set ?rows" for c
    proof -
      from that(2) obtain c0 where c0: "c0 \<in> set (app_configurations d)" "c = (if ?P c0 then f c0 else c0)" by (auto simp: set_update_where)
      with w assms have "ac_catalog_app_id c \<in> ca_id ` set (app_catalog d)" by (auto simp: wf_catalog_def)
      moreover have "pg_trim (ac_managed_package_name c) \<noteq> ''''"
        using that c0 w assms by (cases "?P c0") (auto simp: list_ex_iff wf_catalog_def)
      ultimately show ?thesis by blast
    qed
    then show ?thesis using w by (simp add: updateConfigRow_def Let_def wf_catalog_def)
  qed
  then show ?thesis by (simp add: keeps_def)
qed

lemma keeps_config_delete [keeps_intros]: "keeps wf_catalog (deleteConfigRow cat cfg)"
  by (auto simp: keeps_def deleteConfigRow_def Let_def wf_catalog_def distinct_map inj_on_def)

lemma is_space_toSlash: "is_space (if c = CHR 0x5C then CHR ''/'' else c) = is_space c"
  by (simp add: is_space_def)

lemma TrimSpace_toSlash: "TrimSpace (toSlash s) = toSlash (TrimSpace s)"
proof -
  have "dropWhile is_space (map (\<lambda>c. if c = CHR 0x5C then CHR ''/'' else c) xs) = map (\<lambda>c. if c = CHR 0x5C then CHR ''/'' else c) (dropWhile is_space xs)" for xs
    by (induction xs) (auto simp: is_space_def)
  then show ?thesis by (simp add: TrimSpace_def toSlash_def rev_map)
qed

lemma locator_trim:
  "looksLikeHTTPSURL (TrimSpace s) = looksLikeHTTPSURL s" "looksLikeUploadedBlobPath (TrimSpace s) = looksLikeUploadedBlobPath s"
  by (simp_all add: looksLikeHTTPSURL_def looksLikeUploadedBlobPath_def TrimSpace_toSlash)

lemma uploaded_blob: "looksLikeUploadedBlobPath (''blobs/'' @ x)"
proof -
  have "TrimSpace (toSlash (''blobs/'' @ x)) = ''blobs/'' @ rev (dropWhile is_space (rev (toSlash x)))"
    by (auto simp: TrimSpace_def toSlash_def is_space_def dropWhile_append)
  then show ?thesis by (simp add: looksLikeUploadedBlobPath_def)
qed

lemma keeps_require_bind: "(b \<Longrightarrow> keeps I (f ())) \<Longrightarrow> keeps I (abind (require b c m) f)"
  by (cases b) (simp_all add: keeps_def abind_require)

lemma keeps_found_bind:
  assumes "keeps I m" and "\<And>s x s'. I s \<Longrightarrow> m s = (Inr x, s') \<Longrightarrow> Q x" and "\<And>x. Q x \<Longrightarrow> keeps I (f x)"
  shows "keeps I (abind m f)"
proof -
  have "I (snd (abind m f s))" if i: "I s" for s
  proof (cases "abind m f s")
    case (Pair y t)
    obtain x s1 where m: "m s = (x, s1)" by (cases "m s")
    with keepsD [OF assms(1) i] have "I s1" by simp
    with m assms(2) [OF i] keepsD [OF assms(3)] show ?thesis by (cases x) (auto simp: abind_def)
  qed
  then show ?thesis by (simp add: keeps_def)
qed

lemma findCatalog_installable:
  assumes "wf_catalog d" and "statement (findCatalog i) onErr d = (Inr a, d')"
  shows "installable a"
  using assms by (auto simp: statement_Inr findCatalog_def query_row_Inr wf_catalog_def find_Some_iff)

lemma keeps_findCatalog [keeps_intros]: "keeps wf_catalog (findCatalog i)"
  unfolding findCatalog_def by (intro keeps_intros)

lemma keeps_create_catalog: "wf_catalog d \<Longrightarrow> wf_catalog (snd (handleCreateCatalogJSON L A r d))"
  unfolding handleCreateCatalogJSON_def
  by (rule answer_keeps) (intro keeps_let keeps_require_bind keeps_intros keeps_catalog_insert, simp)

lemma keeps_patch_catalog: "wf_catalog d \<Longrightarrow> wf_catalog (snd (handlePatchCatalog L A r d))"
  unfolding handlePatchCatalog_def Let_def
proof (rule answer_keeps, goal_cases)
  case 1
  have good: "looksLikeHTTPSURL (patchedText l (ca_file_path_or_url a)) \<or> looksLikeUploadedBlobPath (patchedText l (ca_file_path_or_url a))"
    if "installable a" "l = None \<or> patchedText l (ca_file_path_or_url a) = '''' \<or> looksLikeHTTPSURL (patchedText l (ca_file_path_or_url a))
       \<or> looksLikeUploadedBlobPath (patchedText l (ca_file_path_or_url a))" "patchedText l (ca_file_path_or_url a) \<noteq> ''''" for a l
    using that by (auto simp: patchedText_def installable_def)
  note find = keeps_found_bind [where Q = installable and m = "statement (findCatalog i) e" for i e, OF _ findCatalog_installable]
  show ?case
    by (intro keeps_require_bind find keeps_intros keeps_catalog_update good; assumption?)
qed

definition catalog_inv :: "db \<times> 'w \<Rightarrow> bool" where
  "catalog_inv = (\<lambda>(d, w). wf_catalog d)"

lemma keeps_catalog_inv:
  "keeps wf_catalog m \<Longrightarrow> keeps catalog_inv (onDb m)" "keeps catalog_inv (onWorld f)"
  unfolding catalog_inv_def by (intro keeps_intros; assumption)+

lemma keeps_upload_catalog: "catalog_inv s \<Longrightarrow> catalog_inv (snd (handleUploadCatalog L A io cwd rootDir form r s))"
  unfolding handleUploadCatalog_def
proof (rule answer_keeps, goal_cases)
  case 1
  let ?name = "\<lambda>fname. onDb (\<lambda>d. case newBlobName L fname d of (n, d) \<Rightarrow> (Inr n, d)) :: (db \<times> store, string) act"
  have k: "keeps catalog_inv (?name fname)" for fname
    using table_invD [OF table_inv_catalog, of _ "uuid_used _"]
    by (intro keeps_catalog_inv) (auto simp: keeps_def newBlobName_def wf_catalog_def uuid_used_def)
  have q: "looksLikeUploadedBlobPath x" if "?name fname t = (Inr x, t')" for fname t x t'
    using that uploaded_blob by (cases t) (auto simp: onDb_def newBlobName_def)
  have st: "keeps catalog_inv (storeUpload io p c)" for p c
    by (auto simp: keeps_def storeUpload_def catalog_inv_def)
  note name = keeps_found_bind [where Q = looksLikeUploadedBlobPath and m = "?name fname" for fname, OF k q]
  show ?case
    by (intro keeps_let name keeps_intros keeps_catalog_inv st keeps_catalog_insert; simp)
qed

lemma keeps_delete_catalog: "catalog_inv s \<Longrightarrow> catalog_inv (snd (handleDeleteCatalog L A io cwd rootDir r s))"
  unfolding handleDeleteCatalog_def
  by (rule answer_keeps) (intro keeps_intros keeps_catalog_inv)

lemma keeps_install_result: "keeps wf_catalog (ApplyInstallAppOutcome L c raw)"
proof -
  have "wf_catalog (snd (sql (\<lambda>d. (Inr (), d\<lparr>device_apps := update_where (P d) (\<lambda>x. x\<lparr>da_status := st,
      da_error_message := e, da_last_updated := now d\<rparr>) (device_apps d)\<rparr>)) d))" if "wf_catalog d" for P st e d
    using that by (intro keepsD [OF keeps_sql [OF table_inv_catalog]]) (auto simp: keeps_def keeps_device_app_update)
  then show ?thesis
    unfolding ApplyInstallAppOutcome_def keeps_def Let_def
    by (auto split: option.split)
qed

text \<open>Dispatch to a device, with whatever other goroutines do in between.\<close>

lemma keeps_dispatchInstall:
  assumes M: "\<forall>s. catalog_inv s \<longrightarrow> catalog_inv (M s)"
  shows "catalog_inv s \<Longrightarrow> catalog_inv (snd (dispatchInstall pgx b M dev app hid p s))"
proof (cases s)
  case (Pair d h)
  assume w: "catalog_inv s"
  obtain x d1 h1 where x: "(if \<not> b then (Inl (Err ''c2 hub not configured''), d, h) else DispatchJSONByHumanID hid p (d, h)) = (x, d1, h1)"
    by (metis prod.exhaust)
  have "same_tables d d1"
    using x DispatchJSONByHumanID_state [of hid p d h] same_tables_stmt by (auto split: if_splits)
  with w Pair table_invD [OF table_inv_catalog] have d1: "catalog_inv (d1, h1)" by (simp add: catalog_inv_def)
  then have m: "catalog_inv (M (d1, h1))" using M by blast
  show ?thesis
    using d1 m keepsD [OF keeps_device_app_set(1)] keepsD [OF keeps_device_app_set(2)]
    by (simp add: dispatchInstall_def Pair x catalog_inv_def split: sum.split prod.splits)
qed

lemma keeps_assign:
  assumes M: "\<forall>s. catalog_inv s \<longrightarrow> catalog_inv (M s)"
  shows "catalog_inv s \<Longrightarrow> catalog_inv (snd (handleAssignApp L A pgx b M r s))"
  unfolding handleAssignApp_def
proof (rule answer_keeps, goal_cases)
  case 1
  have "keeps catalog_inv (dispatchInstall pgx b M dev app hid p)" for dev app hid p
    using keeps_dispatchInstall [OF M] by (simp add: keeps_def)
  then show ?case by (intro keeps_intros keeps_catalog_inv)
qed

inductive catalog_step :: "lib \<Rightarrow> DashboardAuth \<Rightarrow> (sql_error \<Rightarrow> string) \<Rightarrow> string \<Rightarrow> string \<Rightarrow> db \<times> hub \<times> store \<Rightarrow> db \<times> hub \<times> store \<Rightarrow> bool"
  for L :: lib and A :: DashboardAuth and pgx :: "sql_error \<Rightarrow> string" and cwd rootDir :: string where
  cst_list: "catalog_step L A pgx cwd rootDir (d, h, fs) (snd (handleListCatalog L A r d), h, fs)"
| cst_create: "catalog_step L A pgx cwd rootDir (d, h, fs) (snd (handleCreateCatalogJSON L A r d), h, fs)"
| cst_upload: "snd (handleUploadCatalog L A io cwd rootDir form r (d, fs)) = (d', fs') \<Longrightarrow> catalog_step L A pgx cwd rootDir (d, h, fs) (d', h, fs')"
| cst_get: "catalog_step L A pgx cwd rootDir (d, h, fs) (snd (handleGetCatalog L A r d), h, fs)"
| cst_patch: "catalog_step L A pgx cwd rootDir (d, h, fs) (snd (handlePatchCatalog L A r d), h, fs)"
| cst_delete: "snd (handleDeleteCatalog L A io cwd rootDir r (d, fs)) = (d', fs') \<Longrightarrow> catalog_step L A pgx cwd rootDir (d, h, fs) (d', h, fs')"
| cst_device: "catalog_step L A pgx cwd rootDir (d, h, fs) (snd (handleListDeviceApps L A r d), h, fs)"
| cst_assign: "(\<And>d h fs. (catalog_step L A pgx cwd rootDir)\<^sup>*\<^sup>* (d, h, fs) (fst (M (d, h)), snd (M (d, h)), fs))
    \<Longrightarrow> snd (handleAssignApp L A pgx b M r (d, h)) = (d', h') \<Longrightarrow> catalog_step L A pgx cwd rootDir (d, h, fs) (d', h', fs)"
| cst_list_configs: "catalog_step L A pgx cwd rootDir (d, h, fs) (snd (managed_handleList L A r d), h, fs)"
| cst_create_config: "catalog_step L A pgx cwd rootDir (d, h, fs) (snd (managed_handleCreate L A r d), h, fs)"
| cst_patch_config: "catalog_step L A pgx cwd rootDir (d, h, fs) (snd (managed_handlePatch L A r d), h, fs)"
| cst_delete_config: "catalog_step L A pgx cwd rootDir (d, h, fs) (snd (managed_handleDelete L A r d), h, fs)"
| cst_report: "catalog_step L A pgx cwd rootDir (d, h, fs) (snd (ApplyInstallAppOutcome L serial raw d), h, fs)"
| cst_hub: "catalog_step L A pgx cwd rootDir (d, h, fs) (d, h', fs)"
| cst_clock: "catalog_step L A pgx cwd rootDir (d, h, fs) (d\<lparr>now := t, fault_at := f\<rparr>, h, fs)"

lemmas catalog_routes = handleListCatalog_def handleGetCatalog_def handleListDeviceApps_def managed_handleList_def managed_handleCreate_def
  managed_handlePatch_def managed_handleDelete_def catalogParam_def configParam_def configSet_def Let_def

lemma keeps_raw [keeps_intros]: "(\<And>v. keeps I (f v)) \<Longrightarrow> keeps I g \<Longrightarrow> keeps I (case kv of RawDoc v \<Rightarrow> f v | _ \<Rightarrow> g)"
  by (simp split: raw_json.split)

lemma catalog_step_inv: "catalog_step L A pgx cwd rootDir s s' \<Longrightarrow> catalog_inv s \<Longrightarrow> catalog_inv s'"
proof (induction rule: catalog_step.induct)
  case (cst_create d h fs r)
  then show ?case using keeps_create_catalog by (simp add: catalog_inv_def)
next
  case (cst_patch d h fs r)
  then show ?case using keeps_patch_catalog by (simp add: catalog_inv_def)
next
  case (cst_upload io form r d fs d' fs' h)
  then show ?case using keeps_upload_catalog [of "(d, fs)" L A io cwd rootDir form r] by (simp add: catalog_inv_def)
next
  case (cst_delete io r d fs d' fs' h)
  then show ?case using keeps_delete_catalog [of "(d, fs)" L A io cwd rootDir r] by (simp add: catalog_inv_def)
next
  case (cst_assign M b r d h d' h' fs)
  have M: "catalog_inv (M (d1, h1))" if w: "catalog_inv (d1, h1)" for d1 h1
  proof -
    have "catalog_inv (fst (M (d1, h1)), snd (M (d1, h1)), fs)"
      using cst_assign.IH [of d1 h1 fs] by (induction rule: rtranclp_induct) (use w in \<open>auto simp: catalog_inv_def\<close>)
    then show ?thesis by (simp add: catalog_inv_def case_prod_unfold)
  qed
  then have "\<forall>s. catalog_inv s \<longrightarrow> catalog_inv (M s)" by auto
  from keeps_assign [OF this, of "(d, h)" L A pgx b r] cst_assign show ?case by (simp add: catalog_inv_def)
next
  case (cst_report d h fs serial raw)
  then show ?case using keepsD [OF keeps_install_result] by (simp add: catalog_inv_def)
next
  case (cst_clock d h fs t f)
  then show ?case by (simp add: catalog_inv_def wf_catalog_def)
qed (unfold catalog_routes catalog_inv_def prod.case, (rule answer_keeps, (intro keeps_intros keeps_config_update; simp), assumption)+, simp)

section \<open>An assignment is never refused for its location\<close>

definition avoids :: "response \<Rightarrow> ('s \<Rightarrow> bool) \<Rightarrow> ('s, 'a) act \<Rightarrow> bool" where
  "avoids e I m \<longleftrightarrow> (\<forall>s. I s \<longrightarrow> fst (m s) \<noteq> Inl e)"

lemma avoids_abind:
  assumes "avoids e I m" and "keeps I m" and "\<And>s x s'. I s \<Longrightarrow> m s = (Inr x, s') \<Longrightarrow> Q x" and "\<And>x. Q x \<Longrightarrow> avoids e I (f x)"
  shows "avoids e I (abind m f)"
proof -
  have "fst (abind m f s) \<noteq> Inl e" if i: "I s" for s
  proof -
    obtain x s1 where m: "m s = (x, s1)" by (cases "m s")
    with keepsD [OF assms(2) i] have "I s1" by simp
    with m assms(1,4) assms(3) [OF i] i show ?thesis by (cases x) (force simp: avoids_def abind_def)+
  qed
  then show ?thesis by (simp add: avoids_def)
qed

lemmas avoids_step = avoids_abind [where Q = "\<lambda>_. True", OF _ _ TrueI]

lemma avoids_given:
  assumes "\<And>y. x = Some y \<Longrightarrow> avoids e I (f y)" and "x = None \<Longrightarrow> e \<noteq> RespError c (Err m)"
  shows "avoids e I (abind (given x c m) f)"
  using assms by (cases x) (auto simp: avoids_def abind_given)

lemma avoids_require:
  assumes "b \<Longrightarrow> avoids e I (f ())" and "e \<noteq> RespError c (Err m)"
  shows "avoids e I (abind (require b c m) f)"
  using assms by (auto simp: avoids_def abind_require)

lemma avoids_onDb_authorize: "resp_status e \<notin> {401, 403} \<Longrightarrow> avoids e I (onDb (authorize L A r role))"
  by (auto simp: avoids_def onDb_def authorize_def dest: RequireMinRole_refused split: sum.splits prod.splits)

lemma avoids_onDb_statement: "(\<And>err. onErr err \<noteq> e) \<Longrightarrow> avoids e I (onDb (statement stmt onErr))"
  by (auto simp: avoids_def onDb_def statement_def split: sum.splits prod.splits)

lemma answer_avoids:
  assumes "avoids e I m" and "yields (\<lambda>resp. resp \<noteq> e) m" and "I s"
  shows "fst (answer m s) \<noteq> e"
  using assms by (cases "m s"; cases "fst (m s)") (auto simp: answer_def avoids_def yields_def)

lemma installable_artifact: "installable a \<Longrightarrow> artifactPath L a \<noteq> None"
  by (auto simp: installable_def artifactPath_def Let_def locator_trim)

abbreviation noLocation :: response where
  "noLocation \<equiv> RespError 400 (Err ''catalog entry missing staged blob or HTTPS URL'')"

lemma assign_has_location:
  assumes "catalog_inv s"
  shows "fst (handleAssignApp L A pgx b M r s) \<noteq> noLocation"
proof -
  have found: "installable a" if "catalog_inv s" "onDb (statement (findCatalog i) e) s = (Inr a, s')" for s i e a and s' :: "db \<times> hub"
    using that findCatalog_installable by (auto simp: catalog_inv_def onDb_Inr)
  let ?final = "\<lambda>dev app hid p s. case dispatchInstall pgx b M dev app hid p s of (resp, s) \<Rightarrow> (Inr resp, s)"
  have fin: "avoids e I (?final dev app hid p)" "yields (\<lambda>resp. resp \<noteq> noLocation) (?final dev app hid p)" for e I dev app hid p
    by (auto simp: avoids_def yields_def dispatchInstall_def split: prod.splits sum.splits)
  note app = avoids_abind [where Q = installable and m = "onDb (statement (findCatalog i) e)" for i e, OF _ _ found]
  show ?thesis unfolding handleAssignApp_def ifMethod_def
  proof (rule answer_avoids [where I = catalog_inv], goal_cases)
    case 1
    show ?case
      by (intro avoids_require avoids_given app avoids_step fin avoids_onDb_authorize avoids_onDb_statement keeps_intros keeps_catalog_inv)
        (simp_all add: failWith_def noRows_def installable_artifact)
  next
    case 2
    show ?case by (intro yields_intros fin)
  qed (rule assms)
qed

interpretation catalog: maintained "catalog_step L A pgx cwd rootDir" catalog_inv for L A pgx cwd rootDir
  by unfold_locales (rule catalog_step_inv)

text \<open>C22: whatever the interleaving of the catalogue, assignment and managed configuration routes and the agents'
  reports, also in the middle of a dispatch, and whichever statements and file operations fail, the catalogue
  stays consistent: every entry has a known system and a link or a staged file for its location, at most one
  row per device and app, no row without its device or entry, one configuration per entry and package. So an
  assignment is never refused because the entry has no location, an error branch the code has.\<close>

theorem catalog_installable:
  assumes "(catalog_step L A pgx cwd rootDir)\<^sup>*\<^sup>* (d, h, fs) (d', h', fs')" and "wf_catalog d"
  shows "wf_catalog d' \<and> fst (handleAssignApp L A pgx b M r (d', h')) \<noteq> noLocation"
proof -
  from catalog.run_keeps [OF assms(1)] assms(2) have "wf_catalog d'" by (simp add: catalog_inv_def)
  moreover from this have "catalog_inv (d', h')" by (simp add: catalog_inv_def)
  ultimately show ?thesis using assign_has_location by blast
qed

section \<open>Examples\<close>

definition exampleEntry :: "uuid \<Rightarrow> catalog_app" where
  "exampleEntry i = \<lparr>ca_id = i, ca_name = ''vim'', ca_version = ''9'', ca_target_os = ''linux'', ca_file_path_or_url = ''blobs/vim.deb'', ca_install_args = '''', ca_created_at = 0\<rparr>"

definition exampleCatalog :: db where
  "exampleCatalog = empty_db\<lparr>assets := [exampleAsset 7 ''42''], app_catalog := [exampleEntry 4, exampleEntry 5],
     device_apps := [\<lparr>da_device_id = 7, da_app_id = 5, da_status = ''pending'', da_error_message = None, da_last_updated = 0\<rparr>]\<rparr>"

definition exampleStore :: store where
  "exampleStore = [(''/srv/apps/blobs/vim.deb'', ''BIN''), (''/srv/secret'', ''KEY'')]"

definition catalogRequest :: "string \<Rightarrow> string \<Rightarrow> request" where
  "catalogRequest m i = (exampleRequest m ''/v1/apps/catalog'' [(''app_id'', JStr ''5'')])\<lparr>rq_Principal := Some exampleAdmin, rq_PathID := i\<rparr>"

theorem download_authorised_witness:
  "\<exists>p. handleDownload exampleLib True (Some ''42'') ''/srv'' ''apps'' (catalogRequest ''GET'' ''5'') (exampleCatalog, exampleStore)
      = (Inr ''BIN'', exampleCatalog\<lparr>stmt_no := 1\<rparr>, exampleStore)
    \<and> confined ''/srv'' ''apps'' p \<and> go_get exampleStore p = Some ''BIN''"
proof -
  let ?run = "handleDownload exampleLib True (Some ''42'') ''/srv'' ''apps'' (catalogRequest ''GET'' ''5'') (exampleCatalog, exampleStore)"
  have f: "fst ?run = Inr ''BIN''" "snd (snd ?run) = exampleStore" by code_simp+
  then have "?run = (Inr ''BIN'', fst (snd ?run), exampleStore)" by (simp add: prod_eq_iff)
  moreover from this have "fst (snd ?run) = exampleCatalog\<lparr>stmt_no := 1\<rparr>"
    by (rule handleDownload_Inr) (simp add: exampleCatalog_def empty_db_def)
  ultimately have r: "?run = (Inr ''BIN'', exampleCatalog\<lparr>stmt_no := 1\<rparr>, exampleStore)" by simp
  with download_authorised [OF r] show ?thesis by auto
qed

theorem shared_installer_deleted_witness:
  "\<exists>e. fst (handleDownload exampleLib True (Some ''42'') ''/srv'' ''apps'' (catalogRequest ''GET'' ''5'')
     (snd (handleDeleteCatalog exampleLib exampleAuth (\<lambda>_. False) ''/srv'' ''apps'' (catalogRequest ''DELETE'' ''4'') (exampleCatalog, exampleStore)))) = Inl e"
proof -
  let ?run = "handleDeleteCatalog exampleLib exampleAuth (\<lambda>_. False) ''/srv'' ''apps'' (catalogRequest ''DELETE'' ''4'') (exampleCatalog, exampleStore)"
  have "fst ?run = RespEmpty 204" by code_simp
  then have r: "?run = (RespEmpty 204, fst (snd ?run), snd (snd ?run))" by (simp add: prod_eq_iff)
  have i: "pathUUID exampleLib (catalogRequest ''DELETE'' ''4'') = Some 4" "looksLikeUploadedBlobPath (ca_file_path_or_url (exampleEntry 4))"
    "safeAppsPath ''/srv'' ''apps'' (ca_file_path_or_url (exampleEntry 4)) = Some ''/srv/apps/blobs/vim.deb''"
    "safeAppsPath ''/srv'' ''apps'' (ca_file_path_or_url (exampleEntry 5)) = Some ''/srv/apps/blobs/vim.deb''"
    "u_parse exampleLib (TrimSpace (rq_PathID (catalogRequest ''GET'' ''5''))) = Some 5" by code_simp+
  have c: "find (\<lambda>a. ca_id a = 4) (app_catalog exampleCatalog) = Some (exampleEntry 4)" "find (\<lambda>a. ca_id a = 5) (app_catalog exampleCatalog) = Some (exampleEntry 5)"
    by (simp_all add: exampleCatalog_def exampleEntry_def)
  have "\<not> (\<lambda>_ :: string. False) ''remove''" "(5 :: uuid) \<noteq> 4" by simp_all
  from shared_installer_deleted [OF r i(1) c(1) i(2,3) this c(2) i(4)] i(5) show ?thesis by simp
qed

theorem stored_files_confined_witness:
  "go_get (snd (snd (handleDeleteCatalog exampleLib exampleAuth (\<lambda>_. False) ''/srv'' ''apps'' (catalogRequest ''DELETE'' ''4'') (exampleCatalog, exampleStore)))) ''/srv/secret'' = Some ''KEY''"
proof -
  have root: "pathComponents (path_Abs ''/srv'' (path_Clean (TrimSpace ''apps''))) = [''srv'', ''apps'']" by code_simp
  have below: "\<exists>t. q = ''/srv/apps'' @ t" if q: "confined ''/srv'' ''apps'' q" for q
  proof -
    obtain rest where "q = ''/'' @ Join ([''srv'', ''apps''] @ rest) ''/''" using q unfolding confined_def root by blast
    then show ?thesis by (cases rest) simp_all
  qed
  have "\<not> confined ''/srv'' ''apps'' ''/srv/secret''" by (auto dest: below)
  moreover have "\<not> (\<exists>q. ''/srv/secret'' = q @ ''.partial'' \<and> confined ''/srv'' ''apps'' q)" by (auto dest!: below)
  ultimately show ?thesis
    using stored_files_confined [of "''/srv''" "''apps''" "''/srv/secret''" exampleLib exampleAuth "\<lambda>_. False" _ "catalogRequest ''DELETE'' ''4''" exampleCatalog exampleStore]
    by (simp add: exampleStore_def)
qed

theorem catalog_installable_witness:
  "wf_catalog (snd (handlePatchCatalog exampleLib exampleAuth (catalogRequest ''PATCH'' ''5'') exampleCatalog))
   \<and> fst (handleAssignApp exampleLib exampleAuth (\<lambda>_. '''') True (\<lambda>s. s) (catalogRequest ''POST'' ''7'')
        (snd (handlePatchCatalog exampleLib exampleAuth (catalogRequest ''PATCH'' ''5'') exampleCatalog), exampleOnline)) \<noteq> noLocation"
proof -
  have step: "(catalog_step exampleLib exampleAuth (\<lambda>_. '''') ''/srv'' ''apps'')\<^sup>*\<^sup>* (exampleCatalog, exampleOnline, exampleStore)
      (snd (handlePatchCatalog exampleLib exampleAuth (catalogRequest ''PATCH'' ''5'') exampleCatalog), exampleOnline, exampleStore)"
    by (rule r_into_rtranclp, rule cst_patch)
  have "looksLikeUploadedBlobPath ''blobs/vim.deb''" by code_simp
  then have "wf_catalog exampleCatalog"
    by (simp add: wf_catalog_def exampleCatalog_def exampleEntry_def empty_db_def installable_def exampleAsset_def)
  from catalog_installable [OF step this] show ?thesis by blast
qed

end
