(* ===== verification/Telemetry.thy ===== *)
theory Telemetry
  imports Outcomes AlertEngine
begin

text \<open>
  Telemetry of agents: decoding and the POST route (\<open>api/telemetry.go\<close>), the row of the reporting asset
  (\<open>upsertAssetFromTelemetry\<close>), the steps after it (\<open>api/telemetry_process.go\<close>), the policies sent back
  (\<open>api/mdm_downlink.go\<close>, the downlink half of \<open>api/android_policies.go\<close>, the wire forms of
  \<open>database/mdm_configuration.go\<close>), telemetry on the agent's connection (\<open>ws/agent_telemetry.go\<close> and the
  first step of \<open>readPump\<close>), and the message to the dashboards (\<open>ws/dash_wire.go\<close>).

  \<open>ProcessTelemetry\<close> works on the database next to a world of its own; its hooks and its dispatcher are
  parameters, as in the code, and \<open>telemetryProcess\<close> is the wiring of \<open>cmd/server/serve.go\<close> with the hub,
  the dashboards and the alert engine. The advisory lock serialises the transactions that allocate
  a number; here a transaction is one step, so taking the lock is a statement without effect.
\<close>

section \<open>The payload\<close>

record TelemetryInstalledApp =
  ia_Name :: string
  ia_Version :: string
  ia_Source :: string
  ia_ID :: string

record MDMPolicyEnforcementWire =
  mp_State :: string
  mp_Detail :: string
  mp_CriticalFailed :: bool

text \<open>\<open>None\<close> in \<open>tp_InstalledSoftware\<close> is the nil slice of a missing or \<open>null\<close> member.\<close>

record TelemetryPayload =
  tp_Hostname :: string
  tp_OsType :: string
  tp_OSFamily :: string
  tp_OSVersion :: string
  tp_TotalRAMBytes :: "64 word"
  tp_CPUModel :: string
  tp_CPULogicalCores :: int
  tp_CPUUsagePercent :: rat
  tp_MemoryUsedBytes :: "64 word"
  tp_RootDiskTotalBytes :: "64 word"
  tp_RootDiskUsedBytes :: "64 word"
  tp_BatteryPercent :: rat
  tp_DeviceModel :: string
  tp_MACAddress :: string
  tp_InstalledSoftware :: "TelemetryInstalledApp list option"
  tp_MDMPolicyEnforcement :: "MDMPolicyEnforcementWire option"

definition get_uint64 :: "string \<Rightarrow> json_object \<Rightarrow> 64 word option" where
  "get_uint64 name m =
     (case struct_get name m of
        None \<Rightarrow> Some 0
      | Some (JNum x) \<Rightarrow> if of_int \<lfloor>x\<rfloor> = x \<and> 0 \<le> \<lfloor>x\<rfloor> \<and> \<lfloor>x\<rfloor> < 2 ^ 64 then Some (word_of_int \<lfloor>x\<rfloor>) else None
      | Some _ \<Rightarrow> None)"

definition decodeInstalledApp :: "json \<Rightarrow> TelemetryInstalledApp option" where
  "decodeInstalledApp v =
     Option.bind (struct_object (RawDoc v)) (\<lambda>m.
     case (get_string ''name'' m, get_string ''version'' m, get_string ''source'' m, get_string ''id'' m) of
       (Some n, Some v, Some s, Some i) \<Rightarrow> Some \<lparr>ia_Name = n, ia_Version = v, ia_Source = s, ia_ID = i\<rparr>
     | _ \<Rightarrow> None)"

definition decodeInstalledSoftware :: "json_object \<Rightarrow> TelemetryInstalledApp list option option" where
  "decodeInstalledSoftware m =
     (case struct_get ''installed_software'' m of
        None \<Rightarrow> Some None
      | Some (JArr vs) \<Rightarrow> map_option Some (those (map decodeInstalledApp vs))
      | Some _ \<Rightarrow> None)"

definition decodeEnforcement :: "json_object \<Rightarrow> MDMPolicyEnforcementWire option option" where
  "decodeEnforcement m =
     (case struct_get ''mdm_policy_enforcement'' m of
        None \<Rightarrow> Some None
      | Some (JObj e) \<Rightarrow>
          (case (get_string ''state'' e, get_string ''detail'' e, get_bool ''critical_failed'' e) of
             (Some s, Some t, Some c) \<Rightarrow> Some (Some \<lparr>mp_State = s, mp_Detail = t, mp_CriticalFailed = c\<rparr>)
           | _ \<Rightarrow> None)
      | Some _ \<Rightarrow> None)"

text \<open>\<open>json.Unmarshal\<close> into a \<open>TelemetryPayload\<close>: \<open>None\<close> if a member has the wrong type.\<close>

definition decodeTelemetry :: "json_object \<Rightarrow> TelemetryPayload option" where
  "decodeTelemetry m =
     Option.bind (get_string ''hostname'' m) (\<lambda>hostname.
     Option.bind (get_string ''os_type'' m) (\<lambda>osType.
     Option.bind (get_string ''os_family'' m) (\<lambda>osFamily.
     Option.bind (get_string ''os_version'' m) (\<lambda>osVersion.
     Option.bind (get_uint64 ''total_ram_bytes'' m) (\<lambda>ram.
     Option.bind (get_string ''cpu_model'' m) (\<lambda>cpuModel.
     Option.bind (get_int ''cpu_logical_cores'' m) (\<lambda>cores.
     Option.bind (get_float ''cpu_usage_percent'' m) (\<lambda>cpu.
     Option.bind (get_uint64 ''memory_used_bytes'' m) (\<lambda>memUsed.
     Option.bind (get_uint64 ''root_disk_total_bytes'' m) (\<lambda>diskTotal.
     Option.bind (get_uint64 ''root_disk_used_bytes'' m) (\<lambda>diskUsed.
     Option.bind (get_float ''battery_percent'' m) (\<lambda>battery.
     Option.bind (get_string ''device_model'' m) (\<lambda>model.
     Option.bind (get_string ''mac_address'' m) (\<lambda>mac.
     Option.bind (decodeInstalledSoftware m) (\<lambda>software.
     Option.bind (decodeEnforcement m) (\<lambda>enf.
       Some \<lparr>tp_Hostname = hostname, tp_OsType = osType, tp_OSFamily = osFamily, tp_OSVersion = osVersion, tp_TotalRAMBytes = ram,
         tp_CPUModel = cpuModel, tp_CPULogicalCores = cores, tp_CPUUsagePercent = cpu, tp_MemoryUsedBytes = memUsed,
         tp_RootDiskTotalBytes = diskTotal, tp_RootDiskUsedBytes = diskUsed, tp_BatteryPercent = battery, tp_DeviceModel = model,
         tp_MACAddress = mac, tp_InstalledSoftware = software, tp_MDMPolicyEnforcement = enf\<rparr>))))))))))))))))"

definition installedAppJson :: "TelemetryInstalledApp \<Rightarrow> json" where
  "installedAppJson a = JObj ([(''name'', JStr (ia_Name a)), (''version'', JStr (ia_Version a)), (''source'', JStr (ia_Source a))]
     @ (if ia_ID a = '''' then [] else [(''id'', JStr (ia_ID a))]))"

definition installedSoftwareJson :: "TelemetryPayload \<Rightarrow> json" where
  "installedSoftwareJson p = (case tp_InstalledSoftware p of None \<Rightarrow> JNull | Some as \<Rightarrow> JArr (map installedAppJson as))"

definition osTypes :: "string list" where
  "osTypes = [''android'', ''windows'', ''linux'', ''darwin'', ''ios'', ''unknown'']"

definition deriveAssetOsType :: "TelemetryPayload \<Rightarrow> string" where
  "deriveAssetOsType p =
     (let t = ToLower (TrimSpace (tp_OsType p)) in
      if t \<in> set osTypes then t
      else
        (let f = ToLower (TrimSpace (tp_OSFamily p)) in
         if f = ''android'' then ''android''
         else if f = ''windows'' then ''windows''
         else if f = ''linux'' then ''linux''
         else if f \<in> {''darwin'', ''macos''} then ''darwin''
         else if f \<in> {''ios'', ''iphone'', ''ipad''} then ''ios''
         else ''unknown''))"

section \<open>The row of the asset\<close>

text \<open>\<open>||\<close> on \<open>jsonb\<close>: two objects are merged, anything else is concatenated as arrays.\<close>

fun jsonb_concat :: "json \<Rightarrow> json \<Rightarrow> json" where
  "jsonb_concat (JObj a) (JObj b) = JObj (fold (\<lambda>kv. go_put (fst kv) (snd kv)) b a)"
| "jsonb_concat (JArr xs) (JArr ys) = JArr (xs @ ys)"
| "jsonb_concat (JArr xs) y = JArr (xs @ [y])"
| "jsonb_concat x (JArr ys) = JArr (x # ys)"
| "jsonb_concat x y = JArr [x, y]"

definition metaPatch :: "lib \<Rightarrow> time \<Rightarrow> TelemetryPayload \<Rightarrow> string \<Rightarrow> json" where
  "metaPatch L t p osType =
     JObj [(''telemetry'', JObj [
       (''os_family'', JStr (tp_OSFamily p)), (''os_version'', JStr (tp_OSVersion p)), (''os_type'', JStr osType),
       (''total_ram_bytes'', JNum (of_nat (unat (tp_TotalRAMBytes p)))), (''cpu_model'', JStr (tp_CPUModel p)),
       (''cpu_logical_cores'', JNum (of_int (tp_CPULogicalCores p))), (''cpu_usage_percent'', JNum (tp_CPUUsagePercent p)),
       (''memory_used_bytes'', JNum (of_nat (unat (tp_MemoryUsedBytes p)))), (''battery_percent'', JNum (tp_BatteryPercent p)),
       (''device_model'', JStr (tp_DeviceModel p)), (''mac_address'', JStr (tp_MACAddress p)),
       (''reported_hostname'', JStr (tp_Hostname p)), (''reported_at_rfc3339'', JStr (t_rfc3339 L t)),
       (''installed_software'', installedSoftwareJson p)])]"

text \<open>The unique indexes and checks of the table \<open>assets\<close>; blank host names and serials are not indexed.\<close>

definition named :: "string option \<Rightarrow> bool" where
  "named x \<longleftrightarrow> x \<noteq> None \<and> x \<noteq> Some ''''"

definition assetsClash :: "asset \<Rightarrow> asset \<Rightarrow> bool" where
  "assetsClash a b \<longleftrightarrow> a_id a = a_id b \<or> a_human_id a = a_human_id b
     \<or> named (a_hostname a) \<and> a_hostname a = a_hostname b
     \<or> named (a_cert_serial a) \<and> a_cert_serial a = a_cert_serial b"

definition assetRowError :: "asset \<Rightarrow> asset list \<Rightarrow> sql_error option" where
  "assetRowError a others =
     (if a_os_type a \<notin> set osTypes then Some ErrCheck
      else if list_ex (assetsClash a) others then Some ErrUnique
      else None)"

text \<open>\<open>human_id ~ '^arx-c-[0-9]+$'\<close> and the number after the prefix.\<close>

definition clientNumber :: "string \<Rightarrow> nat option" where
  "clientNumber h = (if HasPrefix h ''arx-c-'' then parse_nat (drop 6 h) else None)"

text \<open>The largest number plus one, as \<open>bigint\<close>: a number or a sum out of range fails the statement.\<close>

definition nextClientNumber :: "db \<Rightarrow> nat sql_result" where
  "nextClientNumber =
     sql (\<lambda>d.
       (let ns = List.map_filter (\<lambda>a. clientNumber (a_human_id a)) (assets d)
        in if \<exists>n \<in> set ns. n \<ge> 2 ^ 63 then Inl ErrRange
           else if fold max ns 0 + 1 \<ge> 2 ^ 63 then Inl ErrRange
           else Inr (fold max ns 0 + 1), d))"

definition insertAssetRow :: "string \<Rightarrow> string \<Rightarrow> string \<Rightarrow> string \<Rightarrow> json \<Rightarrow> db \<Rightarrow> uuid sql_result" where
  "insertAssetRow humanID hostname certSerial osType meta =
     sql (\<lambda>d.
       (let row = \<lparr>a_id = random_uuid d, a_human_id = humanID, a_display_name = Some hostname, a_hostname = Some hostname,
              a_cert_serial = Some certSerial, a_os_type = osType, a_last_seen = Some (now d), a_metadata = meta, a_updated_at = now d,
              a_operational_status = ''operational'', a_cost_center = '''', a_location = '''', a_compliance_status = ''evaluating'',
              a_compliance_reason = '''', a_quarantine_enabled = False\<rparr>
        in case assetRowError row (assets d) of
             Some e \<Rightarrow> (Inl e, uuid_used d)
           | None \<Rightarrow> (Inr (a_id row), uuid_used (d\<lparr>assets := assets d @ [row]\<rparr>))))"

definition reportRow :: "string \<Rightarrow> string \<Rightarrow> string \<Rightarrow> json \<Rightarrow> time \<Rightarrow> asset \<Rightarrow> asset" where
  "reportRow hostname certSerial osType meta t a =
     a\<lparr>a_last_seen := Some t, a_updated_at := t, a_hostname := Some hostname, a_cert_serial := Some certSerial, a_os_type := osType,
       a_display_name := (if a_display_name a \<in> {None, Some ''''} then Some hostname else a_display_name a),
       a_metadata := jsonb_concat (a_metadata a) meta\<rparr>"

definition updateAssetRow :: "string \<Rightarrow> string \<Rightarrow> string \<Rightarrow> json \<Rightarrow> uuid \<Rightarrow> db \<Rightarrow> unit sql_result" where
  "updateAssetRow hostname certSerial osType meta i =
     sql (\<lambda>d.
       (let f = reportRow hostname certSerial osType meta (now d)
        in case List.map_filter (\<lambda>a. assetRowError (f a) (filter (\<lambda>b. a_id b \<noteq> i) (assets d))) (filter (\<lambda>a. a_id a = i) (assets d)) of
             e # _ \<Rightarrow> (Inl e, d)
           | [] \<Rightarrow> (Inr (), d\<lparr>assets := update_where (\<lambda>a. a_id a = i) f (assets d)\<rparr>)))"

definition lookupAsset :: "(asset \<Rightarrow> bool) \<Rightarrow> string \<Rightarrow> db \<Rightarrow> (go_error + (uuid \<times> string) option) \<times> db" where
  "lookupAsset P what d =
     (case query_row (\<lambda>d. map_option (\<lambda>a. (a_id a, a_human_id a)) (find P (assets d))) d of
        (Inl e, d) \<Rightarrow> if e = ErrNoRows then (Inr None, d) else (Inl (Wrap (''lookup by '' @ what) e), d)
      | (Inr x, d) \<Rightarrow> (Inr (Some x), d))"

definition hasSerial :: "string \<Rightarrow> asset \<Rightarrow> bool" where
  "hasSerial serial a \<longleftrightarrow> a_cert_serial a = Some serial"

definition hasHostname :: "string \<Rightarrow> asset \<Rightarrow> bool" where
  "hasHostname host a \<longleftrightarrow> a_hostname a = Some host"

definition insertClient :: "string \<Rightarrow> TelemetryPayload \<Rightarrow> string \<Rightarrow> json \<Rightarrow> db \<Rightarrow> (go_error + uuid \<times> string) \<times> db" where
  "insertClient certSerial p osType meta d =
     (case nextClientNumber d of
        (Inl e, d) \<Rightarrow> (Inl (Wrap ''next arx-c sequence'' e), d)
      | (Inr n, d) \<Rightarrow>
          (let humanID = ''arx-c-'' @ nat_str n
           in case insertAssetRow humanID (tp_Hostname p) certSerial osType meta d of
                (Inl e, d) \<Rightarrow> (Inl (Wrap ''insert asset'' e), d)
              | (Inr i, d) \<Rightarrow> (Inr (i, humanID), d)))"

definition updateClient :: "string \<Rightarrow> TelemetryPayload \<Rightarrow> string \<Rightarrow> json \<Rightarrow> uuid \<times> string \<Rightarrow> db \<Rightarrow> (go_error + uuid \<times> string) \<times> db" where
  "updateClient certSerial p osType meta x d =
     (case updateAssetRow (tp_Hostname p) certSerial osType meta (fst x) d of
        (Inl e, d) \<Rightarrow> (Inl (Wrap ''update asset'' e), d)
      | (Inr _, d) \<Rightarrow> (Inr x, d))"

definition upsertBody :: "lib \<Rightarrow> string \<Rightarrow> TelemetryPayload \<Rightarrow> string \<Rightarrow> db \<Rightarrow> (go_error + uuid \<times> string) \<times> db" where
  "upsertBody L certSerial p osType d =
     (case nop d of
        (Inl e, d) \<Rightarrow> (Inl (Wrap ''advisory lock'' e), d)
      | (Inr _, d) \<Rightarrow>
          (let meta = metaPatch L (now d) p osType in
           rbind (lookupAsset (hasSerial certSerial) ''cert_serial'' d) (\<lambda>found d.
           rbind (case found of
                    Some x \<Rightarrow> (Inr (Some x), d)
                  | None \<Rightarrow> lookupAsset (hasHostname (tp_Hostname p)) ''hostname'' d) (\<lambda>found d.
           case found of
             None \<Rightarrow> insertClient certSerial p osType meta d
           | Some x \<Rightarrow> updateClient certSerial p osType meta x d))))"

definition upsertAssetFromTelemetry :: "lib \<Rightarrow> string \<Rightarrow> TelemetryPayload \<Rightarrow> string \<Rightarrow> db \<Rightarrow> (go_error + uuid \<times> string) \<times> db" where
  "upsertAssetFromTelemetry L certSerial p osType d =
     transaction (upsertBody L certSerial p osType) (Wrap ''begin tx'')
       (Wrap (if list_ex (\<lambda>a. hasSerial certSerial a \<or> hasHostname (tp_Hostname p) a) (assets d) then ''commit update'' else ''commit insert'')) d"

section \<open>Policies sent back (android_policies.go, mdm_configuration.go, mdm_downlink.go)\<close>

record AndroidPolicyWire =
  aw_CameraDisabled :: bool
  aw_ScreenLockTimeoutMs :: int
  aw_WipeRequested :: bool

definition androidPolicyJson :: "AndroidPolicyWire \<Rightarrow> json" where
  "androidPolicyJson p = JObj [(''camera_disabled'', JBool (aw_CameraDisabled p)),
     (''screen_lock_timeout_ms'', JNum (of_int (aw_ScreenLockTimeoutMs p))), (''wipe_requested'', JBool (aw_WipeRequested p))]"

definition policyWire :: "android_policy \<Rightarrow> AndroidPolicyWire" where
  "policyWire r = \<lparr>aw_CameraDisabled = an_camera_disabled r, aw_ScreenLockTimeoutMs = an_screen_lock_timeout_ms r,
     aw_WipeRequested = an_wipe_requested r\<rparr>"

definition zeroPolicy :: AndroidPolicyWire where
  "zeroPolicy = \<lparr>aw_CameraDisabled = False, aw_ScreenLockTimeoutMs = 0, aw_WipeRequested = False\<rparr>"

definition policyRow :: "uuid \<Rightarrow> db \<Rightarrow> android_policy option" where
  "policyRow assetID d = find (\<lambda>r. an_asset_id r = assetID) (android_policies d)"

definition loadAndroidPolicy :: "uuid \<Rightarrow> db \<Rightarrow> (go_error + AndroidPolicyWire) \<times> db" where
  "loadAndroidPolicy assetID d =
     (case query_row (policyRow assetID) d of
        (Inl e, d) \<Rightarrow> if e = ErrNoRows then (Inr zeroPolicy, d) else (Inl (Driver e), d)
      | (Inr r, d) \<Rightarrow> (Inr (policyWire r), d))"

definition clearWipe :: "uuid \<Rightarrow> db \<Rightarrow> unit sql_result" where
  "clearWipe assetID = sql (\<lambda>d. (Inr (), d\<lparr>android_policies := update_where (\<lambda>r. an_asset_id r = assetID \<and> an_wipe_requested r)
     (\<lambda>r. r\<lparr>an_wipe_requested := False, an_updated_at := now d\<rparr>) (android_policies d)\<rparr>))"

text \<open>The error of the statement that clears the flag is dropped.\<close>

definition AppendAndroidPolicyToTelemetryResponse :: "uuid \<Rightarrow> string \<Rightarrow> json_object \<Rightarrow> db \<Rightarrow> (go_error + json_object) \<times> db" where
  "AppendAndroidPolicyToTelemetryResponse assetID osType resp d =
     (if \<not> EqualFold (TrimSpace osType) ''android'' then (Inr resp, d)
      else (case loadAndroidPolicy assetID d of
        (Inl e, d) \<Rightarrow> (Inl e, d)
      | (Inr wire, d) \<Rightarrow>
          (let resp = go_put ''android_policy'' (androidPolicyJson wire) resp
           in (Inr resp, if aw_WipeRequested wire then snd (clearWipe assetID d) else d))))"

record ManagedAndroidAppConfigWire =
  mw_Package :: string
  mw_KV :: json

definition managedConfigs :: "uuid \<Rightarrow> db \<Rightarrow> app_configuration list" where
  "managedConfigs assetID d =
     sort_key ac_managed_package_name (concat (map (\<lambda>ac. concat (map (\<lambda>da.
       map (\<lambda>cat. ac) (filter (\<lambda>cat. ca_id cat = ac_catalog_app_id ac \<and> ToLower (pg_trim (ca_target_os cat)) = ''android'') (app_catalog d)))
       (filter (\<lambda>da. da_app_id da = ac_catalog_app_id ac \<and> da_device_id da = assetID
          \<and> da_status da \<in> {''pending'', ''installing'', ''success''}) (device_apps d)))) (app_configurations d)))"

text \<open>\<open>null\<close> decodes to a nil map; a value that is not an object is replaced by the empty map.\<close>

definition managedKV :: "raw_json \<Rightarrow> json" where
  "managedKV raw = (case raw of RawDoc JNull \<Rightarrow> JNull | RawDoc (JObj m) \<Rightarrow> JObj m | _ \<Rightarrow> JObj [])"

definition ListManagedAndroidConfigurationsForDevice :: "uuid \<Rightarrow> db \<Rightarrow> (go_error + ManagedAndroidAppConfigWire list) \<times> db" where
  "ListManagedAndroidConfigurationsForDevice assetID d =
     (case query (managedConfigs assetID) d of
        (Inl e, d) \<Rightarrow> (Inl (Wrap ''list managed app configs'' e), d)
      | (Inr acs, d) \<Rightarrow> (Inr (map (\<lambda>ac. \<lparr>mw_Package = ac_managed_package_name ac, mw_KV = managedKV (ac_config_kv ac)\<rparr>) acs), d))"

definition managedJson :: "ManagedAndroidAppConfigWire \<Rightarrow> json" where
  "managedJson m = JObj [(''package_name'', JStr (mw_Package m)), (''managed_config_kv'', mw_KV m)]"

definition BuildMDMProfilesWireForAsset :: "lib \<Rightarrow> uuid \<Rightarrow> string \<Rightarrow> db \<Rightarrow> (go_error + json list \<times> ManagedAndroidAppConfigWire list) \<times> db" where
  "BuildMDMProfilesWireForAsset L assetID platform d =
     (case ListAssignedProfilesForAsset assetID platform d of
        (Inl e, d) \<Rightarrow> (Inl e, d)
      | (Inr plist, d) \<Rightarrow>
          (case appendProfileWIRE L plist of
             Inl e \<Rightarrow> (Inl e, d)
           | Inr profiles \<Rightarrow>
               if EqualFold (TrimSpace platform) ''android'' then
                 (case ListManagedAndroidConfigurationsForDevice assetID d of
                    (Inl e, d) \<Rightarrow> (Inl e, d)
                  | (Inr managed, d) \<Rightarrow> (Inr (profiles, managed), d))
               else (Inr (profiles, []), d)))"

definition profileRevisionStable :: "lib \<Rightarrow> json list \<Rightarrow> string" where
  "profileRevisionStable L wires = sha256_hex L (marshal (j_num L) (JArr wires))"

definition wrapError :: "string \<Rightarrow> go_error \<Rightarrow> go_error" where
  "wrapError msg e = (case e of Err s \<Rightarrow> Err (msg @ '': '' @ s) | Wrap s x \<Rightarrow> Wrap (msg @ '': '' @ s) x | Driver x \<Rightarrow> Wrap msg x)"

definition AppendMDMDownlink :: "lib \<Rightarrow> uuid \<Rightarrow> string \<Rightarrow> json_object \<Rightarrow> db \<Rightarrow> (go_error + json_object) \<times> db" where
  "AppendMDMDownlink L assetID osType resp d =
     (case BuildMDMProfilesWireForAsset L assetID (telemetryPlatformKey osType) d of
        (Inl e, d) \<Rightarrow> (Inl (wrapError ''mdm downlink assemble'' e), d)
      | (Inr (profilesWire, managed), d) \<Rightarrow>
          (let resp = (if profilesWire = [] then resp
                 else go_put ''mdm_profile_revision'' (JStr (profileRevisionStable L profilesWire))
                        (go_put ''mdm_configuration_profiles'' (JArr profilesWire) resp));
               resp = (if managed = [] then resp else go_put ''mdm_managed_app_configs'' (JArr (map managedJson managed)) resp)
           in (Inr resp, d)))"

section \<open>Processing (telemetry_process.go)\<close>

record 'w TelemetryProcessDeps =
  td_OnHeartbeat :: "(uuid \<Rightarrow> db \<times> 'w \<Rightarrow> db \<times> 'w) option"
  td_OnAccepted :: "(string \<Rightarrow> string \<Rightarrow> uuid \<Rightarrow> TelemetryPayload \<Rightarrow> db \<times> 'w \<Rightarrow> db \<times> 'w) option"
  td_ComplianceDispatch :: "'w dispatcher option"

record TelemetryProcessResult =
  tr_AssetID :: uuid
  tr_HumanID :: string
  tr_Response :: json_object

definition u64ToMetricInt64 :: "64 word \<Rightarrow> int" where
  "u64ToMetricInt64 u = (if u > 0x7FFFFFFFFFFFFFFF then 2 ^ 63 - 1 else sint u)"

definition enforcementOf :: "TelemetryPayload \<Rightarrow> EnforcementWire option" where
  "enforcementOf p = map_option (\<lambda>e. \<lparr>ew_State = mp_State e, ew_Detail = mp_Detail e, ew_CriticalFailed = mp_CriticalFailed e\<rparr>)
     (tp_MDMPolicyEnforcement p)"

definition persistMetric :: "uuid \<Rightarrow> TelemetryPayload \<Rightarrow> db \<Rightarrow> (go_error + unit) \<times> db" where
  "persistMetric assetID p = InsertDeviceMetric assetID (tp_CPUUsagePercent p) (u64ToMetricInt64 (tp_TotalRAMBytes p))
     (u64ToMetricInt64 (tp_MemoryUsedBytes p)) (u64ToMetricInt64 (tp_RootDiskTotalBytes p)) (u64ToMetricInt64 (tp_RootDiskUsedBytes p))"

definition runHeartbeat :: "'w TelemetryProcessDeps \<Rightarrow> uuid \<Rightarrow> db \<times> 'w \<Rightarrow> db \<times> 'w" where
  "runHeartbeat D assetID s = (case td_OnHeartbeat D of None \<Rightarrow> s | Some f \<Rightarrow> f assetID s)"

definition runAccepted :: "'w TelemetryProcessDeps \<Rightarrow> string \<Rightarrow> string \<Rightarrow> uuid \<Rightarrow> TelemetryPayload \<Rightarrow> db \<times> 'w \<Rightarrow> db \<times> 'w" where
  "runAccepted D certSerial humanID assetID p s =
     (case td_OnAccepted D of None \<Rightarrow> s | Some f \<Rightarrow> f certSerial humanID assetID p s)"

definition attachPolicies :: "lib \<Rightarrow> uuid \<Rightarrow> string \<Rightarrow> json_object \<Rightarrow> db \<Rightarrow> (go_error + json_object) \<times> db" where
  "attachPolicies L assetID osType resp d =
     (case AppendAndroidPolicyToTelemetryResponse assetID osType resp d of
        (Inl e, d) \<Rightarrow> (Inl (wrapError ''android policy attachment'' e), d)
      | (Inr resp, d) \<Rightarrow>
          (case AppendMDMDownlink L assetID osType resp d of
             (Inl e, d) \<Rightarrow> (Inl (wrapError ''mdm downlink attachment'' e), d)
           | (Inr resp, d) \<Rightarrow> (Inr resp, d)))"

definition ProcessTelemetry ::
  "lib \<Rightarrow> 'w TelemetryProcessDeps \<Rightarrow> string \<Rightarrow> TelemetryPayload \<Rightarrow> db \<times> 'w \<Rightarrow> (go_error + TelemetryProcessResult) \<times> db \<times> 'w" where
  "ProcessTelemetry L D certSerial payload s =
     (case s of (d, w) \<Rightarrow>
      let p = payload\<lparr>tp_Hostname := TrimSpace (tp_Hostname payload)\<rparr>; certSerial = TrimSpace certSerial; osType = deriveAssetOsType p in
      if tp_Hostname p = '''' then (Inl (Err ''hostname is required''), d, w)
      else if certSerial = '''' then (Inl (Err ''cert serial is required''), d, w)
      else (case upsertAssetFromTelemetry L certSerial p osType d of
        (Inl e, d) \<Rightarrow> (Inl e, d, w)
      | (Inr (assetID, humanID), d) \<Rightarrow>
          (case persistMetric assetID p d of
             (Inl e, d) \<Rightarrow> (Inl (wrapError ''persist device metrics'' e), d, w)
           | (Inr _, d) \<Rightarrow>
               (case EvaluateAfterTelemetry L (td_ComplianceDispatch D) assetID certSerial (ToLower (TrimSpace osType)) (enforcementOf p) (d, w) of
                  (Inl e, s) \<Rightarrow> (Inl (wrapError ''compliance evaluation'' e), s)
                | (Inr _, s) \<Rightarrow>
                    (case runAccepted D certSerial humanID assetID p (runHeartbeat D assetID s) of (d, w) \<Rightarrow>
                     case attachPolicies L assetID osType
                            [(''status'', JStr ''ok''), (''asset_id'', JStr (u_str L assetID)), (''human_id'', JStr humanID)] d of
                       (Inl e, d) \<Rightarrow> (Inl e, d, w)
                     | (Inr resp, d) \<Rightarrow> (Inr \<lparr>tr_AssetID = assetID, tr_HumanID = humanID, tr_Response = resp\<rparr>, d, w))))))"

section \<open>The route (telemetry.go)\<close>

text \<open>The TLS state of a request; a verified client certificate gives its serial, blank if it has none.\<close>

datatype tls_state = NoTLS | TLSUnverified | TLSVerified string

definition handleTelemetry ::
  "lib \<Rightarrow> 'w TelemetryProcessDeps \<Rightarrow> bool \<Rightarrow> tls_state \<Rightarrow> request \<Rightarrow> db \<times> 'w \<Rightarrow> response \<times> db \<times> 'w" where
  "handleTelemetry L D mtlsRequired tls r s =
     (if rq_Method r \<noteq> ''POST'' then (RespError 405 (Err ''method not allowed''), s)
      else if \<not> mtlsRequired then
        (RespError 503 (Err ''telemetry requires ARX_TLS_CERT, ARX_TLS_KEY, and ARX_MTLS_CLIENT_CA_BUNDLE''), s)
      else (case tls of
        NoTLS \<Rightarrow> (RespError 403 (Err ''tls is required for telemetry''), s)
      | TLSUnverified \<Rightarrow> (RespError 403 (Err ''mutual tls with a verified client certificate is required for telemetry''), s)
      | TLSVerified serial \<Rightarrow>
          (case decodeBody r decodeTelemetry of
             None \<Rightarrow> (RespError 400 (Err ''invalid JSON body''), s)
           | Some payload \<Rightarrow>
               let p = payload\<lparr>tp_Hostname := TrimSpace (tp_Hostname payload)\<rparr> in
               if tp_Hostname p = '''' then (RespError 400 (Err ''hostname is required''), s)
               else if serial = '''' then (RespError 400 (Err ''client certificate has no serial number''), s)
               else (case ProcessTelemetry L D serial p s of
                       (Inl e, s) \<Rightarrow> (RespError 500 (Err ''failed to persist telemetry''), s)
                     | (Inr res, s) \<Rightarrow> (RespJson 200 (JObj (tr_Response res)), s)))))"

section \<open>The wiring (dash_wire.go, serve.go)\<close>

definition MarshalTelemetryUpdate :: "lib \<Rightarrow> hub \<Rightarrow> string \<Rightarrow> string \<Rightarrow> uuid \<Rightarrow> TelemetryPayload \<Rightarrow> db \<Rightarrow> json \<times> db" where
  "MarshalTelemetryUpdate L h certSerial humanID assetID p d =
     (let c2On = certSerial \<in> set (ConnectedCertSerials h);
          osType = deriveAssetOsType p;
          seen = t_rfc3339 L (now d)
      in case (if assetID = uuid_Nil then (None, d)
               else (case GetAssetCompliance assetID d of (Inl _, d) \<Rightarrow> (None, d) | (Inr row, d) \<Rightarrow> (Some row, d))) of
           (row, d) \<Rightarrow>
             (let omit = (\<lambda>k v. if v = '''' then [] else [(k, JStr v)]) in
              (JObj [(''type'', JStr ''telemetry_update''), (''asset'', JObj (
                 (if assetID = uuid_Nil then [] else omit ''id'' (u_str L assetID))
                 @ [(''human_id'', JStr humanID), (''hostname'', JStr (tp_Hostname p))] @ omit ''os_type'' osType
                 @ [(''os'', JStr (TrimSpace (tp_OSFamily p @ '' '' @ tp_OSVersion p))), (''cpu_model'', JStr (tp_CPUModel p)),
                    (''cpu_logical_cores'', JNum (of_int (tp_CPULogicalCores p))), (''cpu_usage_percent'', JNum (tp_CPUUsagePercent p)),
                    (''total_ram_bytes'', JNum (of_nat (unat (tp_TotalRAMBytes p)))), (''memory_used_bytes'', JNum (of_nat (unat (tp_MemoryUsedBytes p))))]
                 @ omit ''last_seen'' seen
                 @ [(''c2_connected'', JBool c2On), (''installed_software'', installedSoftwareJson p)]
                 @ (case row of
                      None \<Rightarrow> [(''quarantine_enabled'', JBool False)]
                    | Some row \<Rightarrow> omit ''compliance_status'' (TrimSpace (cr_Status row)) @ omit ''compliance_reason'' (TrimSpace (cr_Reason row))
                        @ [(''quarantine_enabled'', JBool (cr_QuarantineEnabled row))])))], d)))"

record server_world =
  sw_hub :: hub
  sw_dash :: DashboardHub
  sw_events :: "AlertEvent list"
  sw_spawned :: "hook_call list"

definition complianceDispatch :: "server_world dispatcher" where
  "complianceDispatch certSerial payload w =
     (case DispatchJSON certSerial payload (sw_hub w) of (ok, h) \<Rightarrow> (ok, w\<lparr>sw_hub := h\<rparr>))"

definition onTelemetryAccepted :: "lib \<Rightarrow> string \<Rightarrow> string \<Rightarrow> uuid \<Rightarrow> TelemetryPayload \<Rightarrow> db \<times> server_world \<Rightarrow> db \<times> server_world" where
  "onTelemetryAccepted L certSerial humanID assetID p s =
     (case s of (d, w) \<Rightarrow>
      case MarshalTelemetryUpdate L (sw_hub w) certSerial humanID assetID p d of
        (msg, d) \<Rightarrow> (d, w\<lparr>sw_dash := Broadcast msg (sw_dash w)\<rparr>))"

definition heartbeatHook :: "bool \<Rightarrow> uuid \<Rightarrow> db \<times> server_world \<Rightarrow> db \<times> server_world" where
  "heartbeatHook hooks assetID s =
     (case s of (d, w) \<Rightarrow>
      let e = OnHeartbeat hooks assetID \<lparr>en_db = d, en_events = sw_events w, en_spawned = sw_spawned w\<rparr>
      in (en_db e, w\<lparr>sw_events := en_events e, sw_spawned := en_spawned e\<rparr>))"

definition telemetryProcess :: "lib \<Rightarrow> bool \<Rightarrow> server_world TelemetryProcessDeps" where
  "telemetryProcess L hooks = \<lparr>td_OnHeartbeat = Some (heartbeatHook hooks), td_OnAccepted = Some (onTelemetryAccepted L),
     td_ComplianceDispatch = Some complianceDispatch\<rparr>"

section \<open>Telemetry on the agent's connection (agent_telemetry.go)\<close>

text \<open>The response of \<open>ProcessTelemetry\<close> is not sent; its identifiers are logged.\<close>

definition tryHandleAgentTelemetry :: "lib \<Rightarrow> 'w TelemetryProcessDeps \<Rightarrow> string \<Rightarrow> raw_json \<Rightarrow> db \<times> 'w \<Rightarrow> bool \<times> db \<times> 'w" where
  "tryHandleAgentTelemetry L D certSerial data s =
     (case struct_object data of
        None \<Rightarrow> (False, s)
      | Some m \<Rightarrow>
          (case get_string ''type'' m of
             None \<Rightarrow> (False, s)
           | Some t \<Rightarrow>
               if TrimSpace t \<noteq> ''telemetry'' then (False, s)
               else (case (get_uint64 ''uptime_seconds'' m, decodeTelemetry m) of
                       (Some _, Some payload) \<Rightarrow> (True, snd (ProcessTelemetry L D certSerial payload s))
                     | _ \<Rightarrow> (True, s))))"

text \<open>One round of \<open>readPump\<close>.\<close>

definition readPump :: "lib \<Rightarrow> bool \<Rightarrow> string \<Rightarrow> raw_json \<Rightarrow> db \<times> server_world \<Rightarrow> db \<times> server_world" where
  "readPump L hooks serial data s =
     (case tryHandleAgentTelemetry L (telemetryProcess L hooks) serial data s of
        (True, s) \<Rightarrow> s
      | (False, d, w) \<Rightarrow>
          (case readMessage L serial data (d, sw_hub w, sw_dash w) of
             (d, h, dash) \<Rightarrow> (d, w\<lparr>sw_hub := h, sw_dash := dash\<rparr>)))"

end
