(* ===== verification/Devices.thy ===== *)
theory Devices
  imports Telemetry Users
begin

text \<open>
  Routes on single devices: the Android policy (\<open>api/android_policies.go\<close>), the custodian
  (\<open>api/device_assignments.go\<close>), and the profiles an agent pulls (\<open>api/agent_profiles.go\<close>).

  The handler of a policy change also notifies: \<open>android_effect\<close> lists what it hands to the notification
  dispatcher (from a goroutine of its own) and to the dashboards.
\<close>

section \<open>Android policies\<close>

record patchAndroidPolicyRequest =
  pr_CameraDisabled :: "bool option"
  pr_ScreenLockTimeoutMs :: "int option"
  pr_WipeRequested :: "bool option"

definition decodePatchAndroidPolicy :: "json_object \<Rightarrow> patchAndroidPolicyRequest option" where
  "decodePatchAndroidPolicy m =
     (case (get_bool_ptr ''camera_disabled'' m, get_int_ptr ''screen_lock_timeout_ms'' m, get_bool_ptr ''wipe_requested'' m) of
        (Some c, Some t, Some w) \<Rightarrow> Some \<lparr>pr_CameraDisabled = c, pr_ScreenLockTimeoutMs = t, pr_WipeRequested = w\<rparr>
      | _ \<Rightarrow> None)"

definition assetExists :: "uuid \<Rightarrow> db \<Rightarrow> bool \<times> db" where
  "assetExists assetID d =
     (case query_row (\<lambda>d. find (\<lambda>a. a_id a = assetID) (assets d)) d of (Inl _, d) \<Rightarrow> (False, d) | (Inr _, d) \<Rightarrow> (True, d))"

definition humanIDForAsset :: "uuid \<Rightarrow> db \<Rightarrow> string sql_result" where
  "humanIDForAsset assetID = query_row (\<lambda>d. map_option a_human_id (find (\<lambda>a. a_id a = assetID) (assets d)))"

definition android_handleGet :: "lib \<Rightarrow> DashboardAuth \<Rightarrow> request \<Rightarrow> db \<Rightarrow> response \<times> db" where
  "android_handleGet L A r = answer
     (abind (ifMethod r ''GET'') (\<lambda>_.
      abind (authorize L A r ''viewer'') (\<lambda>_.
      abind (given (pathUUID L r) 400 ''invalid asset id'') (\<lambda>assetID.
      abind (\<lambda>d. case assetExists assetID d of (ex, d) \<Rightarrow> require ex 404 ''asset not found'' d) (\<lambda>_.
      abind (call (loadAndroidPolicy assetID) (\<lambda>_. RespError 500 (Err ''failed to load policy''))) (\<lambda>pol.
      areturn (RespJson 200 (androidPolicyJson pol))))))))"

text \<open>The fields that the request names replace those of the row; a negative timeout is stored as 0.\<close>

definition patchPolicy :: "patchAndroidPolicyRequest \<Rightarrow> AndroidPolicyWire \<Rightarrow> AndroidPolicyWire" where
  "patchPolicy q cur =
     \<lparr>aw_CameraDisabled = (case pr_CameraDisabled q of None \<Rightarrow> aw_CameraDisabled cur | Some b \<Rightarrow> b),
      aw_ScreenLockTimeoutMs = (case pr_ScreenLockTimeoutMs q of None \<Rightarrow> aw_ScreenLockTimeoutMs cur | Some t \<Rightarrow> if t < 0 then 0 else t),
      aw_WipeRequested = (case pr_WipeRequested q of None \<Rightarrow> aw_WipeRequested cur | Some b \<Rightarrow> b)\<rparr>"

definition upsertPolicyRow :: "uuid \<Rightarrow> AndroidPolicyWire \<Rightarrow> db \<Rightarrow> unit sql_result" where
  "upsertPolicyRow assetID p = sql (\<lambda>d.
     (let row = \<lparr>an_asset_id = assetID, an_camera_disabled = aw_CameraDisabled p, an_screen_lock_timeout_ms = aw_ScreenLockTimeoutMs p,
            an_wipe_requested = aw_WipeRequested p, an_updated_at = now d\<rparr>
      in if policyRow assetID d \<noteq> None then (Inr (), d\<lparr>android_policies := update_where (\<lambda>r. an_asset_id r = assetID) (\<lambda>_. row) (android_policies d)\<rparr>)
         else if assetID \<notin> a_id ` set (assets d) then (Inl ErrForeignKey, d)
         else (Inr (), d\<lparr>android_policies := android_policies d @ [row]\<rparr>)))"

definition mergeAndroidPolicy :: "uuid \<Rightarrow> patchAndroidPolicyRequest \<Rightarrow> db \<Rightarrow> (go_error + AndroidPolicyWire) \<times> db" where
  "mergeAndroidPolicy assetID q =
     transaction (\<lambda>d.
       rbind (loadAndroidPolicy assetID d) (\<lambda>cur d.
       let new = patchPolicy q cur
       in case upsertPolicyRow assetID new d of (Inl e, d) \<Rightarrow> (Inl (Driver e), d) | (Inr _, d) \<Rightarrow> (Inr new, d))) Driver Driver"

datatype android_effect = NotifyWipe AlertEvent | BroadcastPolicy json

definition wipeEvent :: "lib \<Rightarrow> uuid \<Rightarrow> string \<Rightarrow> AlertEvent" where
  "wipeEvent L assetID humanID =
     \<lparr>ev_Type = ''android_remote_wipe'', ev_Severity = '''', ev_Title = ''Android remote wipe requested'',
      ev_Message = ''Remote wipe was requested for asset '' @ humanID @ '' ('' @ u_str L assetID @ '').'',
      ev_Details = [(''asset_id'', JStr (u_str L assetID)), (''human_id'', JStr humanID)]\<rparr>"

definition policyUpdated :: "lib \<Rightarrow> uuid \<Rightarrow> string \<Rightarrow> AndroidPolicyWire \<Rightarrow> json" where
  "policyUpdated L assetID humanID pol =
     JObj [(''type'', JStr ''android_policy_updated''), (''asset_id'', JStr (u_str L assetID)), (''human_id'', JStr humanID),
           (''policy'', androidPolicyJson pol)]"

definition patchAndroidPolicy :: "lib \<Rightarrow> DashboardAuth \<Rightarrow> request \<Rightarrow> (db, response \<times> android_effect list) act" where
  "patchAndroidPolicy L A r =
     (abind (ifMethod r ''PATCH'') (\<lambda>_.
      abind (authorize L A r ''operator'') (\<lambda>_.
      abind (given (pathUUID L r) 400 ''invalid asset id'') (\<lambda>assetID.
      abind (given (decodeBody r decodePatchAndroidPolicy) 400 ''invalid JSON body'') (\<lambda>q.
      abind (statement (humanIDForAsset assetID) (noRows 404 ''asset not found'' 500 ''failed to resolve asset'')) (\<lambda>humanID.
      abind (call (loadAndroidPolicy assetID) (\<lambda>_. RespError 500 (Err ''failed to save policy''))) (\<lambda>prev.
      abind (call (mergeAndroidPolicy assetID q) (\<lambda>_. RespError 500 (Err ''failed to save policy''))) (\<lambda>out.
      let wipeRequested = (aw_WipeRequested out \<and> \<not> aw_WipeRequested prev \<and> pr_WipeRequested q = Some True)
      in areturn (RespJson 200 (androidPolicyJson out),
           (if wipeRequested then [NotifyWipe (wipeEvent L assetID humanID)] else [])
           @ [BroadcastPolicy (policyUpdated L assetID humanID out)])))))))))"

definition android_handlePatch :: "lib \<Rightarrow> DashboardAuth \<Rightarrow> request \<Rightarrow> db \<Rightarrow> (response \<times> android_effect list) \<times> db" where
  "android_handlePatch L A r = answerEvents (patchAndroidPolicy L A r)"

section \<open>Custodians\<close>

record DeviceAssignmentWire =
  dw_UserID :: uuid
  dw_Username :: string
  dw_AssignedAt :: time

definition custodianWire :: "uuid \<Rightarrow> db \<Rightarrow> DeviceAssignmentWire option" where
  "custodianWire deviceID d =
     Option.bind (find (\<lambda>s. ds_asset_id s = deviceID \<and> ds_user_id s \<in> us_id ` set (users d)) (device_assignments d)) (\<lambda>s.
     map_option (\<lambda>u. \<lparr>dw_UserID = ds_user_id s, dw_Username = us_username u, dw_AssignedAt = ds_assigned_at s\<rparr>)
       (find (\<lambda>u. us_id u = ds_user_id s) (users d)))"

definition custodianJson :: "lib \<Rightarrow> DeviceAssignmentWire \<Rightarrow> json" where
  "custodianJson L w = JObj [(''user_id'', JStr (u_str L (dw_UserID w))), (''username'', JStr (dw_Username w)), (''assigned_at'', JStr (t_json L (dw_AssignedAt w)))]"

definition parseDeviceAssignmentUUID :: "lib \<Rightarrow> request \<Rightarrow> uuid option" where
  "parseDeviceAssignmentUUID L r = u_parse L (TrimSpace (rq_PathID r))"

definition ensureAsset :: "uuid \<Rightarrow> string \<Rightarrow> (db, unit) act" where
  "ensureAsset deviceID msg =
     abind (statement (query (\<lambda>d. deviceID \<in> a_id ` set (assets d))) (failWith 500 msg)) (\<lambda>ex. require ex 404 ''device not found'')"

definition assignment_handleGet :: "lib \<Rightarrow> DashboardAuth \<Rightarrow> request \<Rightarrow> db \<Rightarrow> response \<times> db" where
  "assignment_handleGet L A r = answer
     (abind (ifMethod r ''GET'') (\<lambda>_.
      abind (authorize L A r ''viewer'') (\<lambda>_.
      abind (given (parseDeviceAssignmentUUID L r) 400 ''invalid device id'') (\<lambda>deviceID.
      abind (ensureAsset deviceID ''failed to load assignment'') (\<lambda>_.
      abind (statement (query (custodianWire deviceID)) (failWith 500 ''failed to load assignment'')) (\<lambda>wire.
      areturn (RespJson 200 (JObj [(''assignment'', case wire of None \<Rightarrow> JNull | Some w \<Rightarrow> custodianJson L w)]))))))))"

definition upsertCustodianRow :: "uuid \<Rightarrow> uuid \<Rightarrow> db \<Rightarrow> unit sql_result" where
  "upsertCustodianRow deviceID userID = sql (\<lambda>d.
     (let row = \<lparr>ds_asset_id = deviceID, ds_user_id = userID, ds_assigned_at = now d\<rparr>
      in if deviceID \<notin> a_id ` set (assets d) \<or> userID \<notin> us_id ` set (users d) then (Inl ErrForeignKey, d)
         else if deviceID \<in> ds_asset_id ` set (device_assignments d)
           then (Inr (), d\<lparr>device_assignments := update_where (\<lambda>s. ds_asset_id s = deviceID) (\<lambda>_. row) (device_assignments d)\<rparr>)
         else (Inr (), d\<lparr>device_assignments := device_assignments d @ [row]\<rparr>)))"

definition assignTx :: "uuid \<Rightarrow> uuid \<Rightarrow> (db, DeviceAssignmentWire) act" where
  "assignTx deviceID userID =
     transaction
       (abind (statement (query (\<lambda>d. userID \<in> us_id ` set (users d))) (failWith 500 ''failed to assign device'')) (\<lambda>ex.
        abind (require ex 400 ''user_id not found'') (\<lambda>_.
        abind (statement (upsertCustodianRow deviceID userID) (failWith 500 ''failed to assign device'')) (\<lambda>_.
        statement (query_row (custodianWire deviceID)) (failWith 500 ''failed to assign device'')))))
       (failWith 500 ''failed to assign device'') (failWith 500 ''failed to assign device'')"

definition deviceAudit :: "lib \<Rightarrow> request \<Rightarrow> Principal \<Rightarrow> uuid \<Rightarrow> string \<Rightarrow> json_object \<Rightarrow> AuditRecord" where
  "deviceAudit L r p deviceID action details =
     \<lparr>ar_UserID = p_UserID p, ar_Action = action, ar_ResourceType = ''device'', ar_ResourceID = Some deviceID, ar_TargetAssetID = Some deviceID,
      ar_Details = details, ar_IPAddress = ClientIP L r\<rparr>"

definition assignDevice :: "lib \<Rightarrow> DashboardAuth \<Rightarrow> request \<Rightarrow> (db, response) act" where
  "assignDevice L A r =
     (abind (ifMethod r ''POST'') (\<lambda>_.
      abind (authorize L A r ''operator'') (\<lambda>p.
      abind (given (parseDeviceAssignmentUUID L r) 400 ''invalid device id'') (\<lambda>deviceID.
      abind (given (decodeBody r (get_string ''user_id'')) 400 ''invalid JSON body'') (\<lambda>raw.
      abind (given (case u_parse L (TrimSpace raw) of None \<Rightarrow> None | Some u \<Rightarrow> if u = uuid_Nil then None else Some u)
               400 ''user_id must be a non-empty UUID'') (\<lambda>userID.
      abind (ensureAsset deviceID ''failed to assign device'') (\<lambda>_.
      abind (assignTx deviceID userID) (\<lambda>wire.
      abind (ignore (InsertAuditRecord (deviceAudit L r p deviceID ''device_assigned''
               [(''assigned_user_id'', JStr (u_str L (dw_UserID wire))), (''assigned_username'', JStr (dw_Username wire))]))) (\<lambda>_.
      areturn (RespJson 200 (JObj [(''assignment'', custodianJson L wire)])))))))))))"

definition assignment_handleAssign :: "lib \<Rightarrow> DashboardAuth \<Rightarrow> request \<Rightarrow> db \<Rightarrow> response \<times> db" where
  "assignment_handleAssign L A r = answer (assignDevice L A r)"

definition deleteCustodianRow :: "uuid \<Rightarrow> db \<Rightarrow> nat sql_result" where
  "deleteCustodianRow deviceID = sql (\<lambda>d. (Inr (affected (\<lambda>s. ds_asset_id s = deviceID) (device_assignments d)),
     d\<lparr>device_assignments := filter (\<lambda>s. ds_asset_id s \<noteq> deviceID) (device_assignments d)\<rparr>))"

definition assignment_handleUnassign :: "lib \<Rightarrow> DashboardAuth \<Rightarrow> request \<Rightarrow> db \<Rightarrow> response \<times> db" where
  "assignment_handleUnassign L A r = answer
     (abind (ifMethod r ''POST'') (\<lambda>_.
      abind (authorize L A r ''operator'') (\<lambda>p.
      abind (given (parseDeviceAssignmentUUID L r) 400 ''invalid device id'') (\<lambda>deviceID.
      abind (ensureAsset deviceID ''failed to unassign device'') (\<lambda>_.
      abind (statement (deleteCustodianRow deviceID) (failWith 500 ''failed to unassign device'')) (\<lambda>n.
      if n = 0 then areturn (RespJson 200 (JObj [(''assignment'', JNull), (''status'', JStr ''already_unassigned'')]))
      else abind (ignore (InsertAuditRecord (deviceAudit L r p deviceID ''device_unassigned'' []))) (\<lambda>_.
           areturn (RespJson 200 (JObj [(''assignment'', JNull)])))))))))"

section \<open>Profiles for agents\<close>

text \<open>The agent is identified by the serial of its verified client certificate, \<open>None\<close> without one.\<close>

definition agentProfiles_handlePull :: "lib \<Rightarrow> bool \<Rightarrow> string option \<Rightarrow> request \<Rightarrow> db \<Rightarrow> response \<times> db" where
  "agentProfiles_handlePull L mtlsRequired peer r = answer
     (abind (ifMethod r ''GET'') (\<lambda>_.
      abind (given (if mtlsRequired then peer else None) 403 ''mutual tls is required'') (\<lambda>serial.
      abind (require (serial \<noteq> '''') 400 ''client certificate serial invalid'') (\<lambda>_.
      abind (statement (query_row (\<lambda>d. map_option (\<lambda>a. (a_id a, ToLower (pg_trim (a_os_type a)))) (find (\<lambda>a. a_cert_serial a = Some serial) (assets d))))
               (failWith 404 ''device not enrolled'')) (\<lambda>(assetID, osType).
      abind (call (BuildMDMProfilesWireForAsset L assetID (telemetryPlatformKey osType)) (\<lambda>_. RespError 500 (Err ''failed to assemble profiles'')))
        (\<lambda>(profilesWire, managed).
      areturn (RespJson 200 (JObj ([(''revision'', JStr (profileRevisionStable L profilesWire)), (''os_type'', JStr osType),
          (''asset_id'', JStr (u_str L assetID)), (''profiles'', JArr profilesWire)]
        @ (if managed = [] then [] else [(''managed_app_configs'', JArr (map managedJson managed))]))))))))))"

end
