(* ===== verification/Telemetry_Facts.thy ===== *)
theory Telemetry_Facts
  imports Telemetry Compliance_Facts Alerting_Facts Profiles_Facts
begin

text \<open>
  Correctness of telemetry: the report of an agent goes to one row of \<open>assets\<close> and the table keeps its
  identities; accepted telemetry ends the offline alerts of the device; a wipe request is answered once.
\<close>

section \<open>The table of assets\<close>

definition wf_fleet :: "db \<Rightarrow> bool" where
  "wf_fleet d \<longleftrightarrow> sorted_wrt (\<lambda>a b. \<not> assetsClash a b) (assets d) \<and> (\<forall>a \<in> set (assets d). a_os_type a \<in> set osTypes)"

lemma assetsClash_sym: "assetsClash a b \<longleftrightarrow> assetsClash b a"
  by (auto simp: assetsClash_def)

lemma sorted_wrt_symD:
  assumes "sorted_wrt (\<lambda>a b. \<not> R a b) xs" and "\<And>a b. R a b = R b a" and "a \<in> set xs" "b \<in> set xs" "R a b" "R a a"
  shows "a = b"
  using assms by (induction xs) auto

lemma wf_fleet_eq: "wf_fleet d \<Longrightarrow> a \<in> set (assets d) \<Longrightarrow> b \<in> set (assets d) \<Longrightarrow> assetsClash a b \<Longrightarrow> a = b"
  by (rule sorted_wrt_symD [of assetsClash "assets d"]) (auto simp: wf_fleet_def assetsClash_sym, simp add: assetsClash_def)

lemma sorted_wrt_distinct: "sorted_wrt (\<lambda>a b. f a \<noteq> f b) xs \<Longrightarrow> distinct (map f xs)"
  by (induction xs) auto

lemma wf_fleet_distinct: "wf_fleet d \<Longrightarrow> distinct (map a_id (assets d))"
proof -
  assume "wf_fleet d"
  then have "sorted_wrt (\<lambda>a b. a_id a \<noteq> a_id b) (assets d)"
    unfolding wf_fleet_def by (auto intro: sorted_wrt_mono_rel [rotated] simp: assetsClash_def)
  then show ?thesis by (rule sorted_wrt_distinct)
qed

lemma table_inv_fleet [keeps_intros]: "table_inv wf_fleet"
  by (auto simp: table_inv_def wf_fleet_def same_tables_fields)

lemma wf_fleet_append:
  assumes "wf_fleet d" and "assetRowError a (assets d) = None"
  shows "wf_fleet (d\<lparr>assets := assets d @ [a]\<rparr>)"
  using assms by (auto simp: wf_fleet_def sorted_wrt_append assetRowError_def list_ex_iff assetsClash_sym split: if_splits)

lemma assetRowError_os: "assetRowError a as = None \<Longrightarrow> a_os_type a \<in> set osTypes"
  by (simp add: assetRowError_def split: if_splits)

lemma wf_fleet_update:
  assumes wf: "wf_fleet d" and id: "\<And>a. a_id (f a) = a_id a"
    and ok: "\<And>a. a \<in> set (assets d) \<Longrightarrow> a_id a = i \<Longrightarrow> assetRowError (f a) (filter (\<lambda>b. a_id b \<noteq> i) (assets d)) = None"
  shows "wf_fleet (d\<lparr>assets := update_where (\<lambda>a. a_id a = i) f (assets d)\<rparr>)"
proof -
  let ?g = "\<lambda>a. if a_id a = i then f a else a"
  have c: "\<not> assetsClash (f a) b" if "a \<in> set (assets d)" "a_id a = i" "b \<in> set (assets d)" "a_id b \<noteq> i" for a b
    using ok [OF that(1,2)] that by (auto simp: assetRowError_def list_ex_iff split: if_splits)
  have g: "\<not> assetsClash (?g a) (?g b)" if "a \<in> set (assets d)" "b \<in> set (assets d)" "\<not> assetsClash a b" for a b
  proof -
    from that(3) have "a_id a \<noteq> a_id b" by (simp add: assetsClash_def)
    with that c [of a b] c [of b a] assetsClash_sym [of a "f b"] show ?thesis by (cases "a_id a = i") auto
  qed
  have "sorted_wrt (\<lambda>a b. \<not> assetsClash a b) (assets d)" using wf by (simp add: wf_fleet_def)
  from sorted_wrt_mono_rel [OF g this] have "sorted_wrt (\<lambda>a b. \<not> assetsClash (?g a) (?g b)) (assets d)" .
  then have "sorted_wrt (\<lambda>a b. \<not> assetsClash a b) (update_where (\<lambda>a. a_id a = i) f (assets d))"
    by (simp add: update_where_def sorted_wrt_map)
  moreover have "\<forall>a \<in> set (update_where (\<lambda>a. a_id a = i) f (assets d)). a_os_type a \<in> set osTypes"
    using assetRowError_os [OF ok] wf by (auto simp: set_update_where wf_fleet_def)
  ultimately show ?thesis by (simp add: wf_fleet_def)
qed

section \<open>The upsert\<close>

lemma db_again: "now (d\<lparr>stmt_no := n\<rparr>) = now d" "d\<lparr>stmt_no := n, stmt_no := m\<rparr> = d\<lparr>stmt_no := m\<rparr>"
  by simp_all

lemma lookupAsset_Inr:
  assumes "lookupAsset P what d = (Inr x, d')"
  shows "x = map_option (\<lambda>a. (a_id a, a_human_id a)) (find P (assets d)) \<and> d' = d\<lparr>stmt_no := Suc (stmt_no d)\<rparr>"
  using assms by (auto simp: lookupAsset_def query_row_def sql_def Let_def split: if_splits option.splits sum.splits prod.splits)

lemma set_map_filter: "set (List.map_filter f xs) = {y. \<exists>x \<in> set xs. f x = Some y}"
  by (force simp: map_filter_def)

lemma map_filter_Nil: "List.map_filter f xs = [] \<longleftrightarrow> (\<forall>x \<in> set xs. f x = None)"
  by (auto simp: map_filter_def filter_empty_conv)

lemma updateClient_Inr:
  assumes "updateClient cs p os meta x d = (Inr y, d')"
  shows "y = x \<and> d' = d\<lparr>stmt_no := Suc (stmt_no d), assets := update_where (\<lambda>a. a_id a = fst x) (reportRow (tp_Hostname p) cs os meta (now d)) (assets d)\<rparr>
    \<and> (\<forall>a \<in> set (assets d). a_id a = fst x \<longrightarrow>
         assetRowError (reportRow (tp_Hostname p) cs os meta (now d) a) (filter (\<lambda>b. a_id b \<noteq> fst x) (assets d)) = None)"
  using assms by (auto simp: updateClient_def updateAssetRow_def sql_def Let_def map_filter_Nil split: if_splits list.splits sum.splits prod.splits)

text \<open>The row of a new client.\<close>

definition clientRow :: "uuid \<Rightarrow> string \<Rightarrow> string \<Rightarrow> TelemetryPayload \<Rightarrow> string \<Rightarrow> json \<Rightarrow> time \<Rightarrow> asset" where
  "clientRow i humanID cs p os meta t =
     \<lparr>a_id = i, a_human_id = humanID, a_display_name = Some (tp_Hostname p), a_hostname = Some (tp_Hostname p),
      a_cert_serial = Some cs, a_os_type = os, a_last_seen = Some t, a_metadata = meta, a_updated_at = t,
      a_operational_status = ''operational'', a_cost_center = '''', a_location = '''', a_compliance_status = ''evaluating'',
      a_compliance_reason = '''', a_quarantine_enabled = False\<rparr>"

definition clientNumbers :: "db \<Rightarrow> nat list" where
  "clientNumbers d = List.map_filter (\<lambda>a. clientNumber (a_human_id a)) (assets d)"

lemma fold_max_ge: "n \<in> set ns \<Longrightarrow> n \<le> fold max ns (k :: nat)"
proof (induction ns arbitrary: k)
  case (Cons m ns)
  have "k \<le> fold max ns k" for k :: nat by (induction ns arbitrary: k) (auto intro: order_trans [OF max.cobounded2])
  from this [of "max m k"] Cons show ?case by (auto intro: order_trans)
qed simp

lemma insertClient_Inr:
  assumes "insertClient cs p os meta d = (Inr y, d')"
  shows "\<exists>n row. y = (random_uuid d, ''arx-c-'' @ nat_str n) \<and> (\<forall>m \<in> set (clientNumbers d). m < n) \<and> n < 2 ^ 63
    \<and> row = clientRow (random_uuid d) (''arx-c-'' @ nat_str n) cs p os meta (now d) \<and> assetRowError row (assets d) = None
    \<and> d' = d\<lparr>stmt_no := Suc (Suc (stmt_no d)), uuid_next := Suc (uuid_next d), assets := assets d @ [row]\<rparr>"
proof -
  let ?n = "fold max (clientNumbers d) 0 + 1"
  have lt: "\<forall>m \<in> set (clientNumbers d). m < ?n" using fold_max_ge by (simp add: less_Suc_eq_le)
  from assms have n: "nextClientNumber d = (Inr ?n, d\<lparr>stmt_no := Suc (stmt_no d)\<rparr>)" "?n < 2 ^ 63"
    by (auto simp: insertClient_def nextClientNumber_def clientNumbers_def sql_def Let_def split: if_splits prod.splits sum.splits)
  with assms lt show ?thesis
    by (intro exI [of _ ?n] exI [of _ "clientRow (random_uuid d) (''arx-c-'' @ nat_str ?n) cs p os meta (now d)"])
      (auto simp: insertClient_def insertAssetRow_def clientRow_def sql_def Let_def random_uuid_def uuid_used_def
        split: if_splits prod.splits sum.splits option.splits)
qed

text \<open>Which row a report goes to: the one with the serial, else the one with the host name.\<close>

definition reportTarget :: "string \<Rightarrow> string \<Rightarrow> db \<Rightarrow> asset option" where
  "reportTarget cs host d = (case find (hasSerial cs) (assets d) of Some a \<Rightarrow> Some a | None \<Rightarrow> find (hasHostname host) (assets d))"

lemma upsertBody_Inr:
  assumes "upsertBody L cs p os d = (Inr y, d')"
  shows "\<exists>n. (case reportTarget cs (tp_Hostname p) d of
       Some a \<Rightarrow> updateClient cs p os (metaPatch L (now d) p os) (a_id a, a_human_id a) (d\<lparr>stmt_no := n\<rparr>) = (Inr y, d')
     | None \<Rightarrow> insertClient cs p os (metaPatch L (now d) p os) (d\<lparr>stmt_no := n\<rparr>) = (Inr y, d'))"
proof -
  let ?d1 = "d\<lparr>stmt_no := Suc (stmt_no d)\<rparr>"
  from assms have nf: "\<not> fault_at d (stmt_no d)" by (auto simp: upsertBody_def nop_def sql_def split: if_splits)
  have e: "rbind (lookupAsset (hasSerial cs) ''cert_serial'' ?d1) (\<lambda>found d.
      rbind (case found of Some x \<Rightarrow> (Inr (Some x), d) | None \<Rightarrow> lookupAsset (hasHostname (tp_Hostname p)) ''hostname'' d) (\<lambda>found d.
      case found of None \<Rightarrow> insertClient cs p os (metaPatch L (now ?d1) p os) d
        | Some x \<Rightarrow> updateClient cs p os (metaPatch L (now ?d1) p os) x d)) = (Inr y, d')" (is "rbind ?r ?k = _")
    using assms nf by (simp add: upsertBody_def nop_def sql_def Let_def)
  obtain x d2 where x: "?r = (Inr x, d2)" "?k x d2 = (Inr y, d')"
    using e by (cases ?r; cases "fst ?r") (auto simp: rbind_def)
  note x1 = lookupAsset_Inr [OF x(1)]
  show ?thesis
  proof (cases "find (hasSerial cs) (assets d)")
    case (Some a)
    with x x1 show ?thesis by (auto simp: reportTarget_def intro!: exI [of _ "Suc (Suc (stmt_no d))"])
  next
    case None
    let ?r2 = "lookupAsset (hasHostname (tp_Hostname p)) ''hostname'' d2"
    from None x1 have "x = None" by simp
    with x(2) obtain z d3 where z: "?r2 = (Inr z, d3)"
      "(case z of None \<Rightarrow> insertClient cs p os (metaPatch L (now ?d1) p os) d3
        | Some x \<Rightarrow> updateClient cs p os (metaPatch L (now ?d1) p os) x d3) = (Inr y, d')"
      by (cases ?r2; cases "fst ?r2") (auto simp: rbind_def)
    with None x1 lookupAsset_Inr [OF z(1)] show ?thesis by (auto simp: reportTarget_def intro!: exI [of _ "Suc (Suc (Suc (stmt_no d)))"] split: option.splits)
  qed
qed

text \<open>The table after a report: the row it went to and the row it became.\<close>

definition reported :: "string \<Rightarrow> TelemetryPayload \<Rightarrow> string \<Rightarrow> uuid \<Rightarrow> string \<Rightarrow> db \<Rightarrow> asset list \<Rightarrow> bool" where
  "reported cs p os i h d as \<longleftrightarrow>
     (\<exists>a \<in> set as. a_id a = i \<and> a_human_id a = h \<and> a_cert_serial a = Some cs \<and> a_hostname a = Some (tp_Hostname p)
        \<and> a_os_type a = os \<and> a_last_seen a = Some (now d))
     \<and> filter (\<lambda>b. a_id b \<noteq> i) as = filter (\<lambda>b. a_id b \<noteq> i) (assets d)
     \<and> (case reportTarget cs (tp_Hostname p) d of
          Some b \<Rightarrow> i = a_id b \<and> h = a_human_id b
        | None \<Rightarrow> i \<notin> a_id ` set (assets d) \<and> (\<exists>n. h = ''arx-c-'' @ nat_str n \<and> (\<forall>m \<in> set (clientNumbers d). m < n)))"

lemma reportTarget_mem: "reportTarget cs host d = Some a \<Longrightarrow> a \<in> set (assets d)"
  by (auto simp: reportTarget_def find_Some_iff split: option.splits)

lemma reportRow_simps [simp]:
  "a_id (reportRow host cs os meta t a) = a_id a" "a_human_id (reportRow host cs os meta t a) = a_human_id a"
  "a_hostname (reportRow host cs os meta t a) = Some host" "a_cert_serial (reportRow host cs os meta t a) = Some cs"
  "a_os_type (reportRow host cs os meta t a) = os" "a_last_seen (reportRow host cs os meta t a) = Some t"
  by (simp_all add: reportRow_def)

lemma filter_update_other: "filter (\<lambda>b. k b \<noteq> i) (update_where (\<lambda>a. k a = i) f xs) = filter (\<lambda>b. k b \<noteq> i) xs"
  if "\<And>a. k (f a) = k a"
  using that by (induction xs) (auto simp: update_where_def)

lemma upsert_Inr:
  assumes wf: "wf_fleet d" and up: "upsertAssetFromTelemetry L cs p os d = (Inr (i, h), d')"
  shows "wf_fleet d' \<and> reported cs p os i h d (assets d')
    \<and> (\<exists>n u. d' = d\<lparr>stmt_no := n, uuid_next := u, assets := assets d'\<rparr>)"
proof -
  let ?meta = "metaPatch L (now d) p os"
  from transaction_Inr [OF up [unfolded upsertAssetFromTelemetry_def]] obtain d1 where
    b: "upsertBody L cs p os (d\<lparr>stmt_no := Suc (stmt_no d)\<rparr>) = (Inr (i, h), d1)" and d': "d' = d1\<lparr>stmt_no := Suc (stmt_no d1)\<rparr>" by blast
  have t: "reportTarget cs (tp_Hostname p) (d\<lparr>stmt_no := n\<rparr>) = reportTarget cs (tp_Hostname p) d" for n by (simp add: reportTarget_def split: option.split)
  from upsertBody_Inr [OF b] obtain n where
    c: "case reportTarget cs (tp_Hostname p) d of
         Some a \<Rightarrow> updateClient cs p os ?meta (a_id a, a_human_id a) (d\<lparr>stmt_no := n\<rparr>) = (Inr (i, h), d1)
       | None \<Rightarrow> insertClient cs p os ?meta (d\<lparr>stmt_no := n\<rparr>) = (Inr (i, h), d1)" unfolding t db_again by auto
  show ?thesis
  proof (cases "reportTarget cs (tp_Hostname p) d")
    case (Some a)
    let ?f = "reportRow (tp_Hostname p) cs os ?meta (now d)"
    from updateClient_Inr [of cs p os ?meta "(a_id a, a_human_id a)" "d\<lparr>stmt_no := n\<rparr>" "(i, h)" d1] c Some
    have u: "i = a_id a" "h = a_human_id a" "d1 = d\<lparr>stmt_no := Suc n, assets := update_where (\<lambda>b. a_id b = i) ?f (assets d)\<rparr>"
      "\<And>b. b \<in> set (assets d) \<Longrightarrow> a_id b = i \<Longrightarrow> assetRowError (?f b) (filter (\<lambda>b. a_id b \<noteq> i) (assets d)) = None" by auto
    have "wf_fleet (d\<lparr>assets := update_where (\<lambda>b. a_id b = i) ?f (assets d)\<rparr>)" by (rule wf_fleet_update [OF wf _ u(4)]) simp_all
    then have "wf_fleet d'" by (simp add: d' u(3) wf_fleet_def)
    moreover have "?f a \<in> set (assets d')" using reportTarget_mem [OF Some] by (auto simp: d' u(3) set_update_where u(1))
    then have "reported cs p os i h d (assets d')" unfolding reported_def Some
      by (auto simp: d' u(1,2) u(3) filter_update_other intro!: bexI [of _ "?f a"])
    moreover have "d' = d\<lparr>stmt_no := Suc (Suc n), uuid_next := uuid_next d, assets := assets d'\<rparr>" by (simp add: d' u(3))
    ultimately show ?thesis by blast
  next
    case None
    with c have "insertClient cs p os ?meta (d\<lparr>stmt_no := n\<rparr>) = (Inr (i, h), d1)" by simp
    from insertClient_Inr [OF this] obtain m row where
      e: "(i, h) = (random_uuid (d\<lparr>stmt_no := n\<rparr>), ''arx-c-'' @ nat_str m)" "\<forall>k \<in> set (clientNumbers (d\<lparr>stmt_no := n\<rparr>)). k < m"
        "row = clientRow (random_uuid (d\<lparr>stmt_no := n\<rparr>)) (''arx-c-'' @ nat_str m) cs p os ?meta (now (d\<lparr>stmt_no := n\<rparr>))"
        "assetRowError row (assets (d\<lparr>stmt_no := n\<rparr>)) = None"
        "d1 = d\<lparr>stmt_no := n, stmt_no := Suc (Suc (stmt_no (d\<lparr>stmt_no := n\<rparr>))), uuid_next := Suc (uuid_next (d\<lparr>stmt_no := n\<rparr>)),
           assets := assets (d\<lparr>stmt_no := n\<rparr>) @ [row]\<rparr>" by blast
    have r: "h = ''arx-c-'' @ nat_str m" "\<forall>k \<in> set (clientNumbers d). k < m" "row = clientRow i h cs p os ?meta (now d)"
        "assetRowError row (assets d) = None"
      and d1: "d1 = d\<lparr>stmt_no := Suc (Suc n), uuid_next := Suc (uuid_next d), assets := assets d @ [row]\<rparr>"
      using e by (simp_all add: clientNumbers_def)
    have "wf_fleet d'" using wf_fleet_append [OF wf r(4)] by (simp add: d' d1 wf_fleet_def)
    moreover have "i \<notin> a_id ` set (assets d)"
      using r(3,4) by (auto simp: assetRowError_def list_ex_iff assetsClash_def clientRow_def split: if_splits)
    then have "reported cs p os i h d (assets d')" unfolding reported_def None
      using r by (auto simp: d' d1 clientRow_def filter_id_conv)
    moreover have "d' = d\<lparr>stmt_no := Suc (Suc (Suc n)), uuid_next := Suc (uuid_next d), assets := assets d'\<rparr>" by (simp add: d' d1)
    ultimately show ?thesis by blast
  qed
qed

text \<open>C30: a report of an agent, accepted or not, keeps the identities of the assets: no two rows share an
  id, a \<open>human_id\<close>, a host name or a certificate serial. A failed report changes no table. An accepted one concerns exactly
  one row, which then carries the serial, the host name, the system and the time of the report: the row with
  the serial, else the row with the host name, else a new row, whose \<open>arx-c\<close> number exceeds every other.\<close>

theorem telemetry_report:
  assumes "wf_fleet d" and "upsertAssetFromTelemetry L cs p os d = (r, d')"
  shows "wf_fleet d' \<and> (case r of Inl e \<Rightarrow> same_tables d d' | Inr (i, h) \<Rightarrow> reported cs p os i h d (assets d'))"
proof (cases r)
  case (Inl e)
  have "same_tables d d'" by (rule transaction_Inl [OF assms(2) [unfolded Inl upsertAssetFromTelemetry_def]])
  with Inl assms(1) table_invD [OF table_inv_fleet] show ?thesis by auto
next
  case (Inr y)
  with assms upsert_Inr show ?thesis by (cases y) auto
qed

section \<open>What the steps after the upsert change\<close>

text \<open>An asset without the columns of the compliance engine, and the frame of its evaluation.\<close>

definition assetCore :: "asset \<Rightarrow> asset" where
  "assetCore a = a\<lparr>a_compliance_status := '''', a_compliance_reason := '''', a_quarantine_enabled := False, a_updated_at := 0\<rparr>"

definition verdictFrame :: "db \<Rightarrow> db \<Rightarrow> bool" where
  "verdictFrame d d' \<longleftrightarrow> map assetCore (assets d') = map assetCore (assets d)
     \<and> d' = d\<lparr>stmt_no := stmt_no d', uuid_next := uuid_next d', device_commands := device_commands d', assets := assets d'\<rparr>"

lemma verdictFrame_refl [simp]: "verdictFrame d d" "verdictFrame d (d\<lparr>stmt_no := n\<rparr>)"
  by (simp_all add: verdictFrame_def)

lemma verdictFrame_trans [trans]: "verdictFrame d d' \<Longrightarrow> verdictFrame d' d'' \<Longrightarrow> verdictFrame d d''"
  by (cases d, cases d', cases d'') (simp add: verdictFrame_def)

lemma verdictFrame_fields:
  assumes "verdictFrame d d'"
  shows "android_policies d' = android_policies d" "active_alerts d' = active_alerts d" "now d' = now d" "fault_at d' = fault_at d"
    "configuration_profiles d' = configuration_profiles d" "device_metrics d' = device_metrics d"
proof -
  have e: "d' = d\<lparr>stmt_no := stmt_no d', uuid_next := uuid_next d', device_commands := device_commands d', assets := assets d'\<rparr>"
    using assms by (simp only: verdictFrame_def)
  show "android_policies d' = android_policies d" by (subst e) simp
  show "active_alerts d' = active_alerts d" by (subst e) simp
  show "now d' = now d" by (subst e) simp
  show "fault_at d' = fault_at d" by (subst e) simp
  show "configuration_profiles d' = configuration_profiles d" by (subst e) simp
  show "device_metrics d' = device_metrics d" by (subst e) simp
qed

lemma map_core_update: "(\<And>a. assetCore (f a) = assetCore a) \<Longrightarrow> map assetCore (update_where P f as) = map assetCore as"
  by (simp add: update_where_def)

lemma verdictFrame_steps [simp]:
  "verdictFrame d (d\<lparr>stmt_no := n, uuid_next := u\<rparr>)" "verdictFrame d (d\<lparr>stmt_no := n, device_commands := cs\<rparr>)"
  "verdictFrame d (d\<lparr>stmt_no := n, uuid_next := u, device_commands := cs\<rparr>)"
  by (simp_all add: verdictFrame_def)

lemma verdictFrame_assets:
  "(\<And>a. assetCore (f a) = assetCore a) \<Longrightarrow> verdictFrame d (d\<lparr>stmt_no := n, assets := update_where P f (assets d)\<rparr>)"
  by (simp add: verdictFrame_def map_core_update)

lemma verdictFrame_Insert: "verdictFrame d (snd (InsertDeviceCommand dev ct pl inc d))"
  by (simp add: InsertDeviceCommand_def insertCommandRow_def uuid_used_def sql_def Let_def split: option.split)

lemma verdictFrame_Sent: "verdictFrame d (snd (MarkDeviceCommandSent c d))"
  by (simp add: MarkDeviceCommandSent_def updateDeviceCommandStatus_def sql_def Let_def split: option.split)

lemmas verdictFrame_commands = verdictFrame_Insert verdictFrame_Sent

lemma verdictFrame_columns:
  "verdictFrame d (snd (SetAssetCompliance i st reason d))" "verdictFrame d (snd (SetAssetQuarantineEnabled i b d))"
proof -
  have "verdictFrame d (d\<lparr>stmt_no := n, assets := update_where P (\<lambda>a. a\<lparr>a_compliance_status := s, a_compliance_reason := x, a_updated_at := t\<rparr>) (assets d)\<rparr>)"
    for n P s x t by (rule verdictFrame_assets) (simp add: assetCore_def)
  then show "verdictFrame d (snd (SetAssetCompliance i st reason d))" by (simp add: SetAssetCompliance_def sql_def Let_def)
  show "verdictFrame d (snd (SetAssetQuarantineEnabled i b d))"
    using verdictFrame_assets [of "\<lambda>a. a\<lparr>a_quarantine_enabled := b, a_updated_at := now d\<rparr>"]
    by (simp add: SetAssetQuarantineEnabled_def sql_def Let_def assetCore_def)
qed

lemma verdictFrame_autoQuarantine: "verdictFrame d (fst (autoQuarantine L D i cs (d, w)))"
proof -
  let ?p = "BuildQuarantinePayloadJSON L True"
  obtain r d1 where r: "InsertDeviceCommand i ''quarantine'' ?p None d = (r, d1)" by fastforce
  then have 1: "verdictFrame d d1" using verdictFrame_commands(1) [of d i "''quarantine''" ?p None] by simp
  let ?d2 = "snd (SetAssetQuarantineEnabled i True d1)"
  have 2: "verdictFrame d ?d2" by (rule verdictFrame_trans [OF 1 verdictFrame_columns(2)])
  have 3: "verdictFrame d (snd (MarkDeviceCommandSent c ?d2))" for c by (rule verdictFrame_trans [OF 2 verdictFrame_commands(2)])
  from r 1 2 3 show ?thesis by (cases r) (auto simp: autoQuarantine_def Let_def split: prod.splits)
qed

lemma verdictFrame_evaluate:
  assumes "EvaluateAfterTelemetry L D i cs pk enf (d, w) = (r, d', w')"
  shows "verdictFrame d d'"
proof -
  obtain n where u: "EvaluateAfterTelemetry L D i cs pk enf (d, w) = evaluateTail L D i cs pk enf d w n"
    using EvaluateAfterTelemetry_unfold [of L D i cs pk enf d w] by auto
  have s: "verdictFrame d (snd (SetAssetCompliance i st reason (d\<lparr>stmt_no := n\<rparr>)))" for st reason
    by (rule verdictFrame_trans [OF _ verdictFrame_columns(1)]) simp
  have t: "verdictFrame d d1 \<Longrightarrow> verdictFrame d (d1\<lparr>stmt_no := m\<rparr>)" for d1 m by (erule verdictFrame_trans) simp
  have q: "verdictFrame d d1 \<Longrightarrow> autoQuarantine L D i cs (d1\<lparr>stmt_no := m\<rparr>, w) = (d', w') \<Longrightarrow> verdictFrame d d'" for d1 m
    using verdictFrame_trans [OF t verdictFrame_autoQuarantine [of "d1\<lparr>stmt_no := m\<rparr>" L D i cs w]] by auto
  show ?thesis
  proof (cases "complianceVerdict (prevStatusOf i d) (hasCriticalOf L i pk (d\<lparr>stmt_no := Suc (stmt_no d)\<rparr>)) enf")
    case None
    with assms u show ?thesis by (auto simp: evaluateTail_def)
  next
    case (Some v)
    obtain st reason where v: "v = (st, reason)" by fastforce
    obtain res d1 where r: "SetAssetCompliance i st reason (d\<lparr>stmt_no := n\<rparr>) = (res, d1)" by fastforce
    then have "verdictFrame d d1" using s [of st reason] by simp
    with assms u Some v r t q show ?thesis by (cases res) (auto simp: evaluateTail_def split: if_splits)
  qed
qed

lemma evaluate_ok:
  assumes up: "\<forall>n. \<not> fault_at d n"
  shows "fst (EvaluateAfterTelemetry L D i cs pk enf (d, w)) = Inr ()"
proof -
  obtain n where u: "EvaluateAfterTelemetry L D i cs pk enf (d, w) = evaluateTail L D i cs pk enf d w n"
    using EvaluateAfterTelemetry_unfold [of L D i cs pk enf d w] by auto
  have v: "TrimSpace (ToLower st) \<in> {''compliant'', ''non_compliant'', ''evaluating''}"
    if "complianceVerdict ps crit enf = Some (st, reason)" for ps crit st reason
  proof (cases enf)
    case None
    have "TrimSpace (ToLower ''evaluating'') = ''evaluating''" by code_simp
    with that None show ?thesis by (auto simp: complianceVerdict_def split: if_splits)
  next
    case (Some e)
    with verdict_values [of ps crit e st reason] that show ?thesis by auto
  qed
  have "\<exists>d1. SetAssetCompliance i st reason (d\<lparr>stmt_no := n\<rparr>) = (Inr (), d1)"
    if "complianceVerdict ps crit enf = Some (st, reason)" for ps crit st reason
    using v [OF that] up unfolding SetAssetCompliance_def Let_def sql_def by simp
  then show ?thesis unfolding u evaluateTail_def
    by (cases "complianceVerdict (prevStatusOf i d) (hasCriticalOf L i pk (d\<lparr>stmt_no := Suc (stmt_no d)\<rparr>)) enf") fastforce+
qed

section \<open>Without faults a report is accepted\<close>

lemma deriveAssetOsType_range: "deriveAssetOsType p \<in> set osTypes"
  by (simp add: deriveAssetOsType_def Let_def osTypes_def)

lemma osType_plain:
  assumes "os \<in> set osTypes"
  shows "ToLower (TrimSpace os) = os" "EqualFold (TrimSpace os) ''android'' = (os = ''android'')" "os \<noteq> ''''"
proof -
  have "list_all (\<lambda>os. ToLower (TrimSpace os) = os \<and> EqualFold (TrimSpace os) ''android'' = (os = ''android'') \<and> os \<noteq> '''') osTypes"
    by code_simp
  with assms show "ToLower (TrimSpace os) = os" "EqualFold (TrimSpace os) ''android'' = (os = ''android'')" "os \<noteq> ''''"
    by (auto simp: list_all_iff)
qed

lemma lookupAsset_ok:
  "\<not> fault_at d (stmt_no d) \<Longrightarrow>
     lookupAsset P what d = (Inr (map_option (\<lambda>a. (a_id a, a_human_id a)) (find P (assets d))), d\<lparr>stmt_no := Suc (stmt_no d)\<rparr>)"
  by (auto simp: lookupAsset_def query_row_def sql_def Let_def split: option.split)

lemma upsertBody_ok:
  assumes up: "\<forall>n. \<not> fault_at d n"
  shows "\<exists>n. upsertBody L cs p os d =
    (case reportTarget cs (tp_Hostname p) d of
       Some a \<Rightarrow> updateClient cs p os (metaPatch L (now d) p os) (a_id a, a_human_id a) (d\<lparr>stmt_no := n\<rparr>)
     | None \<Rightarrow> insertClient cs p os (metaPatch L (now d) p os) (d\<lparr>stmt_no := n\<rparr>))"
proof (cases "find (hasSerial cs) (assets d)")
  case None
  then show ?thesis using up
    by (intro exI [of _ "Suc (Suc (Suc (stmt_no d)))"])
      (simp add: upsertBody_def nop_def sql_def Let_def lookupAsset_ok reportTarget_def split: option.split)
next
  case (Some a)
  then show ?thesis using up
    by (intro exI [of _ "Suc (Suc (stmt_no d))"]) (simp add: upsertBody_def nop_def sql_def Let_def lookupAsset_ok reportTarget_def)
qed

text \<open>The reports the tables admit: the host name is not that of another row, and for a new row an unused
  identifier and a number within \<open>bigint\<close>.\<close>

definition admissible :: "string \<Rightarrow> string \<Rightarrow> db \<Rightarrow> bool" where
  "admissible cs host d \<longleftrightarrow>
     (case reportTarget cs host d of
        Some a \<Rightarrow> \<forall>b \<in> set (assets d). a_hostname b = Some host \<longrightarrow> a_id b = a_id a
      | None \<Rightarrow> random_uuid d \<notin> a_id ` set (assets d) \<and> (\<forall>n \<in> set (clientNumbers d). n < 2 ^ 63 - 1))"

lemma clientNumber_str: "clientNumber (''arx-c-'' @ nat_str n) = Some n"
  by (simp add: clientNumber_def)

lemma reportTarget_serial:
  assumes "wf_fleet d" and "reportTarget cs host d = Some a" and "b \<in> set (assets d)" and "a_cert_serial b = Some cs" and "cs \<noteq> ''''"
  shows "b = a"
proof -
  have "find (hasSerial cs) (assets d) \<noteq> None" using assms(3,4) by (auto simp: find_None_iff hasSerial_def)
  with assms(2) have "find (hasSerial cs) (assets d) = Some a" by (auto simp: reportTarget_def split: option.splits)
  then have "a \<in> set (assets d)" "a_cert_serial a = Some cs" by (auto simp: find_Some_iff hasSerial_def)
  with assms show ?thesis by (intro wf_fleet_eq [of d]) (simp_all add: assetsClash_def named_def)
qed

lemma updateClient_ok:
  assumes up: "\<forall>n. \<not> fault_at d n" and wf: "wf_fleet d" and t: "reportTarget cs (tp_Hostname p) d = Some a"
    and ok: "admissible cs (tp_Hostname p) d" and os: "os \<in> set osTypes" and cs: "cs \<noteq> ''''"
  shows "\<exists>d'. updateClient cs p os meta (a_id a, a_human_id a) d = (Inr (a_id a, a_human_id a), d')"
proof -
  let ?f = "reportRow (tp_Hostname p) cs os meta (now d)"
  have "assetRowError (?f b) (filter (\<lambda>b. a_id b \<noteq> a_id a) (assets d)) = None" if b: "b \<in> set (assets d)" "a_id b = a_id a" for b
  proof -
    have "b = a" using wf_fleet_eq [OF wf b(1) reportTarget_mem [OF t]] b(2) by (simp add: assetsClash_def)
    have "\<not> assetsClash (?f a) c" if c: "c \<in> set (assets d)" "a_id c \<noteq> a_id a" for c
    proof -
      have "a_human_id a \<noteq> a_human_id c" using wf_fleet_eq [OF wf reportTarget_mem [OF t] c(1)] c(2) by (auto simp: assetsClash_def)
      moreover have "a_hostname c \<noteq> Some (tp_Hostname p)" using ok t c by (auto simp: admissible_def)
      moreover have "a_cert_serial c \<noteq> Some cs" using reportTarget_serial [OF wf t c(1) _ cs] c(2) by auto
      ultimately show ?thesis using c(2) by (auto simp: assetsClash_def)
    qed
    with \<open>b = a\<close> os show ?thesis by (auto simp: assetRowError_def list_ex_iff)
  qed
  then have "List.map_filter (\<lambda>b. assetRowError (?f b) (filter (\<lambda>b. a_id b \<noteq> a_id a) (assets d))) (filter (\<lambda>b. a_id b = a_id a) (assets d)) = []"
    by (simp add: map_filter_Nil)
  then show ?thesis using up by (simp add: updateClient_def updateAssetRow_def sql_def Let_def)
qed

lemma fold_max_less: "\<forall>n \<in> set ns. n < k \<Longrightarrow> j < k \<Longrightarrow> fold max ns j < (k :: nat)"
  by (induction ns arbitrary: j) auto

lemma insertClient_ok:
  assumes up: "\<forall>n. \<not> fault_at d n" and t: "reportTarget cs (tp_Hostname p) d = None"
    and ok: "admissible cs (tp_Hostname p) d" and os: "os \<in> set osTypes"
  shows "\<exists>y d'. insertClient cs p os meta d = (Inr y, d')"
proof -
  let ?n = "fold max (clientNumbers d) 0 + 1" and ?d1 = "d\<lparr>stmt_no := Suc (stmt_no d)\<rparr>"
  from ok t have small: "\<forall>n \<in> set (clientNumbers d). n < 2 ^ 63 - 1" and id: "random_uuid d \<notin> a_id ` set (assets d)"
    by (simp_all add: admissible_def)
  have "\<not> (\<exists>n \<in> set (clientNumbers d). 2 ^ 63 \<le> n)" "\<not> 2 ^ 63 \<le> ?n" using small fold_max_less [OF small, of 0] by force+
  with up have n: "nextClientNumber d = (Inr ?n, ?d1)" by (simp add: nextClientNumber_def clientNumbers_def sql_def Let_def)
  have "\<not> assetsClash (clientRow (random_uuid d) (''arx-c-'' @ nat_str ?n) cs p os meta (now d)) b" if b: "b \<in> set (assets d)" for b
  proof -
    have "a_human_id b \<noteq> ''arx-c-'' @ nat_str ?n"
    proof
      assume "a_human_id b = ''arx-c-'' @ nat_str ?n"
      then have "clientNumber (a_human_id b) = Some ?n" by (simp only: clientNumber_str)
      with b have "?n \<in> set (clientNumbers d)" unfolding clientNumbers_def set_map_filter by blast
      from fold_max_ge [OF this, of 0] show False by simp
    qed
    moreover have "a_hostname b \<noteq> Some (tp_Hostname p)" "a_cert_serial b \<noteq> Some cs"
      using t b by (auto simp: reportTarget_def find_None_iff hasSerial_def hasHostname_def split: option.splits)
    ultimately show ?thesis using id b by (force simp: assetsClash_def clientRow_def)
  qed
  then have "assetRowError (clientRow (random_uuid d) (''arx-c-'' @ nat_str ?n) cs p os meta (now d)) (assets d) = None"
    using os by (auto simp: assetRowError_def list_ex_iff clientRow_def)
  then show ?thesis using up
    by (simp add: insertClient_def n insertAssetRow_def sql_def Let_def clientRow_def random_uuid_def)
qed

lemma upsertAsset_ok:
  assumes up: "\<forall>n. \<not> fault_at d n" and wf: "wf_fleet d" and ok: "admissible cs (tp_Hostname p) d" and os: "os \<in> set osTypes" and cs: "cs \<noteq> ''''"
  shows "\<exists>i h d'. upsertAssetFromTelemetry L cs p os d = (Inr (i, h), d')"
proof -
  have rt: "reportTarget cs host (d\<lparr>stmt_no := n\<rparr>) = reportTarget cs host d" for n host by (simp add: reportTarget_def split: option.split)
  then have st: "admissible cs host (d\<lparr>stmt_no := n\<rparr>) = admissible cs host d" "wf_fleet (d\<lparr>stmt_no := n\<rparr>) = wf_fleet d" for n host
    by (simp_all add: admissible_def clientNumbers_def random_uuid_def wf_fleet_def split: option.split)
  note st = st rt
  let ?d0 = "d\<lparr>stmt_no := Suc (stmt_no d)\<rparr>"
  obtain n where b: "upsertBody L cs p os ?d0 =
    (case reportTarget cs (tp_Hostname p) d of
       Some a \<Rightarrow> updateClient cs p os (metaPatch L (now d) p os) (a_id a, a_human_id a) (d\<lparr>stmt_no := n\<rparr>)
     | None \<Rightarrow> insertClient cs p os (metaPatch L (now d) p os) (d\<lparr>stmt_no := n\<rparr>))"
    using upsertBody_ok [of ?d0 L cs p os] up unfolding rt db_again by auto
  have "\<exists>y d1. upsertBody L cs p os ?d0 = (Inr y, d1)"
  proof (cases "reportTarget cs (tp_Hostname p) d")
    case None
    with insertClient_ok [of "d\<lparr>stmt_no := n\<rparr>" cs p os] up ok os show ?thesis by (simp add: b st)
  next
    case (Some a)
    with updateClient_ok [of "d\<lparr>stmt_no := n\<rparr>" cs p a os "metaPatch L (now d) p os"] up wf ok os cs show ?thesis by (auto simp: b st)
  qed
  then obtain i h d1 where r: "upsertBody L cs p os ?d0 = (Inr (i, h), d1)" by auto
  have "fault_at d1 = fault_at d"
  proof (cases "reportTarget cs (tp_Hostname p) d")
    case None
    with insertClient_Inr [of cs p os "metaPatch L (now d) p os" "d\<lparr>stmt_no := n\<rparr>" "(i, h)" d1] b r show ?thesis by auto
  next
    case (Some a)
    with updateClient_Inr [of cs p os "metaPatch L (now d) p os" "(a_id a, a_human_id a)" "d\<lparr>stmt_no := n\<rparr>" "(i, h)" d1] b r show ?thesis by auto
  qed
  from transaction_ok [where body = "upsertBody L cs p os", OF up r this] show ?thesis unfolding upsertAssetFromTelemetry_def by blast
qed

section \<open>The answer\<close>

lemma appendProfileWIRE_ok: "\<forall>r \<in> set rs. ap_Payload_raw r \<noteq> RawInvalid \<Longrightarrow> \<exists>ws. appendProfileWIRE L rs = Inr ws"
  by (induction rs) (auto simp: Let_def split: raw_json.split)

definition payloadsDecode :: "db \<Rightarrow> bool" where
  "payloadsDecode d \<longleftrightarrow> (\<forall>cp \<in> set (configuration_profiles d). cf_payload cp \<noteq> RawInvalid)"

lemma assignedProfiles_sub: "set (assignedProfiles i p d) \<subseteq> set (configuration_profiles d)"
  by (auto simp: assignedProfiles_def)

lemma BuildMDMProfilesWireForAsset_ok:
  assumes up: "\<forall>n. \<not> fault_at d n" and pl: "payloadsDecode d" and os: "os \<in> set osTypes"
  shows "\<exists>ws ms n. BuildMDMProfilesWireForAsset L i os d = (Inr (ws, ms), d\<lparr>stmt_no := n\<rparr>)"
proof -
  let ?rows = "map (\<lambda>cp. \<lparr>ap_ID = cf_id cp, ap_Name = cf_name cp, ap_Type = cf_type cp, ap_Payload_raw = cf_payload cp, ap_Platform = cf_platform cp\<rparr>)
    (assignedProfiles i os (d\<lparr>stmt_no := Suc (stmt_no d)\<rparr>))"
  have l: "ListAssignedProfilesForAsset i os d = (Inr ?rows, d\<lparr>stmt_no := Suc (stmt_no d)\<rparr>)"
    using up osType_plain [OF os] by (simp add: ListAssignedProfilesForAsset_def query_def sql_def Let_def)
  have "\<forall>r \<in> set ?rows. ap_Payload_raw r \<noteq> RawInvalid"
    using pl assignedProfiles_sub [of i os "d\<lparr>stmt_no := Suc (stmt_no d)\<rparr>"] by (auto simp: payloadsDecode_def)
  from appendProfileWIRE_ok [OF this] obtain ws where ws: "appendProfileWIRE L ?rows = Inr ws" by blast
  have m: "\<exists>ms. ListManagedAndroidConfigurationsForDevice i (d\<lparr>stmt_no := Suc (stmt_no d)\<rparr>) = (Inr ms, d\<lparr>stmt_no := Suc (Suc (stmt_no d))\<rparr>)"
    using up by (simp add: ListManagedAndroidConfigurationsForDevice_def query_def sql_def Let_def)
  then show ?thesis using l ws by (auto simp: BuildMDMProfilesWireForAsset_def intro: exI)
qed

definition currentPolicy :: "uuid \<Rightarrow> db \<Rightarrow> AndroidPolicyWire" where
  "currentPolicy i d = (case policyRow i d of None \<Rightarrow> zeroPolicy | Some r \<Rightarrow> policyWire r)"

lemma loadAndroidPolicy_ok: "\<not> fault_at d (stmt_no d) \<Longrightarrow> loadAndroidPolicy i d = (Inr (currentPolicy i d), d\<lparr>stmt_no := Suc (stmt_no d)\<rparr>)"
  by (auto simp: loadAndroidPolicy_def currentPolicy_def policyRow_def query_row_def sql_def Let_def split: option.split)

text \<open>The policies after the answer has been built: the request to wipe is withdrawn.\<close>

definition wipeCleared :: "uuid \<Rightarrow> db \<Rightarrow> android_policy list" where
  "wipeCleared i d = update_where (\<lambda>r. an_asset_id r = i \<and> an_wipe_requested r) (\<lambda>r. r\<lparr>an_wipe_requested := False, an_updated_at := now d\<rparr>) (android_policies d)"

lemma find_wipeCleared:
  "find (\<lambda>r. an_asset_id r = j) (wipeCleared i d)
     = map_option (\<lambda>r. if an_asset_id r = i \<and> an_wipe_requested r then r\<lparr>an_wipe_requested := False, an_updated_at := now d\<rparr> else r) (policyRow j d)"
  unfolding wipeCleared_def policyRow_def by (rule find_update_where) simp

lemma currentPolicy_wipeCleared:
  "currentPolicy j (d'\<lparr>android_policies := wipeCleared i d\<rparr>)
     = (if j = i then (currentPolicy i d)\<lparr>aw_WipeRequested := False\<rparr> else currentPolicy j d)"
  by (auto simp: currentPolicy_def policyRow_def [of _ "d'\<lparr>android_policies := wipeCleared i d\<rparr>"] find_wipeCleared policyWire_def zeroPolicy_def
      split: option.split) (auto simp: policyRow_def find_Some_iff)

lemma attachPolicies_ok:
  assumes up: "\<forall>n. \<not> fault_at d n" and pl: "payloadsDecode d" and os: "os \<in> set osTypes"
  shows "\<exists>resp n. attachPolicies L i os base d = (Inr resp, d\<lparr>stmt_no := n,
      android_policies := (if os = ''android'' \<and> aw_WipeRequested (currentPolicy i d) then wipeCleared i d else android_policies d)\<rparr>)
    \<and> go_get resp ''android_policy'' = (if os = ''android'' then Some (androidPolicyJson (currentPolicy i d)) else go_get base ''android_policy'')"
proof -
  let ?pols = "if os = ''android'' \<and> aw_WipeRequested (currentPolicy i d) then wipeCleared i d else android_policies d"
  let ?resp = "if os = ''android'' then go_put ''android_policy'' (androidPolicyJson (currentPolicy i d)) base else base"
  have "\<exists>n. AppendAndroidPolicyToTelemetryResponse i os base d = (Inr ?resp, d\<lparr>stmt_no := n, android_policies := ?pols\<rparr>)"
    using up by (auto simp: AppendAndroidPolicyToTelemetryResponse_def osType_plain [OF os] loadAndroidPolicy_ok clearWipe_def wipeCleared_def
        sql_def Let_def intro: exI [of _ "stmt_no d"])
  then obtain n where a: "AppendAndroidPolicyToTelemetryResponse i os base d = (Inr ?resp, d\<lparr>stmt_no := n, android_policies := ?pols\<rparr>)" by blast
  let ?d1 = "d\<lparr>stmt_no := n, android_policies := ?pols\<rparr>"
  from up pl have "\<forall>n. \<not> fault_at ?d1 n" "payloadsDecode ?d1" by (simp_all add: payloadsDecode_def)
  from BuildMDMProfilesWireForAsset_ok [OF this os, of L i] obtain ws ms m where
    b: "BuildMDMProfilesWireForAsset L i os ?d1 = (Inr (ws, ms), ?d1\<lparr>stmt_no := m\<rparr>)" by blast
  have k: "telemetryPlatformKey os = os" using osType_plain [OF os] by (simp add: telemetryPlatformKey_def)
  show ?thesis
    by (intro exI [of _ "(if ms = [] then (if ws = [] then ?resp else go_put ''mdm_profile_revision'' (JStr (profileRevisionStable L ws))
          (go_put ''mdm_configuration_profiles'' (JArr ws) ?resp))
        else go_put ''mdm_managed_app_configs'' (JArr (map managedJson ms)) (if ws = [] then ?resp else go_put ''mdm_profile_revision'' (JStr (profileRevisionStable L ws))
          (go_put ''mdm_configuration_profiles'' (JArr ws) ?resp)))"] exI [of _ m])
      (simp add: attachPolicies_def a AppendMDMDownlink_def k b Let_def update_conv')
qed

section \<open>The whole report\<close>

lemma persistMetric_ok:
  assumes "\<not> fault_at d (stmt_no d)" and "i \<in> a_id ` set (assets d)"
  shows "fst (persistMetric i p d) = Inr ()
    \<and> snd (persistMetric i p d) = d\<lparr>stmt_no := Suc (stmt_no d), device_metrics := device_metrics (snd (persistMetric i p d))\<rparr>"
  using assms by (simp add: persistMetric_def InsertDeviceMetric_def sql_def Let_def)

definition offlineAlertOf :: "uuid \<Rightarrow> active_alert \<Rightarrow> bool" where
  "offlineAlertOf i a \<longleftrightarrow> al_device_id a = Some i \<and> al_alert_kind a \<in> {''builtin_offline'', ''rule_offline''}"

definition openOffline :: "uuid \<Rightarrow> db \<Rightarrow> string list" where
  "openOffline i d = nonEmptyTrimmed (map al_fingerprint (filter (\<lambda>a. al_resolved_at a = None \<and> offlineAlertOf i a) (active_alerts d)))"

lemma heartbeatHook_ok:
  assumes "\<not> fault_at d (stmt_no d)" and "i \<noteq> uuid_Nil"
  shows "heartbeatHook hooks i (d, w) =
    (d\<lparr>stmt_no := Suc (stmt_no d), active_alerts := update_where (\<lambda>a. al_resolved_at a = None \<and> offlineAlertOf i a)
         (\<lambda>a. a\<lparr>al_resolved_at := Some (now d)\<rparr>) (active_alerts d)\<rparr>,
     w\<lparr>sw_spawned := sw_spawned w @ (if openOffline i d = [] \<or> \<not> hooks then [] else [OnResolved (dedupeFingerprints (openOffline i d))])\<rparr>)"
  using assms by (simp add: heartbeatHook_def OnHeartbeat_def ResolveActiveAlertsKindsForDeviceReturning_def resolveAlertsWhere_def sql_def Let_def
      openOffline_def offlineAlertOf_def)

lemma MarshalTelemetryUpdate_state: "\<exists>n. snd (MarshalTelemetryUpdate L H cs h i p d) = d\<lparr>stmt_no := n\<rparr>"
proof -
  obtain res d1 where g: "GetAssetCompliance i d = (res, d1)" by fastforce
  then have "d1 = d\<lparr>stmt_no := Suc (stmt_no d)\<rparr>" using GetAssetCompliance_state [of i d] by simp
  with g have "snd (MarshalTelemetryUpdate L H cs h i p d) = d\<lparr>stmt_no := if i = uuid_Nil then stmt_no d else Suc (stmt_no d)\<rparr>"
    unfolding MarshalTelemetryUpdate_def Let_def by (cases res) simp_all
  then show ?thesis by blast
qed

lemma onTelemetryAccepted_ok:
  "\<exists>n dash. onTelemetryAccepted L cs h i p (d, w) = (d\<lparr>stmt_no := n\<rparr>, w\<lparr>sw_dash := dash\<rparr>)"
  using MarshalTelemetryUpdate_state [of L "sw_hub w" cs h i p d] by (auto simp: onTelemetryAccepted_def split: prod.split)

lemma autoQuarantine_world:
  assumes "\<And>cs m w. g (snd (f cs m w)) = g w" and "autoQuarantine L (Some f) i cs (d, w) = (d', w')"
  shows "g w' = g w"
  using assms(2) assms(1) [of cs] by (auto simp: autoQuarantine_def Let_def split: prod.splits sum.splits if_splits) (metis snd_conv)+

lemma evaluate_world:
  assumes "EvaluateAfterTelemetry L (Some complianceDispatch) i cs pk enf (d, w) = (r, d', w')"
  shows "sw_spawned w' = sw_spawned w"
proof -
  have g: "sw_spawned (snd (complianceDispatch cs m w)) = sw_spawned w" for cs m w by (simp add: complianceDispatch_def split: prod.split)
  from EvaluateAfterTelemetry_cases [OF assms] autoQuarantine_world [of sw_spawned complianceDispatch, OF g] show ?thesis by (metis prod.collapse)
qed

text \<open>A report without faults, step by step: \<open>d1\<close> is the database after the upsert; a silent report carries
  no enforcement state.\<close>

definition settled :: "bool \<Rightarrow> bool \<Rightarrow> string \<Rightarrow> uuid \<Rightarrow> db \<Rightarrow> db \<Rightarrow> db \<times> server_world \<Rightarrow> TelemetryProcessResult \<Rightarrow> server_world \<Rightarrow> bool" where
  "settled hooks silent os i d d1 s' res w \<longleftrightarrow> (silent \<longrightarrow> sw_hub (snd s') = sw_hub w) \<and>
     map assetCore (assets (fst s')) = map assetCore (assets d1) \<and> now (fst s') = now d
     \<and> active_alerts (fst s') = update_where (\<lambda>a. al_resolved_at a = None \<and> offlineAlertOf i a) (\<lambda>a. a\<lparr>al_resolved_at := Some (now d)\<rparr>) (active_alerts d)
     \<and> android_policies (fst s') = (if os = ''android'' \<and> aw_WipeRequested (currentPolicy i d) then wipeCleared i d else android_policies d)
     \<and> go_get (tr_Response res) ''android_policy'' = (if os = ''android'' then Some (androidPolicyJson (currentPolicy i d)) else None)
     \<and> sw_spawned (snd s') = sw_spawned w @ (if openOffline i d = [] \<or> \<not> hooks then [] else [OnResolved (dedupeFingerprints (openOffline i d))])"

lemma currentPolicy_cong: "android_policies d' = android_policies d \<Longrightarrow> currentPolicy i d' = currentPolicy i d"
  by (simp add: currentPolicy_def policyRow_def)

lemma wipeCleared_cong: "android_policies d' = android_policies d \<Longrightarrow> now d' = now d \<Longrightarrow> wipeCleared i d' = wipeCleared i d"
  by (simp add: wipeCleared_def)

lemma process_ok:
  fixes payload serial
  defines "p \<equiv> payload\<lparr>tp_Hostname := TrimSpace (tp_Hostname payload)\<rparr>" and "cs \<equiv> TrimSpace serial"
  assumes up: "\<forall>n. \<not> fault_at d n" and wf: "wf_fleet d" and pl: "payloadsDecode d" and host: "tp_Hostname p \<noteq> ''''" and cs: "cs \<noteq> ''''"
    and ups: "upsertAssetFromTelemetry L cs p (deriveAssetOsType p) d = (Inr (i, h), d1)" and i: "i \<noteq> uuid_Nil"
  shows "\<exists>res s'. ProcessTelemetry L (telemetryProcess L hooks) serial payload (d, w) = (Inr res, s')
    \<and> tr_AssetID res = i \<and> tr_HumanID res = h \<and> settled hooks (tp_MDMPolicyEnforcement p = None) (deriveAssetOsType p) i d d1 s' res w"
proof -
  let ?os = "deriveAssetOsType p" and ?base = "[(''status'', JStr ''ok''), (''asset_id'', JStr (u_str L i)), (''human_id'', JStr h)]"
  note os = deriveAssetOsType_range [of p]
  from upsert_Inr [OF wf ups] obtain n u where rep: "reported cs p ?os i h d (assets d1)"
    and d1: "d1 = d\<lparr>stmt_no := n, uuid_next := u, assets := assets d1\<rparr>" by blast
  have d1f: "fault_at d1 = fault_at d" "now d1 = now d" "active_alerts d1 = active_alerts d" "android_policies d1 = android_policies d"
    "configuration_profiles d1 = configuration_profiles d" by (subst d1, simp)+
  from rep have mem: "i \<in> a_id ` set (assets d1)" by (auto simp: reported_def)
  define d2 where "d2 = snd (persistMetric i p d1)"
  have m: "persistMetric i p d1 = (Inr (), d2)" and d2: "d2 = d1\<lparr>stmt_no := Suc (stmt_no d1), device_metrics := device_metrics d2\<rparr>"
    using persistMetric_ok [of d1 i p] mem up d1f(1) by (simp_all add: d2_def prod_eq_iff)
  have d2f: "fault_at d2 = fault_at d" "now d2 = now d" "active_alerts d2 = active_alerts d" "android_policies d2 = android_policies d"
    "configuration_profiles d2 = configuration_profiles d" "assets d2 = assets d1" by (subst d2, simp add: d1f)+
  obtain r d3 w3 where e: "EvaluateAfterTelemetry L (Some complianceDispatch) i cs (ToLower (TrimSpace ?os)) (enforcementOf p) (d2, w) = (r, d3, w3)"
    by (metis prod_cases3)
  have r: "r = Inr ()" using evaluate_ok [of d2 L "Some complianceDispatch" i cs "ToLower (TrimSpace ?os)" "enforcementOf p" w] up e by (simp add: d2f)
  note vf = verdictFrame_evaluate [OF e] and w3 = evaluate_world [OF e]
  have d3f: "fault_at d3 = fault_at d" "now d3 = now d" "active_alerts d3 = active_alerts d" "android_policies d3 = android_policies d"
    "configuration_profiles d3 = configuration_profiles d" "map assetCore (assets d3) = map assetCore (assets d1)"
    using verdictFrame_fields [OF vf] vf [unfolded verdictFrame_def] by (simp_all add: d2f)
  have hub3: "tp_MDMPolicyEnforcement p = None \<Longrightarrow> sw_hub w3 = sw_hub w"
    using EvaluateAfterTelemetry_cases [OF e] by (auto simp: enforcementOf_def)
  let ?d4 = "d3\<lparr>stmt_no := Suc (stmt_no d3), active_alerts := update_where (\<lambda>a. al_resolved_at a = None \<and> offlineAlertOf i a)
         (\<lambda>a. a\<lparr>al_resolved_at := Some (now d)\<rparr>) (active_alerts d)\<rparr>"
    and ?w4 = "w3\<lparr>sw_spawned := sw_spawned w @ (if openOffline i d = [] \<or> \<not> hooks then [] else [OnResolved (dedupeFingerprints (openOffline i d))])\<rparr>"
  have "openOffline i d3 = openOffline i d" by (simp add: openOffline_def d3f)
  then have hb: "heartbeatHook hooks i (d3, w3) = (?d4, ?w4)" using heartbeatHook_ok [of d3 i hooks w3] up i by (simp add: d3f w3)
  obtain d5 w5 where acc: "onTelemetryAccepted L cs h i p (?d4, ?w4) = (d5, w5)"
    and 5: "\<exists>k. d5 = ?d4\<lparr>stmt_no := k\<rparr>" "\<exists>dash. w5 = ?w4\<lparr>sw_dash := dash\<rparr>"
    using onTelemetryAccepted_ok by blast
  from 5 have d5f: "fault_at d5 = fault_at d" "now d5 = now d" "active_alerts d5 = active_alerts ?d4" "android_policies d5 = android_policies d"
    "configuration_profiles d5 = configuration_profiles d" "map assetCore (assets d5) = map assetCore (assets d1)" "sw_spawned w5 = sw_spawned ?w4"
    "sw_hub w5 = sw_hub w3" by (auto simp: d3f)
  have cp: "currentPolicy i d5 = currentPolicy i d" "wipeCleared i d5 = wipeCleared i d"
    by (rule currentPolicy_cong wipeCleared_cong; simp add: d5f)+
  have ready: "\<forall>n. \<not> fault_at d5 n" "payloadsDecode d5" using up pl by (simp_all add: d5f payloadsDecode_def)
  obtain resp j where at: "attachPolicies L i ?os ?base d5 = (Inr resp, d5\<lparr>stmt_no := j,
      android_policies := (if ?os = ''android'' \<and> aw_WipeRequested (currentPolicy i d) then wipeCleared i d else android_policies d)\<rparr>)"
    and get: "go_get resp ''android_policy'' = (if ?os = ''android'' then Some (androidPolicyJson (currentPolicy i d)) else None)"
    using attachPolicies_ok [OF ready os, of L i ?base] unfolding cp d5f by auto
  show ?thesis
    unfolding ProcessTelemetry_def settled_def Let_def split p_def [symmetric] cs_def [symmetric]
    using host cs ups m e r hb acc at get d5f hub3 by (simp add: telemetryProcess_def runHeartbeat_def runAccepted_def)
qed

text \<open>What a report needs to be accepted.\<close>

definition reportable :: "string \<Rightarrow> TelemetryPayload \<Rightarrow> db \<Rightarrow> bool" where
  "reportable serial payload d \<longleftrightarrow> (\<forall>n. \<not> fault_at d n) \<and> wf_fleet d \<and> payloadsDecode d
     \<and> TrimSpace (tp_Hostname payload) \<noteq> '''' \<and> TrimSpace serial \<noteq> ''''
     \<and> admissible (TrimSpace serial) (TrimSpace (tp_Hostname payload)) d \<and> uuid_Nil \<notin> a_id ` set (assets d) \<and> random_uuid d \<noteq> uuid_Nil"

lemma insertClient_id: "insertClient cs p os meta d = (Inr (i, h), d') \<Longrightarrow> i = random_uuid d"
  using insertClient_Inr [of cs p os meta d "(i, h)" d'] by auto

lemma reportable_runs:
  fixes payload serial
  defines "p \<equiv> payload\<lparr>tp_Hostname := TrimSpace (tp_Hostname payload)\<rparr>"
  assumes ok: "reportable serial payload d"
  shows "\<exists>res s' d1. ProcessTelemetry L (telemetryProcess L hooks) serial payload (d, w) = (Inr res, s')
    \<and> wf_fleet d1 \<and> reported (TrimSpace serial) p (deriveAssetOsType p) (tr_AssetID res) (tr_HumanID res) d (assets d1)
    \<and> settled hooks (tp_MDMPolicyEnforcement p = None) (deriveAssetOsType p) (tr_AssetID res) d d1 s' res w"
proof -
  have up: "\<forall>n. \<not> fault_at d n" and wf: "wf_fleet d" and pl: "payloadsDecode d" and host: "tp_Hostname p \<noteq> ''''" and cs: "TrimSpace serial \<noteq> ''''"
    and adm: "admissible (TrimSpace serial) (tp_Hostname p) d" and nil: "uuid_Nil \<notin> a_id ` set (assets d)" "random_uuid d \<noteq> uuid_Nil"
    using ok by (auto simp: reportable_def p_def)
  from upsertAsset_ok [OF up wf adm deriveAssetOsType_range cs, of L p] obtain i h d1 where
    u: "upsertAssetFromTelemetry L (TrimSpace serial) p (deriveAssetOsType p) d = (Inr (i, h), d1)" by blast
  note ur = upsert_Inr [OF wf u]
  have "i \<noteq> uuid_Nil"
  proof (cases "reportTarget (TrimSpace serial) (tp_Hostname p) d")
    case (Some a)
    with ur nil(1) reportTarget_mem [OF Some] show ?thesis by (auto simp: reported_def)
  next
    case None
    have t: "reportTarget (TrimSpace serial) (tp_Hostname p) (d\<lparr>stmt_no := n\<rparr>) = None" for n
      using None by (auto simp: reportTarget_def split: option.splits)
    from transaction_Inr [OF u [unfolded upsertAssetFromTelemetry_def]] obtain e where
      "upsertBody L (TrimSpace serial) p (deriveAssetOsType p) (d\<lparr>stmt_no := Suc (stmt_no d)\<rparr>) = (Inr (i, h), e)" by blast
    from upsertBody_Inr [OF this] obtain n where "i = random_uuid (d\<lparr>stmt_no := Suc (stmt_no d), stmt_no := n\<rparr>)"
      unfolding t by (auto dest: insertClient_id)
    with nil(2) show ?thesis by (simp add: random_uuid_def)
  qed
  from process_ok [of d payload serial L i h d1 hooks w, folded p_def, OF up wf pl host cs u this] obtain res s' where
    "ProcessTelemetry L (telemetryProcess L hooks) serial payload (d, w) = (Inr res, s')" "tr_AssetID res = i" "tr_HumanID res = h"
    "settled hooks (tp_MDMPolicyEnforcement p = None) (deriveAssetOsType p) i d d1 s' res w" by blast
  with ur show ?thesis by (intro exI [of _ res] exI [of _ s'] exI [of _ d1]) simp
qed

lemma core_fields: "assetCore a = assetCore b \<Longrightarrow> a_id a = a_id b \<and> a_human_id a = a_human_id b \<and> a_hostname a = a_hostname b
    \<and> a_cert_serial a = a_cert_serial b \<and> a_os_type a = a_os_type b \<and> a_last_seen a = a_last_seen b"
  by (cases a, cases b) (simp add: assetCore_def)

lemma core_mem: "map assetCore as = map assetCore bs \<Longrightarrow> a \<in> set as \<Longrightarrow> \<exists>b \<in> set bs. assetCore a = assetCore b"
  by (metis (no_types, lifting) image_iff list.set_map)

text \<open>C9: with the database up, a report that the tables admit is accepted; afterwards the asset carries the
  serial and host name of the report, every offline alert of the device is resolved and handed to the incident
  hooks, and no watchdog pass in the grace period that follows counts the device as offline.\<close>

theorem heartbeat_ends_offline:
  assumes "reportable serial payload d"
  shows "\<exists>res d' w'. ProcessTelemetry L (telemetryProcess L hooks) serial payload (d, w) = (Inr res, d', w')
    \<and> (\<exists>a \<in> set (assets d'). a_id a = tr_AssetID res \<and> a_human_id a = tr_HumanID res \<and> a_cert_serial a = Some (TrimSpace serial)
         \<and> a_hostname a = Some (TrimSpace (tp_Hostname payload)) \<and> a_last_seen a = Some (now d))
    \<and> (\<forall>a \<in> set (active_alerts d'). offlineAlertOf (tr_AssetID res) a \<longrightarrow> al_resolved_at a \<noteq> None)
    \<and> sw_spawned w' = sw_spawned w @ (if openOffline (tr_AssetID res) d = [] \<or> \<not> hooks then []
         else [OnResolved (dedupeFingerprints (openOffline (tr_AssetID res) d))])
    \<and> (\<forall>t \<le> now d + offlineBuiltinGrace. tr_AssetID res \<notin> offlineAssets (d'\<lparr>now := t\<rparr>))"
proof -
  let ?p = "payload\<lparr>tp_Hostname := TrimSpace (tp_Hostname payload)\<rparr>"
  from reportable_runs [OF assms, of L hooks w] obtain res s' d1 where
    "ProcessTelemetry L (telemetryProcess L hooks) serial payload (d, w) = (Inr res, s')" and wf: "wf_fleet d1"
    and rep: "reported (TrimSpace serial) ?p (deriveAssetOsType ?p) (tr_AssetID res) (tr_HumanID res) d (assets d1)"
    and set: "settled hooks (tp_MDMPolicyEnforcement ?p = None) (deriveAssetOsType ?p) (tr_AssetID res) d d1 s' res w" by blast
  then obtain d' w' where run: "ProcessTelemetry L (telemetryProcess L hooks) serial payload (d, w) = (Inr res, d', w')" and s': "s' = (d', w')"
    by (cases s') auto
  from set have cores: "map assetCore (assets d') = map assetCore (assets d1)"
    and alerts: "active_alerts d' = update_where (\<lambda>a. al_resolved_at a = None \<and> offlineAlertOf (tr_AssetID res) a)
      (\<lambda>a. a\<lparr>al_resolved_at := Some (now d)\<rparr>) (active_alerts d)"
    and sp: "sw_spawned w' = sw_spawned w @ (if openOffline (tr_AssetID res) d = [] \<or> \<not> hooks then []
      else [OnResolved (dedupeFingerprints (openOffline (tr_AssetID res) d))])"
    unfolding settled_def s' fst_conv snd_conv by blast+
  from rep obtain b where b: "b \<in> set (assets d1)" "a_id b = tr_AssetID res" "a_human_id b = tr_HumanID res"
    "a_cert_serial b = Some (TrimSpace serial)" "a_hostname b = Some (TrimSpace (tp_Hostname payload))" "a_last_seen b = Some (now d)"
    by (auto simp: reported_def)
  have seen: "a_last_seen a = Some (now d)" if a: "a \<in> set (assets d')" "a_id a = tr_AssetID res" for a
  proof -
    from core_mem [OF cores a(1)] obtain c where c: "c \<in> set (assets d1)" "assetCore a = assetCore c" by blast
    then have "c = b" using a(2) b(1,2) core_fields [OF c(2)] by (intro wf_fleet_eq [OF wf]) (simp_all add: assetsClash_def)
    with core_fields [OF c(2)] b(6) show ?thesis by simp
  qed
  obtain a where a: "a \<in> set (assets d')" "assetCore b = assetCore a" using core_mem [OF cores [symmetric] b(1)] by blast
  have "tr_AssetID res \<notin> offlineAssets (d'\<lparr>now := t\<rparr>)" if "t \<le> now d + offlineBuiltinGrace" for t
    using seen that by (auto simp: offlineAssets_def offlineBefore_def)
  moreover have "\<forall>a \<in> set (active_alerts d'). offlineAlertOf (tr_AssetID res) a \<longrightarrow> al_resolved_at a \<noteq> None"
    by (auto simp: alerts set_update_where offlineAlertOf_def)
  moreover have "\<exists>a \<in> set (assets d'). a_id a = tr_AssetID res \<and> a_human_id a = tr_HumanID res \<and> a_cert_serial a = Some (TrimSpace serial)
      \<and> a_hostname a = Some (TrimSpace (tp_Hostname payload)) \<and> a_last_seen a = Some (now d)"
    using a(1) core_fields [OF a(2)] b by (intro bexI [of _ a]) simp_all
  ultimately show ?thesis using run sp by blast
qed

section \<open>Requests to wipe a device\<close>

text \<open>The answer to a report of an Android device carries the stored policy, with a pending request to
  wipe; the request is withdrawn with the answer, the rest of the policy and the policies of other devices stay.
  So the next answer repeats the policy without the request.\<close>

theorem wipe_answer:
  assumes "reportable serial payload d" and "deriveAssetOsType (payload\<lparr>tp_Hostname := TrimSpace (tp_Hostname payload)\<rparr>) = ''android''"
    and "ProcessTelemetry L (telemetryProcess L hooks) serial payload (d, w) = (Inr res, d', w')"
  shows "go_get (tr_Response res) ''android_policy'' = Some (androidPolicyJson (currentPolicy (tr_AssetID res) d))
    \<and> currentPolicy (tr_AssetID res) d' = (currentPolicy (tr_AssetID res) d)\<lparr>aw_WipeRequested := False\<rparr>
    \<and> (\<forall>j. j \<noteq> tr_AssetID res \<longrightarrow> currentPolicy j d' = currentPolicy j d)"
proof -
  let ?p = "payload\<lparr>tp_Hostname := TrimSpace (tp_Hostname payload)\<rparr>" and ?i = "tr_AssetID res"
  from reportable_runs [OF assms(1), of L hooks w] assms(2,3) obtain d1 where
    "settled hooks (tp_MDMPolicyEnforcement ?p = None) ''android'' ?i d d1 (d', w') res w" by auto
  then have pol: "android_policies d' = (if aw_WipeRequested (currentPolicy ?i d) then wipeCleared ?i d else android_policies d)"
    and get: "go_get (tr_Response res) ''android_policy'' = Some (androidPolicyJson (currentPolicy ?i d))"
    by (simp_all add: settled_def)
  have e: "currentPolicy j d' = (if j = ?i then (currentPolicy ?i d)\<lparr>aw_WipeRequested := False\<rparr> else currentPolicy j d)" for j
  proof (cases "aw_WipeRequested (currentPolicy ?i d)")
    case True
    have "currentPolicy j d' = currentPolicy j (d\<lparr>android_policies := wipeCleared ?i d\<rparr>)" by (rule currentPolicy_cong) (simp add: pol True)
    then show ?thesis by (simp add: currentPolicy_wipeCleared)
  next
    case False
    then have "currentPolicy ?i d = (currentPolicy ?i d)\<lparr>aw_WipeRequested := False\<rparr>" by simp
    moreover have "currentPolicy j d' = currentPolicy j d" by (rule currentPolicy_cong) (simp add: pol False)
    ultimately show ?thesis by simp
  qed
  with get show ?thesis by simp
qed

text \<open>On the agent's connection the answer is dropped: a report of an Android device there withdraws the
  request to wipe, and nothing is queued for the agent.\<close>

theorem connection_report_loses_wipe:
  assumes "reportable serial payload d" and "deriveAssetOsType (payload\<lparr>tp_Hostname := TrimSpace (tp_Hostname payload)\<rparr>) = ''android''"
    and "get_string ''type'' m = Some ''telemetry''" and "get_uint64 ''uptime_seconds'' m \<noteq> None" and "decodeTelemetry m = Some payload"
    and "tp_MDMPolicyEnforcement payload = None"
    and "reportTarget (TrimSpace serial) (TrimSpace (tp_Hostname payload)) d = Some a" and "aw_WipeRequested (currentPolicy (a_id a) d)"
  shows "\<exists>d' w'. readPump L hooks serial (RawDoc (JObj m)) (d, w) = (d', w')
    \<and> \<not> aw_WipeRequested (currentPolicy (a_id a) d') \<and> sw_hub w' = sw_hub w"
proof -
  let ?p = "payload\<lparr>tp_Hostname := TrimSpace (tp_Hostname payload)\<rparr>"
  from reportable_runs [OF assms(1), of L hooks w] assms(2,6) obtain res s' d1 where
    r: "ProcessTelemetry L (telemetryProcess L hooks) serial payload (d, w) = (Inr res, s')"
      "reported (TrimSpace serial) ?p ''android'' (tr_AssetID res) (tr_HumanID res) d (assets d1)"
      "settled hooks True ''android'' (tr_AssetID res) d d1 s' res w" by auto
  obtain d' w' where s': "s' = (d', w')" by fastforce
  from r(2) assms(7) have i: "tr_AssetID res = a_id a" by (simp add: reported_def)
  with r(3) assms(8) have pol: "android_policies d' = wipeCleared (a_id a) d" and hub: "sw_hub w' = sw_hub w" by (simp_all add: settled_def s')
  have "currentPolicy (a_id a) d' = currentPolicy (a_id a) (d\<lparr>android_policies := wipeCleared (a_id a) d\<rparr>)" by (rule currentPolicy_cong) (simp add: pol)
  then have "\<not> aw_WipeRequested (currentPolicy (a_id a) d')" by (simp add: currentPolicy_wipeCleared)
  moreover have "TrimSpace ''telemetry'' = ''telemetry''" by code_simp
  then have "readPump L hooks serial (RawDoc (JObj m)) (d, w) = (d', w')"
    using assms(3-5) r(1) s' by (auto simp: readPump_def tryHandleAgentTelemetry_def struct_object_def split: option.split)
  ultimately show ?thesis using hub by blast
qed

section \<open>Reports under another host name\<close>

lemma reported_rows:
  assumes wf: "wf_fleet d1" and rep: "reported cs p os i h d (assets d1)" and c: "c \<in> set (assets d1)"
  shows "(a_id c = i \<longrightarrow> a_cert_serial c = Some cs) \<and> (a_id c \<noteq> i \<longrightarrow> c \<in> set (assets d))"
proof -
  from rep obtain x where x: "x \<in> set (assets d1)" "a_id x = i" "a_cert_serial x = Some cs"
    and others: "filter (\<lambda>b. a_id b \<noteq> i) (assets d1) = filter (\<lambda>b. a_id b \<noteq> i) (assets d)" by (auto simp: reported_def)
  have "c = x" if "a_id c = i" using that x c by (intro wf_fleet_eq [OF wf]) (simp_all add: assetsClash_def)
  moreover have "c \<in> set (filter (\<lambda>b. a_id b \<noteq> i) (assets d1))" if "a_id c \<noteq> i" using c that by simp
  ultimately show ?thesis using x(3) unfolding others by auto
qed

text \<open>A certificate that no asset carries takes over the row of the asset whose host name it reports: that row
  then carries the new serial, and no row carries the serial it had.\<close>

theorem hostname_takeover:
  assumes "reportable serial payload d" and "a \<in> set (assets d)" and "a_hostname a = Some (TrimSpace (tp_Hostname payload))"
    and "a_cert_serial a = Some s" "s \<noteq> ''''" and "\<forall>b \<in> set (assets d). a_cert_serial b \<noteq> Some (TrimSpace serial)"
  shows "\<exists>res d' w'. ProcessTelemetry L (telemetryProcess L hooks) serial payload (d, w) = (Inr res, d', w')
    \<and> tr_AssetID res = a_id a \<and> (\<forall>b \<in> set (assets d'). a_id b = a_id a \<longrightarrow> a_cert_serial b = Some (TrimSpace serial))
    \<and> (\<forall>b \<in> set (assets d'). a_cert_serial b \<noteq> Some s)"
proof -
  let ?p = "payload\<lparr>tp_Hostname := TrimSpace (tp_Hostname payload)\<rparr>" and ?cs = "TrimSpace serial" and ?host = "TrimSpace (tp_Hostname payload)"
  have wf: "wf_fleet d" and host: "?host \<noteq> ''''" using assms(1) by (simp_all add: reportable_def)
  from reportable_runs [OF assms(1), of L hooks w] obtain res s' d1 where
    r: "ProcessTelemetry L (telemetryProcess L hooks) serial payload (d, w) = (Inr res, s')" "wf_fleet d1"
      "reported ?cs ?p (deriveAssetOsType ?p) (tr_AssetID res) (tr_HumanID res) d (assets d1)"
      "settled hooks (tp_MDMPolicyEnforcement ?p = None) (deriveAssetOsType ?p) (tr_AssetID res) d d1 s' res w" by blast
  obtain d' w' where s': "s' = (d', w')" by fastforce
  have none: "find (hasSerial ?cs) (assets d) = None" using assms(6) by (simp add: find_None_iff hasSerial_def)
  have "find (hasHostname ?host) (assets d) \<noteq> None" using assms(2,3) by (auto simp: find_None_iff hasHostname_def)
  then obtain b where f: "find (hasHostname ?host) (assets d) = Some b" by blast
  then have b: "reportTarget ?cs ?host d = Some b" "b \<in> set (assets d)" "a_hostname b = Some ?host"
    by (simp add: reportTarget_def none, auto simp: find_Some_iff hasHostname_def)
  then have "b = a" using assms(2,3) host by (intro wf_fleet_eq [OF wf]) (simp_all add: assetsClash_def named_def)
  with b r(3) have i: "tr_AssetID res = a_id a" by (simp add: reported_def)
  note rows = reported_rows [OF r(2,3), unfolded i]
  have old: "a_cert_serial c \<noteq> Some s" if "c \<in> set (assets d1)" for c
  proof
    assume e: "a_cert_serial c = Some s"
    have "s \<noteq> ?cs" using assms(2,4,6) by auto
    with rows [OF that] e have "a_id c \<noteq> a_id a" "c \<in> set (assets d)" by auto
    with e assms(2,4,5) wf_fleet_eq [OF wf, of a c] show False by (auto simp: assetsClash_def named_def)
  qed
  from r(4) have cores: "map assetCore (assets d') = map assetCore (assets d1)" by (simp add: settled_def s')
  have "a_cert_serial b \<noteq> Some s \<and> (a_id b = a_id a \<longrightarrow> a_cert_serial b = Some ?cs)" if b: "b \<in> set (assets d')" for b
  proof -
    from core_mem [OF cores b] obtain c where c: "c \<in> set (assets d1)" "assetCore b = assetCore c" by blast
    with core_fields [OF c(2)] rows [OF c(1)] old [OF c(1)] show ?thesis by auto
  qed
  with r(1) s' i show ?thesis by blast
qed

section \<open>Examples\<close>

definition examplePhone :: asset where
  "examplePhone = (exampleAsset 7 ''42'')\<lparr>a_human_id := ''arx-c-4'', a_hostname := Some ''phone'', a_os_type := ''android'', a_metadata := JObj []\<rparr>"

definition examplePolicy :: android_policy where
  "examplePolicy = \<lparr>an_asset_id = 7, an_camera_disabled = True, an_screen_lock_timeout_ms = 60000, an_wipe_requested = True, an_updated_at = 0\<rparr>"

definition examplePhones :: db where
  "examplePhones = empty_db\<lparr>assets := [examplePhone], android_policies := [examplePolicy]\<rparr>"

definition examplePayload :: "string \<Rightarrow> TelemetryPayload" where
  "examplePayload host = \<lparr>tp_Hostname = host, tp_OsType = ''Android'', tp_OSFamily = '''', tp_OSVersion = ''15'', tp_TotalRAMBytes = 8, tp_CPUModel = '''',
     tp_CPULogicalCores = 8, tp_CPUUsagePercent = 3, tp_MemoryUsedBytes = 2, tp_RootDiskTotalBytes = 64, tp_RootDiskUsedBytes = 32, tp_BatteryPercent = 80,
     tp_DeviceModel = '''', tp_MACAddress = '''', tp_InstalledSoftware = None, tp_MDMPolicyEnforcement = None\<rparr>"

definition exampleWorld :: server_world where
  "exampleWorld = \<lparr>sw_hub = NewHub, sw_dash = NewDashboardHub, sw_events = [], sw_spawned = []\<rparr>"

definition exampleMessage :: json_object where
  "exampleMessage = [(''type'', JStr ''telemetry''), (''hostname'', JStr ''phone''), (''os_type'', JStr ''Android''), (''os_version'', JStr ''15''),
     (''total_ram_bytes'', JNum 8), (''cpu_logical_cores'', JNum 8), (''cpu_usage_percent'', JNum 3), (''memory_used_bytes'', JNum 2),
     (''root_disk_total_bytes'', JNum 64), (''root_disk_used_bytes'', JNum 32), (''battery_percent'', JNum 80)]"

lemma wf_examplePhones: "wf_fleet examplePhones"
  by (simp add: wf_fleet_def examplePhones_def examplePhone_def exampleAsset_def empty_db_def osTypes_def)

lemma examplePhones_target:
  "reportTarget ''42'' ''phone'' examplePhones = Some examplePhone" "reportTarget ''43'' ''phone'' examplePhones = Some examplePhone"
  by (simp_all add: reportTarget_def examplePhones_def examplePhone_def exampleAsset_def empty_db_def hasSerial_def hasHostname_def)

lemma example_trim: "TrimSpace ''phone'' = ''phone''" "TrimSpace ''42'' = ''42''" "TrimSpace ''43'' = ''43''"
  by code_simp+

lemma example_reportable: "reportable ''42'' (examplePayload ''phone'') examplePhones" "reportable ''43'' (examplePayload ''phone'') examplePhones"
  unfolding reportable_def examplePayload_def
  by (simp_all add: wf_examplePhones example_trim admissible_def examplePhones_target)
    (simp_all add: examplePhones_def examplePhone_def exampleAsset_def empty_db_def payloadsDecode_def random_uuid_def)

lemma example_android: "deriveAssetOsType ((examplePayload ''phone'')\<lparr>tp_Hostname := TrimSpace (tp_Hostname (examplePayload ''phone''))\<rparr>) = ''android''"
  by code_simp

lemma example_policy: "currentPolicy 7 examplePhones = \<lparr>aw_CameraDisabled = True, aw_ScreenLockTimeoutMs = 60000, aw_WipeRequested = True\<rparr>"
  by (simp add: currentPolicy_def policyRow_def examplePhones_def examplePolicy_def policyWire_def)

theorem telemetry_report_witness:
  "\<exists>d'. upsertAssetFromTelemetry exampleLib ''43'' (examplePayload ''phone'') ''android'' examplePhones = (Inr (7, ''arx-c-4''), d')
     \<and> wf_fleet d' \<and> reported ''43'' (examplePayload ''phone'') ''android'' 7 ''arx-c-4'' examplePhones (assets d')"
proof -
  have up: "\<forall>n. \<not> fault_at examplePhones n" and host: "tp_Hostname (examplePayload ''phone'') = ''phone''"
    by (simp_all add: examplePhones_def empty_db_def examplePayload_def)
  have "admissible ''43'' (tp_Hostname (examplePayload ''phone'')) examplePhones"
    by (simp add: host admissible_def examplePhones_target) (simp add: examplePhones_def)
  from upsertAsset_ok [OF up wf_examplePhones this, of "''android''" exampleLib] obtain i h d' where
    e: "upsertAssetFromTelemetry exampleLib ''43'' (examplePayload ''phone'') ''android'' examplePhones = (Inr (i, h), d')" by (auto simp: osTypes_def)
  have rep: "wf_fleet d' \<and> reported ''43'' (examplePayload ''phone'') ''android'' i h examplePhones (assets d')"
    using telemetry_report [OF wf_examplePhones e] by simp
  then have "i = 7" "h = ''arx-c-4''" by (simp_all add: reported_def host examplePhones_target) (simp_all add: examplePhone_def exampleAsset_def)
  with e rep show ?thesis by simp
qed

theorem heartbeat_ends_offline_witness:
  "\<exists>res d' w'. ProcessTelemetry exampleLib (telemetryProcess exampleLib True) ''42'' (examplePayload ''phone'') (examplePhones, exampleWorld) = (Inr res, d', w')
    \<and> (\<forall>t \<le> now examplePhones + offlineBuiltinGrace. tr_AssetID res \<notin> offlineAssets (d'\<lparr>now := t\<rparr>))"
  using heartbeat_ends_offline [OF example_reportable(1), of exampleLib True exampleWorld] by blast

theorem wipe_answer_witness:
  "\<exists>res d' w'. ProcessTelemetry exampleLib (telemetryProcess exampleLib True) ''42'' (examplePayload ''phone'') (examplePhones, exampleWorld) = (Inr res, d', w')
    \<and> go_get (tr_Response res) ''android_policy'' = Some (androidPolicyJson (currentPolicy (tr_AssetID res) examplePhones))
    \<and> \<not> aw_WipeRequested (currentPolicy (tr_AssetID res) d')"
proof -
  obtain res d' w' where r: "ProcessTelemetry exampleLib (telemetryProcess exampleLib True) ''42'' (examplePayload ''phone'') (examplePhones, exampleWorld) = (Inr res, d', w')"
    using reportable_runs [OF example_reportable(1), of exampleLib True exampleWorld] by auto
  from wipe_answer [OF example_reportable(1) example_android r] r show ?thesis by auto
qed

theorem connection_report_loses_wipe_witness:
  "aw_WipeRequested (currentPolicy 7 examplePhones)
   \<and> (\<exists>d' w'. readPump exampleLib True ''42'' (RawDoc (JObj exampleMessage)) (examplePhones, exampleWorld) = (d', w')
        \<and> \<not> aw_WipeRequested (currentPolicy 7 d') \<and> sw_hub w' = sw_hub exampleWorld)"
proof -
  have m: "get_string ''type'' exampleMessage = Some ''telemetry''" "get_uint64 ''uptime_seconds'' exampleMessage \<noteq> None"
    "decodeTelemetry exampleMessage = Some (examplePayload ''phone'')" by code_simp+
  have i: "a_id examplePhone = 7" by (simp add: examplePhone_def exampleAsset_def)
  have "reportTarget (TrimSpace ''42'') (TrimSpace (tp_Hostname (examplePayload ''phone''))) examplePhones = Some examplePhone"
    by (simp add: example_trim examplePhones_target examplePayload_def)
  from connection_report_loses_wipe [OF example_reportable(1) example_android m _ this, of exampleLib True exampleWorld] show ?thesis
    by (simp add: i example_policy examplePayload_def)
qed

theorem hostname_takeover_witness:
  "\<exists>res d' w'. ProcessTelemetry exampleLib (telemetryProcess exampleLib True) ''43'' (examplePayload ''phone'') (examplePhones, exampleWorld) = (Inr res, d', w')
    \<and> tr_AssetID res = 7 \<and> (\<forall>b \<in> set (assets d'). a_cert_serial b \<noteq> Some ''42'')"
proof -
  have a: "examplePhone \<in> set (assets examplePhones)" "a_hostname examplePhone = Some (TrimSpace (tp_Hostname (examplePayload ''phone'')))"
    "a_cert_serial examplePhone = Some ''42''" "''42'' \<noteq> ''''" "\<forall>b \<in> set (assets examplePhones). a_cert_serial b \<noteq> Some (TrimSpace ''43'')"
    by (simp_all add: example_trim examplePayload_def examplePhones_def examplePhone_def exampleAsset_def)
  have "a_id examplePhone = 7" by (simp add: examplePhone_def exampleAsset_def)
  with hostname_takeover [OF example_reportable(2) a, of exampleLib True exampleWorld] show ?thesis by auto
qed

end
