(* ===== verification/Devices_Facts.thy ===== *)
theory Devices_Facts
  imports Devices Telemetry_Facts Users_Facts
begin

text \<open>
  The routes on single devices: a policy change stores exactly the fields it names and a request to wipe
  reaches the device with its next report; a device has at most one custodian, an existing account, and the
  custodian read back is the one assigned.
\<close>

section \<open>Policy changes\<close>

lemma answerEvents_success:
  assumes "answerEvents m s = ((resp, ev), s')" and "refuses m" and "resp_status resp < 400"
  shows "m s = (Inr (resp, ev), s')"
  using assms by (auto simp: answerEvents_def refuses_def split: prod.splits sum.splits) force+

lemma loadAndroidPolicy_Inr:
  "loadAndroidPolicy i d = (Inr p, d') \<Longrightarrow> p = currentPolicy i d \<and> d' = d\<lparr>stmt_no := Suc (stmt_no d)\<rparr>"
  by (auto simp: loadAndroidPolicy_def currentPolicy_def policyRow_def query_row_def sql_def Let_def split: option.splits if_splits)

lemma currentPolicy_upsert:
  assumes "upsertPolicyRow i p d = (Inr u, d')"
  shows "currentPolicy j d' = (if j = i then p else currentPolicy j d)
    \<and> d' = d\<lparr>stmt_no := Suc (stmt_no d), android_policies := android_policies d'\<rparr>"
proof -
  let ?row = "\<lparr>an_asset_id = i, an_camera_disabled = aw_CameraDisabled p, an_screen_lock_timeout_ms = aw_ScreenLockTimeoutMs p,
    an_wipe_requested = aw_WipeRequested p, an_updated_at = now d\<rparr>"
  have w: "policyWire ?row = p" by (simp add: policyWire_def)
  have "d' = d\<lparr>stmt_no := Suc (stmt_no d), android_policies := android_policies d'\<rparr>
    \<and> android_policies d' = (if policyRow i d \<noteq> None then update_where (\<lambda>r. an_asset_id r = i) (\<lambda>_. ?row) (android_policies d) else android_policies d @ [?row])"
    using assms by (auto simp: upsertPolicyRow_def sql_def Let_def policyRow_def split: if_splits)
  moreover have "find (\<lambda>r. an_asset_id r = j) (update_where (\<lambda>r. an_asset_id r = i) (\<lambda>_. ?row) rs)
      = (if j = i then map_option (\<lambda>_. ?row) (find (\<lambda>r. an_asset_id r = i) rs) else find (\<lambda>r. an_asset_id r = j) rs)" for rs
    by (induction rs) (auto simp: update_where_def)
  moreover have "find (\<lambda>r. an_asset_id r = j) (rs @ [?row]) = (case find (\<lambda>r. an_asset_id r = j) rs of Some r \<Rightarrow> Some r | None \<Rightarrow> if j = i then Some ?row else None)" for rs
    by (induction rs) auto
  ultimately show ?thesis using w by (auto simp: currentPolicy_def policyRow_def split: option.splits)
qed

lemma mergeAndroidPolicy_Inr:
  assumes "mergeAndroidPolicy i q d = (Inr out, d')"
  shows "out = patchPolicy q (currentPolicy i d) \<and> currentPolicy j d' = (if j = i then out else currentPolicy j d)
    \<and> (\<exists>n. d' = d\<lparr>stmt_no := n, android_policies := android_policies d'\<rparr>)"
proof -
  let ?d0 = "d\<lparr>stmt_no := Suc (stmt_no d)\<rparr>"
  from transaction_Inr [OF assms [unfolded mergeAndroidPolicy_def]] obtain d1 where
    b: "rbind (loadAndroidPolicy i ?d0) (\<lambda>cur d. let new = patchPolicy q cur
      in case upsertPolicyRow i new d of (Inl e, d) \<Rightarrow> (Inl (Driver e), d) | (Inr _, d) \<Rightarrow> (Inr new, d)) = (Inr out, d1)"
    and d': "d' = d1\<lparr>stmt_no := Suc (stmt_no d1)\<rparr>" by blast
  from b obtain cur d2 where l: "loadAndroidPolicy i ?d0 = (Inr cur, d2)" and u: "out = patchPolicy q cur" "\<exists>u. upsertPolicyRow i (patchPolicy q cur) d2 = (Inr u, d1)"
    by (cases "loadAndroidPolicy i ?d0"; cases "fst (loadAndroidPolicy i ?d0)") (auto simp: rbind_def Let_def split: prod.splits sum.splits)
  note l = loadAndroidPolicy_Inr [OF l]
  have cp: "currentPolicy k (d\<lparr>stmt_no := n\<rparr>) = currentPolicy k d" for k n by (rule currentPolicy_cong) simp
  from u(2) currentPolicy_upsert have c: "currentPolicy j d1 = (if j = i then out else currentPolicy j d2)"
    and f: "d1 = d2\<lparr>stmt_no := Suc (stmt_no d2), android_policies := android_policies d1\<rparr>" unfolding u(1) by blast+
  have "d' = d\<lparr>stmt_no := Suc (stmt_no d1), android_policies := android_policies d'\<rparr>"
    using arg_cong [OF f, of "\<lambda>x. x\<lparr>stmt_no := Suc (stmt_no d1)\<rparr>"] l by (simp add: d')
  moreover have "currentPolicy j d' = currentPolicy j d1" by (rule currentPolicy_cong) (simp add: d')
  then have "currentPolicy j d' = (if j = i then out else currentPolicy j d)" using c l cp by simp
  moreover have "out = patchPolicy q (currentPolicy i d)" using l u(1) cp by simp
  ultimately show ?thesis by blast
qed

lemma refuses_patchAndroidPolicy: "refuses (patchAndroidPolicy L A r)"
  unfolding patchAndroidPolicy_def Let_def by (intro refuses_intros) simp_all

text \<open>An accepted change, and what it notifies.\<close>

lemma android_handlePatch_ok:
  assumes "android_handlePatch L A r d = ((RespJson 200 body, effects), d')"
  shows "\<exists>i q h. pathUUID L r = Some i \<and> decodeBody r decodePatchAndroidPolicy = Some q
    \<and> (\<forall>j. currentPolicy j d' = (if j = i then patchPolicy q (currentPolicy i d) else currentPolicy j d))
    \<and> body = androidPolicyJson (currentPolicy i d')
    \<and> effects = (if aw_WipeRequested (currentPolicy i d') \<and> \<not> aw_WipeRequested (currentPolicy i d) \<and> pr_WipeRequested q = Some True
         then [NotifyWipe (wipeEvent L i h)] else []) @ [BroadcastPolicy (policyUpdated L i h (currentPolicy i d'))]
    \<and> (\<exists>n. d' = d\<lparr>stmt_no := n, android_policies := android_policies d'\<rparr>)"
proof -
  have "patchAndroidPolicy L A r d = (Inr (RespJson 200 body, effects), d')"
    by (rule answerEvents_success [OF assms [unfolded android_handlePatch_def] refuses_patchAndroidPolicy]) simp
  then obtain i q h d1 prev d2 out where
    "pathUUID L r = Some i" "decodeBody r decodePatchAndroidPolicy = Some q" "humanIDForAsset i d = (Inr h, d1)"
    and l: "loadAndroidPolicy i d1 = (Inr prev, d2)" and m: "mergeAndroidPolicy i q d2 = (Inr out, d')"
    and x: "body = androidPolicyJson out" "effects = (if aw_WipeRequested out \<and> \<not> aw_WipeRequested prev \<and> pr_WipeRequested q = Some True
         then [NotifyWipe (wipeEvent L i h)] else []) @ [BroadcastPolicy (policyUpdated L i h out)]"
    unfolding patchAndroidPolicy_def Let_def by (auto simp: act_Inr areturn_def elim!: abind_Inr_cases)
  note l = loadAndroidPolicy_Inr [OF l]
  have "d1 = d\<lparr>stmt_no := Suc (stmt_no d)\<rparr>" using \<open>humanIDForAsset i d = (Inr h, d1)\<close> by (simp add: humanIDForAsset_def query_row_Inr)
  with l have d2: "d2 = d\<lparr>stmt_no := Suc (Suc (stmt_no d))\<rparr>" "prev = currentPolicy i (d\<lparr>stmt_no := Suc (stmt_no d)\<rparr>)" by simp_all
  have cp: "currentPolicy j (d\<lparr>stmt_no := n\<rparr>) = currentPolicy j d" for j n by (rule currentPolicy_cong) simp
  note mm = mergeAndroidPolicy_Inr [OF m, unfolded d2 cp]
  have "out = patchPolicy q (currentPolicy i d)" "\<forall>j. currentPolicy j d' = (if j = i then out else currentPolicy j d)" using mm by auto
  moreover have "\<exists>n. d' = d\<lparr>stmt_no := n, android_policies := android_policies d'\<rparr>" using mm by auto
  ultimately show ?thesis using \<open>pathUUID L r = Some i\<close> \<open>decodeBody r decodePatchAndroidPolicy = Some q\<close> x d2(2) cp
    by (intro exI [of _ i] exI [of _ q] exI [of _ h]) simp
qed


section \<open>Custodians\<close>

text \<open>The identities of the assets hold, there is at most one custodian per device, and both exist.\<close>

definition wf_devices :: "db \<Rightarrow> bool" where
  "wf_devices d \<longleftrightarrow> wf_fleet d \<and> distinct (map ds_asset_id (device_assignments d))
     \<and> (\<forall>s \<in> set (device_assignments d). ds_asset_id s \<in> a_id ` set (assets d) \<and> ds_user_id s \<in> us_id ` set (users d))"

lemmas devices_simps = wf_devices_def wf_fleet_def

lemma wf_devices_cong:
  "device_assignments d' = device_assignments d \<Longrightarrow> assets d' = assets d \<Longrightarrow> users d' = users d \<Longrightarrow> wf_devices d' = wf_devices d"
  by (simp add: devices_simps)

lemma table_inv_custody [keeps_intros]: "table_inv wf_devices"
proof -
  have "wf_devices d'" if s: "same_tables d d'" and w: "wf_devices d" for d d'
  proof -
    have e: "d' = d\<lparr>stmt_no := stmt_no d', uuid_next := uuid_next d', incident_seq := incident_seq d'\<rparr>" using s by (simp only: same_tables_def)
    have "device_assignments d' = device_assignments d" by (subst e) simp
    with w same_tables_fields [OF s] wf_devices_cong show ?thesis by blast
  qed
  then show ?thesis by (simp add: table_inv_def)
qed

lemma custody_audit [keeps_intros]: "keeps wf_devices (InsertAuditRecord rec)"
  by (rule keeps_audit [OF table_inv_custody]) (simp add: devices_simps)

lemma custody_upsert [keeps_intros]: "keeps wf_devices (upsertCustodianRow dev u)"
proof -
  have "map ds_asset_id (update_where (\<lambda>s. ds_asset_id s = dev) (\<lambda>_. \<lparr>ds_asset_id = dev, ds_user_id = u, ds_assigned_at = t\<rparr>) ss) = map ds_asset_id ss" for t ss
    by (induction ss) (simp_all add: update_where_def)
  then show ?thesis unfolding upsertCustodianRow_def
    by (intro keeps_intros) (auto simp: keeps_def devices_simps Let_def set_update_where)
qed

lemma custody_delete [keeps_intros]: "keeps wf_devices (deleteCustodianRow dev)"
  unfolding deleteCustodianRow_def by (intro keeps_intros) (auto simp: keeps_def devices_simps distinct_map_filter)

lemma custody_deleteUser: "keeps wf_devices (sql (deleteUserRow i))"
  by (intro keeps_intros) (auto simp: keeps_def devices_simps deleteUserRow_def distinct_map_filter)

lemma custody_insertUser: "keeps wf_devices (sql (insertUserRow u h role))"
  by (intro keeps_intros) (auto simp: keeps_def devices_simps insertUserRow_def uuid_used_def Let_def)

lemma custody_ensureAsset [keeps_intros]: "keeps wf_devices (ensureAsset dev msg)"
  unfolding ensureAsset_def by (intro keeps_intros)

lemma custody_assign: "wf_devices d \<Longrightarrow> wf_devices (snd (assignment_handleAssign L A r d))"
  unfolding assignment_handleAssign_def assignDevice_def assignTx_def by (rule answer_keeps) (intro keeps_intros, simp)

lemma custody_unassign: "wf_devices d \<Longrightarrow> wf_devices (snd (assignment_handleUnassign L A r d))"
  unfolding assignment_handleUnassign_def by (rule answer_keeps) (intro keeps_intros, simp)

lemma custody_IsLastAdmin: "keeps wf_devices (IsLastAdmin i)"
  unfolding IsLastAdmin_def CountAdmins_def by (intro keeps_intros)

lemma custody_users:
  assumes "wf_devices d"
  shows "wf_devices (snd (users_handleCreate L B A r d))" "wf_devices (snd (users_handleDelete L A r d))"
proof -
  show "wf_devices (snd (users_handleCreate L B A r d))"
    using handleCreate_state [of L B A r d] keepsD [OF custody_insertUser assms] assms by auto
  have l: "wf_devices (snd (IsLastAdmin i d))" for i by (rule keepsD [OF custody_IsLastAdmin assms])
  have "wf_devices (snd (sql (deleteUserRow i) d'))" if "IsLastAdmin i d = (Inr False, d')" for i d'
    using keepsD [OF custody_deleteUser] l [of i] that by simp
  with handleDelete_state [of L A r d] l assms show "wf_devices (snd (users_handleDelete L A r d))" by auto
qed

lemma reported_ids:
  assumes "reported cs p os i h d as"
  shows "a_id ` set (assets d) \<subseteq> a_id ` set as"
proof
  fix j assume "j \<in> a_id ` set (assets d)"
  then obtain a where a: "a \<in> set (assets d)" "a_id a = j" by blast
  show "j \<in> a_id ` set as"
  proof (cases "j = i")
    case True
    with assms show ?thesis by (auto simp: reported_def)
  next
    case False
    with a have "a \<in> set (filter (\<lambda>b. a_id b \<noteq> i) (assets d))" by simp
    also have "\<dots> = set (filter (\<lambda>b. a_id b \<noteq> i) as)" using assms by (simp add: reported_def)
    finally show ?thesis using a by auto
  qed
qed

lemma custody_report:
  assumes w: "wf_devices d"
  shows "wf_devices (snd (upsertAssetFromTelemetry L cs p os d))"
proof -
  obtain r d' where u: "upsertAssetFromTelemetry L cs p os d = (r, d')" by fastforce
  show ?thesis
  proof (cases r)
    case (Inl e)
    have "same_tables d d'" by (rule transaction_Inl [OF u [unfolded Inl upsertAssetFromTelemetry_def]])
    with w u table_invD [OF table_inv_custody] show ?thesis by auto
  next
    case (Inr y)
    obtain i h where y: "y = (i, h)" by fastforce
    have wf: "wf_fleet d" using w by (simp add: wf_devices_def)
    from upsert_Inr [OF wf u [unfolded Inr y]] obtain n k where wf': "wf_fleet d'" and rep: "reported cs p os i h d (assets d')"
      and d': "d' = d\<lparr>stmt_no := n, uuid_next := k, assets := assets d'\<rparr>" by blast
    have e: "device_assignments d' = device_assignments d" "users d' = users d" by (subst d', simp)+
    have "a_id ` set (assets d) \<subseteq> a_id ` set (assets d')" using rep reported_ids by blast
    with w wf' e u show ?thesis by (auto simp: wf_devices_def)
  qed
qed

inductive device_step :: "lib \<Rightarrow> bcrypt \<Rightarrow> DashboardAuth \<Rightarrow> db \<Rightarrow> db \<Rightarrow> bool" for L B A where
  ds_assign: "device_step L B A d (snd (assignment_handleAssign L A r d))"
| ds_unassign: "device_step L B A d (snd (assignment_handleUnassign L A r d))"
| ds_user_create: "device_step L B A d (snd (users_handleCreate L B A r d))"
| ds_user_delete: "device_step L B A d (snd (users_handleDelete L A r d))"
| ds_report: "device_step L B A d (snd (upsertAssetFromTelemetry L cs p os d))"

lemma device_step_wf: "device_step L B A d d' \<Longrightarrow> wf_devices d \<Longrightarrow> wf_devices d'"
  by (induction rule: device_step.induct) (auto intro: custody_assign custody_unassign custody_users custody_report)

interpretation devices: maintained "device_step L B A" wf_devices for L B A
  by unfold_locales (rule device_step_wf)

text \<open>What the handlers answer without faults.\<close>

lemma custodianWire_assigned:
  assumes wf: "wf_devices d" and u: "find (\<lambda>u. us_id u = userID) (users d) = Some u" and up: "upsertCustodianRow dev userID d = (Inr x, d')"
  shows "custodianWire dev d' = Some \<lparr>dw_UserID = userID, dw_Username = us_username u, dw_AssignedAt = now d\<rparr>"
proof -
  let ?row = "\<lparr>ds_asset_id = dev, ds_user_id = userID, ds_assigned_at = now d\<rparr>"
  have mem: "userID \<in> us_id ` set (users d)" using u by (auto simp: find_Some_iff)
  have "find (\<lambda>s. ds_asset_id s = dev \<and> ds_user_id s \<in> U) (update_where (\<lambda>s. ds_asset_id s = dev) (\<lambda>_. ?row) ss) = Some ?row"
    if "dev \<in> ds_asset_id ` set ss" "userID \<in> U" for ss U
    using that by (induction ss) (auto simp: update_where_def)
  moreover have "find (\<lambda>s. ds_asset_id s = dev \<and> ds_user_id s \<in> U) (ss @ [?row]) = Some ?row"
    if "dev \<notin> ds_asset_id ` set ss" "userID \<in> U" for ss U
    using that by (induction ss) auto
  ultimately show ?thesis using up u mem
    by (auto simp: upsertCustodianRow_def custodianWire_def sql_def Let_def split: if_splits)
qed

lemma assignTx_Inr:
  assumes "assignTx dev userID d = (Inr w, d')" and wf: "wf_devices d"
  shows "custodianWire dev d' = Some w \<and> dw_UserID w = userID \<and> assets d' = assets d \<and> fault_at d' = fault_at d"
proof -
  let ?d0 = "d\<lparr>stmt_no := Suc (stmt_no d)\<rparr>"
  from transaction_Inr [OF assms(1) [unfolded assignTx_def]] obtain d1 d2 d3 x where
    q: "userID \<in> us_id ` set (users d)" "d1 = d\<lparr>stmt_no := Suc (Suc (stmt_no d))\<rparr>" and u: "upsertCustodianRow dev userID d1 = (Inr x, d2)"
    and w: "custodianWire dev (d2\<lparr>stmt_no := Suc (stmt_no d2)\<rparr>) = Some w" "d3 = d2\<lparr>stmt_no := Suc (stmt_no d2)\<rparr>" and d': "d' = d3\<lparr>stmt_no := Suc (stmt_no d3)\<rparr>"
    by (auto simp: act_Inr elim!: abind_Inr_cases)
  have st: "custodianWire dev (e\<lparr>stmt_no := n\<rparr>) = custodianWire dev e" for e n by (simp add: custodianWire_def)
  have "wf_devices d1" using wf by (simp add: q(2) devices_simps)
  moreover obtain v where "find (\<lambda>u. us_id u = userID) (users d1) = Some v"
    using q by (cases "find (\<lambda>u. us_id u = userID) (users d1)") (auto simp: find_None_iff)
  ultimately have "dw_UserID w = userID" using custodianWire_assigned [OF _ _ u] w(1) by (auto simp: st)
  moreover have "assets d2 = assets d \<and> fault_at d2 = fault_at d" using u by (auto simp: upsertCustodianRow_def sql_def Let_def q(2) split: if_splits)
  ultimately show ?thesis using w by (simp add: d' st)
qed

lemma refuses_assignTx [refuses_intros]: "refuses (assignTx dev u)"
  unfolding assignTx_def by (intro refuses_intros) simp_all

lemma refuses_ensureAsset [refuses_intros]: "refuses (ensureAsset dev msg)"
  unfolding ensureAsset_def by (intro refuses_intros) simp_all

lemma refuses_assignDevice: "refuses (assignDevice L A r)"
  unfolding assignDevice_def by (intro refuses_intros) simp_all

lemma custodianWire_audit: "custodianWire dev (snd (InsertAuditRecord rec d)) = custodianWire dev d"
  "assets (snd (InsertAuditRecord rec d)) = assets d" "fault_at (snd (InsertAuditRecord rec d)) = fault_at d"
  by (simp_all add: InsertAuditRecord_def InsertAuditLogRow_def custodianWire_def sql_def Let_def)

text \<open>The custodian read back is the one assigned: after an accepted assignment the account is an existing one
  and any viewer's request for the same device is answered with exactly what the assignment answered.\<close>

theorem custodian_roundtrip:
  assumes wf: "wf_devices d" and up: "\<forall>n. \<not> fault_at d n"
    and set: "assignment_handleAssign L A r d = (RespJson 200 body, d')"
    and get: "rq_Method r' = ''GET''" "RequireMinRole L A (now d') r' ''viewer'' = Inr p" "rq_PathID r' = rq_PathID r"
  shows "fst (assignment_handleGet L A r' d') = RespJson 200 body
    \<and> (\<exists>w. body = JObj [(''assignment'', custodianJson L w)] \<and> dw_UserID w \<in> us_id ` set (users d'))"
proof -
  have "assignDevice L A r d = (Inr (RespJson 200 body), d')"
    by (rule answer_success [OF set [unfolded assignment_handleAssign_def] refuses_assignDevice]) simp
  then obtain q dev userID d1 w d2 where dev: "parseDeviceAssignmentUUID L r = Some dev" "dev \<in> a_id ` set (assets d)"
    and d1: "d1 = d\<lparr>stmt_no := Suc (stmt_no d)\<rparr>" and tx: "assignTx dev userID d1 = (Inr w, d2)"
    and d': "d' = snd (InsertAuditRecord (deviceAudit L r q dev ''device_assigned''
         [(''assigned_user_id'', JStr (u_str L (dw_UserID w))), (''assigned_username'', JStr (dw_Username w))]) d2)"
    and body: "body = JObj [(''assignment'', custodianJson L w)]"
    unfolding assignDevice_def ensureAsset_def by (auto simp: act_Inr areturn_def ignore_def elim!: abind_Inr_cases)
  have wf1: "wf_devices d1" using wf by (simp add: d1 devices_simps)
  note t = assignTx_Inr [OF tx wf1]
  have fr: "assets d' = assets d" "fault_at d' = fault_at d" using t by (simp_all add: d' custodianWire_audit d1)
  have cw: "custodianWire dev d' = Some w" using t by (simp add: d' custodianWire_audit)
  have "custodianWire dev (d'\<lparr>stmt_no := n\<rparr>) = Some w" for n using cw by (simp add: custodianWire_def)
  then have "fst (assignment_handleGet L A r' d') = RespJson 200 body"
    using get dev up fr by (simp add: assignment_handleGet_def answer_def act_unfold parseDeviceAssignmentUUID_def body)
      (simp add: ensureAsset_def abind_def statement_def query_def sql_def Let_def require_def areturn_def)
  moreover have "dw_UserID w \<in> us_id ` set (users d')" using cw by (auto simp: custodianWire_def bind_eq_Some_conv find_Some_iff)
  ultimately show ?thesis using body by blast
qed


section \<open>Instances\<close>

definition deviceRequest :: "string \<Rightarrow> json_object \<Rightarrow> request" where
  "deviceRequest m body = (exampleRequest m ''/v1/assets/7'' body)\<lparr>rq_PathID := ''7'', rq_Principal := Some exampleAdmin\<rparr>"

definition exampleDevices :: db where
  "exampleDevices = examplePhones\<lparr>android_policies := [], users := [exampleUser 1 ''root'' ''x'' ''admin'', exampleUser 2 ''eve'' ''y'' ''viewer'']\<rparr>"

definition exampleWipe :: "(response \<times> android_effect list) \<times> db" where
  "exampleWipe = android_handlePatch exampleLib exampleAuth (deviceRequest ''PATCH'' [(''wipe_requested'', JBool True)]) exampleDevices"

definition exampleCustody :: "response \<times> db" where
  "exampleCustody = assignment_handleAssign exampleLib exampleAuth (deviceRequest ''POST'' [(''user_id'', JStr ''2'')]) exampleDevices"

lemma reportable_frame: "reportable serial p (d\<lparr>stmt_no := n, android_policies := x\<rparr>) = reportable serial p d"
proof -
  have t: "reportTarget cs host (d\<lparr>stmt_no := n, android_policies := x\<rparr>) = reportTarget cs host d" for cs host
    by (simp add: reportTarget_def split: option.split)
  show ?thesis unfolding reportable_def admissible_def t
    by (simp add: wf_fleet_def payloadsDecode_def clientNumbers_def random_uuid_def split: option.split)
qed

lemma exampleDevices_wf: "wf_devices exampleDevices"
  using wf_examplePhones by (simp add: wf_devices_def exampleDevices_def wf_fleet_def) (simp add: examplePhones_def empty_db_def)

lemma exampleDevices_reportable: "reportable ''42'' (examplePayload ''phone'') exampleDevices"
proof -
  have t: "reportTarget cs host exampleDevices = reportTarget cs host examplePhones" for cs host
    by (simp add: reportTarget_def exampleDevices_def split: option.split)
  show ?thesis using example_reportable(1) unfolding reportable_def admissible_def t
    by (simp add: exampleDevices_def wf_fleet_def payloadsDecode_def clientNumbers_def random_uuid_def split: option.splits)
qed


theorem custodian_roundtrip_witness:
  "fst (assignment_handleGet exampleLib exampleAuth (deviceRequest ''GET'' []) (snd exampleCustody)) = fst exampleCustody
   \<and> fst exampleCustody = RespJson 200 (JObj [(''assignment'', custodianJson exampleLib \<lparr>dw_UserID = 2, dw_Username = ''eve'', dw_AssignedAt = 0\<rparr>)])"
proof -
  let ?body = "JObj [(''assignment'', custodianJson exampleLib \<lparr>dw_UserID = 2, dw_Username = ''eve'', dw_AssignedAt = 0\<rparr>)]"
  have f: "fst exampleCustody = RespJson 200 ?body" by code_simp
  then have s: "assignment_handleAssign exampleLib exampleAuth (deviceRequest ''POST'' [(''user_id'', JStr ''2'')]) exampleDevices = (RespJson 200 ?body, snd exampleCustody)"
    by (simp add: exampleCustody_def prod_eq_iff)
  have up: "\<forall>n. \<not> fault_at exampleDevices n" by (simp add: exampleDevices_def examplePhones_def empty_db_def)
  have g: "rq_Method (deviceRequest ''GET'' []) = ''GET''" "rq_PathID (deviceRequest ''GET'' []) = rq_PathID (deviceRequest ''POST'' [(''user_id'', JStr ''2'')])"
    by (simp_all add: deviceRequest_def exampleRequest_def)
  have "RequireMinRole exampleLib exampleAuth (now (snd exampleCustody)) (deviceRequest ''GET'' []) ''viewer'' = Inr exampleAdmin" by code_simp
  from custodian_roundtrip [OF exampleDevices_wf up s g(1) this g(2)] f show ?thesis by simp
qed


end
