(* ===== verification/Spec2Isabelle.thy ===== *)
theory Spec2Isabelle
  imports Policy_Correct Outcomes_Facts Json_Roundtrip Incidents_Facts Enroll_Facts
    IncidentsApi_Facts Profiles_Facts Scheduler_Facts AlertsApi_Facts Apps_Facts Devices_Facts
begin

text \<open>
  A verification of the server of ARX MDM, a device management system written in Go. The server keeps its
  state in PostgreSQL, talks to agents on the devices over WebSockets (the hub), and offers a REST interface and
  a WebSocket gateway to dashboards. Agents enrol with a one-time token and obtain a client certificate from an
  embedded authority; afterwards they are known by the serial of that certificate. Operators queue commands,
  assign configuration profiles, deploy packages and apps; telemetry drives compliance and alerts; alerts open
  and resolve incidents and are sent to notification channels. Paths below are relative to \<open>src/internal\<close>.

  \<^bold>\<open>Foundations.\<close> \<open>GoLib\<close> holds what the code uses of Go's library (strings as byte lists, maps as
  association lists, sorting, time in nanoseconds) and the shared collections of rules. \<open>Json\<close>, \<open>Json_Decode\<close> and
  \<open>Json_Roundtrip\<close> model \<open>encoding/json\<close>: values with rational numbers, decoding by recursive descent,
  encoding with sorted members, and that decoding an encoded value gives it back normalised. \<open>Schema\<close> is
  the database: one record with a list of rows per table and a statement counter; \<open>fault_at\<close> says which
  statements fail, so every theorem that does not assume a working database covers all failures; a
  transaction restores the tables when it fails. \<open>Routes\<close> is the shape of a handler (early returns, statements with
  their error answers, decoding of bodies), with rules that follow that shape: \<open>keeps\<close> for
  invariants, \<open>yields\<close> and \<open>refuses\<close> for results, and the locale \<open>maintained\<close> for components whose operations
  are step relations.

  \<^bold>\<open>Components,\<close> each in a theory with its operations in the order of the code, followed by a theory
  \<open>_Facts\<close> with its lemmas and properties.

  \<^item> \<open>Policy\<close> (\<open>mdm/policy/merge.go\<close>, \<open>types.go\<close>): the merge of assigned profiles. \<open>Policy_Correct\<close>
    shows that it computes a declarative specification, which value each kind of setting takes, that
    the conflict report is complete, and what reading the effective payload gives.
  \<^item> \<open>Commands\<close> (\<open>database/device_commands.go\<close>): the command queue, well formed under every sequence of operations.
  \<^item> \<open>Hub\<close> (\<open>ws/hub.go\<close>, \<open>fs_bridge.go\<close>, \<open>dash_hub.go\<close>): sessions and bounded queues. The locale
    \<open>c2_dispatcher\<close> is the contract that clients of the hub rely on, interpreted on \<open>DispatchJSON\<close>; the
    registry operations are interleaved in a step relation, whose states keep the invariant and
    in which the send on a closed channel can be reached.
  \<^item> \<open>Auth\<close>, \<open>Users\<close> (\<open>auth/*.go\<close>, \<open>api/users_admin.go\<close>, \<open>auth_handlers.go\<close>, \<open>dashboard_auth.go\<close>): roles, tokens,
    access control, the audit trail and accounts: an administrator is kept by sequential requests and
    lost by concurrent ones, account changes need an administrator's token, a created user can log in.
  \<^item> \<open>Compliance\<close> (\<open>mdm/compliance\<close>, \<open>api/compliance_routes.go\<close>, \<open>device_effective_policy.go\<close>, \<open>database/mdm_*.go\<close>): the verdict
    after a telemetry report, automatic quarantine, assignment states, the effective policy.
  \<^item> \<open>Outcomes\<close> (\<open>ws/*_outcome.go\<close>, \<open>pending_device_commands.go\<close>, \<open>dash_session.go\<close>, \<open>api/device_commands.go\<close>,
    \<open>device_security.go\<close>, \<open>agent/c2\<close>): from a queued command to the agent and back. Pending commands are
    delivered, results reach the row they belong to, an agent changes its own rows only.
  \<^item> \<open>Alerting\<close>, \<open>AlertEngine\<close> (\<open>database/alerting.go\<close>, \<open>device_metrics.go\<close>, \<open>alerting/engine.go\<close>) and \<open>Incidents\<close>
    (\<open>database/incidents.go\<close>, \<open>itsm/alert_bridge.go\<close>): a pass of the watchdog leaves alerts for exactly the
    silent devices, notifications keep an hour apart, and incidents follow the alerts. The locale
    \<open>incident_hooks\<close> is what the engine relies on, interpreted on the alert bridge.
  \<^item> \<open>Pki\<close>, \<open>Enroll\<close> (\<open>pki/ca.go\<close>, \<open>auth/enrollment_*.go\<close>, \<open>api/enroll.go\<close>): the authority and the enrollment. The
    locale \<open>token_store\<close> states what the token table promises to concurrent requests; a token enrols
    one agent, failed requests give it back, the authority survives a restart, the loops over PEM blocks end.
  \<^item> \<open>IncidentsApi\<close> (\<open>api/incidents.go\<close>): the service desk. Its tables stay well typed under every
    interleaving with the alert bridge and the command queue, patches are atomic, commands end in the journal.
  \<^item> \<open>Profiles\<close> (\<open>api/configuration_profiles.go\<close>, \<open>principal_groups.go\<close>): assignments reach exactly their targets, and
    the two computations of the effective policy agree.
  \<^item> \<open>Packages\<close>, \<open>Scheduler\<close> (\<open>api/packages.go\<close>, \<open>automations.go\<close>, \<open>scheduler/cron.go\<close>): deployments are recorded as they were
    dispatched, scheduled jobs stay in their scope.
  \<^item> \<open>Notifications\<close>, \<open>AlertsApi\<close> (\<open>notifications/*.go\<close>, \<open>api/alerts.go\<close>): messages are signed, stored passwords survive
    a change of the channel.
  \<^item> \<open>Apps\<close> (\<open>api/app_catalog.go\<close>, \<open>agent_app_download.go\<close>, \<open>app_managed_config.go\<close>): stored files stay below the storage
    directory, downloads are authorised, catalogue entries stay installable.
  \<^item> \<open>Telemetry\<close> (\<open>api/telemetry.go\<close>, \<open>telemetry_process.go\<close>, \<open>mdm_downlink.go\<close>, \<open>ws/agent_telemetry.go\<close>, \<open>dash_wire.go\<close>): the report
    of an agent, which brings the hub, the compliance engine and the alert engine together as \<open>cmd/server/serve.go\<close>
    wires them. A report goes to one asset and keeps the identities of all, and it ends the offline alerts of the device.
  \<^item> \<open>Devices\<close> (\<open>api/android_policies.go\<close>, \<open>device_assignments.go\<close>, \<open>agent_profiles.go\<close>): a request to wipe reaches the device with
    its next report and is then withdrawn; a device has at most one custodian, who exists.

  \<^bold>\<open>Parameters.\<close> Code outside the repository is an argument of the definitions: \<open>lib\<close> (text of UUIDs, times and
  numbers, hashes), \<open>bcrypt\<close>, the token library in \<open>JWTService\<close>, \<open>crypto\<close> (PEM, X.509, keys, randomness),
  \<open>platform\<close> (the agent's operating system), \<open>cron_lib\<close>, \<open>net_lib\<close> (mail, HTTP, HMAC) and the texts of driver
  errors. What a theorem assumes of them is a named hypothesis, such as \<open>uuid_text_sound\<close>, \<open>crypto_sound\<close> or
  \<open>decoder_consumes\<close>, and its witness instantiates it.

  \<^bold>\<open>Interleaving.\<close> Operations that the code runs in one statement or under a lock are atomic. Concurrency is a
  step relation where a property depends on it (hub, enrollment, demotion of administrators, service desk,
  deployments, catalogue); the argument \<open>meanwhile\<close> of a dispatch is whatever other goroutines do between
  queueing a message and marking its row. Goroutines that the alert engine starts are values run in any order;
  each runs to completion, although the code cancels the context that some of them hold.

  \<^bold>\<open>Bounds.\<close> The JSON decoder and the PEM loops carry fuel; the length of the input, plus one, is
  enough, as \<open>Json_Roundtrip\<close> and \<open>pem_loops_terminate\<close> show. All other recursion is structural or comes
  with a measure. The widths of Go's integers are kept where the code depends on them (\<open>int16\<close> for impact and
  urgency, \<open>int64\<close> in decoding, \<open>uint64\<close> in telemetry, \<open>bigint\<close> in the numbers of new assets).

  \<^bold>\<open>Simplifications.\<close> \<open>TrimSpace\<close>, \<open>ToLower\<close> and \<open>EqualFold\<close> act on ASCII; \<open>float64\<close> is rational, without
  rounding; a request arrives with its decoded body, so size limits and read errors are not modelled, nor are
  timeouts; log output is left out; \<open>ORDER BY\<close> is a stable sort.

  \<^bold>\<open>Not modelled.\<close> The remaining routes (knowledge base, analytics, audit list, metric series, backups, most of the file
  transfer routes): plain reads and writes in the style of the modelled ones. The backup engine (runs \<open>pg_dump\<close>), the agent's code for each operating system
  (registry, firewall, terminals, files), process start-up, TLS set-up, the migration runner, the web
  and mobile clients: they consist of calls to the operating system, or are not Go.
\<close>

end
